(* ===== verification/Prelude.thy ===== *)
theory Prelude
  imports Main "HOL-Library.Word"
begin

text \<open>
  Shared vocabulary of the development: fixed-width unsigned integers with the checked and
  saturating operations of the Rust core library, results with early return, and string
  helpers. Everything here is generic; the contracts are modelled in the other theories.

  The simp set of the development carries the inversion rules of this theory: an equation
  \<open>f x = Inr y\<close> about a handler unfolds to the conjunction of the guards it passed and
  the value it returned.
\<close>

section \<open>Collections of facts\<close>

named_theorems unat_ops \<open>how the saturating and checked operations read as natural numbers\<close>
named_theorems handler_defs \<open>definitions of the handlers, unfolded by the invariant proofs\<close>

section \<open>Machine integers\<close>

type_synonym u8 = "8 word"
type_synonym u16 = "16 word"
type_synonym u32 = "32 word"
type_synonym u64 = "64 word"
type_synonym u128 = "128 word"

text \<open>\<open>saturating_add\<close>, \<open>saturating_sub\<close>, \<open>saturating_mul\<close>: the exact result where
  it fits, the nearest bound otherwise. \<open>- 1\<close> is the largest word of its width.\<close>

definition sat_add :: "'a::len word \<Rightarrow> 'a word \<Rightarrow> 'a word" where
  "sat_add a b = (if unat a + unat b < 2 ^ LENGTH('a) then a + b else - 1)"

definition sat_sub :: "'a::len word \<Rightarrow> 'a word \<Rightarrow> 'a word" where
  "sat_sub a b = (if b \<le> a then a - b else 0)"

definition sat_mul :: "'a::len word \<Rightarrow> 'a word \<Rightarrow> 'a word" where
  "sat_mul a b = (if unat a * unat b < 2 ^ LENGTH('a) then a * b else - 1)"

text \<open>\<open>checked_add\<close>, \<open>checked_mul\<close>: \<open>None\<close> where the exact result does not fit.\<close>

definition checked_add :: "'a::len word \<Rightarrow> 'a word \<Rightarrow> 'a word option" where
  "checked_add a b = (if unat a + unat b < 2 ^ LENGTH('a) then Some (a + b) else None)"

definition checked_mul :: "'a::len word \<Rightarrow> 'a word \<Rightarrow> 'a word option" where
  "checked_mul a b = (if unat a * unat b < 2 ^ LENGTH('a) then Some (a * b) else None)"

lemma unat_max_word: "unat (- 1 :: 'a::len word) = 2 ^ LENGTH('a) - 1"
  by (simp add: unsigned_minus_1_eq_mask mask_eq_exp_minus_1)

lemma unat_bound: "unat a < 2 ^ LENGTH('a)" for a :: "'a::len word"
  by (rule unsigned_less)

lemma unat_of_nat_fits: "n < 2 ^ LENGTH('a) \<Longrightarrow> unat (of_nat n :: 'a::len word) = n"
  by (simp add: unsigned_of_nat take_bit_nat_eq_self)

lemma unat_add_exact:
  "unat a + unat b < 2 ^ LENGTH('a) \<Longrightarrow> unat (a + b) = unat a + unat (b :: 'a::len word)"
  by (simp add: unat_word_ariths)

lemma unat_mul_exact:
  "unat a * unat b < 2 ^ LENGTH('a) \<Longrightarrow> unat (a * b) = unat a * unat (b :: 'a::len word)"
  by (simp add: unat_word_ariths)

lemma unat_sat_add [unat_ops]:
  "unat (sat_add a b) = min (unat a + unat b) (2 ^ LENGTH('a) - 1)" for a b :: "'a::len word"
  by (auto simp: sat_add_def unat_add_exact unat_max_word min_def)

lemma unat_sat_sub [unat_ops]: "unat (sat_sub a b) = unat a - unat b"
  for a b :: "'a::len word"
  by (auto simp: sat_sub_def unat_sub word_le_nat_alt)

lemma unat_sat_mul [unat_ops]:
  "unat (sat_mul a b) = min (unat a * unat b) (2 ^ LENGTH('a) - 1)" for a b :: "'a::len word"
proof (cases "unat a * unat b < 2 ^ LENGTH('a)")
  case True
  then show ?thesis by (simp add: sat_mul_def unat_mul_exact)
next
  case False
  then show ?thesis by (simp add: sat_mul_def unat_max_word)
qed

lemma checked_add_Some_iff [unat_ops]:
  "checked_add a b = Some c \<longleftrightarrow> unat c = unat a + unat b" for a b c :: "'a::len word"
proof
  assume "checked_add a b = Some c"
  then show "unat c = unat a + unat b"
    by (auto simp: checked_add_def unat_add_exact split: if_splits)
next
  assume eq: "unat c = unat a + unat b"
  have "unat c < 2 ^ LENGTH('a)" by (rule unsigned_less)
  with eq have fits: "unat a + unat b < 2 ^ LENGTH('a)" by simp
  then have "unat (a + b) = unat c" using eq by (simp add: unat_add_exact)
  then show "checked_add a b = Some c"
    using fits by (simp add: checked_add_def word_unat_eq_iff)
qed

lemma checked_mul_Some_iff [unat_ops]:
  "checked_mul a b = Some c \<longleftrightarrow> unat c = unat a * unat b" for a b c :: "'a::len word"
proof
  assume "checked_mul a b = Some c"
  then show "unat c = unat a * unat b"
    by (auto simp: checked_mul_def unat_mul_exact split: if_splits)
next
  assume eq: "unat c = unat a * unat b"
  have "unat c < 2 ^ LENGTH('a)" by (rule unsigned_less)
  with eq have fits: "unat a * unat b < 2 ^ LENGTH('a)" by simp
  then have "unat (a * b) = unat c" using eq by (simp add: unat_mul_exact)
  then show "checked_mul a b = Some c"
    using fits by (simp add: checked_mul_def word_unat_eq_iff)
qed

lemma checked_add_None_iff:
  "checked_add a b = None \<longleftrightarrow> 2 ^ LENGTH('a) \<le> unat a + unat b" for a b :: "'a::len word"
  by (auto simp: checked_add_def)

lemma checked_mul_None_iff:
  "checked_mul a b = None \<longleftrightarrow> 2 ^ LENGTH('a) \<le> unat a * unat b" for a b :: "'a::len word"
  by (auto simp: checked_mul_def)

text \<open>Order facts that hold with no side condition, because the operations saturate.\<close>

lemma unat_le_max: "unat a \<le> 2 ^ LENGTH('a) - 1" for a :: "'a::len word"
proof -
  have "unat a < 2 ^ LENGTH('a)" by (rule unsigned_less)
  then show ?thesis by linarith
qed

lemma sat_add_ge1 [simp]: "a \<le> sat_add a b"
  using unat_le_max [of a] by (simp add: word_le_nat_alt unat_sat_add)

lemma sat_add_commute: "sat_add a b = sat_add b a"
  by (simp add: sat_add_def add.commute)

lemma sat_add_ge2 [simp]: "b \<le> sat_add a b"
  by (subst sat_add_commute) simp

lemma sat_add_mono: "a \<le> a' \<Longrightarrow> b \<le> b' \<Longrightarrow> sat_add a b \<le> sat_add a' b'"
  by (auto simp: word_le_nat_alt unat_sat_add min_def)

lemma sat_add_zero [simp]: "sat_add a 0 = a" "sat_add 0 a = a"
  by (simp_all add: sat_add_def)

lemma sat_sub_le [simp]: "sat_sub a b \<le> a"
  by (simp add: word_le_nat_alt unat_sat_sub)

lemma sat_sub_zero [simp]: "sat_sub a 0 = a"
  by (simp add: sat_sub_def)

lemma sat_add_exact:
  "unat a + unat b < 2 ^ LENGTH('a) \<Longrightarrow> unat (sat_add a b) = unat a + unat b"
  for a b :: "'a::len word"
  by (simp add: sat_add_def unat_add_exact)

lemma word_gt_zero_iff: "0 < a \<longleftrightarrow> a \<noteq> 0" for a :: "'a::len word"
  by (fact word_neq_0_conv [symmetric])

section \<open>Results with early return\<close>

text \<open>
  A Rust method that may panic or return \<open>Err\<close> is a function into \<open>'e + 'a\<close>. On NEAR a
  failed call leaves no trace in the state, so \<open>Inl e\<close> carries the error alone.
  \<open>require\<close> is the macro of that name (and an \<open>if\<close> with an early \<open>return Err\<close>),
  \<open>ok_or\<close> is \<open>Option::ok_or\<close> followed by \<open>?\<close>, \<open>rbind\<close> is \<open>?\<close> on a result.
\<close>

definition require :: "bool \<Rightarrow> 'e \<Rightarrow> 'e + 'a \<Rightarrow> 'e + 'a" where
  "require b e k = (if b then k else Inl e)"

definition ok_or :: "'b option \<Rightarrow> 'e \<Rightarrow> ('b \<Rightarrow> 'e + 'a) \<Rightarrow> 'e + 'a" where
  "ok_or x e k = (case x of None \<Rightarrow> Inl e | Some y \<Rightarrow> k y)"

definition rbind :: "'e + 'b \<Rightarrow> ('b \<Rightarrow> 'e + 'a) \<Rightarrow> 'e + 'a" where
  "rbind m k = (case m of Inl e \<Rightarrow> Inl e | Inr y \<Rightarrow> k y)"

definition is_ok :: "'e + 'a \<Rightarrow> bool" where
  "is_ok r = (case r of Inl _ \<Rightarrow> False | Inr _ \<Rightarrow> True)"

lemma require_simps [simp]:
  "require True e k = k"
  "require False e k = Inl e"
  by (simp_all add: require_def)

lemma ok_or_simps [simp]:
  "ok_or None e k = Inl e"
  "ok_or (Some y) e k = k y"
  by (simp_all add: ok_or_def)

lemma rbind_simps [simp]:
  "rbind (Inl e) k = Inl e"
  "rbind (Inr y) k = k y"
  by (simp_all add: rbind_def)

lemma is_ok_simps [simp]: "is_ok (Inl e) = False" "is_ok (Inr y) = True"
  by (simp_all add: is_ok_def)

lemma is_ok_iff: "is_ok r \<longleftrightarrow> (\<exists>y. r = Inr y)"
  by (cases r) auto

lemma require_Inr_iff [simp]: "require b e k = Inr y \<longleftrightarrow> b \<and> k = Inr y"
  by (simp add: require_def)

lemma ok_or_Inr_iff [simp]: "ok_or x e k = Inr y \<longleftrightarrow> (\<exists>z. x = Some z \<and> k z = Inr y)"
  by (cases x) auto

lemma rbind_Inr_iff [simp]: "rbind m k = Inr y \<longleftrightarrow> (\<exists>z. m = Inr z \<and> k z = Inr y)"
  by (cases m) auto

lemma require_Inl_iff: "require b e k = Inl x \<longleftrightarrow> (if b then k = Inl x else e = x)"
  by (auto simp: require_def)

lemma rbind_cong [fundef_cong]:
  "m = m' \<Longrightarrow> (\<And>y. m' = Inr y \<Longrightarrow> k y = k' y) \<Longrightarrow> rbind m k = rbind m' k'"
  by (cases m') auto

lemma require_cong: "b = b' \<Longrightarrow> (b' \<Longrightarrow> k = k') \<Longrightarrow> require b e k = require b' e k'"
  by (simp add: require_def)

text \<open>
  What holds of every result a call can return: the rules walk over the guards of a method
  without evaluating them, so that one proof per group of methods shows what they keep.
\<close>

definition res_all :: "('a \<Rightarrow> bool) \<Rightarrow> 'e + 'a \<Rightarrow> bool" where
  "res_all P m = (case m of Inl _ \<Rightarrow> True | Inr y \<Rightarrow> P y)"

named_theorems res_walk

lemma res_all_Inl [res_walk]: "res_all P (Inl e)"
  by (simp add: res_all_def)

lemma res_all_Inr [res_walk]: "P y \<Longrightarrow> res_all P (Inr y)"
  by (simp add: res_all_def)

lemma res_all_require [res_walk]: "(b \<Longrightarrow> res_all P k) \<Longrightarrow> res_all P (require b e k)"
  by (simp add: res_all_def require_def)

lemma res_all_ok_or [res_walk]:
  "(\<And>z. x = Some z \<Longrightarrow> res_all P (k z)) \<Longrightarrow> res_all P (ok_or x e k)"
  by (cases x) (simp_all add: res_all_def)

lemma res_all_rbind [res_walk]:
  "(\<And>z. m = Inr z \<Longrightarrow> res_all P (k z)) \<Longrightarrow> res_all P (rbind m k)"
  by (cases m) (simp_all add: res_all_def)

lemma res_all_if [res_walk]:
  "(b \<Longrightarrow> res_all P m) \<Longrightarrow> (\<not> b \<Longrightarrow> res_all P n) \<Longrightarrow> res_all P (if b then m else n)"
  by simp

lemma res_all_option [res_walk]:
  "(x = None \<Longrightarrow> res_all P m) \<Longrightarrow> (\<And>z. x = Some z \<Longrightarrow> res_all P (k z))
   \<Longrightarrow> res_all P (case x of None \<Rightarrow> m | Some z \<Rightarrow> k z)"
  by (cases x) simp_all

lemma res_all_sum [res_walk]:
  "(\<And>e. x = Inl e \<Longrightarrow> res_all P (f e)) \<Longrightarrow> (\<And>z. x = Inr z \<Longrightarrow> res_all P (g z))
   \<Longrightarrow> res_all P (case x of Inl e \<Rightarrow> f e | Inr z \<Rightarrow> g z)"
  by (cases x) simp_all

lemma res_all_bool [res_walk]:
  "(b \<Longrightarrow> res_all P m) \<Longrightarrow> (\<not> b \<Longrightarrow> res_all P n)
   \<Longrightarrow> res_all P (case b of True \<Rightarrow> m | False \<Rightarrow> n)"
  by (cases b) simp_all

lemma res_allD: "res_all P m \<Longrightarrow> m = Inr y \<Longrightarrow> P y"
  by (simp add: res_all_def)

text \<open>A \<open>for\<close> loop whose body may return early: the state is threaded left to right.\<close>

fun rfold :: "('x \<Rightarrow> 's \<Rightarrow> 'e + 's) \<Rightarrow> 'x list \<Rightarrow> 's \<Rightarrow> 'e + 's" where
  "rfold f [] s = Inr s"
| "rfold f (x # xs) s = rbind (f x s) (rfold f xs)"

lemma rfold_append: "rfold f (xs @ ys) s = rbind (rfold f xs s) (rfold f ys)"
  by (induction xs arbitrary: s) (auto simp: rbind_def split: sum.splits)

lemma rfold_invariant:
  assumes "rfold f xs s = Inr t" and "P s"
    and "\<And>x s t. x \<in> set xs \<Longrightarrow> f x s = Inr t \<Longrightarrow> P s \<Longrightarrow> P t"
  shows "P t"
  using assms
proof (induction xs arbitrary: s)
  case Nil
  then show ?case by simp
next
  case (Cons x xs)
  then obtain u where u: "f x s = Inr u" "rfold f xs u = Inr t" by auto
  have "P u" using Cons.prems(3) [of x s u] u(1) Cons.prems(2) by simp
  with u(2) show ?case using Cons.IH Cons.prems(3) by (metis list.set_intros(2))
qed

section \<open>Strings\<close>

text \<open>\<open>str::strip_suffix\<close>: the prefix left when the suffix is taken off the end.\<close>

definition strip_suffix :: "string \<Rightarrow> string \<Rightarrow> string option" where
  "strip_suffix s suf =
     (if length suf \<le> length s \<and> drop (length s - length suf) s = suf
      then Some (take (length s - length suf) s) else None)"

lemma strip_suffix_Some_iff: "strip_suffix s suf = Some p \<longleftrightarrow> s = p @ suf"
proof
  assume "strip_suffix s suf = Some p"
  then have "drop (length s - length suf) s = suf" "p = take (length s - length suf) s"
    by (auto simp: strip_suffix_def split: if_splits)
  then show "s = p @ suf" by (metis append_take_drop_id)
next
  assume "s = p @ suf"
  then show "strip_suffix s suf = Some p" by (simp add: strip_suffix_def)
qed

lemma strip_suffix_append [simp]: "strip_suffix (p @ suf) suf = Some p"
  by (simp add: strip_suffix_Some_iff)

section \<open>Sums over finite maps\<close>

text \<open>The total of a finite map of amounts, and how one update moves it.\<close>

definition map_total :: "('k \<rightharpoonup> 'a::len word) \<Rightarrow> nat" where
  "map_total m = (\<Sum>k\<in>dom m. unat (the (m k)))"

lemma map_total_empty [simp]: "map_total Map.empty = 0"
  by (simp add: map_total_def)

lemma map_total_upd:
  assumes "finite (dom m)"
  shows "map_total (m(k \<mapsto> v)) + (case m k of None \<Rightarrow> 0 | Some u \<Rightarrow> unat u)
       = map_total m + unat v"
proof -
  let ?D = "dom m - {k}"
  have rest: "(\<Sum>x\<in>?D. unat (the ((m(k \<mapsto> v)) x))) = (\<Sum>x\<in>?D. unat (the (m x)))"
    by (rule sum.cong) auto
  have new: "map_total (m(k \<mapsto> v)) = unat v + (\<Sum>x\<in>?D. unat (the (m x)))"
    using assms rest by (simp add: map_total_def sum.insert_remove)
  show ?thesis
  proof (cases "m k")
    case None
    then have "?D = dom m" by auto
    with new None show ?thesis by (simp add: map_total_def)
  next
    case (Some u)
    then have "k \<in> dom m" by auto
    then have "map_total m = unat u + (\<Sum>x\<in>?D. unat (the (m x)))"
      using assms Some by (simp add: map_total_def sum.remove)
    with new Some show ?thesis by simp
  qed
qed

lemma map_total_del:
  assumes "finite (dom m)"
  shows "map_total (m(k := None)) + (case m k of None \<Rightarrow> 0 | Some u \<Rightarrow> unat u) = map_total m"
proof (cases "m k")
  case None
  then have "m(k := None) = m" by auto
  with None show ?thesis by simp
next
  case (Some u)
  then have k: "k \<in> dom m" by auto
  have "(\<Sum>x\<in>dom m - {k}. unat (the ((m(k := None)) x))) = (\<Sum>x\<in>dom m - {k}. unat (the (m x)))"
    by (rule sum.cong) auto
  with k Some assms show ?thesis by (simp add: map_total_def sum.remove)
qed

lemma map_total_ge: "finite (dom m) \<Longrightarrow> m k = Some v \<Longrightarrow> unat v \<le> map_total m"
  using map_total_del [of m k] by simp

end
