(* ===== verification/Near_Env.thy ===== *)
theory Near_Env
  imports Prelude
begin

text \<open>
  What a contract sees of the NEAR runtime: the call context read through \<open>near_sdk::env\<close>,
  the results delivered to a callback, and the checks the \<open>near\<close> attributes put in front
  of a method. The runtime and \<open>near_sdk\<close> are not part of the repository; a context is an
  argument of every handler, so no property depends on how the runtime fills it.
\<close>

section \<open>Accounts, amounts and the call context\<close>

type_synonym account_id = string
type_synonym bytes = "u8 list"
type_synonym crypto_hash = "u8 list"

text \<open>
  \<open>storage_usage\<close> is constant during one call: the contracts' state is written back when
  the call returns. \<open>account_balance\<close> already contains \<open>attached_deposit\<close>.
\<close>

datatype promise_error = Promise_Failed | Promise_Other

record ctx =
  predecessor_account_id :: account_id
  current_account_id :: account_id
  block_timestamp :: u64
  block_height :: u64
  attached_deposit :: u128
  account_balance :: u128
  storage_byte_cost :: u128
  storage_usage :: u64
  prepaid_gas :: u64
  used_gas :: u64
  promise_results :: "(promise_error + bytes) list"

text \<open>A callback that asks \<open>is_promise_success\<close> follows exactly one promise.\<close>

definition is_promise_success :: "ctx \<Rightarrow> bool" where
  "is_promise_success c = (case promise_results c of [Inr _] \<Rightarrow> True | _ \<Rightarrow> False)"

definition one_yocto :: u128 where
  "one_yocto = 1"

definition tgas :: "u64 \<Rightarrow> u64" where
  "tgas n = 1000000000000 * n"

text \<open>\<open>#[private]\<close>: only the contract itself may call; a method that is not
  \<open>#[payable]\<close> refuses a deposit.\<close>

definition is_private_call :: "ctx \<Rightarrow> bool" where
  "is_private_call c \<longleftrightarrow> predecessor_account_id c = current_account_id c"

definition no_deposit :: "ctx \<Rightarrow> bool" where
  "no_deposit c \<longleftrightarrow> attached_deposit c = 0"

section \<open>Transition systems over time\<close>

text \<open>
  Every contract of the repository is a machine whose calls carry the block time, and block
  time never runs backwards. The locale states what a contract has to prove about one call,
  and gives what then holds in every state it can reach.
\<close>

locale contract_machine =
  fixes initial :: "u64 \<Rightarrow> 's \<Rightarrow> bool"
    and step :: "u64 \<Rightarrow> 's \<Rightarrow> 's \<Rightarrow> bool"
    and inv :: "u64 \<Rightarrow> 's \<Rightarrow> bool"
  assumes inv_initial: "initial t s \<Longrightarrow> inv t s"
    and inv_step: "inv t s \<Longrightarrow> t \<le> t' \<Longrightarrow> step t' s s' \<Longrightarrow> inv t' s'"
begin

inductive reach :: "u64 \<Rightarrow> 's \<Rightarrow> bool" where
  reach_init: "initial t s \<Longrightarrow> reach t s"
| reach_step: "reach t s \<Longrightarrow> t \<le> t' \<Longrightarrow> step t' s s' \<Longrightarrow> reach t' s'"

inductive run :: "u64 \<Rightarrow> 's \<Rightarrow> u64 \<Rightarrow> 's \<Rightarrow> bool" where
  run_refl: "run t s t s"
| run_step: "run t s t' s' \<Longrightarrow> t' \<le> t'' \<Longrightarrow> step t'' s' s'' \<Longrightarrow> run t s t'' s''"

lemma reach_inv: "reach t s \<Longrightarrow> inv t s"
  by (induction rule: reach.induct) (auto intro: inv_initial inv_step)

lemma run_time: "run t s t' s' \<Longrightarrow> t \<le> t'"
  by (induction rule: run.induct) auto

lemma run_inv: "run t s t' s' \<Longrightarrow> inv t s \<Longrightarrow> inv t' s'"
  by (induction rule: run.induct) (auto intro: inv_step)

lemma reach_run: "run t s t' s' \<Longrightarrow> reach t s \<Longrightarrow> reach t' s'"
  by (induction rule: run.induct) (auto intro: reach_step)

text \<open>A fact about the state and the time that every call keeps holds after a run.\<close>

lemma run_stable:
  assumes "run t s t' s'" and "inv t s" and "P t s"
    and "\<And>t1 s1 t2 s2. t \<le> t1 \<Longrightarrow> inv t1 s1 \<Longrightarrow> t1 \<le> t2 \<Longrightarrow> step t2 s1 s2 \<Longrightarrow> P t1 s1 \<Longrightarrow> P t2 s2"
  shows "P t' s'"
  using assms
proof (induction rule: run.induct)
  case (run_refl t s)
  then show ?case by simp
next
  case (run_step t s t' s' t'' s'')
  then show ?case using run_inv run_time by blast
qed

end

end
