(* ===== verification/Hos_Common.thy ===== *)
theory Hos_Common
  imports Near_Env
begin

text \<open>
  The crate \<open>hos-common\<close> (\<open>crates/hos-common/src/lib.rs\<close>): the constants, the operating
  state of a leased account, the outcome of a mint and the causes of a rotation with the four
  questions each contract asks of a cause.
\<close>

section \<open>Constants\<close>

definition FT_STORAGE_DEPOSIT_YOCTO :: u128 where
  "FT_STORAGE_DEPOSIT_YOCTO = 1250000000000000000000"

definition MAX_AUTHORITY_HOLD_NS :: u64 where
  "MAX_AUTHORITY_HOLD_NS = 7 * 24 * 60 * 60 * 1000000000"

definition MIN_LEASE_RETRACT_NOTICE_NS :: u64 where
  "MIN_LEASE_RETRACT_NOTICE_NS = 12 * 60 * 60 * 1000000000"

section \<open>Operating state, mint outcome\<close>

datatype operating_state = Active | Listed | Settling | Suspended | Parked

datatype mint_outcome = CreationFailed | MintActive

section \<open>Rotation causes\<close>

datatype rotation_cause = Sale | Transfer | Deposit | ReRent | Reclaim | Recovery | Revert

fun parks :: "rotation_cause \<Rightarrow> bool" where
  "parks Reclaim = True"
| "parks _ = False"

fun repoints_payout :: "rotation_cause \<Rightarrow> bool" where
  "repoints_payout Deposit = False"
| "repoints_payout ReRent = False"
| "repoints_payout _ = True"

fun sweeps :: "rotation_cause \<Rightarrow> bool" where
  "sweeps Recovery = False"
| "sweeps Revert = False"
| "sweeps _ = True"

fun needs_holder :: "rotation_cause \<Rightarrow> bool" where
  "needs_holder Sale = True"
| "needs_holder Transfer = True"
| "needs_holder Deposit = True"
| "needs_holder _ = False"

fun needs_expiry :: "rotation_cause \<Rightarrow> bool" where
  "needs_expiry ReRent = True"
| "needs_expiry Reclaim = True"
| "needs_expiry _ = False"

lemma cause_partition:
  "needs_holder cause \<or> needs_expiry cause \<or> cause = Recovery \<or> cause = Revert"
  by (cases cause) auto

lemma parks_needs_expiry: "parks cause \<Longrightarrow> needs_expiry cause"
  by (cases cause) auto

end
