(* ===== verification/Wallet_Types.thy ===== *)
theory Wallet_Types
  imports Hos_Common
begin

text \<open>
  Data of the tenant wallet (\<open>contracts/hos-wallet/src\<close>: \<open>state.rs\<close>, \<open>error.rs\<close>,
  \<open>events.rs\<close> and the types at the head of \<open>lib.rs\<close>).

  The wallet builds on the crate \<open>defuse_wallet\<close>, which is not part of the repository. Its
  requests are data the wallet reads; what the wallet calls in it (nonce upkeep, the deposit
  of a promise) and the JSON decoding of call arguments are the fields of \<^emph>\<open>wallet_lib\<close>, an
  argument of the handlers that use them. The nonce store is opaque: the type variable
  \<open>'n\<close>.
\<close>

section \<open>Freeze state, errors, events\<close>

datatype freeze_state = Unfrozen | SelfFrozen | AuthorityFrozen

datatype (plugins only:) wallet_error =
    ONLY_PARENT | ONLY_AUTHORITY | ONLY_RENTER | ONLY_OWNER | NO_STATE | UNAUTHORIZED
  | AUTHORITY_PROTECTED | AUTHORITY_IS_SELF | SELF_TARGET | NOT_ACTIVE | LEASE_EXPIRED
  | FROZEN | NOT_FROZEN | SELF_FROZEN | AUTHORITY_FROZEN | INVALID_TIMEOUT | LEASE_IN_PAST
  | LEASE_NOT_MONOTONIC | RETRACTION_NOT_SHORTER | RETRACTION_NOTICE_TOO_SHORT
  | BAD_LEASE_STATE | RERENT_NEEDS_OWN_CALL | RESERVE_BREACH | DEPOSIT_OVERFLOW
  | PAYOUT_IS_SELF | OWNER_MOVED | OWNER_IS_SELF | COLLECTION_IS_SELF | LEASE_ACTIVE
  | EXTENSIONS_LOCKED | TRANSFER_NOT_REQUESTED | NOTHING_TO_REVERT | REVERT_WINDOW_CLOSED
  | REVERT_TARGET_PINNED | NOTHING_TO_SWEEP | NO_SPEND_GRANT | GRANT_EXPIRED
  | RECEIVER_NOT_GRANTED | GRANT_ACTION_NOT_ALLOWED | GRANT_METHOD_NOT_ALLOWED
  | GRANT_CALL_MUST_STAND_ALONE | GRANT_CALL_DEPOSIT | GRANT_ARGS_UNREADABLE
  | GRANT_APPROVAL_NOT_ALLOWED | TOKEN_NOT_GRANTED | TOKEN_CAP_EXCEEDED | TOKEN_LISTED_TWICE
  | COLLECTION_NOT_GRANTED | COLLECTION_LISTED_TWICE | ITEM_NOT_GRANTED | EMPTY_ITEM_GRANT
  | OWN_COLLECTION_NOT_GRANTABLE | REFUND_TARGET_NOT_ALLOWED | GRANT_CAP_EXCEEDED
  | EMPTY_GRANT | GRANT_IN_PAST | AUTHORIZATION_NOT_JSON | AUTHORITY_NOT_OWNER
  | NOT_AN_OWNER | GRANTEE_NOT_OWNER | FREEZE_COOLDOWN | STATE_VERSION_UNKNOWN | ONE_YOCTO
  | NO_APPROVED_IMPL | IMPL_PIN_TOO_YOUNG | COLLECTION_MOVED | PIN_GAS_TOO_LOW
  | SignatureDisabled | InsufficientDeposit | ExtensionEnabled account_id
  | ExtensionNotEnabled account_id | SelfCallsNotAllowed | Lockout
  | AlreadyInitialized | PrivateMethod | NotPayable

datatype wallet_event =
    WalletInitialized account_id
  | LeaseSet u64 operating_state
  | LeaseRetracted u64 u64
  | PayoutAccountSet account_id
  | ImplPinRequested crypto_hash
  | ImplPinned crypto_hash
  | ImplPinFailed crypto_hash
  | ImplApproved crypto_hash
  | ImplCancelled
  | SpendGranted account_id
  | SpendRevoked account_id
  | SpendCharged account_id "account_id option" account_id u128 u128
  | ItemSpent account_id account_id string account_id
  | SweptNear account_id u128
  | SweptFt account_id account_id u128
  | SweepFailed account_id "account_id option" u128
  | FrozenEvent bool
  | UnfrozenEvent
  | ExtensionAdded account_id
  | ExtensionRemoved account_id

section \<open>Requests of the wallet library\<close>

text \<open>The contract distinguishes function calls and transfers; every other action of the
  library is refused or passed on unread.\<close>

record function_call =
  call_function_name :: string
  call_args :: bytes
  call_deposit :: u128

datatype near_action = FunctionCall function_call | TransferAction u128 | OtherAction bytes

record near_promise =
  np_receiver_id :: account_id
  np_refund_to :: "account_id option"
  np_actions :: "near_action list"

datatype wallet_op =
    SetSignatureMode bool
  | AddExtension account_id
  | RemoveExtension account_id

record request =
  rq_internal :: "wallet_op list"
  rq_external :: "near_promise list"

datatype actor = ActorExtension account_id | ActorSignedRequest

record ft_transfer_args =
  fta_receiver_id :: account_id
  fta_amount :: u128

record nft_transfer_args =
  nta_receiver_id :: account_id
  nta_token_id :: string
  nta_approval_id :: "u64 option"

record authorization_blob =
  ab_payload :: string
  ab_owner :: account_id
  ab_authorization :: string

record 'n wallet_lib =
  wl_new_nonces :: "u32 \<Rightarrow> 'n"
  wl_check_cleanup :: "u64 \<Rightarrow> 'n \<Rightarrow> 'n"
  wl_total_deposit :: "near_promise \<Rightarrow> u128"
  wl_ft_args :: "bytes \<Rightarrow> ft_transfer_args option"
  wl_nft_args :: "bytes \<Rightarrow> nft_transfer_args option"
  wl_auth_blob :: "string \<Rightarrow> authorization_blob option"

section \<open>Spend grants\<close>

record token_budget =
  tb_budget :: u128
  tb_spent :: u128

record spend_grant =
  sg_receivers :: "account_id set"
  sg_budget_yocto :: u128
  sg_spent_yocto :: u128
  sg_tokens :: "account_id \<rightharpoonup> token_budget"
  sg_items :: "account_id \<rightharpoonup> string set"
  sg_expires_at :: u64

record token_allowance =
  ta_token :: account_id
  ta_budget :: u128

record item_allowance =
  ia_collection :: account_id
  ia_token_ids :: "string list"

section \<open>The wallet\<close>

text \<open>\<open>tw_extensions\<close>, \<open>tw_signature_enabled\<close> and \<open>tw_nonces\<close> are the parts of the
  library state \<open>wallet: State<NoPublicKey>\<close> the contract reads or writes.\<close>

record 'n tenant_wallet =
  tw_state_version :: u16
  tw_extensions :: "account_id set"
  tw_signature_enabled :: bool
  tw_nonces :: 'n
  tw_authority :: account_id
  tw_owner :: account_id
  tw_collection_id :: account_id
  tw_payout_account :: account_id
  tw_lease_until_ns :: u64
  tw_state :: operating_state
  tw_frozen :: freeze_state
  tw_authority_freeze_until_ns :: u64
  tw_spend_grants :: "account_id \<rightharpoonup> spend_grant"
  tw_revert_to :: "account_id option"
  tw_revert_until_ns :: u64
  tw_rotation_seq :: u64
  tw_pinned_impl :: "crypto_hash option"
  tw_approved_impl :: "crypto_hash option"
  tw_approved_impl_at :: u64

record wallet_init =
  wi_owner_account :: account_id
  wi_authority :: account_id
  wi_collection_id :: account_id
  wi_payout_account :: account_id
  wi_lease_until_ns :: u64
  wi_timeout_secs :: u32

text \<open>
  What one call puts into the world besides the new state: log events, and the promises it
  schedules. A promise constructor names the receiver and the callback chained to it.
  \<open>SendSweep p a\<close> transfers \<open>a\<close> to \<open>p\<close> and resolves with \<open>hos_resolve_sweep p None a\<close>;
  \<open>SendFtSweep\<close> does the same through \<open>ft_transfer\<close>; \<open>SendPin h coll g at\<close> binds the
  global contract \<open>h\<close>, calls \<open>hos_migrate coll\<close> with gas \<open>g\<close> and resolves with
  \<open>hos_on_pinned h at\<close>; \<open>SendExternal\<close> is a promise of the request, detached.
\<close>

datatype wallet_out =
    Emit wallet_event
  | SendSweep account_id u128
  | SendFtSweep account_id account_id u128
  | SendExternal near_promise
  | SendPin crypto_hash account_id u64 u64

type_synonym 'n wallet_res = "wallet_error + ('n tenant_wallet \<times> wallet_out list)"

section \<open>Views\<close>

datatype item_status_kind = ItemParked | ItemSuspended | ItemExpired | ItemFrozen | ItemActive

record nft_item_info_view =
  ni_init :: bool
  ni_status :: item_status_kind
  ni_collection_id :: account_id
  ni_token_id :: string
  ni_owner_id :: account_id
  ni_rotation_seq :: u64
  ni_rotation_epoch :: u32

record lease_view =
  lv_authority :: account_id
  lv_payout_account :: account_id
  lv_lease_until_ns :: u64
  lv_state :: operating_state
  lv_frozen :: freeze_state
  lv_impl_version :: u32

record agent_status_view =
  av_extension_enabled :: bool
  av_grant :: "spend_grant option"
  av_state :: operating_state
  av_frozen :: freeze_state
  av_lease_until_ns :: u64
  av_reserve_yocto :: u128
  av_impl_version :: u32

record impl_pin_view =
  pv_pinned :: "crypto_hash option"
  pv_approved :: "crypto_hash option"
  pv_approved_at_ns :: u64
  pv_pin_delay_ns :: u64

record pending_authorization =
  pa_account_id :: account_id
  pa_authorization :: string
  pa_expect :: string

record authorization_resolution =
  ar_payload :: string
  ar_pending :: "pending_authorization list"

end
