(* ===== verification/Wallet.thy ===== *)
theory Wallet
  imports Wallet_Types
begin

text \<open>
  The operations of the tenant wallet (\<open>contracts/hos-wallet/src/lib.rs\<close>), one definition
  per method, in the order of the guards in the source. A call either fails (\<open>Inl\<close>, the
  state is untouched) or returns the new wallet with the events and promises it produced.
\<close>

section \<open>Constants\<close>

definition MIN_TIMEOUT_SECS :: u32 where "MIN_TIMEOUT_SECS = 60"
definition MAX_TIMEOUT_SECS :: u32 where "MAX_TIMEOUT_SECS = 2592000"
definition IMPL_VERSION :: u32 where "IMPL_VERSION = 7"
definition WALLET_STATE_VERSION :: u16 where "WALLET_STATE_VERSION = 1"
definition IMPL_PIN_DELAY_NS :: u64 where "IMPL_PIN_DELAY_NS = 48 * 60 * 60 * 1000000000"
definition GAS_FOR_PIN_RESERVE :: u64 where "GAS_FOR_PIN_RESERVE = tgas 30"
definition MIN_PIN_GAS :: u64 where "MIN_PIN_GAS = tgas 100"
definition ROTATION_EPOCH :: u32 where "ROTATION_EPOCH = 4"
definition AUTHORITY_FREEZE_COOLDOWN_NS :: u64 where
  "AUTHORITY_FREEZE_COOLDOWN_NS = MAX_AUTHORITY_HOLD_NS"
definition RENTER_BUFFER :: u128 where "RENTER_BUFFER = 5000000000000000000000"
definition REVERT_WINDOW_NS :: u64 where "REVERT_WINDOW_NS = 5 * 60 * 1000000000"
definition FT_TRANSFER :: string where "FT_TRANSFER = ''ft_transfer''"
definition NFT_TRANSFER :: string where "NFT_TRANSFER = ''nft_transfer''"

section \<open>Conditions the methods ask\<close>

definition is_direct_subaccount :: "account_id \<Rightarrow> account_id \<Rightarrow> bool" where
  "is_direct_subaccount child parent =
     (case strip_suffix child parent of
        None \<Rightarrow> False
      | Some prefix \<Rightarrow>
          (case strip_suffix prefix ''.'' of
             None \<Rightarrow> False
           | Some label \<Rightarrow> label \<noteq> [] \<and> CHR ''.'' \<notin> set label))"

definition effective_frozen :: "ctx \<Rightarrow> 'n tenant_wallet \<Rightarrow> freeze_state" where
  "effective_frozen c w =
     (if tw_frozen w = AuthorityFrozen \<and> tw_authority_freeze_until_ns w \<le> block_timestamp c
      then Unfrozen else tw_frozen w)"

definition lease_expired :: "ctx \<Rightarrow> 'n tenant_wallet \<Rightarrow> bool" where
  "lease_expired c w \<longleftrightarrow> tw_lease_until_ns w \<le> block_timestamp c"

definition blocking_condition :: "ctx \<Rightarrow> 'n tenant_wallet \<Rightarrow> item_status_kind option" where
  "blocking_condition c w =
     (if tw_state w \<noteq> Active then Some ItemSuspended
      else if lease_expired c w then Some ItemExpired
      else if effective_frozen c w \<noteq> Unfrozen then Some ItemFrozen
      else None)"

definition assert_renter_active :: "ctx \<Rightarrow> 'n tenant_wallet \<Rightarrow> wallet_error + unit" where
  "assert_renter_active c w =
     (case blocking_condition c w of
        None \<Rightarrow> Inr ()
      | Some ItemExpired \<Rightarrow> Inl LEASE_EXPIRED
      | Some ItemFrozen \<Rightarrow> Inl FROZEN
      | Some _ \<Rightarrow> Inl NOT_ACTIVE)"

definition assert_one_yocto :: "ctx \<Rightarrow> wallet_error + unit" where
  "assert_one_yocto c = require (attached_deposit c = one_yocto) ONE_YOCTO (Inr ())"

definition assert_private :: "ctx \<Rightarrow> wallet_error + unit" where
  "assert_private c =
     require (is_private_call c) PrivateMethod (require (no_deposit c) NotPayable (Inr ()))"

definition assert_authority :: "ctx \<Rightarrow> 'n tenant_wallet \<Rightarrow> wallet_error + unit" where
  "assert_authority c w =
     require (predecessor_account_id c = tw_authority w) ONLY_AUTHORITY (Inr ())"

definition assert_sweepable :: "ctx \<Rightarrow> 'n tenant_wallet \<Rightarrow> wallet_error + unit" where
  "assert_sweepable c w =
     rbind (assert_authority c w) (\<lambda>_.
     require (lease_expired c w) LEASE_ACTIVE (Inr ()))"

definition assert_owner_caller :: "ctx \<Rightarrow> 'n tenant_wallet \<Rightarrow> wallet_error + unit" where
  "assert_owner_caller c w =
     require (predecessor_account_id c = tw_owner w) ONLY_OWNER (
     require (predecessor_account_id c \<in> tw_extensions w) UNAUTHORIZED (Inr ()))"

fun is_authority :: "actor \<Rightarrow> account_id \<Rightarrow> bool" where
  "is_authority (ActorExtension i) auth = (i = auth)"
| "is_authority ActorSignedRequest auth = False"

definition assert_renter :: "actor \<Rightarrow> 'n tenant_wallet \<Rightarrow> wallet_error + unit" where
  "assert_renter actor w =
     require (\<not> is_authority actor (tw_authority w)) ONLY_RENTER (Inr ())"

fun assert_owner :: "actor \<Rightarrow> 'n tenant_wallet \<Rightarrow> wallet_error + unit" where
  "assert_owner (ActorExtension i) w =
     require (i = tw_owner w) ONLY_OWNER (
     require (tw_owner w \<in> tw_extensions w) ONLY_OWNER (Inr ()))"
| "assert_owner ActorSignedRequest w = Inl ONLY_OWNER"

definition assert_extension_editor ::
    "ctx \<Rightarrow> actor \<Rightarrow> 'n tenant_wallet \<Rightarrow> wallet_error + unit" where
  "assert_extension_editor c actor w =
     (if is_authority actor (tw_authority w)
      then require (lease_expired c w) EXTENSIONS_LOCKED (Inr ())
      else rbind (assert_owner actor w) (\<lambda>_. assert_renter_active c w))"

definition check_lockout :: "'n tenant_wallet \<Rightarrow> wallet_error + unit" where
  "check_lockout w = require (tw_extensions w \<noteq> {}) Lockout (Inr ())"

definition reserve :: "ctx \<Rightarrow> u128" where
  "reserve c =
     sat_add (sat_mul (storage_byte_cost c) (ucast (storage_usage c))) RENTER_BUFFER"

section \<open>Initialisation and migration\<close>

definition hos_init :: "'n wallet_lib \<Rightarrow> ctx \<Rightarrow> bool \<Rightarrow> wallet_init \<Rightarrow> 'n wallet_res" where
  "hos_init lib c state_exists config =
     require (\<not> state_exists) AlreadyInitialized (
     require (no_deposit c) NotPayable (
     require (is_direct_subaccount (current_account_id c) (predecessor_account_id c)) ONLY_PARENT (
     require (block_timestamp c < wi_lease_until_ns config) LEASE_IN_PAST (
     require (MIN_TIMEOUT_SECS \<le> wi_timeout_secs config
              \<and> wi_timeout_secs config \<le> MAX_TIMEOUT_SECS) INVALID_TIMEOUT (
     require (wi_authority config \<noteq> current_account_id c) AUTHORITY_IS_SELF (
     require (wi_payout_account config \<noteq> current_account_id c) PAYOUT_IS_SELF (
     require (wi_owner_account config \<noteq> current_account_id c) OWNER_IS_SELF (
     require (wi_owner_account config \<noteq> wi_authority config) UNAUTHORIZED (
     require (wi_collection_id config \<noteq> current_account_id c) COLLECTION_IS_SELF (
     Inr (\<lparr>tw_state_version = WALLET_STATE_VERSION,
           tw_extensions = {wi_owner_account config, wi_authority config},
           tw_signature_enabled = False,
           tw_nonces = wl_new_nonces lib (wi_timeout_secs config),
           tw_authority = wi_authority config,
           tw_owner = wi_owner_account config,
           tw_collection_id = wi_collection_id config,
           tw_payout_account = wi_payout_account config,
           tw_lease_until_ns = wi_lease_until_ns config,
           tw_state = Active,
           tw_frozen = Unfrozen,
           tw_authority_freeze_until_ns = 0,
           tw_spend_grants = Map.empty,
           tw_revert_to = None,
           tw_revert_until_ns = 0,
           tw_rotation_seq = 0,
           tw_pinned_impl = None,
           tw_approved_impl = None,
           tw_approved_impl_at = 0\<rparr>,
          [Emit (WalletInitialized (wi_owner_account config))])))))))))))"

text \<open>The stored bytes as \<open>hos_migrate\<close> reads them: the version prefix, where there are two
  bytes, and the decoded wallet, where they decode.\<close>

datatype 'n stored_state = Absent | Raw "u16 option" "'n tenant_wallet option"

definition hos_migrate :: "ctx \<Rightarrow> account_id \<Rightarrow> 'n stored_state \<Rightarrow> 'n wallet_res" where
  "hos_migrate c collection stored =
     require (no_deposit c) NotPayable (
     rbind (case stored of
              Absent \<Rightarrow> Inl NO_STATE
            | Raw prefix decoded \<Rightarrow>
                ok_or prefix NO_STATE (\<lambda>deployed.
                if deployed = WALLET_STATE_VERSION then ok_or decoded NO_STATE Inr
                else Inl STATE_VERSION_UNKNOWN)) (\<lambda>current.
     require (predecessor_account_id c = tw_authority current
              \<or> predecessor_account_id c = current_account_id c) ONLY_AUTHORITY (
     require (tw_owner current \<noteq> tw_authority current) UNAUTHORIZED (
     require (tw_owner current \<in> tw_extensions current) ONLY_OWNER (
     require (tw_authority current \<in> tw_extensions current) AUTHORITY_PROTECTED (
     require (collection = tw_collection_id current) COLLECTION_MOVED (
     Inr (current, []))))))))"

section \<open>Granting a spend\<close>

definition assert_grantable :: "ctx \<Rightarrow> account_id \<Rightarrow> account_id \<Rightarrow> wallet_error + unit" where
  "assert_grantable c target collection =
     require (target \<noteq> collection) OWN_COLLECTION_NOT_GRANTABLE (
     require (target \<noteq> current_account_id c) SELF_TARGET (Inr ()))"

definition held_token_spent :: "spend_grant option \<Rightarrow> account_id \<Rightarrow> u128" where
  "held_token_spent held token =
     (case held of None \<Rightarrow> 0
      | Some grant \<Rightarrow> (case sg_tokens grant token of None \<Rightarrow> 0 | Some b \<Rightarrow> tb_spent b))"

definition token_budgets ::
    "ctx \<Rightarrow> token_allowance list \<Rightarrow> spend_grant option \<Rightarrow> account_id
     \<Rightarrow> wallet_error + (account_id \<rightharpoonup> token_budget)" where
  "token_budgets c tokens held collection =
     rfold (\<lambda>allowance budgets.
        rbind (assert_grantable c (ta_token allowance) collection) (\<lambda>_.
        require (budgets (ta_token allowance) = None) TOKEN_LISTED_TWICE (
        Inr (budgets(ta_token allowance \<mapsto>
               \<lparr>tb_budget = ta_budget allowance,
                tb_spent = held_token_spent held (ta_token allowance)\<rparr>)))))
      tokens Map.empty"

definition item_fences ::
    "ctx \<Rightarrow> item_allowance list \<Rightarrow> account_id \<Rightarrow> wallet_error + (account_id \<rightharpoonup> string set)" where
  "item_fences c items collection =
     rfold (\<lambda>allowance fences.
        rbind (assert_grantable c (ia_collection allowance) collection) (\<lambda>_.
        require (ia_token_ids allowance \<noteq> []) EMPTY_ITEM_GRANT (
        require (fences (ia_collection allowance) = None) COLLECTION_LISTED_TWICE (
        Inr (fences(ia_collection allowance \<mapsto> set (ia_token_ids allowance)))))))
      items Map.empty"

definition hos_grant_spend ::
    "ctx \<Rightarrow> account_id \<Rightarrow> account_id list \<Rightarrow> u128 \<Rightarrow> token_allowance list \<Rightarrow> item_allowance list
     \<Rightarrow> u64 \<Rightarrow> 'n tenant_wallet \<Rightarrow> 'n wallet_res" where
  "hos_grant_spend c extension receivers budget_yocto tokens items expires w =
     rbind (assert_one_yocto c) (\<lambda>_.
     rbind (assert_owner_caller c w) (\<lambda>_.
     rbind (assert_renter_active c w) (\<lambda>_.
     require (extension \<noteq> tw_owner w) UNAUTHORIZED (
     require (extension \<noteq> tw_authority w) UNAUTHORIZED (
     require (extension \<in> tw_extensions w) UNAUTHORIZED (
     require (receivers \<noteq> []) EMPTY_GRANT (
     require (block_timestamp c < expires) GRANT_IN_PAST (
     let held = tw_spend_grants w extension;
         spent_yocto = (case held of None \<Rightarrow> 0 | Some grant \<Rightarrow> sg_spent_yocto grant)
     in rbind (token_budgets c tokens held (tw_collection_id w)) (\<lambda>budgets.
        rbind (item_fences c items (tw_collection_id w)) (\<lambda>fences.
        Inr (w\<lparr>tw_spend_grants := (tw_spend_grants w)(extension \<mapsto>
                 \<lparr>sg_receivers = set receivers,
                  sg_budget_yocto = budget_yocto,
                  sg_spent_yocto = spent_yocto,
                  sg_tokens = budgets,
                  sg_items = fences,
                  sg_expires_at = expires\<rparr>)\<rparr>,
             [Emit (SpendGranted extension)])))))))))))"

definition hos_revoke_spend :: "ctx \<Rightarrow> account_id \<Rightarrow> 'n tenant_wallet \<Rightarrow> 'n wallet_res" where
  "hos_revoke_spend c extension w =
     rbind (assert_one_yocto c) (\<lambda>_.
     rbind (assert_owner_caller c w) (\<lambda>_.
     Inr (w\<lparr>tw_spend_grants := (tw_spend_grants w)(extension := None)\<rparr>,
          [Emit (SpendRevoked extension)])))"

section \<open>Views\<close>

definition hos_spend_grant :: "account_id \<Rightarrow> 'n tenant_wallet \<Rightarrow> spend_grant option" where
  "hos_spend_grant extension w = tw_spend_grants w extension"

definition hos_agent_status :: "ctx \<Rightarrow> account_id \<Rightarrow> 'n tenant_wallet \<Rightarrow> agent_status_view" where
  "hos_agent_status c extension w =
     \<lparr>av_extension_enabled = (extension \<in> tw_extensions w),
      av_grant = tw_spend_grants w extension,
      av_state = tw_state w,
      av_frozen = effective_frozen c w,
      av_lease_until_ns = tw_lease_until_ns w,
      av_reserve_yocto = reserve c,
      av_impl_version = IMPL_VERSION\<rparr>"

definition w_resolve_auth ::
    "'n wallet_lib \<Rightarrow> string \<Rightarrow> 'n tenant_wallet \<Rightarrow> wallet_error + authorization_resolution" where
  "w_resolve_auth lib authorization w =
     ok_or (wl_auth_blob lib authorization) AUTHORIZATION_NOT_JSON (\<lambda>blob.
     require (ab_owner blob \<noteq> tw_authority w) AUTHORITY_NOT_OWNER (
     require (tw_spend_grants w (ab_owner blob) = None) GRANTEE_NOT_OWNER (
     require (ab_owner blob \<in> tw_extensions w) NOT_AN_OWNER (
     Inr \<lparr>ar_payload = ab_payload blob,
          ar_pending = [\<lparr>pa_account_id = ab_owner blob,
                          pa_authorization = ab_authorization blob,
                          pa_expect = ab_payload blob\<rparr>]\<rparr>))))"

definition hos_lease :: "ctx \<Rightarrow> 'n tenant_wallet \<Rightarrow> lease_view" where
  "hos_lease c w =
     \<lparr>lv_authority = tw_authority w,
      lv_payout_account = tw_payout_account w,
      lv_lease_until_ns = tw_lease_until_ns w,
      lv_state = tw_state w,
      lv_frozen = effective_frozen c w,
      lv_impl_version = IMPL_VERSION\<rparr>"

definition item_status :: "ctx \<Rightarrow> 'n tenant_wallet \<Rightarrow> item_status_kind" where
  "item_status c w =
     (if tw_owner w \<notin> tw_extensions w then ItemParked
      else case blocking_condition c w of None \<Rightarrow> ItemActive | Some st \<Rightarrow> st)"

definition nft_item_info :: "ctx \<Rightarrow> 'n tenant_wallet \<Rightarrow> nft_item_info_view" where
  "nft_item_info c w =
     \<lparr>ni_init = (tw_owner w \<in> tw_extensions w),
      ni_status = item_status c w,
      ni_collection_id = tw_collection_id w,
      ni_token_id = current_account_id c,
      ni_owner_id = tw_owner w,
      ni_rotation_seq = tw_rotation_seq w,
      ni_rotation_epoch = ROTATION_EPOCH\<rparr>"

definition hos_freeze_expiry :: "ctx \<Rightarrow> 'n tenant_wallet \<Rightarrow> u64" where
  "hos_freeze_expiry c w =
     (if effective_frozen c w = AuthorityFrozen then tw_authority_freeze_until_ns w else 0)"

definition hos_revert_window :: "ctx \<Rightarrow> 'n tenant_wallet \<Rightarrow> (account_id \<times> u64) option" where
  "hos_revert_window c w =
     (if tw_revert_until_ns w \<le> block_timestamp c then None
      else map_option (\<lambda>to. (to, tw_revert_until_ns w)) (tw_revert_to w))"

definition hos_impl_pin :: "'n tenant_wallet \<Rightarrow> impl_pin_view" where
  "hos_impl_pin w =
     \<lparr>pv_pinned = tw_pinned_impl w,
      pv_approved = tw_approved_impl w,
      pv_approved_at_ns = tw_approved_impl_at w,
      pv_pin_delay_ns = IMPL_PIN_DELAY_NS\<rparr>"

section \<open>Payout account and implementation pin\<close>

definition hos_set_payout_account ::
    "ctx \<Rightarrow> account_id \<Rightarrow> account_id \<Rightarrow> 'n tenant_wallet \<Rightarrow> 'n wallet_res" where
  "hos_set_payout_account c payout expected_owner w =
     rbind (assert_one_yocto c) (\<lambda>_.
     rbind (assert_authority c w) (\<lambda>_.
     require (tw_owner w = expected_owner) OWNER_MOVED (
     require (payout \<noteq> current_account_id c) PAYOUT_IS_SELF (
     Inr (w\<lparr>tw_payout_account := payout\<rparr>, [Emit (PayoutAccountSet payout)])))))"

definition hos_approve_impl :: "ctx \<Rightarrow> crypto_hash \<Rightarrow> 'n tenant_wallet \<Rightarrow> 'n wallet_res" where
  "hos_approve_impl c code_hash w =
     rbind (assert_one_yocto c) (\<lambda>_.
     rbind (assert_authority c w) (\<lambda>_.
     Inr (w\<lparr>tw_approved_impl := Some code_hash,
            tw_approved_impl_at := block_timestamp c\<rparr>,
          [Emit (ImplApproved code_hash)])))"

definition hos_cancel_impl :: "ctx \<Rightarrow> 'n tenant_wallet \<Rightarrow> 'n wallet_res" where
  "hos_cancel_impl c w =
     rbind (assert_one_yocto c) (\<lambda>_.
     require (predecessor_account_id c = tw_owner w
              \<or> predecessor_account_id c = tw_authority w) ONLY_OWNER (
     require (tw_approved_impl w \<noteq> None) NO_APPROVED_IMPL (
     Inr (w\<lparr>tw_approved_impl := None, tw_approved_impl_at := 0\<rparr>, [Emit ImplCancelled]))))"

definition hos_pin_impl :: "ctx \<Rightarrow> 'n tenant_wallet \<Rightarrow> 'n wallet_res" where
  "hos_pin_impl c w =
     rbind (assert_one_yocto c) (\<lambda>_.
     rbind (assert_authority c w) (\<lambda>_.
     require (effective_frozen c w = Unfrozen) SELF_FROZEN (
     ok_or (tw_approved_impl w) NO_APPROVED_IMPL (\<lambda>raw.
     require (sat_add (tw_approved_impl_at w) IMPL_PIN_DELAY_NS \<le> block_timestamp c)
       IMPL_PIN_TOO_YOUNG (
     require (MIN_PIN_GAS \<le> prepaid_gas c) PIN_GAS_TOO_LOW (
     Inr (w\<lparr>tw_approved_impl := None, tw_approved_impl_at := 0\<rparr>,
          [Emit (ImplPinRequested raw),
           SendPin raw (tw_collection_id w)
             (sat_sub (sat_sub (prepaid_gas c) (used_gas c)) GAS_FOR_PIN_RESERVE)
             (tw_approved_impl_at w)])))))))"

definition hos_on_pinned ::
    "ctx \<Rightarrow> crypto_hash \<Rightarrow> u64 \<Rightarrow> bool \<Rightarrow> 'n tenant_wallet \<Rightarrow> 'n wallet_res" where
  "hos_on_pinned c code_hash approved_at bound w =
     rbind (assert_private c) (\<lambda>_.
     if \<not> bound
     then Inr (w\<lparr>tw_approved_impl := Some code_hash, tw_approved_impl_at := approved_at\<rparr>,
               [Emit (ImplPinFailed code_hash)])
     else Inr (w\<lparr>tw_pinned_impl := Some code_hash\<rparr>, [Emit (ImplPinned code_hash)]))"

section \<open>Lease\<close>

definition hos_set_lease ::
    "ctx \<Rightarrow> u64 \<Rightarrow> operating_state \<Rightarrow> 'n tenant_wallet \<Rightarrow> 'n wallet_res" where
  "hos_set_lease c lease_until st w =
     rbind (assert_one_yocto c) (\<lambda>_.
     rbind (assert_authority c w) (\<lambda>_.
     require (tw_lease_until_ns w \<le> lease_until) LEASE_NOT_MONOTONIC (
     require (st = Active) BAD_LEASE_STATE (
     Inr (w\<lparr>tw_lease_until_ns := lease_until, tw_state := st\<rparr>,
          [Emit (LeaseSet lease_until st)])))))"

definition hos_retract_lease :: "ctx \<Rightarrow> u64 \<Rightarrow> 'n tenant_wallet \<Rightarrow> 'n wallet_res" where
  "hos_retract_lease c lease_until w =
     rbind (assert_one_yocto c) (\<lambda>_.
     rbind (assert_authority c w) (\<lambda>_.
     require (lease_until \<le> tw_lease_until_ns w) RETRACTION_NOT_SHORTER (
     require (sat_add (block_timestamp c) MIN_LEASE_RETRACT_NOTICE_NS \<le> lease_until)
       RETRACTION_NOTICE_TOO_SHORT (
     Inr (w\<lparr>tw_lease_until_ns := lease_until\<rparr>,
          [Emit (LeaseRetracted (tw_lease_until_ns w) lease_until)])))))"

section \<open>Rotation of the owner\<close>

text \<open>The guards of a rotation, and the revert window it opens or consumes.\<close>

definition rotation_gate ::
    "ctx \<Rightarrow> account_id option \<Rightarrow> rotation_cause \<Rightarrow> account_id option \<Rightarrow> 'n tenant_wallet
     \<Rightarrow> wallet_error + 'n tenant_wallet" where
  "rotation_gate c to cause asked_by w =
     (if cause = Revert then
        ok_or (tw_revert_to w) NOTHING_TO_REVERT (\<lambda>pinned.
        require (block_timestamp c < tw_revert_until_ns w) REVERT_WINDOW_CLOSED (
        require (to = Some pinned) REVERT_TARGET_PINNED (
        Inr (w\<lparr>tw_revert_to := None, tw_revert_until_ns := 0\<rparr>))))
      else
        rbind (if needs_holder cause then
                 ok_or asked_by TRANSFER_NOT_REQUESTED (\<lambda>holder.
                 require (holder \<noteq> tw_authority w) UNAUTHORIZED (
                 require (holder \<in> tw_extensions w) TRANSFER_NOT_REQUESTED (Inr ())))
               else Inr ()) (\<lambda>_.
        rbind (if needs_expiry cause then require (lease_expired c w) LEASE_ACTIVE (Inr ())
               else Inr ()) (\<lambda>_.
        Inr (w\<lparr>tw_revert_to := Some (tw_owner w),
               tw_revert_until_ns := sat_add (block_timestamp c) REVERT_WINDOW_NS\<rparr>))))"

text \<open>Seating the next owner: a self-freeze ends with the owner who set it.\<close>

definition seat_owner ::
    "account_id \<Rightarrow> account_id \<Rightarrow> rotation_cause \<Rightarrow> 'n tenant_wallet
     \<Rightarrow> 'n tenant_wallet \<times> wallet_out list" where
  "seat_owner previous_owner next cause w =
     (let thaw = next \<noteq> previous_owner \<and> tw_frozen w = SelfFrozen;
          w1 = (if thaw then w\<lparr>tw_frozen := Unfrozen\<rparr> else w);
          w2 = w1\<lparr>tw_extensions := insert next (tw_extensions w1), tw_owner := next\<rparr>;
          w3 = (if repoints_payout cause then w2\<lparr>tw_payout_account := next\<rparr> else w2)
      in (w3, (if thaw then [Emit UnfrozenEvent] else [])
              @ (if repoints_payout cause then [Emit (PayoutAccountSet next)] else [])))"

definition sweep_amount :: "ctx \<Rightarrow> u128" where
  "sweep_amount c = sat_sub (sat_sub (account_balance c) (attached_deposit c)) (reserve c)"

definition sweep_to :: "ctx \<Rightarrow> account_id \<Rightarrow> wallet_out list" where
  "sweep_to c outgoing =
     (if outgoing = current_account_id c then []
      else if sweep_amount c = 0 then []
      else [SendSweep outgoing (sweep_amount c)])"

definition apply_rotation ::
    "ctx \<Rightarrow> account_id option \<Rightarrow> rotation_cause \<Rightarrow> account_id option \<Rightarrow> 'n tenant_wallet
     \<Rightarrow> 'n wallet_res" where
  "apply_rotation c to cause asked_by w =
     rbind (rotation_gate c to cause asked_by w) (\<lambda>w1.
     let w2 = w1\<lparr>tw_spend_grants := Map.empty\<rparr> in
     rbind (case to of
              None \<Rightarrow> Inr ()
            | Some next \<Rightarrow>
                require (next \<noteq> current_account_id c) SELF_TARGET (
                require (next \<noteq> tw_authority w2) UNAUTHORIZED (Inr ()))) (\<lambda>_.
     let outgoing = tw_payout_account w2;
         sweepable = (sweeps cause \<and> to \<noteq> Some outgoing);
         w3 = w2\<lparr>tw_rotation_seq := sat_add (tw_rotation_seq w2) 1,
                 tw_extensions := Set.filter (\<lambda>held. held = tw_authority w2) (tw_extensions w2)\<rparr>
     in rbind (check_lockout w3) (\<lambda>_.
        let w4 = (if parks cause then w3\<lparr>tw_state := Parked\<rparr> else w3);
            seated = (case to of None \<Rightarrow> (w4, [])
                      | Some next \<Rightarrow> seat_owner (tw_owner w) next cause w4)
        in Inr (fst seated,
                snd seated @ (if sweepable then sweep_to c outgoing else [])))))"

definition hos_transfer_ownership ::
    "ctx \<Rightarrow> account_id option \<Rightarrow> rotation_cause \<Rightarrow> account_id option \<Rightarrow> 'n tenant_wallet
     \<Rightarrow> 'n wallet_res" where
  "hos_transfer_ownership c to cause asked_by w =
     rbind (assert_one_yocto c) (\<lambda>_.
     rbind (assert_authority c w) (\<lambda>_.
     require (cause \<noteq> ReRent) RERENT_NEEDS_OWN_CALL (
     rbind (if cause = Recovery
            then require (effective_frozen c w \<noteq> SelfFrozen) SELF_FROZEN (Inr ())
            else Inr ()) (\<lambda>_.
     apply_rotation c to cause asked_by w))))"

definition hos_re_rent ::
    "ctx \<Rightarrow> account_id \<Rightarrow> account_id \<Rightarrow> u64 \<Rightarrow> 'n tenant_wallet \<Rightarrow> 'n wallet_res" where
  "hos_re_rent c to payout lease_until w =
     rbind (assert_one_yocto c) (\<lambda>_.
     rbind (assert_authority c w) (\<lambda>_.
     require (tw_lease_until_ns w \<le> lease_until) LEASE_NOT_MONOTONIC (
     require (block_timestamp c < lease_until) LEASE_IN_PAST (
     require (payout \<noteq> current_account_id c) SELF_TARGET (
     rbind (apply_rotation c (Some to) ReRent None w) (\<lambda>(w1, outs).
     Inr (w1\<lparr>tw_payout_account := payout,
             tw_lease_until_ns := lease_until,
             tw_state := Active\<rparr>,
          outs @ [Emit (PayoutAccountSet payout), Emit (LeaseSet lease_until Active)])))))))"

section \<open>Freezing\<close>

definition hos_freeze :: "ctx \<Rightarrow> 'n tenant_wallet \<Rightarrow> 'n wallet_res" where
  "hos_freeze c w =
     (let caller = predecessor_account_id c; now = block_timestamp c in
     rbind (assert_one_yocto c) (\<lambda>_.
     require (caller = tw_authority w \<or> caller = tw_owner w) UNAUTHORIZED (
     require (caller \<in> tw_extensions w) UNAUTHORIZED (
     require (effective_frozen c w = Unfrozen) FROZEN (
     if caller \<noteq> tw_authority w
     then Inr (w\<lparr>tw_frozen := SelfFrozen\<rparr>, [Emit (FrozenEvent True)])
     else require (sat_add (tw_authority_freeze_until_ns w) AUTHORITY_FREEZE_COOLDOWN_NS \<le> now)
            FREEZE_COOLDOWN (
          Inr (w\<lparr>tw_authority_freeze_until_ns := sat_add now MAX_AUTHORITY_HOLD_NS,
                 tw_frozen := AuthorityFrozen\<rparr>,
               [Emit (FrozenEvent False)])))))))"

definition hos_unfreeze :: "ctx \<Rightarrow> 'n tenant_wallet \<Rightarrow> 'n wallet_res" where
  "hos_unfreeze c w =
     (let caller = predecessor_account_id c; by_authority = (caller = tw_authority w) in
     rbind (assert_one_yocto c) (\<lambda>_.
     require (caller = tw_authority w \<or> caller = tw_owner w) UNAUTHORIZED (
     require (caller \<in> tw_extensions w) UNAUTHORIZED (
     rbind (case effective_frozen c w of
              Unfrozen \<Rightarrow> Inl NOT_FROZEN
            | SelfFrozen \<Rightarrow> require (\<not> by_authority) SELF_FROZEN (Inr ())
            | AuthorityFrozen \<Rightarrow> require by_authority AUTHORITY_FROZEN (Inr ())) (\<lambda>_.
     Inr (w\<lparr>tw_frozen := Unfrozen\<rparr>, [Emit UnfrozenEvent]))))))"

section \<open>Sweeping\<close>

definition hos_sweep_near :: "ctx \<Rightarrow> 'n tenant_wallet \<Rightarrow> 'n wallet_res" where
  "hos_sweep_near c w =
     rbind (assert_one_yocto c) (\<lambda>_.
     rbind (assert_sweepable c w) (\<lambda>_.
     require (0 < sweep_amount c) NOTHING_TO_SWEEP (
     Inr (w, [SendSweep (tw_payout_account w) (sweep_amount c)]))))"

definition hos_sweep_ft :: "ctx \<Rightarrow> account_id \<Rightarrow> u128 \<Rightarrow> 'n tenant_wallet \<Rightarrow> 'n wallet_res" where
  "hos_sweep_ft c ft amount w =
     rbind (assert_one_yocto c) (\<lambda>_.
     rbind (assert_sweepable c w) (\<lambda>_.
     require (0 < amount) NOTHING_TO_SWEEP (
     require (ft \<noteq> current_account_id c) SELF_TARGET (
     Inr (w, [SendFtSweep ft (tw_payout_account w) amount])))))"

text \<open>The boolean it returns is the last component.\<close>

definition hos_resolve_sweep ::
    "ctx \<Rightarrow> account_id \<Rightarrow> account_id option \<Rightarrow> u128 \<Rightarrow> 'n tenant_wallet
     \<Rightarrow> wallet_error + ('n tenant_wallet \<times> wallet_out list \<times> bool)" where
  "hos_resolve_sweep c payout ft amount w =
     rbind (assert_private c) (\<lambda>_.
     if \<not> is_promise_success c then Inr (w, [Emit (SweepFailed payout ft amount)], False)
     else Inr (w, [Emit (case ft of Some t \<Rightarrow> SweptFt payout t amount
                                   | None \<Rightarrow> SweptNear payout amount)], True))"

section \<open>Charging a spend grant\<close>

text \<open>A charge returns the grant with its meters moved, and the event it emits.\<close>

definition charge_transfer ::
    "'n wallet_lib \<Rightarrow> account_id \<Rightarrow> near_promise \<Rightarrow> spend_grant
     \<Rightarrow> wallet_error + (spend_grant \<times> wallet_out list)" where
  "charge_transfer lib extension promise grant =
     require (np_receiver_id promise \<in> sg_receivers grant) RECEIVER_NOT_GRANTED (
     require (list_all (\<lambda>a. case a of TransferAction _ \<Rightarrow> True | _ \<Rightarrow> False) (np_actions promise))
       GRANT_ACTION_NOT_ALLOWED (
     let amount = wl_total_deposit lib promise in
     ok_or (checked_add (sg_spent_yocto grant) amount) DEPOSIT_OVERFLOW (\<lambda>spent.
     require (spent \<le> sg_budget_yocto grant) GRANT_CAP_EXCEEDED (
     Inr (grant\<lparr>sg_spent_yocto := spent\<rparr>,
          [Emit (SpendCharged extension None (np_receiver_id promise) amount spent)])))))"

definition charge_ft_transfer ::
    "'n wallet_lib \<Rightarrow> account_id \<Rightarrow> near_promise \<Rightarrow> function_call \<Rightarrow> spend_grant
     \<Rightarrow> wallet_error + (spend_grant \<times> wallet_out list)" where
  "charge_ft_transfer lib extension promise call grant =
     ok_or (wl_ft_args lib (call_args call)) GRANT_ARGS_UNREADABLE (\<lambda>args.
     require (fta_receiver_id args \<in> sg_receivers grant) RECEIVER_NOT_GRANTED (
     ok_or (sg_tokens grant (np_receiver_id promise)) TOKEN_NOT_GRANTED (\<lambda>budget.
     ok_or (checked_add (tb_spent budget) (fta_amount args)) DEPOSIT_OVERFLOW (\<lambda>spent.
     require (spent \<le> tb_budget budget) TOKEN_CAP_EXCEEDED (
     Inr (grant\<lparr>sg_tokens := (sg_tokens grant)(np_receiver_id promise \<mapsto>
                  budget\<lparr>tb_spent := spent\<rparr>)\<rparr>,
          [Emit (SpendCharged extension (Some (np_receiver_id promise))
                   (fta_receiver_id args) (fta_amount args) spent)]))))))"

definition charge_nft_transfer ::
    "'n wallet_lib \<Rightarrow> account_id \<Rightarrow> near_promise \<Rightarrow> function_call \<Rightarrow> spend_grant
     \<Rightarrow> wallet_error + (spend_grant \<times> wallet_out list)" where
  "charge_nft_transfer lib extension promise call grant =
     ok_or (wl_nft_args lib (call_args call)) GRANT_ARGS_UNREADABLE (\<lambda>args.
     require (nta_approval_id args = None) GRANT_APPROVAL_NOT_ALLOWED (
     require (nta_receiver_id args \<in> sg_receivers grant) RECEIVER_NOT_GRANTED (
     ok_or (sg_items grant (np_receiver_id promise)) COLLECTION_NOT_GRANTED (\<lambda>fence.
     require (nta_token_id args \<in> fence) ITEM_NOT_GRANTED (
     Inr (grant, [Emit (ItemSpent extension (np_receiver_id promise)
                          (nta_token_id args) (nta_receiver_id args))]))))))"

definition charge_token_call ::
    "'n wallet_lib \<Rightarrow> account_id \<Rightarrow> account_id \<Rightarrow> near_promise \<Rightarrow> function_call \<Rightarrow> spend_grant
     \<Rightarrow> wallet_error + (spend_grant \<times> wallet_out list)" where
  "charge_token_call lib extension collection promise call grant =
     require (call_deposit call = one_yocto) GRANT_CALL_DEPOSIT (
     require (np_receiver_id promise \<noteq> collection) OWN_COLLECTION_NOT_GRANTABLE (
     if call_function_name call = FT_TRANSFER
     then charge_ft_transfer lib extension promise call grant
     else if call_function_name call = NFT_TRANSFER
     then charge_nft_transfer lib extension promise call grant
     else Inl GRANT_METHOD_NOT_ALLOWED))"

fun first_call :: "near_action list \<Rightarrow> function_call option" where
  "first_call [] = None"
| "first_call (FunctionCall f # as) = Some f"
| "first_call (_ # as) = first_call as"

definition charge_promise ::
    "'n wallet_lib \<Rightarrow> account_id \<Rightarrow> account_id \<Rightarrow> near_promise \<Rightarrow> spend_grant
     \<Rightarrow> wallet_error + (spend_grant \<times> wallet_out list)" where
  "charge_promise lib extension collection promise grant =
     require (np_refund_to promise = None) REFUND_TARGET_NOT_ALLOWED (
     case first_call (np_actions promise) of
       None \<Rightarrow> charge_transfer lib extension promise grant
     | Some call \<Rightarrow>
         require (length (np_actions promise) = 1) GRANT_CALL_MUST_STAND_ALONE (
         charge_token_call lib extension collection promise call grant))"

fun charge_promises ::
    "'n wallet_lib \<Rightarrow> account_id \<Rightarrow> account_id \<Rightarrow> near_promise list \<Rightarrow> spend_grant
     \<Rightarrow> wallet_error + (spend_grant \<times> wallet_out list)" where
  "charge_promises lib extension collection [] grant = Inr (grant, [])"
| "charge_promises lib extension collection (p # ps) grant =
     rbind (charge_promise lib extension collection p grant) (\<lambda>(grant1, outs1).
     rbind (charge_promises lib extension collection ps grant1) (\<lambda>(grant2, outs2).
     Inr (grant2, outs1 @ outs2)))"

fun charge_spend ::
    "'n wallet_lib \<Rightarrow> ctx \<Rightarrow> actor \<Rightarrow> near_promise list \<Rightarrow> 'n tenant_wallet \<Rightarrow> 'n wallet_res" where
  "charge_spend lib c ActorSignedRequest external w = Inl NO_SPEND_GRANT"
| "charge_spend lib c (ActorExtension i) external w =
     (if i = tw_owner w then Inr (w, [])
      else ok_or (tw_spend_grants w i) NO_SPEND_GRANT (\<lambda>grant.
           require (block_timestamp c < sg_expires_at grant) GRANT_EXPIRED (
           rbind (charge_promises lib i (tw_collection_id w) external grant) (\<lambda>(grant1, outs).
           Inr (w\<lparr>tw_spend_grants := (tw_spend_grants w)(i \<mapsto> grant1)\<rparr>, outs)))))"

section \<open>Executing a request\<close>

definition assert_within_reserve ::
    "'n wallet_lib \<Rightarrow> ctx \<Rightarrow> near_promise list \<Rightarrow> wallet_error + unit" where
  "assert_within_reserve lib c external =
     rbind (rfold (\<lambda>promise total.
              ok_or (checked_add total (wl_total_deposit lib promise)) DEPOSIT_OVERFLOW Inr)
            external 0) (\<lambda>total.
     require (reserve c \<le> sat_sub (account_balance c) total) RESERVE_BREACH (Inr ()))"

definition add_extension ::
    "ctx \<Rightarrow> account_id \<Rightarrow> actor \<Rightarrow> 'n tenant_wallet \<Rightarrow> 'n wallet_res" where
  "add_extension c account actor w =
     rbind (assert_extension_editor c actor w) (\<lambda>_.
     require (account \<noteq> current_account_id c) SELF_TARGET (
     require (account \<notin> tw_extensions w) (ExtensionEnabled account) (
     Inr (w\<lparr>tw_extensions := insert account (tw_extensions w)\<rparr>,
          [Emit (ExtensionAdded account)]))))"

definition remove_extension ::
    "ctx \<Rightarrow> account_id \<Rightarrow> actor \<Rightarrow> 'n tenant_wallet \<Rightarrow> 'n wallet_res" where
  "remove_extension c account actor w =
     rbind (assert_extension_editor c actor w) (\<lambda>_.
     require (account \<noteq> tw_authority w) AUTHORITY_PROTECTED (
     require (account \<in> tw_extensions w) (ExtensionNotEnabled account) (
     let w1 = w\<lparr>tw_extensions := tw_extensions w - {account},
                tw_spend_grants := (tw_spend_grants w)(account := None)\<rparr> in
     rbind (check_lockout w1) (\<lambda>_.
     Inr (w1, [Emit (ExtensionRemoved account)])))))"

fun execute_op :: "ctx \<Rightarrow> actor \<Rightarrow> wallet_op \<Rightarrow> 'n tenant_wallet \<Rightarrow> 'n wallet_res" where
  "execute_op c actor (SetSignatureMode b) w = Inl SignatureDisabled"
| "execute_op c actor (AddExtension a) w = add_extension c a actor w"
| "execute_op c actor (RemoveExtension a) w = remove_extension c a actor w"

fun execute_ops ::
    "ctx \<Rightarrow> actor \<Rightarrow> wallet_op list \<Rightarrow> 'n tenant_wallet \<Rightarrow> 'n wallet_res" where
  "execute_ops c actor [] w = Inr (w, [])"
| "execute_ops c actor (op # ops) w =
     rbind (execute_op c actor op w) (\<lambda>(w1, outs1).
     rbind (execute_ops c actor ops w1) (\<lambda>(w2, outs2).
     Inr (w2, outs1 @ outs2)))"

fun send_external :: "ctx \<Rightarrow> near_promise list \<Rightarrow> wallet_error + wallet_out list" where
  "send_external c [] = Inr []"
| "send_external c (p # ps) =
     require (np_receiver_id p \<noteq> current_account_id c) SelfCallsNotAllowed (
     rbind (send_external c ps) (\<lambda>outs. Inr (SendExternal p # outs)))"

definition execute_request ::
    "'n wallet_lib \<Rightarrow> ctx \<Rightarrow> request \<Rightarrow> actor \<Rightarrow> 'n tenant_wallet \<Rightarrow> 'n wallet_res" where
  "execute_request lib c rq actor w =
     rbind (execute_ops c actor (rq_internal rq) w) (\<lambda>(w1, outs1).
     if rq_external rq = [] then Inr (w1, outs1)
     else rbind (assert_renter actor w1) (\<lambda>_.
          rbind (assert_renter_active c w1) (\<lambda>_.
          rbind (charge_spend lib c actor (rq_external rq) w1) (\<lambda>(w2, outs2).
          rbind (assert_within_reserve lib c (rq_external rq)) (\<lambda>_.
          rbind (send_external c (rq_external rq)) (\<lambda>outs3.
          Inr (w2, outs1 @ outs2 @ outs3)))))))"

definition w_execute_signed :: "'n tenant_wallet \<Rightarrow> 'n wallet_res" where
  "w_execute_signed w = Inl SignatureDisabled"

definition w_execute_extension ::
    "'n wallet_lib \<Rightarrow> ctx \<Rightarrow> request \<Rightarrow> 'n tenant_wallet \<Rightarrow> 'n wallet_res" where
  "w_execute_extension lib c rq w =
     require (attached_deposit c \<noteq> 0) InsufficientDeposit (
     require (predecessor_account_id c \<in> tw_extensions w)
       (ExtensionNotEnabled (predecessor_account_id c)) (
     execute_request lib c rq (ActorExtension (predecessor_account_id c))
       (w\<lparr>tw_nonces := wl_check_cleanup lib (block_timestamp c) (tw_nonces w)\<rparr>)))"

end
