(* ===== verification/Wallet_Inv.thy ===== *)
theory Wallet_Inv
  imports Wallet
begin

text \<open>
  The wallet as a machine: the calls it accepts, the invariant every call keeps, and what
  holds in every wallet that can be reached from \<open>hos_init\<close>. One preservation lemma per
  operation; \<open>wallet_exec_inv\<close> collects them and the interpretation \<open>wm\<close> of
  \<open>contract_machine\<close> lifts them to runs.
\<close>

section \<open>Calls and steps\<close>

datatype wallet_call =
    CGrantSpend account_id "account_id list" u128 "token_allowance list" "item_allowance list" u64
  | CRevokeSpend account_id
  | CExecuteSigned
  | CExecuteExtension request
  | CSetPayoutAccount account_id account_id
  | CApproveImpl crypto_hash
  | CCancelImpl
  | CPinImpl
  | COnPinned crypto_hash u64 bool
  | CSetLease u64 operating_state
  | CRetractLease u64
  | CTransferOwnership "account_id option" rotation_cause "account_id option"
  | CReRent account_id account_id u64
  | CFreeze
  | CUnfreeze
  | CSweepNear
  | CSweepFt account_id u128
  | CResolveSweep account_id "account_id option" u128
  | CMigrate account_id

fun wallet_exec ::
    "'n wallet_lib \<Rightarrow> ctx \<Rightarrow> wallet_call \<Rightarrow> 'n tenant_wallet \<Rightarrow> 'n wallet_res" where
  "wallet_exec lib c (CGrantSpend e rs b ts its x) w = hos_grant_spend c e rs b ts its x w"
| "wallet_exec lib c (CRevokeSpend e) w = hos_revoke_spend c e w"
| "wallet_exec lib c CExecuteSigned w = w_execute_signed w"
| "wallet_exec lib c (CExecuteExtension rq) w = w_execute_extension lib c rq w"
| "wallet_exec lib c (CSetPayoutAccount p o') w = hos_set_payout_account c p o' w"
| "wallet_exec lib c (CApproveImpl h) w = hos_approve_impl c h w"
| "wallet_exec lib c CCancelImpl w = hos_cancel_impl c w"
| "wallet_exec lib c CPinImpl w = hos_pin_impl c w"
| "wallet_exec lib c (COnPinned h a b) w = hos_on_pinned c h a b w"
| "wallet_exec lib c (CSetLease l st) w = hos_set_lease c l st w"
| "wallet_exec lib c (CRetractLease l) w = hos_retract_lease c l w"
| "wallet_exec lib c (CTransferOwnership to cause ab) w = hos_transfer_ownership c to cause ab w"
| "wallet_exec lib c (CReRent to p l) w = hos_re_rent c to p l w"
| "wallet_exec lib c CFreeze w = hos_freeze c w"
| "wallet_exec lib c CUnfreeze w = hos_unfreeze c w"
| "wallet_exec lib c CSweepNear w = hos_sweep_near c w"
| "wallet_exec lib c (CSweepFt ft a) w = hos_sweep_ft c ft a w"
| "wallet_exec lib c (CResolveSweep p ft a) w =
     rbind (hos_resolve_sweep c p ft a w) (\<lambda>(w', outs, _). Inr (w', outs))"
| "wallet_exec lib c (CMigrate coll) w =
     hos_migrate c coll (Raw (Some (tw_state_version w)) (Some w))"

definition wallet_initial ::
    "'n wallet_lib \<Rightarrow> account_id \<Rightarrow> u64 \<Rightarrow> 'n tenant_wallet \<Rightarrow> bool" where
  "wallet_initial lib self t w \<longleftrightarrow>
     (\<exists>c config outs. current_account_id c = self \<and> block_timestamp c = t
        \<and> hos_init lib c False config = Inr (w, outs))"

inductive wallet_step ::
    "'n wallet_lib \<Rightarrow> account_id \<Rightarrow> u64 \<Rightarrow> 'n tenant_wallet \<Rightarrow> 'n tenant_wallet \<Rightarrow> bool"
  for lib self where
  call: "current_account_id c = self \<Longrightarrow> wallet_exec lib c call w = Inr (w', outs)
         \<Longrightarrow> wallet_step lib self (block_timestamp c) w w'"

inductive_cases wallet_stepE: "wallet_step lib self t w w'"

section \<open>Invariant\<close>

definition wallet_inv :: "account_id \<Rightarrow> 'n tenant_wallet \<Rightarrow> bool" where
  "wallet_inv self w \<longleftrightarrow>
     tw_authority w \<in> tw_extensions w
     \<and> tw_owner w \<noteq> tw_authority w
     \<and> tw_authority w \<noteq> self \<and> tw_owner w \<noteq> self \<and> tw_payout_account w \<noteq> self
     \<and> self \<notin> tw_extensions w
     \<and> finite (tw_extensions w)
     \<and> \<not> tw_signature_enabled w
     \<and> tw_spend_grants w (tw_owner w) = None \<and> tw_spend_grants w (tw_authority w) = None
     \<and> (\<forall>e. e \<notin> tw_extensions w \<longrightarrow> tw_spend_grants w e = None)
     \<and> (\<forall>p. tw_revert_to w = Some p \<longrightarrow> p \<noteq> self \<and> p \<noteq> tw_authority w)
     \<and> tw_state_version w = WALLET_STATE_VERSION"

lemma hos_init_inv:
  "hos_init lib c ex config = Inr (w, outs) \<Longrightarrow> wallet_inv (current_account_id c) w"
  by (auto simp: hos_init_def wallet_inv_def)

lemma grant_spend_inv:
  "hos_grant_spend c e rs b ts its x w = Inr (w', outs) \<Longrightarrow> wallet_inv self w \<Longrightarrow> wallet_inv self w'"
  by (auto simp: hos_grant_spend_def Let_def wallet_inv_def)

lemma revoke_spend_inv:
  "hos_revoke_spend c e w = Inr (w', outs) \<Longrightarrow> wallet_inv self w \<Longrightarrow> wallet_inv self w'"
  by (auto simp: hos_revoke_spend_def wallet_inv_def)

lemma set_payout_inv:
  "hos_set_payout_account c p o' w = Inr (w', outs) \<Longrightarrow> current_account_id c = self
   \<Longrightarrow> wallet_inv self w \<Longrightarrow> wallet_inv self w'"
  by (auto simp: hos_set_payout_account_def wallet_inv_def)

lemma impl_inv:
  "hos_approve_impl c h w = Inr (w', outs) \<Longrightarrow> wallet_inv self w \<Longrightarrow> wallet_inv self w'"
  "hos_cancel_impl c w = Inr (w', outs) \<Longrightarrow> wallet_inv self w \<Longrightarrow> wallet_inv self w'"
  "hos_pin_impl c w = Inr (w', outs) \<Longrightarrow> wallet_inv self w \<Longrightarrow> wallet_inv self w'"
  "hos_on_pinned c h a b w = Inr (w', outs) \<Longrightarrow> wallet_inv self w \<Longrightarrow> wallet_inv self w'"
  by (auto simp: hos_approve_impl_def hos_cancel_impl_def hos_pin_impl_def hos_on_pinned_def
        wallet_inv_def split: if_splits)

lemma lease_inv:
  "hos_set_lease c l st w = Inr (w', outs) \<Longrightarrow> wallet_inv self w \<Longrightarrow> wallet_inv self w'"
  "hos_retract_lease c l w = Inr (w', outs) \<Longrightarrow> wallet_inv self w \<Longrightarrow> wallet_inv self w'"
  by (auto simp: hos_set_lease_def hos_retract_lease_def wallet_inv_def)

lemma freeze_inv:
  "hos_freeze c w = Inr (w', outs) \<Longrightarrow> wallet_inv self w \<Longrightarrow> wallet_inv self w'"
  "hos_unfreeze c w = Inr (w', outs) \<Longrightarrow> wallet_inv self w \<Longrightarrow> wallet_inv self w'"
  by (auto simp: hos_freeze_def hos_unfreeze_def Let_def wallet_inv_def split: if_splits)

lemma sweep_unchanged:
  "hos_sweep_near c w = Inr (w', outs) \<Longrightarrow> w' = w"
  "hos_sweep_ft c ft a w = Inr (w', outs) \<Longrightarrow> w' = w"
  "hos_resolve_sweep c p fo a w = Inr (w', outs, r) \<Longrightarrow> w' = w"
  by (auto simp: hos_sweep_near_def hos_sweep_ft_def hos_resolve_sweep_def split: if_splits)

section \<open>Rotation\<close>

text \<open>What a rotation that went through has checked and done.\<close>

lemma rotation_gate_Inr:
  assumes "rotation_gate c to cause asked_by w = Inr w1"
  shows "w1 = (if cause = Revert then w\<lparr>tw_revert_to := None, tw_revert_until_ns := 0\<rparr>
               else w\<lparr>tw_revert_to := Some (tw_owner w),
                      tw_revert_until_ns := sat_add (block_timestamp c) REVERT_WINDOW_NS\<rparr>)"
    and "cause = Revert \<Longrightarrow>
           to = tw_revert_to w \<and> to \<noteq> None \<and> block_timestamp c < tw_revert_until_ns w"
    and "needs_holder cause \<Longrightarrow>
           \<exists>h. asked_by = Some h \<and> h \<in> tw_extensions w \<and> h \<noteq> tw_authority w"
    and "needs_expiry cause \<Longrightarrow> lease_expired c w"
  using assms by (auto simp: rotation_gate_def split: if_splits)

lemma seat_owner_fields:
  "tw_extensions (fst (seat_owner prev nxt cause w)) = insert nxt (tw_extensions w)"
  "tw_owner (fst (seat_owner prev nxt cause w)) = nxt"
  "tw_payout_account (fst (seat_owner prev nxt cause w)) =
     (if repoints_payout cause then nxt else tw_payout_account w)"
  "tw_frozen (fst (seat_owner prev nxt cause w)) =
     (if nxt \<noteq> prev \<and> tw_frozen w = SelfFrozen then Unfrozen else tw_frozen w)"
  "tw_authority (fst (seat_owner prev nxt cause w)) = tw_authority w"
  "tw_collection_id (fst (seat_owner prev nxt cause w)) = tw_collection_id w"
  "tw_lease_until_ns (fst (seat_owner prev nxt cause w)) = tw_lease_until_ns w"
  "tw_state (fst (seat_owner prev nxt cause w)) = tw_state w"
  "tw_state_version (fst (seat_owner prev nxt cause w)) = tw_state_version w"
  "tw_signature_enabled (fst (seat_owner prev nxt cause w)) = tw_signature_enabled w"
  "tw_spend_grants (fst (seat_owner prev nxt cause w)) = tw_spend_grants w"
  "tw_revert_to (fst (seat_owner prev nxt cause w)) = tw_revert_to w"
  "tw_revert_until_ns (fst (seat_owner prev nxt cause w)) = tw_revert_until_ns w"
  "tw_rotation_seq (fst (seat_owner prev nxt cause w)) = tw_rotation_seq w"
  "tw_authority_freeze_until_ns (fst (seat_owner prev nxt cause w)) =
     tw_authority_freeze_until_ns w"
  by (auto simp: seat_owner_def Let_def)

lemmas seat_owner_simps [simp] = seat_owner_fields

text \<open>The wallet a rotation leaves, as one expression over the wallet it found.\<close>

definition rotated ::
    "ctx \<Rightarrow> account_id option \<Rightarrow> rotation_cause \<Rightarrow> 'n tenant_wallet \<Rightarrow> 'n tenant_wallet" where
  "rotated c to cause w =
     (let w3 = w\<lparr>tw_revert_to := (if cause = Revert then None else Some (tw_owner w)),
                 tw_revert_until_ns :=
                   (if cause = Revert then 0 else sat_add (block_timestamp c) REVERT_WINDOW_NS),
                 tw_spend_grants := Map.empty,
                 tw_rotation_seq := sat_add (tw_rotation_seq w) 1,
                 tw_extensions := tw_extensions w \<inter> {tw_authority w},
                 tw_state := (if parks cause then Parked else tw_state w)\<rparr>
      in case to of None \<Rightarrow> w3 | Some nxt \<Rightarrow> fst (seat_owner (tw_owner w) nxt cause w3))"

lemma filter_eq_Int: "{x. x = a \<and> x \<in> S} = S \<inter> {a}"
  by auto

lemma apply_rotation_Inr:
  assumes "apply_rotation c to cause asked_by w = Inr (w', outs)"
  shows "w' = rotated c to cause w"
    and "\<exists>w1. rotation_gate c to cause asked_by w = Inr w1"
    and "\<forall>nxt. to = Some nxt \<longrightarrow> nxt \<noteq> current_account_id c \<and> nxt \<noteq> tw_authority w"
    and "SendSweep p a \<in> set outs \<Longrightarrow>
           p = tw_payout_account w \<and> sweeps cause \<and> to \<noteq> Some p \<and> p \<noteq> current_account_id c
           \<and> a = sweep_amount c \<and> a \<noteq> 0"
    and "SendExternal q \<notin> set outs" and "SendFtSweep t p a \<notin> set outs"
proof -
  from assms obtain w1 where g: "rotation_gate c to cause asked_by w = Inr w1"
    by (auto simp: apply_rotation_def)
  note w1 = rotation_gate_Inr(1) [OF g]
  show "w' = rotated c to cause w"
    using assms g w1
    by (cases to) (auto simp: apply_rotation_def rotated_def Let_def filter_eq_Int)
  show "\<exists>w1. rotation_gate c to cause asked_by w = Inr w1" using g by blast
  show "\<forall>nxt. to = Some nxt \<longrightarrow> nxt \<noteq> current_account_id c \<and> nxt \<noteq> tw_authority w"
    using assms g w1 by (auto simp: apply_rotation_def Let_def split: if_splits)
  show "SendSweep p a \<in> set outs \<Longrightarrow>
      p = tw_payout_account w \<and> sweeps cause \<and> to \<noteq> Some p \<and> p \<noteq> current_account_id c
      \<and> a = sweep_amount c \<and> a \<noteq> 0"
    and "SendExternal q \<notin> set outs" and "SendFtSweep t p a \<notin> set outs"
    using assms g w1
    by (cases to;
        auto simp: apply_rotation_def Let_def seat_owner_def sweep_to_def split: if_splits)+
qed

lemma rotated_fields [simp]:
  "tw_authority (rotated c to cause w) = tw_authority w"
  "tw_collection_id (rotated c to cause w) = tw_collection_id w"
  "tw_lease_until_ns (rotated c to cause w) = tw_lease_until_ns w"
  "tw_state_version (rotated c to cause w) = tw_state_version w"
  "tw_signature_enabled (rotated c to cause w) = tw_signature_enabled w"
  "tw_spend_grants (rotated c to cause w) = Map.empty"
  "tw_rotation_seq (rotated c to cause w) = sat_add (tw_rotation_seq w) 1"
  "tw_authority_freeze_until_ns (rotated c to cause w) = tw_authority_freeze_until_ns w"
  "tw_state (rotated c to cause w) = (if parks cause then Parked else tw_state w)"
  "tw_owner (rotated c to cause w) = (case to of None \<Rightarrow> tw_owner w | Some nxt \<Rightarrow> nxt)"
  "tw_extensions (rotated c to cause w) =
     (tw_extensions w \<inter> {tw_authority w}) \<union> set_option to"
  "tw_payout_account (rotated c to cause w) =
     (case to of Some nxt \<Rightarrow> if repoints_payout cause then nxt else tw_payout_account w
      | None \<Rightarrow> tw_payout_account w)"
  "tw_revert_to (rotated c to cause w) = (if cause = Revert then None else Some (tw_owner w))"
  "tw_revert_until_ns (rotated c to cause w) =
     (if cause = Revert then 0 else sat_add (block_timestamp c) REVERT_WINDOW_NS)"
  by (simp_all add: rotated_def Let_def split: option.split)

lemma rotated_inv:
  assumes "wallet_inv self w"
    and "\<forall>nxt. to = Some nxt \<longrightarrow> nxt \<noteq> self \<and> nxt \<noteq> tw_authority w"
  shows "wallet_inv self (rotated c to cause w)"
  using assms by (cases to) (auto simp: wallet_inv_def)

lemma transfer_inv:
  "hos_transfer_ownership c to cause asked_by w = Inr (w', outs) \<Longrightarrow> current_account_id c = self
   \<Longrightarrow> wallet_inv self w \<Longrightarrow> wallet_inv self w'"
  using apply_rotation_Inr(1,3) [of c to cause asked_by w w' outs]
  by (auto simp: hos_transfer_ownership_def intro!: rotated_inv)

lemma re_rent_Inr:
  assumes "hos_re_rent c to p l w = Inr (w', outs)"
  shows "w' = (rotated c (Some to) ReRent w)\<lparr>tw_payout_account := p, tw_lease_until_ns := l,
                tw_state := Active\<rparr>"
    and "p \<noteq> current_account_id c" "to \<noteq> current_account_id c" "to \<noteq> tw_authority w"
    and "lease_expired c w" "tw_lease_until_ns w \<le> l" "block_timestamp c < l"
    and "predecessor_account_id c = tw_authority w"
proof -
  from assms obtain w1 outs1 where r: "apply_rotation c (Some to) ReRent None w = Inr (w1, outs1)"
    and w': "w' = w1\<lparr>tw_payout_account := p, tw_lease_until_ns := l, tw_state := Active\<rparr>"
    by (auto simp: hos_re_rent_def)
  from apply_rotation_Inr(2) [OF r] obtain w2 where
    g: "rotation_gate c (Some to) ReRent None w = Inr w2" by blast
  show "w' = (rotated c (Some to) ReRent w)\<lparr>tw_payout_account := p, tw_lease_until_ns := l,
                tw_state := Active\<rparr>"
    using w' apply_rotation_Inr(1) [OF r] by simp
  show "to \<noteq> current_account_id c" "to \<noteq> tw_authority w"
    using apply_rotation_Inr(3) [OF r] by auto
  show "lease_expired c w" using rotation_gate_Inr(4) [OF g] by simp
  show "p \<noteq> current_account_id c" "tw_lease_until_ns w \<le> l" "block_timestamp c < l"
    "predecessor_account_id c = tw_authority w"
    using assms by (auto simp: hos_re_rent_def assert_authority_def)
qed

lemma re_rent_inv:
  assumes "hos_re_rent c to p l w = Inr (w', outs)" "current_account_id c = self"
    "wallet_inv self w"
  shows "wallet_inv self w'"
proof -
  have "wallet_inv self (rotated c (Some to) ReRent w)"
    using re_rent_Inr(3,4) [OF assms(1)] assms(2,3) by (auto intro: rotated_inv)
  then show ?thesis
    using re_rent_Inr(1,2) [OF assms(1)] assms(2) by (simp add: wallet_inv_def)
qed

section \<open>Executing a request\<close>

lemma execute_op_inv:
  "execute_op c actor op w = Inr (w', outs) \<Longrightarrow> wallet_inv (current_account_id c) w
   \<Longrightarrow> wallet_inv (current_account_id c) w'"
  by (cases op) (auto simp: add_extension_def remove_extension_def Let_def wallet_inv_def)

lemma execute_ops_inv:
  "execute_ops c actor ops w = Inr (w', outs) \<Longrightarrow> wallet_inv (current_account_id c) w
   \<Longrightarrow> wallet_inv (current_account_id c) w'"
  by (induction ops arbitrary: w w' outs) (auto dest: execute_op_inv)

lemma charge_spend_inv:
  "charge_spend lib c actor ext w = Inr (w', outs) \<Longrightarrow> wallet_inv self w \<Longrightarrow> wallet_inv self w'"
  by (cases actor) (auto simp: wallet_inv_def split: if_splits)

lemma execute_request_inv:
  "execute_request lib c rq actor w = Inr (w', outs) \<Longrightarrow> wallet_inv (current_account_id c) w
   \<Longrightarrow> wallet_inv (current_account_id c) w'"
  by (auto simp: execute_request_def split: if_splits dest: execute_ops_inv charge_spend_inv)

lemma execute_extension_inv:
  assumes "w_execute_extension lib c rq w = Inr (w', outs)" "current_account_id c = self"
    "wallet_inv self w"
  shows "wallet_inv self w'"
proof -
  let ?w0 = "w\<lparr>tw_nonces := wl_check_cleanup lib (block_timestamp c) (tw_nonces w)\<rparr>"
  have "wallet_inv self ?w0" using assms(3) by (simp add: wallet_inv_def)
  moreover have "execute_request lib c rq (ActorExtension (predecessor_account_id c)) ?w0
      = Inr (w', outs)"
    using assms(1) by (simp add: w_execute_extension_def)
  ultimately show ?thesis using assms(2) execute_request_inv by blast
qed

section \<open>Every call keeps the invariant\<close>

lemmas wallet_op_invs = grant_spend_inv revoke_spend_inv set_payout_inv impl_inv lease_inv
  freeze_inv transfer_inv re_rent_inv execute_extension_inv

lemma wallet_exec_inv:
  assumes "wallet_exec lib c call w = Inr (w', outs)" "current_account_id c = self"
    "wallet_inv self w"
  shows "wallet_inv self w'"
  using assms
  by (cases call)
    (auto simp: w_execute_signed_def hos_migrate_def split: if_splits
      intro: wallet_op_invs dest: sweep_unchanged)

interpretation wm: contract_machine "wallet_initial lib self" "wallet_step lib self"
  "\<lambda>_. wallet_inv self" for lib :: "'n wallet_lib" and self
  by unfold_locales
    (auto simp: wallet_initial_def intro: hos_init_inv wallet_exec_inv elim!: wallet_stepE)

text \<open>A wallet reachable at time \<open>t\<close>, and a run of the wallet from one time to another.\<close>

definition wallet_reachable ::
    "'n wallet_lib \<Rightarrow> account_id \<Rightarrow> u64 \<Rightarrow> 'n tenant_wallet \<Rightarrow> bool" where
  "wallet_reachable lib self = contract_machine.reach (wallet_initial lib self) (wallet_step lib self)"

definition wallet_run ::
    "'n wallet_lib \<Rightarrow> account_id \<Rightarrow> u64 \<Rightarrow> 'n tenant_wallet \<Rightarrow> u64 \<Rightarrow> 'n tenant_wallet \<Rightarrow> bool" where
  "wallet_run lib self = contract_machine.run (wallet_step lib self)"

end
