(* ===== verification/Wallet_Exec.thy ===== *)
theory Wallet_Exec
  imports Wallet_Inv
begin

text \<open>
  What the request path of the wallet does: the frame of the internal operations, the meters a
  spend grant keeps, the reserve, and the promises a call can send. The lemmas here carry the
  properties of \<open>Wallet_Props\<close>.
\<close>

section \<open>Promises a call sends\<close>

fun is_emit :: "wallet_out \<Rightarrow> bool" where
  "is_emit (Emit _) = True"
| "is_emit _ = False"

lemma no_send_in_emits:
  "list_all is_emit outs \<Longrightarrow> SendExternal p \<notin> set outs"
  "list_all is_emit outs \<Longrightarrow> SendSweep a b \<notin> set outs"
  "list_all is_emit outs \<Longrightarrow> SendFtSweep t a b \<notin> set outs"
  by (auto simp: list_all_iff)

lemma execute_op_frame:
  assumes "execute_op c actor op w = Inr (w', outs)"
  shows "w' = w\<lparr>tw_extensions := tw_extensions w', tw_spend_grants := tw_spend_grants w'\<rparr>"
    and "list_all is_emit outs"
    and "is_authority actor (tw_authority w) \<or> assert_owner actor w = Inr ()"
  using assms
  by (cases op; auto simp: add_extension_def remove_extension_def Let_def
        assert_extension_editor_def split: if_splits)+

lemma execute_ops_frame:
  assumes "execute_ops c actor ops w = Inr (w', outs)"
  shows "w' = w\<lparr>tw_extensions := tw_extensions w', tw_spend_grants := tw_spend_grants w'\<rparr>"
    and "list_all is_emit outs"
  using assms
proof (induction ops arbitrary: w w' outs)
  case Nil
  { case 1 then show ?case by simp next case 2 then show ?case by simp }
next
  case (Cons op ops)
  { case 1
    then obtain w1 o1 o2 where "execute_op c actor op w = Inr (w1, o1)"
      and "execute_ops c actor ops w1 = Inr (w', o2)" by auto
    with execute_op_frame(1) Cons.IH(1)
    have "w1 = w\<lparr>tw_extensions := tw_extensions w1, tw_spend_grants := tw_spend_grants w1\<rparr>"
      "w' = w1\<lparr>tw_extensions := tw_extensions w', tw_spend_grants := tw_spend_grants w'\<rparr>"
      by blast+
    then show ?case by (cases w; cases w1; cases w') simp
  next
    case 2
    then show ?case using execute_op_frame(2) Cons.IH(2) by fastforce }
qed

lemma execute_ops_fields:
  assumes "execute_ops c actor ops w = Inr (w', outs)"
  shows "tw_owner w' = tw_owner w" "tw_authority w' = tw_authority w"
    "tw_collection_id w' = tw_collection_id w" "tw_payout_account w' = tw_payout_account w"
    "tw_lease_until_ns w' = tw_lease_until_ns w" "tw_state w' = tw_state w"
    "tw_frozen w' = tw_frozen w"
    "tw_authority_freeze_until_ns w' = tw_authority_freeze_until_ns w"
    "tw_revert_to w' = tw_revert_to w" "tw_revert_until_ns w' = tw_revert_until_ns w"
  by (subst execute_ops_frame(1) [OF assms], simp)+

lemma execute_ops_blocking:
  "execute_ops c actor ops w = Inr (w', outs) \<Longrightarrow> blocking_condition c w' = blocking_condition c w"
  by (auto simp: blocking_condition_def effective_frozen_def lease_expired_def execute_ops_fields)

text \<open>Only the authority and the owner edit extensions, so the request of any other
  extension has no internal part.\<close>

lemma execute_ops_of_grantee:
  assumes "execute_ops c (ActorExtension e) ops w = Inr (w', outs)"
    and "e \<noteq> tw_owner w" "e \<noteq> tw_authority w"
  shows "ops = [] \<and> w' = w \<and> outs = []"
  using assms execute_op_frame(3) [of c "ActorExtension e" _ w] by (cases ops) fastforce+

lemma not_blocked_iff:
  "blocking_condition c w = None \<longleftrightarrow>
     tw_state w = Active \<and> \<not> lease_expired c w \<and> effective_frozen c w = Unfrozen"
  by (simp add: blocking_condition_def)

lemma renter_active_iff: "assert_renter_active c w = Inr u \<longleftrightarrow> blocking_condition c w = None"
  by (auto simp: assert_renter_active_def split: option.splits item_status_kind.splits)

lemma send_external_Inr:
  "send_external c ps = Inr outs \<longleftrightarrow>
     outs = map SendExternal ps \<and> (\<forall>p\<in>set ps. np_receiver_id p \<noteq> current_account_id c)"
  by (induction ps arbitrary: outs) auto

section \<open>Meters of a spend grant\<close>

definition native_spend :: "'n wallet_lib \<Rightarrow> near_promise list \<Rightarrow> nat" where
  "native_spend lib ps =
     sum_list (map (\<lambda>p. unat (wl_total_deposit lib p)) (filter (\<lambda>p. first_call (np_actions p) = None) ps))"

text \<open>The amount one promise moves of the token \<open>t\<close>: the argument of an \<open>ft_transfer\<close>
  sent to \<open>t\<close>.\<close>

definition ft_amount :: "'n wallet_lib \<Rightarrow> account_id \<Rightarrow> near_promise \<Rightarrow> nat" where
  "ft_amount lib t p =
     (case first_call (np_actions p) of
        None \<Rightarrow> 0
      | Some call \<Rightarrow>
          if np_receiver_id p = t \<and> call_function_name call = FT_TRANSFER
          then (case wl_ft_args lib (call_args call) of None \<Rightarrow> 0 | Some a \<Rightarrow> unat (fta_amount a))
          else 0)"

definition token_spend :: "'n wallet_lib \<Rightarrow> account_id \<Rightarrow> near_promise list \<Rightarrow> nat" where
  "token_spend lib t ps = sum_list (map (ft_amount lib t) ps)"

definition grant_spent :: "spend_grant \<Rightarrow> account_id \<Rightarrow> nat" where
  "grant_spent g t = (case sg_tokens g t of None \<Rightarrow> 0 | Some b \<Rightarrow> unat (tb_spent b))"

definition grant_cap :: "spend_grant \<Rightarrow> account_id \<Rightarrow> nat" where
  "grant_cap g t = (case sg_tokens g t of None \<Rightarrow> 0 | Some b \<Rightarrow> unat (tb_budget b))"

text \<open>Two grants that differ in their meters only.\<close>

definition same_terms :: "spend_grant \<Rightarrow> spend_grant \<Rightarrow> bool" where
  "same_terms g g' \<longleftrightarrow>
     sg_receivers g' = sg_receivers g \<and> sg_budget_yocto g' = sg_budget_yocto g
     \<and> sg_items g' = sg_items g \<and> sg_expires_at g' = sg_expires_at g
     \<and> (\<forall>t. map_option tb_budget (sg_tokens g' t) = map_option tb_budget (sg_tokens g t))"

lemma same_terms_refl [simp]: "same_terms g g"
  by (simp add: same_terms_def)

lemma same_terms_trans: "same_terms g g' \<Longrightarrow> same_terms g' g'' \<Longrightarrow> same_terms g g''"
  by (simp add: same_terms_def)

lemma same_terms_cap: "same_terms g g' \<Longrightarrow> grant_cap g' t = grant_cap g t"
  by (auto simp: same_terms_def grant_cap_def split: option.splits)
    (metis option.map_disc_iff option.simps(3), metis option.map_disc_iff option.simps(3),
     metis option.inject option.simps(9))

text \<open>The account a promise of a grantee pays: the receiver of the transfer, or the receiver
  named in the arguments of the token call.\<close>

definition pays_to :: "'n wallet_lib \<Rightarrow> near_promise \<Rightarrow> account_id option" where
  "pays_to lib p =
     (case first_call (np_actions p) of
        None \<Rightarrow> Some (np_receiver_id p)
      | Some call \<Rightarrow>
          if call_function_name call = FT_TRANSFER
          then map_option fta_receiver_id (wl_ft_args lib (call_args call))
          else map_option nta_receiver_id (wl_nft_args lib (call_args call)))"

lemma charge_promise_meters:
  assumes "charge_promise lib e coll p g = Inr (g', outs)"
  shows "same_terms g g'"
    and "unat (sg_spent_yocto g') = unat (sg_spent_yocto g) + native_spend lib [p]"
    and "native_spend lib [p] = 0 \<or> unat (sg_spent_yocto g') \<le> unat (sg_budget_yocto g)"
    and "\<forall>t. grant_spent g' t = grant_spent g t + ft_amount lib t p"
    and "\<forall>t. ft_amount lib t p = 0 \<or> grant_spent g' t \<le> grant_cap g t"
    and "\<exists>r \<in> sg_receivers g. pays_to lib p = Some r"
    and "list_all is_emit outs"
  using assms
  by (auto simp: charge_promise_def charge_transfer_def charge_token_call_def charge_ft_transfer_def
      charge_nft_transfer_def same_terms_def native_spend_def ft_amount_def grant_spent_def
      grant_cap_def pays_to_def checked_add_Some_iff word_le_nat_alt Let_def FT_TRANSFER_def
      NFT_TRANSFER_def
      split: option.splits if_splits)

lemma native_spend_Cons: "native_spend lib (p # ps) = native_spend lib [p] + native_spend lib ps"
  by (simp add: native_spend_def)

lemma token_spend_Cons: "token_spend lib t (p # ps) = ft_amount lib t p + token_spend lib t ps"
  by (simp add: token_spend_def)

lemma charge_promises_meters:
  assumes "charge_promises lib e coll ps g = Inr (g', outs)"
  shows "same_terms g g'"
    and "unat (sg_spent_yocto g') = unat (sg_spent_yocto g) + native_spend lib ps"
    and "native_spend lib ps = 0 \<or> unat (sg_spent_yocto g') \<le> unat (sg_budget_yocto g)"
    and "grant_spent g' t = grant_spent g t + token_spend lib t ps"
    and "token_spend lib t ps = 0 \<or> grant_spent g' t \<le> grant_cap g t"
    and "\<forall>p\<in>set ps. \<exists>r \<in> sg_receivers g. pays_to lib p = Some r"
    and "list_all is_emit outs"
proof -
  have "same_terms g g'
    \<and> unat (sg_spent_yocto g') = unat (sg_spent_yocto g) + native_spend lib ps
    \<and> (native_spend lib ps = 0 \<or> unat (sg_spent_yocto g') \<le> unat (sg_budget_yocto g))
    \<and> grant_spent g' t = grant_spent g t + token_spend lib t ps
    \<and> (token_spend lib t ps = 0 \<or> grant_spent g' t \<le> grant_cap g t)
    \<and> (\<forall>p\<in>set ps. \<exists>r \<in> sg_receivers g. pays_to lib p = Some r)
    \<and> list_all is_emit outs"
    using assms
  proof (induction ps arbitrary: g outs)
    case Nil
    then show ?case by (simp add: native_spend_def token_spend_def)
  next
    case (Cons p ps)
    then obtain g1 o1 o2 where p: "charge_promise lib e coll p g = Inr (g1, o1)"
      and ps: "charge_promises lib e coll ps g1 = Inr (g', o2)" and outs: "outs = o1 @ o2"
      by auto
    note m = charge_promise_meters [OF p]
    have r: "sg_receivers g1 = sg_receivers g" "sg_budget_yocto g1 = sg_budget_yocto g"
      using m(1) by (simp_all add: same_terms_def)
    have cap: "grant_cap g1 t = grant_cap g t" using m(1) by (rule same_terms_cap)
    show ?case
      using Cons.IH [OF ps] m(2-7) outs r cap same_terms_trans [OF m(1)]
      by (auto simp: native_spend_Cons [of lib p ps] token_spend_Cons)
  qed
  then show "same_terms g g'"
    and "unat (sg_spent_yocto g') = unat (sg_spent_yocto g) + native_spend lib ps"
    and "native_spend lib ps = 0 \<or> unat (sg_spent_yocto g') \<le> unat (sg_budget_yocto g)"
    and "grant_spent g' t = grant_spent g t + token_spend lib t ps"
    and "token_spend lib t ps = 0 \<or> grant_spent g' t \<le> grant_cap g t"
    and "\<forall>p\<in>set ps. \<exists>r \<in> sg_receivers g. pays_to lib p = Some r"
    and "list_all is_emit outs"
    by blast+
qed

section \<open>The reserve\<close>

lemma deposit_total_Inr:
  "rfold (\<lambda>promise total.
      ok_or (checked_add total (wl_total_deposit lib promise)) DEPOSIT_OVERFLOW Inr) ps a = Inr t
   \<longleftrightarrow> unat t = unat a + sum_list (map (\<lambda>p. unat (wl_total_deposit lib p)) ps)"
proof (induction ps arbitrary: a)
  case Nil
  then show ?case by (auto simp: word_unat_eq_iff)
next
  case (Cons p ps)
  show ?case
  proof (cases "checked_add a (wl_total_deposit lib p)")
    case None
    then have "unat t < unat a + unat (wl_total_deposit lib p)"
      using unat_bound [of t] by (simp add: checked_add_None_iff)
    with None show ?thesis by simp
  next
    case (Some b)
    then have "unat b = unat a + unat (wl_total_deposit lib p)"
      by (simp add: checked_add_Some_iff)
    with Some Cons.IH [of b] show ?thesis by (simp add: add.assoc)
  qed
qed

lemma reserve_pos: "0 < unat (reserve c)"
proof -
  have "unat RENTER_BUFFER \<le> unat (reserve c)"
    unfolding reserve_def by (simp add: word_le_nat_alt [symmetric])
  then show ?thesis by (simp add: RENTER_BUFFER_def)
qed

lemma within_reserve_iff:
  "assert_within_reserve lib c ps = Inr () \<longleftrightarrow>
     sum_list (map (\<lambda>p. unat (wl_total_deposit lib p)) ps) + unat (reserve c)
       \<le> unat (account_balance c)"
  (is "_ \<longleftrightarrow> ?S + _ \<le> _")
proof
  assume "assert_within_reserve lib c ps = Inr ()"
  then obtain t where "unat t = ?S" "reserve c \<le> sat_sub (account_balance c) t"
    by (auto simp: assert_within_reserve_def deposit_total_Inr)
  then show "?S + unat (reserve c) \<le> unat (account_balance c)"
    using reserve_pos [of c] by (simp add: word_le_nat_alt unat_sat_sub)
next
  assume le: "?S + unat (reserve c) \<le> unat (account_balance c)"
  let ?t = "word_of_nat ?S :: u128"
  have "?S < 2 ^ 128" using le unat_bound [of "account_balance c"] by simp
  then have t: "unat ?t = ?S" by (simp add: unsigned_of_nat take_bit_nat_eq_self)
  then have "rfold (\<lambda>promise total.
      ok_or (checked_add total (wl_total_deposit lib promise)) DEPOSIT_OVERFLOW Inr) ps 0 = Inr ?t"
    by (subst deposit_total_Inr) simp
  moreover have "reserve c \<le> sat_sub (account_balance c) ?t"
    using le t by (simp add: word_le_nat_alt unat_sat_sub)
  ultimately show "assert_within_reserve lib c ps = Inr ()"
    by (simp add: assert_within_reserve_def)
qed

section \<open>What a request that went through has passed\<close>

lemma blocking_condition_nonces [simp]:
  "blocking_condition c (w\<lparr>tw_nonces := n\<rparr>) = blocking_condition c w"
  by (simp add: blocking_condition_def effective_frozen_def lease_expired_def)

lemma charge_spend_frame:
  assumes "charge_spend lib c actor ps w = Inr (w', outs)"
  shows "w' = w\<lparr>tw_spend_grants := tw_spend_grants w'\<rparr>" and "list_all is_emit outs"
  using assms by (cases actor; auto split: if_splits dest: charge_promises_meters(7))+

lemma execute_extension_Inr:
  assumes "w_execute_extension lib c rq w = Inr (w', outs)" and "rq_external rq \<noteq> []"
  defines "e \<equiv> predecessor_account_id c"
  obtains w0 w1 outs1 outs2 where
    "w0 = w\<lparr>tw_nonces := wl_check_cleanup lib (block_timestamp c) (tw_nonces w)\<rparr>"
    "attached_deposit c \<noteq> 0" "e \<in> tw_extensions w" "e \<noteq> tw_authority w"
    "execute_ops c (ActorExtension e) (rq_internal rq) w0 = Inr (w1, outs1)"
    "blocking_condition c w = None"
    "charge_spend lib c (ActorExtension e) (rq_external rq) w1 = Inr (w', outs2)"
    "assert_within_reserve lib c (rq_external rq) = Inr ()"
    "\<forall>p\<in>set (rq_external rq). np_receiver_id p \<noteq> current_account_id c"
    "outs = outs1 @ outs2 @ map SendExternal (rq_external rq)"
proof -
  let ?w0 = "w\<lparr>tw_nonces := wl_check_cleanup lib (block_timestamp c) (tw_nonces w)\<rparr>"
  from assms(1,2) obtain w1 o1 o2 where
    ops: "execute_ops c (ActorExtension e) (rq_internal rq) ?w0 = Inr (w1, o1)"
    and rest: "attached_deposit c \<noteq> 0" "e \<in> tw_extensions w"
    "assert_renter (ActorExtension e) w1 = Inr ()" "assert_renter_active c w1 = Inr ()"
    "charge_spend lib c (ActorExtension e) (rq_external rq) w1 = Inr (w', o2)"
    "assert_within_reserve lib c (rq_external rq) = Inr ()"
    "\<forall>p\<in>set (rq_external rq). np_receiver_id p \<noteq> current_account_id c"
    "outs = o1 @ o2 @ map SendExternal (rq_external rq)"
    by (auto simp: w_execute_extension_def execute_request_def send_external_Inr e_def)
  have "blocking_condition c w = None"
    using rest(4) execute_ops_blocking [OF ops] by (simp add: renter_active_iff)
  moreover have "e \<noteq> tw_authority w"
    using rest(3) execute_ops_fields(2) [OF ops] by (simp add: assert_renter_def)
  ultimately show thesis using that [OF refl rest(1,2) _ ops _ rest(5-8)] by blast
qed

lemma execute_extension_frame:
  assumes "w_execute_extension lib c rq w = Inr (w', outs)"
  shows "w' = w\<lparr>tw_nonces := tw_nonces w', tw_extensions := tw_extensions w',
                tw_spend_grants := tw_spend_grants w'\<rparr>"
    and "SendSweep p a \<notin> set outs"
    and "SendExternal q \<in> set outs \<Longrightarrow> q \<in> set (rq_external rq)"
proof -
  let ?w0 = "w\<lparr>tw_nonces := wl_check_cleanup lib (block_timestamp c) (tw_nonces w)\<rparr>"
  let ?e = "ActorExtension (predecessor_account_id c)"
  have "(\<exists>n x g. w' = w\<lparr>tw_nonces := n, tw_extensions := x, tw_spend_grants := g\<rparr>)
      \<and> SendSweep p a \<notin> set outs
      \<and> (SendExternal q \<in> set outs \<longrightarrow> q \<in> set (rq_external rq))"
  proof (cases "rq_external rq = []")
    case True
    then have ops: "execute_ops c ?e (rq_internal rq) ?w0 = Inr (w', outs)"
      using assms by (auto simp: w_execute_extension_def execute_request_def)
    from execute_ops_frame(1) [OF ops] no_send_in_emits [OF execute_ops_frame(2) [OF ops]]
    show ?thesis by blast
  next
    case False
    from assms False obtain w1 o1 o2 where
      ops: "execute_ops c ?e (rq_internal rq) ?w0 = Inr (w1, o1)"
      and cs: "charge_spend lib c ?e (rq_external rq) w1 = Inr (w', o2)"
      and outs: "outs = o1 @ o2 @ map SendExternal (rq_external rq)"
      by (elim execute_extension_Inr) blast+
    from execute_ops_frame(1) [OF ops] obtain x g where
      "w1 = ?w0\<lparr>tw_extensions := x, tw_spend_grants := g\<rparr>" by blast
    moreover from charge_spend_frame(1) [OF cs] obtain g' where
      "w' = w1\<lparr>tw_spend_grants := g'\<rparr>" by blast
    ultimately have "w' = ?w0\<lparr>tw_extensions := x, tw_spend_grants := g'\<rparr>" by simp
    moreover have "SendExternal q \<in> set outs \<Longrightarrow> q \<in> set (rq_external rq)"
      "SendSweep p a \<notin> set outs"
      using outs no_send_in_emits [OF charge_spend_frame(2) [OF cs]]
        no_send_in_emits [OF execute_ops_frame(2) [OF ops]] by auto
    ultimately show ?thesis by blast
  qed
  then have "w' = w\<lparr>tw_nonces := tw_nonces w', tw_extensions := tw_extensions w',
                tw_spend_grants := tw_spend_grants w'\<rparr>
      \<and> SendSweep p a \<notin> set outs
      \<and> (SendExternal q \<in> set outs \<longrightarrow> q \<in> set (rq_external rq))" by auto
  then show "w' = w\<lparr>tw_nonces := tw_nonces w', tw_extensions := tw_extensions w',
                tw_spend_grants := tw_spend_grants w'\<rparr>"
    and "SendSweep p a \<notin> set outs"
    and "SendExternal q \<in> set outs \<Longrightarrow> q \<in> set (rq_external rq)" by blast+
qed

lemma execute_extension_fields:
  assumes "w_execute_extension lib c rq w = Inr (w', outs)"
  shows "tw_owner w' = tw_owner w" "tw_authority w' = tw_authority w"
    "tw_lease_until_ns w' = tw_lease_until_ns w"
    "tw_authority_freeze_until_ns w' = tw_authority_freeze_until_ns w"
    "tw_collection_id w' = tw_collection_id w"
  by (subst execute_extension_frame(1) [OF assms], simp)+

lemma execute_extension_no_ft_sweep:
  assumes "w_execute_extension lib c rq w = Inr (w', outs)"
  shows "SendFtSweep t p a \<notin> set outs"
proof (cases "rq_external rq = []")
  case True
  with assms show ?thesis
    by (auto simp: w_execute_extension_def execute_request_def
        dest!: execute_ops_frame(2) no_send_in_emits(3) [where t = t and a = p and b = a])
next
  case False
  let ?e = "ActorExtension (predecessor_account_id c)"
  from assms False obtain w0 w1 o1 o2 where
    ops: "execute_ops c ?e (rq_internal rq) w0 = Inr (w1, o1)"
    and cs: "charge_spend lib c ?e (rq_external rq) w1 = Inr (w', o2)"
    and outs: "outs = o1 @ o2 @ map SendExternal (rq_external rq)"
    by (elim execute_extension_Inr) blast+
  show ?thesis
    using no_send_in_emits(3) [OF execute_ops_frame(2) [OF ops]]
      no_send_in_emits(3) [OF charge_spend_frame(2) [OF cs]] by (auto simp: outs)
qed

section \<open>What one call can change\<close>

lemmas quiet_call_defs =
  hos_grant_spend_def hos_revoke_spend_def w_execute_signed_def hos_set_payout_account_def
  hos_approve_impl_def hos_cancel_impl_def hos_pin_impl_def hos_on_pinned_def hos_set_lease_def
  hos_retract_lease_def hos_freeze_def hos_unfreeze_def

lemma wallet_exec_lease:
  assumes "wallet_exec lib c call w = Inr (w', outs)"
  shows "tw_lease_until_ns w \<le> tw_lease_until_ns w'
         \<or> sat_add (block_timestamp c) MIN_LEASE_RETRACT_NOTICE_NS \<le> tw_lease_until_ns w'"
  using assms
proof (cases call)
  case (CReRent to p l)
  then show ?thesis using assms re_rent_Inr(1,6) [of c to p l w w' outs] by simp
next
  case (CTransferOwnership to cause ab)
  then show ?thesis using assms apply_rotation_Inr(1) [of c to cause ab w w' outs]
    by (auto simp: hos_transfer_ownership_def)
next
  case (CExecuteExtension rq)
  then show ?thesis using assms execute_extension_fields(3) [of lib c rq w w' outs] by simp
next
  case (CResolveSweep p ft a)
  then show ?thesis using assms by (auto dest: sweep_unchanged)
qed (auto simp: quiet_call_defs hos_migrate_def Let_def dest: sweep_unchanged split: if_splits)

lemma wallet_exec_freeze_until:
  assumes "wallet_exec lib c call w = Inr (w', outs)"
  shows "tw_authority_freeze_until_ns w' = tw_authority_freeze_until_ns w
         \<or> sat_add (tw_authority_freeze_until_ns w) AUTHORITY_FREEZE_COOLDOWN_NS \<le> block_timestamp c"
proof (cases call)
  case (CReRent to p l)
  then show ?thesis using assms re_rent_Inr(1) [of c to p l w w' outs] by simp
next
  case (CTransferOwnership to cause ab)
  then show ?thesis using assms apply_rotation_Inr(1) [of c to cause ab w w' outs]
    by (auto simp: hos_transfer_ownership_def)
next
  case (CExecuteExtension rq)
  then show ?thesis using assms execute_extension_fields(4) [of lib c rq w w' outs] by simp
next
  case (CResolveSweep p ft a)
  then show ?thesis using assms by (auto dest: sweep_unchanged)
qed (use assms in \<open>auto simp: quiet_call_defs hos_migrate_def Let_def dest: sweep_unchanged split: if_splits\<close>)

lemma wallet_exec_owner:
  assumes "wallet_exec lib c call w = Inr (w', outs)"
    and "tw_owner w' \<noteq> tw_owner w"
  shows "(\<exists>to cause ab. call = CTransferOwnership to cause ab) \<or> (\<exists>to p l. call = CReRent to p l)"
proof (cases call)
  case (CExecuteExtension rq)
  then show ?thesis using assms execute_extension_fields(1) [of lib c rq w w' outs] by simp
next
  case (CResolveSweep p ft a)
  then show ?thesis using assms by (auto dest: sweep_unchanged)
qed (use assms in \<open>auto simp: quiet_call_defs hos_migrate_def Let_def dest: sweep_unchanged split: if_splits\<close>)

lemma wallet_exec_sends:
  assumes "wallet_exec lib c call w = Inr (w', outs)" and "SendExternal p \<in> set outs"
  shows "\<exists>rq. call = CExecuteExtension rq"
proof (cases call)
  case (CReRent to po l)
  then show ?thesis using assms apply_rotation_Inr(5) [of c "Some to" ReRent None w _ _ p]
    by (auto simp: hos_re_rent_def)
next
  case (CTransferOwnership to cause ab)
  then show ?thesis using assms apply_rotation_Inr(5) [of c to cause ab w w' outs p]
    by (auto simp: hos_transfer_ownership_def)
qed (use assms in \<open>auto simp: quiet_call_defs hos_sweep_near_def hos_sweep_ft_def hos_resolve_sweep_def hos_migrate_def Let_def
      split: if_splits option.splits\<close>)

lemma wallet_exec_sweeps:
  assumes "wallet_exec lib c call w = Inr (w', outs)" and "SendSweep p a \<in> set outs"
  shows "predecessor_account_id c = tw_authority w"
    and "p = tw_payout_account w \<and> a = sweep_amount c \<and> a \<noteq> 0"
proof -
  have "predecessor_account_id c = tw_authority w
      \<and> (p = tw_payout_account w \<and> a = sweep_amount c \<and> a \<noteq> 0)"
  proof (cases call)
    case (CReRent to po l)
    then show ?thesis using assms apply_rotation_Inr(4) [of c "Some to" ReRent None w _ _ p a]
      by (auto simp: hos_re_rent_def assert_authority_def)
  next
    case (CTransferOwnership to cause ab)
    then show ?thesis using assms apply_rotation_Inr(4) [of c to cause ab w w' outs p a]
      by (auto simp: hos_transfer_ownership_def assert_authority_def)
  next
    case (CExecuteExtension rq)
    then show ?thesis using assms execute_extension_frame(2) [of lib c rq w w' outs p a] by simp
  qed (use assms in \<open>auto simp: quiet_call_defs hos_sweep_near_def hos_sweep_ft_def hos_resolve_sweep_def assert_sweepable_def
      assert_authority_def hos_migrate_def Let_def word_gt_zero_iff split: if_splits\<close>)
  then show "predecessor_account_id c = tw_authority w"
    and "p = tw_payout_account w \<and> a = sweep_amount c \<and> a \<noteq> 0" by blast+
qed

lemma wallet_exec_ft_sweeps:
  assumes "wallet_exec lib c call w = Inr (w', outs)" and "SendFtSweep t p a \<in> set outs"
  shows "predecessor_account_id c = tw_authority w \<and> p = tw_payout_account w"
proof (cases call)
  case (CReRent to po l)
  then show ?thesis using assms apply_rotation_Inr(6) [of c "Some to" ReRent None w _ _ t p a]
    by (auto simp: hos_re_rent_def)
next
  case (CTransferOwnership to cause ab)
  then show ?thesis using assms apply_rotation_Inr(6) [of c to cause ab w w' outs t p a]
    by (auto simp: hos_transfer_ownership_def)
next
  case (CExecuteExtension rq)
  then show ?thesis using assms execute_extension_no_ft_sweep [of lib c rq w w' outs t p a] by simp
qed (use assms in \<open>auto simp: quiet_call_defs hos_sweep_near_def hos_sweep_ft_def hos_resolve_sweep_def
      assert_sweepable_def assert_authority_def hos_migrate_def Let_def split: if_splits\<close>)

end
