(* ===== verification/Wallet_Props.thy ===== *)
theory Wallet_Props
  imports Wallet_Exec
begin

text \<open>
  The properties of the tenant wallet: who may move its value and how much, how long a lease
  lasts, who may change the owner and how, and how long the authority can hold a wallet frozen.
  Each property is followed by a concrete run that meets its hypotheses.
\<close>

section \<open>A concrete wallet\<close>

text \<open>The parameters of the model instantiated: a nonce store with nothing in it, a deposit
  that adds up the actions, and one readable \<open>ft_transfer\<close> argument.\<close>

definition demo_deposit :: "near_action list \<Rightarrow> u128" where
  "demo_deposit acts =
     sum_list (map (\<lambda>a. case a of TransferAction n \<Rightarrow> n | FunctionCall f \<Rightarrow> call_deposit f
                                | OtherAction _ \<Rightarrow> 0) acts)"

definition demo_lib :: "unit wallet_lib" where
  "demo_lib =
     \<lparr>wl_new_nonces = (\<lambda>_. ()), wl_check_cleanup = (\<lambda>_ n. n),
      wl_total_deposit = (\<lambda>p. demo_deposit (np_actions p)),
      wl_ft_args = (\<lambda>bs. if bs = [1] then Some \<lparr>fta_receiver_id = ''shop'', fta_amount = 40\<rparr>
                         else None),
      wl_nft_args = (\<lambda>_. None), wl_auth_blob = (\<lambda>_. None)\<rparr>"

definition demo_ctx :: "account_id \<Rightarrow> u64 \<Rightarrow> u128 \<Rightarrow> ctx" where
  "demo_ctx who now deposit =
     \<lparr>predecessor_account_id = who, current_account_id = ''a.tla'', block_timestamp = now,
      block_height = 1, attached_deposit = deposit, account_balance = 10000000000000000000000,
      storage_byte_cost = 1, storage_usage = 1000, prepaid_gas = tgas 300, used_gas = 0,
      promise_results = []\<rparr>"

definition demo_init :: wallet_init where
  "demo_init =
     \<lparr>wi_owner_account = ''alice'', wi_authority = ''ext'', wi_collection_id = ''reg'',
      wi_payout_account = ''alice'', wi_lease_until_ns = 100000000000000000, wi_timeout_secs = 60\<rparr>"

definition demo_wallet :: "unit tenant_wallet" where
  "demo_wallet = \<lparr>tw_state_version = 1, tw_extensions = {''alice'', ''ext''},
     tw_signature_enabled = False, tw_nonces = (), tw_authority = ''ext'', tw_owner = ''alice'',
     tw_collection_id = ''reg'', tw_payout_account = ''alice'',
     tw_lease_until_ns = 100000000000000000, tw_state = Active, tw_frozen = Unfrozen,
     tw_authority_freeze_until_ns = 0, tw_spend_grants = Map.empty, tw_revert_to = None,
     tw_revert_until_ns = 0, tw_rotation_seq = 0, tw_pinned_impl = None, tw_approved_impl = None,
     tw_approved_impl_at = 0\<rparr>"

lemmas demo_defs = demo_deposit_def demo_lib_def demo_ctx_def demo_init_def demo_wallet_def

lemmas guard_defs = assert_one_yocto_def assert_authority_def assert_owner_caller_def
  assert_renter_active_def blocking_condition_def effective_frozen_def lease_expired_def
  one_yocto_def WALLET_STATE_VERSION_def

lemma demo_init_step:
  "hos_init demo_lib (demo_ctx ''tla'' 5 0) False demo_init
     = Inr (demo_wallet, [Emit (WalletInitialized ''alice'')])"
  by (simp add: hos_init_def demo_defs no_deposit_def is_direct_subaccount_def strip_suffix_def
      MIN_TIMEOUT_SECS_def MAX_TIMEOUT_SECS_def WALLET_STATE_VERSION_def)

lemma demo_reachable: "wallet_reachable demo_lib ''a.tla'' 5 demo_wallet"
proof -
  have "current_account_id (demo_ctx ''tla'' 5 0) = ''a.tla''"
    "block_timestamp (demo_ctx ''tla'' 5 0) = 5" by (simp_all add: demo_ctx_def)
  with demo_init_step have "wallet_initial demo_lib ''a.tla'' 5 demo_wallet"
    unfolding wallet_initial_def by blast
  then show ?thesis unfolding wallet_reachable_def by (rule wm.reach_init)
qed

section \<open>Reachable wallets\<close>

text \<open>
  C4. Every wallet that \<open>hos_init\<close> and any sequence of successful calls can produce keeps
  the wallet invariant: the authority is an extension and is not the owner, neither the wallet
  itself nor an account that is not an extension holds power or a spend grant, the owner and
  the authority hold no grant, signatures stay disabled and a pending revert names a valid owner.
\<close>

theorem wallet_reachable_inv:
  "wallet_reachable lib self t w \<Longrightarrow> wallet_inv self w"
  unfolding wallet_reachable_def by (rule wm.reach_inv)

theorem wallet_reachable_inv_witness:
  "wallet_reachable demo_lib ''a.tla'' 5 demo_wallet \<and> wallet_inv ''a.tla'' demo_wallet"
  using wallet_reachable_inv [OF demo_reachable] demo_reachable by blast

section \<open>Spending\<close>

lemma request_send_authorised:
  assumes "wallet_exec lib c call w = Inr (w', outs)" and "SendExternal p \<in> set outs"
  shows "(\<exists>rq. call = CExecuteExtension rq \<and> p \<in> set (rq_external rq))
    \<and> predecessor_account_id c \<in> tw_extensions w
    \<and> predecessor_account_id c \<noteq> tw_authority w
    \<and> tw_state w = Active \<and> \<not> lease_expired c w \<and> effective_frozen c w = Unfrozen
    \<and> np_receiver_id p \<noteq> current_account_id c
    \<and> (predecessor_account_id c = tw_owner w
       \<or> (\<exists>g. tw_spend_grants w (predecessor_account_id c) = Some g
            \<and> block_timestamp c < sg_expires_at g
            \<and> (\<exists>r \<in> sg_receivers g. pays_to lib p = Some r)))"
proof -
  let ?e = "predecessor_account_id c"
  from assms wallet_exec_sends obtain rq where rq: "call = CExecuteExtension rq" by blast
  with assms(1) have ex: "w_execute_extension lib c rq w = Inr (w', outs)" by simp
  have p: "p \<in> set (rq_external rq)" using execute_extension_frame(3) [OF ex assms(2)] .
  from p have "rq_external rq \<noteq> []" by auto
  with ex obtain w1 o1 o2 where e: "?e \<in> tw_extensions w" "?e \<noteq> tw_authority w"
    and ops: "execute_ops c (ActorExtension ?e) (rq_internal rq)
        (w\<lparr>tw_nonces := wl_check_cleanup lib (block_timestamp c) (tw_nonces w)\<rparr>) = Inr (w1, o1)"
    and b: "blocking_condition c w = None"
    and cs: "charge_spend lib c (ActorExtension ?e) (rq_external rq) w1 = Inr (w', o2)"
    and r: "\<forall>p\<in>set (rq_external rq). np_receiver_id p \<noteq> current_account_id c"
    by (elim execute_extension_Inr) blast+
  have "?e = tw_owner w \<or> (\<exists>g. tw_spend_grants w ?e = Some g
              \<and> block_timestamp c < sg_expires_at g
              \<and> (\<exists>r \<in> sg_receivers g. pays_to lib p = Some r))"
  proof (cases "?e = tw_owner w")
    case False
    with e have "w1 = w\<lparr>tw_nonces := wl_check_cleanup lib (block_timestamp c) (tw_nonces w)\<rparr>"
      using execute_ops_of_grantee [OF ops] by simp
    with False cs show ?thesis
      using p charge_promises_meters(6) by (auto split: if_splits) blast
  qed simp
  with rq p e b r show ?thesis unfolding not_blocked_iff by blast
qed

text \<open>
  C8. What can leave a wallet, and on whose word. Whatever call a wallet answers, a promise of a
  request leaves it only through \<open>w_execute_extension\<close>, on an active wallet whose lease runs and which
  is not frozen, never on the word of the authority and never back to the wallet itself: the caller is
  the owner, or an extension with a live grant, and then the promise pays an account the grant
  names. Being an extension is not enough. Sweeps of NEAR and of tokens are the only other
  promises that carry value: the authority alone makes the wallet send them, and they go to the
  payout account and nowhere else.
\<close>

theorem external_send_authorised:
  assumes "wallet_exec lib c call w = Inr (w', outs)"
  shows "(\<forall>p. SendExternal p \<in> set outs \<longrightarrow>
      (\<exists>rq. call = CExecuteExtension rq \<and> p \<in> set (rq_external rq))
      \<and> predecessor_account_id c \<in> tw_extensions w
      \<and> predecessor_account_id c \<noteq> tw_authority w
      \<and> tw_state w = Active \<and> \<not> lease_expired c w \<and> effective_frozen c w = Unfrozen
      \<and> np_receiver_id p \<noteq> current_account_id c
      \<and> (predecessor_account_id c = tw_owner w
         \<or> (\<exists>g. tw_spend_grants w (predecessor_account_id c) = Some g
              \<and> block_timestamp c < sg_expires_at g
              \<and> (\<exists>r \<in> sg_receivers g. pays_to lib p = Some r))))
    \<and> (\<forall>a n. SendSweep a n \<in> set outs \<longrightarrow>
         predecessor_account_id c = tw_authority w \<and> a = tw_payout_account w
         \<and> n = sweep_amount c \<and> n \<noteq> 0)
    \<and> (\<forall>t a n. SendFtSweep t a n \<in> set outs \<longrightarrow>
         predecessor_account_id c = tw_authority w \<and> a = tw_payout_account w)"
proof (intro conjI)
  show "\<forall>p. SendExternal p \<in> set outs \<longrightarrow>
      (\<exists>rq. call = CExecuteExtension rq \<and> p \<in> set (rq_external rq))
      \<and> predecessor_account_id c \<in> tw_extensions w
      \<and> predecessor_account_id c \<noteq> tw_authority w
      \<and> tw_state w = Active \<and> \<not> lease_expired c w \<and> effective_frozen c w = Unfrozen
      \<and> np_receiver_id p \<noteq> current_account_id c
      \<and> (predecessor_account_id c = tw_owner w
         \<or> (\<exists>g. tw_spend_grants w (predecessor_account_id c) = Some g
              \<and> block_timestamp c < sg_expires_at g
              \<and> (\<exists>r \<in> sg_receivers g. pays_to lib p = Some r)))"
    by (intro allI impI) (rule request_send_authorised [OF assms])
qed (use wallet_exec_sweeps [OF assms] wallet_exec_ft_sweeps [OF assms] in blast)+

text \<open>Alice grants \<open>bot\<close> a budget of 100 towards \<open>shop\<close>; the bot then spends 60 of it.\<close>

definition demo_granted :: "unit tenant_wallet" where
  "demo_granted = demo_wallet\<lparr>tw_extensions := {''alice'', ''ext'', ''bot''},
     tw_spend_grants := [''bot'' \<mapsto> \<lparr>sg_receivers = {''shop''}, sg_budget_yocto = 100,
       sg_spent_yocto = 0, sg_tokens = [''usdc'' \<mapsto> \<lparr>tb_budget = 50, tb_spent = 0\<rparr>],
       sg_items = Map.empty, sg_expires_at = 1000\<rparr>]\<rparr>"

definition pay_shop :: near_promise where
  "pay_shop = \<lparr>np_receiver_id = ''shop'', np_refund_to = None, np_actions = [TransferAction 60]\<rparr>"

definition pay_usdc :: near_promise where
  "pay_usdc = \<lparr>np_receiver_id = ''usdc'', np_refund_to = None, np_actions =
     [FunctionCall \<lparr>call_function_name = ''ft_transfer'', call_args = [1], call_deposit = 1\<rparr>]\<rparr>"

definition demo_request :: request where
  "demo_request = \<lparr>rq_internal = [], rq_external = [pay_shop, pay_usdc]\<rparr>"

definition demo_spent :: "unit tenant_wallet" where
  "demo_spent = demo_granted\<lparr>tw_spend_grants := [''bot'' \<mapsto> \<lparr>sg_receivers = {''shop''},
     sg_budget_yocto = 100, sg_spent_yocto = 60,
     sg_tokens = [''usdc'' \<mapsto> \<lparr>tb_budget = 50, tb_spent = 40\<rparr>],
     sg_items = Map.empty, sg_expires_at = 1000\<rparr>]\<rparr>"

lemma demo_spend_step:
  "w_execute_extension demo_lib (demo_ctx ''bot'' 10 1) demo_request demo_granted
   = Inr (demo_spent, [Emit (SpendCharged ''bot'' None ''shop'' 60 60),
       Emit (SpendCharged ''bot'' (Some ''usdc'') ''shop'' 40 40),
       SendExternal pay_shop, SendExternal pay_usdc])"
  by (simp add: demo_spent_def demo_granted_def demo_request_def pay_shop_def pay_usdc_def demo_defs
      w_execute_extension_def execute_request_def assert_renter_def guard_defs charge_promise_def
      charge_transfer_def charge_token_call_def charge_ft_transfer_def checked_add_def
      assert_within_reserve_def reserve_def sat_mul_def sat_add_def sat_sub_def RENTER_BUFFER_def
      FT_TRANSFER_def Let_def)

theorem external_send_authorised_witness:
  "\<not> lease_expired (demo_ctx ''bot'' 10 1) demo_granted \<and>
   effective_frozen (demo_ctx ''bot'' 10 1) demo_granted = Unfrozen"
  using external_send_authorised
    [of demo_lib "demo_ctx ''bot'' 10 1" "CExecuteExtension demo_request" demo_granted]
    demo_spend_step by fastforce

definition exec_requests ::
    "'n wallet_lib \<Rightarrow> (ctx \<times> request) list \<Rightarrow> 'n tenant_wallet \<Rightarrow> wallet_error + 'n tenant_wallet" where
  "exec_requests lib rs w =
     rfold (\<lambda>(c, rq) w. rbind (w_execute_extension lib c rq w) (\<lambda>(w', _). Inr w')) rs w"

definition all_external :: "(ctx \<times> request) list \<Rightarrow> near_promise list" where
  "all_external rs = concat (map (\<lambda>(c, rq). rq_external rq) rs)"

definition metered :: "'n wallet_lib \<Rightarrow> near_promise list \<Rightarrow> spend_grant \<Rightarrow> spend_grant \<Rightarrow> bool" where
  "metered lib ps g g' \<longleftrightarrow>
     same_terms g g'
     \<and> unat (sg_spent_yocto g') = unat (sg_spent_yocto g) + native_spend lib ps
     \<and> (native_spend lib ps = 0 \<or> unat (sg_spent_yocto g') \<le> unat (sg_budget_yocto g))
     \<and> (\<forall>t. grant_spent g' t = grant_spent g t + token_spend lib t ps
            \<and> (token_spend lib t ps = 0 \<or> grant_spent g' t \<le> grant_cap g t))
     \<and> (\<forall>p\<in>set ps. \<exists>r \<in> sg_receivers g. pays_to lib p = Some r)"

lemma native_spend_append: "native_spend lib (ps @ qs) = native_spend lib ps + native_spend lib qs"
  by (simp add: native_spend_def)

lemma token_spend_append:
  "token_spend lib t (ps @ qs) = token_spend lib t ps + token_spend lib t qs"
  by (simp add: token_spend_def)

lemma metered_Nil [simp]: "metered lib [] g g"
  by (simp add: metered_def native_spend_def token_spend_def)

lemma metered_append:
  assumes "metered lib ps g g1" and "metered lib qs g1 g2"
  shows "metered lib (ps @ qs) g g2"
proof -
  from assms have st: "same_terms g g1" "same_terms g1 g2" by (simp_all add: metered_def)
  have r: "sg_receivers g1 = sg_receivers g" "sg_budget_yocto g1 = sg_budget_yocto g"
    using st(1) by (simp_all add: same_terms_def)
  have toks: "grant_spent g2 t = grant_spent g t + token_spend lib t (ps @ qs)
    \<and> (token_spend lib t (ps @ qs) = 0 \<or> grant_spent g2 t \<le> grant_cap g t)" for t
  proof -
    have p: "grant_spent g1 t = grant_spent g t + token_spend lib t ps"
      "token_spend lib t ps = 0 \<or> grant_spent g1 t \<le> grant_cap g t"
      and q: "grant_spent g2 t = grant_spent g1 t + token_spend lib t qs"
      "token_spend lib t qs = 0 \<or> grant_spent g2 t \<le> grant_cap g1 t"
      using assms unfolding metered_def by blast+
    then show ?thesis using same_terms_cap [OF st(1), of t] by (simp add: token_spend_append) linarith
  qed
  have near: "unat (sg_spent_yocto g1) = unat (sg_spent_yocto g) + native_spend lib ps"
    "native_spend lib ps = 0 \<or> unat (sg_spent_yocto g1) \<le> unat (sg_budget_yocto g)"
    "unat (sg_spent_yocto g2) = unat (sg_spent_yocto g1) + native_spend lib qs"
    "native_spend lib qs = 0 \<or> unat (sg_spent_yocto g2) \<le> unat (sg_budget_yocto g1)"
    using assms unfolding metered_def by blast+
  have "\<forall>p\<in>set (ps @ qs). \<exists>r \<in> sg_receivers g. pays_to lib p = Some r"
    using assms r(1) by (auto simp: metered_def)
  moreover have "unat (sg_spent_yocto g2) = unat (sg_spent_yocto g) + native_spend lib (ps @ qs)"
    "native_spend lib (ps @ qs) = 0 \<or> unat (sg_spent_yocto g2) \<le> unat (sg_budget_yocto g)"
    using near r(2) by (simp_all add: native_spend_append) linarith
  ultimately show ?thesis
    using toks same_terms_trans [OF st] unfolding metered_def by blast
qed

lemma execute_extension_metered:
  assumes "w_execute_extension lib c rq w = Inr (w', outs)"
    and "predecessor_account_id c = e" "e \<noteq> tw_owner w" "e \<noteq> tw_authority w"
    and g: "tw_spend_grants w e = Some g"
  shows "\<exists>g'. tw_spend_grants w' e = Some g' \<and> metered lib (rq_external rq) g g'"
proof (cases "rq_external rq = []")
  case True
  let ?w0 = "w\<lparr>tw_nonces := wl_check_cleanup lib (block_timestamp c) (tw_nonces w)\<rparr>"
  from True assms(1,2) have "execute_ops c (ActorExtension e) (rq_internal rq) ?w0 = Inr (w', outs)"
    by (auto simp: w_execute_extension_def execute_request_def)
  from execute_ops_of_grantee [OF this] have "w' = ?w0" using assms(3,4) by simp
  with g True show ?thesis by simp
next
  case False
  let ?w0 = "w\<lparr>tw_nonces := wl_check_cleanup lib (block_timestamp c) (tw_nonces w)\<rparr>"
  from assms(1,2) False obtain w1 o1 o2 where
    ops: "execute_ops c (ActorExtension e) (rq_internal rq) ?w0 = Inr (w1, o1)"
    and cs: "charge_spend lib c (ActorExtension e) (rq_external rq) w1 = Inr (w', o2)"
    by (elim execute_extension_Inr) blast+
  have w1: "w1 = ?w0" using execute_ops_of_grantee [OF ops] assms(3,4) by simp
  from cs w1 g assms(3) obtain g' where
    ch: "charge_promises lib e (tw_collection_id w) (rq_external rq) g = Inr (g', o2)"
    and "tw_spend_grants w' e = Some g'" by auto
  moreover have "metered lib (rq_external rq) g g'"
    unfolding metered_def using charge_promises_meters [OF ch] by blast
  ultimately show ?thesis by blast
qed

lemma exec_requests_metered:
  assumes "exec_requests lib rs w = Inr w'"
    and "\<forall>(c, rq) \<in> set rs. predecessor_account_id c = e"
    and "e \<noteq> tw_owner w" "e \<noteq> tw_authority w" "tw_spend_grants w e = Some g"
  shows "\<exists>g'. tw_spend_grants w' e = Some g' \<and> metered lib (all_external rs) g g'"
  using assms
proof (induction rs arbitrary: w g)
  case Nil
  then show ?case by (simp add: exec_requests_def all_external_def)
next
  case (Cons r rs)
  obtain c rq where r: "r = (c, rq)" by force
  from Cons.prems(1) r obtain w1 outs where w1: "w_execute_extension lib c rq w = Inr (w1, outs)"
    and rest: "exec_requests lib rs w1 = Inr w'" by (auto simp: exec_requests_def)
  from execute_extension_metered [OF w1 _ Cons.prems(3-5)] Cons.prems(2) r obtain g1 where
    g1: "tw_spend_grants w1 e = Some g1" "metered lib (rq_external rq) g g1" by auto
  have "e \<noteq> tw_owner w1" "e \<noteq> tw_authority w1"
    using execute_extension_fields(1,2) [OF w1] Cons.prems(3,4) by simp_all
  with Cons.IH [OF rest _ _ _ g1(1)] Cons.prems(2) obtain g' where
    "tw_spend_grants w' e = Some g'" "metered lib (all_external rs) g1 g'" by auto
  with metered_append [OF g1(2)] r show ?case by (auto simp: all_external_def)
qed

text \<open>
  C9. The meters of a spend grant count everything. Take any sequence of requests an extension
  gets through on its grant, starting from a reachable wallet: the receivers, budgets, items and
  expiry of the grant stay as the owner set them, the NEAR meter grows by exactly the deposits of
  all plain transfers and does not end above the budget when anything was spent, and the same
  holds for each token over the amounts of its \<open>ft_transfer\<close> calls; every promise pays an
  account the grant names.
\<close>

theorem spend_grant_metered:
  assumes "wallet_reachable lib self t w" and "tw_spend_grants w e = Some g"
    and "exec_requests lib rs w = Inr w'"
    and "\<forall>(c, rq) \<in> set rs. predecessor_account_id c = e"
  shows "\<exists>g'. tw_spend_grants w' e = Some g'
     \<and> same_terms g g'
     \<and> unat (sg_spent_yocto g') = unat (sg_spent_yocto g) + native_spend lib (all_external rs)
     \<and> (native_spend lib (all_external rs) = 0
        \<or> unat (sg_spent_yocto g') \<le> unat (sg_budget_yocto g))
     \<and> (\<forall>tok. grant_spent g' tok = grant_spent g tok + token_spend lib tok (all_external rs)
          \<and> (token_spend lib tok (all_external rs) = 0 \<or> grant_spent g' tok \<le> grant_cap g tok))
     \<and> (\<forall>p\<in>set (all_external rs). \<exists>r \<in> sg_receivers g. pays_to lib p = Some r)"
proof -
  have "wallet_inv self w" using assms(1) unfolding wallet_reachable_def by (rule wm.reach_inv)
  then have "e \<noteq> tw_owner w" "e \<noteq> tw_authority w" using assms(2) by (auto simp: wallet_inv_def)
  with exec_requests_metered [OF assms(3,4)] assms(2) show ?thesis unfolding metered_def by blast
qed


lemma demo_add_bot:
  "wallet_exec demo_lib (demo_ctx ''alice'' 6 1)
     (CExecuteExtension \<lparr>rq_internal = [AddExtension ''bot''], rq_external = []\<rparr>) demo_wallet
   = Inr (demo_wallet\<lparr>tw_extensions := {''alice'', ''ext'', ''bot''}\<rparr>, [Emit (ExtensionAdded ''bot'')])"
  by (simp add: demo_defs w_execute_extension_def execute_request_def add_extension_def
      assert_extension_editor_def guard_defs insert_commute)

lemma demo_grant_bot:
  "wallet_exec demo_lib (demo_ctx ''alice'' 7 1)
     (CGrantSpend ''bot'' [''shop''] 100 [\<lparr>ta_token = ''usdc'', ta_budget = 50\<rparr>] [] 1000)
     (demo_wallet\<lparr>tw_extensions := {''alice'', ''ext'', ''bot''}\<rparr>)
   = Inr (demo_granted, [Emit (SpendGranted ''bot'')])"
  by (simp add: demo_defs demo_granted_def hos_grant_spend_def guard_defs token_budgets_def
      item_fences_def assert_grantable_def held_token_spent_def)

lemma demo_granted_reachable: "wallet_reachable demo_lib ''a.tla'' 7 demo_granted"
proof -
  have "wallet_step demo_lib ''a.tla'' 6 demo_wallet
      (demo_wallet\<lparr>tw_extensions := {''alice'', ''ext'', ''bot''}\<rparr>)"
    using wallet_step.call [OF _ demo_add_bot] by (simp add: demo_ctx_def)
  moreover have "wallet_step demo_lib ''a.tla'' 7
      (demo_wallet\<lparr>tw_extensions := {''alice'', ''ext'', ''bot''}\<rparr>) demo_granted"
    using wallet_step.call [OF _ demo_grant_bot] by (simp add: demo_ctx_def)
  moreover have "(5::u64) \<le> 6" "(6::u64) \<le> 7" by simp_all
  ultimately show ?thesis
    using demo_reachable wm.reach_step unfolding wallet_reachable_def by blast
qed

theorem spend_grant_metered_witness:
  "\<exists>g'. tw_spend_grants demo_spent ''bot'' = Some g' \<and> unat (sg_spent_yocto g') = 60
      \<and> grant_spent g' ''usdc'' = 40"
proof -
  have "exec_requests demo_lib [(demo_ctx ''bot'' 10 1, demo_request)] demo_granted
      = Inr demo_spent"
    by (simp add: exec_requests_def demo_spend_step)
  moreover have "\<forall>(c, rq) \<in> set [(demo_ctx ''bot'' 10 1, demo_request)].
      predecessor_account_id c = ''bot''" by (simp add: demo_ctx_def)
  moreover obtain g where g: "tw_spend_grants demo_granted ''bot'' = Some g"
    and z: "sg_spent_yocto g = 0" "grant_spent g ''usdc'' = 0"
    by (simp add: demo_granted_def grant_spent_def)
  ultimately obtain g' where "tw_spend_grants demo_spent ''bot'' = Some g'"
    "unat (sg_spent_yocto g')
       = unat (sg_spent_yocto g) + native_spend demo_lib (all_external [(demo_ctx ''bot'' 10 1, demo_request)])"
    "grant_spent g' ''usdc'' = grant_spent g ''usdc''
       + token_spend demo_lib ''usdc'' (all_external [(demo_ctx ''bot'' 10 1, demo_request)])"
    using spend_grant_metered [OF demo_granted_reachable g] by blast
  then show ?thesis
    using z by (simp add: all_external_def demo_request_def native_spend_def token_spend_def
        ft_amount_def pay_shop_def pay_usdc_def demo_defs FT_TRANSFER_def)
qed

text \<open>
  C27. A request that sends anything leaves the wallet its reserve: the deposits of all its
  promises and the storage reserve with the renter's buffer fit into the balance. For the owner
  of a reachable wallet these are the only obstacles: a request of sends alone goes through
  exactly when it carries a deposit, the owner is an extension, the wallet is active with a
  running lease and not frozen, no promise is addressed to the wallet and the reserve is kept.
\<close>

theorem owner_request_iff:
  assumes "predecessor_account_id c = tw_owner w" and "wallet_inv (current_account_id c) w"
    and "rq_internal rq = []" and "rq_external rq \<noteq> []"
  shows "is_ok (w_execute_extension lib c rq w) \<longleftrightarrow>
     attached_deposit c \<noteq> 0 \<and> tw_owner w \<in> tw_extensions w
     \<and> tw_state w = Active \<and> \<not> lease_expired c w \<and> effective_frozen c w = Unfrozen
     \<and> (\<forall>p\<in>set (rq_external rq). np_receiver_id p \<noteq> current_account_id c)
     \<and> sum_list (map (\<lambda>p. unat (wl_total_deposit lib p)) (rq_external rq)) + unat (reserve c)
         \<le> unat (account_balance c)"
proof -
  have "tw_owner w \<noteq> tw_authority w" using assms(2) by (simp add: wallet_inv_def)
  then show ?thesis
    using assms(1,3,4)
    by (auto simp: is_ok_iff w_execute_extension_def execute_request_def assert_renter_def
        renter_active_iff not_blocked_iff send_external_Inr within_reserve_iff)
qed

definition owner_request :: request where
  "owner_request = \<lparr>rq_internal = [], rq_external = [pay_shop]\<rparr>"

lemma demo_wallet_inv: "wallet_inv ''a.tla'' demo_wallet"
  by (simp add: wallet_inv_def demo_wallet_def WALLET_STATE_VERSION_def)

theorem owner_request_iff_witness:
  "is_ok (w_execute_extension demo_lib (demo_ctx ''alice'' 10 1) owner_request demo_wallet)"
proof -
  have "predecessor_account_id (demo_ctx ''alice'' 10 1) = tw_owner demo_wallet"
    "wallet_inv (current_account_id (demo_ctx ''alice'' 10 1)) demo_wallet"
    "rq_internal owner_request = []" "rq_external owner_request \<noteq> []"
    using demo_wallet_inv by (simp_all add: demo_defs owner_request_def)
  from owner_request_iff [OF this, of demo_lib] show ?thesis
    by (simp add: owner_request_def pay_shop_def demo_defs guard_defs reserve_def sat_mul_def
        sat_add_def RENTER_BUFFER_def)
qed

section \<open>The lease\<close>

lemma run_step_lease:
  assumes "wallet_run lib self t w t' w'" and "wallet_inv self w"
  shows "t \<le> t' \<and> min (tw_lease_until_ns w) (sat_add t MIN_LEASE_RETRACT_NOTICE_NS)
           \<le> tw_lease_until_ns w'"
proof -
  let ?m = "min (tw_lease_until_ns w) (sat_add t MIN_LEASE_RETRACT_NOTICE_NS)"
  show ?thesis
  proof (rule wm.run_stable [OF assms [unfolded wallet_run_def],
        of "\<lambda>t1 w1. t \<le> t1 \<and> ?m \<le> tw_lease_until_ns w1"], goal_cases)
    case 1
    then show ?case by simp
  next
    case (2 t1 w1 t2 w2)
    then obtain c call outs where "block_timestamp c = t2"
      and call: "wallet_exec lib c call w1 = Inr (w2, outs)" by (auto elim: wallet_stepE)
    moreover have "sat_add t MIN_LEASE_RETRACT_NOTICE_NS \<le> sat_add t2 MIN_LEASE_RETRACT_NOTICE_NS"
      using 2(1,3) by (intro sat_add_mono) auto
    ultimately show ?case
      using 2(1,3,5) wallet_exec_lease [OF call] by (auto simp: min_le_iff_disj)
  qed
qed

text \<open>
  C24. A lease is never cut short without notice: whatever calls a reachable wallet answers
  from time \<open>t\<close> on, its lease keeps running until the date it had at \<open>t\<close> or until twelve
  hours after \<open>t\<close>, whichever is earlier.
\<close>

theorem lease_keeps_notice:
  assumes "wallet_reachable lib self t w" and "wallet_run lib self t w t' w'"
  shows "min (tw_lease_until_ns w) (sat_add t MIN_LEASE_RETRACT_NOTICE_NS) \<le> tw_lease_until_ns w'"
proof -
  have "wallet_inv self w" using assms(1) unfolding wallet_reachable_def by (rule wm.reach_inv)
  with run_step_lease [OF assms(2)] show ?thesis by blast
qed

lemma demo_retract:
  "wallet_exec demo_lib (demo_ctx ''ext'' 10 1) (CRetractLease 50000000000000) demo_wallet
   = Inr (demo_wallet\<lparr>tw_lease_until_ns := 50000000000000\<rparr>,
          [Emit (LeaseRetracted 100000000000000000 50000000000000)])"
  by (simp add: demo_defs hos_retract_lease_def guard_defs MIN_LEASE_RETRACT_NOTICE_NS_def
      sat_add_def)

lemma demo_run:
  assumes "wallet_exec demo_lib c call w = Inr (w', outs)" and "current_account_id c = ''a.tla''"
    and "t \<le> block_timestamp c"
  shows "wallet_run demo_lib ''a.tla'' t w (block_timestamp c) w'"
  unfolding wallet_run_def
  using wm.run_step [OF wm.run_refl assms(3)] wallet_step.call [OF assms(2,1)] by blast

theorem lease_keeps_notice_witness:
  "sat_add 5 MIN_LEASE_RETRACT_NOTICE_NS \<le> (50000000000000 :: u64)"
proof -
  have "wallet_run demo_lib ''a.tla'' 5 demo_wallet 10
      (demo_wallet\<lparr>tw_lease_until_ns := 50000000000000\<rparr>)"
    using demo_run [OF demo_retract, of 5] by (simp add: demo_ctx_def)
  from lease_keeps_notice [OF demo_reachable this] show ?thesis
    by (simp add: demo_wallet_def sat_add_def MIN_LEASE_RETRACT_NOTICE_NS_def)
qed

section \<open>The owner\<close>

text \<open>
  C23. The owner of a wallet changes only by a call of the authority, and only for a reason the
  wallet checks itself: a holder who is an extension asked for it, or the lease has run out, or
  it is a recovery of a wallet its owner has not frozen, or it takes back the last change within
  the revert window and returns the wallet to the owner it pinned.
\<close>

theorem owner_change_justified:
  assumes "wallet_exec lib c call w = Inr (w', outs)" and "tw_owner w' \<noteq> tw_owner w"
  shows "predecessor_account_id c = tw_authority w \<and> attached_deposit c = 1
    \<and> ((\<exists>p l. call = CReRent (tw_owner w') p l \<and> lease_expired c w)
       \<or> (\<exists>cause asked_by. call = CTransferOwnership (Some (tw_owner w')) cause asked_by
            \<and> ((needs_holder cause
                  \<and> (\<exists>h. asked_by = Some h \<and> h \<in> tw_extensions w \<and> h \<noteq> tw_authority w))
               \<or> (cause = Reclaim \<and> lease_expired c w)
               \<or> (cause = Recovery \<and> effective_frozen c w \<noteq> SelfFrozen)
               \<or> (cause = Revert \<and> tw_revert_to w = Some (tw_owner w')
                  \<and> block_timestamp c < tw_revert_until_ns w))))"
proof -
  from wallet_exec_owner [OF assms] consider
      (rot) to cause ab where "call = CTransferOwnership to cause ab"
    | (re) to p l where "call = CReRent to p l" by blast
  then show ?thesis
  proof cases
    case (re to p l)
    with assms(1) have r: "hos_re_rent c to p l w = Inr (w', outs)" by simp
    then have "tw_owner w' = to" "attached_deposit c = 1"
      using re_rent_Inr(1) [OF r]
      by (auto simp: hos_re_rent_def assert_one_yocto_def one_yocto_def)
    with re re_rent_Inr(5,8) [OF r] show ?thesis by blast
  next
    case (rot to cause ab)
    with assms(1) have t: "hos_transfer_ownership c to cause ab w = Inr (w', outs)" by simp
    then have r: "apply_rotation c to cause ab w = Inr (w', outs)"
      and g: "predecessor_account_id c = tw_authority w" "attached_deposit c = 1"
        "cause \<noteq> ReRent" "cause = Recovery \<longrightarrow> effective_frozen c w \<noteq> SelfFrozen"
      by (auto simp: hos_transfer_ownership_def assert_authority_def assert_one_yocto_def
          one_yocto_def)
    from apply_rotation_Inr(2) [OF r] obtain w1 where
      gate: "rotation_gate c to cause ab w = Inr w1" by blast
    have to: "to = Some (tw_owner w')"
      using apply_rotation_Inr(1) [OF r] assms(2) by (cases to) auto
    have "(needs_holder cause \<and> (\<exists>h. ab = Some h \<and> h \<in> tw_extensions w \<and> h \<noteq> tw_authority w))
        \<or> (cause = Reclaim \<and> lease_expired c w)
        \<or> (cause = Recovery \<and> effective_frozen c w \<noteq> SelfFrozen)
        \<or> (cause = Revert \<and> tw_revert_to w = Some (tw_owner w')
           \<and> block_timestamp c < tw_revert_until_ns w)"
      using g(3,4) to rotation_gate_Inr(2-4) [OF gate] by (cases cause) auto
    with rot to g(1,2) show ?thesis by blast
  qed
qed

definition demo_bob :: "unit tenant_wallet" where
  "demo_bob = demo_wallet\<lparr>tw_owner := ''bob'', tw_payout_account := ''bob'',
     tw_extensions := {''bob'', ''ext''}, tw_revert_to := Some ''alice'',
     tw_revert_until_ns := 300000000010, tw_rotation_seq := 1\<rparr>"

lemma demo_wallet_fields:
  "tw_owner demo_wallet = ''alice''" "tw_authority demo_wallet = ''ext''"
  "tw_extensions demo_wallet = {''alice'', ''ext''}"
  by (simp_all add: demo_wallet_def)

lemma demo_transfer:
  "wallet_exec demo_lib (demo_ctx ''ext'' 10 1)
     (CTransferOwnership (Some ''bob'') Transfer (Some ''alice'')) demo_wallet
   = Inr (demo_bob,
          [Emit (PayoutAccountSet ''bob''), SendSweep ''alice'' 4999999999999999998999])"
  by (simp add: demo_bob_def demo_defs hos_transfer_ownership_def apply_rotation_def
      rotation_gate_def guard_defs
      seat_owner_def sweep_to_def sweep_amount_def reserve_def sat_add_def sat_sub_def sat_mul_def
      RENTER_BUFFER_def check_lockout_def REVERT_WINDOW_NS_def Let_def filter_eq_Int insert_commute)

theorem owner_change_justified_witness:
  "\<exists>h. Some ''alice'' = Some h \<and> h \<in> tw_extensions demo_wallet \<and> h \<noteq> tw_authority demo_wallet"
  using owner_change_justified [OF demo_transfer] by (simp add: demo_bob_def demo_wallet_def)

text \<open>
  What a change of owner leaves: the authority and the new owner are the only extensions,
  every spend grant is gone, the rotation counter has moved, the lease and the authority are as
  they were, the previous owner is pinned for a revert for five minutes (or no one, after a
  revert), the payout account follows the owner except after a deposit, a reclaim parks the
  wallet, and a self-freeze of a previous owner is lifted.
\<close>

theorem transfer_ownership_effect:
  assumes "wallet_reachable lib self t w" and "current_account_id c = self"
    and "hos_transfer_ownership c (Some nxt) cause asked_by w = Inr (w', outs)"
  shows "tw_owner w' = nxt \<and> tw_extensions w' = {tw_authority w, nxt}
    \<and> nxt \<noteq> self \<and> nxt \<noteq> tw_authority w
    \<and> tw_spend_grants w' = Map.empty
    \<and> tw_rotation_seq w' = sat_add (tw_rotation_seq w) 1
    \<and> tw_lease_until_ns w' = tw_lease_until_ns w \<and> tw_authority w' = tw_authority w
    \<and> tw_payout_account w' = (if cause = Deposit then tw_payout_account w else nxt)
    \<and> tw_state w' = (if cause = Reclaim then Parked else tw_state w)
    \<and> tw_revert_to w' = (if cause = Revert then None else Some (tw_owner w))
    \<and> tw_frozen w' = (if nxt \<noteq> tw_owner w \<and> tw_frozen w = SelfFrozen then Unfrozen
                      else tw_frozen w)"
proof -
  from assms(3) have r: "apply_rotation c (Some nxt) cause asked_by w = Inr (w', outs)"
    and "cause \<noteq> ReRent" by (auto simp: hos_transfer_ownership_def)
  moreover have "tw_authority w \<in> tw_extensions w"
    using wm.reach_inv assms(1) unfolding wallet_reachable_def wallet_inv_def by blast
  moreover have "tw_frozen (rotated c (Some nxt) cause w)
      = (if nxt \<noteq> tw_owner w \<and> tw_frozen w = SelfFrozen then Unfrozen else tw_frozen w)"
    by (simp add: rotated_def Let_def)
  moreover have "repoints_payout cause \<longleftrightarrow> cause \<noteq> Deposit" "parks cause \<longleftrightarrow> cause = Reclaim"
    using \<open>cause \<noteq> ReRent\<close> by (cases cause; simp)+
  ultimately show ?thesis
    using apply_rotation_Inr(1,3) [OF r] assms(2) by auto
qed

theorem transfer_ownership_effect_witness:
  "tw_owner demo_bob = ''bob'' \<and> tw_extensions demo_bob = {''ext'', ''bob''}
   \<and> tw_revert_to demo_bob = Some ''alice''"
proof -
  have "current_account_id (demo_ctx ''ext'' 10 1) = ''a.tla''" by (simp add: demo_ctx_def)
  moreover have "hos_transfer_ownership (demo_ctx ''ext'' 10 1) (Some ''bob'') Transfer
      (Some ''alice'') demo_wallet = Inr (demo_bob, [Emit (PayoutAccountSet ''bob''),
        SendSweep ''alice'' 4999999999999999998999])" using demo_transfer by simp
  ultimately show ?thesis
    using transfer_ownership_effect [OF demo_reachable] demo_wallet_fields by auto
qed

text \<open>
  C26. A revert undoes a change of owner. After a transfer that went through, a revert asked by
  the authority within the window goes through, returns the wallet to the owner before the
  transfer with the authority as the only other extension, and closes the window: a second
  revert finds nothing to revert. The payout account ends at the restored owner.
\<close>

theorem revert_restores_owner:
  assumes "wallet_reachable lib self t w" and "current_account_id c = self"
    and "hos_transfer_ownership c (Some nxt) cause asked_by w = Inr (w1, outs1)"
    and "cause \<noteq> Revert"
    and "current_account_id c2 = self" "predecessor_account_id c2 = tw_authority w"
      "attached_deposit c2 = 1" "block_timestamp c2 < sat_add (block_timestamp c) REVERT_WINDOW_NS"
  shows "\<exists>w2 outs2. hos_transfer_ownership c2 (Some (tw_owner w)) Revert None w1 = Inr (w2, outs2)
    \<and> tw_owner w2 = tw_owner w \<and> tw_extensions w2 = {tw_authority w, tw_owner w}
    \<and> tw_payout_account w2 = tw_owner w \<and> tw_lease_until_ns w2 = tw_lease_until_ns w
    \<and> hos_transfer_ownership c2 (Some (tw_owner w)) Revert None w2 = Inl NOTHING_TO_REVERT"
proof -
  have inv: "wallet_inv self w"
    using assms(1) unfolding wallet_reachable_def by (rule wm.reach_inv)
  then have w: "tw_authority w \<in> tw_extensions w" "tw_owner w \<noteq> self" "tw_owner w \<noteq> tw_authority w"
    by (simp_all add: wallet_inv_def)
  from assms(3) have "apply_rotation c (Some nxt) cause asked_by w = Inr (w1, outs1)"
    by (auto simp: hos_transfer_ownership_def)
  from apply_rotation_Inr(1) [OF this] have w1: "w1 = rotated c (Some nxt) cause w" .
  have gate: "rotation_gate c2 (Some (tw_owner w)) Revert None w1
      = Inr (w1\<lparr>tw_revert_to := None, tw_revert_until_ns := 0\<rparr>)"
    using w1 assms(4,8) by (simp add: rotation_gate_def)
  have "is_ok (hos_transfer_ownership c2 (Some (tw_owner w)) Revert None w1)"
    using w w1 assms(5-7) gate
    by (simp add: hos_transfer_ownership_def assert_one_yocto_def assert_authority_def one_yocto_def
        apply_rotation_def Let_def check_lockout_def)
  then obtain w2 outs2 where
    t2: "hos_transfer_ownership c2 (Some (tw_owner w)) Revert None w1 = Inr (w2, outs2)"
    by (auto simp: is_ok_iff)
  then have "apply_rotation c2 (Some (tw_owner w)) Revert None w1 = Inr (w2, outs2)"
    by (auto simp: hos_transfer_ownership_def)
  from apply_rotation_Inr(1) [OF this]
  have w2: "w2 = rotated c2 (Some (tw_owner w)) Revert w1" .
  have "hos_transfer_ownership c2 (Some (tw_owner w)) Revert None w2 = Inl NOTHING_TO_REVERT"
    using assms(6,7) w1 w2 by (simp add: hos_transfer_ownership_def assert_one_yocto_def
        assert_authority_def one_yocto_def apply_rotation_def rotation_gate_def)
  then show ?thesis using t2 w1 w2 w(1) by auto
qed

theorem revert_restores_owner_witness:
  "\<exists>w2 outs2. hos_transfer_ownership (demo_ctx ''ext'' 200 1) (Some ''alice'') Revert None demo_bob
       = Inr (w2, outs2) \<and> tw_owner w2 = ''alice'' \<and> tw_extensions w2 = {''ext'', ''alice''}"
proof -
  have tr: "hos_transfer_ownership (demo_ctx ''ext'' 10 1) (Some ''bob'') Transfer
      (Some ''alice'') demo_wallet = Inr (demo_bob, [Emit (PayoutAccountSet ''bob''),
        SendSweep ''alice'' 4999999999999999998999])" using demo_transfer by simp
  have "current_account_id (demo_ctx ''ext'' 10 1) = ''a.tla''"
    "current_account_id (demo_ctx ''ext'' 200 1) = ''a.tla''"
    "predecessor_account_id (demo_ctx ''ext'' 200 1) = tw_authority demo_wallet"
    "attached_deposit (demo_ctx ''ext'' 200 1) = 1"
    "block_timestamp (demo_ctx ''ext'' 200 1)
       < sat_add (block_timestamp (demo_ctx ''ext'' 10 1)) REVERT_WINDOW_NS"
    by (simp_all add: demo_defs REVERT_WINDOW_NS_def sat_add_def)
  from revert_restores_owner [OF demo_reachable this(1) tr _ this(2-5), simplified demo_wallet_fields]
  show ?thesis by blast
qed

section \<open>Freezing\<close>

lemma run_freeze_until:
  assumes "wallet_run lib self t w t' w'" and "wallet_inv self w"
    and "t' < sat_add (tw_authority_freeze_until_ns w) AUTHORITY_FREEZE_COOLDOWN_NS"
  shows "tw_authority_freeze_until_ns w' = tw_authority_freeze_until_ns w"
proof -
  let ?u = "tw_authority_freeze_until_ns w"
  have "t' < sat_add ?u AUTHORITY_FREEZE_COOLDOWN_NS \<longrightarrow> tw_authority_freeze_until_ns w' = ?u"
  proof (rule wm.run_stable [OF assms(1,2) [unfolded wallet_run_def],
        of "\<lambda>t1 w1. t1 < sat_add ?u AUTHORITY_FREEZE_COOLDOWN_NS
              \<longrightarrow> tw_authority_freeze_until_ns w1 = ?u"], goal_cases)
    case 1
    then show ?case by simp
  next
    case (2 t1 w1 t2 w2)
    then obtain c call outs where "block_timestamp c = t2"
      and "wallet_exec lib c call w1 = Inr (w2, outs)" by (auto elim: wallet_stepE)
    with wallet_exec_freeze_until 2(3,5) show ?case by fastforce
  qed
  with assms(3) show ?thesis by blast
qed

text \<open>
  C25. The authority cannot hold a wallet frozen for good. From seven days after a freeze of the
  authority until fourteen days after it, whatever calls the wallet answers in between, it is
  not frozen by the authority, and it refuses the authority's next freeze.
\<close>

theorem authority_freeze_duty_cycle:
  assumes "wallet_reachable lib self t0 w0" and "predecessor_account_id c1 = tw_authority w0"
    and "hos_freeze c1 w0 = Inr (w1, outs1)"
    and "wallet_run lib self (block_timestamp c1) w1 (block_timestamp c2) w2"
    and "sat_add (block_timestamp c1) MAX_AUTHORITY_HOLD_NS \<le> block_timestamp c2"
    and "block_timestamp c2
           < sat_add (sat_add (block_timestamp c1) MAX_AUTHORITY_HOLD_NS) MAX_AUTHORITY_HOLD_NS"
  shows "effective_frozen c2 w2 \<noteq> AuthorityFrozen
    \<and> (predecessor_account_id c2 = tw_authority w2 \<longrightarrow> \<not> is_ok (hos_freeze c2 w2))"
proof -
  have "wallet_inv self w0" using assms(1) unfolding wallet_reachable_def by (rule wm.reach_inv)
  then have inv1: "wallet_inv self w1" by (rule freeze_inv(1) [OF assms(3)])
  have w1: "tw_authority_freeze_until_ns w1 = sat_add (block_timestamp c1) MAX_AUTHORITY_HOLD_NS"
    using assms(2,3) by (auto simp: hos_freeze_def Let_def)
  have "block_timestamp c2
      < sat_add (tw_authority_freeze_until_ns w1) AUTHORITY_FREEZE_COOLDOWN_NS"
    using w1 assms(6) by (simp add: AUTHORITY_FREEZE_COOLDOWN_NS_def)
  from run_freeze_until [OF assms(4) inv1 this] this w1 assms(5) show ?thesis
    by (auto simp: effective_frozen_def is_ok_iff hos_freeze_def Let_def)
qed

lemma demo_freeze:
  "hos_freeze (demo_ctx ''ext'' 700000000000000 1) demo_wallet
   = Inr (demo_wallet\<lparr>tw_frozen := AuthorityFrozen,
            tw_authority_freeze_until_ns := 1304800000000000\<rparr>, [Emit (FrozenEvent False)])"
  by (simp add: hos_freeze_def Let_def demo_defs guard_defs sat_add_def AUTHORITY_FREEZE_COOLDOWN_NS_def
      MAX_AUTHORITY_HOLD_NS_def)

theorem authority_freeze_duty_cycle_witness:
  "effective_frozen (demo_ctx ''alice'' 1400000000000000 1)
     (demo_wallet\<lparr>tw_frozen := AuthorityFrozen, tw_authority_freeze_until_ns := 1304800000000000,
        tw_approved_impl := Some [7], tw_approved_impl_at := 1400000000000000\<rparr>) \<noteq> AuthorityFrozen"
proof -
  let ?w = "demo_wallet\<lparr>tw_frozen := AuthorityFrozen, tw_authority_freeze_until_ns := 1304800000000000\<rparr>"
  have "wallet_exec demo_lib (demo_ctx ''ext'' 1400000000000000 1) (CApproveImpl [7]) ?w
     = Inr (?w\<lparr>tw_approved_impl := Some [7], tw_approved_impl_at := 1400000000000000\<rparr>,
            [Emit (ImplApproved [7])])"
    by (simp add: hos_approve_impl_def demo_defs guard_defs)
  from demo_run [OF this, of 700000000000000]
  have run: "wallet_run demo_lib ''a.tla'' (block_timestamp (demo_ctx ''ext'' 700000000000000 1)) ?w
     (block_timestamp (demo_ctx ''alice'' 1400000000000000 1))
     (?w\<lparr>tw_approved_impl := Some [7], tw_approved_impl_at := 1400000000000000\<rparr>)"
    by (simp add: demo_ctx_def)
  have "predecessor_account_id (demo_ctx ''ext'' 700000000000000 1) = tw_authority demo_wallet"
    by (simp add: demo_defs)
  from authority_freeze_duty_cycle [OF demo_reachable this demo_freeze run] show ?thesis
    by (simp add: demo_ctx_def MAX_AUTHORITY_HOLD_NS_def sat_add_def)
qed

section \<open>Sweeping\<close>

text \<open>
  Whenever a call of the wallet sweeps NEAR, the authority made the call, the sweep goes to
  the payout account the wallet had before it, and it is the whole balance less the deposit
  attached to the call and the reserve; a sweep of nothing is not sent.
\<close>

theorem sweep_exact:
  assumes "wallet_exec lib c call w = Inr (w', outs)" and "SendSweep p a \<in> set outs"
  shows "predecessor_account_id c = tw_authority w \<and> p = tw_payout_account w \<and> 0 < unat a
    \<and> unat a + unat (attached_deposit c) + unat (reserve c) = unat (account_balance c)"
proof -
  note sw = wallet_exec_sweeps [OF assms]
  from sw(2) have "a \<noteq> 0" by blast
  then have "0 < unat a" by (simp add: unat_gt_0)
  with sw show ?thesis by (simp add: sweep_amount_def unat_sat_sub)
qed

theorem sweep_exact_witness:
  "unat (4999999999999999998999 :: u128) + unat (attached_deposit (demo_ctx ''ext'' 10 1))
     + unat (reserve (demo_ctx ''ext'' 10 1)) = unat (account_balance (demo_ctx ''ext'' 10 1))"
  using sweep_exact [OF demo_transfer, of "''alice''" 4999999999999999998999] by simp

end
