(* ===== verification/Registry_Types.thy ===== *)
theory Registry_Types
  imports Hos_Common
begin

text \<open>
  Data of the registry (\<open>contracts/tla-registry/src\<close>: \<open>types.rs\<close>, \<open>error.rs\<close>,
  \<open>events.rs\<close>, \<open>lifecycle.rs\<close>), the life cycle of a name and the name validator.

  Sizes and dates are machine words as in the source. \<open>AccountId\<close> and \<open>String\<close> are both
  strings here; what the source converts with \<open>parse::<AccountId>()\<close> goes through the
  parser of the SDK, a parameter of the model (\<open>rl_parse\<close> of \<^emph>\<open>registry_lib\<close>).
\<close>

section \<open>Constants\<close>

definition ONE_NEAR :: u128 where "ONE_NEAR = 1000000000000000000000000"
definition ONE_YEAR_NS :: u64 where "ONE_YEAR_NS = 365 * 24 * 60 * 60 * 1000000000"
definition MAX_PAGE_LIMIT :: u64 where "MAX_PAGE_LIMIT = 500"
definition MAX_ACCOUNT_ID_LEN :: u8 where "MAX_ACCOUNT_ID_LEN = 64"
definition MIN_LABEL_LEN :: u8 where "MIN_LABEL_LEN = 2"

section \<open>Names, entries, terms\<close>

datatype tla_type = Business | Open
datatype tla_status = TlaRegisteredSt | TlaActiveSt | TlaSuspendedSt
datatype premium_category = Legendary | Premium | Standard | Community

fun multiplier :: "premium_category \<Rightarrow> u128 \<times> u128" where
  "multiplier Legendary = (5, 1)"
| "multiplier Premium = (3, 1)"
| "multiplier Standard = (3, 2)"
| "multiplier Community = (0, 1)"

record tla_registration =
  tr_tla_type :: tla_type
  tr_premium_category :: premium_category
  tr_licensee :: "account_id option"

record tla_entry =
  te_tla_type :: tla_type
  te_status :: tla_status
  te_licensee :: "account_id option"
  te_premium_category :: premium_category
  te_activated_at :: u64
  te_expires_at :: u64

record sub_account_entry =
  sa_owner :: account_id
  sa_tla_id :: account_id
  sa_payout_account :: account_id
  sa_rented_at :: u64
  sa_expires_at :: u64
  sa_retraction_at :: "u64 option"

record activity_record =
  act_event :: string
  act_account :: string
  act_block_height :: u64
  act_block_timestamp :: u64

record parked_entry =
  pk_tla_id :: account_id
  pk_parked_at :: u64

record order_in_flight =
  oi_full_name :: string
  oi_tla_id :: account_id
  oi_payer :: account_id
  oi_started_at :: u64

datatype paid_order_state = InFlight order_in_flight | Settled

fun in_flight_for :: "paid_order_state \<Rightarrow> string \<Rightarrow> account_id \<Rightarrow> bool" where
  "in_flight_for (InFlight o') full_name payer \<longleftrightarrow>
     oi_full_name o' = full_name \<and> oi_payer o' = payer"
| "in_flight_for Settled full_name payer \<longleftrightarrow> False"

record tla_terms =
  tt_allocation_fee_usd_micro :: "u128 option"
  tt_tla_rent_usd_micro :: "u128 option"
  tt_sub_fee_usd_micro :: "u128 option"

definition is_standard :: "tla_terms \<Rightarrow> bool" where
  "is_standard terms \<longleftrightarrow> tt_allocation_fee_usd_micro terms = None
     \<and> tt_tla_rent_usd_micro terms = None \<and> tt_sub_fee_usd_micro terms = None"

record fee_config =
  fc_tla_allocation_fee_usd_micro :: u128
  fc_rent_tier_5_usd_micro :: u128
  fc_rent_tier_8_usd_micro :: u128
  fc_rent_tier_10_usd_micro :: u128
  fc_rent_tier_12plus_usd_micro :: u128
  fc_sub_fee_per_account_usd_micro :: u128
  fc_account_creation_deposit_yocto :: u128
  fc_business_max_subs :: u32
  fc_retraction_notice_ns :: u64
  fc_max_rate_move_bps :: u16
  fc_quote_slippage_bps :: u16
  fc_min_near_usd_rate_micro :: u128
  fc_max_near_usd_rate_micro :: u128
  fc_rate_update_cooldown_ns :: u64
  fc_max_rate_age_ns :: u64

record nft_contract_metadata =
  nm_spec :: string
  nm_name :: string
  nm_symbol :: string
  nm_icon :: "string option"
  nm_base_uri :: "string option"
  nm_reference :: "string option"
  nm_reference_hash :: "bytes option"

section \<open>Errors\<close>

datatype name_invalid_reason =
  LengthOutOfBounds | DisallowedCharacter | EdgeSeparator | AccountIdTooLong | LabelTooShort

text \<open>The constructors after \<open>OwnerMoved\<close> are the panics with a message of their own.\<close>

datatype (plugins only:) contract_error =
    OnlyAdmin | OnlyCouncil | OnlyTreasuryOrCouncil | OnlyAdminOrCouncil | MarketplacePausedErr
  | OnlyPaymentAuthority | AuthorityNotBoundToTla | AuthorityMintAllowanceSpent
  | AuthorityMintAllowanceZero | PaidOrderAlreadySettled | PaidOrderStillInFlight
  | PaidOrderNotFound | InvalidOrderId | OnlyRecoveryAuthority | OnlyPriceOracle
  | RateOutOfBounds | RateNotInitialized | RateAlreadyInitialized | RateCooldown | RateStale
  | InvalidRateBounds | InvalidBusinessCap | RetractionNoticeTooShort | FeeExceedsCap
  | OnlyLicensee | OnlyOwner | Paused | NoPendingRefund | TlaNotFound | TlaAlreadyRegistered
  | EmptyBatch | BatchTooLarge | DuplicateInBatch | TlaNotInRegisteredState | TlaNotActive
  | TlaNotSuspended | TlaNotAcceptingRentals | TlaPastGracePeriod
  | BusinessTlaRequiresLicensee | BusinessTlaMissingLicensee | WrongActivationEndpoint
  | SubAccountNotFound | SubAccountNameTaken | SubAccountNotParked | SubAccountPastGracePeriod
  | SubAccountNotReclaimable | PayoutAccountEqualsSubAccount | InvalidSubAccountId
  | InvalidName name_invalid_reason | InsufficientPayment | InsufficientRevenue
  | WithdrawalAmountZero | TokenNotInAllowlist | TokenStillAllowlisted | LeaseTermTooShort
  | LeaseTermTooLong | SubAccountHoldsTokens | AllowlistFull | AuthoritySetFull
  | VenueIsRegistry | AllRentTiersZero | RentTiersNotDescending | CreationDepositZero
  | CannotRemoveLastAdmin | MaxBusinessSubsReached | NoRetractionScheduled
  | RetractionAlreadyScheduled | RetractionAlreadyElapsed | RetractionPending | NotBusinessTla
  | RequiresOneYocto | UpgradeNotProven | CouncilUnchanged | CouncilIsSelf | TreasuryUnchanged
  | TreasuryIsSelf | NoTreasuryRotationPending | OnlyPendingTreasury | TreasuryRotationTooYoung
  | NoCouncilRotationPending | OnlyPendingCouncil | CouncilRotationTooYoung | EmptyCode
  | NoApprovedHash | HashMismatch | ApprovalTooYoung | InsufficientContractBalance
  | ReclaimInProgress | ReclaimNotPending | SubAccountTlaMismatch | SubAccountNotSellable
  | BusinessSubNotResellable | NotWhitelisted | ApprovalsNotSupported | UnknownCursor
  | TokenNotFound | RotationNotConfirmed | OwnerIndexOutOfSync | NotEd25519 | SameOwner
  | TransferToSubAccount | TransferToRegisteredName | NameStillHoldsNames | OwnerMovedErr
  | GracePeriodTooShort | WiringIsRegistry | RateZero | AggregateCap | PriceOverflow
  | SlippageOutOfRange | RegPrivateMethod | RegNotPayable | RegAlreadyInitialized

section \<open>Events\<close>

datatype (plugins only:) reg_event =
    NearUsdRateUpdated u128 u128 u64 account_id
  | PriceOracleUpdated account_id account_id
  | RateRecoveredFromOutOfBand u128 u128 account_id
  | TlaRegistered account_id tla_type premium_category "account_id option"
  | TlasRegistered "account_id list" tla_type premium_category "account_id option"
  | TlaActivated account_id u64 u128
  | TlasActivated "account_id list" u64
  | TlaTypeChanged account_id tla_type "account_id option" account_id
  | TlaSuspended account_id account_id
  | TlaUnsuspended account_id account_id
  | TlaRenewed account_id u64 u128
  | ContractPaused account_id
  | ContractUnpaused account_id
  | MarketplacePaused account_id
  | MarketplaceUnpaused account_id
  | FeeConfigUpdated account_id
  | AdminAdded account_id account_id
  | AdminRemoved account_id account_id
  | VenueAdded account_id account_id
  | VenueRemoved account_id account_id
  | PaymentAuthorityAdded account_id account_id
  | PaymentAuthorityRemoved account_id account_id
  | PaymentAuthorityBound account_id account_id u64 account_id
  | PaymentAuthorityAllowanceLow account_id account_id u64
  | PaymentAuthorityUnbound account_id account_id account_id
  | RecoveryAuthorityAdded account_id account_id
  | RecoveryAuthorityRemoved account_id account_id
  | SubAccountRecovered string account_id account_id account_id
  | WithdrawalQueued u128 account_id
  | FtAllowlistAdded account_id account_id
  | FtAllowlistRemoved account_id account_id
  | SweepableTokenRemoved account_id account_id
  | LeaseTermChanged u64 account_id
  | VenueExitToRegisteredName string account_id
  | TlaTermsSet account_id tla_terms account_id
  | BusinessSubCapSet account_id "u32 option" account_id
  | BusinessResaleEnabled account_id account_id
  | BusinessWhitelistAdded account_id "account_id list" account_id
  | BusinessWhitelistRemoved account_id "account_id list" account_id
  | SubAccountRented string account_id account_id u128 u64
  | SubAccountReRented string account_id account_id u128 u64
  | SubAccountRenewed string u64 u128
  | SubAccountRenewFailed string u128
  | PaidRentalOrderReserved string string account_id
  | PaidRentalOrderReleased string
  | PaidRentalOrderStale string string
  | LeaseSyncFailed string string
  | PayoutAccountUpdated string account_id
  | PayoutAccountUpdateFailed string account_id
  | RefundPending account_id u128 string
  | MintFundingStranded string account_id account_id u128 string
  | ParkReleased string account_id
  | ParkForced string account_id
  | PaidRentalOrderSettled string string
  | SubAccountTransferred string account_id account_id account_id
  | TransferFailed string account_id account_id
  | SubAccountSaleBlocked string "account_id option" string
  | SubAccountReclaimed string account_id account_id
  | ReclaimFinalizeBlocked string "account_id option" string
  | RegSealed string account_id
  | RegSealFailed string account_id
  | TransferBlockedByBalance string "account_id option" string
  | DepositBlockedByBalance string "account_id option" string
  | SubAccountRetractionScheduled string u64 account_id
  | SubAccountRetractionCanceled string account_id
  | ReclaimPendingCleared string account_id
  | RegUpgradeApproved crypto_hash account_id
  | CouncilRotationApproved account_id account_id
  | CouncilRotationCancelled account_id
  | CouncilRotated account_id account_id
  | TreasuryRotationApproved account_id account_id
  | TreasuryRotationCancelled account_id
  | TreasuryRotated account_id account_id u128 account_id
  | RegUpgraded account_id
  | NftMint account_id string
  | NftBurn account_id string
  | NftTransferred account_id account_id string "string option"

definition activity_entry :: "reg_event \<Rightarrow> (string \<times> string) option" where
  "activity_entry ev =
     (case ev of
        SubAccountRented n _ _ _ _ \<Rightarrow> Some (''sub_account_rented'', n)
      | SubAccountReRented n _ _ _ _ \<Rightarrow> Some (''sub_account_re_rented'', n)
      | SubAccountRenewed n _ _ \<Rightarrow> Some (''sub_account_renewed'', n)
      | SubAccountTransferred n _ _ _ \<Rightarrow> Some (''sub_account_transferred'', n)
      | SubAccountRecovered n _ _ _ \<Rightarrow> Some (''sub_account_recovered'', n)
      | SubAccountReclaimed n _ _ \<Rightarrow> Some (''sub_account_reclaimed'', n)
      | _ \<Rightarrow> None)"

section \<open>Life cycle\<close>

datatype lifecycle_status = LcRegistered | LcActive | LcGrace | LcReclaimable | LcSuspended

record lifecycle_clock =
  lc_grace_period_ns :: u64
  lc_reclaim_floor_ns :: u64

definition reclaimable_at :: "lifecycle_clock \<Rightarrow> u64 \<Rightarrow> u64" where
  "reclaimable_at clock from =
     max (sat_add from (lc_grace_period_ns clock)) (lc_reclaim_floor_ns clock)"

definition time_lifecycle :: "ctx \<Rightarrow> u64 \<Rightarrow> lifecycle_clock \<Rightarrow> lifecycle_status" where
  "time_lifecycle c expires_at clock =
     (if block_timestamp c < expires_at then LcActive
      else if block_timestamp c < reclaimable_at clock expires_at then LcGrace
      else LcReclaimable)"

definition tla_lifecycle ::
    "ctx \<Rightarrow> tla_entry \<Rightarrow> lifecycle_clock \<Rightarrow> u64 \<Rightarrow> lifecycle_status" where
  "tla_lifecycle c e clock suspended_until =
     (case te_status e of
        TlaRegisteredSt \<Rightarrow> LcRegistered
      | TlaSuspendedSt \<Rightarrow>
          if block_timestamp c < suspended_until then LcSuspended
          else time_lifecycle c (te_expires_at e) clock
      | TlaActiveSt \<Rightarrow> time_lifecycle c (te_expires_at e) clock)"

definition accepting_rentals :: "ctx \<Rightarrow> tla_entry \<Rightarrow> u64 \<Rightarrow> bool" where
  "accepting_rentals c e suspended_until =
     (if te_expires_at e \<le> block_timestamp c then False
      else case te_status e of
             TlaActiveSt \<Rightarrow> True
           | TlaSuspendedSt \<Rightarrow> suspended_until \<le> block_timestamp c
           | TlaRegisteredSt \<Rightarrow> False)"

definition sub_lifecycle :: "ctx \<Rightarrow> sub_account_entry \<Rightarrow> lifecycle_clock \<Rightarrow> lifecycle_status" where
  "sub_lifecycle c sub clock = time_lifecycle c (sa_expires_at sub) clock"

definition effective_sub_lifecycle ::
    "ctx \<Rightarrow> sub_account_entry \<Rightarrow> tla_entry \<Rightarrow> u64 \<Rightarrow> lifecycle_clock \<Rightarrow> u64 \<Rightarrow> lifecycle_status" where
  "effective_sub_lifecycle c sub tla retraction_notice_ns clock tla_suspended_until =
     (if tla_lifecycle c tla clock tla_suspended_until = LcReclaimable then LcReclaimable
      else case sa_retraction_at sub of
             Some retraction_at \<Rightarrow>
               if max (sat_add retraction_at retraction_notice_ns) (lc_reclaim_floor_ns clock)
                    \<le> block_timestamp c
               then LcReclaimable else sub_lifecycle c sub clock
           | None \<Rightarrow> sub_lifecycle c sub clock)"

section \<open>Names\<close>

definition is_name_char :: "char \<Rightarrow> bool" where
  "is_name_char ch \<longleftrightarrow>
     ch \<in> set ''abcdefghijklmnopqrstuvwxyz'' \<or> ch \<in> set ''0123456789'' \<or> ch = CHR ''-'' \<or> ch = CHR ''_''"

definition is_separator :: "char \<Rightarrow> bool" where
  "is_separator ch \<longleftrightarrow> ch = CHR ''-'' \<or> ch = CHR ''_''"

fun has_separator_pair :: "string \<Rightarrow> bool" where
  "has_separator_pair (x # y # zs) \<longleftrightarrow>
     is_separator x \<and> is_separator y \<or> has_separator_pair (y # zs)"
| "has_separator_pair _ \<longleftrightarrow> False"

definition validate_name :: "string \<Rightarrow> contract_error + unit" where
  "validate_name name =
     require (name \<noteq> [] \<and> length name \<le> 60) (InvalidName LengthOutOfBounds) (
     require (list_all is_name_char name) (InvalidName DisallowedCharacter) (
     require (\<not> is_separator (hd name) \<and> \<not> is_separator (last name))
       (InvalidName EdgeSeparator) (
     require (\<not> has_separator_pair name) (InvalidName EdgeSeparator) (Inr ()))))"

definition sub_account_key :: "account_id \<Rightarrow> string \<Rightarrow> string" where
  "sub_account_key tla_id name = name @ ''.'' @ tla_id"

text \<open>The cast \<open>as u8\<close> keeps the low eight bits of the sum.\<close>

definition total_name_length :: "account_id \<Rightarrow> string \<Rightarrow> u8" where
  "total_name_length tla_id name = word_of_nat (length name + 1 + length tla_id)"

definition validate_mintable_name :: "account_id \<Rightarrow> string \<Rightarrow> contract_error + unit" where
  "validate_mintable_name tla_id name =
     rbind (validate_name name) (\<lambda>_.
     require (unat MIN_LABEL_LEN \<le> length name) (InvalidName LabelTooShort) (
     require (total_name_length tla_id name \<le> MAX_ACCOUNT_ID_LEN)
       (InvalidName AccountIdTooLong) (Inr ())))"

end
