(* ===== verification/Registry_Pricing.thy ===== *)
theory Registry_Pricing
  imports Registry_Types
begin

text \<open>
  Prices (\<open>contracts/tla-registry/src/pricing.rs\<close> and \<open>fees.rs\<close>): dollars to NEAR, the
  quote with its slippage buffer, the band a rate update must stay in, and the rent of a name.
  The lemmas read every function as arithmetic on natural numbers.
\<close>

section \<open>Conversion, quote and rate band\<close>

definition YOCTO_PER_NEAR :: u128 where "YOCTO_PER_NEAR = 1000000000000000000000000"
definition USD_MICRO_PER_DOLLAR :: u128 where "USD_MICRO_PER_DOLLAR = 1000000"
definition MAX_USD_MICRO :: u128 where "MAX_USD_MICRO = 100000000000000"
definition MAX_NEAR_USD_RATE_MICRO :: u128 where "MAX_NEAR_USD_RATE_MICRO = 1000000000000"
definition BPS_DENOMINATOR :: u128 where "BPS_DENOMINATOR = 10000"

definition usd_micro_to_near_yocto :: "u128 \<Rightarrow> u128 \<Rightarrow> contract_error + u128" where
  "usd_micro_to_near_yocto usd_micro rate =
     require (rate \<noteq> 0) RateZero (
     require (usd_micro \<le> MAX_USD_MICRO) AggregateCap (
     ok_or (checked_mul usd_micro YOCTO_PER_NEAR) PriceOverflow (\<lambda>scaled. Inr (scaled div rate))))"

definition quote_with_slippage :: "u128 \<Rightarrow> u16 \<Rightarrow> contract_error + u128" where
  "quote_with_slippage amount slippage_bps =
     (let bps = ucast slippage_bps :: u128;
          quotient = amount div BPS_DENOMINATOR;
          remainder = amount mod BPS_DENOMINATOR
      in require (bps \<le> BPS_DENOMINATOR) SlippageOutOfRange (
         ok_or (checked_mul quotient bps) PriceOverflow (\<lambda>whole.
         ok_or (checked_mul remainder bps) PriceOverflow (\<lambda>partial_numerator.
         let partial = partial_numerator div BPS_DENOMINATOR
               + (if partial_numerator mod BPS_DENOMINATOR \<noteq> 0 then 1 else 0)
         in ok_or (checked_add whole partial) PriceOverflow (\<lambda>buffer.
            ok_or (checked_add amount buffer) PriceOverflow Inr)))))"

text \<open>The subtraction \<open>BPS_DENOMINATOR - move_bps\<close> panics below zero (the contracts are built
  with overflow checks); \<open>div_ceil\<close> is division rounded up.\<close>

definition rate_lower_bound :: "u128 \<Rightarrow> u16 \<Rightarrow> contract_error + u128" where
  "rate_lower_bound current move_bps =
     require ((ucast move_bps :: u128) \<le> BPS_DENOMINATOR) PriceOverflow (
     ok_or (checked_mul current (BPS_DENOMINATOR - ucast move_bps)) PriceOverflow (\<lambda>scaled.
     Inr (scaled div BPS_DENOMINATOR + (if scaled mod BPS_DENOMINATOR \<noteq> 0 then 1 else 0))))"

definition rate_upper_bound :: "u128 \<Rightarrow> u16 \<Rightarrow> contract_error + u128" where
  "rate_upper_bound current move_bps =
     ok_or (checked_mul current (BPS_DENOMINATOR + ucast move_bps)) PriceOverflow (\<lambda>scaled.
     Inr (scaled div BPS_DENOMINATOR))"

definition rate_is_usable :: "u128 \<Rightarrow> u128 \<Rightarrow> u128 \<Rightarrow> bool" where
  "rate_is_usable rate floor ceiling \<longleftrightarrow> rate \<noteq> 0 \<and> floor \<le> rate \<and> rate \<le> ceiling"

text \<open>Rust's \<open>&&\<close> evaluates the upper bound only when the lower one holds.\<close>

definition rate_within_bounds ::
    "u128 \<Rightarrow> u128 \<Rightarrow> u16 \<Rightarrow> u128 \<Rightarrow> u128 \<Rightarrow> contract_error + bool" where
  "rate_within_bounds current new move_bps floor ceiling =
     (if BPS_DENOMINATOR < ucast move_bps then Inr False
      else if new < floor \<or> ceiling < new then Inr False
      else if \<not> rate_is_usable current floor ceiling then Inr True
      else rbind (rate_lower_bound current move_bps) (\<lambda>lower.
           if new < lower then Inr False
           else rbind (rate_upper_bound current move_bps) (\<lambda>upper. Inr (new \<le> upper))))"

section \<open>Rent\<close>

definition base_rent :: "u8 \<Rightarrow> fee_config \<Rightarrow> u128" where
  "base_rent label_len config =
     (if label_len \<le> 5 then fc_rent_tier_5_usd_micro config
      else if label_len \<le> 8 then fc_rent_tier_8_usd_micro config
      else if label_len \<le> 10 then fc_rent_tier_10_usd_micro config
      else fc_rent_tier_12plus_usd_micro config)"

definition sub_account_rent :: "u8 \<Rightarrow> premium_category \<Rightarrow> fee_config \<Rightarrow> u128" where
  "sub_account_rent label_len premium config =
     (let base = base_rent label_len config; (num, den) = multiplier premium
      in sat_mul base num div den)"

definition calculate_rent :: "tla_entry \<Rightarrow> string \<Rightarrow> fee_config \<Rightarrow> tla_terms \<Rightarrow> u128" where
  "calculate_rent tla name config terms =
     (case te_tla_type tla of
        Business \<Rightarrow> (case tt_sub_fee_usd_micro terms of
                       None \<Rightarrow> fc_sub_fee_per_account_usd_micro config
                     | Some fee \<Rightarrow> fee)
      | Open \<Rightarrow>
          let label_len = (if length name < 256 then word_of_nat (length name) else 0)
          in sub_account_rent label_len (te_premium_category tla) config)"

definition default_fee_config :: fee_config where
  "default_fee_config =
     \<lparr>fc_tla_allocation_fee_usd_micro = 1000 * USD_MICRO_PER_DOLLAR,
      fc_rent_tier_5_usd_micro = 50 * USD_MICRO_PER_DOLLAR,
      fc_rent_tier_8_usd_micro = 20 * USD_MICRO_PER_DOLLAR,
      fc_rent_tier_10_usd_micro = 10 * USD_MICRO_PER_DOLLAR,
      fc_rent_tier_12plus_usd_micro = 5 * USD_MICRO_PER_DOLLAR,
      fc_sub_fee_per_account_usd_micro = USD_MICRO_PER_DOLLAR div 2,
      fc_account_creation_deposit_yocto = 12 * ONE_NEAR div 1000,
      fc_business_max_subs = 1000,
      fc_retraction_notice_ns = 7 * 24 * 60 * 60 * 1000000000,
      fc_max_rate_move_bps = 2000,
      fc_quote_slippage_bps = 527,
      fc_min_near_usd_rate_micro = 100000,
      fc_max_near_usd_rate_micro = 100000000,
      fc_rate_update_cooldown_ns = 300 * 1000000000,
      fc_max_rate_age_ns = 6 * 60 * 60 * 1000000000\<rparr>"

section \<open>The functions as arithmetic\<close>

lemma unat_consts [simp]:
  "unat BPS_DENOMINATOR = 10000" "unat YOCTO_PER_NEAR = 1000000000000000000000000"
  "unat MAX_USD_MICRO = 100000000000000"
  by (simp_all add: BPS_DENOMINATOR_def YOCTO_PER_NEAR_def MAX_USD_MICRO_def)

lemma unat_bps [simp]: "unat (ucast (b :: u16) :: u128) = unat b"
  using unat_bound [of b] by (simp add: unsigned_ucast_eq take_bit_nat_eq_self)

text \<open>Below the caps the conversion cannot overflow: the guard \<open>MAX_USD_MICRO\<close> is enough.\<close>

lemma usd_to_near_Inr:
  "usd_micro_to_near_yocto usd rate = Inr y \<longleftrightarrow>
     rate \<noteq> 0 \<and> usd \<le> MAX_USD_MICRO
     \<and> unat y = unat usd * 1000000000000000000000000 div unat rate"
proof (cases "rate \<noteq> 0 \<and> usd \<le> MAX_USD_MICRO")
  case True
  then have le: "unat usd \<le> 100000000000000" by (simp add: word_le_nat_alt)
  then have "unat usd * unat YOCTO_PER_NEAR < 2 ^ 128" by simp
  then have m: "unat (usd * YOCTO_PER_NEAR) = unat usd * 1000000000000000000000000"
    using unat_mul_exact [of usd YOCTO_PER_NEAR] by simp
  have "checked_mul usd YOCTO_PER_NEAR = Some (usd * YOCTO_PER_NEAR)"
    by (simp add: checked_mul_Some_iff m)
  then show ?thesis
    using True m by (auto simp: usd_micro_to_near_yocto_def word_unat_eq_iff unat_div)
qed (auto simp: usd_micro_to_near_yocto_def)

definition ceil_div :: "nat \<Rightarrow> nat \<Rightarrow> nat" where
  "ceil_div a b = (a + b - 1) div b"

lemma ceil_div_alt:
  assumes b: "0 < b"
  shows "ceil_div a b = a div b + (if a mod b = 0 then 0 else 1)"
proof (cases "a mod b = 0")
  case True
  then have "a + b - 1 = (b - 1) + b * (a div b)"
    using b mult_div_mod_eq [of b a] by linarith
  then have "(a + b - 1) div b = a div b + (b - 1) div b"
    using b by (metis add.commute div_mult_self2 less_numeral_extra(3))
  then show ?thesis using True b by (simp add: ceil_div_def)
next
  case False
  have "b * (a div b + 1) = b * (a div b) + b" by simp
  with False have "a + b - 1 = (a mod b - 1) + b * (a div b + 1)"
    using b mult_div_mod_eq [of b a] by linarith
  then have "(a + b - 1) div b = a div b + 1 + (a mod b - 1) div b"
    using b by (metis add.commute div_mult_self2 less_numeral_extra(3))
  moreover have "a mod b - 1 < b" using b mod_less_divisor [of b a] by linarith
  ultimately show ?thesis using False by (simp add: ceil_div_def)
qed

lemma ceil_div_add_mult:
  assumes "0 < b"
  shows "ceil_div (q * b + r) b = q + ceil_div r b"
  using assms by (simp add: ceil_div_alt)

lemma ceil_div_le:
  assumes "a \<le> b * n" "0 < b"
  shows "ceil_div a b \<le> n"
proof -
  have "a + b - 1 < b * Suc n" using assms by simp
  then show ?thesis using assms(2) by (simp add: ceil_div_def less_mult_imp_div_less less_Suc_eq_le [symmetric] mult.commute)
qed

lemma ceil_div_ge: "0 < b \<Longrightarrow> a \<le> b * ceil_div a b"
proof -
  assume b: "0 < b"
  have "a mod b < b" using b by simp
  then have "a \<le> b * (a div b) + b" using mult_div_mod_eq [of b a] by linarith
  then show ?thesis using mult_div_mod_eq [of b a] by (auto simp: ceil_div_alt [OF b])
qed

lemma split_mult: "(a::nat) * s = (a div b * s) * b + a mod b * s"
proof -
  have "(x * b + m) * s = (x * s) * b + m * s" for x m :: nat by (simp add: algebra_simps)
  from this [of "a div b" "a mod b"] show ?thesis by (simp only: div_mult_mod_eq)
qed

lemma quote_with_slippage_Inr:
  "quote_with_slippage amount bps = Inr y \<longleftrightarrow>
     unat bps \<le> 10000
     \<and> unat y = unat amount + ceil_div (unat amount * unat bps) 10000"
proof (cases "unat bps \<le> 10000")
  case False
  then show ?thesis by (simp add: quote_with_slippage_def Let_def word_le_nat_alt)
next
  case True
  let ?a = "unat amount" and ?s = "unat bps" and ?b = "ucast bps :: u128"
  let ?q = "amount div BPS_DENOMINATOR" and ?r = "amount mod BPS_DENOMINATOR"
  have q: "unat ?q = ?a div 10000" and r: "unat ?r = ?a mod 10000"
    by (simp_all add: unat_div unat_mod)
  have amt: "?a < 2 ^ 128" using unat_bound [of amount] by simp
  have "?a div 10000 * ?s \<le> ?a div 10000 * 10000" using True by simp
  also have "\<dots> \<le> ?a" by simp
  finally have wle: "?a div 10000 * ?s \<le> ?a" .
  have whole: "checked_mul ?q ?b = Some (?q * ?b)" "unat (?q * ?b) = ?a div 10000 * ?s"
    using wle amt unat_mul_exact [of ?q ?b] by (simp_all add: checked_mul_def q)
  have "?a mod 10000 * ?s < 10000 * 10001" by (intro mult_strict_mono) (use True in auto)
  then have pn: "checked_mul ?r ?b = Some (?r * ?b)" "unat (?r * ?b) = ?a mod 10000 * ?s"
    using unat_mul_exact [of ?r ?b] by (simp_all add: checked_mul_def r)
  let ?p = "?r * ?b div BPS_DENOMINATOR + (if ?r * ?b mod BPS_DENOMINATOR \<noteq> 0 then 1 else 0)"
  have "?r * ?b mod BPS_DENOMINATOR \<noteq> 0 \<longleftrightarrow> (?a mod 10000 * ?s) mod 10000 \<noteq> 0"
    by (simp add: unat_eq_zero [symmetric] unat_mod pn(2) del: unat_eq_zero)
  moreover have "unat (?r * ?b div BPS_DENOMINATOR) = (?a mod 10000 * ?s) div 10000"
    by (simp add: unat_div pn(2))
  moreover have "(?a mod 10000 * ?s) div 10000 < 10001" using \<open>_ < 10000 * 10001\<close> by linarith
  ultimately have p: "unat ?p = ceil_div (?a mod 10000 * ?s) 10000"
    by (auto simp: ceil_div_alt unat_add_exact)
  have sum: "?a div 10000 * ?s + ceil_div (?a mod 10000 * ?s) 10000 = ceil_div (?a * ?s) 10000"
  proof -
    have "?a * ?s = (?a div 10000 * ?s) * 10000 + ?a mod 10000 * ?s"
      by (rule split_mult)
    then show ?thesis using ceil_div_add_mult [of 10000 "?a div 10000 * ?s" "?a mod 10000 * ?s"]
      by simp
  qed
  have "ceil_div (?a * ?s) 10000 \<le> ?a"
    using True by (intro ceil_div_le) (simp_all add: mult.commute)
  then have fits: "unat (?q * ?b) + unat ?p < 2 ^ 128"
    using amt sum unfolding whole(2) p by linarith
  let ?buf = "?q * ?b + ?p"
  have buf: "checked_add (?q * ?b) ?p = Some ?buf" using fits by (simp add: checked_add_def)
  have ubuf: "unat ?buf = ceil_div (?a * ?s) 10000"
    using checked_add_Some_iff [of "?q * ?b" ?p ?buf] buf sum unfolding whole(2) p by simp
  have "quote_with_slippage amount bps = ok_or (checked_add amount ?buf) PriceOverflow Inr"
    using True unfolding quote_with_slippage_def Let_def whole(1) pn(1) ok_or_simps buf
    by (simp add: word_le_nat_alt)
  then show ?thesis using True ubuf by (auto simp: checked_add_Some_iff)
qed

text \<open>A quote taken at one rate covers the price at a later rate, up to one yocto, as long as
  the rate fell by no more than the slippage allows.\<close>

lemma floor_quote_covers:
  fixes U r r' s :: nat
  assumes "0 < r" "0 < r'" "s \<le> 10000" "r * 10000 \<le> r' * (10000 + s)"
  shows "U div r' \<le> U div r + ceil_div (U div r * s) 10000 + 1"
proof -
  let ?A = "U div r" and ?B = "U div r'"
  let ?c = "ceil_div (?A * s) 10000"
  have "U < r * (?A + 1)" using assms(1) by (metis Suc_eq_plus1 dividend_less_div_times mult.commute mult_Suc_right add.commute)
  then have "U * 10000 < r * 10000 * (?A + 1)" by (simp add: algebra_simps)
  also have "\<dots> \<le> r' * (10000 + s) * (?A + 1)" using assms(4) by (intro mult_right_mono) auto
  finally have 1: "U * 10000 < r' * ((10000 + s) * (?A + 1))" by (simp only: mult.assoc)
  have "r' * ?B \<le> U" by simp
  then have "r' * (?B * 10000) \<le> U * 10000" by (metis mult.assoc mult_le_mono1)
  with 1 have "r' * (?B * 10000) < r' * ((10000 + s) * (?A + 1))" by linarith
  then have 2: "?B * 10000 < (10000 + s) * (?A + 1)" by simp
  have "(10000 + s) * (?A + 1) = ?A * 10000 + ?A * s + 10000 + s" by (simp add: algebra_simps)
  also have "\<dots> \<le> ?A * 10000 + 10000 * ?c + 20000"
    using ceil_div_ge [of 10000 "?A * s"] assms(3) by simp
  finally have "?B * 10000 < (?A + ?c + 2) * 10000" using 2 by simp
  then have "?B < ?A + ?c + 2" by simp
  then show ?thesis by simp
qed

section \<open>The rate band\<close>

lemma checked_mul_fits:
  "unat a * unat b < 2 ^ 128 \<Longrightarrow> checked_mul a b = Some (a * b) \<and> unat (a * b) = unat a * unat b"
  for a b :: u128
  by (simp add: checked_mul_def unat_mul_exact)

lemma rate_bounds_Inr:
  assumes "unat current \<le> 1000000000000" and "unat bps \<le> 10000"
  shows "\<exists>lo hi. rate_lower_bound current bps = Inr lo \<and> rate_upper_bound current bps = Inr hi
     \<and> unat lo = ceil_div (unat current * (10000 - unat bps)) 10000
     \<and> unat hi = unat current * (10000 + unat bps) div 10000"
proof -
  let ?b = "ucast bps :: u128"
  have lob: "unat (BPS_DENOMINATOR - ?b) = 10000 - unat bps"
    using assms(2) by (simp add: unat_sub word_le_nat_alt)
  have hib: "unat (BPS_DENOMINATOR + ?b) = 10000 + unat bps"
    using assms(2) unat_add_exact [of BPS_DENOMINATOR ?b] by simp
  have "unat current * (10000 - unat bps) \<le> 1000000000000 * 10000"
    using assms(1) by (intro mult_mono) auto
  then have lo: "checked_mul current (BPS_DENOMINATOR - ?b) = Some (current * (BPS_DENOMINATOR - ?b))"
    "unat (current * (BPS_DENOMINATOR - ?b)) = unat current * (10000 - unat bps)"
    using checked_mul_fits [of current "BPS_DENOMINATOR - ?b"] by (simp_all add: lob)
  have "unat current * (10000 + unat bps) \<le> 1000000000000 * 20000"
    using assms by (intro mult_mono) auto
  then have hi: "checked_mul current (BPS_DENOMINATOR + ?b) = Some (current * (BPS_DENOMINATOR + ?b))"
    "unat (current * (BPS_DENOMINATOR + ?b)) = unat current * (10000 + unat bps)"
    using checked_mul_fits [of current "BPS_DENOMINATOR + ?b"] by (simp_all add: hib)
  let ?m = "current * (BPS_DENOMINATOR - ?b)"
  have "?m mod BPS_DENOMINATOR \<noteq> 0 \<longleftrightarrow> (unat current * (10000 - unat bps)) mod 10000 \<noteq> 0"
    by (simp add: unat_eq_zero [symmetric] unat_mod lo(2) del: unat_eq_zero)
  moreover have "unat (?m div BPS_DENOMINATOR) = unat current * (10000 - unat bps) div 10000"
    by (simp add: unat_div lo(2))
  moreover have "unat current * (10000 - unat bps) div 10000 \<le> 1000000000000"
    using \<open>_ \<le> 1000000000000 * 10000\<close> by linarith
  ultimately have "unat (?m div BPS_DENOMINATOR + (if ?m mod BPS_DENOMINATOR \<noteq> 0 then 1 else 0))
      = ceil_div (unat current * (10000 - unat bps)) 10000"
    by (auto simp: ceil_div_alt unat_add_exact)
  moreover have "rate_lower_bound current bps
      = Inr (?m div BPS_DENOMINATOR + (if ?m mod BPS_DENOMINATOR \<noteq> 0 then 1 else 0))"
    using assms(2) lo(1) by (simp add: rate_lower_bound_def word_le_nat_alt)
  moreover have "rate_upper_bound current bps = Inr (current * (BPS_DENOMINATOR + ?b) div BPS_DENOMINATOR)"
    using hi(1) by (simp add: rate_upper_bound_def)
  moreover have "unat (current * (BPS_DENOMINATOR + ?b) div BPS_DENOMINATOR)
      = unat current * (10000 + unat bps) div 10000" by (simp add: unat_div hi(2))
  ultimately show ?thesis by blast
qed

lemma ceil_div_le_iff:
  assumes "0 < b"
  shows "ceil_div a b \<le> n \<longleftrightarrow> a \<le> b * n"
proof
  assume "ceil_div a b \<le> n"
  then have "b * ceil_div a b \<le> b * n" by simp
  then show "a \<le> b * n" using ceil_div_ge [OF assms, of a] by linarith
qed (rule ceil_div_le, use assms in auto)

section \<open>Rent and name length\<close>

definition tiers_descending :: "fee_config \<Rightarrow> bool" where
  "tiers_descending config \<longleftrightarrow>
     fc_rent_tier_8_usd_micro config \<le> fc_rent_tier_5_usd_micro config
     \<and> fc_rent_tier_10_usd_micro config \<le> fc_rent_tier_8_usd_micro config
     \<and> fc_rent_tier_12plus_usd_micro config \<le> fc_rent_tier_10_usd_micro config"

lemma base_rent_antimono:
  assumes "tiers_descending config" and "l \<le> l'"
  shows "base_rent l' config \<le> base_rent l config"
  using assms by (auto simp: base_rent_def tiers_descending_def)

lemma sat_mul_mono1: "a \<le> a' \<Longrightarrow> sat_mul a k \<le> sat_mul a' k"
proof -
  assume "a \<le> a'"
  then have "unat a * unat k \<le> unat a' * unat k" by (simp add: word_le_nat_alt)
  from min.mono [OF this order_refl] show ?thesis unfolding word_le_nat_alt unat_sat_mul .
qed

lemma sub_account_rent_antimono:
  assumes "tiers_descending config" and "l \<le> l'"
  shows "sub_account_rent l' cat config \<le> sub_account_rent l cat config"
proof -
  have "sat_mul (base_rent l' config) k \<le> sat_mul (base_rent l config) k" for k
    using base_rent_antimono [OF assms] by (rule sat_mul_mono1)
  then show ?thesis
    by (cases cat) (simp_all add: sub_account_rent_def Let_def word_le_nat_alt unat_div div_le_mono)
qed

end
