(* ===== verification/Registry_State.thy ===== *)
theory Registry_State
  imports Registry_Pricing
begin

text \<open>
  The state of the registry (\<open>TlaRegistry\<close> in \<open>contracts/tla-registry/src/lib.rs\<close>), what it
  calls and is called back with, and the helpers its methods share: pricing
  (\<open>pricing.rs\<close>, \<open>fees.rs\<close>), the owner and namespace indexes (\<open>indexes.rs\<close>), the activity
  ring (\<open>activity.rs\<close>), the asset gate (\<open>asset_gate.rs\<close>), refunds and guards (\<open>lib.rs\<close>).

  The SDK's \<open>LookupMap\<close> and \<open>IterableMap\<close> are maps, \<open>IterableSet\<close> is a set; the order in
  which the SDK iterates a set is the parameter \<open>rl_iter\<close>. The entries kept under raw
  storage keys (mint allowances, resale flags, whitelists, claims) are fields of the state.
\<close>

section \<open>State\<close>

record tla_registry =
  r_state_version :: u16
  r_tlas :: "account_id \<rightharpoonup> tla_entry"
  r_sub_accounts :: "string \<rightharpoonup> sub_account_entry"
  r_sub_accounts_by_owner :: "account_id \<rightharpoonup> string set"
  r_sub_accounts_by_tla :: "account_id \<rightharpoonup> string set"
  r_recent_activity :: "activity_record list"
  r_activity_cursor :: u32
  r_admins :: "account_id set"
  r_fee_config :: fee_config
  r_total_revenue :: u128
  r_sub_account_count :: u64
  r_paused :: bool
  r_version :: u8
  r_pending_refunds :: "account_id \<rightharpoonup> u128"
  r_total_pending_refunds :: u128
  r_ft_allowlist :: "account_id set"
  r_business_sub_count :: "account_id \<rightharpoonup> u32"
  r_business_sub_cap_override :: "account_id \<rightharpoonup> u32"
  r_tla_terms :: "account_id \<rightharpoonup> tla_terms"
  r_parked_names :: "string \<rightharpoonup> parked_entry"
  r_reclaim_pending :: "string set"
  r_payment_authorities :: "account_id set"
  r_recovery_authorities :: "account_id set"
  r_hos_extension :: account_id
  r_grace_period_ns :: u64
  r_lease_term_ns :: u64
  r_price_oracle :: account_id
  r_near_usd_rate_micro :: u128
  r_rate_updated_at :: u64
  r_rate_sequence :: u64
  r_treasury :: account_id
  r_council :: account_id
  r_marketplace_paused :: bool
  r_paused_until_ns :: u64
  r_unpaused_at :: u64
  r_sweepable_tokens :: "account_id set"
  r_suspended_until :: "account_id \<rightharpoonup> u64"
  r_nft_contract_metadata :: nft_contract_metadata
  r_approved_code_hash :: "crypto_hash option"
  r_approved_at :: "u64 option"
  r_upgrade_delay_ns :: u64
  r_venues :: "account_id set"
  r_upgrade_proven :: bool
  r_paid_order_ids :: "string \<rightharpoonup> paid_order_state"
  r_pending_council :: "account_id option"
  r_pending_council_at :: "u64 option"
  r_pending_treasury :: "account_id option"
  r_pending_treasury_at :: "u64 option"
  r_authority_allowance :: "account_id \<times> account_id \<rightharpoonup> u64"
  r_authority_used :: "account_id \<times> account_id \<rightharpoonup> u64"
  r_biz_resale :: "account_id set"
  r_biz_whitelist :: "(account_id \<times> account_id) set"
  r_biz_claimed :: "string set"

section \<open>Parameters, remote calls and callbacks\<close>

text \<open>What the registry uses of the SDK and cannot be read here: the account id parser, the
  iteration order of a set, the JSON decoding of a balance and the hash of the runtime.\<close>

record registry_lib =
  rl_parse :: "string \<Rightarrow> account_id option"
  rl_iter :: "string set \<Rightarrow> string list"
  rl_u128_json :: "bytes \<Rightarrow> u128 option"
  rl_sha256 :: "bytes \<Rightarrow> crypto_hash"

record mint_settlement =
  ms_tla_id :: account_id
  ms_name :: string
  ms_owner :: account_id
  ms_payer :: account_id
  ms_rent_yocto :: u128
  ms_attached_yocto :: u128
  ms_order_id :: "string option"

record pending_re_rent =
  pr_tla_id :: account_id
  pr_name :: string
  pr_owner :: account_id
  pr_payer :: account_id
  pr_payout_account :: account_id
  pr_rent :: u128
  pr_attached :: u128
  pr_sub_account :: account_id
  pr_order_id :: "string option"
  pr_expires_at :: u64

record nft_rotation =
  nr_tla_id :: account_id
  nr_name :: string
  nr_from :: account_id
  nr_to :: account_id
  nr_memo :: "string option"
  nr_cause :: rotation_cause

record nft_transfer_call_args =
  nc_tla_id :: account_id
  nc_name :: string
  nc_from :: account_id
  nc_to :: account_id
  nc_memo :: "string option"
  nc_msg :: string
  nc_cause :: rotation_cause

text \<open>A callback names the private method that runs when the promise resolves, with the
  arguments the scheduling method fixed.\<close>

datatype (plugins only:) reg_callback =
    On_sub_account_created mint_settlement
  | On_sub_account_created_paid mint_settlement
  | On_sub_account_re_rented mint_settlement
  | On_re_rent_balances_checked pending_re_rent "account_id list"
  | On_business_name_claimed mint_settlement
  | On_payout_set account_id string account_id account_id
  | On_sub_account_renewed account_id string u64 account_id u128
  | On_lease_synced string string
  | On_retraction_scheduled string account_id
  | On_retraction_canceled string account_id
  | On_balances_checked account_id string account_id "account_id list"
  | On_reclaim_finalized account_id string account_id
  | On_transfer_balances_checked account_id account_id string account_id account_id
      rotation_cause "account_id list"
  | On_sub_account_transferred account_id string account_id account_id rotation_cause
  | On_sub_account_recovered account_id string account_id account_id
  | Nft_on_transfer_balances_checked account_id nft_rotation "account_id list"
  | Nft_on_deposit_balances_checked account_id nft_transfer_call_args "account_id list"
  | Nft_on_rotation_resolved nft_rotation
  | Nft_on_rotation_resolved_call nft_transfer_call_args
  | Nft_resolve_transfer account_id string account_id account_id
  | Nft_on_return_resolved account_id string account_id account_id
  | On_claim_refund_settled account_id u128
  | After_seal string account_id

text \<open>The methods of the extension contract the registry calls (\<open>interfaces.rs\<close>).\<close>

datatype ext_call =
    Ext_sweep_ft account_id account_id account_id u128
  | Ext_sweep_near account_id
  | Ext_force_transfer account_id "account_id option" rotation_cause "account_id option"
  | Ext_re_rent account_id account_id account_id u64 u128
  | Ext_push_lease account_id u64 operating_state
  | Ext_retract_lease account_id u64
  | Ext_set_payout account_id account_id account_id

datatype reg_remote =
    CallExtension account_id ext_call
  | CreateSubAccount account_id string account_id account_id u64 u128
  | FtBalances "account_id list" account_id
  | TransferNear account_id u128
  | NftOnTransfer account_id account_id string string
  | DeployAndMigrate bytes
  | DeleteKey string

datatype reg_out =
    RegEmit reg_event
  | RegCall reg_remote "reg_callback option"

type_synonym reg_res = "contract_error + (tla_registry \<times> reg_out list)"

section \<open>Guards\<close>

definition assert_one_yocto_r :: "ctx \<Rightarrow> contract_error + unit" where
  "assert_one_yocto_r c = require (attached_deposit c = 1) RequiresOneYocto (Inr ())"

definition assert_private_r :: "ctx \<Rightarrow> contract_error + unit" where
  "assert_private_r c =
     require (is_private_call c) RegPrivateMethod (require (no_deposit c) RegNotPayable (Inr ()))"

definition assert_not_payable :: "ctx \<Rightarrow> contract_error + unit" where
  "assert_not_payable c = require (no_deposit c) RegNotPayable (Inr ())"

definition assert_admin :: "ctx \<Rightarrow> tla_registry \<Rightarrow> contract_error + unit" where
  "assert_admin c r = require (predecessor_account_id c \<in> r_admins r) OnlyAdmin (Inr ())"

definition assert_council :: "ctx \<Rightarrow> tla_registry \<Rightarrow> contract_error + unit" where
  "assert_council c r = require (predecessor_account_id c = r_council r) OnlyCouncil (Inr ())"

definition assert_treasury_or_council :: "ctx \<Rightarrow> tla_registry \<Rightarrow> contract_error + unit" where
  "assert_treasury_or_council c r =
     require (predecessor_account_id c = r_treasury r \<or> predecessor_account_id c = r_council r)
       OnlyTreasuryOrCouncil (Inr ())"

definition is_admin_or_council :: "account_id \<Rightarrow> tla_registry \<Rightarrow> bool" where
  "is_admin_or_council account r \<longleftrightarrow> account = r_council r \<or> account \<in> r_admins r"

definition assert_admin_or_council :: "ctx \<Rightarrow> tla_registry \<Rightarrow> contract_error + unit" where
  "assert_admin_or_council c r =
     require (is_admin_or_council (predecessor_account_id c) r) OnlyAdminOrCouncil (Inr ())"

definition assert_marketplace_open :: "tla_registry \<Rightarrow> contract_error + unit" where
  "assert_marketplace_open r = require (\<not> r_marketplace_paused r) MarketplacePausedErr (Inr ())"

definition assert_payment_authority :: "ctx \<Rightarrow> tla_registry \<Rightarrow> contract_error + account_id" where
  "assert_payment_authority c r =
     require (predecessor_account_id c \<in> r_payment_authorities r) OnlyPaymentAuthority (
     Inr (predecessor_account_id c))"

definition authority_used :: "account_id \<Rightarrow> account_id \<Rightarrow> tla_registry \<Rightarrow> u64" where
  "authority_used authority tla_id r =
     (case r_authority_used r (authority, tla_id) of None \<Rightarrow> 0 | Some n \<Rightarrow> n)"

definition assert_payment_authority_for ::
    "ctx \<Rightarrow> account_id \<Rightarrow> tla_registry \<Rightarrow> contract_error + account_id" where
  "assert_payment_authority_for c tla_id r =
     rbind (assert_payment_authority c r) (\<lambda>caller.
     ok_or (r_authority_allowance r (caller, tla_id)) AuthorityNotBoundToTla (\<lambda>allowance.
     require (\<not> (allowance \<noteq> 0 \<and> allowance \<le> authority_used caller tla_id r))
       AuthorityMintAllowanceSpent (Inr caller)))"

definition assert_recovery_authority :: "ctx \<Rightarrow> tla_registry \<Rightarrow> contract_error + account_id" where
  "assert_recovery_authority c r =
     require (predecessor_account_id c \<in> r_recovery_authorities r) OnlyRecoveryAuthority (
     Inr (predecessor_account_id c))"

definition effective_paused :: "ctx \<Rightarrow> tla_registry \<Rightarrow> bool" where
  "effective_paused c r \<longleftrightarrow> r_paused r \<and> block_timestamp c < r_paused_until_ns r"

definition assert_not_paused :: "ctx \<Rightarrow> tla_registry \<Rightarrow> contract_error + unit" where
  "assert_not_paused c r = require (\<not> effective_paused c r) Paused (Inr ())"

definition reclaim_floor_ns :: "ctx \<Rightarrow> tla_registry \<Rightarrow> u64" where
  "reclaim_floor_ns c r =
     (if effective_paused c r then - 1
      else let ended_at = (if r_paused r then r_paused_until_ns r else r_unpaused_at r)
           in sat_add ended_at (r_grace_period_ns r))"

definition end_pause :: "ctx \<Rightarrow> tla_registry \<Rightarrow> tla_registry" where
  "end_pause c r = r\<lparr>r_paused := False, r_paused_until_ns := 0, r_unpaused_at := block_timestamp c\<rparr>"

definition suspension_expiry :: "account_id \<Rightarrow> tla_registry \<Rightarrow> u64" where
  "suspension_expiry tla_id r =
     (case r_suspended_until r tla_id of None \<Rightarrow> 0 | Some t \<Rightarrow> t)"

definition terms_for :: "account_id \<Rightarrow> tla_registry \<Rightarrow> tla_terms" where
  "terms_for tla_id r =
     (case r_tla_terms r tla_id of
        None \<Rightarrow> \<lparr>tt_allocation_fee_usd_micro = None, tt_tla_rent_usd_micro = None,
                 tt_sub_fee_usd_micro = None\<rparr>
      | Some terms \<Rightarrow> terms)"

definition allocation_fee_usd_micro :: "account_id \<Rightarrow> tla_registry \<Rightarrow> u128" where
  "allocation_fee_usd_micro tla_id r =
     (case tt_allocation_fee_usd_micro (terms_for tla_id r) of
        None \<Rightarrow> fc_tla_allocation_fee_usd_micro (r_fee_config r) | Some fee \<Rightarrow> fee)"

definition tla_rent_usd_micro :: "account_id \<Rightarrow> tla_registry \<Rightarrow> u128" where
  "tla_rent_usd_micro tla_id r =
     (case tt_tla_rent_usd_micro (terms_for tla_id r) of
        None \<Rightarrow> base_rent (word_of_nat (length tla_id)) (r_fee_config r) | Some rent \<Rightarrow> rent)"

definition clock :: "ctx \<Rightarrow> tla_registry \<Rightarrow> lifecycle_clock" where
  "clock c r = \<lparr>lc_grace_period_ns = r_grace_period_ns r, lc_reclaim_floor_ns = reclaim_floor_ns c r\<rparr>"

section \<open>Prices\<close>

definition convert_usd_to_near :: "ctx \<Rightarrow> u128 \<Rightarrow> tla_registry \<Rightarrow> contract_error + u128" where
  "convert_usd_to_near c usd_micro r =
     (let rate = r_near_usd_rate_micro r; config = r_fee_config r in
     require (rate \<noteq> 0) RateNotInitialized (
     require (fc_min_near_usd_rate_micro config \<le> rate \<and> rate \<le> fc_max_near_usd_rate_micro config)
       RateOutOfBounds (
     require (sat_sub (block_timestamp c) (r_rate_updated_at r) \<le> fc_max_rate_age_ns config)
       RateStale (
     require (usd_micro \<le> MAX_USD_MICRO) FeeExceedsCap (
     usd_micro_to_near_yocto usd_micro rate)))))"

definition quote_usd_to_near :: "ctx \<Rightarrow> u128 \<Rightarrow> tla_registry \<Rightarrow> contract_error + u128" where
  "quote_usd_to_near c usd_micro r =
     rbind (convert_usd_to_near c usd_micro r) (\<lambda>required.
     quote_with_slippage required (fc_quote_slippage_bps (r_fee_config r)))"

section \<open>Refunds and balance\<close>

definition add_pending_refund :: "account_id \<Rightarrow> u128 \<Rightarrow> tla_registry \<Rightarrow> tla_registry" where
  "add_pending_refund account amount r =
     (let existing = (case r_pending_refunds r account of None \<Rightarrow> 0 | Some a \<Rightarrow> a)
      in r\<lparr>r_pending_refunds := (r_pending_refunds r)(account \<mapsto> sat_add existing amount),
           r_total_pending_refunds := sat_add (r_total_pending_refunds r) amount\<rparr>)"

definition refund_excess :: "account_id \<Rightarrow> u128 \<Rightarrow> u128 \<Rightarrow> tla_registry \<Rightarrow> tla_registry" where
  "refund_excess payer attached charged r =
     (let excess = sat_sub attached charged
      in if 0 < excess then add_pending_refund payer excess r else r)"

definition available_balance :: "ctx \<Rightarrow> u128" where
  "available_balance c =
     sat_sub (account_balance c) (sat_mul (storage_byte_cost c) (ucast (storage_usage c)))"

section \<open>Owner and namespace index\<close>

definition index_add ::
    "(account_id \<rightharpoonup> string set) \<Rightarrow> account_id \<Rightarrow> string \<Rightarrow> (account_id \<rightharpoonup> string set)" where
  "index_add index i key =
     index(i \<mapsto> insert key (case index i of None \<Rightarrow> {} | Some keys \<Rightarrow> keys))"

definition index_remove ::
    "(account_id \<rightharpoonup> string set) \<Rightarrow> account_id \<Rightarrow> string \<Rightarrow> (account_id \<rightharpoonup> string set)" where
  "index_remove index i key =
     (case index i of
        None \<Rightarrow> index
      | Some keys \<Rightarrow>
          if keys - {key} = {} then index(i := None) else index(i \<mapsto> keys - {key}))"

definition forget_claim :: "string \<Rightarrow> tla_registry \<Rightarrow> tla_registry" where
  "forget_claim full_name r = r\<lparr>r_biz_claimed := r_biz_claimed r - {full_name}\<rparr>"

definition sub_account_insert :: "string \<Rightarrow> sub_account_entry \<Rightarrow> tla_registry \<Rightarrow> tla_registry" where
  "sub_account_insert key entry r =
     r\<lparr>r_sub_accounts_by_owner := index_add (r_sub_accounts_by_owner r) (sa_owner entry) key,
       r_sub_accounts_by_tla := index_add (r_sub_accounts_by_tla r) (sa_tla_id entry) key,
       r_sub_accounts := (r_sub_accounts r)(key \<mapsto> entry)\<rparr>"

definition sub_account_remove ::
    "string \<Rightarrow> tla_registry \<Rightarrow> tla_registry \<times> sub_account_entry option" where
  "sub_account_remove key r =
     (case r_sub_accounts r key of
        None \<Rightarrow> (r, None)
      | Some removed \<Rightarrow>
          (forget_claim key
             (r\<lparr>r_sub_accounts := (r_sub_accounts r)(key := None),
                r_sub_accounts_by_owner :=
                  index_remove (r_sub_accounts_by_owner r) (sa_owner removed) key,
                r_sub_accounts_by_tla :=
                  index_remove (r_sub_accounts_by_tla r) (sa_tla_id removed) key\<rparr>),
           Some removed))"

definition sub_account_reassign ::
    "string \<Rightarrow> account_id \<Rightarrow> account_id \<Rightarrow> tla_registry \<Rightarrow> tla_registry \<times> bool" where
  "sub_account_reassign key owner payout r =
     (case r_sub_accounts r key of
        None \<Rightarrow> (r, False)
      | Some sub \<Rightarrow>
          let r1 = r\<lparr>r_sub_accounts := (r_sub_accounts r)(key \<mapsto>
                       sub\<lparr>sa_owner := owner, sa_payout_account := payout\<rparr>)\<rparr>
          in (if sa_owner sub \<noteq> owner
              then r1\<lparr>r_sub_accounts_by_owner :=
                        index_add (index_remove (r_sub_accounts_by_owner r) (sa_owner sub) key)
                          owner key\<rparr>
              else r1, True))"

definition owner_supply :: "account_id \<Rightarrow> tla_registry \<Rightarrow> nat" where
  "owner_supply owner r =
     (case r_sub_accounts_by_owner r owner of None \<Rightarrow> 0 | Some keys \<Rightarrow> card keys)"

section \<open>Activity ring\<close>

definition ACTIVITY_CAPACITY :: u32 where "ACTIVITY_CAPACITY = 256"

definition push_activity :: "ctx \<Rightarrow> string \<Rightarrow> string \<Rightarrow> tla_registry \<Rightarrow> tla_registry" where
  "push_activity c event account r =
     (let rec = \<lparr>act_event = event, act_account = account, act_block_height = block_height c,
                 act_block_timestamp = block_timestamp c\<rparr>
      in if length (r_recent_activity r) < unat ACTIVITY_CAPACITY
         then r\<lparr>r_recent_activity := r_recent_activity r @ [rec]\<rparr>
         else r\<lparr>r_recent_activity := (r_recent_activity r)[unat (r_activity_cursor r) := rec],
                r_activity_cursor := (r_activity_cursor r + 1) mod ACTIVITY_CAPACITY\<rparr>)"

definition emit_activity :: "ctx \<Rightarrow> reg_event \<Rightarrow> tla_registry \<Rightarrow> tla_registry \<times> reg_out list" where
  "emit_activity c ev r =
     (case activity_entry ev of
        None \<Rightarrow> (r, [RegEmit ev])
      | Some (name, account) \<Rightarrow> (push_activity c name account r, [RegEmit ev]))"

section \<open>Asset gate\<close>

definition FT_BALANCE_MAX_LEN :: nat where "FT_BALANCE_MAX_LEN = 256"

datatype balance_gate = Clear | Blocked "account_id option" string

definition ft_balance_fanout :: "account_id list \<Rightarrow> account_id \<Rightarrow> reg_remote option" where
  "ft_balance_fanout allowlist sub_account =
     (case allowlist of [] \<Rightarrow> None | _ \<Rightarrow> Some (FtBalances allowlist sub_account))"

definition read_u128 :: "registry_lib \<Rightarrow> ctx \<Rightarrow> nat \<Rightarrow> string + u128" where
  "read_u128 lib c i =
     (case promise_results c ! i of
        Inr bs \<Rightarrow>
          if length bs \<le> FT_BALANCE_MAX_LEN
          then (case rl_u128_json lib bs of
                  None \<Rightarrow> Inl ''balance_unverifiable'' | Some v \<Rightarrow> Inr v)
          else Inl ''balance_query_unverifiable''
      | Inl Promise_Failed \<Rightarrow> Inl ''balance_query_failed''
      | Inl Promise_Other \<Rightarrow> Inl ''balance_query_unverifiable'')"

definition block_reason :: "registry_lib \<Rightarrow> ctx \<Rightarrow> nat \<Rightarrow> string option" where
  "block_reason lib c i =
     (case read_u128 lib c i of
        Inr balance \<Rightarrow> if 0 < balance then Some ''nonzero_balance'' else None
      | Inl reason \<Rightarrow> Some reason)"

fun gate_scan :: "registry_lib \<Rightarrow> ctx \<Rightarrow> nat \<Rightarrow> account_id list \<Rightarrow> balance_gate" where
  "gate_scan lib c i [] = Clear"
| "gate_scan lib c i (token # rest) =
     (case block_reason lib c i of
        Some reason \<Rightarrow> Blocked (Some token) reason
      | None \<Rightarrow> gate_scan lib c (Suc i) rest)"

definition ft_balances_clear :: "registry_lib \<Rightarrow> ctx \<Rightarrow> account_id list \<Rightarrow> balance_gate" where
  "ft_balances_clear lib c allowlist =
     (if length (promise_results c) \<noteq> length allowlist
      then Blocked None ''result_count_mismatch''
      else gate_scan lib c 0 allowlist)"

end
