(* ===== verification/Registry_Rental.thy ===== *)
theory Registry_Rental
  imports Registry_State
begin

text \<open>
  Renting names: \<open>rental.rs\<close>, the settlement callbacks of \<open>callbacks.rs\<close>, the counters of
  \<open>business.rs\<close> they use, and the mint allowances of payment authorities (\<open>lib.rs\<close>). A
  method that schedules a promise returns it with the callback that will settle it.
\<close>

section \<open>Counters of a business namespace\<close>

definition effective_business_cap :: "account_id \<Rightarrow> tla_registry \<Rightarrow> u32" where
  "effective_business_cap tla_id r =
     (case r_business_sub_cap_override r tla_id of
        None \<Rightarrow> fc_business_max_subs (r_fee_config r) | Some cap \<Rightarrow> cap)"

definition business_count :: "account_id \<Rightarrow> tla_registry \<Rightarrow> u32" where
  "business_count tla_id r =
     (case r_business_sub_count r tla_id of None \<Rightarrow> 0 | Some n \<Rightarrow> n)"

definition business_count_check_and_bump ::
    "account_id \<Rightarrow> tla_registry \<Rightarrow> contract_error + tla_registry" where
  "business_count_check_and_bump tla_id r =
     require (business_count tla_id r < effective_business_cap tla_id r) MaxBusinessSubsReached (
     Inr (r\<lparr>r_business_sub_count := (r_business_sub_count r)(tla_id \<mapsto>
              sat_add (business_count tla_id r) 1)\<rparr>))"

definition business_count_decrement :: "account_id \<Rightarrow> tla_registry \<Rightarrow> tla_registry" where
  "business_count_decrement tla_id r =
     (let count = business_count tla_id r; next = sat_sub count 1
      in if count = 0 then r
         else if next = 0 then r\<lparr>r_business_sub_count := (r_business_sub_count r)(tla_id := None)\<rparr>
         else r\<lparr>r_business_sub_count := (r_business_sub_count r)(tla_id \<mapsto> next)\<rparr>)"

definition business_count_decrement_if_business :: "account_id \<Rightarrow> tla_registry \<Rightarrow> tla_registry" where
  "business_count_decrement_if_business tla_id r =
     (case r_tlas r tla_id of
        None \<Rightarrow> r
      | Some t \<Rightarrow> if te_tla_type t = Business then business_count_decrement tla_id r else r)"

definition resale_enabled :: "account_id \<Rightarrow> tla_registry \<Rightarrow> bool" where
  "resale_enabled tla_id r \<longleftrightarrow> tla_id \<in> r_biz_resale r"

definition licensee_governed :: "account_id \<Rightarrow> tla_entry \<Rightarrow> tla_registry \<Rightarrow> bool" where
  "licensee_governed tla_id tla r \<longleftrightarrow> te_tla_type tla = Business \<and> \<not> resale_enabled tla_id r"

definition licensee_sets_payout :: "account_id \<Rightarrow> tla_entry \<Rightarrow> string \<Rightarrow> tla_registry \<Rightarrow> bool" where
  "licensee_sets_payout tla_id tla full_name r \<longleftrightarrow>
     licensee_governed tla_id tla r \<and> full_name \<notin> r_biz_claimed r"

section \<open>Mint allowances\<close>

definition ALLOWANCE_WARN_REMAINING :: u64 where "ALLOWANCE_WARN_REMAINING = 5"

definition release_authority_mint :: "account_id \<Rightarrow> account_id \<Rightarrow> tla_registry \<Rightarrow> tla_registry" where
  "release_authority_mint authority tla_id r =
     (let used = authority_used authority tla_id r
      in if used = 0 then r
         else r\<lparr>r_authority_used := (r_authority_used r)((authority, tla_id) \<mapsto> sat_sub used 1)\<rparr>)"

definition record_authority_mint ::
    "account_id \<Rightarrow> account_id \<Rightarrow> tla_registry \<Rightarrow> tla_registry \<times> reg_out list" where
  "record_authority_mint authority tla_id r =
     (let used = sat_add (authority_used authority tla_id r) 1;
          r1 = r\<lparr>r_authority_used := (r_authority_used r)((authority, tla_id) \<mapsto> used)\<rparr>
      in case r_authority_allowance r (authority, tla_id) of
           None \<Rightarrow> (r1, [])
         | Some allowance \<Rightarrow>
             let remaining = sat_sub allowance used
             in (r1, if allowance \<noteq> 0 \<and> remaining \<le> ALLOWANCE_WARN_REMAINING
                     then [RegEmit (PaymentAuthorityAllowanceLow authority tla_id remaining)]
                     else []))"

section \<open>Helpers of the rental methods\<close>

definition MAX_ORDER_ID_LEN :: nat where "MAX_ORDER_ID_LEN = 128"

definition assert_holds_nothing ::
    "registry_lib \<Rightarrow> string \<Rightarrow> tla_registry \<Rightarrow> contract_error + unit" where
  "assert_holds_nothing lib key r =
     ok_or (rl_parse lib key) InvalidSubAccountId (\<lambda>account.
     require (owner_supply account r = 0) NameStillHoldsNames (Inr ()))"

text \<open>Returns the new state and the end of the lease.\<close>

definition open_lease ::
    "ctx \<Rightarrow> string \<Rightarrow> account_id \<Rightarrow> account_id \<Rightarrow> account_id \<Rightarrow> tla_registry \<Rightarrow> tla_registry \<times> u64" where
  "open_lease c key tla_id owner payout r =
     (let now = block_timestamp c; expires_at = sat_add now (r_lease_term_ns r)
      in (sub_account_insert key
            \<lparr>sa_owner = owner, sa_tla_id = tla_id, sa_payout_account = payout,
             sa_rented_at = now, sa_expires_at = expires_at, sa_retraction_at = None\<rparr> r,
          expires_at))"

definition create_leased_account ::
    "account_id \<Rightarrow> string \<Rightarrow> account_id \<Rightarrow> account_id \<Rightarrow> u64 \<Rightarrow> tla_registry \<Rightarrow> reg_remote" where
  "create_leased_account tla_id name owner payout expires_at r =
     CreateSubAccount tla_id name owner payout expires_at
       (fc_account_creation_deposit_yocto (r_fee_config r))"

definition resolve_rent_owner ::
    "ctx \<Rightarrow> account_id \<Rightarrow> account_id option \<Rightarrow> tla_registry \<Rightarrow> contract_error + account_id" where
  "resolve_rent_owner c payer owner_account r =
     (case owner_account of
        None \<Rightarrow> Inr payer
      | Some owner \<Rightarrow>
          if owner = payer then Inr owner
          else rbind (assert_payment_authority c r) (\<lambda>_. Inr owner))"

definition assert_accepting ::
    "ctx \<Rightarrow> account_id \<Rightarrow> account_id \<Rightarrow> tla_registry \<Rightarrow> contract_error + bool" where
  "assert_accepting c tla_id licensee_must_be r =
     ok_or (r_tlas r tla_id) TlaNotFound (\<lambda>entry.
     require (accepting_rentals c entry (suspension_expiry tla_id r)) TlaNotAcceptingRentals (
     if te_tla_type entry = Business
     then ok_or (te_licensee entry) BusinessTlaMissingLicensee (\<lambda>licensee.
          require (licensee_must_be = licensee) OnlyLicensee (Inr True))
     else Inr False))"

definition assert_order_unsettled :: "string \<Rightarrow> tla_registry \<Rightarrow> contract_error + unit" where
  "assert_order_unsettled order_id r =
     require (order_id \<noteq> [] \<and> length order_id \<le> MAX_ORDER_ID_LEN) InvalidOrderId (
     require (r_paid_order_ids r order_id = None) PaidOrderAlreadySettled (Inr ()))"

definition quote_rent ::
    "ctx \<Rightarrow> account_id \<Rightarrow> string \<Rightarrow> account_id \<Rightarrow> tla_registry \<Rightarrow> contract_error + (u128 \<times> bool)" where
  "quote_rent c tla_id name owner r =
     rbind (assert_accepting c tla_id owner r) (\<lambda>is_business.
     ok_or (r_tlas r tla_id) TlaNotFound (\<lambda>entry.
     Inr (calculate_rent entry name (r_fee_config r) (terms_for tla_id r), is_business)))"

definition re_rent_transfer :: "account_id \<Rightarrow> pending_re_rent \<Rightarrow> reg_out" where
  "re_rent_transfer ext p =
     RegCall (CallExtension ext
         (Ext_re_rent (pr_sub_account p) (pr_owner p) (pr_payout_account p) (pr_expires_at p) 1))
       (Some (On_sub_account_re_rented
         \<lparr>ms_tla_id = pr_tla_id p, ms_name = pr_name p, ms_owner = pr_owner p,
          ms_payer = pr_payer p, ms_rent_yocto = pr_rent p, ms_attached_yocto = pr_attached p,
          ms_order_id = pr_order_id p\<rparr>))"

definition start_re_rent :: "registry_lib \<Rightarrow> pending_re_rent \<Rightarrow> tla_registry \<Rightarrow> reg_out" where
  "start_re_rent lib p r =
     (let allowlist = rl_iter lib (r_ft_allowlist r)
      in case ft_balance_fanout allowlist (pr_sub_account p) of
           None \<Rightarrow> re_rent_transfer (r_hos_extension r) p
         | Some chain \<Rightarrow> RegCall chain (Some (On_re_rent_balances_checked p allowlist)))"

section \<open>Activating and renewing a namespace\<close>

definition activate_tla :: "ctx \<Rightarrow> account_id \<Rightarrow> tla_registry \<Rightarrow> reg_res" where
  "activate_tla c tla_id r =
     rbind (assert_not_paused c r) (\<lambda>_.
     rbind (convert_usd_to_near c
              (sat_add (allocation_fee_usd_micro tla_id r) (tla_rent_usd_micro tla_id r)) r)
       (\<lambda>required_near.
     require (required_near \<le> attached_deposit c) InsufficientPayment (
     ok_or (r_tlas r tla_id) TlaNotFound (\<lambda>entry.
     require (te_status entry = TlaRegisteredSt) TlaNotInRegisteredState (
     require (te_tla_type entry = Business) WrongActivationEndpoint (
     ok_or (te_licensee entry) BusinessTlaMissingLicensee (\<lambda>licensee.
     require (predecessor_account_id c = licensee) OnlyLicensee (
     let now = block_timestamp c; expires_at = sat_add now ONE_YEAR_NS;
         r1 = r\<lparr>r_tlas := (r_tlas r)(tla_id \<mapsto> entry\<lparr>te_status := TlaActiveSt,
                  te_activated_at := now, te_expires_at := expires_at\<rparr>),
                r_total_revenue := sat_add (r_total_revenue r) required_near\<rparr>
     in Inr (refund_excess (predecessor_account_id c) (attached_deposit c) required_near r1,
             [RegEmit (TlaActivated tla_id expires_at required_near)])))))))))"

definition renew_tla :: "ctx \<Rightarrow> account_id \<Rightarrow> tla_registry \<Rightarrow> reg_res" where
  "renew_tla c tla_id r =
     rbind (assert_not_paused c r) (\<lambda>_.
     rbind (convert_usd_to_near c (tla_rent_usd_micro tla_id r) r) (\<lambda>rent_near.
     ok_or (r_tlas r tla_id) TlaNotFound (\<lambda>entry.
     require (te_status entry = TlaActiveSt) TlaNotActive (
     require (block_timestamp c < sat_add (te_expires_at entry) (r_grace_period_ns r))
       TlaPastGracePeriod (
     rbind (if te_tla_type entry = Business
            then ok_or (te_licensee entry) BusinessTlaMissingLicensee (\<lambda>licensee.
                 require (predecessor_account_id c = licensee) OnlyLicensee (Inr ()))
            else assert_admin c r) (\<lambda>_.
     require (rent_near \<le> attached_deposit c) InsufficientPayment (
     let expires_at = sat_add (max (block_timestamp c) (te_expires_at entry)) ONE_YEAR_NS;
         r1 = r\<lparr>r_tlas := (r_tlas r)(tla_id \<mapsto> entry\<lparr>te_expires_at := expires_at\<rparr>),
                r_total_revenue := sat_add (r_total_revenue r) rent_near\<rparr>
     in Inr (refund_excess (predecessor_account_id c) (attached_deposit c) rent_near r1,
             [RegEmit (TlaRenewed tla_id expires_at rent_near)]))))))))"

section \<open>Renting a name\<close>

definition rent_sub_account ::
    "registry_lib \<Rightarrow> ctx \<Rightarrow> account_id \<Rightarrow> string \<Rightarrow> account_id option \<Rightarrow> tla_registry \<Rightarrow> reg_res" where
  "rent_sub_account lib c tla_id name owner_account r =
     (let key = sub_account_key tla_id name;
          payer = predecessor_account_id c;
          attached = attached_deposit c;
          is_re_rent = (r_parked_names r key \<noteq> None) in
     rbind (assert_not_paused c r) (\<lambda>_.
     rbind (validate_mintable_name tla_id name) (\<lambda>_.
     require (r_sub_accounts r key = None) SubAccountNameTaken (
     rbind (if is_re_rent then assert_holds_nothing lib key r else Inr ()) (\<lambda>_.
     rbind (resolve_rent_owner c payer owner_account r) (\<lambda>owner.
     rbind (quote_rent c tla_id name owner r) (\<lambda>(rent, is_business).
     rbind (convert_usd_to_near c rent r) (\<lambda>rent_near.
     let total = (if is_re_rent then rent_near
                  else sat_add rent_near (fc_account_creation_deposit_yocto (r_fee_config r))) in
     require (total \<le> attached) InsufficientPayment (
     rbind (if is_business then business_count_check_and_bump tla_id r else Inr r) (\<lambda>r1.
     let (r2, lease_until) = open_lease c key tla_id owner owner r1 in
     if is_re_rent
     then ok_or (rl_parse lib key) InvalidSubAccountId (\<lambda>sub_account.
          Inr (r2, [start_re_rent lib
            \<lparr>pr_tla_id = tla_id, pr_name = name, pr_owner = owner, pr_payer = payer,
             pr_payout_account = owner, pr_rent = rent_near, pr_attached = attached,
             pr_sub_account = sub_account, pr_order_id = None, pr_expires_at = lease_until\<rparr> r2]))
     else Inr (r2, [RegCall (create_leased_account tla_id name owner owner lease_until r2)
            (Some (On_sub_account_created
               \<lparr>ms_tla_id = tla_id, ms_name = name, ms_owner = owner, ms_payer = payer,
                ms_rent_yocto = rent_near, ms_attached_yocto = attached,
                ms_order_id = None\<rparr>))])))))))))))"

definition rent_sub_account_paid ::
    "registry_lib \<Rightarrow> ctx \<Rightarrow> account_id \<Rightarrow> string \<Rightarrow> account_id \<Rightarrow> account_id \<Rightarrow> string
     \<Rightarrow> tla_registry \<Rightarrow> reg_res" where
  "rent_sub_account_paid lib c tla_id name owner_account payout_account order_id r =
     (let key = sub_account_key tla_id name;
          attached = attached_deposit c;
          is_re_rent = (r_parked_names r key \<noteq> None) in
     rbind (assert_not_paused c r) (\<lambda>_.
     rbind (assert_payment_authority_for c tla_id r) (\<lambda>payer.
     rbind (validate_mintable_name tla_id name) (\<lambda>_.
     rbind (assert_order_unsettled order_id r) (\<lambda>_.
     require (r_sub_accounts r key = None) SubAccountNameTaken (
     require (payout_account \<noteq> key) PayoutAccountEqualsSubAccount (
     rbind (assert_accepting c tla_id payout_account r) (\<lambda>is_business.
     let creation_deposit = (if is_re_rent then 0
                             else fc_account_creation_deposit_yocto (r_fee_config r)) in
     require (creation_deposit \<le> attached) InsufficientPayment (
     rbind (if is_business then business_count_check_and_bump tla_id r else Inr r) (\<lambda>r1.
     let (r2, lease_until) = open_lease c key tla_id owner_account payout_account r1;
         (r3, outs3) = record_authority_mint payer tla_id r2;
         r4 = r3\<lparr>r_paid_order_ids := (r_paid_order_ids r3)(order_id \<mapsto>
                InFlight \<lparr>oi_full_name = key, oi_tla_id = tla_id, oi_payer = payer,
                          oi_started_at = block_timestamp c\<rparr>)\<rparr>;
         outs = outs3 @ [RegEmit (PaidRentalOrderReserved key order_id payer)] in
     if is_re_rent
     then ok_or (rl_parse lib key) InvalidSubAccountId (\<lambda>sub_account.
          Inr (r4, outs @ [start_re_rent lib
            \<lparr>pr_tla_id = tla_id, pr_name = name, pr_owner = owner_account, pr_payer = payer,
             pr_payout_account = payout_account, pr_rent = 0, pr_attached = attached,
             pr_sub_account = sub_account, pr_order_id = Some order_id,
             pr_expires_at = lease_until\<rparr> r4]))
     else Inr (r4, outs @ [RegCall
            (create_leased_account tla_id name owner_account payout_account lease_until r4)
            (Some (On_sub_account_created_paid
               \<lparr>ms_tla_id = tla_id, ms_name = name, ms_owner = owner_account, ms_payer = payer,
                ms_rent_yocto = 0, ms_attached_yocto = attached,
                ms_order_id = Some order_id\<rparr>))])))))))))))"

section \<open>Payout account and renewal\<close>

definition set_payout_account ::
    "registry_lib \<Rightarrow> ctx \<Rightarrow> account_id \<Rightarrow> string \<Rightarrow> account_id \<Rightarrow> tla_registry \<Rightarrow> reg_res" where
  "set_payout_account lib c tla_id name new_payout r =
     (let key = sub_account_key tla_id name; caller = predecessor_account_id c in
     rbind (assert_one_yocto_r c) (\<lambda>_.
     rbind (assert_not_paused c r) (\<lambda>_.
     rbind (validate_name name) (\<lambda>_.
     require (new_payout \<noteq> key) PayoutAccountEqualsSubAccount (
     ok_or (r_sub_accounts r key) SubAccountNotFound (\<lambda>sub.
     ok_or (r_tlas r tla_id) TlaNotFound (\<lambda>tla.
     rbind (if licensee_sets_payout tla_id tla key r
            then require (te_licensee tla = Some caller) OnlyLicensee (Inr ())
            else require (caller = sa_owner sub) OnlyOwner (Inr ())) (\<lambda>_.
     ok_or (rl_parse lib key) InvalidSubAccountId (\<lambda>sub_account.
     Inr (r, [RegCall (CallExtension (r_hos_extension r)
                (Ext_set_payout sub_account new_payout (sa_owner sub)))
              (Some (On_payout_set tla_id name new_payout (sa_owner sub)))]))))))))))"

definition on_payout_set ::
    "ctx \<Rightarrow> account_id \<Rightarrow> string \<Rightarrow> account_id \<Rightarrow> account_id \<Rightarrow> tla_registry \<Rightarrow> reg_res" where
  "on_payout_set c tla_id name new_payout expected_owner r =
     (let key = sub_account_key tla_id name in
     rbind (assert_private_r c) (\<lambda>_.
     case r_sub_accounts r key of
       Some sub \<Rightarrow>
         if is_promise_success c \<and> sa_owner sub = expected_owner
         then Inr (r\<lparr>r_sub_accounts := (r_sub_accounts r)(key \<mapsto>
                       sub\<lparr>sa_payout_account := new_payout\<rparr>)\<rparr>,
                   [RegEmit (PayoutAccountUpdated key new_payout)])
         else Inr (r, [RegEmit (PayoutAccountUpdateFailed key new_payout)])
     | None \<Rightarrow> Inr (r, [RegEmit (PayoutAccountUpdateFailed key new_payout)])))"

definition renew_sub_account ::
    "registry_lib \<Rightarrow> ctx \<Rightarrow> account_id \<Rightarrow> string \<Rightarrow> tla_registry \<Rightarrow> reg_res" where
  "renew_sub_account lib c tla_id name r =
     (let key = sub_account_key tla_id name; caller = predecessor_account_id c;
          now = block_timestamp c in
     rbind (validate_name name) (\<lambda>_.
     ok_or (r_sub_accounts r key) SubAccountNotFound (\<lambda>sub.
     require (now < sat_add (sa_expires_at sub) (r_grace_period_ns r)) SubAccountPastGracePeriod (
     require (sa_retraction_at sub = None) RetractionPending (
     ok_or (r_tlas r tla_id) TlaNotFound (\<lambda>tla.
     require (tla_lifecycle c tla (clock c r) (suspension_expiry tla_id r) \<noteq> LcReclaimable)
       TlaPastGracePeriod (
     rbind (convert_usd_to_near c
              (calculate_rent tla name (r_fee_config r) (terms_for tla_id r)) r) (\<lambda>rent_near.
     require (rent_near \<le> attached_deposit c) InsufficientPayment (
     let new_expires_at = sat_add (max now (sa_expires_at sub)) (r_lease_term_ns r);
         r1 = refund_excess caller (attached_deposit c) rent_near r in
     ok_or (rl_parse lib key) InvalidSubAccountId (\<lambda>sub_account.
     Inr (r1, [RegCall (CallExtension (r_hos_extension r)
                  (Ext_push_lease sub_account new_expires_at Active))
               (Some (On_sub_account_renewed tla_id name new_expires_at caller rent_near))])))))))))))"

definition on_lease_synced :: "ctx \<Rightarrow> string \<Rightarrow> string \<Rightarrow> tla_registry \<Rightarrow> reg_res" where
  "on_lease_synced c sub_account intent r =
     rbind (assert_private_r c) (\<lambda>_.
     Inr (r, if is_promise_success c then [] else [RegEmit (LeaseSyncFailed sub_account intent)]))"

definition on_sub_account_renewed ::
    "ctx \<Rightarrow> account_id \<Rightarrow> string \<Rightarrow> u64 \<Rightarrow> account_id \<Rightarrow> u128 \<Rightarrow> tla_registry \<Rightarrow> reg_res" where
  "on_sub_account_renewed c tla_id name new_expires_at payer rent r =
     (let key = sub_account_key tla_id name;
          failed = (add_pending_refund payer rent r, [RegEmit (SubAccountRenewFailed key rent)]) in
     rbind (assert_private_r c) (\<lambda>_.
     if \<not> is_promise_success c then Inr failed
     else case r_sub_accounts r key of
            None \<Rightarrow> Inr failed
          | Some sub \<Rightarrow>
              Inr (emit_activity c (SubAccountRenewed key new_expires_at rent)
                (r\<lparr>r_sub_accounts := (r_sub_accounts r)(key \<mapsto>
                     sub\<lparr>sa_expires_at := new_expires_at\<rparr>),
                   r_total_revenue := sat_add (r_total_revenue r) rent\<rparr>))))"

section \<open>Settling a mint\<close>

definition stale_order :: "string \<Rightarrow> string \<Rightarrow> reg_out" where
  "stale_order order_id full_name = RegEmit (PaidRentalOrderStale order_id full_name)"

definition release_order ::
    "string option \<Rightarrow> string \<Rightarrow> account_id \<Rightarrow> account_id \<Rightarrow> tla_registry
     \<Rightarrow> tla_registry \<times> reg_out list" where
  "release_order order_id full_name payer tla_id r =
     (case order_id of
        None \<Rightarrow> (r, [])
      | Some oid \<Rightarrow>
          (case r_paid_order_ids r oid of
             Some reserved \<Rightarrow>
               if in_flight_for reserved full_name payer
               then (release_authority_mint payer tla_id
                       (r\<lparr>r_paid_order_ids := (r_paid_order_ids r)(oid := None)\<rparr>),
                     [RegEmit (PaidRentalOrderReleased oid)])
               else (r, [stale_order oid full_name])
           | None \<Rightarrow> (r, [stale_order oid full_name])))"

definition confirm_order ::
    "string option \<Rightarrow> string \<Rightarrow> account_id \<Rightarrow> tla_registry \<Rightarrow> tla_registry \<times> reg_out list" where
  "confirm_order order_id full_name payer r =
     (case order_id of
        None \<Rightarrow> (r, [])
      | Some oid \<Rightarrow>
          (case r_paid_order_ids r oid of
             None \<Rightarrow> (r, [stale_order oid full_name])
           | Some reserved \<Rightarrow>
               if \<not> in_flight_for reserved full_name payer then (r, [stale_order oid full_name])
               else (r\<lparr>r_paid_order_ids := (r_paid_order_ids r)(oid \<mapsto> Settled)\<rparr>,
                     [RegEmit (PaidRentalOrderSettled full_name oid)])))"

definition settle_failed_mint ::
    "string \<Rightarrow> account_id \<Rightarrow> account_id \<Rightarrow> u128 \<Rightarrow> string \<Rightarrow> tla_registry
     \<Rightarrow> tla_registry \<times> reg_out list" where
  "settle_failed_mint key tla_id payer attached reason r =
     (case sub_account_remove key r of
        (_, None) \<Rightarrow> (r, [])
      | (r1, Some _) \<Rightarrow>
          (add_pending_refund payer attached (business_count_decrement_if_business tla_id r1),
           [RegEmit (RefundPending payer attached reason)]))"

definition settle_stranded_mint ::
    "ctx \<Rightarrow> string \<Rightarrow> account_id \<Rightarrow> account_id \<Rightarrow> u128 \<Rightarrow> string \<Rightarrow> tla_registry
     \<Rightarrow> tla_registry \<times> reg_out list" where
  "settle_stranded_mint c key tla_id payer attached reason r =
     (case sub_account_remove key r of
        (_, None) \<Rightarrow> (r, [])
      | (r1, Some _) \<Rightarrow>
          let r2 = add_pending_refund payer attached (business_count_decrement_if_business tla_id r1)
          in (r2\<lparr>r_parked_names := (r_parked_names r2)(key \<mapsto>
                  \<lparr>pk_tla_id = tla_id, pk_parked_at = block_timestamp c\<rparr>)\<rparr>,
              [RegEmit (RefundPending payer attached reason),
               RegEmit (MintFundingStranded key tla_id payer
                 (fc_account_creation_deposit_yocto (r_fee_config r)) reason)]))"

text \<open>Returns the state and the end of the lease; without an entry it panics.\<close>

definition record_rental ::
    "string \<Rightarrow> account_id \<Rightarrow> u128 \<Rightarrow> u128 \<Rightarrow> tla_registry \<Rightarrow> contract_error + (tla_registry \<times> u64)" where
  "record_rental key payer rent attached r =
     (let charged = sat_add rent (fc_account_creation_deposit_yocto (r_fee_config r));
          r1 = refund_excess payer attached charged
                 (r\<lparr>r_sub_account_count := sat_add (r_sub_account_count r) 1,
                    r_total_revenue := sat_add (r_total_revenue r) rent\<rparr>)
      in ok_or (r_sub_accounts r1 key) SubAccountNotFound (\<lambda>s. Inr (r1, sa_expires_at s)))"

definition record_paid_rental ::
    "string \<Rightarrow> account_id \<Rightarrow> u128 \<Rightarrow> tla_registry \<Rightarrow> contract_error + (tla_registry \<times> u64)" where
  "record_paid_rental key payer attached r =
     (let r1 = refund_excess payer attached (fc_account_creation_deposit_yocto (r_fee_config r))
                 (r\<lparr>r_sub_account_count := sat_add (r_sub_account_count r) 1\<rparr>)
      in ok_or (r_sub_accounts r1 key) SubAccountNotFound (\<lambda>s. Inr (r1, sa_expires_at s)))"

text \<open>What the two creation callbacks do when the chain fails, with and without an outcome.\<close>

definition fail_mint ::
    "ctx \<Rightarrow> bool \<Rightarrow> mint_settlement \<Rightarrow> string \<Rightarrow> tla_registry \<Rightarrow> tla_registry \<times> reg_out list" where
  "fail_mint c stranded s reason r =
     (let key = sub_account_key (ms_tla_id s) (ms_name s);
          (r1, outs1) = release_order (ms_order_id s) key (ms_payer s) (ms_tla_id s) r;
          (r2, outs2) =
            (if stranded
             then settle_stranded_mint c key (ms_tla_id s) (ms_payer s) (ms_attached_yocto s) reason r1
             else settle_failed_mint key (ms_tla_id s) (ms_payer s) (ms_attached_yocto s) reason r1)
      in (r2, outs1 @ outs2))"

definition on_sub_account_created ::
    "ctx \<Rightarrow> mint_settlement \<Rightarrow> promise_error + mint_outcome \<Rightarrow> tla_registry \<Rightarrow> reg_res" where
  "on_sub_account_created c s outcome r =
     (let key = sub_account_key (ms_tla_id s) (ms_name s) in
     rbind (assert_private_r c) (\<lambda>_.
     case outcome of
       Inr MintActive \<Rightarrow>
         let (r1, outs1) = confirm_order (ms_order_id s) key (ms_payer s) r in
         rbind (record_rental key (ms_payer s) (ms_rent_yocto s) (ms_attached_yocto s) r1)
           (\<lambda>(r2, expires_at).
         let (r3, outs3) = emit_activity c (SubAccountRented key (ms_tla_id s) (ms_owner s)
                             (ms_rent_yocto s) expires_at) r2
         in Inr (r3, outs1 @ [RegEmit (NftMint (ms_owner s) key)] @ outs3))
     | Inr CreationFailed \<Rightarrow> Inr (fail_mint c False s ''sub-account creation failed'' r)
     | Inl _ \<Rightarrow> Inr (fail_mint c True s ''sub-account mint chain failed without an outcome'' r)))"

definition on_sub_account_created_paid ::
    "ctx \<Rightarrow> mint_settlement \<Rightarrow> promise_error + mint_outcome \<Rightarrow> tla_registry \<Rightarrow> reg_res" where
  "on_sub_account_created_paid c s outcome r =
     (let key = sub_account_key (ms_tla_id s) (ms_name s) in
     rbind (assert_private_r c) (\<lambda>_.
     case outcome of
       Inr MintActive \<Rightarrow>
         let (r1, outs1) = confirm_order (ms_order_id s) key (ms_payer s) r in
         rbind (record_paid_rental key (ms_payer s) (ms_attached_yocto s) r1) (\<lambda>(r2, expires_at).
         let (r3, outs3) = emit_activity c (SubAccountRented key (ms_tla_id s) (ms_owner s)
                             (ms_rent_yocto s) expires_at) r2
         in Inr (r3, outs1 @ [RegEmit (NftMint (ms_owner s) key)] @ outs3))
     | Inr CreationFailed \<Rightarrow> Inr (fail_mint c False s ''paid sub-account creation failed'' r)
     | Inl _ \<Rightarrow> Inr (fail_mint c True s ''paid sub-account mint chain failed without an outcome'' r)))"

definition on_sub_account_re_rented ::
    "ctx \<Rightarrow> mint_settlement \<Rightarrow> promise_error + bool \<Rightarrow> tla_registry \<Rightarrow> reg_res" where
  "on_sub_account_re_rented c s swapped r =
     (let key = sub_account_key (ms_tla_id s) (ms_name s) in
     rbind (assert_private_r c) (\<lambda>_.
     if swapped \<noteq> Inr True then Inr (fail_mint c False s ''sub-account re-rent failed'' r)
     else
       let (r1, outs1) = confirm_order (ms_order_id s) key (ms_payer s) r;
           r2 = r1\<lparr>r_parked_names := (r_parked_names r1)(key := None),
                   r_sub_account_count := sat_add (r_sub_account_count r1) 1,
                   r_total_revenue := sat_add (r_total_revenue r1) (ms_rent_yocto s)\<rparr>;
           r3 = refund_excess (ms_payer s) (ms_attached_yocto s) (ms_rent_yocto s) r2 in
       ok_or (r_sub_accounts r3 key) SubAccountNotFound (\<lambda>sub.
       let (r4, outs4) = emit_activity c (SubAccountReRented key (ms_tla_id s) (ms_owner s)
                           (ms_rent_yocto s) (sa_expires_at sub)) r3
       in Inr (r4, outs1 @ [RegEmit (NftMint (ms_owner s) key)] @ outs4))))"

definition on_re_rent_balances_checked ::
    "registry_lib \<Rightarrow> ctx \<Rightarrow> pending_re_rent \<Rightarrow> account_id list \<Rightarrow> tla_registry \<Rightarrow> reg_res" where
  "on_re_rent_balances_checked lib c p allowlist r =
     (let key = sub_account_key (pr_tla_id p) (pr_name p) in
     rbind (assert_private_r c) (\<lambda>_.
     case ft_balances_clear lib c allowlist of
       Blocked token reason \<Rightarrow>
         let (r1, outs1) = settle_failed_mint key (pr_tla_id p) (pr_payer p) (pr_attached p)
                             ''re-rent blocked by asset gate'' r
         in Inr (r1, outs1 @ [RegEmit (SubAccountSaleBlocked key token reason)])
     | Clear \<Rightarrow> Inr (r, [re_rent_transfer (r_hos_extension r) p])))"

end
