(* ===== verification/Registry_Business.thy ===== *)
theory Registry_Business
  imports Registry_Rental
begin

text \<open>
  Business namespaces (\<open>business.rs\<close>): retracting a name with notice, negotiated terms and
  caps, resale, whitelists and claims; and the way back of a name: \<open>reclaim.rs\<close>.
\<close>

section \<open>Retraction\<close>

definition assert_may_retract ::
    "account_id \<Rightarrow> account_id option \<Rightarrow> account_id \<Rightarrow> tla_registry \<Rightarrow> contract_error + unit" where
  "assert_may_retract tla_id licensee caller r =
     (if resale_enabled tla_id r
      then require (is_admin_or_council caller r) OnlyAdminOrCouncil (Inr ())
      else require (licensee = Some caller) OnlyLicensee (Inr ()))"

definition retract_wallet_lease_pending ::
    "account_id \<Rightarrow> account_id \<Rightarrow> u64 \<Rightarrow> string \<Rightarrow> account_id \<Rightarrow> reg_out" where
  "retract_wallet_lease_pending ext sub_account ends_at key caller =
     RegCall (CallExtension ext (Ext_retract_lease sub_account ends_at))
       (Some (On_retraction_scheduled key caller))"

definition restore_wallet_lease ::
    "account_id \<Rightarrow> account_id \<Rightarrow> u64 \<Rightarrow> string \<Rightarrow> account_id \<Rightarrow> reg_out" where
  "restore_wallet_lease ext sub_account expires_at key caller =
     RegCall (CallExtension ext (Ext_push_lease sub_account expires_at Active))
       (Some (On_retraction_canceled key caller))"

definition retract_wallet_lease :: "account_id \<Rightarrow> account_id \<Rightarrow> u64 \<Rightarrow> reg_out" where
  "retract_wallet_lease ext sub_account ends_at =
     RegCall (CallExtension ext (Ext_retract_lease sub_account ends_at))
       (Some (On_lease_synced sub_account ''retract''))"

definition schedule_retraction ::
    "registry_lib \<Rightarrow> ctx \<Rightarrow> account_id \<Rightarrow> string \<Rightarrow> tla_registry \<Rightarrow> reg_res" where
  "schedule_retraction lib c tla_id name r =
     (let key = sub_account_key tla_id name; caller = predecessor_account_id c;
          now = block_timestamp c in
     rbind (assert_one_yocto_r c) (\<lambda>_.
     rbind (assert_not_paused c r) (\<lambda>_.
     rbind (validate_name name) (\<lambda>_.
     ok_or (r_tlas r tla_id) TlaNotFound (\<lambda>tla.
     require (te_tla_type tla = Business) NotBusinessTla (
     rbind (assert_may_retract tla_id (te_licensee tla) caller r) (\<lambda>_.
     ok_or (r_sub_accounts r key) SubAccountNotFound (\<lambda>sub.
     require (sa_retraction_at sub = None) RetractionAlreadyScheduled (
     let r1 = r\<lparr>r_sub_accounts := (r_sub_accounts r)(key \<mapsto> sub\<lparr>sa_retraction_at := Some now\<rparr>)\<rparr>;
         ends_at = sat_add now (fc_retraction_notice_ns (r_fee_config r)) in
     ok_or (rl_parse lib key) InvalidSubAccountId (\<lambda>sub_account.
     Inr (r1, [retract_wallet_lease_pending (r_hos_extension r) sub_account ends_at key caller])))))))))))"

definition cancel_retraction ::
    "registry_lib \<Rightarrow> ctx \<Rightarrow> account_id \<Rightarrow> string \<Rightarrow> tla_registry \<Rightarrow> reg_res" where
  "cancel_retraction lib c tla_id name r =
     (let key = sub_account_key tla_id name; caller = predecessor_account_id c in
     rbind (assert_one_yocto_r c) (\<lambda>_.
     rbind (assert_not_paused c r) (\<lambda>_.
     rbind (validate_name name) (\<lambda>_.
     ok_or (r_tlas r tla_id) TlaNotFound (\<lambda>tla.
     rbind (assert_may_retract tla_id (te_licensee tla) caller r) (\<lambda>_.
     ok_or (r_sub_accounts r key) SubAccountNotFound (\<lambda>sub.
     ok_or (sa_retraction_at sub) NoRetractionScheduled (\<lambda>retraction_at.
     require (block_timestamp c
                < sat_add retraction_at (fc_retraction_notice_ns (r_fee_config r)))
       RetractionAlreadyElapsed (
     ok_or (rl_parse lib key) InvalidSubAccountId (\<lambda>sub_account.
     Inr (r, [restore_wallet_lease (r_hos_extension r) sub_account (sa_expires_at sub) key
                caller])))))))))))"

definition on_retraction_scheduled :: "ctx \<Rightarrow> string \<Rightarrow> account_id \<Rightarrow> tla_registry \<Rightarrow> reg_res" where
  "on_retraction_scheduled c key caller r =
     rbind (assert_private_r c) (\<lambda>_.
     if is_promise_success c
     then Inr (r, case Option.bind (r_sub_accounts r key) sa_retraction_at of
                    Some at \<Rightarrow> [RegEmit (SubAccountRetractionScheduled key at caller)]
                  | None \<Rightarrow> [])
     else Inr (r\<lparr>r_sub_accounts := (case r_sub_accounts r key of
                    None \<Rightarrow> r_sub_accounts r
                  | Some sub \<Rightarrow> (r_sub_accounts r)(key \<mapsto> sub\<lparr>sa_retraction_at := None\<rparr>))\<rparr>,
               [RegEmit (LeaseSyncFailed key ''retract'')]))"

definition on_retraction_canceled :: "ctx \<Rightarrow> string \<Rightarrow> account_id \<Rightarrow> tla_registry \<Rightarrow> reg_res" where
  "on_retraction_canceled c key caller r =
     rbind (assert_private_r c) (\<lambda>_.
     if \<not> is_promise_success c then Inr (r, [RegEmit (LeaseSyncFailed key ''restore'')])
     else Inr (r\<lparr>r_sub_accounts := (case r_sub_accounts r key of
                    None \<Rightarrow> r_sub_accounts r
                  | Some sub \<Rightarrow> (r_sub_accounts r)(key \<mapsto> sub\<lparr>sa_retraction_at := None\<rparr>))\<rparr>,
               [RegEmit (SubAccountRetractionCanceled key caller)]))"

section \<open>Terms, cap, resale\<close>

definition set_tla_terms :: "ctx \<Rightarrow> account_id \<Rightarrow> tla_terms \<Rightarrow> tla_registry \<Rightarrow> reg_res" where
  "set_tla_terms c tla_id terms r =
     rbind (assert_one_yocto_r c) (\<lambda>_.
     rbind (assert_council c r) (\<lambda>_.
     ok_or (r_tlas r tla_id) TlaNotFound (\<lambda>tla.
     require (tt_sub_fee_usd_micro terms = None \<or> te_tla_type tla = Business) NotBusinessTla (
     require (list_all (\<lambda>fee. case fee of None \<Rightarrow> True | Some f \<Rightarrow> f \<le> MAX_USD_MICRO)
                [tt_allocation_fee_usd_micro terms, tt_tla_rent_usd_micro terms,
                 tt_sub_fee_usd_micro terms]) FeeExceedsCap (
     Inr (r\<lparr>r_tla_terms := (if is_standard terms then (r_tla_terms r)(tla_id := None)
                             else (r_tla_terms r)(tla_id \<mapsto> terms))\<rparr>,
          [RegEmit (TlaTermsSet tla_id terms (predecessor_account_id c))]))))))"

definition set_business_sub_cap :: "ctx \<Rightarrow> account_id \<Rightarrow> u32 option \<Rightarrow> tla_registry \<Rightarrow> reg_res" where
  "set_business_sub_cap c tla_id cap r =
     rbind (assert_one_yocto_r c) (\<lambda>_.
     rbind (assert_council c r) (\<lambda>_.
     ok_or (r_tlas r tla_id) TlaNotFound (\<lambda>tla.
     require (te_tla_type tla = Business) NotBusinessTla (
     Inr (r\<lparr>r_business_sub_cap_override := (r_business_sub_cap_override r)(tla_id := cap)\<rparr>,
          [RegEmit (BusinessSubCapSet tla_id cap (predecessor_account_id c))])))))"

definition enable_business_resale :: "ctx \<Rightarrow> account_id \<Rightarrow> tla_registry \<Rightarrow> reg_res" where
  "enable_business_resale c tla_id r =
     rbind (assert_one_yocto_r c) (\<lambda>_.
     rbind (assert_admin_or_council c r) (\<lambda>_.
     ok_or (r_tlas r tla_id) TlaNotFound (\<lambda>tla.
     require (te_tla_type tla = Business) NotBusinessTla (
     if tla_id \<in> r_biz_resale r then Inr (r, [])
     else Inr (r\<lparr>r_biz_resale := insert tla_id (r_biz_resale r)\<rparr>,
               [RegEmit (BusinessResaleEnabled tla_id (predecessor_account_id c))])))))"

section \<open>Whitelists and claims\<close>

definition MAX_WHITELIST_BATCH :: nat where "MAX_WHITELIST_BATCH = 100"

definition assert_whitelist_batch :: "account_id list \<Rightarrow> contract_error + unit" where
  "assert_whitelist_batch accounts =
     require (accounts \<noteq> []) EmptyBatch (
     require (length accounts \<le> MAX_WHITELIST_BATCH) BatchTooLarge (Inr ()))"

text \<open>One pass over the accounts: the set after it, and those that were new (or were there).\<close>

fun whitelist_insert_all ::
    "account_id \<Rightarrow> account_id list \<Rightarrow> (account_id \<times> account_id) set
     \<Rightarrow> (account_id \<times> account_id) set \<times> account_id list" where
  "whitelist_insert_all tla_id [] wl = (wl, [])"
| "whitelist_insert_all tla_id (a # as) wl =
     (let (wl', added) = whitelist_insert_all tla_id as (insert (tla_id, a) wl)
      in (wl', if (tla_id, a) \<in> wl then added else a # added))"

fun whitelist_remove_all ::
    "account_id \<Rightarrow> account_id list \<Rightarrow> (account_id \<times> account_id) set
     \<Rightarrow> (account_id \<times> account_id) set \<times> account_id list" where
  "whitelist_remove_all tla_id [] wl = (wl, [])"
| "whitelist_remove_all tla_id (a # as) wl =
     (let (wl', removed) = whitelist_remove_all tla_id as (wl - {(tla_id, a)})
      in (wl', if (tla_id, a) \<in> wl then a # removed else removed))"

definition admin_whitelist_add :: "ctx \<Rightarrow> account_id \<Rightarrow> account_id list \<Rightarrow> tla_registry \<Rightarrow> reg_res" where
  "admin_whitelist_add c tla_id accounts r =
     rbind (assert_one_yocto_r c) (\<lambda>_.
     rbind (assert_admin c r) (\<lambda>_.
     rbind (assert_whitelist_batch accounts) (\<lambda>_.
     ok_or (r_tlas r tla_id) TlaNotFound (\<lambda>tla.
     require (te_tla_type tla = Business) NotBusinessTla (
     let (wl, added) = whitelist_insert_all tla_id accounts (r_biz_whitelist r)
     in Inr (r\<lparr>r_biz_whitelist := wl\<rparr>,
             [RegEmit (BusinessWhitelistAdded tla_id added (predecessor_account_id c))]))))))"

definition admin_whitelist_remove ::
    "ctx \<Rightarrow> account_id \<Rightarrow> account_id list \<Rightarrow> tla_registry \<Rightarrow> reg_res" where
  "admin_whitelist_remove c tla_id accounts r =
     rbind (assert_one_yocto_r c) (\<lambda>_.
     rbind (assert_admin c r) (\<lambda>_.
     rbind (assert_whitelist_batch accounts) (\<lambda>_.
     let (wl, removed) = whitelist_remove_all tla_id accounts (r_biz_whitelist r)
     in Inr (r\<lparr>r_biz_whitelist := wl\<rparr>,
             [RegEmit (BusinessWhitelistRemoved tla_id removed (predecessor_account_id c))]))))"

definition assert_business_accepting :: "ctx \<Rightarrow> account_id \<Rightarrow> tla_registry \<Rightarrow> contract_error + unit" where
  "assert_business_accepting c tla_id r =
     ok_or (r_tlas r tla_id) TlaNotFound (\<lambda>tla.
     require (te_tla_type tla = Business) NotBusinessTla (
     require (accepting_rentals c tla (suspension_expiry tla_id r)) TlaNotAcceptingRentals (
     Inr ())))"

definition claim_business_name :: "ctx \<Rightarrow> account_id \<Rightarrow> string \<Rightarrow> tla_registry \<Rightarrow> reg_res" where
  "claim_business_name c tla_id name r =
     (let key = sub_account_key tla_id name; claimer = predecessor_account_id c;
          attached = attached_deposit c in
     rbind (assert_not_paused c r) (\<lambda>_.
     rbind (validate_mintable_name tla_id name) (\<lambda>_.
     require ((tla_id, claimer) \<in> r_biz_whitelist r) NotWhitelisted (
     rbind (assert_business_accepting c tla_id r) (\<lambda>_.
     require (r_sub_accounts r key = None \<and> r_parked_names r key = None) SubAccountNameTaken (
     require (fc_account_creation_deposit_yocto (r_fee_config r) \<le> attached) InsufficientPayment (
     rbind (business_count_check_and_bump tla_id r) (\<lambda>r1.
     let r2 = r1\<lparr>r_biz_whitelist := r_biz_whitelist r1 - {(tla_id, claimer)},
                 r_biz_claimed := insert key (r_biz_claimed r1)\<rparr>;
         (r3, expires_at) = open_lease c key tla_id claimer claimer r2
     in Inr (r3, [RegCall (create_leased_account tla_id name claimer claimer expires_at r3)
               (Some (On_business_name_claimed
                 \<lparr>ms_tla_id = tla_id, ms_name = name, ms_owner = claimer, ms_payer = claimer,
                  ms_rent_yocto = 0, ms_attached_yocto = attached,
                  ms_order_id = None\<rparr>))])))))))))"

definition on_business_name_claimed ::
    "ctx \<Rightarrow> mint_settlement \<Rightarrow> promise_error + mint_outcome \<Rightarrow> tla_registry \<Rightarrow> reg_res" where
  "on_business_name_claimed c s outcome r =
     rbind (assert_private_r c) (\<lambda>_.
     on_sub_account_created c s outcome
       (if outcome = Inr CreationFailed
        then r\<lparr>r_biz_whitelist := insert (ms_tla_id s, ms_owner s) (r_biz_whitelist r)\<rparr>
        else r))"

section \<open>Reclaiming a name\<close>

definition SWEEP_ATTACHED_REQUIRED :: u128 where
  "SWEEP_ATTACHED_REQUIRED = FT_STORAGE_DEPOSIT_YOCTO + 1"

definition resolve_reclaimable ::
    "registry_lib \<Rightarrow> ctx \<Rightarrow> account_id \<Rightarrow> string \<Rightarrow> tla_registry
     \<Rightarrow> contract_error + (account_id \<times> account_id)" where
  "resolve_reclaimable lib c tla_id key r =
     ok_or (rl_parse lib key) InvalidSubAccountId (\<lambda>sub_account.
     ok_or (r_sub_accounts r key) SubAccountNotFound (\<lambda>sub.
     require (sa_tla_id sub = tla_id) SubAccountTlaMismatch (
     ok_or (r_tlas r tla_id) TlaNotFound (\<lambda>tla.
     require (effective_sub_lifecycle c sub tla (fc_retraction_notice_ns (r_fee_config r))
                (clock c r) (suspension_expiry tla_id r) = LcReclaimable)
       SubAccountNotReclaimable (
     Inr (sub_account, sa_payout_account sub))))))"

definition resolve_sweepable ::
    "registry_lib \<Rightarrow> ctx \<Rightarrow> account_id \<Rightarrow> string \<Rightarrow> tla_registry
     \<Rightarrow> contract_error + (account_id \<times> account_id)" where
  "resolve_sweepable lib c tla_id key r =
     (if r_parked_names r key \<noteq> None
      then ok_or (rl_parse lib key) InvalidSubAccountId (\<lambda>sub_account.
           Inr (sub_account, r_treasury r))
      else resolve_reclaimable lib c tla_id key r)"

definition start_notice_if_term_is_live ::
    "ctx \<Rightarrow> string \<Rightarrow> tla_registry \<Rightarrow> contract_error + (tla_registry \<times> u64 option)" where
  "start_notice_if_term_is_live c key r =
     (let notice = fc_retraction_notice_ns (r_fee_config r); now = block_timestamp c in
      case r_sub_accounts r key of
        None \<Rightarrow> Inr (r, None)
      | Some sub \<Rightarrow>
          if sa_expires_at sub \<le> now then Inr (r, None)
          else case sa_retraction_at sub of
                 Some started \<Rightarrow>
                   if sat_add started notice \<le> now then Inr (r, None) else Inl RetractionPending
               | None \<Rightarrow>
                   Inr (r\<lparr>r_sub_accounts := (r_sub_accounts r)(key \<mapsto>
                            sub\<lparr>sa_retraction_at := Some now\<rparr>)\<rparr>,
                        Some (sat_add now notice)))"

definition park_wallet ::
    "account_id \<Rightarrow> account_id \<Rightarrow> string \<Rightarrow> account_id \<Rightarrow> tla_registry \<Rightarrow> reg_out" where
  "park_wallet sub_account tla_id name destination r =
     RegCall (CallExtension (r_hos_extension r) (Ext_force_transfer sub_account None Reclaim None))
       (Some (On_reclaim_finalized tla_id name destination))"

definition reclaim_sweep_near ::
    "registry_lib \<Rightarrow> ctx \<Rightarrow> account_id \<Rightarrow> string \<Rightarrow> tla_registry \<Rightarrow> reg_res" where
  "reclaim_sweep_near lib c tla_id name r =
     rbind (assert_one_yocto_r c) (\<lambda>_.
     rbind (validate_name name) (\<lambda>_.
     rbind (resolve_sweepable lib c tla_id (sub_account_key tla_id name) r) (\<lambda>(sub_account, _).
     Inr (r, [RegCall (CallExtension (r_hos_extension r) (Ext_sweep_near sub_account)) None]))))"

definition reclaim_sweep_ft ::
    "registry_lib \<Rightarrow> ctx \<Rightarrow> account_id \<Rightarrow> string \<Rightarrow> account_id \<Rightarrow> tla_registry \<Rightarrow> reg_res" where
  "reclaim_sweep_ft lib c tla_id name ft r =
     rbind (validate_name name) (\<lambda>_.
     require (SWEEP_ATTACHED_REQUIRED \<le> attached_deposit c) InsufficientPayment (
     require (ft \<in> r_sweepable_tokens r) TokenNotInAllowlist (
     rbind (resolve_sweepable lib c tla_id (sub_account_key tla_id name) r) (\<lambda>(sub_account, _).
     let caller = predecessor_account_id c in
     Inr (refund_excess caller (attached_deposit c) SWEEP_ATTACHED_REQUIRED r,
          [RegCall (CallExtension (r_hos_extension r)
              (Ext_sweep_ft sub_account ft caller SWEEP_ATTACHED_REQUIRED)) None])))))"

definition reclaim_finalize ::
    "registry_lib \<Rightarrow> ctx \<Rightarrow> account_id \<Rightarrow> string \<Rightarrow> tla_registry \<Rightarrow> reg_res" where
  "reclaim_finalize lib c tla_id name r =
     (let key = sub_account_key tla_id name in
     rbind (assert_not_payable c) (\<lambda>_.
     rbind (assert_not_paused c r) (\<lambda>_.
     rbind (validate_name name) (\<lambda>_.
     require (key \<notin> r_reclaim_pending r) ReclaimInProgress (
     rbind (resolve_reclaimable lib c tla_id key r) (\<lambda>(sub_account, destination).
     rbind (start_notice_if_term_is_live c key r) (\<lambda>(r1, notice).
     case notice of
       Some ends_at \<Rightarrow>
         Inr (r1, [RegEmit (SubAccountRetractionScheduled key ends_at (predecessor_account_id c)),
                   retract_wallet_lease (r_hos_extension r1) sub_account ends_at])
     | None \<Rightarrow>
         let r2 = r1\<lparr>r_reclaim_pending := insert key (r_reclaim_pending r1)\<rparr>;
             allowlist = rl_iter lib (r_ft_allowlist r2)
         in (case ft_balance_fanout allowlist sub_account of
               None \<Rightarrow> Inr (r2, [park_wallet sub_account tla_id name destination r2])
             | Some chain \<Rightarrow>
                 Inr (r2, [RegCall chain
                   (Some (On_balances_checked tla_id name destination allowlist))])))))))))"

definition reclaim_blocked :: "string \<Rightarrow> account_id option \<Rightarrow> string \<Rightarrow> tla_registry
    \<Rightarrow> tla_registry \<times> reg_out list" where
  "reclaim_blocked key token reason r =
     (r\<lparr>r_reclaim_pending := r_reclaim_pending r - {key}\<rparr>,
      [RegEmit (ReclaimFinalizeBlocked key token reason)])"

definition on_balances_checked ::
    "registry_lib \<Rightarrow> ctx \<Rightarrow> account_id \<Rightarrow> string \<Rightarrow> account_id \<Rightarrow> account_id list \<Rightarrow> tla_registry
     \<Rightarrow> reg_res" where
  "on_balances_checked lib c tla_id name destination allowlist r =
     (let key = sub_account_key tla_id name in
     rbind (assert_private_r c) (\<lambda>_.
     case ft_balances_clear lib c allowlist of
       Blocked token reason \<Rightarrow> Inr (reclaim_blocked key token reason r)
     | Clear \<Rightarrow>
         (case resolve_reclaimable lib c tla_id key r of
            Inl _ \<Rightarrow> Inr (reclaim_blocked key None ''no_longer_reclaimable'' r)
          | Inr (sub_account, _) \<Rightarrow>
              Inr (r, [park_wallet sub_account tla_id name destination r]))))"

definition on_reclaim_finalized ::
    "ctx \<Rightarrow> account_id \<Rightarrow> string \<Rightarrow> account_id \<Rightarrow> promise_error + bool \<Rightarrow> tla_registry \<Rightarrow> reg_res" where
  "on_reclaim_finalized c tla_id name destination parked r =
     (let key = sub_account_key tla_id name in
     rbind (assert_private_r c) (\<lambda>_.
     if parked \<noteq> Inr True then Inr (reclaim_blocked key None ''park_failed'' r)
     else
       let r0 = r\<lparr>r_reclaim_pending := r_reclaim_pending r - {key}\<rparr> in
       case sub_account_remove key r0 of
         (_, None) \<Rightarrow> Inr (r0, [])
       | (r1, Some removed) \<Rightarrow>
           let r2 = business_count_decrement_if_business tla_id
                      (r1\<lparr>r_sub_account_count := sat_sub (r_sub_account_count r1) 1\<rparr>);
               r3 = r2\<lparr>r_parked_names := (r_parked_names r2)(key \<mapsto>
                        \<lparr>pk_tla_id = tla_id, pk_parked_at = block_timestamp c\<rparr>)\<rparr>;
               (r4, outs4) = emit_activity c (SubAccountReclaimed key tla_id destination) r3
           in Inr (r4, RegEmit (NftBurn (sa_owner removed) key) # outs4)))"

end
