(* ===== verification/Registry_Market.thy ===== *)
theory Registry_Market
  imports Registry_Business
begin

text \<open>
  Moving a name: owner transfers, deposits into a venue, recovery (\<open>marketplace.rs\<close>) and the
  NEP-171 surface over the same entries (\<open>nft.rs\<close>). The registry changes its own record only
  in the callback of the rotation it asked the extension for.
\<close>

section \<open>Guards\<close>

definition assert_sellable ::
    "ctx \<Rightarrow> string \<Rightarrow> account_id \<Rightarrow> tla_registry \<Rightarrow> contract_error + account_id" where
  "assert_sellable c key tla_id r =
     require (key \<notin> r_reclaim_pending r) ReclaimInProgress (
     ok_or (r_sub_accounts r key) SubAccountNotFound (\<lambda>sub.
     require (sa_tla_id sub = tla_id) SubAccountTlaMismatch (
     require (sa_retraction_at sub = None) RetractionPending (
     ok_or (r_tlas r tla_id) TlaNotFound (\<lambda>tla.
     require (\<not> licensee_governed tla_id tla r) BusinessSubNotResellable (
     require (effective_sub_lifecycle c sub tla (fc_retraction_notice_ns (r_fee_config r))
                (clock c r) (suspension_expiry tla_id r) = LcActive) SubAccountNotSellable (
     Inr (sa_owner sub))))))))"

text \<open>Returns the wallet, the owner, and the event of a venue exit to a registered name.\<close>

definition assert_transferable ::
    "registry_lib \<Rightarrow> ctx \<Rightarrow> account_id \<Rightarrow> string \<Rightarrow> account_id \<Rightarrow> tla_registry
     \<Rightarrow> contract_error + (account_id \<times> account_id \<times> reg_out list)" where
  "assert_transferable lib c tla_id name new_owner r =
     (let key = sub_account_key tla_id name in
     rbind (assert_one_yocto_r c) (\<lambda>_.
     rbind (validate_name name) (\<lambda>_.
     require (key \<notin> r_reclaim_pending r) ReclaimInProgress (
     ok_or (r_sub_accounts r key) SubAccountNotFound (\<lambda>sub.
     require (sa_tla_id sub = tla_id) SubAccountTlaMismatch (
     require (predecessor_account_id c = sa_owner sub) OnlyOwner (
     require (new_owner \<noteq> sa_owner sub) SameOwner (
     ok_or (rl_parse lib key) InvalidSubAccountId (\<lambda>sub_account.
     require (new_owner \<noteq> sub_account) TransferToSubAccount (
     if sa_owner sub \<notin> r_venues r
     then rbind (assert_not_paused c r) (\<lambda>_.
          rbind (assert_sellable c key tla_id r) (\<lambda>_.
          require (new_owner \<in> r_venues r \<or> r_sub_accounts r new_owner = None)
            TransferToRegisteredName (
          Inr (sub_account, sa_owner sub, []))))
     else Inr (sub_account, sa_owner sub,
               if r_sub_accounts r new_owner \<noteq> None
               then [RegEmit (VenueExitToRegisteredName key new_owner)] else [])))))))))))"

definition rotation_for_receiver :: "account_id \<Rightarrow> tla_registry \<Rightarrow> rotation_cause" where
  "rotation_for_receiver receiver r = (if receiver \<in> r_venues r then Deposit else Transfer)"

section \<open>Owner transfer and recovery\<close>

definition dispatch_sub_account_transfer ::
    "account_id \<Rightarrow> account_id \<Rightarrow> string \<Rightarrow> account_id \<Rightarrow> account_id \<Rightarrow> rotation_cause \<Rightarrow> tla_registry
     \<Rightarrow> reg_out" where
  "dispatch_sub_account_transfer sub_account tla_id name from new_owner cause r =
     RegCall (CallExtension (r_hos_extension r)
         (Ext_force_transfer sub_account (Some new_owner) cause (Some from)))
       (Some (On_sub_account_transferred tla_id name from new_owner cause))"

definition transfer_sub_account ::
    "registry_lib \<Rightarrow> ctx \<Rightarrow> account_id \<Rightarrow> string \<Rightarrow> account_id \<Rightarrow> tla_registry \<Rightarrow> reg_res" where
  "transfer_sub_account lib c tla_id name new_owner r =
     rbind (assert_transferable lib c tla_id name new_owner r) (\<lambda>(sub_account, from, outs).
     let cause = rotation_for_receiver new_owner r;
         dispatch = dispatch_sub_account_transfer sub_account tla_id name from new_owner cause r;
         allowlist = rl_iter lib (r_ft_allowlist r) in
     if from \<in> r_venues r then Inr (r, outs @ [dispatch])
     else case ft_balance_fanout allowlist sub_account of
            None \<Rightarrow> Inr (r, outs @ [dispatch])
          | Some chain \<Rightarrow>
              Inr (r, outs @ [RegCall chain (Some (On_transfer_balances_checked sub_account tla_id
                        name from new_owner cause allowlist))]))"

definition on_transfer_balances_checked ::
    "registry_lib \<Rightarrow> ctx \<Rightarrow> account_id \<Rightarrow> account_id \<Rightarrow> string \<Rightarrow> account_id \<Rightarrow> account_id
     \<Rightarrow> rotation_cause \<Rightarrow> account_id list \<Rightarrow> tla_registry \<Rightarrow> reg_res" where
  "on_transfer_balances_checked lib c sub_account tla_id name from new_owner cause allowlist r =
     rbind (assert_private_r c) (\<lambda>_.
     case ft_balances_clear lib c allowlist of
       Blocked token reason \<Rightarrow> Inl SubAccountHoldsTokens
     | Clear \<Rightarrow>
         Inr (r, [dispatch_sub_account_transfer sub_account tla_id name from new_owner cause r]))"

definition on_sub_account_transferred ::
    "ctx \<Rightarrow> account_id \<Rightarrow> string \<Rightarrow> account_id \<Rightarrow> account_id \<Rightarrow> rotation_cause
     \<Rightarrow> promise_error + bool \<Rightarrow> tla_registry \<Rightarrow> reg_res" where
  "on_sub_account_transferred c tla_id name from to cause swapped r =
     (let key = sub_account_key tla_id name;
          failed = (r, [RegEmit (TransferFailed key from to)]) in
     rbind (assert_private_r c) (\<lambda>_.
     case r_sub_accounts r key of
       None \<Rightarrow> Inr failed
     | Some sub \<Rightarrow>
         if swapped \<noteq> Inr True \<or> sa_owner sub \<noteq> from then Inr failed
         else
           let payout = (if repoints_payout cause then to else sa_payout_account sub);
               (r1, done) = sub_account_reassign key to payout r
           in if \<not> done then Inr failed
              else let (r2, outs2) = emit_activity c (SubAccountTransferred key tla_id from to) r1
                   in Inr (r2, RegEmit (NftTransferred from to key None) # outs2)))"

definition recover_sub_account ::
    "registry_lib \<Rightarrow> ctx \<Rightarrow> account_id \<Rightarrow> string \<Rightarrow> account_id \<Rightarrow> account_id \<Rightarrow> tla_registry \<Rightarrow> reg_res" where
  "recover_sub_account lib c tla_id name new_owner expected_owner r =
     (let key = sub_account_key tla_id name in
     rbind (assert_one_yocto_r c) (\<lambda>_.
     rbind (assert_recovery_authority c r) (\<lambda>_.
     rbind (assert_not_paused c r) (\<lambda>_.
     rbind (validate_name name) (\<lambda>_.
     require (key \<notin> r_reclaim_pending r) ReclaimInProgress (
     ok_or (r_sub_accounts r key) SubAccountNotFound (\<lambda>sub.
     require (sa_owner sub = expected_owner) OwnerMovedErr (
     require (new_owner \<noteq> sa_owner sub) SameOwner (
     ok_or (rl_parse lib key) InvalidSubAccountId (\<lambda>sub_account.
     require (new_owner \<noteq> sub_account) TransferToSubAccount (
     require (r_sub_accounts r new_owner = None) TransferToRegisteredName (
     Inr (r, [RegCall (CallExtension (r_hos_extension r)
                 (Ext_force_transfer sub_account (Some new_owner) Recovery None))
               (Some (On_sub_account_recovered tla_id name (sa_owner sub) new_owner))])))))))))))))"

definition on_sub_account_recovered ::
    "ctx \<Rightarrow> account_id \<Rightarrow> string \<Rightarrow> account_id \<Rightarrow> account_id \<Rightarrow> promise_error + bool \<Rightarrow> tla_registry
     \<Rightarrow> reg_res" where
  "on_sub_account_recovered c tla_id name from to swapped r =
     (let key = sub_account_key tla_id name;
          failed = (r, [RegEmit (TransferFailed key from to)]) in
     rbind (assert_private_r c) (\<lambda>_.
     case r_sub_accounts r key of
       None \<Rightarrow> Inr failed
     | Some sub \<Rightarrow>
         if swapped \<noteq> Inr True \<or> sa_owner sub \<noteq> from then Inr failed
         else
           let (r1, done) = sub_account_reassign key to to r
           in if \<not> done then Inr failed
              else let (r2, outs2) = emit_activity c (SubAccountRecovered key tla_id from to) r1
                   in Inr (r2, RegEmit (NftTransferred from to key None) # outs2)))"

section \<open>NEP-171\<close>

definition split_token_id :: "string \<Rightarrow> tla_registry \<Rightarrow> contract_error + (account_id \<times> string)" where
  "split_token_id token_id r =
     ok_or (r_sub_accounts r token_id) TokenNotFound (\<lambda>sub.
     ok_or (strip_suffix token_id (''.'' @ sa_tla_id sub)) TokenNotFound (\<lambda>name.
     Inr (sa_tla_id sub, name)))"

definition open_nft_transfer ::
    "registry_lib \<Rightarrow> ctx \<Rightarrow> account_id \<Rightarrow> string \<Rightarrow> u64 option \<Rightarrow> tla_registry
     \<Rightarrow> contract_error + (account_id \<times> string \<times> account_id \<times> account_id \<times> reg_out list)" where
  "open_nft_transfer lib c receiver_id token_id approval_id r =
     require (approval_id = None) ApprovalsNotSupported (
     rbind (split_token_id token_id r) (\<lambda>(tla_id, name).
     rbind (assert_transferable lib c tla_id name receiver_id r) (\<lambda>(sub_account, from, outs).
     Inr (tla_id, name, from, sub_account, outs))))"

definition dispatch_rotation :: "account_id \<Rightarrow> nft_rotation \<Rightarrow> tla_registry \<Rightarrow> reg_out" where
  "dispatch_rotation sub_account rot r =
     RegCall (CallExtension (r_hos_extension r)
         (Ext_force_transfer sub_account (Some (nr_to rot)) (nr_cause rot) (Some (nr_from rot))))
       (Some (Nft_on_rotation_resolved rot))"

definition dispatch_transfer_call ::
    "account_id \<Rightarrow> nft_transfer_call_args \<Rightarrow> tla_registry \<Rightarrow> reg_out" where
  "dispatch_transfer_call sub_account call r =
     RegCall (CallExtension (r_hos_extension r)
         (Ext_force_transfer sub_account (Some (nc_to call)) (nc_cause call) (Some (nc_from call))))
       (Some (Nft_on_rotation_resolved_call call))"

definition nft_transfer ::
    "registry_lib \<Rightarrow> ctx \<Rightarrow> account_id \<Rightarrow> string \<Rightarrow> u64 option \<Rightarrow> string option \<Rightarrow> tla_registry
     \<Rightarrow> reg_res" where
  "nft_transfer lib c receiver_id token_id approval_id memo r =
     rbind (open_nft_transfer lib c receiver_id token_id approval_id r)
       (\<lambda>(tla_id, name, from, sub_account, outs).
     let rot = \<lparr>nr_tla_id = tla_id, nr_name = name, nr_from = from, nr_to = receiver_id,
                nr_memo = memo, nr_cause = rotation_for_receiver receiver_id r\<rparr>;
         allowlist = rl_iter lib (r_ft_allowlist r) in
     if from \<in> r_venues r then Inr (r, outs @ [dispatch_rotation sub_account rot r])
     else case ft_balance_fanout allowlist sub_account of
            None \<Rightarrow> Inr (r, outs @ [dispatch_rotation sub_account rot r])
          | Some chain \<Rightarrow>
              Inr (r, outs @ [RegCall chain
                (Some (Nft_on_transfer_balances_checked sub_account rot allowlist))]))"

definition nft_on_transfer_balances_checked ::
    "registry_lib \<Rightarrow> ctx \<Rightarrow> account_id \<Rightarrow> nft_rotation \<Rightarrow> account_id list \<Rightarrow> tla_registry \<Rightarrow> reg_res" where
  "nft_on_transfer_balances_checked lib c sub_account rot allowlist r =
     rbind (assert_private_r c) (\<lambda>_.
     case ft_balances_clear lib c allowlist of
       Blocked token reason \<Rightarrow> Inl SubAccountHoldsTokens
     | Clear \<Rightarrow> Inr (r, [dispatch_rotation sub_account rot r]))"

definition nft_transfer_call ::
    "registry_lib \<Rightarrow> ctx \<Rightarrow> account_id \<Rightarrow> string \<Rightarrow> u64 option \<Rightarrow> string option \<Rightarrow> string
     \<Rightarrow> tla_registry \<Rightarrow> reg_res" where
  "nft_transfer_call lib c receiver_id token_id approval_id memo msg r =
     rbind (assert_marketplace_open r) (\<lambda>_.
     rbind (open_nft_transfer lib c receiver_id token_id approval_id r)
       (\<lambda>(tla_id, name, from, sub_account, outs).
     let call = \<lparr>nc_tla_id = tla_id, nc_name = name, nc_from = from, nc_to = receiver_id,
                 nc_memo = memo, nc_msg = msg, nc_cause = rotation_for_receiver receiver_id r\<rparr>;
         allowlist = rl_iter lib (r_ft_allowlist r) in
     case ft_balance_fanout allowlist sub_account of
       None \<Rightarrow> Inr (r, outs @ [dispatch_transfer_call sub_account call r])
     | Some chain \<Rightarrow>
         Inr (r, outs @ [RegCall chain
           (Some (Nft_on_deposit_balances_checked sub_account call allowlist))])))"

definition nft_on_deposit_balances_checked ::
    "registry_lib \<Rightarrow> ctx \<Rightarrow> account_id \<Rightarrow> nft_transfer_call_args \<Rightarrow> account_id list \<Rightarrow> tla_registry
     \<Rightarrow> reg_res" where
  "nft_on_deposit_balances_checked lib c sub_account call allowlist r =
     rbind (assert_private_r c) (\<lambda>_.
     case ft_balances_clear lib c allowlist of
       Blocked token reason \<Rightarrow> Inl SubAccountHoldsTokens
     | Clear \<Rightarrow> Inr (r, [dispatch_transfer_call sub_account call r]))"

definition commit_nft_rotation ::
    "ctx \<Rightarrow> account_id \<Rightarrow> string \<Rightarrow> account_id \<Rightarrow> account_id \<Rightarrow> string option \<Rightarrow> rotation_cause
     \<Rightarrow> promise_error + bool \<Rightarrow> tla_registry \<Rightarrow> reg_res" where
  "commit_nft_rotation c tla_id name from to memo cause swapped r =
     (let key = sub_account_key tla_id name;
          payout = (if repoints_payout cause then to
                    else case r_sub_accounts r key of
                           None \<Rightarrow> to | Some sub \<Rightarrow> sa_payout_account sub);
          (r1, done) = sub_account_reassign key to payout r;
          (r2, outs2) = emit_activity c (SubAccountTransferred key tla_id from to) r1 in
     require (swapped = Inr True) RotationNotConfirmed (
     require done OwnerIndexOutOfSync (
     Inr (r2, RegEmit (NftTransferred from to key memo) # outs2))))"

definition nft_on_rotation_resolved ::
    "ctx \<Rightarrow> nft_rotation \<Rightarrow> promise_error + bool \<Rightarrow> tla_registry \<Rightarrow> reg_res" where
  "nft_on_rotation_resolved c rot swapped r =
     rbind (assert_private_r c) (\<lambda>_.
     commit_nft_rotation c (nr_tla_id rot) (nr_name rot) (nr_from rot) (nr_to rot) (nr_memo rot)
       (nr_cause rot) swapped r)"

definition nft_on_rotation_resolved_call ::
    "ctx \<Rightarrow> nft_transfer_call_args \<Rightarrow> promise_error + bool \<Rightarrow> tla_registry \<Rightarrow> reg_res" where
  "nft_on_rotation_resolved_call c call swapped r =
     rbind (assert_private_r c) (\<lambda>_.
     rbind (commit_nft_rotation c (nc_tla_id call) (nc_name call) (nc_from call) (nc_to call)
              (nc_memo call) (nc_cause call) swapped r) (\<lambda>(r1, outs).
     Inr (r1, outs @ [RegCall
       (NftOnTransfer (nc_to call) (nc_from call)
          (sub_account_key (nc_tla_id call) (nc_name call)) (nc_msg call))
       (Some (Nft_resolve_transfer (nc_tla_id call) (nc_name call) (nc_from call) (nc_to call)))])))"

definition nft_resolve_transfer ::
    "registry_lib \<Rightarrow> ctx \<Rightarrow> account_id \<Rightarrow> string \<Rightarrow> account_id \<Rightarrow> account_id
     \<Rightarrow> promise_error + bool \<Rightarrow> tla_registry \<Rightarrow> reg_res" where
  "nft_resolve_transfer lib c tla_id name from to returned r =
     (let key = sub_account_key tla_id name;
          give_back = (case returned of Inl _ \<Rightarrow> True | Inr b \<Rightarrow> b) in
     rbind (assert_private_r c) (\<lambda>_.
     if \<not> give_back then Inr (r, [])
     else if map_option sa_owner (r_sub_accounts r key) \<noteq> Some to then Inr (r, [])
     else case rl_parse lib key of
            None \<Rightarrow> Inr (r, [])
          | Some sub_account \<Rightarrow>
              Inr (r, [RegCall (CallExtension (r_hos_extension r)
                  (Ext_force_transfer sub_account (Some from) Revert None))
                (Some (Nft_on_return_resolved tla_id name to from))])))"

definition nft_on_return_resolved ::
    "ctx \<Rightarrow> account_id \<Rightarrow> string \<Rightarrow> account_id \<Rightarrow> account_id \<Rightarrow> promise_error + bool \<Rightarrow> tla_registry
     \<Rightarrow> reg_res" where
  "nft_on_return_resolved c tla_id name from to swapped r =
     (let key = sub_account_key tla_id name;
          (r1, done) = sub_account_reassign key to to r;
          (r2, outs2) = emit_activity c (SubAccountTransferred key tla_id from to) r1 in
     rbind (assert_private_r c) (\<lambda>_.
     if swapped \<noteq> Inr True \<or> \<not> done then Inr (r, [RegEmit (TransferFailed key from to)])
     else Inr (r2, RegEmit (NftTransferred from to key None) # outs2)))"

definition NFT_SPEC :: string where "NFT_SPEC = ''nft-1.0.0''"

definition admin_set_nft_metadata ::
    "ctx \<Rightarrow> string \<Rightarrow> string \<Rightarrow> string option \<Rightarrow> string option \<Rightarrow> string option \<Rightarrow> tla_registry
     \<Rightarrow> reg_res" where
  "admin_set_nft_metadata c name symbol icon base_uri reference r =
     rbind (assert_one_yocto_r c) (\<lambda>_.
     rbind (assert_admin c r) (\<lambda>_.
     Inr (r\<lparr>r_nft_contract_metadata := \<lparr>nm_spec = NFT_SPEC, nm_name = name, nm_symbol = symbol,
              nm_icon = icon, nm_base_uri = base_uri, nm_reference = reference,
              nm_reference_hash = None\<rparr>\<rparr>, [])))"

definition initial_metadata :: "ctx \<Rightarrow> nft_contract_metadata" where
  "initial_metadata c = \<lparr>nm_spec = NFT_SPEC, nm_name = current_account_id c,
     nm_symbol = current_account_id c, nm_icon = None, nm_base_uri = None, nm_reference = None,
     nm_reference_hash = None\<rparr>"

section \<open>NEP-181 enumeration\<close>

text \<open>The metadata of a token has a title and the number of copies; its \<open>extra\<close> field is a JSON
  object with the two times kept here. The other fields are always absent.\<close>

record token =
  tk_token_id :: string
  tk_owner_id :: account_id
  tk_title :: "string option"
  tk_copies :: "u64 option"
  tk_rented_at :: u64
  tk_expires_at :: u64

definition token_of :: "string \<Rightarrow> sub_account_entry \<Rightarrow> token" where
  "token_of token_id sub = \<lparr>tk_token_id = token_id, tk_owner_id = sa_owner sub,
     tk_title = Some token_id, tk_copies = Some 1, tk_rented_at = sa_rented_at sub, tk_expires_at = sa_expires_at sub\<rparr>"

definition nft_token :: "string \<Rightarrow> tla_registry \<Rightarrow> token option" where
  "nft_token token_id r = map_option (token_of token_id) (r_sub_accounts r token_id)"

definition nft_total_supply :: "tla_registry \<Rightarrow> u128" where
  "nft_total_supply r = ucast (r_sub_account_count r)"

text \<open>The loop of \<open>nft_tokens_for_owner_page\<close> over the owner's keys: whether the cursor has
  been passed, the tokens so far, the last key visited, and whether keys are left.\<close>

record page_state =
  pg_resumed :: bool
  pg_tokens :: "token list"
  pg_visited :: "string option"

fun page_loop ::
    "tla_registry \<Rightarrow> string option \<Rightarrow> nat \<Rightarrow> string list \<Rightarrow> page_state \<Rightarrow> page_state \<times> bool" where
  "page_loop r after take_n [] st = (st, False)"
| "page_loop r after take_n (key # keys) st =
     (if \<not> pg_resumed st
      then page_loop r after take_n keys (st\<lparr>pg_resumed := (after = Some key)\<rparr>)
      else if length (pg_tokens st) = take_n then (st, True)
      else page_loop r after take_n keys
             (st\<lparr>pg_tokens := pg_tokens st @ (case r_sub_accounts r key of
                   None \<Rightarrow> [] | Some sub \<Rightarrow> [token_of key sub]),
                 pg_visited := Some key\<rparr>))"

definition page_take :: "u64 option \<Rightarrow> nat" where
  "page_take limit =
     unat (max 1 (min (case limit of None \<Rightarrow> MAX_PAGE_LIMIT | Some l \<Rightarrow> l) MAX_PAGE_LIMIT))"

definition nft_tokens_for_owner_page ::
    "registry_lib \<Rightarrow> account_id \<Rightarrow> string option \<Rightarrow> u64 option \<Rightarrow> tla_registry
     \<Rightarrow> contract_error + (token list \<times> string option)" where
  "nft_tokens_for_owner_page lib account after limit r =
     (case r_sub_accounts_by_owner r account of
        None \<Rightarrow> require (after = None) UnknownCursor (Inr ([], None))
      | Some keys \<Rightarrow>
          let (st, more) = page_loop r after (page_take limit) (rl_iter lib keys)
                \<lparr>pg_resumed = (after = None), pg_tokens = [], pg_visited = None\<rparr>
          in require (pg_resumed st) UnknownCursor (
             Inr (pg_tokens st,
                  if more then (case pg_visited st of None \<Rightarrow> after | Some k \<Rightarrow> Some k)
                  else None)))"

end
