(* ===== verification/Registry_Admin.thy ===== *)
theory Registry_Admin
  imports Registry_Market
begin

text \<open>
  Running the registry: initialisation, the price feed, pauses and refunds (\<open>lib.rs\<close>), and
  what council, admins and treasury may do (\<open>admin.rs\<close>), the timelocked rotations and upgrades
  included.
\<close>

section \<open>Constants\<close>

definition REG_STATE_VERSION :: u16 where "REG_STATE_VERSION = 5"
definition CONTRACT_VERSION :: u8 where "CONTRACT_VERSION = 1"
definition MIN_GRACE_PERIOD_NS :: u64 where "MIN_GRACE_PERIOD_NS = 60 * 1000000000"
definition MIN_LEASE_TERM_NS :: u64 where "MIN_LEASE_TERM_NS = 60 * 1000000000"
definition MAX_LEASE_TERM_NS :: u64 where "MAX_LEASE_TERM_NS = 10 * ONE_YEAR_NS"
definition PRODUCTION_LEASE_TERM_NS :: u64 where "PRODUCTION_LEASE_TERM_NS = ONE_YEAR_NS"
definition UPGRADE_DELAY_NS :: u64 where "UPGRADE_DELAY_NS = 48 * 60 * 60 * 1000000000"
definition MAX_ALLOWLIST_SIZE :: nat where "MAX_ALLOWLIST_SIZE = 16"
definition MANUAL_ORDER_RELEASE_AFTER_NS :: u64 where
  "MANUAL_ORDER_RELEASE_AFTER_NS = 3600000000000"
definition LOG_BUDGET_BYTES :: nat where "LOG_BUDGET_BYTES = 16384"
definition LOG_ENVELOPE_BYTES :: nat where "LOG_ENVELOPE_BYTES = 512"
definition MAX_TLA_BATCH :: nat where "MAX_TLA_BATCH = 650"
definition MAX_SWEEPABLE_SIZE :: nat where "MAX_SWEEPABLE_SIZE = 64"
definition MAX_VENUES :: nat where "MAX_VENUES = 8"
definition MAX_AUTHORITY_SET :: nat where "MAX_AUTHORITY_SET = 32"
definition MIN_RETRACTION_NOTICE_NS :: u64 where
  "MIN_RETRACTION_NOTICE_NS = 24 * 60 * 60 * 1000000000"

section \<open>Initialisation\<close>

definition registry_new ::
    "ctx \<Rightarrow> bool \<Rightarrow> account_id \<Rightarrow> account_id \<Rightarrow> u64 \<Rightarrow> account_id \<Rightarrow> account_id \<Rightarrow> u64 option
     \<Rightarrow> contract_error + tla_registry" where
  "registry_new c state_exists admin hos_extension grace_period_ns treasury council lease_term =
     (let lease_term_ns = (case lease_term of None \<Rightarrow> PRODUCTION_LEASE_TERM_NS | Some t \<Rightarrow> t) in
     require (\<not> state_exists) RegAlreadyInitialized (
     require (no_deposit c) RegNotPayable (
     require (MIN_GRACE_PERIOD_NS \<le> grace_period_ns) GracePeriodTooShort (
     require (MIN_LEASE_TERM_NS \<le> lease_term_ns) LeaseTermTooShort (
     require (lease_term_ns \<le> MAX_LEASE_TERM_NS) LeaseTermTooLong (
     require (hos_extension \<noteq> current_account_id c) WiringIsRegistry (
     require (council \<noteq> current_account_id c) CouncilIsSelf (
     Inr \<lparr>r_state_version = REG_STATE_VERSION, r_tlas = Map.empty, r_sub_accounts = Map.empty,
          r_sub_accounts_by_owner = Map.empty, r_sub_accounts_by_tla = Map.empty,
          r_recent_activity = [], r_activity_cursor = 0, r_admins = {admin},
          r_fee_config = default_fee_config, r_total_revenue = 0, r_sub_account_count = 0,
          r_paused = False, r_version = CONTRACT_VERSION, r_pending_refunds = Map.empty,
          r_total_pending_refunds = 0, r_ft_allowlist = {}, r_business_sub_count = Map.empty,
          r_business_sub_cap_override = Map.empty, r_tla_terms = Map.empty,
          r_parked_names = Map.empty, r_reclaim_pending = {}, r_payment_authorities = {},
          r_recovery_authorities = {}, r_hos_extension = hos_extension,
          r_grace_period_ns = grace_period_ns, r_lease_term_ns = lease_term_ns,
          r_price_oracle = admin, r_near_usd_rate_micro = 0, r_rate_updated_at = 0,
          r_rate_sequence = 0, r_treasury = treasury, r_council = council,
          r_marketplace_paused = False, r_paused_until_ns = 0, r_unpaused_at = 0,
          r_sweepable_tokens = {}, r_suspended_until = Map.empty,
          r_nft_contract_metadata = initial_metadata c, r_approved_code_hash = None,
          r_approved_at = None, r_upgrade_delay_ns = UPGRADE_DELAY_NS, r_venues = {},
          r_upgrade_proven = False, r_paid_order_ids = Map.empty, r_pending_council = None,
          r_pending_council_at = None, r_pending_treasury = None, r_pending_treasury_at = None,
          r_authority_allowance = Map.empty, r_authority_used = Map.empty, r_biz_resale = {},
          r_biz_whitelist = {}, r_biz_claimed = {}\<rparr>))))))))"

section \<open>Price feed\<close>

definition commit_rate :: "ctx \<Rightarrow> u128 \<Rightarrow> u128 \<Rightarrow> tla_registry \<Rightarrow> tla_registry \<times> reg_out list" where
  "commit_rate c previous new r =
     (let sequence = sat_add (r_rate_sequence r) 1
      in (r\<lparr>r_near_usd_rate_micro := new, r_rate_updated_at := block_timestamp c,
            r_rate_sequence := sequence\<rparr>,
          [RegEmit (NearUsdRateUpdated previous new sequence (predecessor_account_id c))]))"

definition admin_set_initial_rate :: "ctx \<Rightarrow> u128 \<Rightarrow> tla_registry \<Rightarrow> reg_res" where
  "admin_set_initial_rate c rate r =
     rbind (assert_one_yocto_r c) (\<lambda>_.
     rbind (assert_council c r) (\<lambda>_.
     require (r_near_usd_rate_micro r = 0) RateAlreadyInitialized (
     require (fc_min_near_usd_rate_micro (r_fee_config r) \<le> rate
              \<and> rate \<le> fc_max_near_usd_rate_micro (r_fee_config r)) RateOutOfBounds (
     Inr (commit_rate c 0 rate r)))))"

definition set_near_usd_rate :: "ctx \<Rightarrow> u128 \<Rightarrow> tla_registry \<Rightarrow> reg_res" where
  "set_near_usd_rate c rate r =
     (let config = r_fee_config r; previous = r_near_usd_rate_micro r;
          floor = fc_min_near_usd_rate_micro config;
          ceiling = fc_max_near_usd_rate_micro config in
     rbind (assert_not_payable c) (\<lambda>_.
     require (predecessor_account_id c = r_price_oracle r) OnlyPriceOracle (
     require (previous \<noteq> 0) RateNotInitialized (
     require (sat_add (r_rate_updated_at r) (fc_rate_update_cooldown_ns config) \<le> block_timestamp c)
       RateCooldown (
     rbind (rate_within_bounds previous rate (fc_max_rate_move_bps config) floor ceiling) (\<lambda>ok.
     require ok RateOutOfBounds (
     let recovered = (if rate_is_usable previous floor ceiling then []
                      else [RegEmit (RateRecoveredFromOutOfBand previous rate
                              (predecessor_account_id c))]);
         (r1, outs) = commit_rate c previous rate r
     in Inr (r1, recovered @ outs))))))))"

definition set_price_oracle :: "ctx \<Rightarrow> account_id \<Rightarrow> tla_registry \<Rightarrow> reg_res" where
  "set_price_oracle c account r =
     rbind (assert_one_yocto_r c) (\<lambda>_.
     rbind (assert_admin c r) (\<lambda>_.
     Inr (r\<lparr>r_price_oracle := account\<rparr>,
          [RegEmit (PriceOracleUpdated account (predecessor_account_id c))])))"

section \<open>Pauses and refunds\<close>

definition pause :: "ctx \<Rightarrow> tla_registry \<Rightarrow> reg_res" where
  "pause c r =
     rbind (assert_not_payable c) (\<lambda>_.
     rbind (assert_admin c r) (\<lambda>_.
     Inr (r\<lparr>r_paused := True, r_paused_until_ns := sat_add (block_timestamp c) MAX_AUTHORITY_HOLD_NS\<rparr>,
          [RegEmit (ContractPaused (predecessor_account_id c))])))"

definition unpause :: "ctx \<Rightarrow> tla_registry \<Rightarrow> reg_res" where
  "unpause c r =
     rbind (assert_not_payable c) (\<lambda>_.
     rbind (assert_admin c r) (\<lambda>_.
     Inr (end_pause c r, [RegEmit (ContractUnpaused (predecessor_account_id c))])))"

definition claim_refund :: "ctx \<Rightarrow> tla_registry \<Rightarrow> reg_res" where
  "claim_refund c r =
     (let caller = predecessor_account_id c;
          amount = (case r_pending_refunds r caller of None \<Rightarrow> 0 | Some a \<Rightarrow> a) in
     rbind (assert_not_payable c) (\<lambda>_.
     require (amount \<noteq> 0) NoPendingRefund (
     require (amount \<le> available_balance c) InsufficientContractBalance (
     Inr (r\<lparr>r_pending_refunds := (r_pending_refunds r)(caller := None),
            r_total_pending_refunds := sat_sub (r_total_pending_refunds r) amount\<rparr>,
          [RegCall (TransferNear caller amount) (Some (On_claim_refund_settled caller amount))])))))"

definition on_claim_refund_settled :: "ctx \<Rightarrow> account_id \<Rightarrow> u128 \<Rightarrow> tla_registry \<Rightarrow> reg_res" where
  "on_claim_refund_settled c caller amount r =
     rbind (assert_private_r c) (\<lambda>_.
     if is_promise_success c then Inr (r, [])
     else Inr (add_pending_refund caller amount r,
               [RegEmit (RefundPending caller amount ''transfer_failed'')]))"

definition pause_marketplace :: "ctx \<Rightarrow> tla_registry \<Rightarrow> reg_res" where
  "pause_marketplace c r =
     rbind (assert_not_payable c) (\<lambda>_.
     rbind (assert_admin c r) (\<lambda>_.
     Inr (r\<lparr>r_marketplace_paused := True\<rparr>, [RegEmit (MarketplacePaused (predecessor_account_id c))])))"

definition unpause_marketplace :: "ctx \<Rightarrow> tla_registry \<Rightarrow> reg_res" where
  "unpause_marketplace c r =
     rbind (assert_not_payable c) (\<lambda>_.
     rbind (assert_admin c r) (\<lambda>_.
     Inr (r\<lparr>r_marketplace_paused := False\<rparr>,
          [RegEmit (MarketplaceUnpaused (predecessor_account_id c))])))"

section \<open>Namespaces\<close>

definition check_registration ::
    "account_id \<Rightarrow> tla_registration \<Rightarrow> tla_registry \<Rightarrow> contract_error + unit" where
  "check_registration tla_id reg r =
     require (r_tlas r tla_id = None) TlaAlreadyRegistered (
     require (\<not> (tr_tla_type reg = Business \<and> tr_licensee reg = None)) BusinessTlaRequiresLicensee (
     Inr ()))"

definition write_registration :: "account_id \<Rightarrow> tla_registration \<Rightarrow> tla_registry \<Rightarrow> tla_registry" where
  "write_registration tla_id reg r =
     r\<lparr>r_tlas := (r_tlas r)(tla_id \<mapsto>
         \<lparr>te_tla_type = tr_tla_type reg, te_status = TlaRegisteredSt, te_licensee = tr_licensee reg,
          te_premium_category = tr_premium_category reg, te_activated_at = 0,
          te_expires_at = 0\<rparr>)\<rparr>"

definition check_open_activation :: "account_id \<Rightarrow> tla_registry \<Rightarrow> contract_error + unit" where
  "check_open_activation tla_id r =
     ok_or (r_tlas r tla_id) TlaNotFound (\<lambda>entry.
     require (te_status entry = TlaRegisteredSt) TlaNotInRegisteredState (
     require (te_tla_type entry = Open) WrongActivationEndpoint (Inr ())))"

definition write_open_activation :: "account_id \<Rightarrow> u64 \<Rightarrow> u64 \<Rightarrow> tla_registry \<Rightarrow> tla_registry" where
  "write_open_activation tla_id now expires_at r =
     (case r_tlas r tla_id of
        None \<Rightarrow> r
      | Some entry \<Rightarrow> r\<lparr>r_tlas := (r_tlas r)(tla_id \<mapsto> entry\<lparr>te_status := TlaActiveSt,
                        te_activated_at := now, te_expires_at := expires_at\<rparr>)\<rparr>)"

definition assert_batch_fits :: "account_id list \<Rightarrow> contract_error + unit" where
  "assert_batch_fits ids =
     require (ids \<noteq> []) EmptyBatch (
     require (length ids \<le> MAX_TLA_BATCH) BatchTooLarge (
     require (sum_list (map (\<lambda>i. length i + 3) ids) + LOG_ENVELOPE_BYTES \<le> LOG_BUDGET_BYTES)
       BatchTooLarge (Inr ())))"

definition assert_no_repeats :: "account_id list \<Rightarrow> contract_error + unit" where
  "assert_no_repeats ids =
     rbind (rfold (\<lambda>i seen. require (i \<notin> seen) DuplicateInBatch (Inr (insert i seen))) ids {})
       (\<lambda>_. Inr ())"

definition register_tla ::
    "ctx \<Rightarrow> account_id \<Rightarrow> tla_type \<Rightarrow> premium_category \<Rightarrow> account_id option \<Rightarrow> tla_registry \<Rightarrow> reg_res" where
  "register_tla c tla_id tla_type premium_category licensee r =
     (let reg = \<lparr>tr_tla_type = tla_type, tr_premium_category = premium_category,
                 tr_licensee = licensee\<rparr> in
     rbind (assert_one_yocto_r c) (\<lambda>_.
     rbind (assert_council c r) (\<lambda>_.
     rbind (check_registration tla_id reg r) (\<lambda>_.
     Inr (write_registration tla_id reg r,
          [RegEmit (TlaRegistered tla_id tla_type premium_category licensee)])))))"

definition register_tlas ::
    "ctx \<Rightarrow> account_id list \<Rightarrow> tla_type \<Rightarrow> premium_category \<Rightarrow> account_id option \<Rightarrow> tla_registry
     \<Rightarrow> reg_res" where
  "register_tlas c tla_ids tla_type premium_category licensee r =
     (let shared = \<lparr>tr_tla_type = tla_type, tr_premium_category = premium_category,
                    tr_licensee = licensee\<rparr> in
     rbind (assert_one_yocto_r c) (\<lambda>_.
     rbind (assert_council c r) (\<lambda>_.
     rbind (assert_batch_fits tla_ids) (\<lambda>_.
     rbind (assert_no_repeats tla_ids) (\<lambda>_.
     rbind (rfold (\<lambda>i _. check_registration i shared r) tla_ids ()) (\<lambda>_.
     Inr (fold (\<lambda>i. write_registration i shared) tla_ids r,
          [RegEmit (TlasRegistered tla_ids tla_type premium_category licensee)])))))))"

definition activate_open_tlas :: "ctx \<Rightarrow> account_id list \<Rightarrow> tla_registry \<Rightarrow> reg_res" where
  "activate_open_tlas c tla_ids r =
     (let now = block_timestamp c; expires_at = sat_add now ONE_YEAR_NS in
     rbind (assert_one_yocto_r c) (\<lambda>_.
     rbind (assert_admin c r) (\<lambda>_.
     rbind (assert_batch_fits tla_ids) (\<lambda>_.
     rbind (assert_no_repeats tla_ids) (\<lambda>_.
     rbind (rfold (\<lambda>i _. check_open_activation i r) tla_ids ()) (\<lambda>_.
     Inr (fold (\<lambda>i. write_open_activation i now expires_at) tla_ids r,
          [RegEmit (TlasActivated tla_ids expires_at)])))))))"

definition activate_one_open :: "ctx \<Rightarrow> account_id \<Rightarrow> tla_registry \<Rightarrow> reg_res" where
  "activate_one_open c tla_id r =
     rbind (check_open_activation tla_id r) (\<lambda>_.
     let now = block_timestamp c; expires_at = sat_add now ONE_YEAR_NS in
     Inr (write_open_activation tla_id now expires_at r,
          [RegEmit (TlaActivated tla_id expires_at 0)]))"

definition activate_open_tla :: "ctx \<Rightarrow> account_id \<Rightarrow> tla_registry \<Rightarrow> reg_res" where
  "activate_open_tla c tla_id r =
     rbind (assert_one_yocto_r c) (\<lambda>_.
     rbind (assert_admin c r) (\<lambda>_.
     activate_one_open c tla_id r))"

definition admin_set_tla_type ::
    "ctx \<Rightarrow> account_id \<Rightarrow> tla_type \<Rightarrow> account_id option \<Rightarrow> tla_registry \<Rightarrow> reg_res" where
  "admin_set_tla_type c tla_id tla_type licensee r =
     rbind (assert_one_yocto_r c) (\<lambda>_.
     rbind (assert_council c r) (\<lambda>_.
     require (\<not> (tla_type = Business \<and> licensee = None)) BusinessTlaRequiresLicensee (
     ok_or (r_tlas r tla_id) TlaNotFound (\<lambda>entry.
     Inr (r\<lparr>r_tlas := (r_tlas r)(tla_id \<mapsto>
              entry\<lparr>te_tla_type := tla_type, te_licensee := licensee\<rparr>)\<rparr>,
          [RegEmit (TlaTypeChanged tla_id tla_type licensee (predecessor_account_id c))])))))"

definition suspend_tla :: "ctx \<Rightarrow> account_id \<Rightarrow> tla_registry \<Rightarrow> reg_res" where
  "suspend_tla c tla_id r =
     rbind (assert_one_yocto_r c) (\<lambda>_.
     rbind (assert_admin c r) (\<lambda>_.
     ok_or (r_tlas r tla_id) TlaNotFound (\<lambda>entry.
     require (te_status entry \<noteq> TlaRegisteredSt) TlaNotActive (
     Inr (r\<lparr>r_tlas := (r_tlas r)(tla_id \<mapsto> entry\<lparr>te_status := TlaSuspendedSt\<rparr>),
            r_suspended_until := (r_suspended_until r)(tla_id \<mapsto>
              sat_add (block_timestamp c) MAX_AUTHORITY_HOLD_NS)\<rparr>,
          [RegEmit (TlaSuspended tla_id (predecessor_account_id c))])))))"

definition unsuspend_tla :: "ctx \<Rightarrow> account_id \<Rightarrow> tla_registry \<Rightarrow> reg_res" where
  "unsuspend_tla c tla_id r =
     rbind (assert_one_yocto_r c) (\<lambda>_.
     rbind (assert_admin c r) (\<lambda>_.
     ok_or (r_tlas r tla_id) TlaNotFound (\<lambda>entry.
     require (te_status entry = TlaSuspendedSt) TlaNotSuspended (
     require (\<not> (te_tla_type entry = Business \<and> te_licensee entry = None))
       BusinessTlaMissingLicensee (
     Inr (r\<lparr>r_tlas := (r_tlas r)(tla_id \<mapsto> entry\<lparr>te_status := TlaActiveSt\<rparr>),
            r_suspended_until := (r_suspended_until r)(tla_id := None)\<rparr>,
          [RegEmit (TlaUnsuspended tla_id (predecessor_account_id c))]))))))"

section \<open>Authority sets\<close>

text \<open>Adding to a bounded set and removing from it: full is refused before membership is
  looked at, and a call that changes nothing emits nothing.\<close>

definition set_add ::
    "nat \<Rightarrow> contract_error \<Rightarrow> account_id \<Rightarrow> account_id set \<Rightarrow> contract_error + (account_id set \<times> bool)" where
  "set_add bound full a S =
     require (card S < bound) full (Inr (insert a S, a \<notin> S))"

definition add_admin :: "ctx \<Rightarrow> account_id \<Rightarrow> tla_registry \<Rightarrow> reg_res" where
  "add_admin c account r =
     rbind (assert_one_yocto_r c) (\<lambda>_.
     rbind (assert_council c r) (\<lambda>_.
     rbind (set_add MAX_AUTHORITY_SET AuthoritySetFull account (r_admins r)) (\<lambda>(S, fresh).
     Inr (r\<lparr>r_admins := S\<rparr>,
          if fresh then [RegEmit (AdminAdded account (predecessor_account_id c))] else []))))"

definition remove_admin :: "ctx \<Rightarrow> account_id \<Rightarrow> tla_registry \<Rightarrow> reg_res" where
  "remove_admin c account r =
     rbind (assert_one_yocto_r c) (\<lambda>_.
     rbind (assert_council c r) (\<lambda>_.
     require (1 < card (r_admins r)) CannotRemoveLastAdmin (
     Inr (r\<lparr>r_admins := r_admins r - {account}\<rparr>,
          if account \<in> r_admins r
          then [RegEmit (AdminRemoved account (predecessor_account_id c))] else []))))"

definition add_payment_authority :: "ctx \<Rightarrow> account_id \<Rightarrow> tla_registry \<Rightarrow> reg_res" where
  "add_payment_authority c account r =
     rbind (assert_one_yocto_r c) (\<lambda>_.
     rbind (assert_council c r) (\<lambda>_.
     rbind (set_add MAX_AUTHORITY_SET AuthoritySetFull account (r_payment_authorities r))
       (\<lambda>(S, fresh).
     Inr (r\<lparr>r_payment_authorities := S\<rparr>,
          if fresh then [RegEmit (PaymentAuthorityAdded account (predecessor_account_id c))]
          else []))))"

definition bind_payment_authority_tla ::
    "ctx \<Rightarrow> account_id \<Rightarrow> account_id \<Rightarrow> u64 \<Rightarrow> tla_registry \<Rightarrow> reg_res" where
  "bind_payment_authority_tla c account tla_id max_mints r =
     rbind (assert_one_yocto_r c) (\<lambda>_.
     rbind (assert_council c r) (\<lambda>_.
     require (account \<in> r_payment_authorities r) OnlyPaymentAuthority (
     require (r_tlas r tla_id \<noteq> None) TlaNotFound (
     require (max_mints \<noteq> 0) AuthorityMintAllowanceZero (
     Inr (r\<lparr>r_authority_allowance := (r_authority_allowance r)((account, tla_id) \<mapsto> max_mints)\<rparr>,
          [RegEmit (PaymentAuthorityBound account tla_id max_mints (predecessor_account_id c))]))))))"

definition unbind_payment_authority_tla ::
    "ctx \<Rightarrow> account_id \<Rightarrow> account_id \<Rightarrow> tla_registry \<Rightarrow> reg_res" where
  "unbind_payment_authority_tla c account tla_id r =
     rbind (assert_one_yocto_r c) (\<lambda>_.
     rbind (assert_council c r) (\<lambda>_.
     Inr (r\<lparr>r_authority_allowance := (r_authority_allowance r)((account, tla_id) := None),
            r_authority_used := (r_authority_used r)((account, tla_id) := None)\<rparr>,
          [RegEmit (PaymentAuthorityUnbound account tla_id (predecessor_account_id c))])))"

definition remove_payment_authority :: "ctx \<Rightarrow> account_id \<Rightarrow> tla_registry \<Rightarrow> reg_res" where
  "remove_payment_authority c account r =
     rbind (assert_one_yocto_r c) (\<lambda>_.
     rbind (assert_council c r) (\<lambda>_.
     Inr (r\<lparr>r_payment_authorities := r_payment_authorities r - {account}\<rparr>,
          if account \<in> r_payment_authorities r
          then [RegEmit (PaymentAuthorityRemoved account (predecessor_account_id c))] else [])))"

definition add_venue :: "ctx \<Rightarrow> account_id \<Rightarrow> tla_registry \<Rightarrow> reg_res" where
  "add_venue c account r =
     rbind (assert_one_yocto_r c) (\<lambda>_.
     rbind (assert_council c r) (\<lambda>_.
     require (account \<noteq> current_account_id c) VenueIsRegistry (
     rbind (set_add MAX_VENUES AllowlistFull account (r_venues r)) (\<lambda>(S, fresh).
     Inr (r\<lparr>r_venues := S\<rparr>,
          if fresh then [RegEmit (VenueAdded account (predecessor_account_id c))] else [])))))"

definition remove_venue :: "ctx \<Rightarrow> account_id \<Rightarrow> tla_registry \<Rightarrow> reg_res" where
  "remove_venue c account r =
     rbind (assert_one_yocto_r c) (\<lambda>_.
     rbind (assert_council c r) (\<lambda>_.
     Inr (r\<lparr>r_venues := r_venues r - {account}\<rparr>,
          if account \<in> r_venues r
          then [RegEmit (VenueRemoved account (predecessor_account_id c))] else [])))"

definition add_recovery_authority :: "ctx \<Rightarrow> account_id \<Rightarrow> tla_registry \<Rightarrow> reg_res" where
  "add_recovery_authority c account r =
     rbind (assert_one_yocto_r c) (\<lambda>_.
     rbind (assert_council c r) (\<lambda>_.
     rbind (set_add MAX_AUTHORITY_SET AuthoritySetFull account (r_recovery_authorities r))
       (\<lambda>(S, fresh).
     Inr (r\<lparr>r_recovery_authorities := S\<rparr>,
          if fresh then [RegEmit (RecoveryAuthorityAdded account (predecessor_account_id c))]
          else []))))"

definition remove_recovery_authority :: "ctx \<Rightarrow> account_id \<Rightarrow> tla_registry \<Rightarrow> reg_res" where
  "remove_recovery_authority c account r =
     rbind (assert_one_yocto_r c) (\<lambda>_.
     rbind (assert_council c r) (\<lambda>_.
     Inr (r\<lparr>r_recovery_authorities := r_recovery_authorities r - {account}\<rparr>,
          if account \<in> r_recovery_authorities r
          then [RegEmit (RecoveryAuthorityRemoved account (predecessor_account_id c))] else [])))"

section \<open>Fees, revenue, tokens, terms\<close>

definition update_fee_config :: "ctx \<Rightarrow> fee_config \<Rightarrow> tla_registry \<Rightarrow> reg_res" where
  "update_fee_config c config r =
     (let min_rate = fc_min_near_usd_rate_micro config;
          max_rate = fc_max_near_usd_rate_micro config;
          rate = r_near_usd_rate_micro r in
     rbind (assert_one_yocto_r c) (\<lambda>_.
     rbind (assert_council c r) (\<lambda>_.
     require (\<not> (fc_rent_tier_5_usd_micro config = 0 \<and> fc_rent_tier_8_usd_micro config = 0
                 \<and> fc_rent_tier_10_usd_micro config = 0
                 \<and> fc_rent_tier_12plus_usd_micro config = 0)) AllRentTiersZero (
     require (fc_account_creation_deposit_yocto config \<noteq> 0) CreationDepositZero (
     require (\<not> (fc_rent_tier_5_usd_micro config < fc_rent_tier_8_usd_micro config
                 \<or> fc_rent_tier_8_usd_micro config < fc_rent_tier_10_usd_micro config
                 \<or> fc_rent_tier_10_usd_micro config < fc_rent_tier_12plus_usd_micro config))
       RentTiersNotDescending (
     require (\<not> (10000 < fc_max_rate_move_bps config \<or> 10000 < fc_quote_slippage_bps config))
       InvalidRateBounds (
     require (\<not> (min_rate = 0 \<or> max_rate < min_rate \<or> MAX_NEAR_USD_RATE_MICRO < max_rate))
       InvalidRateBounds (
     require (\<not> (rate \<noteq> 0 \<and> (rate < min_rate \<or> max_rate < rate))) RateOutOfBounds (
     require (\<not> (fc_rate_update_cooldown_ns config = 0
                 \<or> fc_max_rate_age_ns config < fc_rate_update_cooldown_ns config))
       InvalidRateBounds (
     require (fc_business_max_subs config \<noteq> 0) InvalidBusinessCap (
     require (MIN_RETRACTION_NOTICE_NS \<le> fc_retraction_notice_ns config) RetractionNoticeTooShort (
     require (list_all (\<lambda>fee. fee \<le> MAX_USD_MICRO)
                [fc_tla_allocation_fee_usd_micro config, fc_rent_tier_5_usd_micro config,
                 fc_rent_tier_8_usd_micro config, fc_rent_tier_10_usd_micro config,
                 fc_rent_tier_12plus_usd_micro config, fc_sub_fee_per_account_usd_micro config])
       FeeExceedsCap (
     Inr (r\<lparr>r_fee_config := config\<rparr>,
          [RegEmit (FeeConfigUpdated (predecessor_account_id c))]))))))))))))))"

definition withdraw :: "ctx \<Rightarrow> u128 \<Rightarrow> tla_registry \<Rightarrow> reg_res" where
  "withdraw c amount r =
     rbind (assert_one_yocto_r c) (\<lambda>_.
     rbind (assert_treasury_or_council c r) (\<lambda>_.
     require (amount \<noteq> 0) WithdrawalAmountZero (
     require (amount \<le> r_total_revenue r) InsufficientRevenue (
     require (sat_add (r_total_pending_refunds r) amount \<le> available_balance c)
       InsufficientContractBalance (
     Inr (add_pending_refund (r_treasury r) amount
            (r\<lparr>r_total_revenue := sat_sub (r_total_revenue r) amount\<rparr>),
          [RegEmit (WithdrawalQueued amount (r_treasury r))]))))))"

definition add_ft_allowlist :: "ctx \<Rightarrow> account_id \<Rightarrow> tla_registry \<Rightarrow> reg_res" where
  "add_ft_allowlist c token r =
     rbind (assert_one_yocto_r c) (\<lambda>_.
     rbind (assert_council c r) (\<lambda>_.
     if token \<in> r_ft_allowlist r then Inr (r, [])
     else
       require (card (r_ft_allowlist r) < MAX_ALLOWLIST_SIZE) AllowlistFull (
       require (token \<in> r_sweepable_tokens r \<or> card (r_sweepable_tokens r) < MAX_SWEEPABLE_SIZE)
         AllowlistFull (
       Inr (r\<lparr>r_ft_allowlist := insert token (r_ft_allowlist r),
              r_sweepable_tokens := insert token (r_sweepable_tokens r)\<rparr>,
            [RegEmit (FtAllowlistAdded token (predecessor_account_id c))])))))"

definition remove_ft_allowlist :: "ctx \<Rightarrow> account_id \<Rightarrow> tla_registry \<Rightarrow> reg_res" where
  "remove_ft_allowlist c token r =
     rbind (assert_one_yocto_r c) (\<lambda>_.
     rbind (assert_admin c r) (\<lambda>_.
     Inr (r\<lparr>r_ft_allowlist := r_ft_allowlist r - {token}\<rparr>,
          if token \<in> r_ft_allowlist r
          then [RegEmit (FtAllowlistRemoved token (predecessor_account_id c))] else [])))"

definition set_lease_term_ns :: "ctx \<Rightarrow> u64 \<Rightarrow> tla_registry \<Rightarrow> reg_res" where
  "set_lease_term_ns c lease_term r =
     rbind (assert_one_yocto_r c) (\<lambda>_.
     rbind (assert_council c r) (\<lambda>_.
     require (MIN_LEASE_TERM_NS \<le> lease_term) LeaseTermTooShort (
     require (lease_term \<le> MAX_LEASE_TERM_NS) LeaseTermTooLong (
     Inr (r\<lparr>r_lease_term_ns := lease_term\<rparr>,
          [RegEmit (LeaseTermChanged lease_term (predecessor_account_id c))])))))"

definition remove_sweepable_token :: "ctx \<Rightarrow> account_id \<Rightarrow> tla_registry \<Rightarrow> reg_res" where
  "remove_sweepable_token c token r =
     rbind (assert_one_yocto_r c) (\<lambda>_.
     rbind (assert_council c r) (\<lambda>_.
     require (token \<notin> r_ft_allowlist r) TokenStillAllowlisted (
     Inr (r\<lparr>r_sweepable_tokens := r_sweepable_tokens r - {token}\<rparr>,
          if token \<in> r_sweepable_tokens r
          then [RegEmit (SweepableTokenRemoved token (predecessor_account_id c))] else []))))"

section \<open>Administrative repairs\<close>

definition admin_clear_reclaim_pending ::
    "registry_lib \<Rightarrow> ctx \<Rightarrow> account_id \<Rightarrow> string \<Rightarrow> tla_registry \<Rightarrow> reg_res" where
  "admin_clear_reclaim_pending lib c tla_id name r =
     (let key = sub_account_key tla_id name in
     rbind (assert_one_yocto_r c) (\<lambda>_.
     rbind (assert_admin c r) (\<lambda>_.
     require (key \<in> r_reclaim_pending r) ReclaimNotPending (
     rbind (resolve_reclaimable lib c tla_id key r) (\<lambda>_.
     Inr (r\<lparr>r_reclaim_pending := r_reclaim_pending r - {key}\<rparr>,
          [RegEmit (ReclaimPendingCleared key (predecessor_account_id c))]))))))"

definition admin_release_paid_order :: "ctx \<Rightarrow> string \<Rightarrow> tla_registry \<Rightarrow> reg_res" where
  "admin_release_paid_order c order_id r =
     rbind (assert_one_yocto_r c) (\<lambda>_.
     rbind (assert_admin c r) (\<lambda>_.
     ok_or (r_paid_order_ids r order_id) PaidOrderNotFound (\<lambda>st.
     case st of
       Settled \<Rightarrow> Inl PaidOrderAlreadySettled
     | InFlight o' \<Rightarrow>
         require (MANUAL_ORDER_RELEASE_AFTER_NS \<le> sat_sub (block_timestamp c) (oi_started_at o'))
           PaidOrderStillInFlight (
         Inr (release_authority_mint (oi_payer o') (oi_tla_id o')
                (r\<lparr>r_paid_order_ids := (r_paid_order_ids r)(order_id := None)\<rparr>),
              [RegEmit (PaidRentalOrderReleased order_id)])))))"

definition admin_release_park :: "ctx \<Rightarrow> account_id \<Rightarrow> string \<Rightarrow> tla_registry \<Rightarrow> reg_res" where
  "admin_release_park c tla_id name r =
     (let key = sub_account_key tla_id name in
     rbind (assert_one_yocto_r c) (\<lambda>_.
     rbind (assert_admin c r) (\<lambda>_.
     require (r_sub_accounts r key = None) SubAccountNameTaken (
     require (r_parked_names r key \<noteq> None) SubAccountNotParked (
     Inr (r\<lparr>r_parked_names := (r_parked_names r)(key := None)\<rparr>,
          [RegEmit (ParkReleased key (predecessor_account_id c))]))))))"

definition admin_force_park :: "ctx \<Rightarrow> account_id \<Rightarrow> string \<Rightarrow> tla_registry \<Rightarrow> reg_res" where
  "admin_force_park c tla_id name r =
     (let key = sub_account_key tla_id name in
     rbind (assert_one_yocto_r c) (\<lambda>_.
     rbind (assert_admin c r) (\<lambda>_.
     rbind (validate_name name) (\<lambda>_.
     require (r_tlas r tla_id \<noteq> None) TlaNotFound (
     require (r_sub_accounts r key = None) SubAccountNameTaken (
     require (r_parked_names r key = None) SubAccountNameTaken (
     Inr (r\<lparr>r_parked_names := (r_parked_names r)(key \<mapsto>
              \<lparr>pk_tla_id = tla_id, pk_parked_at = block_timestamp c\<rparr>)\<rparr>,
          [RegEmit (ParkForced key (predecessor_account_id c))]))))))))"

section \<open>Timelocked rotations and upgrades\<close>

definition approve_treasury_rotation :: "ctx \<Rightarrow> account_id \<Rightarrow> tla_registry \<Rightarrow> reg_res" where
  "approve_treasury_rotation c new_treasury r =
     rbind (assert_one_yocto_r c) (\<lambda>_.
     rbind (assert_council c r) (\<lambda>_.
     require (new_treasury \<noteq> r_treasury r) TreasuryUnchanged (
     require (new_treasury \<noteq> current_account_id c) TreasuryIsSelf (
     Inr (r\<lparr>r_pending_treasury := Some new_treasury,
            r_pending_treasury_at := Some (block_timestamp c)\<rparr>,
          [RegEmit (TreasuryRotationApproved new_treasury (predecessor_account_id c))])))))"

definition cancel_treasury_rotation :: "ctx \<Rightarrow> tla_registry \<Rightarrow> reg_res" where
  "cancel_treasury_rotation c r =
     rbind (assert_one_yocto_r c) (\<lambda>_.
     rbind (assert_council c r) (\<lambda>_.
     require (r_pending_treasury r \<noteq> None) NoTreasuryRotationPending (
     Inr (r\<lparr>r_pending_treasury := None, r_pending_treasury_at := None\<rparr>,
          [RegEmit (TreasuryRotationCancelled (predecessor_account_id c))]))))"

definition commit_treasury_rotation :: "ctx \<Rightarrow> tla_registry \<Rightarrow> reg_res" where
  "commit_treasury_rotation c r =
     rbind (assert_one_yocto_r c) (\<lambda>_.
     ok_or (r_pending_treasury r) NoTreasuryRotationPending (\<lambda>pending.
     require (predecessor_account_id c = pending) OnlyPendingTreasury (
     ok_or (r_pending_treasury_at r) NoTreasuryRotationPending (\<lambda>approved_at.
     require (sat_add approved_at (r_upgrade_delay_ns r) \<le> block_timestamp c)
       TreasuryRotationTooYoung (
     Inr (r\<lparr>r_treasury := pending, r_pending_treasury := None, r_pending_treasury_at := None\<rparr>,
          [RegEmit (TreasuryRotated (r_treasury r) pending
             (case r_pending_refunds r (r_treasury r) of None \<Rightarrow> 0 | Some a \<Rightarrow> a)
             (predecessor_account_id c))]))))))"

definition approve_council_rotation :: "ctx \<Rightarrow> account_id \<Rightarrow> tla_registry \<Rightarrow> reg_res" where
  "approve_council_rotation c new_council r =
     rbind (assert_one_yocto_r c) (\<lambda>_.
     rbind (assert_council c r) (\<lambda>_.
     require (new_council \<noteq> r_council r) CouncilUnchanged (
     require (new_council \<noteq> current_account_id c) CouncilIsSelf (
     Inr (r\<lparr>r_pending_council := Some new_council,
            r_pending_council_at := Some (block_timestamp c)\<rparr>,
          [RegEmit (CouncilRotationApproved new_council (predecessor_account_id c))])))))"

definition cancel_council_rotation :: "ctx \<Rightarrow> tla_registry \<Rightarrow> reg_res" where
  "cancel_council_rotation c r =
     rbind (assert_one_yocto_r c) (\<lambda>_.
     rbind (assert_council c r) (\<lambda>_.
     require (r_pending_council r \<noteq> None) NoCouncilRotationPending (
     Inr (r\<lparr>r_pending_council := None, r_pending_council_at := None\<rparr>,
          [RegEmit (CouncilRotationCancelled (predecessor_account_id c))]))))"

definition commit_council_rotation :: "ctx \<Rightarrow> tla_registry \<Rightarrow> reg_res" where
  "commit_council_rotation c r =
     rbind (assert_one_yocto_r c) (\<lambda>_.
     ok_or (r_pending_council r) NoCouncilRotationPending (\<lambda>pending.
     require (predecessor_account_id c = pending) OnlyPendingCouncil (
     ok_or (r_pending_council_at r) NoCouncilRotationPending (\<lambda>approved_at.
     require (sat_add approved_at (r_upgrade_delay_ns r) \<le> block_timestamp c)
       CouncilRotationTooYoung (
     Inr (r\<lparr>r_council := pending, r_pending_council := None, r_pending_council_at := None\<rparr>,
          [RegEmit (CouncilRotated pending (predecessor_account_id c))]))))))"

definition approve_upgrade :: "ctx \<Rightarrow> crypto_hash \<Rightarrow> tla_registry \<Rightarrow> reg_res" where
  "approve_upgrade c code_hash r =
     rbind (assert_one_yocto_r c) (\<lambda>_.
     rbind (assert_council c r) (\<lambda>_.
     Inr (r\<lparr>r_approved_code_hash := Some code_hash, r_approved_at := Some (block_timestamp c)\<rparr>,
          [RegEmit (RegUpgradeApproved code_hash (predecessor_account_id c))])))"

definition upgrade :: "registry_lib \<Rightarrow> ctx \<Rightarrow> bytes \<Rightarrow> tla_registry \<Rightarrow> reg_res" where
  "upgrade lib c code r =
     rbind (assert_one_yocto_r c) (\<lambda>_.
     rbind (assert_council c r) (\<lambda>_.
     require (code \<noteq> []) EmptyCode (
     ok_or (r_approved_code_hash r) NoApprovedHash (\<lambda>approved.
     require (rl_sha256 lib code = approved) HashMismatch (
     ok_or (r_approved_at r) NoApprovedHash (\<lambda>approved_at.
     require (sat_add approved_at (r_upgrade_delay_ns r) \<le> block_timestamp c) ApprovalTooYoung (
     Inr (r\<lparr>r_approved_code_hash := None, r_approved_at := None\<rparr>,
          [RegCall (DeployAndMigrate code) None]))))))))"

definition seal :: "ctx \<Rightarrow> string \<Rightarrow> tla_registry \<Rightarrow> reg_res" where
  "seal c public_key r =
     rbind (assert_one_yocto_r c) (\<lambda>_.
     rbind (assert_council c r) (\<lambda>_.
     require (r_upgrade_proven r) UpgradeNotProven (
     Inr (r, [RegCall (DeleteKey public_key)
                (Some (After_seal public_key (predecessor_account_id c)))]))))"

definition after_seal :: "ctx \<Rightarrow> string \<Rightarrow> account_id \<Rightarrow> tla_registry \<Rightarrow> reg_res" where
  "after_seal c public_key by r =
     rbind (assert_private_r c) (\<lambda>_.
     Inr (r, [RegEmit (if is_promise_success c then RegSealed public_key by
                       else RegSealFailed public_key by)]))"

end
