(* ===== verification/Registry_Views.thy ===== *)
theory Registry_Views
  imports Registry_Admin
begin

text \<open>
  Four views of the registry's state, and which operations leave them alone. The invariants
  of the registry are predicates on one view each: what council, admins and oracle decide
  (\<open>governance\<close>), the names and their indexes (\<open>names\<close>), the activity ring (\<open>activity_ring\<close>) and the
  refunds owed (\<open>ledger\<close>).
\<close>

section \<open>Views\<close>

definition governance where
  "governance r =
     (r_admins r, r_fee_config r, r_ft_allowlist r,
      r_sweepable_tokens r, r_payment_authorities r, r_recovery_authorities r,
      r_hos_extension r, r_grace_period_ns r, r_lease_term_ns r,
      r_price_oracle r, r_near_usd_rate_micro r, r_rate_updated_at r,
      r_treasury r, r_council r, r_venues r,
      r_approved_code_hash r, r_approved_at r, r_upgrade_delay_ns r,
      r_pending_council r, r_pending_council_at r, r_pending_treasury r,
      r_pending_treasury_at r, r_paused r, r_paused_until_ns r,
      r_unpaused_at r, r_marketplace_paused r, r_authority_allowance r)"

definition names where
  "names r =
     (r_sub_accounts r, r_sub_accounts_by_owner r, r_sub_accounts_by_tla r)"

definition activity_ring where
  "activity_ring r =
     (r_recent_activity r, r_activity_cursor r)"

definition ledger where
  "ledger r =
     (r_pending_refunds r, r_total_pending_refunds r)"

section \<open>What leaves a view alone\<close>

lemma governance_update [simp]:
  "governance (r_state_version_update g0 r) = governance r"
  "governance (r_tlas_update g1 r) = governance r"
  "governance (r_sub_accounts_update g2 r) = governance r"
  "governance (r_sub_accounts_by_owner_update g3 r) = governance r"
  "governance (r_sub_accounts_by_tla_update g4 r) = governance r"
  "governance (r_recent_activity_update g5 r) = governance r"
  "governance (r_activity_cursor_update g6 r) = governance r"
  "governance (r_total_revenue_update g7 r) = governance r"
  "governance (r_sub_account_count_update g8 r) = governance r"
  "governance (r_version_update g9 r) = governance r"
  "governance (r_pending_refunds_update g10 r) = governance r"
  "governance (r_total_pending_refunds_update g11 r) = governance r"
  "governance (r_business_sub_count_update g12 r) = governance r"
  "governance (r_business_sub_cap_override_update g13 r) = governance r"
  "governance (r_tla_terms_update g14 r) = governance r"
  "governance (r_parked_names_update g15 r) = governance r"
  "governance (r_reclaim_pending_update g16 r) = governance r"
  "governance (r_rate_sequence_update g17 r) = governance r"
  "governance (r_suspended_until_update g18 r) = governance r"
  "governance (r_nft_contract_metadata_update g19 r) = governance r"
  "governance (r_upgrade_proven_update g20 r) = governance r"
  "governance (r_paid_order_ids_update g21 r) = governance r"
  "governance (r_authority_used_update g22 r) = governance r"
  "governance (r_biz_resale_update g23 r) = governance r"
  "governance (r_biz_whitelist_update g24 r) = governance r"
  "governance (r_biz_claimed_update g25 r) = governance r"
  by (simp_all add: governance_def)

lemma names_update [simp]:
  "names (r_state_version_update g0 r) = names r"
  "names (r_tlas_update g1 r) = names r"
  "names (r_recent_activity_update g2 r) = names r"
  "names (r_activity_cursor_update g3 r) = names r"
  "names (r_admins_update g4 r) = names r"
  "names (r_fee_config_update g5 r) = names r"
  "names (r_total_revenue_update g6 r) = names r"
  "names (r_sub_account_count_update g7 r) = names r"
  "names (r_paused_update g8 r) = names r"
  "names (r_version_update g9 r) = names r"
  "names (r_pending_refunds_update g10 r) = names r"
  "names (r_total_pending_refunds_update g11 r) = names r"
  "names (r_ft_allowlist_update g12 r) = names r"
  "names (r_business_sub_count_update g13 r) = names r"
  "names (r_business_sub_cap_override_update g14 r) = names r"
  "names (r_tla_terms_update g15 r) = names r"
  "names (r_parked_names_update g16 r) = names r"
  "names (r_reclaim_pending_update g17 r) = names r"
  "names (r_payment_authorities_update g18 r) = names r"
  "names (r_recovery_authorities_update g19 r) = names r"
  "names (r_hos_extension_update g20 r) = names r"
  "names (r_grace_period_ns_update g21 r) = names r"
  "names (r_lease_term_ns_update g22 r) = names r"
  "names (r_price_oracle_update g23 r) = names r"
  "names (r_near_usd_rate_micro_update g24 r) = names r"
  "names (r_rate_updated_at_update g25 r) = names r"
  "names (r_rate_sequence_update g26 r) = names r"
  "names (r_treasury_update g27 r) = names r"
  "names (r_council_update g28 r) = names r"
  "names (r_marketplace_paused_update g29 r) = names r"
  "names (r_paused_until_ns_update g30 r) = names r"
  "names (r_unpaused_at_update g31 r) = names r"
  "names (r_sweepable_tokens_update g32 r) = names r"
  "names (r_suspended_until_update g33 r) = names r"
  "names (r_nft_contract_metadata_update g34 r) = names r"
  "names (r_approved_code_hash_update g35 r) = names r"
  "names (r_approved_at_update g36 r) = names r"
  "names (r_upgrade_delay_ns_update g37 r) = names r"
  "names (r_venues_update g38 r) = names r"
  "names (r_upgrade_proven_update g39 r) = names r"
  "names (r_paid_order_ids_update g40 r) = names r"
  "names (r_pending_council_update g41 r) = names r"
  "names (r_pending_council_at_update g42 r) = names r"
  "names (r_pending_treasury_update g43 r) = names r"
  "names (r_pending_treasury_at_update g44 r) = names r"
  "names (r_authority_allowance_update g45 r) = names r"
  "names (r_authority_used_update g46 r) = names r"
  "names (r_biz_resale_update g47 r) = names r"
  "names (r_biz_whitelist_update g48 r) = names r"
  "names (r_biz_claimed_update g49 r) = names r"
  by (simp_all add: names_def)

lemma activity_ring_update [simp]:
  "activity_ring (r_state_version_update g0 r) = activity_ring r"
  "activity_ring (r_tlas_update g1 r) = activity_ring r"
  "activity_ring (r_sub_accounts_update g2 r) = activity_ring r"
  "activity_ring (r_sub_accounts_by_owner_update g3 r) = activity_ring r"
  "activity_ring (r_sub_accounts_by_tla_update g4 r) = activity_ring r"
  "activity_ring (r_admins_update g5 r) = activity_ring r"
  "activity_ring (r_fee_config_update g6 r) = activity_ring r"
  "activity_ring (r_total_revenue_update g7 r) = activity_ring r"
  "activity_ring (r_sub_account_count_update g8 r) = activity_ring r"
  "activity_ring (r_paused_update g9 r) = activity_ring r"
  "activity_ring (r_version_update g10 r) = activity_ring r"
  "activity_ring (r_pending_refunds_update g11 r) = activity_ring r"
  "activity_ring (r_total_pending_refunds_update g12 r) = activity_ring r"
  "activity_ring (r_ft_allowlist_update g13 r) = activity_ring r"
  "activity_ring (r_business_sub_count_update g14 r) = activity_ring r"
  "activity_ring (r_business_sub_cap_override_update g15 r) = activity_ring r"
  "activity_ring (r_tla_terms_update g16 r) = activity_ring r"
  "activity_ring (r_parked_names_update g17 r) = activity_ring r"
  "activity_ring (r_reclaim_pending_update g18 r) = activity_ring r"
  "activity_ring (r_payment_authorities_update g19 r) = activity_ring r"
  "activity_ring (r_recovery_authorities_update g20 r) = activity_ring r"
  "activity_ring (r_hos_extension_update g21 r) = activity_ring r"
  "activity_ring (r_grace_period_ns_update g22 r) = activity_ring r"
  "activity_ring (r_lease_term_ns_update g23 r) = activity_ring r"
  "activity_ring (r_price_oracle_update g24 r) = activity_ring r"
  "activity_ring (r_near_usd_rate_micro_update g25 r) = activity_ring r"
  "activity_ring (r_rate_updated_at_update g26 r) = activity_ring r"
  "activity_ring (r_rate_sequence_update g27 r) = activity_ring r"
  "activity_ring (r_treasury_update g28 r) = activity_ring r"
  "activity_ring (r_council_update g29 r) = activity_ring r"
  "activity_ring (r_marketplace_paused_update g30 r) = activity_ring r"
  "activity_ring (r_paused_until_ns_update g31 r) = activity_ring r"
  "activity_ring (r_unpaused_at_update g32 r) = activity_ring r"
  "activity_ring (r_sweepable_tokens_update g33 r) = activity_ring r"
  "activity_ring (r_suspended_until_update g34 r) = activity_ring r"
  "activity_ring (r_nft_contract_metadata_update g35 r) = activity_ring r"
  "activity_ring (r_approved_code_hash_update g36 r) = activity_ring r"
  "activity_ring (r_approved_at_update g37 r) = activity_ring r"
  "activity_ring (r_upgrade_delay_ns_update g38 r) = activity_ring r"
  "activity_ring (r_venues_update g39 r) = activity_ring r"
  "activity_ring (r_upgrade_proven_update g40 r) = activity_ring r"
  "activity_ring (r_paid_order_ids_update g41 r) = activity_ring r"
  "activity_ring (r_pending_council_update g42 r) = activity_ring r"
  "activity_ring (r_pending_council_at_update g43 r) = activity_ring r"
  "activity_ring (r_pending_treasury_update g44 r) = activity_ring r"
  "activity_ring (r_pending_treasury_at_update g45 r) = activity_ring r"
  "activity_ring (r_authority_allowance_update g46 r) = activity_ring r"
  "activity_ring (r_authority_used_update g47 r) = activity_ring r"
  "activity_ring (r_biz_resale_update g48 r) = activity_ring r"
  "activity_ring (r_biz_whitelist_update g49 r) = activity_ring r"
  "activity_ring (r_biz_claimed_update g50 r) = activity_ring r"
  by (simp_all add: activity_ring_def)

lemma ledger_update [simp]:
  "ledger (r_state_version_update g0 r) = ledger r"
  "ledger (r_tlas_update g1 r) = ledger r"
  "ledger (r_sub_accounts_update g2 r) = ledger r"
  "ledger (r_sub_accounts_by_owner_update g3 r) = ledger r"
  "ledger (r_sub_accounts_by_tla_update g4 r) = ledger r"
  "ledger (r_recent_activity_update g5 r) = ledger r"
  "ledger (r_activity_cursor_update g6 r) = ledger r"
  "ledger (r_admins_update g7 r) = ledger r"
  "ledger (r_fee_config_update g8 r) = ledger r"
  "ledger (r_total_revenue_update g9 r) = ledger r"
  "ledger (r_sub_account_count_update g10 r) = ledger r"
  "ledger (r_paused_update g11 r) = ledger r"
  "ledger (r_version_update g12 r) = ledger r"
  "ledger (r_ft_allowlist_update g13 r) = ledger r"
  "ledger (r_business_sub_count_update g14 r) = ledger r"
  "ledger (r_business_sub_cap_override_update g15 r) = ledger r"
  "ledger (r_tla_terms_update g16 r) = ledger r"
  "ledger (r_parked_names_update g17 r) = ledger r"
  "ledger (r_reclaim_pending_update g18 r) = ledger r"
  "ledger (r_payment_authorities_update g19 r) = ledger r"
  "ledger (r_recovery_authorities_update g20 r) = ledger r"
  "ledger (r_hos_extension_update g21 r) = ledger r"
  "ledger (r_grace_period_ns_update g22 r) = ledger r"
  "ledger (r_lease_term_ns_update g23 r) = ledger r"
  "ledger (r_price_oracle_update g24 r) = ledger r"
  "ledger (r_near_usd_rate_micro_update g25 r) = ledger r"
  "ledger (r_rate_updated_at_update g26 r) = ledger r"
  "ledger (r_rate_sequence_update g27 r) = ledger r"
  "ledger (r_treasury_update g28 r) = ledger r"
  "ledger (r_council_update g29 r) = ledger r"
  "ledger (r_marketplace_paused_update g30 r) = ledger r"
  "ledger (r_paused_until_ns_update g31 r) = ledger r"
  "ledger (r_unpaused_at_update g32 r) = ledger r"
  "ledger (r_sweepable_tokens_update g33 r) = ledger r"
  "ledger (r_suspended_until_update g34 r) = ledger r"
  "ledger (r_nft_contract_metadata_update g35 r) = ledger r"
  "ledger (r_approved_code_hash_update g36 r) = ledger r"
  "ledger (r_approved_at_update g37 r) = ledger r"
  "ledger (r_upgrade_delay_ns_update g38 r) = ledger r"
  "ledger (r_venues_update g39 r) = ledger r"
  "ledger (r_upgrade_proven_update g40 r) = ledger r"
  "ledger (r_paid_order_ids_update g41 r) = ledger r"
  "ledger (r_pending_council_update g42 r) = ledger r"
  "ledger (r_pending_council_at_update g43 r) = ledger r"
  "ledger (r_pending_treasury_update g44 r) = ledger r"
  "ledger (r_pending_treasury_at_update g45 r) = ledger r"
  "ledger (r_authority_allowance_update g46 r) = ledger r"
  "ledger (r_authority_used_update g47 r) = ledger r"
  "ledger (r_biz_resale_update g48 r) = ledger r"
  "ledger (r_biz_whitelist_update g49 r) = ledger r"
  "ledger (r_biz_claimed_update g50 r) = ledger r"
  by (simp_all add: ledger_def)

lemmas helper_defs = add_pending_refund_def refund_excess_def forget_claim_def sub_account_insert_def
  sub_account_remove_def sub_account_reassign_def push_activity_def emit_activity_def
  business_count_decrement_def business_count_decrement_if_business_def release_authority_mint_def
  record_authority_mint_def open_lease_def release_order_def confirm_order_def
  settle_failed_mint_def settle_stranded_mint_def fail_mint_def reclaim_blocked_def Let_def

lemma governance_helpers [simp]:
  "governance (add_pending_refund a n r) = governance r"
  "governance (refund_excess a n m r) = governance r"
  "governance (forget_claim k r) = governance r"
  "governance (sub_account_insert k e r) = governance r"
  "governance (fst (sub_account_remove k r)) = governance r"
  "governance (fst (sub_account_reassign k o1 p r)) = governance r"
  "governance (push_activity c e1 a r) = governance r"
  "governance (fst (emit_activity c ev r)) = governance r"
  "governance (business_count_decrement t r) = governance r"
  "governance (business_count_decrement_if_business t r) = governance r"
  "governance (release_authority_mint a t r) = governance r"
  "governance (fst (record_authority_mint a t r)) = governance r"
  "governance (fst (open_lease c k t o1 p r)) = governance r"
  "governance (fst (release_order oi k p t r)) = governance r"
  "governance (fst (confirm_order oi k p r)) = governance r"
  "governance (fst (settle_failed_mint k t p n rs r)) = governance r"
  "governance (fst (settle_stranded_mint c k t p n rs r)) = governance r"
  "governance (fst (fail_mint c b s rs r)) = governance r"
  "governance (fst (reclaim_blocked k tk rs r)) = governance r"
  by (simp_all add: helper_defs split: option.split prod.split)

lemma names_helpers [simp]:
  "names (add_pending_refund a n r) = names r"
  "names (refund_excess a n m r) = names r"
  "names (forget_claim k r) = names r"
  "names (push_activity c e1 a r) = names r"
  "names (fst (emit_activity c ev r)) = names r"
  "names (business_count_decrement t r) = names r"
  "names (business_count_decrement_if_business t r) = names r"
  "names (release_authority_mint a t r) = names r"
  "names (fst (record_authority_mint a t r)) = names r"
  "names (fst (release_order oi k p t r)) = names r"
  "names (fst (confirm_order oi k p r)) = names r"
  "names (fst (reclaim_blocked k tk rs r)) = names r"
  by (simp_all add: helper_defs split: option.split prod.split)

lemma activity_ring_helpers [simp]:
  "activity_ring (add_pending_refund a n r) = activity_ring r"
  "activity_ring (refund_excess a n m r) = activity_ring r"
  "activity_ring (forget_claim k r) = activity_ring r"
  "activity_ring (sub_account_insert k e r) = activity_ring r"
  "activity_ring (fst (sub_account_remove k r)) = activity_ring r"
  "activity_ring (fst (sub_account_reassign k o1 p r)) = activity_ring r"
  "activity_ring (business_count_decrement t r) = activity_ring r"
  "activity_ring (business_count_decrement_if_business t r) = activity_ring r"
  "activity_ring (release_authority_mint a t r) = activity_ring r"
  "activity_ring (fst (record_authority_mint a t r)) = activity_ring r"
  "activity_ring (fst (open_lease c k t o1 p r)) = activity_ring r"
  "activity_ring (fst (release_order oi k p t r)) = activity_ring r"
  "activity_ring (fst (confirm_order oi k p r)) = activity_ring r"
  "activity_ring (fst (settle_failed_mint k t p n rs r)) = activity_ring r"
  "activity_ring (fst (settle_stranded_mint c k t p n rs r)) = activity_ring r"
  "activity_ring (fst (fail_mint c b s rs r)) = activity_ring r"
  "activity_ring (fst (reclaim_blocked k tk rs r)) = activity_ring r"
  by (simp_all add: helper_defs split: option.split prod.split)

lemma ledger_helpers [simp]:
  "ledger (forget_claim k r) = ledger r"
  "ledger (sub_account_insert k e r) = ledger r"
  "ledger (fst (sub_account_remove k r)) = ledger r"
  "ledger (fst (sub_account_reassign k o1 p r)) = ledger r"
  "ledger (push_activity c e1 a r) = ledger r"
  "ledger (fst (emit_activity c ev r)) = ledger r"
  "ledger (business_count_decrement t r) = ledger r"
  "ledger (business_count_decrement_if_business t r) = ledger r"
  "ledger (release_authority_mint a t r) = ledger r"
  "ledger (fst (record_authority_mint a t r)) = ledger r"
  "ledger (fst (open_lease c k t o1 p r)) = ledger r"
  "ledger (fst (release_order oi k p t r)) = ledger r"
  "ledger (fst (confirm_order oi k p r)) = ledger r"
  "ledger (fst (reclaim_blocked k tk rs r)) = ledger r"
  by (simp_all add: helper_defs split: option.split prod.split)

end
