(* ===== verification/Registry_Machine.thy ===== *)
theory Registry_Machine
  imports Registry_Views
begin

text \<open>
  The registry as a machine: every call it accepts, public methods and callbacks, grouped as
  the source groups them, and the step relation they generate. A callback may run with any
  result the runtime can deliver and, since the contract is the only one allowed to schedule
  it, with any arguments: the invariants do not depend on the chain that led to it.
\<close>

section \<open>Calls\<close>

datatype (plugins only:) rental_call =
    RcActivateTla account_id
  | RcRenewTla account_id
  | RcRent account_id string "account_id option"
  | RcRentPaid account_id string account_id account_id string
  | RcSetPayout account_id string account_id
  | RcRenew account_id string
  | RcOnPayoutSet account_id string account_id account_id
  | RcOnLeaseSynced string string
  | RcOnRenewed account_id string u64 account_id u128
  | RcOnReRentBalances pending_re_rent "account_id list"
  | RcOnCreated mint_settlement "promise_error + mint_outcome"
  | RcOnCreatedPaid mint_settlement "promise_error + mint_outcome"
  | RcOnReRented mint_settlement "promise_error + bool"

primrec rental_exec :: "registry_lib \<Rightarrow> ctx \<Rightarrow> rental_call \<Rightarrow> tla_registry \<Rightarrow> reg_res" where
  "rental_exec lib c (RcActivateTla t) r = activate_tla c t r"
| "rental_exec lib c (RcRenewTla t) r = renew_tla c t r"
| "rental_exec lib c (RcRent t n oo) r = rent_sub_account lib c t n oo r"
| "rental_exec lib c (RcRentPaid t n o' p oid) r = rent_sub_account_paid lib c t n o' p oid r"
| "rental_exec lib c (RcSetPayout t n p) r = set_payout_account lib c t n p r"
| "rental_exec lib c (RcRenew t n) r = renew_sub_account lib c t n r"
| "rental_exec lib c (RcOnPayoutSet t n p e) r = on_payout_set c t n p e r"
| "rental_exec lib c (RcOnLeaseSynced s i) r = on_lease_synced c s i r"
| "rental_exec lib c (RcOnRenewed t n x p a) r = on_sub_account_renewed c t n x p a r"
| "rental_exec lib c (RcOnReRentBalances p al) r = on_re_rent_balances_checked lib c p al r"
| "rental_exec lib c (RcOnCreated s oc) r = on_sub_account_created c s oc r"
| "rental_exec lib c (RcOnCreatedPaid s oc) r = on_sub_account_created_paid c s oc r"
| "rental_exec lib c (RcOnReRented s sw) r = on_sub_account_re_rented c s sw r"

datatype (plugins only:) business_call =
    BcScheduleRetraction account_id string
  | BcCancelRetraction account_id string
  | BcOnRetractionScheduled string account_id
  | BcOnRetractionCanceled string account_id
  | BcSetTerms account_id tla_terms
  | BcSetCap account_id "u32 option"
  | BcEnableResale account_id
  | BcWhitelistAdd account_id "account_id list"
  | BcWhitelistRemove account_id "account_id list"
  | BcClaim account_id string
  | BcOnClaimed mint_settlement "promise_error + mint_outcome"
  | BcSweepNear account_id string
  | BcSweepFt account_id string account_id
  | BcReclaimFinalize account_id string
  | BcOnBalances account_id string account_id "account_id list"
  | BcOnReclaimFinalized account_id string account_id "promise_error + bool"

primrec business_exec :: "registry_lib \<Rightarrow> ctx \<Rightarrow> business_call \<Rightarrow> tla_registry \<Rightarrow> reg_res" where
  "business_exec lib c (BcScheduleRetraction t n) r = schedule_retraction lib c t n r"
| "business_exec lib c (BcCancelRetraction t n) r = cancel_retraction lib c t n r"
| "business_exec lib c (BcOnRetractionScheduled k b) r = on_retraction_scheduled c k b r"
| "business_exec lib c (BcOnRetractionCanceled k b) r = on_retraction_canceled c k b r"
| "business_exec lib c (BcSetTerms t tt) r = set_tla_terms c t tt r"
| "business_exec lib c (BcSetCap t cap) r = set_business_sub_cap c t cap r"
| "business_exec lib c (BcEnableResale t) r = enable_business_resale c t r"
| "business_exec lib c (BcWhitelistAdd t as) r = admin_whitelist_add c t as r"
| "business_exec lib c (BcWhitelistRemove t as) r = admin_whitelist_remove c t as r"
| "business_exec lib c (BcClaim t n) r = claim_business_name c t n r"
| "business_exec lib c (BcOnClaimed s oc) r = on_business_name_claimed c s oc r"
| "business_exec lib c (BcSweepNear t n) r = reclaim_sweep_near lib c t n r"
| "business_exec lib c (BcSweepFt t n f) r = reclaim_sweep_ft lib c t n f r"
| "business_exec lib c (BcReclaimFinalize t n) r = reclaim_finalize lib c t n r"
| "business_exec lib c (BcOnBalances t n d al) r = on_balances_checked lib c t n d al r"
| "business_exec lib c (BcOnReclaimFinalized t n d pk) r = on_reclaim_finalized c t n d pk r"

datatype (plugins only:) market_call =
    McTransfer account_id string account_id
  | McOnTransferBalances account_id account_id string account_id account_id rotation_cause
      "account_id list"
  | McOnTransferred account_id string account_id account_id rotation_cause "promise_error + bool"
  | McRecover account_id string account_id account_id
  | McOnRecovered account_id string account_id account_id "promise_error + bool"
  | McNftTransfer account_id string "u64 option" "string option"
  | McNftOnTransferBalances account_id nft_rotation "account_id list"
  | McNftTransferCall account_id string "u64 option" "string option" string
  | McNftOnDepositBalances account_id nft_transfer_call_args "account_id list"
  | McNftOnRotation nft_rotation "promise_error + bool"
  | McNftOnRotationCall nft_transfer_call_args "promise_error + bool"
  | McNftResolve account_id string account_id account_id "promise_error + bool"
  | McNftOnReturn account_id string account_id account_id "promise_error + bool"
  | McSetMetadata string string "string option" "string option" "string option"

primrec market_exec :: "registry_lib \<Rightarrow> ctx \<Rightarrow> market_call \<Rightarrow> tla_registry \<Rightarrow> reg_res" where
  "market_exec lib c (McTransfer t n o') r = transfer_sub_account lib c t n o' r"
| "market_exec lib c (McOnTransferBalances s t n f o' ca al) r =
     on_transfer_balances_checked lib c s t n f o' ca al r"
| "market_exec lib c (McOnTransferred t n f o' ca sw) r = on_sub_account_transferred c t n f o' ca sw r"
| "market_exec lib c (McRecover t n o' e) r = recover_sub_account lib c t n o' e r"
| "market_exec lib c (McOnRecovered t n f o' sw) r = on_sub_account_recovered c t n f o' sw r"
| "market_exec lib c (McNftTransfer rc tk ap me) r = nft_transfer lib c rc tk ap me r"
| "market_exec lib c (McNftOnTransferBalances s ro al) r =
     nft_on_transfer_balances_checked lib c s ro al r"
| "market_exec lib c (McNftTransferCall rc tk ap me ms) r = nft_transfer_call lib c rc tk ap me ms r"
| "market_exec lib c (McNftOnDepositBalances s ca al) r =
     nft_on_deposit_balances_checked lib c s ca al r"
| "market_exec lib c (McNftOnRotation ro sw) r = nft_on_rotation_resolved c ro sw r"
| "market_exec lib c (McNftOnRotationCall ca sw) r = nft_on_rotation_resolved_call c ca sw r"
| "market_exec lib c (McNftResolve t n f o' b) r = nft_resolve_transfer lib c t n f o' b r"
| "market_exec lib c (McNftOnReturn t n f o' sw) r = nft_on_return_resolved c t n f o' sw r"
| "market_exec lib c (McSetMetadata n s i b e) r = admin_set_nft_metadata c n s i b e r"

datatype (plugins only:) admin_call =
    AcInitialRate u128 | AcSetRate u128 | AcSetOracle account_id | AcPause | AcUnpause
  | AcClaimRefund | AcOnClaimSettled account_id u128 | AcPauseMarket | AcUnpauseMarket
  | AcRegisterTla account_id tla_type premium_category "account_id option"
  | AcRegisterTlas "account_id list" tla_type premium_category "account_id option"
  | AcActivateOpenTlas "account_id list" | AcActivateOpenTla account_id
  | AcSetTlaType account_id tla_type "account_id option"
  | AcSuspendTla account_id | AcUnsuspendTla account_id
  | AcAddAdmin account_id | AcRemoveAdmin account_id
  | AcAddPayment account_id | AcBindPayment account_id account_id u64
  | AcUnbindPayment account_id account_id | AcRemovePayment account_id
  | AcAddVenue account_id | AcRemoveVenue account_id
  | AcAddRecovery account_id | AcRemoveRecovery account_id
  | AcUpdateFees fee_config | AcWithdraw u128
  | AcAddFt account_id | AcRemoveFt account_id | AcSetLeaseTerm u64 | AcRemoveSweepable account_id
  | AcClearReclaim account_id string | AcReleaseOrder string
  | AcReleasePark account_id string | AcForcePark account_id string
  | AcApproveTreasury account_id | AcCancelTreasury | AcCommitTreasury
  | AcApproveCouncil account_id | AcCancelCouncil | AcCommitCouncil
  | AcApproveUpgrade crypto_hash | AcUpgrade bytes | AcSeal string | AcAfterSeal string account_id

primrec admin_exec :: "registry_lib \<Rightarrow> ctx \<Rightarrow> admin_call \<Rightarrow> tla_registry \<Rightarrow> reg_res" where
  "admin_exec lib c (AcInitialRate x) r = admin_set_initial_rate c x r"
| "admin_exec lib c (AcSetRate x) r = set_near_usd_rate c x r"
| "admin_exec lib c (AcSetOracle a) r = set_price_oracle c a r"
| "admin_exec lib c AcPause r = pause c r"
| "admin_exec lib c AcUnpause r = unpause c r"
| "admin_exec lib c AcClaimRefund r = claim_refund c r"
| "admin_exec lib c (AcOnClaimSettled a n) r = on_claim_refund_settled c a n r"
| "admin_exec lib c AcPauseMarket r = pause_marketplace c r"
| "admin_exec lib c AcUnpauseMarket r = unpause_marketplace c r"
| "admin_exec lib c (AcRegisterTla t ty pc li) r = register_tla c t ty pc li r"
| "admin_exec lib c (AcRegisterTlas ts ty pc li) r = register_tlas c ts ty pc li r"
| "admin_exec lib c (AcActivateOpenTlas ts) r = activate_open_tlas c ts r"
| "admin_exec lib c (AcActivateOpenTla t) r = activate_open_tla c t r"
| "admin_exec lib c (AcSetTlaType t ty li) r = admin_set_tla_type c t ty li r"
| "admin_exec lib c (AcSuspendTla t) r = suspend_tla c t r"
| "admin_exec lib c (AcUnsuspendTla t) r = unsuspend_tla c t r"
| "admin_exec lib c (AcAddAdmin a) r = add_admin c a r"
| "admin_exec lib c (AcRemoveAdmin a) r = remove_admin c a r"
| "admin_exec lib c (AcAddPayment a) r = add_payment_authority c a r"
| "admin_exec lib c (AcBindPayment a t m) r = bind_payment_authority_tla c a t m r"
| "admin_exec lib c (AcUnbindPayment a t) r = unbind_payment_authority_tla c a t r"
| "admin_exec lib c (AcRemovePayment a) r = remove_payment_authority c a r"
| "admin_exec lib c (AcAddVenue a) r = add_venue c a r"
| "admin_exec lib c (AcRemoveVenue a) r = remove_venue c a r"
| "admin_exec lib c (AcAddRecovery a) r = add_recovery_authority c a r"
| "admin_exec lib c (AcRemoveRecovery a) r = remove_recovery_authority c a r"
| "admin_exec lib c (AcUpdateFees cfg) r = update_fee_config c cfg r"
| "admin_exec lib c (AcWithdraw n) r = withdraw c n r"
| "admin_exec lib c (AcAddFt a) r = add_ft_allowlist c a r"
| "admin_exec lib c (AcRemoveFt a) r = remove_ft_allowlist c a r"
| "admin_exec lib c (AcSetLeaseTerm n) r = set_lease_term_ns c n r"
| "admin_exec lib c (AcRemoveSweepable a) r = remove_sweepable_token c a r"
| "admin_exec lib c (AcClearReclaim t n) r = admin_clear_reclaim_pending lib c t n r"
| "admin_exec lib c (AcReleaseOrder oid) r = admin_release_paid_order c oid r"
| "admin_exec lib c (AcReleasePark t n) r = admin_release_park c t n r"
| "admin_exec lib c (AcForcePark t n) r = admin_force_park c t n r"
| "admin_exec lib c (AcApproveTreasury a) r = approve_treasury_rotation c a r"
| "admin_exec lib c AcCancelTreasury r = cancel_treasury_rotation c r"
| "admin_exec lib c AcCommitTreasury r = commit_treasury_rotation c r"
| "admin_exec lib c (AcApproveCouncil a) r = approve_council_rotation c a r"
| "admin_exec lib c AcCancelCouncil r = cancel_council_rotation c r"
| "admin_exec lib c AcCommitCouncil r = commit_council_rotation c r"
| "admin_exec lib c (AcApproveUpgrade h) r = approve_upgrade c h r"
| "admin_exec lib c (AcUpgrade code) r = upgrade lib c code r"
| "admin_exec lib c (AcSeal k) r = seal c k r"
| "admin_exec lib c (AcAfterSeal k b) r = after_seal c k b r"

datatype registry_call =
  Rental rental_call | Biz business_call | Market market_call | Admin admin_call

primrec registry_exec :: "registry_lib \<Rightarrow> ctx \<Rightarrow> registry_call \<Rightarrow> tla_registry \<Rightarrow> reg_res" where
  "registry_exec lib c (Rental x) r = rental_exec lib c x r"
| "registry_exec lib c (Biz x) r = business_exec lib c x r"
| "registry_exec lib c (Market x) r = market_exec lib c x r"
| "registry_exec lib c (Admin x) r = admin_exec lib c x r"

definition registry_initial :: "account_id \<Rightarrow> u64 \<Rightarrow> tla_registry \<Rightarrow> bool" where
  "registry_initial self t r \<longleftrightarrow>
     (\<exists>c admin ext grace treasury council term. current_account_id c = self \<and> block_timestamp c = t
        \<and> registry_new c False admin ext grace treasury council term = Inr r)"

inductive registry_step :: "registry_lib \<Rightarrow> account_id \<Rightarrow> u64 \<Rightarrow> tla_registry \<Rightarrow> tla_registry \<Rightarrow> bool"
  for lib self where
  call: "current_account_id c = self \<Longrightarrow> registry_exec lib c x r = Inr (r', outs)
         \<Longrightarrow> registry_step lib self (block_timestamp c) r r'"

inductive_cases registry_stepE: "registry_step lib self t r r'"

section \<open>The operations by group\<close>

lemmas rental_defs = activate_tla_def renew_tla_def rent_sub_account_def rent_sub_account_paid_def
  set_payout_account_def renew_sub_account_def on_payout_set_def on_lease_synced_def
  on_sub_account_renewed_def on_re_rent_balances_checked_def on_sub_account_created_def
  on_sub_account_created_paid_def on_sub_account_re_rented_def record_rental_def
  record_paid_rental_def business_count_check_and_bump_def

lemmas business_defs = schedule_retraction_def cancel_retraction_def on_retraction_scheduled_def
  on_retraction_canceled_def set_tla_terms_def set_business_sub_cap_def enable_business_resale_def
  admin_whitelist_add_def admin_whitelist_remove_def claim_business_name_def
  on_business_name_claimed_def reclaim_sweep_near_def reclaim_sweep_ft_def reclaim_finalize_def
  on_balances_checked_def on_reclaim_finalized_def start_notice_if_term_is_live_def

lemmas market_defs = transfer_sub_account_def on_transfer_balances_checked_def
  on_sub_account_transferred_def recover_sub_account_def on_sub_account_recovered_def
  nft_transfer_def nft_on_transfer_balances_checked_def nft_transfer_call_def
  nft_on_deposit_balances_checked_def nft_on_rotation_resolved_def
  nft_on_rotation_resolved_call_def commit_nft_rotation_def nft_resolve_transfer_def
  nft_on_return_resolved_def admin_set_nft_metadata_def

lemmas admin_defs = admin_set_initial_rate_def set_near_usd_rate_def set_price_oracle_def pause_def
  unpause_def claim_refund_def on_claim_refund_settled_def pause_marketplace_def
  unpause_marketplace_def register_tla_def register_tlas_def activate_open_tlas_def
  activate_open_tla_def activate_one_open_def admin_set_tla_type_def suspend_tla_def
  unsuspend_tla_def add_admin_def remove_admin_def add_payment_authority_def
  bind_payment_authority_tla_def unbind_payment_authority_tla_def remove_payment_authority_def
  add_venue_def remove_venue_def add_recovery_authority_def remove_recovery_authority_def
  update_fee_config_def withdraw_def add_ft_allowlist_def remove_ft_allowlist_def
  set_lease_term_ns_def remove_sweepable_token_def admin_clear_reclaim_pending_def
  admin_release_paid_order_def admin_release_park_def admin_force_park_def
  approve_treasury_rotation_def cancel_treasury_rotation_def commit_treasury_rotation_def
  approve_council_rotation_def cancel_council_rotation_def commit_council_rotation_def
  approve_upgrade_def upgrade_def seal_def after_seal_def set_add_def commit_rate_def end_pause_def

section \<open>Batches\<close>

lemma fold_frame: "(\<And>i s. v (f i s) = v s) \<Longrightarrow> v (fold f is s) = v s"
  by (induction "is" arbitrary: s) simp_all

lemma governance_batches [simp]:
  "governance (write_registration i reg r) = governance r"
  "governance (write_open_activation i now ex r) = governance r"
  "governance (fold (\<lambda>i. write_registration i reg) is r) = governance r"
  "governance (fold (\<lambda>i. write_open_activation i now ex) is r) = governance r"
  by (simp_all add: fold_frame [of governance] write_registration_def write_open_activation_def
      split: option.split)

lemma names_batches [simp]:
  "names (write_registration i reg r) = names r"
  "names (write_open_activation i now ex r) = names r"
  "names (fold (\<lambda>i. write_registration i reg) is r) = names r"
  "names (fold (\<lambda>i. write_open_activation i now ex) is r) = names r"
  by (simp_all add: fold_frame [of names] write_registration_def write_open_activation_def
      split: option.split)

lemma activity_ring_batches [simp]:
  "activity_ring (write_registration i reg r) = activity_ring r"
  "activity_ring (write_open_activation i now ex r) = activity_ring r"
  "activity_ring (fold (\<lambda>i. write_registration i reg) is r) = activity_ring r"
  "activity_ring (fold (\<lambda>i. write_open_activation i now ex) is r) = activity_ring r"
  by (simp_all add: fold_frame [of activity_ring] write_registration_def write_open_activation_def
      split: option.split)

lemma ledger_batches [simp]:
  "ledger (write_registration i reg r) = ledger r"
  "ledger (write_open_activation i now ex r) = ledger r"
  "ledger (fold (\<lambda>i. write_registration i reg) is r) = ledger r"
  "ledger (fold (\<lambda>i. write_open_activation i now ex) is r) = ledger r"
  by (simp_all add: fold_frame [of ledger] write_registration_def write_open_activation_def
      split: option.split)

section \<open>Governance is out of reach of everyone else\<close>

lemma res_all_gate [res_walk]:
  "(g = Clear \<Longrightarrow> res_all P m) \<Longrightarrow> (\<And>t rs. g = Blocked t rs \<Longrightarrow> res_all P (k t rs))
   \<Longrightarrow> res_all P (case g of Clear \<Rightarrow> m | Blocked t rs \<Rightarrow> k t rs)"
  by (cases g) simp_all

lemma res_all_outcome [res_walk]:
  "(oc = MintActive \<Longrightarrow> res_all P m) \<Longrightarrow> (oc = CreationFailed \<Longrightarrow> res_all P n)
   \<Longrightarrow> res_all P (case oc of MintActive \<Rightarrow> m | CreationFailed \<Rightarrow> n)"
  by (cases oc) simp_all

lemma res_all_order [res_walk]:
  "(\<And>i. st = InFlight i \<Longrightarrow> res_all P (k i)) \<Longrightarrow> (st = Settled \<Longrightarrow> res_all P m)
   \<Longrightarrow> res_all P (case st of InFlight i \<Rightarrow> k i | Settled \<Rightarrow> m)"
  by (cases st) simp_all

lemma rental_governance:
  "res_all (\<lambda>y. governance (fst y) = governance r) (rental_exec lib c x r)"
  by (cases x; simp only: rental_exec.simps rental_defs Let_def case_prod_unfold; (intro res_walk)?)
    (auto split: if_splits)

lemma business_governance:
  "res_all (\<lambda>y. governance (fst y) = governance r) (business_exec lib c x r)"
  by (cases x; simp only: business_exec.simps business_defs rental_defs Let_def case_prod_unfold; (intro res_walk)?)
    (auto split: if_splits option.splits)

lemma market_governance:
  "res_all (\<lambda>y. governance (fst y) = governance r) (market_exec lib c x r)"
  by (cases x; simp only: market_exec.simps market_defs Let_def case_prod_unfold; (intro res_walk)?)
    (auto split: if_splits)

end
