(* ===== verification/Registry_Names.thy ===== *)
theory Registry_Names
  imports Registry_Machine
begin

text \<open>
  The names and their two indexes (\<open>indexes.rs\<close>): the index by owner and the index by
  namespace list exactly the names with that owner and in that namespace, they never keep an
  empty set, and every name in the registry was mintable under its namespace.
\<close>

section \<open>What an index promises\<close>

text \<open>
  An index is used through four operations. \<open>mirrors f I m\<close> says that it lists, under every
  value of \<open>f\<close>, the keys of \<open>m\<close> with that value.
\<close>

locale key_index =
  fixes emp :: 'idx
    and add :: "'idx \<Rightarrow> 'o \<Rightarrow> 'k \<Rightarrow> 'idx"
    and rem :: "'idx \<Rightarrow> 'o \<Rightarrow> 'k \<Rightarrow> 'idx"
    and keys :: "'idx \<Rightarrow> 'o \<Rightarrow> 'k set"
    and ok :: "'idx \<Rightarrow> bool"
  assumes ok_emp: "ok emp" and keys_emp: "keys emp o1 = {}"
    and ok_add: "ok I \<Longrightarrow> ok (add I o1 k)"
    and ok_rem: "ok I \<Longrightarrow> ok (rem I o1 k)"
    and keys_add: "keys (add I o1 k) o2 = (if o2 = o1 then insert k (keys I o1) else keys I o2)"
    and keys_rem: "keys (rem I o1 k) o2 = (if o2 = o1 then keys I o1 - {k} else keys I o2)"
begin

definition mirrors :: "('s \<Rightarrow> 'o) \<Rightarrow> 'idx \<Rightarrow> ('k \<rightharpoonup> 's) \<Rightarrow> bool" where
  "mirrors f I m \<longleftrightarrow> ok I \<and> (\<forall>o1. keys I o1 = {k. \<exists>s. m k = Some s \<and> f s = o1})"

lemma mirrors_keys: "mirrors f I m \<Longrightarrow> k \<in> keys I o1 \<longleftrightarrow> (\<exists>s. m k = Some s \<and> f s = o1)"
  by (simp add: mirrors_def)

lemma mirrors_ok: "mirrors f I m \<Longrightarrow> ok I"
  by (simp add: mirrors_def)

lemma mirrors_empty: "mirrors f emp Map.empty"
  by (simp add: mirrors_def ok_emp keys_emp)

lemma mirrors_insert:
  "mirrors f I m \<Longrightarrow> m k = None \<Longrightarrow> o1 = f s \<Longrightarrow> mirrors f (add I o1 k) (m(k \<mapsto> s))"
  by (auto simp: mirrors_def ok_add keys_add)

lemma mirrors_remove:
  "mirrors f I m \<Longrightarrow> m k = Some s \<Longrightarrow> o1 = f s \<Longrightarrow> mirrors f (rem I o1 k) (m(k := None))"
  by (auto simp: mirrors_def ok_rem keys_rem)

lemma mirrors_same:
  "mirrors f I m \<Longrightarrow> m k = Some s \<Longrightarrow> f s' = f s \<Longrightarrow> mirrors f I (m(k \<mapsto> s'))"
  by (auto simp: mirrors_def)

lemma mirrors_move:
  assumes "mirrors f I m" "m k = Some s" "o1 = f s" "o2 = f s'"
  shows "mirrors f (add (rem I o1 k) o2 k) (m(k \<mapsto> s'))"
  using mirrors_insert [OF mirrors_remove [OF assms(1,2,3)], of k o2 s'] assms(4) by simp

end

definition index_keys :: "(account_id \<rightharpoonup> string set) \<Rightarrow> account_id \<Rightarrow> string set" where
  "index_keys index i = (case index i of None \<Rightarrow> {} | Some keys \<Rightarrow> keys)"

definition index_ok :: "(account_id \<rightharpoonup> string set) \<Rightarrow> bool" where
  "index_ok index \<longleftrightarrow> (\<forall>i. index i \<noteq> Some {})"

interpretation kidx: key_index Map.empty index_add index_remove index_keys index_ok
  by unfold_locales
    (auto simp: index_ok_def index_keys_def index_add_def index_remove_def split: option.splits)

section \<open>The invariant\<close>

definition name_ok :: "string \<Rightarrow> sub_account_entry \<Rightarrow> bool" where
  "name_ok key s \<longleftrightarrow> (\<exists>name. key = sub_account_key (sa_tla_id s) name
                        \<and> validate_mintable_name (sa_tla_id s) name = Inr ())"

text \<open>\<open>names_inv\<close> is a predicate on the view \<open>names\<close>.\<close>

definition names_inv ::
    "(string \<rightharpoonup> sub_account_entry) \<times> (account_id \<rightharpoonup> string set) \<times> (account_id \<rightharpoonup> string set)
     \<Rightarrow> bool" where
  "names_inv = (\<lambda>(subs, owners, tlas).
     kidx.mirrors sa_owner owners subs \<and> kidx.mirrors sa_tla_id tlas subs \<and> finite (dom subs)
     \<and> (\<forall>key s. subs key = Some s \<longrightarrow> name_ok key s))"

lemma names_inv_iff:
  "names_inv (names r) \<longleftrightarrow>
     kidx.mirrors sa_owner (r_sub_accounts_by_owner r) (r_sub_accounts r)
     \<and> kidx.mirrors sa_tla_id (r_sub_accounts_by_tla r) (r_sub_accounts r)
     \<and> finite (dom (r_sub_accounts r))
     \<and> (\<forall>key s. r_sub_accounts r key = Some s \<longrightarrow> name_ok key s)"
  by (simp add: names_inv_def names_def)

lemma names_inv_insert:
  "names_inv (names r) \<Longrightarrow> r_sub_accounts r key = None \<Longrightarrow> name_ok key e
   \<Longrightarrow> names_inv (names (sub_account_insert key e r))"
  by (auto simp: names_inv_iff sub_account_insert_def kidx.mirrors_insert)

lemma names_inv_same:
  "names_inv (names r) \<Longrightarrow> r_sub_accounts r key = Some s \<Longrightarrow> sa_owner s' = sa_owner s
   \<Longrightarrow> sa_tla_id s' = sa_tla_id s
   \<Longrightarrow> names_inv (names (r\<lparr>r_sub_accounts := (r_sub_accounts r)(key \<mapsto> s')\<rparr>))"
  by (auto simp: names_inv_iff name_ok_def intro: kidx.mirrors_same)

lemma names_inv_remove:
  assumes "names_inv (names r)"
  shows "names_inv (names (fst (sub_account_remove key r)))"
proof (cases "r_sub_accounts r key")
  case (Some s)
  with assms show ?thesis
    by (auto simp: names_inv_iff sub_account_remove_def forget_claim_def
        intro: kidx.mirrors_remove)
qed (use assms in \<open>simp add: sub_account_remove_def\<close>)

lemma names_inv_reassign:
  assumes "names_inv (names r)"
  shows "names_inv (names (fst (sub_account_reassign key o1 p r)))"
proof (cases "r_sub_accounts r key")
  case (Some s)
  with assms show ?thesis
    by (auto simp: names_inv_iff sub_account_reassign_def Let_def name_ok_def
        intro: kidx.mirrors_same kidx.mirrors_move)
qed (use assms in \<open>simp add: sub_account_reassign_def\<close>)

lemma names_inv_open_lease:
  "names_inv (names r) \<Longrightarrow> r_sub_accounts r key = None
   \<Longrightarrow> key = sub_account_key tla name \<Longrightarrow> validate_mintable_name tla name = Inr ()
   \<Longrightarrow> names_inv (names (fst (open_lease c key tla o1 p r)))"
  by (auto simp: open_lease_def Let_def name_ok_def intro!: names_inv_insert)

lemma names_inv_fail_mint:
  "names_inv (names r) \<Longrightarrow> names_inv (names (fst (settle_failed_mint key tla p n rs r)))"
  "names_inv (names r) \<Longrightarrow> names_inv (names (fst (fail_mint c b s rs r)))"
  using names_inv_remove
  by (auto simp: settle_failed_mint_def settle_stranded_mint_def fail_mint_def Let_def
      case_prod_unfold split: option.split)

section \<open>Every call keeps it\<close>

lemmas names_inv_ops = names_inv_same names_inv_remove names_inv_reassign names_inv_open_lease
  names_inv_fail_mint

lemma rental_names:
  "names_inv (names r) \<Longrightarrow> res_all (\<lambda>y. names_inv (names (fst y))) (rental_exec lib c x r)"
  by (cases x; simp only: rental_exec.simps rental_defs Let_def case_prod_unfold; (intro res_walk)?)
    (auto intro!: names_inv_ops split: if_splits)

lemma business_names:
  "names_inv (names r) \<Longrightarrow> res_all (\<lambda>y. names_inv (names (fst y))) (business_exec lib c x r)"
  by (cases x; simp only: business_exec.simps business_defs rental_defs Let_def case_prod_unfold;
      (intro res_walk)?)
    (auto intro!: names_inv_ops split: if_splits option.splits)

lemma market_names:
  "names_inv (names r) \<Longrightarrow> res_all (\<lambda>y. names_inv (names (fst y))) (market_exec lib c x r)"
  by (cases x; simp only: market_exec.simps market_defs Let_def case_prod_unfold; (intro res_walk)?)
    (auto intro!: names_inv_ops split: if_splits)

lemma admin_names:
  "names_inv (names r) \<Longrightarrow> res_all (\<lambda>y. names_inv (names (fst y))) (admin_exec lib c x r)"
  by (cases x; simp only: admin_exec.simps admin_defs Let_def case_prod_unfold; (intro res_walk)?)
    (auto intro!: names_inv_ops split: if_splits)

end
