(* ===== verification/Registry_Activity.thy ===== *)
theory Registry_Activity
  imports Registry_Machine
begin

text \<open>
  The activity ring (\<open>activity.rs\<close>) and the view that reads it (\<open>list_recent_activity\<close> in
  \<open>views.rs\<close>). The ring is a bounded buffer with a cursor; what it stands for is the log of the
  last 256 activities, and the view lists that log newest first.
\<close>

section \<open>The view\<close>

text \<open>On the contract's target \<open>usize\<close> has 32 bits.\<close>

definition page_offset :: "u128 \<Rightarrow> nat" where
  "page_offset from_index = min (unat from_index) (2 ^ 32 - 1)"

definition page_size :: "u64 \<Rightarrow> nat" where
  "page_size limit = unat (min limit MAX_PAGE_LIMIT)"

definition recent_slots :: "activity_record list \<Rightarrow> u32 \<Rightarrow> activity_record list" where
  "recent_slots ring cursor =
     (let len = word_of_nat (length ring) :: u64 in
      List.map_filter
        (\<lambda>i. let slot = unat (ucast ((ucast cursor + len - 1 - word_of_nat i) mod len) :: u32)
             in if slot < length ring then Some (ring ! slot) else None)
        [0..<length ring])"

definition list_recent_activity ::
    "u64 \<Rightarrow> u64 \<Rightarrow> string option \<Rightarrow> tla_registry \<Rightarrow> activity_record list" where
  "list_recent_activity from_index limit account r =
     take (page_size limit) (drop (page_offset (ucast from_index))
       (filter (\<lambda>a. case account of None \<Rightarrow> True | Some acc \<Rightarrow> act_account a = acc)
          (recent_slots (r_recent_activity r) (r_activity_cursor r))))"

section \<open>The log a ring stands for\<close>

definition ring_inv :: "activity_record list \<times> u32 \<Rightarrow> bool" where
  "ring_inv = (\<lambda>(ring, cursor). length ring \<le> unat ACTIVITY_CAPACITY \<and> cursor < ACTIVITY_CAPACITY
                 \<and> (length ring < unat ACTIVITY_CAPACITY \<longrightarrow> cursor = 0))"

text \<open>Oldest first: the slots from the cursor on, then those before it.\<close>

definition ring_log :: "activity_record list \<times> u32 \<Rightarrow> activity_record list" where
  "ring_log = (\<lambda>(ring, cursor). rotate (unat cursor) ring)"

definition last_n :: "nat \<Rightarrow> 'a list \<Rightarrow> 'a list" where
  "last_n n xs = drop (length xs - n) xs"

lemma capacity [simp]: "unat ACTIVITY_CAPACITY = 256"
  by (simp add: ACTIVITY_CAPACITY_def)

lemma next_cursor:
  assumes "unat cur < 256"
  shows "unat ((cur + 1) mod ACTIVITY_CAPACITY) = (unat cur + 1) mod 256"
proof -
  have "unat (cur + 1) = unat cur + 1" using assms unat_add_exact [of cur 1] by simp
  then show ?thesis by (simp add: unat_mod)
qed

lemma rotate_replace:
  assumes "k < length xs"
  shows "rotate ((k + 1) mod length xs) (xs[k := x]) = tl (rotate k xs) @ [x]"
proof -
  have "rotate ((k + 1) mod length xs) (xs[k := x]) = rotate (Suc k) (xs[k := x])"
    using rotate_conv_mod [of "Suc k" "xs[k := x]"] by simp
  also have "\<dots> = rotate1 (rotate k (xs[k := x]))" by simp
  also have "rotate k (xs[k := x]) = x # tl (rotate k xs)"
  proof -
    have "rotate k ys = drop k ys @ take k ys" if "length ys = length xs" for ys :: "'a list"
      using that assms by (simp add: rotate_drop_take)
    moreover have "drop k (xs[k := x]) = x # drop (Suc k) xs"
      using assms by (simp add: drop_update_cancel Cons_nth_drop_Suc [symmetric])
    moreover have "drop k xs = xs ! k # drop (Suc k) xs"
      using assms by (simp add: Cons_nth_drop_Suc)
    ultimately show ?thesis using assms by (simp add: take_update_cancel)
  qed
  finally show ?thesis by simp
qed

definition activity_record_of :: "ctx \<Rightarrow> string \<Rightarrow> string \<Rightarrow> activity_record" where
  "activity_record_of c event account =
     \<lparr>act_event = event, act_account = account, act_block_height = block_height c,
      act_block_timestamp = block_timestamp c\<rparr>"

lemma push_ring:
  assumes "ring_inv (activity_ring r)"
  shows "ring_inv (activity_ring (push_activity c e a r))"
    and "ring_log (activity_ring (push_activity c e a r))
         = last_n 256 (ring_log (activity_ring r) @ [activity_record_of c e a])"
proof -
  let ?xs = "r_recent_activity r" and ?k = "r_activity_cursor r"
  have len: "length ?xs \<le> 256" and k: "unat ?k < 256"
    and short: "length ?xs < 256 \<longrightarrow> ?k = 0"
    using assms by (auto simp: ring_inv_def activity_ring_def word_less_nat_alt)
  have "ring_inv (activity_ring (push_activity c e a r))
    \<and> ring_log (activity_ring (push_activity c e a r))
         = last_n 256 (ring_log (activity_ring r) @ [activity_record_of c e a])"
  proof (cases "length ?xs < 256")
    case True
    with short show ?thesis
      by (auto simp: push_activity_def Let_def activity_ring_def ring_inv_def ring_log_def
          last_n_def activity_record_of_def ACTIVITY_CAPACITY_def)
  next
    case False
    with len have full: "length ?xs = 256" by simp
    have "(unat ?k + 1) mod length ?xs < 256" by (simp add: full)
    then show ?thesis
      using full k next_cursor [OF k] rotate_replace [of "unat ?k" ?xs]
      by (simp add: push_activity_def Let_def activity_ring_def ring_inv_def ring_log_def
          last_n_def activity_record_of_def word_less_nat_alt drop_Suc)
  qed
  then show "ring_inv (activity_ring (push_activity c e a r))"
    and "ring_log (activity_ring (push_activity c e a r))
         = last_n 256 (ring_log (activity_ring r) @ [activity_record_of c e a])"
    by blast+
qed

lemma slot_index:
  assumes "unat k < 256" "n \<le> 256" "i < n"
  shows "unat (ucast ((ucast (k :: u32) + word_of_nat n - 1 - word_of_nat i) mod word_of_nat n :: u64) :: u32)
         = (unat k + (n - 1 - i)) mod n"
proof -
  have m: "unat k + (n - 1 - i) = unat k + n - (1 + i)" using assms by simp
  have "(ucast k :: u64) = word_of_nat (unat k)" by simp
  then have "ucast k + word_of_nat n - 1 - word_of_nat i
        = (word_of_nat (unat k + n) - word_of_nat (1 + i) :: u64)" by simp
  also have "\<dots> = word_of_nat (unat k + (n - 1 - i))"
    using assms by (simp add: m of_nat_diff)
  finally have e: "ucast k + word_of_nat n - 1 - word_of_nat i
                   = (word_of_nat (unat k + (n - 1 - i)) :: u64)" .
  have small: "unat (word_of_nat m :: u64) = m" if "m < 512" for m
    using that by (simp add: unat_of_nat take_bit_nat_eq_self)
  have "unat (word_of_nat (unat k + (n - 1 - i)) :: u64) = unat k + (n - 1 - i)"
    "unat (word_of_nat n :: u64) = n"
    by (rule small; use assms in linarith)+
  then have "unat ((word_of_nat (unat k + (n - 1 - i)) :: u64) mod word_of_nat n)
             = (unat k + (n - 1 - i)) mod n"
    by (simp only: unat_mod)
  moreover have "(unat k + (n - 1 - i)) mod n < 2 ^ 32"
    by (rule less_le_trans [OF mod_less_divisor]) (use assms in simp_all)
  ultimately show ?thesis unfolding e by (simp add: unsigned_ucast_eq take_bit_nat_eq_self)
qed

lemma recent_slots_rev:
  assumes inv: "ring_inv (xs, k)"
  shows "recent_slots xs k = rev (ring_log (xs, k))"
proof -
  let ?n = "length xs"
  have n: "?n \<le> 256" and k: "unat k < 256"
    using inv by (auto simp: ring_inv_def word_less_nat_alt)
  have "recent_slots xs k = map (\<lambda>i. xs ! ((unat k + (?n - 1 - i)) mod ?n)) [0..<?n]"
    unfolding recent_slots_def Let_def List.map_filter_def
    by (rule sym, rule map_cong) (auto simp: slot_index [OF k n] intro!: filter_True [symmetric] mod_less_divisor)
  also have "\<dots> = rev (rotate (unat k) xs)"
    by (rule nth_equalityI) (auto simp: rev_nth nth_rotate)
  finally show ?thesis by (simp add: ring_log_def)
qed

section \<open>Every call keeps the ring\<close>

lemma emit_ring: "ring_inv (activity_ring r) \<Longrightarrow> ring_inv (activity_ring (fst (emit_activity c ev r)))"
  by (auto simp: emit_activity_def push_ring split: option.split)

lemma rental_ring:
  "ring_inv (activity_ring r) \<Longrightarrow> res_all (\<lambda>y. ring_inv (activity_ring (fst y))) (rental_exec lib c x r)"
  by (cases x; simp only: rental_exec.simps rental_defs Let_def case_prod_unfold; (intro res_walk)?)
    (auto intro!: emit_ring split: if_splits)

lemma business_ring:
  "ring_inv (activity_ring r) \<Longrightarrow> res_all (\<lambda>y. ring_inv (activity_ring (fst y))) (business_exec lib c x r)"
  by (cases x; simp only: business_exec.simps business_defs rental_defs Let_def case_prod_unfold;
      (intro res_walk)?)
    (auto intro!: emit_ring split: if_splits option.splits)

lemma market_ring:
  "ring_inv (activity_ring r) \<Longrightarrow> res_all (\<lambda>y. ring_inv (activity_ring (fst y))) (market_exec lib c x r)"
  by (cases x; simp only: market_exec.simps market_defs Let_def case_prod_unfold; (intro res_walk)?)
    (auto intro!: emit_ring split: if_splits)

lemma admin_ring:
  "ring_inv (activity_ring r) \<Longrightarrow> res_all (\<lambda>y. ring_inv (activity_ring (fst y))) (admin_exec lib c x r)"
  by (cases x; simp only: admin_exec.simps admin_defs Let_def case_prod_unfold; (intro res_walk)?)
    (auto split: if_splits)

end
