(* ===== verification/Registry_Governance.thy ===== *)
theory Registry_Governance
  imports Registry_Machine
begin

text \<open>
  What governs the registry: the fee configuration and the price feed, the authority sets with
  their bounds, the lease terms and the three timelocks (council, treasury, upgrade). The
  invariant says what is always true of them at time \<open>t\<close> in the contract \<open>self\<close>; only the
  administrative calls touch them.
\<close>

section \<open>Invariant\<close>

definition fees_ok :: "fee_config \<Rightarrow> bool" where
  "fees_ok f \<longleftrightarrow>
     fc_rent_tier_12plus_usd_micro f \<le> fc_rent_tier_10_usd_micro f
     \<and> fc_rent_tier_10_usd_micro f \<le> fc_rent_tier_8_usd_micro f
     \<and> fc_rent_tier_8_usd_micro f \<le> fc_rent_tier_5_usd_micro f
     \<and> fc_rent_tier_5_usd_micro f \<noteq> 0
     \<and> fc_rent_tier_5_usd_micro f \<le> MAX_USD_MICRO
     \<and> fc_tla_allocation_fee_usd_micro f \<le> MAX_USD_MICRO
     \<and> fc_sub_fee_per_account_usd_micro f \<le> MAX_USD_MICRO
     \<and> fc_account_creation_deposit_yocto f \<noteq> 0
     \<and> fc_max_rate_move_bps f \<le> 10000 \<and> fc_quote_slippage_bps f \<le> 10000
     \<and> fc_min_near_usd_rate_micro f \<noteq> 0
     \<and> fc_min_near_usd_rate_micro f \<le> fc_max_near_usd_rate_micro f
     \<and> fc_max_near_usd_rate_micro f \<le> MAX_NEAR_USD_RATE_MICRO
     \<and> fc_rate_update_cooldown_ns f \<noteq> 0 \<and> fc_rate_update_cooldown_ns f \<le> fc_max_rate_age_ns f
     \<and> fc_business_max_subs f \<noteq> 0 \<and> MIN_RETRACTION_NOTICE_NS \<le> fc_retraction_notice_ns f"

definition rate_ok :: "tla_registry \<Rightarrow> bool" where
  "rate_ok r \<longleftrightarrow> r_near_usd_rate_micro r = 0
     \<or> rate_is_usable (r_near_usd_rate_micro r) (fc_min_near_usd_rate_micro (r_fee_config r))
         (fc_max_near_usd_rate_micro (r_fee_config r))"

definition bounded :: "nat \<Rightarrow> 'a set \<Rightarrow> bool" where
  "bounded n S \<longleftrightarrow> finite S \<and> card S \<le> n"

definition sets_ok :: "tla_registry \<Rightarrow> bool" where
  "sets_ok r \<longleftrightarrow>
     r_admins r \<noteq> {} \<and> bounded MAX_AUTHORITY_SET (r_admins r)
     \<and> bounded MAX_AUTHORITY_SET (r_payment_authorities r)
     \<and> bounded MAX_AUTHORITY_SET (r_recovery_authorities r)
     \<and> bounded MAX_VENUES (r_venues r)
     \<and> bounded MAX_ALLOWLIST_SIZE (r_ft_allowlist r)
     \<and> bounded MAX_SWEEPABLE_SIZE (r_sweepable_tokens r)
     \<and> r_ft_allowlist r \<subseteq> r_sweepable_tokens r"

text \<open>A pending change and the time it was approved come and go together, and the approval
  lies in the past.\<close>

definition pending_ok :: "u64 \<Rightarrow> 'a option \<Rightarrow> u64 option \<Rightarrow> bool" where
  "pending_ok t pending at \<longleftrightarrow> (pending = None \<longleftrightarrow> at = None) \<and> (\<forall>a. at = Some a \<longrightarrow> a \<le> t)"

definition locks_ok :: "u64 \<Rightarrow> tla_registry \<Rightarrow> bool" where
  "locks_ok t r \<longleftrightarrow>
     pending_ok t (r_pending_council r) (r_pending_council_at r)
     \<and> pending_ok t (r_pending_treasury r) (r_pending_treasury_at r)
     \<and> pending_ok t (r_approved_code_hash r) (r_approved_at r)
     \<and> r_upgrade_delay_ns r = UPGRADE_DELAY_NS"

definition gov_inv :: "account_id \<Rightarrow> u64 \<Rightarrow> tla_registry \<Rightarrow> bool" where
  "gov_inv self t r \<longleftrightarrow>
     fees_ok (r_fee_config r) \<and> rate_ok r \<and> sets_ok r \<and> locks_ok t r
     \<and> r_rate_updated_at r \<le> t
     \<and> MIN_LEASE_TERM_NS \<le> r_lease_term_ns r \<and> r_lease_term_ns r \<le> MAX_LEASE_TERM_NS
     \<and> MIN_GRACE_PERIOD_NS \<le> r_grace_period_ns r
     \<and> r_council r \<noteq> self \<and> r_pending_council r \<noteq> Some self \<and> r_hos_extension r \<noteq> self
     \<and> self \<notin> r_venues r
     \<and> r_paused_until_ns r \<le> sat_add t MAX_AUTHORITY_HOLD_NS \<and> r_unpaused_at r \<le> t"

lemmas gov_defs = gov_inv_def rate_ok_def sets_ok_def locks_ok_def

lemma gov_inv_cong: "governance r' = governance r \<Longrightarrow> gov_inv self t r' = gov_inv self t r"
  by (simp add: gov_defs governance_def)

lemma pending_ok_mono: "pending_ok t p a \<Longrightarrow> t \<le> t' \<Longrightarrow> pending_ok t' p a"
  by (auto simp: pending_ok_def)

lemma gov_inv_mono:
  assumes "gov_inv self t r" "t \<le> t'"
  shows "gov_inv self t' r"
proof -
  have "r_paused_until_ns r \<le> sat_add t' MAX_AUTHORITY_HOLD_NS"
    using assms sat_add_mono [of t t' MAX_AUTHORITY_HOLD_NS MAX_AUTHORITY_HOLD_NS]
    by (auto simp: gov_inv_def)
  moreover have "locks_ok t' r"
    using assms by (auto simp: gov_inv_def locks_ok_def intro: pending_ok_mono)
  ultimately show ?thesis using assms by (auto simp: gov_inv_def)
qed

lemma bounded_insert: "bounded n S \<Longrightarrow> card S < n \<Longrightarrow> bounded n (insert a S)"
  by (auto simp: bounded_def card_insert_if)

lemma bounded_remove: "bounded n S \<Longrightarrow> bounded n (S - {a})"
  by (auto simp: bounded_def intro: card_mono le_trans [OF card_Diff1_le])

lemma fees_ok_default: "fees_ok default_fee_config"
  by (simp add: fees_ok_def default_fee_config_def USD_MICRO_PER_DOLLAR_def MAX_USD_MICRO_def
      MAX_NEAR_USD_RATE_MICRO_def MIN_RETRACTION_NOTICE_NS_def ONE_NEAR_def)

lemma gov_inv_initial:
  assumes "registry_initial self t r"
  shows "gov_inv self t r"
  using assms fees_ok_default
  by (auto simp: registry_initial_def registry_new_def Let_def gov_defs bounded_def pending_ok_def
      MAX_AUTHORITY_SET_def MAX_VENUES_def MAX_ALLOWLIST_SIZE_def MAX_SWEEPABLE_SIZE_def)

section \<open>Every call keeps it\<close>

lemma rate_within_bounds_band:
  "rate_within_bounds current new bps floor ceiling = Inr True \<Longrightarrow> floor \<le> new \<and> new \<le> ceiling"
  by (auto simp: rate_within_bounds_def split: if_splits)

lemma admin_governance_views [simp]:
  "gov_inv self t (write_registration i reg r) = gov_inv self t r"
  "gov_inv self t (write_open_activation i now ex r) = gov_inv self t r"
  "gov_inv self t (fold (\<lambda>i. write_registration i reg) is r) = gov_inv self t r"
  "gov_inv self t (fold (\<lambda>i. write_open_activation i now ex) is r) = gov_inv self t r"
  "gov_inv self t (add_pending_refund a n r) = gov_inv self t r"
  "gov_inv self t (release_authority_mint a i r) = gov_inv self t r"
  by (rule gov_inv_cong | simp)+

lemma card_not_singleton: "Suc 0 < card S \<Longrightarrow> \<not> S \<subseteq> {a}"
  using card_mono [of "{a}" S] by auto

lemma tiers_nonzero:
  fixes a b c d :: u128
  assumes "\<not> (a = 0 \<and> b = 0 \<and> c = 0 \<and> d = 0)" "b \<le> a" "c \<le> b" "d \<le> c"
  shows "a \<noteq> 0"
  using assms by auto

lemma update_fee_config_accepted:
  "res_all (\<lambda>y. \<exists>cfg. fst y = r\<lparr>r_fee_config := cfg\<rparr> \<and> fees_ok cfg \<and> rate_ok (fst y))
     (update_fee_config c cfg r)"
  unfolding update_fee_config_def Let_def
proof (intro res_walk, goal_cases)
  case 1
  have "fc_rent_tier_5_usd_micro cfg \<noteq> 0" by (rule tiers_nonzero [OF 1(3)]) (use 1(5) in auto)
  with 1 show ?case
    by (intro exI [of _ cfg]) (simp add: fees_ok_def rate_ok_def rate_is_usable_def not_less, blast)
qed

lemma gov_update_fee_config:
  assumes "gov_inv self t r"
  shows "res_all (\<lambda>y. gov_inv self t (fst y)) (update_fee_config c cfg r)"
proof (cases "update_fee_config c cfg r")
  case (Inr y)
  with update_fee_config_accepted [of r c cfg] assms show ?thesis
    by (auto simp: res_all_def gov_inv_def sets_ok_def locks_ok_def)
qed (simp add: res_all_def)

lemma gov_add_ft_allowlist:
  assumes "gov_inv self t r"
  shows "res_all (\<lambda>y. gov_inv self t (fst y)) (add_ft_allowlist c token r)"
proof -
  have "bounded MAX_SWEEPABLE_SIZE (insert token (r_sweepable_tokens r))"
    if "token \<in> r_sweepable_tokens r \<or> card (r_sweepable_tokens r) < MAX_SWEEPABLE_SIZE"
    using that assms by (auto simp: gov_defs insert_absorb bounded_insert)
  then show ?thesis
    unfolding add_ft_allowlist_def using assms
    by (intro res_walk) (simp_all add: gov_defs bounded_insert subset_insertI2)
qed

lemma subset_minus: "A \<subseteq> B \<Longrightarrow> A - C \<subseteq> B" "A \<subseteq> B \<Longrightarrow> a \<notin> A \<Longrightarrow> A \<subseteq> B - {a}"
  by blast+

lemma admin_gov:
  assumes inv: "gov_inv self (block_timestamp c) r" and self: "current_account_id c = self"
  shows "res_all (\<lambda>y. gov_inv self (block_timestamp c) (fst y)) (admin_exec lib c x r)"
proof (cases x)
  case (AcUpdateFees cfg)
  then show ?thesis using inv by (simp add: gov_update_fee_config)
next
  case (AcAddFt token)
  then show ?thesis using inv by (simp add: gov_add_ft_allowlist)
qed (insert inv self, (simp only: admin_exec.simps admin_defs Let_def case_prod_unfold,
     (intro res_walk)?; (simp split: if_splits)?;
     simp add: gov_defs pending_ok_def bounded_insert bounded_remove card_not_singleton
       rate_is_usable_def rate_within_bounds_band subset_minus)+)

end
