(* ===== verification/Registry_Ledger.thy ===== *)
theory Registry_Ledger
  imports Registry_Machine
begin

text \<open>
  The refunds the registry owes (\<open>pending_refunds\<close> and \<open>total_pending_refunds\<close> in \<open>lib.rs\<close>).
  Both sides of the ledger saturate. The total never exceeds what is owed, and it is exactly
  what is owed in every run in which the sum of all claims stays below \<open>2\<^sup>1\<^sup>2\<^sup>8\<close> yocto, a hundred
  thousand times the supply of the token.
\<close>

section \<open>Owed and recorded\<close>

definition owed :: "(account_id \<rightharpoonup> u128) \<times> u128 \<Rightarrow> nat" where
  "owed l = map_total (fst l)"

definition ledger_inv :: "(account_id \<rightharpoonup> u128) \<times> u128 \<Rightarrow> bool" where
  "ledger_inv l \<longleftrightarrow> finite (dom (fst l)) \<and> unat (snd l) \<le> owed l"

definition ledger_exact :: "(account_id \<rightharpoonup> u128) \<times> u128 \<Rightarrow> bool" where
  "ledger_exact l \<longleftrightarrow> finite (dom (fst l)) \<and> (owed l < 2 ^ 128 \<longrightarrow> unat (snd l) = owed l)"

definition owed_to :: "account_id \<Rightarrow> tla_registry \<Rightarrow> nat" where
  "owed_to a r = (case r_pending_refunds r a of None \<Rightarrow> 0 | Some n \<Rightarrow> unat n)"

lemma ledger_fields [simp]:
  "fst (ledger r) = r_pending_refunds r" "snd (ledger r) = r_total_pending_refunds r"
  by (simp_all add: ledger_def)

lemma add_refund_ledger:
  fixes r :: tla_registry and a n
  defines "r' \<equiv> add_pending_refund a n r"
  assumes fin: "finite (dom (r_pending_refunds r))"
  shows "finite (dom (r_pending_refunds r'))"
    and "unat (r_total_pending_refunds r') = min (unat (r_total_pending_refunds r) + unat n) (2 ^ 128 - 1)"
    and "owed (ledger r') + owed_to a r
         = owed (ledger r) + min (owed_to a r + unat n) (2 ^ 128 - 1)"
proof -
  let ?old = "case r_pending_refunds r a of None \<Rightarrow> 0 | Some x \<Rightarrow> x"
  have old: "unat ?old = owed_to a r" by (simp add: owed_to_def split: option.split)
  show "finite (dom (r_pending_refunds r'))" using fin by (simp add: r'_def add_pending_refund_def Let_def)
  show "unat (r_total_pending_refunds r') = min (unat (r_total_pending_refunds r) + unat n) (2 ^ 128 - 1)"
    by (simp add: r'_def add_pending_refund_def Let_def unat_sat_add)
  have "owed (ledger r') = map_total ((r_pending_refunds r)(a \<mapsto> sat_add ?old n))"
    by (simp add: owed_def r'_def add_pending_refund_def Let_def)
  then show "owed (ledger r') + owed_to a r
         = owed (ledger r) + min (owed_to a r + unat n) (2 ^ 128 - 1)"
    using map_total_upd [OF fin, of a "sat_add ?old n"]
    by (simp add: owed_def unat_sat_add old) (simp add: owed_to_def)
qed

lemma owed_to_le: "finite (dom (r_pending_refunds r)) \<Longrightarrow> owed_to a r \<le> owed (ledger r)"
  by (auto simp: owed_to_def owed_def map_total_ge split: option.split)

lemma owed_to_bound: "owed_to a r < 2 ^ 128"
  using unat_bound [where 'a = 128] by (auto simp: owed_to_def split: option.split)

lemma add_refund_inv: "ledger_inv (ledger r) \<Longrightarrow> ledger_inv (ledger (add_pending_refund a n r))"
proof -
  assume inv: "ledger_inv (ledger r)"
  then have fin: "finite (dom (r_pending_refunds r))" by (simp add: ledger_inv_def)
  note add = add_refund_ledger [OF fin, of a n] and le = owed_to_le [OF fin, of a]
  have "unat (r_total_pending_refunds (add_pending_refund a n r))
        \<le> owed (ledger (add_pending_refund a n r))"
  proof (cases "owed_to a r + unat n \<le> 2 ^ 128 - 1")
    case True
    then have "owed (ledger (add_pending_refund a n r)) = owed (ledger r) + unat n"
      using add(3) by simp
    moreover have "unat (r_total_pending_refunds r) \<le> owed (ledger r)"
      using inv by (simp add: ledger_inv_def)
    ultimately show ?thesis using add(2) by linarith
  next
    case False
    then have "min (owed_to a r + unat n) (2 ^ 128 - 1) = 2 ^ 128 - 1" by simp
    then have "2 ^ 128 - 1 \<le> owed (ledger (add_pending_refund a n r))"
      using add(3) le by linarith
    then show ?thesis using add(2) by linarith
  qed
  with add(1) show ?thesis by (simp add: ledger_inv_def)
qed

lemma add_refund_exact:
  assumes exact: "ledger_exact (ledger r)" and small: "owed (ledger r) < 2 ^ 128"
  shows "ledger_exact (ledger (add_pending_refund a n r))"
proof -
  have fin: "finite (dom (r_pending_refunds r))" using exact by (simp add: ledger_exact_def)
  note add = add_refund_ledger [OF fin, of a n] and le = owed_to_le [OF fin, of a]
  have eq: "unat (r_total_pending_refunds r) = owed (ledger r)"
    using exact small by (simp add: ledger_exact_def)
  have "unat (r_total_pending_refunds (add_pending_refund a n r))
        = owed (ledger (add_pending_refund a n r))"
    if "owed (ledger (add_pending_refund a n r)) < 2 ^ 128"
  proof (cases "owed_to a r + unat n \<le> 2 ^ 128 - 1")
    case True
    then show ?thesis using add(2,3) that eq by simp
  next
    case False
    then have "min (owed_to a r + unat n) (2 ^ 128 - 1) = 2 ^ 128 - 1" by simp
    then show ?thesis using add(2,3) that eq le False by linarith
  qed
  with add(1) show ?thesis by (simp add: ledger_exact_def)
qed

section \<open>Every call keeps the ledger\<close>

lemma claim_ledger:
  assumes amount: "n = (case r_pending_refunds r a of None \<Rightarrow> 0 | Some x \<Rightarrow> x)"
    and r': "r' = r\<lparr>r_pending_refunds := (r_pending_refunds r)(a := None),
                r_total_pending_refunds := sat_sub (r_total_pending_refunds r) n\<rparr>"
    and fin: "finite (dom (r_pending_refunds r))"
  shows "owed (ledger r') = owed (ledger r) - unat n \<and> unat n = owed_to a r"
    and "ledger_inv (ledger r) \<Longrightarrow> ledger_inv (ledger r')"
    and "ledger_exact (ledger r) \<Longrightarrow> owed (ledger r) < 2 ^ 128 \<Longrightarrow> ledger_exact (ledger r')"
proof -
  have n: "unat n = owed_to a r" using amount by (simp add: owed_to_def split: option.split)
  have del: "owed (ledger r') + unat n = owed (ledger r)"
    using map_total_del [OF fin, of a] n by (simp add: owed_def r' owed_to_def)
  show "owed (ledger r') = owed (ledger r) - unat n \<and> unat n = owed_to a r" using del n by simp
  have fin': "finite (dom (r_pending_refunds r'))" using fin by (simp add: r')
  have tot: "unat (r_total_pending_refunds r') = unat (r_total_pending_refunds r) - unat n"
    by (simp add: r' unat_sat_sub)
  show "ledger_inv (ledger r')" if "ledger_inv (ledger r)"
  proof -
    have "unat (r_total_pending_refunds r) \<le> owed (ledger r)" using that by (simp add: ledger_inv_def)
    then have "unat (r_total_pending_refunds r') \<le> owed (ledger r')" using del tot by linarith
    with fin' show ?thesis by (simp add: ledger_inv_def)
  qed
  show "ledger_exact (ledger r')" if "ledger_exact (ledger r)" "owed (ledger r) < 2 ^ 128"
    using that del tot fin' by (simp add: ledger_exact_def)
qed

text \<open>The two invariants are kept by the same operations: the ledger grows by one refund or
  loses the one that is claimed.\<close>

definition ledger_ok :: "bool \<Rightarrow> (account_id \<rightharpoonup> u128) \<times> u128 \<Rightarrow> bool" where
  "ledger_ok strict l \<longleftrightarrow> ledger_inv l \<and> (strict \<longrightarrow> ledger_exact l \<and> owed l < 2 ^ 128)"

definition ledger_kept :: "bool \<Rightarrow> (account_id \<rightharpoonup> u128) \<times> u128 \<Rightarrow> bool" where
  "ledger_kept strict l \<longleftrightarrow> ledger_inv l \<and> (strict \<longrightarrow> ledger_exact l)"

lemma ledger_ok_kept: "ledger_ok strict l \<Longrightarrow> ledger_kept strict l"
  by (simp add: ledger_ok_def ledger_kept_def)

lemma kept_add: "ledger_ok strict (ledger r) \<Longrightarrow> ledger_kept strict (ledger (add_pending_refund a n r))"
  by (simp add: ledger_ok_def ledger_kept_def add_refund_inv add_refund_exact)

lemma kept_excess: "ledger_ok strict (ledger r) \<Longrightarrow> ledger_kept strict (ledger (refund_excess p a n r))"
  by (auto simp: refund_excess_def Let_def kept_add intro: ledger_ok_kept)

lemma kept_claim:
  "ledger_ok strict (ledger r)
   \<Longrightarrow> ledger_kept strict (ledger (r\<lparr>r_pending_refunds := (r_pending_refunds r)(a := None),
         r_total_pending_refunds := sat_sub (r_total_pending_refunds r)
           (case r_pending_refunds r a of None \<Rightarrow> 0 | Some x \<Rightarrow> x)\<rparr>))"
  for r :: tla_registry
  using claim_ledger(2,3) [OF refl refl, of r a]
  by (auto simp: ledger_ok_def ledger_kept_def ledger_inv_def)

lemma kept_fail_mint:
  "ledger_ok strict (ledger r) \<Longrightarrow> ledger_kept strict (ledger (fst (settle_failed_mint key tla p n rs r)))"
  "ledger_ok strict (ledger r) \<Longrightarrow> ledger_kept strict (ledger (fst (settle_stranded_mint c key tla p n rs r)))"
  "ledger_ok strict (ledger r) \<Longrightarrow> ledger_kept strict (ledger (fst (fail_mint c b s rs r)))"
proof -
  show one: "ledger_kept strict (ledger (fst (settle_failed_mint key tla p n rs r)))"
    "ledger_kept strict (ledger (fst (settle_stranded_mint c key tla p n rs r)))"
    if "ledger_ok strict (ledger r)" for key tla p n rs and r :: tla_registry
    using that
    by (auto simp: settle_failed_mint_def settle_stranded_mint_def Let_def case_prod_unfold
        intro: ledger_ok_kept kept_add split: option.split)
  assume "ledger_ok strict (ledger r)"
  then show "ledger_kept strict (ledger (fst (fail_mint c b s rs r)))"
    by (auto simp: fail_mint_def Let_def case_prod_unfold intro!: one)
qed

lemmas kept_ops = kept_add kept_excess kept_claim kept_fail_mint

lemma rental_ledger:
  "ledger_ok st (ledger r) \<Longrightarrow> res_all (\<lambda>y. ledger_kept st (ledger (fst y))) (rental_exec lib c x r)"
  by (cases x; simp only: rental_exec.simps rental_defs Let_def case_prod_unfold; (intro res_walk)?)
    (auto intro!: kept_ops intro: ledger_ok_kept split: if_splits)

lemma business_ledger:
  "ledger_ok st (ledger r) \<Longrightarrow> res_all (\<lambda>y. ledger_kept st (ledger (fst y))) (business_exec lib c x r)"
  by (cases x; simp only: business_exec.simps business_defs rental_defs Let_def case_prod_unfold;
      (intro res_walk)?)
    (auto intro!: kept_ops intro: ledger_ok_kept split: if_splits option.splits)

lemma market_ledger:
  "ledger_ok st (ledger r) \<Longrightarrow> res_all (\<lambda>y. ledger_kept st (ledger (fst y))) (market_exec lib c x r)"
  by (cases x; simp only: market_exec.simps market_defs Let_def case_prod_unfold; (intro res_walk)?)
    (auto intro!: kept_ops intro: ledger_ok_kept split: if_splits)

lemma admin_ledger:
  "ledger_ok st (ledger r) \<Longrightarrow> res_all (\<lambda>y. ledger_kept st (ledger (fst y))) (admin_exec lib c x r)"
  by (cases x; simp only: admin_exec.simps admin_defs Let_def case_prod_unfold; (intro res_walk)?)
    (auto intro!: kept_ops intro: ledger_ok_kept split: if_splits)

end
