(* ===== verification/Registry_Inv.thy ===== *)
theory Registry_Inv
  imports Registry_Names Registry_Activity Registry_Governance Registry_Ledger
begin

text \<open>
  The registry's invariant and its two machines: every run, and the runs in which the refunds
  owed stay below \<open>2\<^sup>1\<^sup>2\<^sup>8\<close> yocto, where the ledger is exact.
\<close>

definition registry_inv :: "bool \<Rightarrow> account_id \<Rightarrow> u64 \<Rightarrow> tla_registry \<Rightarrow> bool" where
  "registry_inv strict self t r \<longleftrightarrow>
     gov_inv self t r \<and> names_inv (names r) \<and> ring_inv (activity_ring r)
     \<and> ledger_ok strict (ledger r)"

definition solvent_step ::
    "registry_lib \<Rightarrow> account_id \<Rightarrow> u64 \<Rightarrow> tla_registry \<Rightarrow> tla_registry \<Rightarrow> bool" where
  "solvent_step lib self t r r' \<longleftrightarrow> registry_step lib self t r r' \<and> owed (ledger r') < 2 ^ 128"

lemma registry_inv_initial:
  assumes "registry_initial self t r"
  shows "registry_inv strict self t r"
proof -
  have "names r = (Map.empty, Map.empty, Map.empty) \<and> activity_ring r = ([], 0)
        \<and> ledger r = (Map.empty, 0)"
    using assms by (auto simp: registry_initial_def registry_new_def Let_def names_def
        activity_ring_def ledger_def)
  moreover have "names_inv (Map.empty, Map.empty, Map.empty)"
    by (simp add: names_inv_def kidx.mirrors_empty)
  moreover have "ring_inv ([], 0)" by (simp add: ring_inv_def ACTIVITY_CAPACITY_def)
  moreover have "ledger_ok strict (Map.empty, 0)"
    by (simp add: ledger_ok_def ledger_inv_def ledger_exact_def owed_def)
  ultimately show ?thesis using gov_inv_initial [OF assms] by (simp add: registry_inv_def)
qed

lemma exec_gov:
  assumes "registry_exec lib c x r = Inr (r', outs)" "gov_inv (current_account_id c) (block_timestamp c) r"
  shows "gov_inv (current_account_id c) (block_timestamp c) r'"
proof (cases x)
  case (Rental y)
  with assms show ?thesis using res_allD [OF rental_governance [of r lib c y]] gov_inv_cong [of r' r] by simp
next
  case (Biz y)
  with assms show ?thesis using res_allD [OF business_governance [of r lib c y]] gov_inv_cong [of r' r] by simp
next
  case (Market y)
  with assms show ?thesis using res_allD [OF market_governance [of r lib c y]] gov_inv_cong [of r' r] by simp
next
  case (Admin y)
  with assms show ?thesis using res_allD [OF admin_gov [OF assms(2) refl, of lib y]] by simp
qed

lemma exec_names:
  "registry_exec lib c x r = Inr (r', outs) \<Longrightarrow> names_inv (names r) \<Longrightarrow> names_inv (names r')"
  by (cases x) (auto dest: res_allD [OF rental_names] res_allD [OF business_names]
      res_allD [OF market_names] res_allD [OF admin_names])

lemma exec_ring:
  "registry_exec lib c x r = Inr (r', outs) \<Longrightarrow> ring_inv (activity_ring r)
   \<Longrightarrow> ring_inv (activity_ring r')"
  by (cases x) (auto dest: res_allD [OF rental_ring] res_allD [OF business_ring]
      res_allD [OF market_ring] res_allD [OF admin_ring])

lemma exec_ledger:
  "registry_exec lib c x r = Inr (r', outs) \<Longrightarrow> ledger_ok strict (ledger r)
   \<Longrightarrow> ledger_kept strict (ledger r')"
  by (cases x) (auto dest: res_allD [OF rental_ledger] res_allD [OF business_ledger]
      res_allD [OF market_ledger] res_allD [OF admin_ledger])

lemma registry_inv_step:
  assumes inv: "registry_inv strict self t r" and later: "t \<le> t'"
    and step: "registry_step lib self t' r r'" and small: "strict \<longrightarrow> owed (ledger r') < 2 ^ 128"
  shows "registry_inv strict self t' r'"
proof -
  obtain c x outs where 1: "t' = block_timestamp c" "current_account_id c = self"
    "registry_exec lib c x r = Inr (r', outs)"
    using step by (auto elim: registry_stepE)
  have "gov_inv self t' r" using inv later by (auto simp: registry_inv_def intro: gov_inv_mono)
  with 1 have "gov_inv self t' r'" using exec_gov [of lib c x r r' outs] by simp
  moreover have "names_inv (names r')" using inv 1 exec_names by (auto simp: registry_inv_def)
  moreover have "ring_inv (activity_ring r')" using inv 1 exec_ring by (auto simp: registry_inv_def)
  moreover have "ledger_ok strict (ledger r')"
    using inv 1 exec_ledger [of lib c x r r' outs strict] small
    by (auto simp: registry_inv_def ledger_kept_def ledger_ok_def)
  ultimately show ?thesis by (simp add: registry_inv_def)
qed

interpretation reg: contract_machine "registry_initial self" "registry_step lib self"
  "registry_inv False self" for lib self
  by unfold_locales (auto intro: registry_inv_initial registry_inv_step)

interpretation solv: contract_machine "registry_initial self" "solvent_step lib self"
  "registry_inv True self" for lib self
  by unfold_locales (auto simp: solvent_step_def intro: registry_inv_initial registry_inv_step)

end
