(* ===== verification/Registry_Demo.thy ===== *)
theory Registry_Demo
  imports Registry_Inv "HOL-Library.List_Lexorder" "HOL-Library.Char_ord"
begin

text \<open>
  A concrete run of the registry: it is deployed, a rate is set, the open namespace \<open>tla\<close> is
  registered and activated, and \<open>alice\<close> rents \<open>alices.tla\<close>, whose account is then created. The
  states of this run are where the properties' hypotheses are met.
\<close>

definition demo_rlib :: registry_lib where
  "demo_rlib = \<lparr>rl_parse = Some, rl_iter = sorted_list_of_set,
     rl_u128_json = (\<lambda>bs. if bs = [1] then Some 0 else if bs = [2] then Some 7 else None),
     rl_sha256 = (\<lambda>bs. bs)\<rparr>"

definition demo_rc :: "account_id \<Rightarrow> u64 \<Rightarrow> u128 \<Rightarrow> ctx" where
  "demo_rc who now deposit =
     \<lparr>predecessor_account_id = who, current_account_id = ''reg'', block_timestamp = now,
      block_height = 1, attached_deposit = deposit,
      account_balance = 1000000000000000000000000000,
      storage_byte_cost = 1, storage_usage = 1000, prepaid_gas = tgas 300, used_gas = 0,
      promise_results = []\<rparr>"

definition demo_r0 :: tla_registry where
  "demo_r0 = projr (registry_new (demo_rc ''deployer'' 5 0) False ''admin'' ''ext'' 2592000000000000
                      ''treasury'' ''council'' None)"

definition demo_tla :: tla_entry where
  "demo_tla = \<lparr>te_tla_type = Open, te_status = TlaActiveSt, te_licensee = None,
     te_premium_category = Standard, te_activated_at = 8, te_expires_at = 31536000000000008\<rparr>"

definition demo_sub :: sub_account_entry where
  "demo_sub = \<lparr>sa_owner = ''alice'', sa_tla_id = ''tla'', sa_payout_account = ''alice'',
     sa_rented_at = 9, sa_expires_at = 31536000000000009, sa_retraction_at = None\<rparr>"

definition demo_r1 :: tla_registry where
  "demo_r1 = demo_r0\<lparr>r_near_usd_rate_micro := 5000000, r_rate_updated_at := 6, r_rate_sequence := 1\<rparr>"

definition demo_r2 :: tla_registry where
  "demo_r2 = demo_r1\<lparr>r_tlas := [''tla'' \<mapsto> demo_tla\<lparr>te_status := TlaRegisteredSt,
     te_activated_at := 0, te_expires_at := 0\<rparr>]\<rparr>"

definition demo_r3 :: tla_registry where
  "demo_r3 = demo_r1\<lparr>r_tlas := [''tla'' \<mapsto> demo_tla]\<rparr>"

definition demo_r4 :: tla_registry where
  "demo_r4 = demo_r3\<lparr>r_sub_accounts := [''alices.tla'' \<mapsto> demo_sub],
     r_sub_accounts_by_owner := [''alice'' \<mapsto> {''alices.tla''}],
     r_sub_accounts_by_tla := [''tla'' \<mapsto> {''alices.tla''}]\<rparr>"

lemma demo_r0_eq: "registry_new (demo_rc ''deployer'' 5 0) False ''admin'' ''ext'' 2592000000000000
                      ''treasury'' ''council'' None = Inr demo_r0"
  by (simp add: demo_r0_def registry_new_def demo_rc_def no_deposit_def Let_def
      MIN_GRACE_PERIOD_NS_def MIN_LEASE_TERM_NS_def MAX_LEASE_TERM_NS_def
      PRODUCTION_LEASE_TERM_NS_def ONE_YEAR_NS_def)

lemmas demo_state = demo_r0_def demo_r1_def demo_r2_def demo_r3_def demo_r4_def demo_tla_def
  demo_sub_def

lemma demo_r0_simps [simp]:
  "r_council demo_r0 = ''council''" "r_admins demo_r0 = {''admin''}"
  "r_near_usd_rate_micro demo_r0 = 0" "r_fee_config demo_r0 = default_fee_config"
  "r_tlas demo_r0 = Map.empty" "r_sub_accounts demo_r0 = Map.empty"
  "r_sub_accounts_by_owner demo_r0 = Map.empty" "r_sub_accounts_by_tla demo_r0 = Map.empty"
  "r_parked_names demo_r0 = Map.empty" "r_paused demo_r0 = False" "r_rate_sequence demo_r0 = 0"
  "r_lease_term_ns demo_r0 = 31536000000000000" "r_tla_terms demo_r0 = Map.empty"
  "r_suspended_until demo_r0 = Map.empty" "r_paid_order_ids demo_r0 = Map.empty"
  "r_pending_refunds demo_r0 = Map.empty" "r_total_pending_refunds demo_r0 = 0"
  "r_total_revenue demo_r0 = 0" "r_sub_account_count demo_r0 = 0"
  "r_treasury demo_r0 = ''treasury''" "r_price_oracle demo_r0 = ''admin''"
  "r_pending_council demo_r0 = None" "r_pending_council_at demo_r0 = None"
  "r_pending_treasury demo_r0 = None" "r_pending_treasury_at demo_r0 = None"
  "r_approved_code_hash demo_r0 = None" "r_approved_at demo_r0 = None"
  "r_upgrade_delay_ns demo_r0 = UPGRADE_DELAY_NS" "r_venues demo_r0 = {}"
  "r_ft_allowlist demo_r0 = {}" "r_reclaim_pending demo_r0 = {}"
  "r_hos_extension demo_r0 = ''ext''" "r_grace_period_ns demo_r0 = 2592000000000000"
  "r_unpaused_at demo_r0 = 0" "r_paused_until_ns demo_r0 = 0" "r_biz_resale demo_r0 = {}"
  "r_recent_activity demo_r0 = []" "r_activity_cursor demo_r0 = 0"
  "r_payment_authorities demo_r0 = {}" "r_recovery_authorities demo_r0 = {}"
  "r_marketplace_paused demo_r0 = False" "r_sweepable_tokens demo_r0 = {}"
  "r_authority_allowance demo_r0 = Map.empty" "r_authority_used demo_r0 = Map.empty"
  "r_business_sub_count demo_r0 = Map.empty" "r_business_sub_cap_override demo_r0 = Map.empty"
  "r_biz_whitelist demo_r0 = {}" "r_biz_claimed demo_r0 = {}"
  by (simp_all add: demo_r0_def registry_new_def demo_rc_def no_deposit_def Let_def
      MIN_GRACE_PERIOD_NS_def MIN_LEASE_TERM_NS_def MAX_LEASE_TERM_NS_def
      PRODUCTION_LEASE_TERM_NS_def ONE_YEAR_NS_def)

lemma demo_rc_simps [simp]:
  "predecessor_account_id (demo_rc w t d) = w" "current_account_id (demo_rc w t d) = ''reg''"
  "block_timestamp (demo_rc w t d) = t" "attached_deposit (demo_rc w t d) = d"
  "block_height (demo_rc w t d) = 1" "promise_results (demo_rc w t d) = []"
  by (simp_all add: demo_rc_def)

lemmas reg_guards = assert_one_yocto_r_def assert_private_r_def assert_not_payable_def
  assert_admin_def assert_council_def is_private_call_def no_deposit_def assert_not_paused_def
  effective_paused_def

lemma demo_step1: "registry_exec demo_rlib (demo_rc ''council'' 6 1) (Admin (AcInitialRate 5000000)) demo_r0
   = Inr (demo_r1, [RegEmit (NearUsdRateUpdated 0 5000000 1 ''council'')])"
  by (simp add: admin_set_initial_rate_def reg_guards commit_rate_def Let_def demo_r1_def
      default_fee_config_def)

lemma demo_step2: "registry_exec demo_rlib (demo_rc ''council'' 7 1)
     (Admin (AcRegisterTla ''tla'' Open Standard None)) demo_r1
   = Inr (demo_r2, [RegEmit (TlaRegistered ''tla'' Open Standard None)])"
  by (simp add: register_tla_def reg_guards check_registration_def write_registration_def Let_def
      demo_r1_def demo_r2_def demo_tla_def)

lemma demo_step3: "registry_exec demo_rlib (demo_rc ''admin'' 8 1) (Admin (AcActivateOpenTla ''tla'')) demo_r2
   = Inr (demo_r3, [RegEmit (TlaActivated ''tla'' 31536000000000008 0)])"
  by (simp add: activate_open_tla_def activate_one_open_def check_open_activation_def
      write_open_activation_def reg_guards Let_def demo_r1_def demo_r2_def demo_r3_def demo_tla_def
      sat_add_def ONE_YEAR_NS_def)

text \<open>The name costs 20 dollars times 3/2, six NEAR at five dollars, and its account 0.012
  NEAR; eight NEAR are attached.\<close>

lemma demo_rent:
  "calculate_rent demo_tla ''alices'' default_fee_config
     \<lparr>tt_allocation_fee_usd_micro = None, tt_tla_rent_usd_micro = None, tt_sub_fee_usd_micro = None\<rparr>
   = 30000000"
  by (simp add: calculate_rent_def demo_tla_def sub_account_rent_def base_rent_def
      default_fee_config_def USD_MICRO_PER_DOLLAR_def sat_mul_def)

lemma demo_price: "convert_usd_to_near (demo_rc w 9 d) 30000000 demo_r3 = Inr 6000000000000000000000000"
  by (simp add: convert_usd_to_near_def usd_to_near_Inr Let_def demo_r3_def demo_r1_def
      default_fee_config_def sat_sub_def MAX_USD_MICRO_def)

lemma demo_name: "validate_mintable_name ''tla'' ''alices'' = Inr ()"
  by (simp add: validate_mintable_name_def validate_name_def is_name_char_def is_separator_def
      total_name_length_def MIN_LABEL_LEN_def MAX_ACCOUNT_ID_LEN_def)

definition demo_settlement :: mint_settlement where
  "demo_settlement = \<lparr>ms_tla_id = ''tla'', ms_name = ''alices'', ms_owner = ''alice'',
     ms_payer = ''alice'', ms_rent_yocto = 6000000000000000000000000,
     ms_attached_yocto = 8000000000000000000000000, ms_order_id = None\<rparr>"

lemma demo_step4: "registry_exec demo_rlib (demo_rc ''alice'' 9 8000000000000000000000000)
     (Rental (RcRent ''tla'' ''alices'' None)) demo_r3
   = Inr (demo_r4, [RegCall (CreateSubAccount ''tla'' ''alices'' ''alice'' ''alice'' 31536000000000009
                       12000000000000000000000) (Some (On_sub_account_created demo_settlement))])"
proof -
  have key: "sub_account_key ''tla'' ''alices'' = ''alices.tla''" by (simp add: sub_account_key_def)
  have ok: "assert_accepting (demo_rc ''alice'' 9 8000000000000000000000000) ''tla'' ''alice'' demo_r3
            = Inr False"
    by (simp add: assert_accepting_def accepting_rentals_def demo_r3_def demo_r1_def demo_tla_def)
  have acc: "quote_rent (demo_rc ''alice'' 9 8000000000000000000000000) ''tla'' ''alices'' ''alice'' demo_r3
             = Inr (30000000, False)"
    using ok demo_rent by (simp add: quote_rent_def demo_r3_def demo_r1_def terms_for_def)
  have paused: "assert_not_paused (demo_rc ''alice'' 9 8000000000000000000000000) demo_r3 = Inr ()"
    by (simp add: reg_guards demo_r3_def demo_r1_def)
  show ?thesis
    by (simp add: rent_sub_account_def Let_def key acc paused demo_name demo_price
        resolve_rent_owner_def open_lease_def sub_account_insert_def index_add_def
        create_leased_account_def demo_settlement_def sat_add_def)
      (simp add: demo_r4_def demo_r3_def demo_r1_def demo_sub_def default_fee_config_def ONE_NEAR_def)
qed

text \<open>The account exists: the rent is booked, and what is left of the eight NEAR is owed back.\<close>

definition demo_r5 :: tla_registry where
  "demo_r5 = demo_r4\<lparr>r_sub_account_count := 1, r_total_revenue := 6000000000000000000000000,
     r_pending_refunds := [''alice'' \<mapsto> 1988000000000000000000000],
     r_total_pending_refunds := 1988000000000000000000000,
     r_recent_activity := [\<lparr>act_event = ''sub_account_rented'', act_account = ''alices.tla'',
       act_block_height = 1, act_block_timestamp = 10\<rparr>]\<rparr>"

lemma demo_charge:
  "refund_excess ''alice'' 8000000000000000000000000 6012000000000000000000000 r
   = add_pending_refund ''alice'' 1988000000000000000000000 r"
  by (simp add: refund_excess_def sat_sub_def)

lemma demo_record:
  "record_rental ''alices.tla'' ''alice'' 6000000000000000000000000 8000000000000000000000000 demo_r4
   = Inr (demo_r5\<lparr>r_recent_activity := []\<rparr>, 31536000000000009)"
proof -
  have "sat_add 6000000000000000000000000 (fc_account_creation_deposit_yocto (r_fee_config demo_r4))
        = 6012000000000000000000000"
    by (simp add: demo_r4_def demo_r3_def demo_r1_def default_fee_config_def ONE_NEAR_def sat_add_def)
  then show ?thesis
    by (simp add: record_rental_def demo_charge add_pending_refund_def sat_add_def demo_r5_def
        demo_r4_def demo_r3_def demo_r1_def demo_sub_def)
qed

lemma activity_rented:
  "activity_entry (SubAccountRented n t o1 y e) = Some (''sub_account_rented'', n)"
  by (simp add: activity_entry_def)

lemma demo_step5: "registry_exec demo_rlib (demo_rc ''reg'' 10 0)
     (Rental (RcOnCreated demo_settlement (Inr MintActive))) demo_r4
   = Inr (demo_r5, [RegEmit (NftMint ''alice'' ''alices.tla''),
            RegEmit (SubAccountRented ''alices.tla'' ''tla'' ''alice'' 6000000000000000000000000
              31536000000000009)])"
proof -
  have key: "sub_account_key ''tla'' ''alices'' = ''alices.tla''" by (simp add: sub_account_key_def)
  have "emit_activity (demo_rc ''reg'' 10 0) (SubAccountRented ''alices.tla'' ''tla'' ''alice''
          6000000000000000000000000 31536000000000009) (demo_r5\<lparr>r_recent_activity := []\<rparr>)
      = (demo_r5, [RegEmit (SubAccountRented ''alices.tla'' ''tla'' ''alice''
          6000000000000000000000000 31536000000000009)])"
    by (simp add: emit_activity_def activity_rented push_activity_def Let_def ACTIVITY_CAPACITY_def
        demo_r5_def)
  then show ?thesis
    by (simp add: on_sub_account_created_def demo_settlement_def Let_def reg_guards key
        confirm_order_def demo_record)
qed

lemma solv_reg: "solv.reach self lib t r \<Longrightarrow> reg.reach self lib t r"
  by (induction rule: solv.reach.induct) (auto simp: solvent_step_def intro: reg.reach_init reg.reach_step)

lemma demo_owed:
  "owed (ledger demo_r1) = 0" "owed (ledger demo_r2) = 0" "owed (ledger demo_r3) = 0"
  "owed (ledger demo_r4) = 0" "owed (ledger demo_r5) = 1988000000000000000000000"
  by (simp_all add: owed_def demo_r1_def demo_r2_def demo_r3_def demo_r4_def demo_r5_def map_total_def)

lemma demo_solvent:
  "solv.reach ''reg'' demo_rlib 5 demo_r0" "solv.reach ''reg'' demo_rlib 6 demo_r1"
  "solv.reach ''reg'' demo_rlib 8 demo_r3" "solv.reach ''reg'' demo_rlib 9 demo_r4"
  "solv.reach ''reg'' demo_rlib 10 demo_r5"
proof -
  have step: "solvent_step demo_rlib ''reg'' t r r'"
    if "registry_exec demo_rlib (demo_rc w t d) x r = Inr (r', outs)" "owed (ledger r') < 2 ^ 128"
    for w t d x r r' outs
    using registry_step.call [of "demo_rc w t d" "''reg''" demo_rlib x r r' outs] that
    by (simp add: solvent_step_def)
  have "registry_initial ''reg'' 5 demo_r0"
    unfolding registry_initial_def using demo_r0_eq demo_rc_simps(2,3) by metis
  then show r0: "solv.reach ''reg'' demo_rlib 5 demo_r0" by (rule solv.reach_init)
  show r1: "solv.reach ''reg'' demo_rlib 6 demo_r1"
    by (rule solv.reach_step [OF r0 _ step [OF demo_step1]]) (simp_all add: demo_owed)
  have r2: "solv.reach ''reg'' demo_rlib 7 demo_r2"
    by (rule solv.reach_step [OF r1 _ step [OF demo_step2]]) (simp_all add: demo_owed)
  show r3: "solv.reach ''reg'' demo_rlib 8 demo_r3"
    by (rule solv.reach_step [OF r2 _ step [OF demo_step3]]) (simp_all add: demo_owed)
  show r4: "solv.reach ''reg'' demo_rlib 9 demo_r4"
    by (rule solv.reach_step [OF r3 _ step [OF demo_step4]]) (simp_all add: demo_owed)
  show "solv.reach ''reg'' demo_rlib 10 demo_r5"
    by (rule solv.reach_step [OF r4 _ step [OF demo_step5]]) (simp_all add: demo_owed)
qed

lemmas demo_reach = demo_solvent [THEN solv_reg]

end
