(* ===== verification/Timelock.thy ===== *)
theory Timelock
  imports Near_Env
begin

text \<open>
  A change that must be announced: it is approved at one time and may be carried out a fixed
  delay later. The locale states what a contract proves about single calls, and gives the
  delay between approval and change over any run.
\<close>

locale timelock = contract_machine initial step inv
  for initial :: "u64 \<Rightarrow> 's \<Rightarrow> bool" and step inv +
  fixes holder :: "'s \<Rightarrow> 'h"
    and approved_at :: "'s \<Rightarrow> u64 option"
    and delay :: u64
  assumes stamp: "inv t s \<Longrightarrow> step t s s' \<Longrightarrow>
      approved_at s' = approved_at s \<or> approved_at s' = None \<or> approved_at s' = Some t"
    and change: "inv t s \<Longrightarrow> step t s s' \<Longrightarrow> holder s' \<noteq> holder s \<Longrightarrow>
      \<exists>a. approved_at s = Some a \<and> sat_add a delay \<le> t"
    and inv_later: "inv t s \<Longrightarrow> t \<le> t' \<Longrightarrow> inv t' s"
begin

text \<open>If every approval that is open at the start of a run was given at \<open>t0\<close> or later, the
  holder does not change before \<open>t0 + delay\<close>.\<close>

lemma no_early_change:
  assumes run: "run t s t' s'" and inv: "inv t s" and t0: "t0 \<le> t"
    and open_from: "\<forall>a. approved_at s = Some a \<longrightarrow> t0 \<le> a"
    and changed: "holder s' \<noteq> holder s"
  shows "sat_add t0 delay \<le> t'"
proof -
  let ?P = "\<lambda>t1 s1. sat_add t0 delay \<le> t1
              \<or> holder s1 = holder s \<and> (\<forall>a. approved_at s1 = Some a \<longrightarrow> t0 \<le> a)"
  have "?P t' s'"
  proof (rule run_stable [OF run inv])
    show "?P t s" using open_from by simp
  next
    fix t1 s1 t2 s2
    assume t1: "t \<le> t1" and inv1: "inv t1 s1" and t2: "t1 \<le> t2" and step: "step t2 s1 s2" and P: "?P t1 s1"
    note inv2 = inv_later [OF inv1 t2]
    show "?P t2 s2"
    proof (cases "sat_add t0 delay \<le> t1")
      case True
      then show ?thesis using t2 by auto
    next
      case False
      with P have same: "holder s1 = holder s" and later: "\<forall>a. approved_at s1 = Some a \<longrightarrow> t0 \<le> a"
        by auto
      show ?thesis
      proof (cases "holder s2 = holder s1")
        case True
        moreover have "t0 \<le> t2" using t0 t1 t2 by auto
        ultimately show ?thesis using same later stamp [OF inv2 step] by auto
      next
        case False
        then obtain a where "approved_at s1 = Some a" "sat_add a delay \<le> t2"
          using change [OF inv2 step] by blast
        moreover from this later have "sat_add t0 delay \<le> sat_add a delay"
          by (intro sat_add_mono) auto
        ultimately show ?thesis by auto
      qed
    qed
  qed
  with changed show ?thesis by auto
qed

text \<open>Approvals that are open later were open at the start or given since.\<close>

lemma open_later:
  assumes run: "run t s t' s'" and inv: "inv t s" and t0: "t0 \<le> t"
    and open_from: "\<forall>a. approved_at s = Some a \<longrightarrow> t0 \<le> a"
  shows "\<forall>a. approved_at s' = Some a \<longrightarrow> t0 \<le> a"
proof (rule run_stable [where P = "\<lambda>_ s1. \<forall>a. approved_at s1 = Some a \<longrightarrow> t0 \<le> a", OF run inv open_from])
  fix t1 s1 t2 s2
  assume "t \<le> t1" "inv t1 s1" "t1 \<le> t2" "step t2 s1 s2" "\<forall>a. approved_at s1 = Some a \<longrightarrow> t0 \<le> a"
  then show "\<forall>a. approved_at s2 = Some a \<longrightarrow> t0 \<le> a"
    using stamp [OF inv_later, of t1 s1 t2 s2] t0 by force
qed

end

end
