(* ===== verification/Registry_Safety.thy ===== *)
theory Registry_Safety
  imports Registry_Demo Timelock
begin

text \<open>
  Who may change what in the registry, and when: the indexes of the names, the configuration,
  the timelocks, and what a call from outside cannot do.
\<close>

section \<open>Timelocks\<close>

text \<open>What one call may do to the council and the treasury.\<close>

definition lock_step :: "ctx \<Rightarrow> tla_registry \<Rightarrow> tla_registry \<Rightarrow> bool" where
  "lock_step c r r' \<longleftrightarrow>
     (r_pending_council_at r' = r_pending_council_at r \<or> r_pending_council_at r' = None
        \<or> r_pending_council_at r' = Some (block_timestamp c))
     \<and> (r_pending_treasury_at r' = r_pending_treasury_at r \<or> r_pending_treasury_at r' = None
        \<or> r_pending_treasury_at r' = Some (block_timestamp c))
     \<and> (r_council r' \<noteq> r_council r \<longrightarrow>
          r_pending_council r = Some (r_council r') \<and> predecessor_account_id c = r_council r'
          \<and> (\<exists>a. r_pending_council_at r = Some a
               \<and> sat_add a (r_upgrade_delay_ns r) \<le> block_timestamp c))
     \<and> (r_treasury r' \<noteq> r_treasury r \<longrightarrow>
          r_pending_treasury r = Some (r_treasury r') \<and> predecessor_account_id c = r_treasury r'
          \<and> (\<exists>a. r_pending_treasury_at r = Some a
               \<and> sat_add a (r_upgrade_delay_ns r) \<le> block_timestamp c))"

lemma lock_step_same: "governance r' = governance r \<Longrightarrow> lock_step c r r'"
  by (simp add: lock_step_def governance_def)

lemma admin_locks: "res_all (\<lambda>y. lock_step c r (fst y)) (admin_exec lib c x r)"
  by (cases x; simp only: admin_exec.simps admin_defs Let_def case_prod_unfold; (intro res_walk)?)
    ((rule lock_step_same, simp; fail)
     | (simp add: lock_step_def split: if_splits; fail))+

lemma exec_locks:
  assumes "registry_exec lib c x r = Inr (r', outs)"
  shows "lock_step c r r'"
proof (cases x)
  case (Rental y)
  with assms show ?thesis using res_allD [OF rental_governance [of r lib c y]] by (simp add: lock_step_same)
next
  case (Biz y)
  with assms show ?thesis using res_allD [OF business_governance [of r lib c y]] by (simp add: lock_step_same)
next
  case (Market y)
  with assms show ?thesis using res_allD [OF market_governance [of r lib c y]] by (simp add: lock_step_same)
next
  case (Admin y)
  with assms show ?thesis using res_allD [OF admin_locks [of c r lib y]] by simp
qed

lemma delay_fixed: "registry_inv strict self t r \<Longrightarrow> r_upgrade_delay_ns r = UPGRADE_DELAY_NS"
  by (simp add: registry_inv_def gov_inv_def locks_ok_def)

lemma registry_inv_later: "registry_inv strict self t r \<Longrightarrow> t \<le> t' \<Longrightarrow> registry_inv strict self t' r"
  by (auto simp: registry_inv_def intro: gov_inv_mono)

lemma step_locks:
  assumes "registry_inv strict self t r" "registry_step lib self t r r'"
  shows "r_pending_council_at r' = r_pending_council_at r \<or> r_pending_council_at r' = None
      \<or> r_pending_council_at r' = Some t"
    and "r_council r' \<noteq> r_council r \<Longrightarrow>
      \<exists>a. r_pending_council_at r = Some a \<and> sat_add a UPGRADE_DELAY_NS \<le> t"
    and "r_pending_treasury_at r' = r_pending_treasury_at r \<or> r_pending_treasury_at r' = None
      \<or> r_pending_treasury_at r' = Some t"
    and "r_treasury r' \<noteq> r_treasury r \<Longrightarrow>
      \<exists>a. r_pending_treasury_at r = Some a \<and> sat_add a UPGRADE_DELAY_NS \<le> t"
proof -
  obtain c x outs where "t = block_timestamp c" "registry_exec lib c x r = Inr (r', outs)"
    using assms(2) by (auto elim: registry_stepE)
  then have "lock_step c r r'" "t = block_timestamp c" using exec_locks by blast+
  then show "r_pending_council_at r' = r_pending_council_at r \<or> r_pending_council_at r' = None
      \<or> r_pending_council_at r' = Some t"
    and "r_council r' \<noteq> r_council r \<Longrightarrow>
      \<exists>a. r_pending_council_at r = Some a \<and> sat_add a UPGRADE_DELAY_NS \<le> t"
    and "r_pending_treasury_at r' = r_pending_treasury_at r \<or> r_pending_treasury_at r' = None
      \<or> r_pending_treasury_at r' = Some t"
    and "r_treasury r' \<noteq> r_treasury r \<Longrightarrow>
      \<exists>a. r_pending_treasury_at r = Some a \<and> sat_add a UPGRADE_DELAY_NS \<le> t"
    using delay_fixed [OF assms(1)] by (simp_all add: lock_step_def)
qed

interpretation council: timelock "registry_initial self" "registry_step lib self"
  "registry_inv False self" r_council r_pending_council_at UPGRADE_DELAY_NS for lib self
  by unfold_locales (auto dest: step_locks(1,2) intro: registry_inv_later)

interpretation treasury: timelock "registry_initial self" "registry_step lib self"
  "registry_inv False self" r_treasury r_pending_treasury_at UPGRADE_DELAY_NS for lib self
  by unfold_locales (auto dest: step_locks(3,4) intro: registry_inv_later)

text \<open>
  C29. Council and treasury rotations are timelocked over whole runs: from any reachable state
  in which every pending approval dates from \<open>t0\<close> or later, neither the council nor the treasury
  can be a different account before \<open>t0\<close> plus 48 hours, whatever calls are made.
\<close>

theorem rotation_timelock:
  assumes "reg.reach self lib t r" and "reg.run lib self t r t' r'" and "t0 \<le> t"
    and "\<forall>a. r_pending_council_at r = Some a \<longrightarrow> t0 \<le> a"
    and "\<forall>a. r_pending_treasury_at r = Some a \<longrightarrow> t0 \<le> a"
    and "r_council r' \<noteq> r_council r \<or> r_treasury r' \<noteq> r_treasury r"
  shows "sat_add t0 UPGRADE_DELAY_NS \<le> t'"
  using assms council.no_early_change [OF assms(2) reg.reach_inv [OF assms(1)] assms(3,4)]
    treasury.no_early_change [OF assms(2) reg.reach_inv [OF assms(1)] assms(3,5)] by blast

text \<open>The run of the witness: the council approves its successor at time 10, and the successor
  takes over 48 hours later.\<close>

definition demo_a :: tla_registry where
  "demo_a = demo_r0\<lparr>r_pending_council := Some ''council2'', r_pending_council_at := Some 10\<rparr>"

definition demo_b :: tla_registry where
  "demo_b = demo_a\<lparr>r_council := ''council2'', r_pending_council := None, r_pending_council_at := None\<rparr>"

lemma demo_rotation:
  "reg.run demo_rlib ''reg'' 5 demo_r0 172800000000010 demo_b"
proof -
  have a: "registry_exec demo_rlib (demo_rc ''council'' 10 1) (Admin (AcApproveCouncil ''council2'')) demo_r0
     = Inr (demo_a, [RegEmit (CouncilRotationApproved ''council2'' ''council'')])"
    by (simp add: approve_council_rotation_def reg_guards demo_a_def)
  have b: "registry_exec demo_rlib (demo_rc ''council2'' 172800000000010 1) (Admin AcCommitCouncil) demo_a
     = Inr (demo_b, [RegEmit (CouncilRotated ''council2'' ''council2'')])"
    by (simp add: commit_council_rotation_def reg_guards demo_a_def demo_b_def UPGRADE_DELAY_NS_def
        sat_add_def)
  have "registry_step demo_rlib ''reg'' 10 demo_r0 demo_a"
    using registry_step.call [OF _ a] by simp
  then have 1: "reg.run demo_rlib ''reg'' 5 demo_r0 10 demo_a"
    by (intro reg.run_step [OF reg.run_refl]) simp_all
  have "registry_step demo_rlib ''reg'' 172800000000010 demo_a demo_b"
    using registry_step.call [OF _ b] by simp
  then show ?thesis by (intro reg.run_step [OF 1]) simp_all
qed

theorem rotation_timelock_witness:
  "r_council demo_b \<noteq> r_council demo_r0 \<and> sat_add 5 UPGRADE_DELAY_NS \<le> 172800000000010"
proof -
  have "r_council demo_b \<noteq> r_council demo_r0" by (simp add: demo_b_def)
  then show ?thesis
    using rotation_timelock [OF demo_reach(1) demo_rotation, of 5] by simp
qed

section \<open>Names and indexes\<close>

text \<open>
  C11. In every reachable state the two indexes are exact: the keys listed under an owner or
  under a namespace are precisely the registered names with that owner or in that namespace,
  no index entry is an empty set, the registry holds finitely many names, and the supply of an
  owner is the number of names it owns.
\<close>

theorem registry_index_exact:
  assumes "reg.reach self lib t r"
  shows "index_keys (r_sub_accounts_by_owner r) a
           = {key. \<exists>s. r_sub_accounts r key = Some s \<and> sa_owner s = a}
       \<and> index_keys (r_sub_accounts_by_tla r) a
           = {key. \<exists>s. r_sub_accounts r key = Some s \<and> sa_tla_id s = a}
       \<and> r_sub_accounts_by_owner r a \<noteq> Some {} \<and> r_sub_accounts_by_tla r a \<noteq> Some {}
       \<and> finite (dom (r_sub_accounts r))
       \<and> owner_supply a r = card {key. \<exists>s. r_sub_accounts r key = Some s \<and> sa_owner s = a}"
proof -
  have inv: "names_inv (names r)" using reg.reach_inv [OF assms] by (simp add: registry_inv_def)
  then have o1: "kidx.mirrors sa_owner (r_sub_accounts_by_owner r) (r_sub_accounts r)"
    and t1: "kidx.mirrors sa_tla_id (r_sub_accounts_by_tla r) (r_sub_accounts r)"
    by (simp_all add: names_inv_iff)
  have "owner_supply a r = card (index_keys (r_sub_accounts_by_owner r) a)"
    by (simp add: owner_supply_def index_keys_def split: option.split)
  moreover have "index_keys (r_sub_accounts_by_owner r) a
           = {key. \<exists>s. r_sub_accounts r key = Some s \<and> sa_owner s = a}"
    and "index_keys (r_sub_accounts_by_tla r) a
           = {key. \<exists>s. r_sub_accounts r key = Some s \<and> sa_tla_id s = a}"
    using kidx.mirrors_keys [OF o1] kidx.mirrors_keys [OF t1] by auto
  ultimately show ?thesis
    using inv kidx.mirrors_ok [OF o1] kidx.mirrors_ok [OF t1]
    by (simp add: names_inv_iff index_ok_def)
qed

theorem registry_index_exact_witness:
  "index_keys (r_sub_accounts_by_owner demo_r4) ''alice'' = {''alices.tla''} \<and> owner_supply ''alice'' demo_r4 = 1"
  using registry_index_exact [OF demo_reach(4), of "''alice''"] by (auto simp: demo_r4_def demo_sub_def)

lemma dot_not_in_name: "validate_name name = Inr () \<Longrightarrow> CHR ''.'' \<notin> set name"
proof -
  have "\<not> is_name_char CHR ''.''" by (simp add: is_name_char_def)
  then show "validate_name name = Inr () \<Longrightarrow> CHR ''.'' \<notin> set name"
    by (auto simp: validate_name_def list_all_iff)
qed

lemma split_at_dot:
  "n1 @ CHR ''.'' # t1 = n2 @ CHR ''.'' # t2 \<Longrightarrow> CHR ''.'' \<notin> set n1 \<Longrightarrow> CHR ''.'' \<notin> set n2 \<Longrightarrow> n1 = n2 \<and> t1 = t2"
  by (induction n1 arbitrary: n2) (auto simp: Cons_eq_append_conv)

text \<open>
  A token id determines its namespace and its label: two valid labels give the same key
  only if they are the same label in the same namespace, and in every reachable state the key
  of a registered name splits back into the namespace recorded in its entry and a mintable
  label, so the NFT surface addresses exactly the registered names.
\<close>

theorem token_id_roundtrip:
  assumes "reg.reach self lib t r" and "r_sub_accounts r key = Some s"
    and "validate_name n1 = Inr ()" and "validate_name n2 = Inr ()"
    and "sub_account_key t1 n1 = sub_account_key t2 n2"
  shows "t1 = t2 \<and> n1 = n2
       \<and> (\<exists>name. split_token_id key r = Inr (sa_tla_id s, name)
            \<and> sub_account_key (sa_tla_id s) name = key
            \<and> validate_mintable_name (sa_tla_id s) name = Inr ())"
proof -
  have "name_ok key s"
    using reg.reach_inv [OF assms(1)] assms(2) by (simp add: registry_inv_def names_inv_iff)
  moreover have "strip_suffix key (''.'' @ sa_tla_id s) = Some name"
    if "key = sub_account_key (sa_tla_id s) name" for name
    using that by (simp add: sub_account_key_def strip_suffix_Some_iff)
  ultimately show ?thesis
    using split_at_dot [of n1 t1 n2 t2] assms(2-5) dot_not_in_name
    by (auto simp: name_ok_def split_token_id_def sub_account_key_def)
qed

theorem token_id_roundtrip_witness:
  "\<exists>name. split_token_id ''alices.tla'' demo_r4 = Inr (''tla'', name) \<and> sub_account_key ''tla'' name = ''alices.tla''"
proof -
  have "r_sub_accounts demo_r4 ''alices.tla'' = Some demo_sub" by (simp add: demo_r4_def)
  moreover have "validate_name ''alices'' = Inr ()"
    using demo_name by (simp add: validate_mintable_name_def)
  ultimately show ?thesis
    using token_id_roundtrip [OF demo_reach(4), of "''alices.tla''" demo_sub "''alices''" "''alices''"]
    by (auto simp: demo_sub_def)
qed

section \<open>Configuration\<close>

text \<open>
  C31. In every reachable state the configuration is sound: rent tiers descend and are not all
  zero, every fee is under the cap, the price band is not empty and has a positive floor, the
  rate is unset or inside the band, slippage and rate moves are at most 100 percent, the notice
  of a retraction is at least 24 hours, there is an admin, every authority set is within its
  bound, every gated token can be swept, lease terms are within their bounds, the timelock is
  48 hours, and the registry is not its own council, extension or venue.
\<close>

theorem registry_config_sound:
  assumes "reg.reach self lib t r"
  shows "fees_ok (r_fee_config r) \<and> rate_ok r \<and> sets_ok r
       \<and> MIN_LEASE_TERM_NS \<le> r_lease_term_ns r \<and> r_lease_term_ns r \<le> MAX_LEASE_TERM_NS
       \<and> MIN_GRACE_PERIOD_NS \<le> r_grace_period_ns r
       \<and> r_upgrade_delay_ns r = UPGRADE_DELAY_NS
       \<and> self \<noteq> r_council r \<and> self \<noteq> r_hos_extension r \<and> self \<notin> r_venues r"
  using reg.reach_inv [OF assms] by (auto simp: registry_inv_def gov_inv_def locks_ok_def)

theorem registry_config_sound_witness: "rate_ok demo_r1 \<and> r_near_usd_rate_micro demo_r1 = 5000000"
  using registry_config_sound [OF demo_reach(2)] by (simp add: demo_r1_def)

text \<open>What the council alone decides, what admins hold back with, and what nobody can change.\<close>

definition council_view where
  "council_view r =
     (r_admins r, r_fee_config r, r_payment_authorities r, r_recovery_authorities r, r_venues r,
      r_lease_term_ns r, r_sweepable_tokens r, r_approved_code_hash r, r_approved_at r,
      r_authority_allowance r)"

definition pause_view where
  "pause_view r = (r_paused r, r_paused_until_ns r, r_unpaused_at r, r_marketplace_paused r)"

definition fixed_view where
  "fixed_view r = (r_hos_extension r, r_grace_period_ns r, r_upgrade_delay_ns r)"

definition council_seat where
  "council_seat r = (r_council r, r_pending_council r, r_pending_council_at r)"

definition treasury_seat where
  "treasury_seat r = (r_treasury r, r_pending_treasury r, r_pending_treasury_at r)"

text \<open>A seat with its successor in waiting: the council names and withdraws the successor and
  leaves the holder in place; only the successor itself takes the seat, when the delay has passed.\<close>

fun seat_gate ::
    "ctx \<Rightarrow> tla_registry \<Rightarrow> account_id \<times> account_id option \<times> u64 option
     \<Rightarrow> account_id \<times> account_id option \<times> u64 option \<Rightarrow> bool" where
  "seat_gate c r (holder, pending, stamp) (holder', pending', stamp') \<longleftrightarrow>
     (holder', pending', stamp') = (holder, pending, stamp)
     \<or> holder' = holder \<and> predecessor_account_id c = r_council r
     \<or> pending = Some (predecessor_account_id c) \<and> holder' = predecessor_account_id c
        \<and> pending' = None \<and> stamp' = None
        \<and> (\<exists>a. stamp = Some a \<and> sat_add a (r_upgrade_delay_ns r) \<le> block_timestamp c)"

text \<open>The rate: the oracle moves a rate that is set, inside the band and no earlier than the
  cooldown allows; the council sets the first one.\<close>

definition rate_gate :: "ctx \<Rightarrow> tla_registry \<Rightarrow> tla_registry \<Rightarrow> bool" where
  "rate_gate c r r' \<longleftrightarrow>
     r_near_usd_rate_micro r' = r_near_usd_rate_micro r \<and> r_rate_updated_at r' = r_rate_updated_at r
     \<or> fc_min_near_usd_rate_micro (r_fee_config r) \<le> r_near_usd_rate_micro r'
        \<and> r_near_usd_rate_micro r' \<le> fc_max_near_usd_rate_micro (r_fee_config r)
        \<and> r_rate_updated_at r' = block_timestamp c
        \<and> (if r_near_usd_rate_micro r = 0 then predecessor_account_id c = r_council r
           else predecessor_account_id c = r_price_oracle r
             \<and> sat_add (r_rate_updated_at r) (fc_rate_update_cooldown_ns (r_fee_config r))
                 \<le> block_timestamp c)"

definition gate :: "ctx \<Rightarrow> tla_registry \<Rightarrow> tla_registry \<Rightarrow> bool" where
  "gate c r r' \<longleftrightarrow>
     (council_view r' \<noteq> council_view r \<longrightarrow> predecessor_account_id c = r_council r)
     \<and> seat_gate c r (council_seat r) (council_seat r')
     \<and> seat_gate c r (treasury_seat r) (treasury_seat r')
     \<and> rate_gate c r r'
     \<and> (r_price_oracle r' \<noteq> r_price_oracle r \<longrightarrow> predecessor_account_id c \<in> r_admins r)
     \<and> (pause_view r' \<noteq> pause_view r \<longrightarrow> predecessor_account_id c \<in> r_admins r)
     \<and> (\<not> r_ft_allowlist r' \<subseteq> r_ft_allowlist r \<longrightarrow> predecessor_account_id c = r_council r)
     \<and> (\<not> r_ft_allowlist r \<subseteq> r_ft_allowlist r' \<longrightarrow> predecessor_account_id c \<in> r_admins r)
     \<and> fixed_view r' = fixed_view r"

lemmas gate_defs = gate_def council_view_def pause_view_def fixed_view_def council_seat_def
  treasury_seat_def rate_gate_def

lemma gate_same: "governance r' = governance r \<Longrightarrow> gate c r r'"
  by (simp add: gate_defs governance_def)

lemma band_kept:
  "rate_within_bounds cur new m lo hi = Inr True \<Longrightarrow> lo \<le> new \<and> new \<le> hi"
  by (auto simp: rate_within_bounds_def not_less split: if_splits)

lemma admin_gate: "res_all (\<lambda>y. gate c r (fst y)) (admin_exec lib c x r)"
  by (cases x; simp only: admin_exec.simps admin_defs Let_def case_prod_unfold; (intro res_walk)?)
    ((rule gate_same, simp; fail)
     | (auto simp: gate_defs assert_council_def assert_admin_def dest: band_kept; fail))+

lemma exec_gate:
  assumes "registry_exec lib c x r = Inr (r', outs)"
  shows "gate c r r'"
proof (cases x)
  case (Rental y)
  with assms show ?thesis using res_allD [OF rental_governance [of r lib c y]] by (simp add: gate_same)
next
  case (Biz y)
  with assms show ?thesis using res_allD [OF business_governance [of r lib c y]] by (simp add: gate_same)
next
  case (Market y)
  with assms show ?thesis using res_allD [OF market_governance [of r lib c y]] by (simp add: gate_same)
next
  case (Admin y)
  with assms show ?thesis using res_allD [OF admin_gate [of c r lib y]] by simp
qed

text \<open>
  C30. Who may change which part of the governance, whatever the call. The admins, the fees, the
  authority and venue sets, the mint allowances, the lease term, the sweepable tokens and the approved
  code change only on a call of the council. The successors of council and treasury are named
  and withdrawn by the council alone, which leaves the seat as it is; the seat itself changes only to the
  named successor, on its own call, after the delay. A rate that is set is moved only by
  the price oracle, after the cooldown, and the first rate is set only by the council; either
  lies in the band. Only an admin changes the price oracle, pauses or ends a pause, or takes a
  token off the gate, and only the council puts one on it. Nobody changes the extension, the
  grace period or the length of the timelock.
\<close>

theorem governance_gate:
  assumes "registry_exec lib c x r = Inr (r', outs)"
  shows "(council_view r' \<noteq> council_view r \<longrightarrow> predecessor_account_id c = r_council r)
       \<and> seat_gate c r (council_seat r) (council_seat r')
       \<and> seat_gate c r (treasury_seat r) (treasury_seat r')
       \<and> rate_gate c r r'
       \<and> (r_price_oracle r' \<noteq> r_price_oracle r \<longrightarrow> predecessor_account_id c \<in> r_admins r)
       \<and> (pause_view r' \<noteq> pause_view r \<longrightarrow> predecessor_account_id c \<in> r_admins r)
       \<and> (\<not> r_ft_allowlist r' \<subseteq> r_ft_allowlist r \<longrightarrow> predecessor_account_id c = r_council r)
       \<and> (\<not> r_ft_allowlist r \<subseteq> r_ft_allowlist r' \<longrightarrow> predecessor_account_id c \<in> r_admins r)
       \<and> fixed_view r' = fixed_view r"
  using exec_gate [OF assms] by (simp add: gate_def)

theorem governance_gate_witness:
  "r_near_usd_rate_micro demo_r1 \<noteq> r_near_usd_rate_micro demo_r0 \<and> rate_gate (demo_rc ''council'' 6 1) demo_r0 demo_r1"
proof -
  have "r_near_usd_rate_micro demo_r1 \<noteq> r_near_usd_rate_micro demo_r0" by (simp add: demo_r1_def)
  then show ?thesis using governance_gate [OF demo_step1] by simp
qed

section \<open>What leaves the registry\<close>

text \<open>The NEAR a promise carries, and the NEAR all promises of a call carry together.\<close>

fun near_out :: "reg_remote \<Rightarrow> nat" where
  "near_out (TransferNear _ n) = unat n"
| "near_out (CreateSubAccount _ _ _ _ _ d) = unat d"
| "near_out (CallExtension _ (Ext_sweep_ft _ _ _ n)) = unat n"
| "near_out (CallExtension _ (Ext_re_rent _ _ _ _ n)) = unat n"
| "near_out _ = 0"

fun near_sent :: "reg_out list \<Rightarrow> nat" where
  "near_sent [] = 0"
| "near_sent (RegEmit _ # outs) = near_sent outs"
| "near_sent (RegCall rm _ # outs) = near_out rm + near_sent outs"

lemma near_sent_append [simp]: "near_sent (xs @ ys) = near_sent xs + near_sent ys"
  by (induction xs rule: near_sent.induct) simp_all

definition near_door :: "ctx \<Rightarrow> tla_registry \<Rightarrow> reg_out list \<Rightarrow> bool" where
  "near_door c r outs \<longleftrightarrow>
     near_sent outs = 0
     \<or> (\<exists>n cb. RegCall (TransferNear (predecessor_account_id c) n) cb \<in> set outs \<and> near_sent outs = unat n)
     \<or> (\<exists>t n o1 p x d cb. RegCall (CreateSubAccount t n o1 p x d) cb \<in> set outs
          \<and> d = fc_account_creation_deposit_yocto (r_fee_config r) \<and> d \<le> attached_deposit c
          \<and> near_sent outs = unat d)
     \<or> (\<exists>e a ft n cb. RegCall (CallExtension e (Ext_sweep_ft a ft (predecessor_account_id c) n)) cb \<in> set outs
          \<and> n = SWEEP_ATTACHED_REQUIRED \<and> n \<le> attached_deposit c \<and> near_sent outs = unat n)
     \<or> (\<exists>e a o1 p x cb. RegCall (CallExtension e (Ext_re_rent a o1 p x 1)) cb \<in> set outs \<and> near_sent outs = 1)"

lemma near_door_quiet: "near_sent outs = 0 \<Longrightarrow> near_door c r outs"
  by (simp add: near_door_def)

lemma near_sent_fanout: "ft_balance_fanout al a = Some chain \<Longrightarrow> near_out chain = 0"
  by (auto simp: ft_balance_fanout_def split: list.splits)

lemma near_sent_helpers [simp]:
  "near_sent (snd (emit_activity c ev r)) = 0" "near_sent (snd (record_authority_mint a t r)) = 0"
  "near_sent (snd (release_order oi k p t r)) = 0" "near_sent (snd (confirm_order oi k p r)) = 0"
  "near_sent (snd (settle_failed_mint k t p n rs r)) = 0" "near_sent (snd (fail_mint c b s rs r)) = 0"
  "near_sent (snd (reclaim_blocked k tk rs r)) = 0"
  "near_sent [park_wallet a t nm d r] = 0" "near_sent [dispatch_rotation a rot r] = 0"
  "near_sent [dispatch_transfer_call a ca r] = 0"
  "near_sent [dispatch_sub_account_transfer a t nm f o1 cs r] = 0"
  "near_sent [retract_wallet_lease e a x] = 0" "near_sent [retract_wallet_lease_pending e a x k d] = 0"
  "near_sent [restore_wallet_lease e a x k d] = 0"
  by (auto simp: helper_defs park_wallet_def dispatch_rotation_def dispatch_transfer_call_def
      dispatch_sub_account_transfer_def retract_wallet_lease_def retract_wallet_lease_pending_def
      restore_wallet_lease_def stale_order_def split: option.split prod.split if_splits)

lemma near_doorI:
  "RegCall (TransferNear (predecessor_account_id c) n) cb \<in> set outs \<Longrightarrow> near_sent outs = unat n
   \<Longrightarrow> near_door c r outs"
  "RegCall (CreateSubAccount t nm o1 p x d) cb \<in> set outs
   \<Longrightarrow> d = fc_account_creation_deposit_yocto (r_fee_config r) \<Longrightarrow> d \<le> attached_deposit c
   \<Longrightarrow> near_sent outs = unat d \<Longrightarrow> near_door c r outs"
  "RegCall (CallExtension e (Ext_sweep_ft a ft (predecessor_account_id c) n)) cb \<in> set outs
   \<Longrightarrow> n = SWEEP_ATTACHED_REQUIRED \<Longrightarrow> n \<le> attached_deposit c \<Longrightarrow> near_sent outs = unat n
   \<Longrightarrow> near_door c r outs"
  "RegCall (CallExtension e (Ext_re_rent a o1 p x 1)) cb \<in> set outs \<Longrightarrow> near_sent outs = 1
   \<Longrightarrow> near_door c r outs"
  unfolding near_door_def by blast+

lemma near_door_create:
  assumes "near_sent outs = 0" "r_fee_config r' = r_fee_config r"
    and "fc_account_creation_deposit_yocto (r_fee_config r) \<le> attached_deposit c"
  shows "near_door c r (outs @ [RegCall (create_leased_account t n o1 p x r') cb])"
  by (rule near_doorI(2)) (use assms in \<open>auto simp: create_leased_account_def\<close>)

lemma near_door_re_rented:
  assumes "near_sent outs = 0"
  shows "near_door c r (outs @ [re_rent_transfer e pr])"
  by (rule near_doorI(4)) (use assms in \<open>auto simp: re_rent_transfer_def\<close>)

lemma near_door_re_rent:
  assumes "near_sent outs = 0"
  shows "near_door c r (outs @ [start_re_rent lib pr r'])"
proof (cases "ft_balance_fanout (rl_iter lib (r_ft_allowlist r')) (pr_sub_account pr)")
  case None
  with near_door_re_rented [OF assms] show ?thesis by (simp add: start_re_rent_def)
next
  case (Some chain)
  with assms show ?thesis
    by (intro near_door_quiet) (simp add: start_re_rent_def near_sent_fanout)
qed

lemma fee_helpers [simp]:
  "r_fee_config (fst (open_lease c k t o1 p r)) = r_fee_config r"
  "r_fee_config (fst (record_authority_mint a t r)) = r_fee_config r"
  by (simp_all add: helper_defs split: option.split)

lemma fee_bump: "business_count_check_and_bump t r = Inr r' \<Longrightarrow> r_fee_config r' = r_fee_config r"
  by (auto simp: business_count_check_and_bump_def)

lemma sat_add_le: "sat_add a b \<le> n \<Longrightarrow> b \<le> (n :: u128)"
  using unat_le_max [of b] by (simp add: word_le_nat_alt unat_sat_add min_def split: if_splits)

lemma quiet_transferable:
  "assert_transferable lib c t n o1 r = Inr (a, b, outs) \<Longrightarrow> near_sent outs = 0"
  by (auto simp: assert_transferable_def Let_def split: if_splits)

lemma quiet_open_nft:
  "open_nft_transfer lib c rc tk ap r = Inr (a, b, d, e, outs) \<Longrightarrow> near_sent outs = 0"
  by (auto simp: open_nft_transfer_def dest: quiet_transferable)

lemmas near_walk = near_door_re_rent near_door_re_rented near_door_create
lemmas near_rules = near_walk near_walk [where outs = "[]", simplified]
  near_walk [where outs = "xs @ [RegEmit e]" for xs e, simplified]

lemma rental_near: "res_all (\<lambda>y. near_door c r (snd y)) (rental_exec lib c x r)"
  by (cases x; simp only: rental_exec.simps rental_defs Let_def case_prod_unfold; (intro res_walk)?)
    ((rule near_door_quiet, auto split: if_splits; fail)
     | (auto intro!: near_rules dest: fee_bump sat_add_le split: if_splits; fail))+

lemma business_near: "res_all (\<lambda>y. near_door c r (snd y)) (business_exec lib c x r)"
  by (cases x; simp only: business_exec.simps business_defs rental_defs Let_def case_prod_unfold;
      (intro res_walk)?)
    ((rule near_door_quiet, auto dest: near_sent_fanout split: if_splits option.splits; fail)
     | (auto intro!: near_rules dest: fee_bump split: if_splits option.splits; fail)
     | (rule near_doorI(3), auto; fail))+

lemma market_near: "res_all (\<lambda>y. near_door c r (snd y)) (market_exec lib c x r)"
  by (cases x; simp only: market_exec.simps market_defs Let_def case_prod_unfold; (intro res_walk)?)
    ((rule near_door_quiet, auto dest: near_sent_fanout quiet_transferable quiet_open_nft split: if_splits; fail)
     | (auto dest: near_sent_fanout quiet_transferable quiet_open_nft intro!: near_door_quiet split: if_splits; fail))+

lemma admin_near: "res_all (\<lambda>y. near_door c r (snd y)) (admin_exec lib c x r)"
  by (cases x; simp only: admin_exec.simps admin_defs Let_def case_prod_unfold; (intro res_walk)?)
    ((rule near_door_quiet, auto split: if_splits; fail)
     | (rule near_doorI(1), auto split: if_splits; fail))+

lemma exec_near: "registry_exec lib c x r = Inr (r', outs) \<Longrightarrow> near_door c r outs"
  by (cases x) (auto dest: res_allD [OF rental_near] res_allD [OF business_near]
      res_allD [OF market_near] res_allD [OF admin_near])

definition privileged_remote :: "reg_remote \<Rightarrow> bool" where
  "privileged_remote rm \<longleftrightarrow>
     (case rm of TransferNear _ _ \<Rightarrow> True | DeployAndMigrate _ \<Rightarrow> True | DeleteKey _ \<Rightarrow> True | _ \<Rightarrow> False)"

definition plain :: "reg_out list \<Rightarrow> bool" where
  "plain outs \<longleftrightarrow> (\<forall>rm cb. RegCall rm cb \<in> set outs \<longrightarrow> \<not> privileged_remote rm)"

lemma plain_simps [simp]:
  "plain []" "plain (RegEmit e # outs) = plain outs"
  "plain (RegCall rm cb # outs) \<longleftrightarrow> \<not> privileged_remote rm \<and> plain outs"
  "plain (xs @ ys) \<longleftrightarrow> plain xs \<and> plain ys"
  by (auto simp: plain_def)

lemma privileged_simps [simp]:
  "\<not> privileged_remote (CallExtension a e)" "\<not> privileged_remote (CreateSubAccount t n o1 p x d)"
  "\<not> privileged_remote (FtBalances al a)" "\<not> privileged_remote (NftOnTransfer a b k m)"
  by (simp_all add: privileged_remote_def)

lemma plain_fanout: "ft_balance_fanout al a = Some chain \<Longrightarrow> \<not> privileged_remote chain"
  by (auto simp: ft_balance_fanout_def split: list.splits)

lemma plain_helpers [simp]:
  "plain (snd (emit_activity c ev r))" "plain (snd (record_authority_mint a t r))"
  "plain (snd (release_order oi k p t r))" "plain (snd (confirm_order oi k p r))"
  "plain (snd (settle_failed_mint k t p n rs r))" "plain (snd (fail_mint c b s rs r))"
  "plain (snd (reclaim_blocked k tk rs r))" "plain [re_rent_transfer e pr]"
  "plain [start_re_rent lib pr r]" "plain [park_wallet a t nm d r]"
  "plain [dispatch_rotation a rot r]" "plain [dispatch_transfer_call a ca r]"
  "plain [dispatch_sub_account_transfer a t nm f o1 cs r]"
  "plain [retract_wallet_lease e a x]" "plain [retract_wallet_lease_pending e a x k d]"
  "plain [restore_wallet_lease e a x k d]" "\<not> privileged_remote (create_leased_account t nm o1 p x r)"
  by (auto simp: helper_defs re_rent_transfer_def start_re_rent_def park_wallet_def
      dispatch_rotation_def dispatch_transfer_call_def dispatch_sub_account_transfer_def
      retract_wallet_lease_def retract_wallet_lease_pending_def restore_wallet_lease_def
      create_leased_account_def stale_order_def
      dest: plain_fanout split: option.split prod.split if_splits)

lemma plain_transferable:
  "assert_transferable lib c t n o1 r = Inr (a, b, outs) \<Longrightarrow> plain outs"
  by (auto simp: assert_transferable_def Let_def split: if_splits)

lemma plain_open_nft:
  "open_nft_transfer lib c rc tk ap r = Inr (a, b, d, e, outs) \<Longrightarrow> plain outs"
  by (auto simp: open_nft_transfer_def dest: plain_transferable)

lemma rental_plain: "res_all (\<lambda>y. plain (snd y)) (rental_exec lib c x r)"
  by (cases x; simp only: rental_exec.simps rental_defs Let_def case_prod_unfold; (intro res_walk)?)
    (auto split: if_splits)

lemma business_plain: "res_all (\<lambda>y. plain (snd y)) (business_exec lib c x r)"
  by (cases x; simp only: business_exec.simps business_defs rental_defs Let_def case_prod_unfold;
      (intro res_walk)?)
    (auto dest: plain_fanout split: if_splits option.splits)

lemma market_plain: "res_all (\<lambda>y. plain (snd y)) (market_exec lib c x r)"
  by (cases x; simp only: market_exec.simps market_defs Let_def case_prod_unfold; (intro res_walk)?)
    (auto dest: plain_fanout plain_transferable plain_open_nft split: if_splits)

definition doors :: "registry_lib \<Rightarrow> ctx \<Rightarrow> tla_registry \<Rightarrow> tla_registry \<times> reg_out list \<Rightarrow> bool" where
  "doors lib c r y \<longleftrightarrow>
     (\<forall>a n cb. RegCall (TransferNear a n) cb \<in> set (snd y) \<longrightarrow>
        a = predecessor_account_id c \<and> r_pending_refunds r a = Some n \<and> n \<noteq> 0
        \<and> r_pending_refunds (fst y) a = None \<and> cb = Some (On_claim_refund_settled a n))
     \<and> (\<forall>code cb. RegCall (DeployAndMigrate code) cb \<in> set (snd y) \<longrightarrow>
        predecessor_account_id c = r_council r \<and> r_approved_code_hash r = Some (rl_sha256 lib code)
        \<and> (\<exists>a. r_approved_at r = Some a \<and> sat_add a (r_upgrade_delay_ns r) \<le> block_timestamp c)
        \<and> r_approved_code_hash (fst y) = None)
     \<and> (\<forall>key cb. RegCall (DeleteKey key) cb \<in> set (snd y) \<longrightarrow>
        predecessor_account_id c = r_council r \<and> r_upgrade_proven r)"

lemma doors_plain: "plain (snd y) \<Longrightarrow> doors lib c r y"
  by (auto simp: doors_def plain_def privileged_remote_def)

lemma admin_doors: "res_all (doors lib c r) (admin_exec lib c x r)"
  by (cases x; simp only: admin_exec.simps admin_defs Let_def case_prod_unfold; (intro res_walk)?)
    ((rule doors_plain, simp split: if_splits; fail)
     | (simp add: doors_def assert_council_def split: option.splits; fail))+

lemma exec_doors:
  assumes "registry_exec lib c x r = Inr (r', outs)"
  shows "doors lib c r (r', outs)"
proof (cases x)
  case (Rental y)
  with assms show ?thesis using res_allD [OF rental_plain [of lib c y r]] by (simp add: doors_plain)
next
  case (Biz y)
  with assms show ?thesis using res_allD [OF business_plain [of lib c y r]] by (simp add: doors_plain)
next
  case (Market y)
  with assms show ?thesis using res_allD [OF market_plain [of lib c y r]] by (simp add: doors_plain)
next
  case (Admin y)
  with assms show ?thesis using res_allD [OF admin_doors [of lib c r y]] by simp
qed

text \<open>
  C28. What leaves the registry. A call sends NEAR with at most one of its promises: a refund claimed
  by the caller, the creation deposit of the fee configuration with the order of an account, or the
  deposit of a token sweep, the latter two covered by what the caller attached, or the single
  yocto that a re-rental order carries; all other promises carry none. A refund goes only to the
  caller, in the amount recorded as its pending refund, which is cleared in the same call. Code is
  deployed only for the council, only if its hash is the approved one and 48 hours have passed since the
  approval, which is used up; and a key is deleted only for the council after an upgrade has
  been proven to work.
\<close>

theorem value_and_code_doors:
  assumes "reg.reach self lib t r" and "registry_exec lib c x r = Inr (r', outs)"
  shows "near_door c r outs
       \<and> (\<forall>a n cb. RegCall (TransferNear a n) cb \<in> set outs \<longrightarrow>
            a = predecessor_account_id c \<and> r_pending_refunds r a = Some n \<and> n \<noteq> 0
            \<and> r_pending_refunds r' a = None \<and> cb = Some (On_claim_refund_settled a n))
       \<and> (\<forall>code cb. RegCall (DeployAndMigrate code) cb \<in> set outs \<longrightarrow>
            predecessor_account_id c = r_council r
            \<and> r_approved_code_hash r = Some (rl_sha256 lib code)
            \<and> (\<exists>a. r_approved_at r = Some a \<and> sat_add a UPGRADE_DELAY_NS \<le> block_timestamp c)
            \<and> r_approved_code_hash r' = None)
       \<and> (\<forall>key cb. RegCall (DeleteKey key) cb \<in> set outs \<longrightarrow>
            predecessor_account_id c = r_council r \<and> r_upgrade_proven r)"
  using exec_doors [OF assms(2)] exec_near [OF assms(2)]
  unfolding doors_def fst_conv snd_conv delay_fixed [OF reg.reach_inv [OF assms(1)]] by blast

theorem value_and_code_doors_witness:
  "r_pending_refunds demo_r5 ''alice'' = Some 1988000000000000000000000"
proof -
  obtain r' where "registry_exec demo_rlib (demo_rc ''alice'' 11 0) (Admin AcClaimRefund) demo_r5
      = Inr (r', [RegCall (TransferNear ''alice'' 1988000000000000000000000)
                   (Some (On_claim_refund_settled ''alice'' 1988000000000000000000000))])"
    by (simp add: claim_refund_def reg_guards demo_r5_def demo_r4_def demo_r3_def demo_r1_def Let_def
        available_balance_def demo_rc_def sat_mul_def sat_sub_def)
  from value_and_code_doors [OF demo_reach(5) this] show ?thesis by simp
qed

section \<open>A tenancy is out of reach of calls from outside\<close>

text \<open>The only mark a call from outside can leave on a registered name is the start of a
  retraction notice.\<close>

definition tenancy_frame :: "ctx \<Rightarrow> tla_registry \<Rightarrow> tla_registry \<Rightarrow> bool" where
  "tenancy_frame c r r' \<longleftrightarrow>
     (\<forall>key s. r_sub_accounts r key = Some s \<longrightarrow>
        r_sub_accounts r' key = Some s
        \<or> sa_retraction_at s = None
           \<and> r_sub_accounts r' key = Some (s\<lparr>sa_retraction_at := Some (block_timestamp c)\<rparr>))"

lemma tenancy_same: "names r' = names r \<Longrightarrow> tenancy_frame c r r'"
  by (simp add: tenancy_frame_def names_def)

lemma tenancy_lease:
  "names r1 = names r \<Longrightarrow> r_sub_accounts r key = None
   \<Longrightarrow> names r' = names (fst (open_lease c key t o1 p r1)) \<Longrightarrow> tenancy_frame c r r'"
  by (auto simp: tenancy_frame_def names_def open_lease_def sub_account_insert_def Let_def)

lemma tenancy_open_lease:
  "names r1 = names r \<Longrightarrow> r_sub_accounts r key = None
   \<Longrightarrow> tenancy_frame c r (fst (open_lease c key t o1 p r1))"
  "names r1 = names r \<Longrightarrow> r_sub_accounts r key = None
   \<Longrightarrow> tenancy_frame c r ((fst (record_authority_mint a t' (fst (open_lease c key t o1 p r1))))
        \<lparr>r_paid_order_ids := m\<rparr>)"
  by (rule tenancy_lease; simp)+

lemma tenancy_notice:
  "r_sub_accounts r key = Some s \<Longrightarrow> sa_retraction_at s = None
   \<Longrightarrow> names r' = names (r\<lparr>r_sub_accounts := (r_sub_accounts r)(key \<mapsto>
        s\<lparr>sa_retraction_at := Some (block_timestamp c)\<rparr>)\<rparr>) \<Longrightarrow> tenancy_frame c r r'"
  by (auto simp: tenancy_frame_def names_def)

definition external :: "ctx \<Rightarrow> bool" where
  "external c \<longleftrightarrow> predecessor_account_id c \<noteq> current_account_id c"

lemma external_not_private: "external c \<Longrightarrow> assert_private_r c \<noteq> Inr z"
  by (simp add: external_def assert_private_r_def is_private_call_def)

lemma rental_tenancy:
  "external c \<Longrightarrow> res_all (\<lambda>y. tenancy_frame c r (fst y)) (rental_exec lib c x r)"
  by (cases x; simp only: rental_exec.simps rental_defs Let_def case_prod_unfold; (intro res_walk)?;
      (simp add: external_not_private; fail)?)
    (auto intro: tenancy_same intro!: tenancy_open_lease split: if_splits)

lemma business_tenancy:
  "external c \<Longrightarrow> res_all (\<lambda>y. tenancy_frame c r (fst y)) (business_exec lib c x r)"
  by (cases x; simp only: business_exec.simps business_defs rental_defs Let_def case_prod_unfold;
      (intro res_walk)?; (simp add: external_not_private; fail)?)
    (auto intro: tenancy_same tenancy_notice intro!: tenancy_open_lease split: if_splits option.splits)

lemma market_tenancy:
  "external c \<Longrightarrow> res_all (\<lambda>y. tenancy_frame c r (fst y)) (market_exec lib c x r)"
  by (cases x; simp only: market_exec.simps market_defs Let_def case_prod_unfold; (intro res_walk)?;
      (simp add: external_not_private; fail)?)
    (auto intro: tenancy_same split: if_splits)

lemma admin_tenancy:
  "external c \<Longrightarrow> res_all (\<lambda>y. tenancy_frame c r (fst y)) (admin_exec lib c x r)"
  by (cases x; simp only: admin_exec.simps admin_defs Let_def case_prod_unfold; (intro res_walk)?;
      (simp add: external_not_private; fail)?)
    (auto intro: tenancy_same split: if_splits)

text \<open>
  C5. No call made from outside can take a registered name from its tenant: after any public
  call, whoever made it, every registered name is still there with the same owner, payout
  account, namespace and end of lease. The one change possible is the start of a retraction
  notice on a name that has none. Owners, payouts and ends of lease change only in the registry's
  own callbacks.
\<close>

theorem tenancy_out_of_reach:
  assumes "registry_exec lib c x r = Inr (r', outs)"
    and "predecessor_account_id c \<noteq> current_account_id c"
    and "r_sub_accounts r key = Some s"
  shows "r_sub_accounts r' key = Some s
       \<or> sa_retraction_at s = None
          \<and> r_sub_accounts r' key = Some (s\<lparr>sa_retraction_at := Some (block_timestamp c)\<rparr>)"
proof -
  have ext: "external c" using assms(2) by (simp add: external_def)
  have "tenancy_frame c r r'"
    using assms(1) by (cases x) (auto dest!: res_allD [OF rental_tenancy [OF ext]]
        res_allD [OF business_tenancy [OF ext]] res_allD [OF market_tenancy [OF ext]]
        res_allD [OF admin_tenancy [OF ext]])
  then show ?thesis using assms(3) by (simp add: tenancy_frame_def)
qed

theorem tenancy_out_of_reach_witness:
  "r_sub_accounts (demo_r5\<lparr>r_marketplace_paused := True\<rparr>) ''alices.tla'' = Some demo_sub"
proof -
  have "registry_exec demo_rlib (demo_rc ''admin'' 11 0) (Admin AcPauseMarket) demo_r5
      = Inr (demo_r5\<lparr>r_marketplace_paused := True\<rparr>, [RegEmit (MarketplacePaused ''admin'')])"
    by (simp add: pause_marketplace_def reg_guards demo_r5_def demo_r4_def demo_r3_def demo_r1_def)
  moreover have "r_sub_accounts demo_r5 ''alices.tla'' = Some demo_sub"
    by (simp add: demo_r5_def demo_r4_def)
  ultimately show ?thesis
    using tenancy_out_of_reach by (fastforce simp: demo_r5_def demo_r4_def)
qed

end
