(* ===== verification/Registry_Money.thy ===== *)
theory Registry_Money
  imports Registry_Demo
begin

text \<open>
  The registry's money: the refunds it owes and how they are paid, prices and the price feed,
  what a rental costs and where the attached deposit goes, and orders paid off chain.
\<close>

section \<open>Refunds\<close>

text \<open>
  C12. In every state the registry reaches while the refunds owed stay below \<open>2\<^sup>1\<^sup>2\<^sup>8\<close> yocto, the
  recorded total is exactly the sum of the refunds recorded for all accounts, so no account is
  owed more than the total.
\<close>

theorem refund_total_exact:
  assumes "solv.reach self lib t r"
  shows "unat (r_total_pending_refunds r)
           = (\<Sum>a\<in>dom (r_pending_refunds r). unat (the (r_pending_refunds r a)))
       \<and> finite (dom (r_pending_refunds r))
       \<and> owed_to a r \<le> unat (r_total_pending_refunds r)"
proof -
  have "ledger_ok True (ledger r)" using solv.reach_inv [OF assms] by (simp add: registry_inv_def)
  then have "ledger_exact (ledger r)" "owed (ledger r) < 2 ^ 128" by (simp_all add: ledger_ok_def)
  then have "unat (r_total_pending_refunds r) = owed (ledger r)" "finite (dom (r_pending_refunds r))"
    by (simp_all add: ledger_exact_def)
  then show ?thesis using owed_to_le [of r a] by (simp add: owed_def map_total_def)
qed

theorem refund_total_exact_witness:
  "unat (r_total_pending_refunds demo_r5) = 1988000000000000000000000"
  using refund_total_exact [OF demo_solvent(5)] by (simp add: demo_r5_def)

lemma solvent_exact:
  assumes "solv.reach self lib t r"
  shows "unat (r_total_pending_refunds r) = owed (ledger r)" "finite (dom (r_pending_refunds r))"
    "owed (ledger r) < 2 ^ 128"
proof -
  have "ledger_ok True (ledger r)" using solv.reach_inv [OF assms] by (simp add: registry_inv_def)
  then show "unat (r_total_pending_refunds r) = owed (ledger r)" "finite (dom (r_pending_refunds r))"
    "owed (ledger r) < 2 ^ 128"
    by (simp_all add: ledger_ok_def ledger_exact_def)
qed

lemma withdraw_Inr:
  assumes "withdraw c amount r = Inr (r', outs)"
  shows "predecessor_account_id c = r_treasury r \<or> predecessor_account_id c = r_council r"
    "amount \<noteq> 0" "amount \<le> r_total_revenue r"
    "sat_add (r_total_pending_refunds r) amount \<le> available_balance c"
    "r' = add_pending_refund (r_treasury r) amount
            (r\<lparr>r_total_revenue := sat_sub (r_total_revenue r) amount\<rparr>)"
  using assms by (auto simp: withdraw_def assert_treasury_or_council_def)

text \<open>
  A withdrawal cannot touch what is owed to others: it needs the treasury or the council,
  takes no more than the recorded revenue, credits the treasury with exactly the amount, and
  leaves the registry's spendable balance at least as large as everything it owes, the
  withdrawal included.
\<close>

theorem withdraw_stays_covered:
  assumes "solv.reach self lib t r" and "withdraw c amount r = Inr (r', outs)"
    and "owed (ledger r) + unat amount < 2 ^ 128"
  shows "(predecessor_account_id c = r_treasury r \<or> predecessor_account_id c = r_council r)
       \<and> unat (r_total_revenue r') + unat amount = unat (r_total_revenue r)
       \<and> owed_to (r_treasury r) r' = owed_to (r_treasury r) r + unat amount
       \<and> owed (ledger r') = owed (ledger r) + unat amount
       \<and> owed (ledger r') \<le> unat (available_balance c)"
proof -
  note w = withdraw_Inr [OF assms(2)] and ex = solvent_exact [OF assms(1)]
  let ?r1 = "r\<lparr>r_total_revenue := sat_sub (r_total_revenue r) amount\<rparr>" and ?T = "r_treasury r"
  have small: "owed_to ?T r + unat amount < 2 ^ 128"
    using owed_to_le [OF ex(2), of ?T] assms(3) by linarith
  have fin: "finite (dom (r_pending_refunds ?r1))" using ex(2) by simp
  have same: "owed_to ?T ?r1 = owed_to ?T r" "owed (ledger ?r1) = owed (ledger r)"
    by (simp_all add: owed_to_def owed_def)
  have "owed (ledger r') + owed_to ?T r
        = owed (ledger r) + min (owed_to ?T r + unat amount) (2 ^ 128 - 1)"
    using add_refund_ledger(3) [OF fin, of ?T amount] by (simp only: w(5) same)
  then have all: "owed (ledger r') = owed (ledger r) + unat amount" using small by simp
  have "owed_to ?T r' = owed_to ?T r + unat amount"
    using small w(5) by (simp add: owed_to_def add_pending_refund_def Let_def sat_add_exact
        split: option.splits)
  moreover have "unat (sat_add (r_total_pending_refunds r) amount) \<le> unat (available_balance c)"
    using w(4) by (simp add: word_le_nat_alt)
  then have "owed (ledger r') \<le> unat (available_balance c)"
    using ex(1) all assms(3) by (simp add: sat_add_exact)
  moreover have "r_total_revenue r' = sat_sub (r_total_revenue r) amount"
    by (simp add: w(5) add_pending_refund_def Let_def)
  then have "unat (r_total_revenue r') + unat amount = unat (r_total_revenue r)"
    using w(3) by (simp add: unat_sat_sub word_le_nat_alt)
  ultimately show ?thesis using all w(1) by blast
qed

lemma demo_balance: "available_balance (demo_rc w t d) = 999999999999999999999999000"
  by (simp add: available_balance_def demo_rc_def sat_mul_def sat_sub_def)

theorem withdraw_stays_covered_witness:
  "\<exists>r'. withdraw (demo_rc ''treasury'' 11 1) 1000000000000000000000000 demo_r5
          = Inr (r', [RegEmit (WithdrawalQueued 1000000000000000000000000 ''treasury'')])
      \<and> owed (ledger r') = 2988000000000000000000000"
proof -
  obtain r' where w: "withdraw (demo_rc ''treasury'' 11 1) 1000000000000000000000000 demo_r5
          = Inr (r', [RegEmit (WithdrawalQueued 1000000000000000000000000 ''treasury'')])"
    by (simp add: withdraw_def reg_guards assert_treasury_or_council_def demo_balance sat_add_def
        demo_r5_def demo_r4_def demo_r3_def demo_r1_def)
  with withdraw_stays_covered [OF demo_solvent(5) w] show ?thesis by (simp add: demo_owed)
qed

lemma claim_refund_Inr:
  assumes "claim_refund c r = Inr (r1, outs)"
  shows "\<exists>n. r_pending_refunds r (predecessor_account_id c) = Some n \<and> n \<noteq> 0
      \<and> n \<le> available_balance c
      \<and> r1 = r\<lparr>r_pending_refunds := (r_pending_refunds r)(predecessor_account_id c := None),
              r_total_pending_refunds := sat_sub (r_total_pending_refunds r) n\<rparr>
      \<and> outs = [RegCall (TransferNear (predecessor_account_id c) n)
                (Some (On_claim_refund_settled (predecessor_account_id c) n))]"
  using assms by (auto simp: claim_refund_def Let_def split: option.splits)

text \<open>
  A claim pays the caller exactly what is recorded for it and no more than the spendable
  balance, and takes that amount out of the books; if the transfer then fails, the callback the
  claim scheduled restores the registry to the very state before the claim, so a failed payment
  loses nothing.
\<close>

theorem failed_claim_restores:
  assumes "solv.reach self lib t r" and "claim_refund c r = Inr (r1, outs)"
    and "RegCall rm (Some (On_claim_refund_settled a n)) \<in> set outs"
    and "on_claim_refund_settled c2 a n r1 = Inr (r2, outs2)"
  shows "rm = TransferNear a n \<and> a = predecessor_account_id c \<and> unat n = owed_to a r
       \<and> n \<le> available_balance c \<and> owed_to a r1 = 0 \<and> owed (ledger r1) + unat n = owed (ledger r)
       \<and> r2 = (if is_promise_success c2 then r1 else r)"
proof -
  let ?a = "predecessor_account_id c"
  obtain m where m: "r_pending_refunds r ?a = Some m" "m \<le> available_balance c"
    and r1: "r1 = r\<lparr>r_pending_refunds := (r_pending_refunds r)(?a := None),
              r_total_pending_refunds := sat_sub (r_total_pending_refunds r) m\<rparr>"
    and outs: "outs = [RegCall (TransferNear ?a m) (Some (On_claim_refund_settled ?a m))]"
    using claim_refund_Inr [OF assms(2)] by blast
  have eq: "rm = TransferNear a n" "a = ?a" "n = m" using assms(3) outs by simp_all
  note ex = solvent_exact [OF assms(1)]
  have le: "unat m \<le> unat (r_total_pending_refunds r)"
    using owed_to_le [OF ex(2), of ?a] m(1) by (simp add: ex(1) owed_to_def)
  have cl: "owed (ledger r1) = owed (ledger r) - unat m \<and> unat m = owed_to ?a r"
    by (rule claim_ledger(1)) (simp_all add: m(1) r1 ex(2))
  have undo: "sat_add (sat_sub (r_total_pending_refunds r) m) m = r_total_pending_refunds r"
    using le unat_bound [of "r_total_pending_refunds r"]
    by (simp add: word_unat_eq_iff unat_sat_add unat_sat_sub)
  have "add_pending_refund ?a m r1 = r"
    by (simp add: add_pending_refund_def r1 undo m(1) fun_upd_idem)
  then have "r2 = (if is_promise_success c2 then r1 else r)"
    using assms(4) eq by (auto simp: on_claim_refund_settled_def split: if_splits)
  moreover have "owed_to a r1 = 0" by (simp add: owed_to_def r1 eq)
  moreover have "owed (ledger r1) + unat n = owed (ledger r)"
    using cl eq owed_to_le [OF ex(2), of ?a] by simp
  ultimately show ?thesis using eq m(2) cl by simp
qed

theorem failed_claim_restores_witness:
  "\<exists>r1. claim_refund (demo_rc ''alice'' 11 0) demo_r5
        = Inr (r1, [RegCall (TransferNear ''alice'' 1988000000000000000000000)
                     (Some (On_claim_refund_settled ''alice'' 1988000000000000000000000))])
      \<and> on_claim_refund_settled (demo_rc ''reg'' 12 0) ''alice'' 1988000000000000000000000 r1
        = Inr (demo_r5, [RegEmit (RefundPending ''alice'' 1988000000000000000000000 ''transfer_failed'')])"
proof -
  obtain r1 where r1: "claim_refund (demo_rc ''alice'' 11 0) demo_r5
        = Inr (r1, [RegCall (TransferNear ''alice'' 1988000000000000000000000)
                     (Some (On_claim_refund_settled ''alice'' 1988000000000000000000000))])"
    by (simp add: claim_refund_def reg_guards demo_balance Let_def demo_r5_def)
  obtain r2 where r2: "on_claim_refund_settled (demo_rc ''reg'' 12 0) ''alice'' 1988000000000000000000000 r1
        = Inr (r2, [RegEmit (RefundPending ''alice'' 1988000000000000000000000 ''transfer_failed'')])"
    by (simp add: on_claim_refund_settled_def reg_guards is_promise_success_def)
  have "r2 = demo_r5"
    using failed_claim_restores [OF demo_solvent(5) r1 _ r2] by (simp add: is_promise_success_def)
  with r1 r2 show ?thesis by blast
qed

section \<open>Prices and the price feed\<close>

lemma reach_gov: "reg.reach self lib t r \<Longrightarrow> gov_inv self t r"
  using reg.reach_inv by (auto simp: registry_inv_def)

text \<open>
  Once a rate is set, a price in NEAR is defined exactly when the rate is fresh and the
  dollar amount is under the cap, and it is then the exact quotient rounded down: no reachable
  configuration makes the conversion overflow or rejects the stored rate as out of band.
\<close>

theorem price_exact:
  assumes "reg.reach self lib t r" and "r_near_usd_rate_micro r \<noteq> 0"
  shows "convert_usd_to_near c usd r = Inr y \<longleftrightarrow>
           sat_sub (block_timestamp c) (r_rate_updated_at r) \<le> fc_max_rate_age_ns (r_fee_config r)
           \<and> usd \<le> MAX_USD_MICRO
           \<and> unat y = unat usd * 10 ^ 24 div unat (r_near_usd_rate_micro r)"
  using reach_gov [OF assms(1)] assms(2)
  by (auto simp: convert_usd_to_near_def Let_def usd_to_near_Inr gov_inv_def rate_ok_def
      rate_is_usable_def)

theorem price_exact_witness:
  "convert_usd_to_near (demo_rc ''alice'' 9 0) 30000000 demo_r1 = Inr 6000000000000000000000000"
  using price_exact [OF demo_reach(2), of "demo_rc ''alice'' 9 0" 30000000 6000000000000000000000000]
  by (simp add: demo_r1_def MAX_USD_MICRO_def default_fee_config_def sat_sub_def)

text \<open>With the slightest room left in the buffer, and an amount that is not dust, the quote covers
  the price in full: the room outweighs what the two roundings can take.\<close>

lemma floor_quote_covers_strictly:
  fixes U r r' s :: nat
  assumes "0 < r" "0 < r'" "r * 10000 < r' * (10000 + s)" "r * r' * (10000 + s) \<le> U"
  shows "U div r' \<le> U div r + ceil_div (U div r * s) 10000"
proof -
  let ?A = "U div r" and ?B = "U div r'" and ?m = "10000 + s"
  have "U \<le> r * (?A + 1)" using assms(1)
    by (metis Suc_eq_plus1 add.commute dividend_less_div_times less_imp_le mult.commute mult_Suc_right)
  then have "U * (r' * ?m) \<le> r * (?A + 1) * (r' * ?m)" by (rule mult_right_mono) simp
  also have "\<dots> = r * ?A * (r' * ?m) + r * r' * ?m" by (simp add: algebra_simps)
  finally have 1: "U * (r' * ?m) \<le> r * ?A * (r' * ?m) + U" using assms(4) by linarith
  have "U * (r * 10000 + 1) \<le> U * (r' * ?m)" using assms(3) by (intro mult_left_mono) simp_all
  with 1 have "U * (r * 10000) \<le> r * ?A * (r' * ?m)" by (simp add: distrib_left)
  then have "r * (U * 10000) \<le> r * (r' * (?A * ?m))" by (simp add: algebra_simps)
  then have 2: "U * 10000 \<le> r' * (?A * ?m)" using assms(1) by simp
  have "r' * ?B \<le> U" by simp
  then have "r' * (?B * 10000) \<le> U * 10000" by (metis mult.assoc mult_le_mono1)
  with 2 have "r' * (?B * 10000) \<le> r' * (?A * ?m)" by (rule order_trans [rotated])
  then have "?B * 10000 \<le> ?A * ?m" using assms(2) by simp
  also have "\<dots> \<le> (?A + ceil_div (?A * s) 10000) * 10000"
    using ceil_div_ge [of 10000 "?A * s"] by (simp add: algebra_simps)
  finally show ?thesis by simp
qed

lemma converted:
  assumes "reg.reach self lib t r" and "convert_usd_to_near c usd r = Inr y"
  shows "unat y = unat usd * 10 ^ 24 div unat (r_near_usd_rate_micro r)"
    and "0 < unat (r_near_usd_rate_micro r)" and "unat (r_near_usd_rate_micro r) \<le> 10 ^ 12"
proof -
  show "unat y = unat usd * 10 ^ 24 div unat (r_near_usd_rate_micro r)" "0 < unat (r_near_usd_rate_micro r)"
    using assms(2) by (auto simp: convert_usd_to_near_def Let_def usd_to_near_Inr unat_gt_0)
  have "r_near_usd_rate_micro r \<le> fc_max_near_usd_rate_micro (r_fee_config r)"
    using assms(2) by (auto simp: convert_usd_to_near_def Let_def)
  moreover have "fc_max_near_usd_rate_micro (r_fee_config r) \<le> MAX_NEAR_USD_RATE_MICRO"
    using reach_gov [OF assms(1)] by (simp add: gov_inv_def fees_ok_def)
  ultimately have "r_near_usd_rate_micro r \<le> MAX_NEAR_USD_RATE_MICRO" by (rule order_trans)
  then show "unat (r_near_usd_rate_micro r) \<le> 10 ^ 12"
    by (simp add: MAX_NEAR_USD_RATE_MICRO_def word_le_nat_alt)
qed

text \<open>
  C32. A quote is the price plus the slippage buffer rounded up. It covers the price charged later
  in full when the rate has fallen by less than the buffer allows, the old rate less than
  \<open>1 + bps / 10000\<close> times the new one, and the amount is at least two cents. When the rate has fallen
  by exactly what the buffer allows, or the amount is dust, the two roundings can leave the quote one
  yocto short, and never more.
\<close>

theorem quote_covers_charge:
  assumes "reg.reach self lib t r" "reg.reach self' lib' t' r'"
    and "quote_usd_to_near c usd r = Inr q" and "convert_usd_to_near c' usd r' = Inr p"
    and "unat (r_near_usd_rate_micro r) * 10000
          \<le> unat (r_near_usd_rate_micro r') * (10000 + unat (fc_quote_slippage_bps (r_fee_config r)))"
  shows "(\<exists>a. convert_usd_to_near c usd r = Inr a
            \<and> unat q = unat a + ceil_div (unat a * unat (fc_quote_slippage_bps (r_fee_config r))) 10000)
       \<and> (20000 \<le> usd
          \<and> unat (r_near_usd_rate_micro r) * 10000
              \<noteq> unat (r_near_usd_rate_micro r') * (10000 + unat (fc_quote_slippage_bps (r_fee_config r)))
            \<longrightarrow> p \<le> q)
       \<and> unat p \<le> unat q + 1"
proof -
  let ?R = "unat (r_near_usd_rate_micro r)" and ?R' = "unat (r_near_usd_rate_micro r')"
  let ?U = "unat usd * 10 ^ 24" and ?s = "unat (fc_quote_slippage_bps (r_fee_config r))"
  obtain a where a: "convert_usd_to_near c usd r = Inr a"
    and "quote_with_slippage a (fc_quote_slippage_bps (r_fee_config r)) = Inr q"
    using assms(3) by (auto simp: quote_usd_to_near_def)
  then have q: "?s \<le> 10000" "unat q = unat a + ceil_div (unat a * ?s) 10000"
    by (simp_all add: quote_with_slippage_Inr)
  note ua = converted [OF assms(1) a] and up = converted [OF assms(2,4)]
  have "?U div ?R' \<le> ?U div ?R + ceil_div (?U div ?R * ?s) 10000 + 1"
    by (rule floor_quote_covers) (use ua up q assms(5) in auto)
  moreover have "?U div ?R' \<le> ?U div ?R + ceil_div (?U div ?R * ?s) 10000"
    if "20000 \<le> usd" "?R * 10000 \<noteq> ?R' * (10000 + ?s)"
  proof (rule floor_quote_covers_strictly)
    have "?R * ?R' * (10000 + ?s) \<le> 10 ^ 12 * 10 ^ 12 * 20000"
      using ua(3) up(3) q(1) by (intro mult_mono) simp_all
    also have "\<dots> \<le> ?U" using that(1) by (simp add: word_le_nat_alt)
    finally show "?R * ?R' * (10000 + ?s) \<le> ?U" .
  qed (use ua up assms(5) that(2) in auto)
  ultimately show ?thesis using a q ua up by (simp add: word_le_nat_alt)
qed

text \<open>Exactly at the limit the quote can be one yocto short: a buffer of 527 basis points, and a
  rate that has fallen from \<open>4.126584\<close> to \<open>3.92\<close> dollars.\<close>

lemma quote_short_at_the_limit:
  "4126584 * 10000 = 3920000 * (10000 + 527 :: nat) \<and>
   (let U = 340091770 * 10 ^ 24 :: nat; a = U div 4126584
    in U div 3920000 = a + ceil_div (a * 527) 10000 + 1)"
  by (simp add: ceil_div_def)

theorem quote_covers_charge_witness:
  "\<exists>q p. quote_usd_to_near (demo_rc ''alice'' 9 0) 30000000 demo_r1 = Inr q
      \<and> convert_usd_to_near (demo_rc ''alice'' 9 0) 30000000 demo_r3 = Inr p \<and> p \<le> q"
proof -
  have a: "convert_usd_to_near (demo_rc ''alice'' 9 0) 30000000 demo_r1 = Inr 6000000000000000000000000"
    by (simp add: convert_usd_to_near_def usd_to_near_Inr Let_def demo_r1_def
        default_fee_config_def sat_sub_def MAX_USD_MICRO_def)
  have q: "quote_usd_to_near (demo_rc ''alice'' 9 0) 30000000 demo_r1 = Inr 6316200000000000000000000"
    unfolding quote_usd_to_near_def a rbind_simps
    by (simp add: quote_with_slippage_Inr demo_r1_def default_fee_config_def ceil_div_def)
  have p: "convert_usd_to_near (demo_rc ''alice'' 9 0) 30000000 demo_r3 = Inr 6000000000000000000000000"
    using a by (simp add: convert_usd_to_near_def demo_r3_def)
  from q p quote_covers_charge [OF demo_reach(2) demo_reach(3) q p] show ?thesis
    by (simp add: demo_r3_def demo_r1_def default_fee_config_def)
qed

lemma rate_within_bounds_iff:
  assumes use: "rate_is_usable cur floor ceiling" and "unat cur \<le> 1000000000000" "unat bps \<le> 10000"
  shows "rate_within_bounds cur new bps floor ceiling = Inr ok \<longleftrightarrow>
     (ok \<longleftrightarrow> floor \<le> new \<and> new \<le> ceiling
        \<and> unat cur * (10000 - unat bps) \<le> 10000 * unat new
        \<and> 10000 * unat new \<le> unat cur * (10000 + unat bps))"
proof -
  obtain lo hi where b: "rate_lower_bound cur bps = Inr lo" "rate_upper_bound cur bps = Inr hi"
    and lo: "unat lo = ceil_div (unat cur * (10000 - unat bps)) 10000"
    and hi: "unat hi = unat cur * (10000 + unat bps) div 10000"
    using rate_bounds_Inr [OF assms(2,3)] by blast
  have "lo \<le> new \<longleftrightarrow> unat cur * (10000 - unat bps) \<le> 10000 * unat new"
    by (simp add: word_le_nat_alt lo ceil_div_le_iff)
  moreover have "new \<le> hi \<longleftrightarrow> 10000 * unat new \<le> unat cur * (10000 + unat bps)"
    by (simp add: word_le_nat_alt hi less_eq_div_iff_mult_less_eq mult.commute)
  moreover have "\<not> BPS_DENOMINATOR < ucast bps" using assms(3) by (simp add: word_less_nat_alt)
  ultimately show ?thesis using use b by (auto simp: rate_within_bounds_def not_le)
qed

lemma reach_rate:
  assumes "reg.reach self lib t r" and "r_near_usd_rate_micro r \<noteq> 0"
  shows "rate_is_usable (r_near_usd_rate_micro r) (fc_min_near_usd_rate_micro (r_fee_config r))
          (fc_max_near_usd_rate_micro (r_fee_config r))"
    and "unat (r_near_usd_rate_micro r) \<le> 1000000000000"
    and "unat (fc_max_rate_move_bps (r_fee_config r)) \<le> 10000"
proof -
  note g = reach_gov [OF assms(1)]
  show u: "rate_is_usable (r_near_usd_rate_micro r) (fc_min_near_usd_rate_micro (r_fee_config r))
          (fc_max_near_usd_rate_micro (r_fee_config r))"
    using g assms(2) by (simp add: gov_inv_def rate_ok_def)
  have "r_near_usd_rate_micro r \<le> MAX_NEAR_USD_RATE_MICRO"
    using u g by (auto simp: gov_inv_def fees_ok_def rate_is_usable_def)
  then show "unat (r_near_usd_rate_micro r) \<le> 1000000000000"
    by (simp add: word_le_nat_alt MAX_NEAR_USD_RATE_MICRO_def)
  have "fc_max_rate_move_bps (r_fee_config r) \<le> 10000" using g by (simp add: gov_inv_def fees_ok_def)
  then show "unat (fc_max_rate_move_bps (r_fee_config r)) \<le> 10000" by (simp add: word_le_nat_alt)
qed

text \<open>
  The oracle moves a rate that is set exactly when it calls without a deposit, the cooldown
  has passed, the new rate is inside the configured band, and it differs from the old one by at
  most the configured share: \<open>|new - old| * 10000 \<le> bps * old\<close>, read without rounding. The update
  then records the rate and the time and nothing else, and the arithmetic never overflows.
\<close>

theorem rate_update_iff:
  assumes "reg.reach self lib t r" and "r_near_usd_rate_micro r \<noteq> 0"
  shows "(\<exists>r' outs. set_near_usd_rate c new r = Inr (r', outs)) \<longleftrightarrow>
           attached_deposit c = 0 \<and> predecessor_account_id c = r_price_oracle r
           \<and> sat_add (r_rate_updated_at r) (fc_rate_update_cooldown_ns (r_fee_config r)) \<le> block_timestamp c
           \<and> fc_min_near_usd_rate_micro (r_fee_config r) \<le> new
           \<and> new \<le> fc_max_near_usd_rate_micro (r_fee_config r)
           \<and> \<bar>int (unat new) - int (unat (r_near_usd_rate_micro r))\<bar> * 10000
               \<le> int (unat (fc_max_rate_move_bps (r_fee_config r))) * int (unat (r_near_usd_rate_micro r))"
    (is "?L \<longleftrightarrow> ?R")
proof -
  let ?o = "r_near_usd_rate_micro r" and ?f = "r_fee_config r"
  let ?b = "unat (fc_max_rate_move_bps ?f)"
  note rr = reach_rate [OF assms]
  have band: "rate_within_bounds ?o new (fc_max_rate_move_bps ?f) (fc_min_near_usd_rate_micro ?f)
               (fc_max_near_usd_rate_micro ?f) = Inr True \<longleftrightarrow>
        fc_min_near_usd_rate_micro ?f \<le> new \<and> new \<le> fc_max_near_usd_rate_micro ?f
        \<and> unat ?o * (10000 - ?b) \<le> 10000 * unat new \<and> 10000 * unat new \<le> unat ?o * (10000 + ?b)"
    using rate_within_bounds_iff [OF rr, of new True] by simp
  have "int (unat ?o * (10000 - ?b)) = int (unat ?o) * 10000 - int (unat ?o) * int ?b"
    using rr(3) by (simp add: of_nat_diff right_diff_distrib)
  then have move: "unat ?o * (10000 - ?b) \<le> 10000 * unat new \<and> 10000 * unat new \<le> unat ?o * (10000 + ?b)
        \<longleftrightarrow> \<bar>int (unat new) - int (unat ?o)\<bar> * 10000 \<le> int ?b * int (unat ?o)"
    by (simp add: abs_le_iff abs_if zle_int [symmetric] algebra_simps del: zle_int) linarith
  show ?thesis
    using assms(2) band move
    by (auto simp: set_near_usd_rate_def Let_def assert_not_payable_def no_deposit_def case_prod_unfold)
qed

theorem rate_update_iff_witness:
  "\<exists>r' outs. set_near_usd_rate (demo_rc ''admin'' 400000000000 0) 5900000 demo_r1 = Inr (r', outs)"
  using rate_update_iff [OF demo_reach(2), of "demo_rc ''admin'' 400000000000 0" 5900000]
  by (simp add: demo_r1_def default_fee_config_def sat_add_def)

section \<open>What a rental costs\<close>


lemma owed_to_add [simp]:
  "owed_to a (add_pending_refund b n r)
     = (if a = b then min (owed_to a r + unat n) (2 ^ 128 - 1) else owed_to a r)"
  by (auto simp: owed_to_def add_pending_refund_def Let_def unat_sat_add split: option.split)

lemma owed_to_cong: "ledger r' = ledger r \<Longrightarrow> owed_to a r' = owed_to a r"
  by (simp add: owed_to_def ledger_def)

lemma owed_to_excess:
  "owed_to p r + unat attached < 2 ^ 128 \<Longrightarrow>
   owed_to p (refund_excess p attached charged r) = owed_to p r + (unat attached - unat charged)"
  by (auto simp: refund_excess_def Let_def unat_sat_sub word_gt_zero_iff unat_eq_zero [symmetric]
      simp del: unat_eq_zero)


lemma recorded_mint_effect:
  assumes cb: "on_sub_account_created c s (Inr MintActive) r = Inr (r', outs)"
    and "ms_order_id s = None"
    and "owed_to (ms_payer s) r + unat (ms_attached_yocto s) < 2 ^ 128"
  shows "r_sub_accounts r' = r_sub_accounts r"
    and "r_total_revenue r' = sat_add (r_total_revenue r) (ms_rent_yocto s)"
    and "owed_to (ms_payer s) r' = owed_to (ms_payer s) r + (unat (ms_attached_yocto s)
           - unat (sat_add (ms_rent_yocto s) (fc_account_creation_deposit_yocto (r_fee_config r))))"
proof -
  let ?ra = "r\<lparr>r_sub_account_count := sat_add (r_sub_account_count r) 1,
               r_total_revenue := sat_add (r_total_revenue r) (ms_rent_yocto s)\<rparr>"
  let ?rb = "refund_excess (ms_payer s) (ms_attached_yocto s)
     (sat_add (ms_rent_yocto s) (fc_account_creation_deposit_yocto (r_fee_config r))) ?ra"
  obtain ev where r': "r' = fst (emit_activity c ev ?rb)"
    using cb assms(2)
    by (auto simp: on_sub_account_created_def Let_def record_rental_def confirm_order_def case_prod_unfold)
  have "names r' = names r" by (simp add: r')
  then show "r_sub_accounts r' = r_sub_accounts r" by (simp add: names_def)
  show "r_total_revenue r' = sat_add (r_total_revenue r) (ms_rent_yocto s)"
    by (simp add: r' helper_defs split: option.split prod.split)
  have "owed_to (ms_payer s) r' = owed_to (ms_payer s) ?rb" by (rule owed_to_cong) (simp add: r')
  also have "\<dots> = owed_to (ms_payer s) ?ra + (unat (ms_attached_yocto s)
           - unat (sat_add (ms_rent_yocto s) (fc_account_creation_deposit_yocto (r_fee_config r))))"
    by (rule owed_to_excess) (use assms(3) in \<open>simp add: owed_to_def\<close>)
  also have "owed_to (ms_payer s) ?ra = owed_to (ms_payer s) r" by (simp add: owed_to_def)
  finally show "owed_to (ms_payer s) r' = owed_to (ms_payer s) r + (unat (ms_attached_yocto s)
           - unat (sat_add (ms_rent_yocto s) (fc_account_creation_deposit_yocto (r_fee_config r))))" .
qed

















text \<open>The settlement takes the creation deposit from the fee configuration of its own time: if it
  was raised in between, the payer gets back less than what was not spent.\<close>

lemma deposit_change_shifts_refund:
  "\<exists>f r' outs. fc_account_creation_deposit_yocto f = 1000000000000000000000000
     \<and> on_sub_account_created (demo_rc ''reg'' 10 0) demo_settlement (Inr MintActive)
         (demo_r4\<lparr>r_fee_config := f\<rparr>) = Inr (r', outs)
     \<and> owed_to ''alice'' r' = 1000000000000000000000000"
proof -
  let ?f = "default_fee_config\<lparr>fc_account_creation_deposit_yocto := 1000000000000000000000000\<rparr>"
  let ?r = "demo_r4\<lparr>r_fee_config := ?f\<rparr>"
  have key: "sub_account_key ''tla'' ''alices'' = ''alices.tla''" by (simp add: sub_account_key_def)
  obtain r' outs where cb: "on_sub_account_created (demo_rc ''reg'' 10 0) demo_settlement (Inr MintActive) ?r
      = Inr (r', outs)"
    by (simp add: on_sub_account_created_def demo_settlement_def Let_def reg_guards key
        confirm_order_def record_rental_def case_prod_unfold refund_excess_def sat_sub_def sat_add_def
        add_pending_refund_def demo_r4_def)
  have "owed_to ''alice'' r' = owed_to ''alice'' ?r + (8000000000000000000000000
      - unat (sat_add 6000000000000000000000000 (fc_account_creation_deposit_yocto ?f)))"
    using recorded_mint_effect(3) [OF cb]
    by (simp add: demo_settlement_def owed_to_def demo_r4_def demo_r3_def demo_r1_def)
  then have "owed_to ''alice'' r' = 1000000000000000000000000"
    by (simp add: owed_to_def demo_r4_def demo_r3_def demo_r1_def sat_add_def)
  with cb show ?thesis by (intro exI [of _ ?f] exI [of _ r'] exI [of _ outs]) simp
qed

end
