(* ===== verification/Registry_Orders.thy ===== *)
theory Registry_Orders
  imports Registry_Demo
begin

text \<open>
  Orders paid off chain (\<open>rent_sub_account_paid\<close> in \<open>rental.rs\<close>, the order helpers of
  \<open>callbacks.rs\<close>): an order id is honoured once, a payment authority mints within its allowance,
  and what happens to order and allowance when the rental fails.
\<close>

section \<open>Orders paid off chain\<close>

definition settled_kept :: "tla_registry \<Rightarrow> tla_registry \<Rightarrow> bool" where
  "settled_kept r r' \<longleftrightarrow>
     (\<forall>oid. r_paid_order_ids r oid = Some Settled \<longrightarrow> r_paid_order_ids r' oid = Some Settled)"

lemma orders_helpers [simp]:
  "r_paid_order_ids (add_pending_refund a n r) = r_paid_order_ids r"
  "r_paid_order_ids (refund_excess a n m r) = r_paid_order_ids r"
  "r_paid_order_ids (fst (sub_account_remove k r)) = r_paid_order_ids r"
  "r_paid_order_ids (fst (sub_account_reassign k o1 p r)) = r_paid_order_ids r"
  "r_paid_order_ids (fst (emit_activity c ev r)) = r_paid_order_ids r"
  "r_paid_order_ids (business_count_decrement_if_business t r) = r_paid_order_ids r"
  "r_paid_order_ids (release_authority_mint a t r) = r_paid_order_ids r"
  "r_paid_order_ids (fst (record_authority_mint a t r)) = r_paid_order_ids r"
  "r_paid_order_ids (fst (open_lease c k t o1 p r)) = r_paid_order_ids r"
  "r_paid_order_ids (fst (reclaim_blocked k tk rs r)) = r_paid_order_ids r"
  "r_paid_order_ids (fst (settle_failed_mint k t p n rs r)) = r_paid_order_ids r"
  "r_paid_order_ids (fst (settle_stranded_mint c k t p n rs r)) = r_paid_order_ids r"
  "r_paid_order_ids (write_registration i reg r) = r_paid_order_ids r"
  "r_paid_order_ids (write_open_activation i now ex r) = r_paid_order_ids r"
  "r_paid_order_ids (fold (\<lambda>i. write_registration i reg) is r) = r_paid_order_ids r"
  "r_paid_order_ids (fold (\<lambda>i. write_open_activation i now ex) is r) = r_paid_order_ids r"
  by (simp_all add: helper_defs fold_frame [of r_paid_order_ids] write_registration_def
      write_open_activation_def split: option.split prod.split)

lemma settled_release: "settled_kept r (fst (release_order oi k p t r))"
  by (auto simp: settled_kept_def release_order_def split: option.split)

lemma settled_confirm: "settled_kept r (fst (confirm_order oi k p r))"
  by (auto simp: settled_kept_def confirm_order_def split: option.split)

lemma settled_same: "r_paid_order_ids r' = r_paid_order_ids r1 \<Longrightarrow> settled_kept r r1 \<Longrightarrow> settled_kept r r'"
  by (simp add: settled_kept_def)

lemma settled_refl: "r_paid_order_ids r' = r_paid_order_ids r \<Longrightarrow> settled_kept r r'"
  by (simp add: settled_kept_def)

lemma settled_insert:
  "r_paid_order_ids r oid = None \<Longrightarrow> settled_kept r (r1\<lparr>r_paid_order_ids := (r_paid_order_ids r)(oid \<mapsto> z)\<rparr>)"
  "r_paid_order_ids r oid = Some (InFlight i) \<Longrightarrow>
   r_paid_order_ids r' = (r_paid_order_ids r)(oid := None) \<Longrightarrow> settled_kept r r'"
  by (auto simp: settled_kept_def)

lemma settled_fail_mint:
  "r_paid_order_ids r1 = r_paid_order_ids r \<Longrightarrow> settled_kept r (fst (fail_mint c b s rs r1))"
  using settled_same [OF _ settled_release, of "fst (fail_mint c b s rs r1)" _ _ _ _ r1]
  by (simp add: fail_mint_def Let_def case_prod_unfold settled_kept_def)

lemma rental_settled: "res_all (\<lambda>y. settled_kept r (fst y)) (rental_exec lib c x r)"
  by (cases x; simp only: rental_exec.simps rental_defs Let_def case_prod_unfold; (intro res_walk)?)
    (auto intro!: settled_fail_mint settled_insert(1) intro: settled_refl settled_same [OF _ settled_confirm]
       simp: assert_order_unsettled_def split: if_splits)

lemma business_settled: "res_all (\<lambda>y. settled_kept r (fst y)) (business_exec lib c x r)"
  by (cases x; simp only: business_exec.simps business_defs rental_defs Let_def case_prod_unfold;
      (intro res_walk)?)
    (auto intro!: settled_fail_mint intro: settled_refl settled_same [OF _ settled_confirm]
       split: if_splits option.splits)

lemma market_settled: "res_all (\<lambda>y. settled_kept r (fst y)) (market_exec lib c x r)"
  by (cases x; simp only: market_exec.simps market_defs Let_def case_prod_unfold; (intro res_walk)?)
    (auto intro: settled_refl split: if_splits)

lemma admin_settled: "res_all (\<lambda>y. settled_kept r (fst y)) (admin_exec lib c x r)"
  by (cases x; simp only: admin_exec.simps admin_defs Let_def case_prod_unfold; (intro res_walk)?)
    (auto intro: settled_refl settled_insert(2) split: if_splits)

lemma exec_settled: "registry_exec lib c x r = Inr (r', outs) \<Longrightarrow> settled_kept r r'"
  by (cases x) (auto dest: res_allD [OF rental_settled] res_allD [OF business_settled]
      res_allD [OF market_settled] res_allD [OF admin_settled])

lemma run_settled:
  assumes "reg.run lib self t r t' r'" and "registry_inv False self t r"
  shows "settled_kept r r'"
proof (rule reg.run_stable [OF assms])
  show "settled_kept r r" by (simp add: settled_kept_def)
  fix t1 r1 t2 r2
  assume "registry_step lib self t2 r1 r2" and keep: "settled_kept r r1"
  then obtain c x outs where "registry_exec lib c x r1 = Inr (r2, outs)" by (auto elim: registry_stepE)
  from exec_settled [OF this] keep show "settled_kept r r2" by (simp add: settled_kept_def)
qed

text \<open>A run with an order: the payment authority \<open>pay\<close> is added and bound to \<open>tla\<close> for two mints, rents
  \<open>alices.tla\<close> for \<open>alice\<close> under order \<open>o1\<close>, and the account is created.\<close>

definition demo_p1 :: tla_registry where
  "demo_p1 = demo_r3\<lparr>r_payment_authorities := {''pay''}\<rparr>"

definition demo_p2 :: tla_registry where
  "demo_p2 = demo_p1\<lparr>r_authority_allowance := [(''pay'', ''tla'') \<mapsto> 2]\<rparr>"

definition demo_p3 :: tla_registry where
  "demo_p3 = demo_p2\<lparr>r_sub_accounts := [''alices.tla'' \<mapsto> demo_sub\<lparr>sa_rented_at := 11,
       sa_expires_at := 31536000000000011\<rparr>],
     r_sub_accounts_by_owner := [''alice'' \<mapsto> {''alices.tla''}],
     r_sub_accounts_by_tla := [''tla'' \<mapsto> {''alices.tla''}],
     r_authority_used := [(''pay'', ''tla'') \<mapsto> 1],
     r_paid_order_ids := [''o1'' \<mapsto> InFlight \<lparr>oi_full_name = ''alices.tla'', oi_tla_id = ''tla'',
       oi_payer = ''pay'', oi_started_at = 11\<rparr>]\<rparr>"

definition demo_p4 :: tla_registry where
  "demo_p4 = demo_p3\<lparr>r_paid_order_ids := [''o1'' \<mapsto> Settled], r_sub_account_count := 1,
     r_recent_activity := [\<lparr>act_event = ''sub_account_rented'', act_account = ''alices.tla'',
       act_block_height = 1, act_block_timestamp = 12\<rparr>]\<rparr>"

definition demo_paid :: mint_settlement where
  "demo_paid = \<lparr>ms_tla_id = ''tla'', ms_name = ''alices'', ms_owner = ''alice'', ms_payer = ''pay'',
     ms_rent_yocto = 0, ms_attached_yocto = 12000000000000000000000, ms_order_id = Some ''o1''\<rparr>"

lemmas demo_p_defs = demo_p1_def demo_p2_def demo_r3_def demo_r1_def

lemma demo_pay1: "registry_exec demo_rlib (demo_rc ''council'' 9 1) (Admin (AcAddPayment ''pay'')) demo_r3
   = Inr (demo_p1, [RegEmit (PaymentAuthorityAdded ''pay'' ''council'')])"
  by (simp add: add_payment_authority_def reg_guards set_add_def demo_p_defs MAX_AUTHORITY_SET_def)

lemma demo_pay2: "registry_exec demo_rlib (demo_rc ''council'' 10 1) (Admin (AcBindPayment ''pay'' ''tla'' 2)) demo_p1
   = Inr (demo_p2, [RegEmit (PaymentAuthorityBound ''pay'' ''tla'' 2 ''council'')])"
  by (simp add: bind_payment_authority_tla_def reg_guards demo_p_defs)

lemma demo_pay3: "rent_sub_account_paid demo_rlib (demo_rc ''pay'' 11 12000000000000000000000)
     ''tla'' ''alices'' ''alice'' ''alice'' ''o1'' demo_p2
   = Inr (demo_p3, [RegEmit (PaymentAuthorityAllowanceLow ''pay'' ''tla'' 1),
       RegEmit (PaidRentalOrderReserved ''alices.tla'' ''o1'' ''pay''),
       RegCall (CreateSubAccount ''tla'' ''alices'' ''alice'' ''alice'' 31536000000000011
         12000000000000000000000) (Some (On_sub_account_created_paid demo_paid))])"
proof -
  let ?c = "demo_rc ''pay'' 11 12000000000000000000000"
  have key: "sub_account_key ''tla'' ''alices'' = ''alices.tla''" by (simp add: sub_account_key_def)
  have a: "assert_payment_authority_for ?c ''tla'' demo_p2 = Inr ''pay''"
    by (simp add: assert_payment_authority_for_def assert_payment_authority_def authority_used_def demo_p_defs)
  have b: "assert_accepting ?c ''tla'' ''alice'' demo_p2 = Inr False"
    by (simp add: assert_accepting_def accepting_rentals_def demo_p_defs demo_tla_def)
  have o: "assert_order_unsettled ''o1'' demo_p2 = Inr ()"
    by (simp add: assert_order_unsettled_def demo_p_defs MAX_ORDER_ID_LEN_def)
  have p: "assert_not_paused ?c demo_p2 = Inr ()" by (simp add: reg_guards demo_p_defs)
  have f: "r_parked_names demo_p2 = Map.empty" "r_sub_accounts demo_p2 = Map.empty"
    "fc_account_creation_deposit_yocto (r_fee_config demo_p2) = 12000000000000000000000"
    by (simp_all add: demo_p_defs default_fee_config_def ONE_NEAR_def)
  show ?thesis
    by (simp add: rent_sub_account_paid_def Let_def key a b o p f demo_name open_lease_def
        sub_account_insert_def index_add_def record_authority_mint_def authority_used_def
        create_leased_account_def demo_paid_def)
      (simp add: demo_p3_def demo_p_defs demo_sub_def sat_add_def sat_sub_def
        ALLOWANCE_WARN_REMAINING_def default_fee_config_def ONE_NEAR_def)
qed

lemma demo_pay4: "registry_exec demo_rlib (demo_rc ''reg'' 12 0)
     (Rental (RcOnCreatedPaid demo_paid (Inr MintActive))) demo_p3
   = Inr (demo_p4, [RegEmit (PaidRentalOrderSettled ''alices.tla'' ''o1''),
       RegEmit (NftMint ''alice'' ''alices.tla''),
       RegEmit (SubAccountRented ''alices.tla'' ''tla'' ''alice'' 0 31536000000000011)])"
proof -
  have key: "sub_account_key ''tla'' ''alices'' = ''alices.tla''" by (simp add: sub_account_key_def)
  let ?m = "demo_p4\<lparr>r_recent_activity := []\<rparr>"
  have conf: "confirm_order (Some ''o1'') ''alices.tla'' ''pay'' demo_p3
      = (demo_p3\<lparr>r_paid_order_ids := [''o1'' \<mapsto> Settled]\<rparr>, [RegEmit (PaidRentalOrderSettled ''alices.tla'' ''o1'')])"
    by (simp add: confirm_order_def demo_p3_def)
  have fee: "fc_account_creation_deposit_yocto (r_fee_config demo_p3) = 12000000000000000000000"
    by (simp add: demo_p3_def demo_p_defs default_fee_config_def ONE_NEAR_def)
  have rec: "record_paid_rental ''alices.tla'' ''pay'' 12000000000000000000000
        (demo_p3\<lparr>r_paid_order_ids := [''o1'' \<mapsto> Settled]\<rparr>) = Inr (?m, 31536000000000011)"
    by (simp add: record_paid_rental_def refund_excess_def sat_sub_def fee)
      (simp add: demo_p4_def demo_p3_def demo_p_defs sat_add_def)
  have "emit_activity (demo_rc ''reg'' 12 0) (SubAccountRented ''alices.tla'' ''tla'' ''alice'' 0
          31536000000000011) ?m = (demo_p4, [RegEmit (SubAccountRented ''alices.tla'' ''tla'' ''alice'' 0
          31536000000000011)])"
    by (simp add: emit_activity_def activity_rented push_activity_def Let_def ACTIVITY_CAPACITY_def
        demo_p4_def)
  then show ?thesis
    by (simp add: on_sub_account_created_paid_def demo_paid_def Let_def reg_guards key conf rec)
qed

lemma demo_paid_reach:
  "reg.reach ''reg'' demo_rlib 10 demo_p2" "reg.reach ''reg'' demo_rlib 11 demo_p3"
  "reg.reach ''reg'' demo_rlib 12 demo_p4"
proof -
  have step: "registry_step demo_rlib ''reg'' t r r'"
    if "registry_exec demo_rlib (demo_rc w t d) x r = Inr (r', outs)" for w t d x r r' outs
    using registry_step.call [of "demo_rc w t d" "''reg''" demo_rlib x r r' outs] that by simp
  have p1: "reg.reach ''reg'' demo_rlib 9 demo_p1"
    by (rule reg.reach_step [OF demo_reach(3) _ step [OF demo_pay1]]) simp
  show p2: "reg.reach ''reg'' demo_rlib 10 demo_p2"
    by (rule reg.reach_step [OF p1 _ step [OF demo_pay2]]) simp
  have "registry_exec demo_rlib (demo_rc ''pay'' 11 12000000000000000000000)
      (Rental (RcRentPaid ''tla'' ''alices'' ''alice'' ''alice'' ''o1'')) demo_p2 = Inr (demo_p3, snd (projr
      (rent_sub_account_paid demo_rlib (demo_rc ''pay'' 11 12000000000000000000000)
     ''tla'' ''alices'' ''alice'' ''alice'' ''o1'' demo_p2)))"
    by (simp add: demo_pay3)
  from reg.reach_step [OF p2 _ step [OF this]]
  show p3: "reg.reach ''reg'' demo_rlib 11 demo_p3" by simp
  show "reg.reach ''reg'' demo_rlib 12 demo_p4"
    by (rule reg.reach_step [OF p3 _ step [OF demo_pay4]]) simp
qed

section \<open>An order mints once\<close>

text \<open>The order a settlement callback carries, with the name and the payer it is for; a call that
  records a mint; and the mark it leaves when it finds the order no longer reserved for it.\<close>

definition order_in :: "mint_settlement \<Rightarrow> (string \<times> string \<times> account_id) option" where
  "order_in s = map_option (\<lambda>oid. (oid, sub_account_key (ms_tla_id s) (ms_name s), ms_payer s)) (ms_order_id s)"

fun order_of :: "registry_call \<Rightarrow> (string \<times> string \<times> account_id) option" where
  "order_of (Rental (RcOnCreated s _)) = order_in s"
| "order_of (Rental (RcOnCreatedPaid s _)) = order_in s"
| "order_of (Rental (RcOnReRented s _)) = order_in s"
| "order_of (Biz (BcOnClaimed s _)) = order_in s"
| "order_of _ = None"

definition mints :: "reg_out list \<Rightarrow> bool" where
  "mints outs \<longleftrightarrow> (\<exists>o1 key. RegEmit (NftMint o1 key) \<in> set outs)"

definition reserved_for :: "string \<Rightarrow> string \<Rightarrow> account_id \<Rightarrow> tla_registry \<Rightarrow> bool" where
  "reserved_for oid key payer r \<longleftrightarrow>
     (\<exists>st. r_paid_order_ids r oid = Some st \<and> in_flight_for st key payer)"

lemma mints_simps [simp]:
  "\<not> mints []" "mints (xs @ ys) \<longleftrightarrow> mints xs \<or> mints ys"
  "mints (RegEmit e # xs) \<longleftrightarrow> (\<exists>o1 key. e = NftMint o1 key) \<or> mints xs" "mints (RegCall rm cb # xs) \<longleftrightarrow> mints xs"
  by (auto simp: mints_def)

lemma failed_not_minted: "\<not> mints (snd (fail_mint c b s rs r))"
  by (simp add: helper_defs stale_order_def split: option.split prod.split)

lemma confirm_order_cases:
  assumes "order_in s = Some (oid, key, payer)"
  shows "reserved_for oid key payer r
      \<and> r_paid_order_ids (fst (confirm_order (ms_order_id s) key payer r)) oid = Some Settled
      \<and> RegEmit (PaidRentalOrderSettled key oid) \<in> set (snd (confirm_order (ms_order_id s) key payer r))
    \<or> \<not> reserved_for oid key payer r
      \<and> RegEmit (PaidRentalOrderStale oid key) \<in> set (snd (confirm_order (ms_order_id s) key payer r))"
  using assms
  by (auto simp: order_in_def confirm_order_def reserved_for_def stale_order_def split: option.split)

text \<open>A mint that carries an order has confirmed it.\<close>

lemma minted_confirmed:
  assumes "registry_exec lib c x r = Inr (r', outs)" and "order_of x = Some (oid, key, payer)" and "mints outs"
  shows "\<exists>s r0. order_in s = Some (oid, key, payer) \<and> r_paid_order_ids r0 = r_paid_order_ids r
    \<and> r_paid_order_ids r' = r_paid_order_ids (fst (confirm_order (ms_order_id s) key payer r0))
    \<and> set (snd (confirm_order (ms_order_id s) key payer r0)) \<subseteq> set outs"
proof -
  let ?goal = "\<lambda>s r0. order_in s = Some (oid, key, payer) \<and> r_paid_order_ids r0 = r_paid_order_ids r
    \<and> r_paid_order_ids r' = r_paid_order_ids (fst (confirm_order (ms_order_id s) key payer r0))
    \<and> set (snd (confirm_order (ms_order_id s) key payer r0)) \<subseteq> set outs"
  have created: "?goal s r1"
    if "on_sub_account_created c s oc r1 = Inr (r', outs)" "order_in s = Some (oid, key, payer)"
      "r_paid_order_ids r1 = r_paid_order_ids r" for s oc r1
    using that assms(3) failed_not_minted
    by (auto simp: on_sub_account_created_def record_rental_def Let_def case_prod_unfold order_in_def
        prod_eq_iff split: sum.splits mint_outcome.splits)
  have paid: "?goal s r"
    if "on_sub_account_created_paid c s oc r = Inr (r', outs)" "order_in s = Some (oid, key, payer)" for s oc
    using that assms(3) failed_not_minted
    by (auto simp: on_sub_account_created_paid_def record_paid_rental_def Let_def case_prod_unfold
        order_in_def prod_eq_iff split: sum.splits mint_outcome.splits)
  have re_rented: "?goal s r"
    if "on_sub_account_re_rented c s sw r = Inr (r', outs)" "order_in s = Some (oid, key, payer)" for s sw
    using that assms(3) failed_not_minted
    by (auto simp: on_sub_account_re_rented_def Let_def case_prod_unfold order_in_def prod_eq_iff
        split: if_splits)
  show ?thesis using assms(2)
  proof (cases rule: order_of.elims)
    case (1 s oc)
    with assms(1) created [of s oc r] show ?thesis by (metis registry_exec.simps(1) rental_exec.simps(11))
  next
    case (2 s oc)
    with assms(1) paid [of s oc] show ?thesis by (metis registry_exec.simps(1) rental_exec.simps(12))
  next
    case (3 s sw)
    with assms(1) re_rented [of s sw] show ?thesis by (metis registry_exec.simps(1) rental_exec.simps(13))
  next
    case (4 s oc)
    with assms(1) obtain r1 where "on_sub_account_created c s oc r1 = Inr (r', outs)"
      "r_paid_order_ids r1 = r_paid_order_ids r"
      by (auto simp: on_business_name_claimed_def split: if_splits)
    with created [of s oc r1] 4 show ?thesis by metis
  qed auto
qed

lemma mint_settles:
  assumes "registry_exec lib c x r = Inr (r', outs)" and "order_of x = Some (oid, key, payer)" and "mints outs"
  shows "reserved_for oid key payer r \<and> r_paid_order_ids r' oid = Some Settled
      \<and> RegEmit (PaidRentalOrderSettled key oid) \<in> set outs
    \<or> \<not> reserved_for oid key payer r \<and> RegEmit (PaidRentalOrderStale oid key) \<in> set outs"
proof -
  from minted_confirmed [OF assms] obtain s r0 where s: "order_in s = Some (oid, key, payer)"
    and r0: "r_paid_order_ids r0 = r_paid_order_ids r"
    and r': "r_paid_order_ids r' = r_paid_order_ids (fst (confirm_order (ms_order_id s) key payer r0))"
    and outs: "set (snd (confirm_order (ms_order_id s) key payer r0)) \<subseteq> set outs" by blast
  from confirm_order_cases [OF s, of r0] r' outs r0 show ?thesis
    by (auto simp: reserved_for_def)
qed

text \<open>
  C13. An order paid off chain mints once. When a callback that carries an order records a mint,
  then either the order is still reserved for that name and that payer, and the call settles it, or it
  is not, for instance because an administrator released it by hand an hour after it was placed, and
  the call marks the mint as stale. Once settled, the order stays settled in every run that
  follows, whatever is called: every later mint under it carries the stale mark, no paid rental goes
  through under it, and no administrator can release it. So each order id accounts for one mint
  without the mark, at most, in the life of the registry.
\<close>

theorem paid_order_honoured_once:
  assumes "reg.reach self lib t r" and "t \<le> block_timestamp c" and "current_account_id c = self"
    and "registry_exec lib c x r = Inr (r1, outs)" and "order_of x = Some (oid, key, payer)" and "mints outs"
    and "reg.run lib self (block_timestamp c) r1 t' r2"
  shows "(if reserved_for oid key payer r
          then r_paid_order_ids r1 oid = Some Settled \<and> RegEmit (PaidRentalOrderSettled key oid) \<in> set outs
          else RegEmit (PaidRentalOrderStale oid key) \<in> set outs)
       \<and> (r_paid_order_ids r1 oid = Some Settled \<longrightarrow>
            r_paid_order_ids r2 oid = Some Settled
            \<and> (\<forall>c2 x2 r3 outs2 key2 payer2. registry_exec lib c2 x2 r2 = Inr (r3, outs2)
                 \<and> order_of x2 = Some (oid, key2, payer2) \<and> mints outs2
                 \<longrightarrow> RegEmit (PaidRentalOrderStale oid key2) \<in> set outs2)
            \<and> (\<forall>c2 tla name owner payout. \<not> is_ok (rent_sub_account_paid lib c2 tla name owner payout oid r2))
            \<and> (\<forall>c2. \<not> is_ok (admin_release_paid_order c2 oid r2)))"
proof (intro conjI impI)
  show "if reserved_for oid key payer r
      then r_paid_order_ids r1 oid = Some Settled \<and> RegEmit (PaidRentalOrderSettled key oid) \<in> set outs
      else RegEmit (PaidRentalOrderStale oid key) \<in> set outs"
    using mint_settles [OF assms(4-6)] by auto
  assume "r_paid_order_ids r1 oid = Some Settled"
  moreover have "reg.reach self lib (block_timestamp c) r1"
    using reg.reach_step [OF assms(1,2)] registry_step.call [OF assms(3,4)] by blast
  ultimately show s: "r_paid_order_ids r2 oid = Some Settled"
    using run_settled [OF assms(7) reg.reach_inv] by (simp add: settled_kept_def)
  then have "\<not> reserved_for oid k p r2" for k p by (simp add: reserved_for_def)
  with mint_settles [of lib _ _ r2] show "\<forall>c2 x2 r3 outs2 key2 payer2.
      registry_exec lib c2 x2 r2 = Inr (r3, outs2) \<and> order_of x2 = Some (oid, key2, payer2) \<and> mints outs2
      \<longrightarrow> RegEmit (PaidRentalOrderStale oid key2) \<in> set outs2" by blast
  have "assert_order_unsettled oid r2 \<noteq> Inr z" for z using s by (simp add: assert_order_unsettled_def)
  then show "\<forall>c2 tla name owner payout. \<not> is_ok (rent_sub_account_paid lib c2 tla name owner payout oid r2)"
    by (auto simp: is_ok_iff rent_sub_account_paid_def Let_def)
  show "\<forall>c2. \<not> is_ok (admin_release_paid_order c2 oid r2)"
    using s by (auto simp: is_ok_iff admin_release_paid_order_def)
qed

theorem paid_order_honoured_once_witness:
  "r_paid_order_ids demo_p4 ''o1'' = Some Settled
   \<and> \<not> is_ok (rent_sub_account_paid demo_rlib (demo_rc ''pay'' 20 12000000000000000000000)
         ''tla'' ''bobbys'' ''bob'' ''bob'' ''o1'' demo_p4)"
proof -
  have o1: "order_of (Rental (RcOnCreatedPaid demo_paid (Inr MintActive))) = Some (''o1'', ''alices.tla'', ''pay'')"
    by (simp add: order_in_def demo_paid_def sub_account_key_def)
  have "r_paid_order_ids demo_p4 ''o1'' = Some Settled" by (simp add: demo_p4_def)
  moreover have "reg.run demo_rlib ''reg'' (block_timestamp (demo_rc ''reg'' 12 0)) demo_p4 12 demo_p4"
    using reg.run_refl by simp
  from paid_order_honoured_once [OF demo_paid_reach(2) _ _ demo_pay4 o1 _ this] calculation
  show ?thesis by simp
qed

section \<open>Mint allowance\<close>

lemma used_helpers [simp]:
  "r_authority_used (fst (sub_account_remove k r)) = r_authority_used r"
  "r_authority_used (business_count_decrement_if_business t r) = r_authority_used r"
  "r_authority_used (add_pending_refund a n r) = r_authority_used r"
  "r_authority_used (fst (settle_failed_mint k t p n rs r)) = r_authority_used r"
  "r_authority_used (fst (settle_stranded_mint c k t p n rs r)) = r_authority_used r"
  "r_authority_used (fst (open_lease c k t o1 p r)) = r_authority_used r"
  by (simp_all add: helper_defs split: option.split prod.split)

lemma used_bumped: "unat (authority_used a t r) < 2 ^ 64 - 1 \<Longrightarrow>
    unat (sat_add (authority_used a t r) 1) = unat (authority_used a t r) + 1"
  by (simp add: unat_sat_add)

lemma rent_paid_Inr:
  assumes "rent_sub_account_paid lib c tla name owner payout oid r = Inr (r', outs)"
  shows "predecessor_account_id c \<in> r_payment_authorities r"
    and "\<exists>a. r_authority_allowance r (predecessor_account_id c, tla) = Some a
           \<and> \<not> (a \<noteq> 0 \<and> a \<le> authority_used (predecessor_account_id c) tla r)"
    and "r_paid_order_ids r oid = None"
    and "r_sub_accounts r (sub_account_key tla name) = None"
    and "r_paid_order_ids r' = (r_paid_order_ids r)(oid \<mapsto>
           InFlight \<lparr>oi_full_name = sub_account_key tla name, oi_tla_id = tla,
                     oi_payer = predecessor_account_id c, oi_started_at = block_timestamp c\<rparr>)"
    and "r_authority_used r' = (r_authority_used r)((predecessor_account_id c, tla) \<mapsto>
           sat_add (authority_used (predecessor_account_id c) tla r) 1)"
proof -
  let ?p = "predecessor_account_id c"
  show "?p \<in> r_payment_authorities r"
    and "\<exists>a. r_authority_allowance r (?p, tla) = Some a \<and> \<not> (a \<noteq> 0 \<and> a \<le> authority_used ?p tla r)"
    and "r_paid_order_ids r oid = None" and "r_sub_accounts r (sub_account_key tla name) = None"
    using assms by (auto simp: rent_sub_account_paid_def Let_def assert_payment_authority_for_def
        assert_payment_authority_def assert_order_unsettled_def)
  obtain r1 o1 where r': "r' = (fst (record_authority_mint ?p tla (fst (open_lease c
        (sub_account_key tla name) tla owner payout r1))))\<lparr>r_paid_order_ids := (r_paid_order_ids r)(oid \<mapsto>
           InFlight \<lparr>oi_full_name = sub_account_key tla name, oi_tla_id = tla,
                     oi_payer = ?p, oi_started_at = block_timestamp c\<rparr>)\<rparr>"
    and r1: "r_authority_used r1 = r_authority_used r" "r_paid_order_ids r1 = r_paid_order_ids r"
    using assms
    by (auto simp: rent_sub_account_paid_def Let_def case_prod_unfold assert_payment_authority_for_def
        assert_payment_authority_def business_count_check_and_bump_def split: if_splits)
  show "r_paid_order_ids r' = (r_paid_order_ids r)(oid \<mapsto>
           InFlight \<lparr>oi_full_name = sub_account_key tla name, oi_tla_id = tla,
                     oi_payer = ?p, oi_started_at = block_timestamp c\<rparr>)"
    by (simp add: r')
  show "r_authority_used r' = (r_authority_used r)((?p, tla) \<mapsto> sat_add (authority_used ?p tla r) 1)"
    by (simp add: r' record_authority_mint_def Let_def authority_used_def r1 split: option.split)
qed

lemma fail_mint_order:
  assumes "ms_order_id s = Some oid"
    and "r_paid_order_ids r oid = Some (InFlight i)"
    and "oi_full_name i = sub_account_key (ms_tla_id s) (ms_name s)" and "oi_payer i = ms_payer s"
  shows "r_paid_order_ids (fst (fail_mint c b s rs r)) = (r_paid_order_ids r)(oid := None)"
    and "authority_used (ms_payer s) (ms_tla_id s) (fst (fail_mint c b s rs r))
         = sat_sub (authority_used (ms_payer s) (ms_tla_id s) r) 1"
proof -
  let ?r1 = "release_authority_mint (ms_payer s) (ms_tla_id s)
               (r\<lparr>r_paid_order_ids := (r_paid_order_ids r)(oid := None)\<rparr>)"
  have rel: "fst (release_order (ms_order_id s) (sub_account_key (ms_tla_id s) (ms_name s))
       (ms_payer s) (ms_tla_id s) r) = ?r1"
    using assms by (simp add: release_order_def)
  have f: "r_paid_order_ids (fst (fail_mint c b s rs r)) = r_paid_order_ids ?r1"
    "r_authority_used (fst (fail_mint c b s rs r)) = r_authority_used ?r1"
    by (simp_all add: fail_mint_def Let_def case_prod_unfold rel)
  show "r_paid_order_ids (fst (fail_mint c b s rs r)) = (r_paid_order_ids r)(oid := None)"
    by (simp add: f)
  show "authority_used (ms_payer s) (ms_tla_id s) (fst (fail_mint c b s rs r))
         = sat_sub (authority_used (ms_payer s) (ms_tla_id s) r) 1"
    by (simp add: authority_used_def f release_authority_mint_def Let_def sat_sub_def split: option.split)
qed

lemma rent_paid_scheduled:
  assumes "rent_sub_account_paid lib c tla name owner payout oid r = Inr (r', outs)"
    and "RegCall rm (Some (On_sub_account_created_paid s)) \<in> set outs"
  shows "ms_order_id s = Some oid \<and> ms_payer s = predecessor_account_id c \<and> ms_tla_id s = tla
       \<and> ms_name s = name \<and> ms_attached_yocto s = attached_deposit c"
proof -
  have "RegCall rm cb \<notin> set (snd (record_authority_mint a t r0))" for a t r0 cb
    by (simp add: record_authority_mint_def Let_def split: option.split)
  then show ?thesis
    using assms
    by (auto simp: rent_sub_account_paid_def Let_def case_prod_unfold start_re_rent_def
        re_rent_transfer_def assert_payment_authority_for_def assert_payment_authority_def
        split: if_splits option.splits)
qed

lemma created_paid_failed:
  assumes "on_sub_account_created_paid c s oc r = Inr (r', outs)" and "oc \<noteq> Inr MintActive"
  shows "\<exists>b reason. r' = fst (fail_mint c b s reason r)"
proof (cases oc)
  case (Inl e)
  then show ?thesis using assms by (auto simp: on_sub_account_created_paid_def Let_def prod_eq_iff)
next
  case (Inr z)
  then show ?thesis using assms
    by (cases z) (auto simp: on_sub_account_created_paid_def Let_def prod_eq_iff)
qed

text \<open>
  A paid rental goes through only for a payment authority bound to the namespace with
  allowance left; it reserves the order id, which was free, for this name and this authority,
  and uses one mint of the allowance, which is never exceeded. If the mint then fails, with or
  without an outcome, the callback frees the order id and gives the mint back: order book and
  allowance are what they were before the rental.
\<close>

theorem paid_rental_allowance:
  assumes rent: "rent_sub_account_paid lib c tla name owner payout oid r = Inr (r1, outs)"
    and sched: "RegCall rm (Some (On_sub_account_created_paid s)) \<in> set outs"
    and cb: "on_sub_account_created_paid c2 s oc r2 = Inr (r3, outs3)" and "oc \<noteq> Inr MintActive"
    and "r_paid_order_ids r2 = r_paid_order_ids r1" and "r_authority_used r2 = r_authority_used r1"
    and allow: "r_authority_allowance r (predecessor_account_id c, tla) = Some a" and "a \<noteq> 0"
  shows "predecessor_account_id c \<in> r_payment_authorities r
       \<and> r_paid_order_ids r oid = None
       \<and> (\<exists>i. r_paid_order_ids r1 oid = Some (InFlight i)
            \<and> oi_full_name i = sub_account_key tla name \<and> oi_payer i = predecessor_account_id c)
       \<and> unat (authority_used (predecessor_account_id c) tla r1)
            = unat (authority_used (predecessor_account_id c) tla r) + 1
       \<and> authority_used (predecessor_account_id c) tla r1 \<le> a
       \<and> r_paid_order_ids r3 = r_paid_order_ids r
       \<and> authority_used (predecessor_account_id c) tla r3 = authority_used (predecessor_account_id c) tla r"
proof -
  let ?p = "predecessor_account_id c" and ?u = "authority_used (predecessor_account_id c) tla"
  note p = rent_paid_Inr [OF rent]
  have s: "ms_order_id s = Some oid" "ms_payer s = ?p" "ms_tla_id s = tla" "ms_name s = name"
    using rent_paid_scheduled [OF rent sched] by simp_all
  have left: "unat (?u r) < unat a" using p(2) allow assms(8) by (auto simp: not_le word_less_nat_alt)
  then have "unat (?u r) < 2 ^ 64 - 1" using unat_le_max [of a] by simp
  then have bump: "unat (sat_add (?u r) 1) = unat (?u r) + 1" by (rule used_bumped)
  have u1: "?u r1 = sat_add (?u r) 1" by (simp add: authority_used_def [of ?p tla r1] p(6))
  obtain i where i: "r_paid_order_ids r1 oid = Some (InFlight i)"
    "oi_full_name i = sub_account_key tla name" "oi_payer i = ?p"
    by (simp add: p(5))
  obtain b reason where r3: "r3 = fst (fail_mint c2 b s reason r2)"
    using created_paid_failed [OF cb assms(4)] by blast
  have i2: "r_paid_order_ids r2 oid = Some (InFlight i)" using i(1) assms(5) by simp
  have full: "oi_full_name i = sub_account_key (ms_tla_id s) (ms_name s)" "oi_payer i = ms_payer s"
    using i s by simp_all
  note f = fail_mint_order [OF s(1) i2 full, of c2 b reason]
  have "r_paid_order_ids r3 = r_paid_order_ids r"
    using f(1) assms(5) p(3) p(5) by (simp add: r3 fun_upd_idem)
  moreover have "?u r2 = ?u r1" by (simp add: authority_used_def assms(6))
  then have "?u r3 = sat_sub (sat_add (?u r) 1) 1" using f(2) s u1 by (simp add: r3)
  then have "?u r3 = ?u r" using bump by (simp add: word_unat_eq_iff unat_sat_sub)
  moreover have "?u r1 \<le> a" using left bump u1 by (simp add: word_le_nat_alt)
  ultimately show ?thesis using p(1,3) i bump u1 by auto
qed

theorem paid_rental_allowance_witness:
  "\<exists>r3 outs3. on_sub_account_created_paid (demo_rc ''reg'' 12 0) demo_paid (Inr CreationFailed) demo_p3
      = Inr (r3, outs3) \<and> r_paid_order_ids r3 = r_paid_order_ids demo_p2
      \<and> authority_used ''pay'' ''tla'' demo_p3 \<le> 2"
proof -
  obtain r3 outs3 where cb: "on_sub_account_created_paid (demo_rc ''reg'' 12 0) demo_paid
      (Inr CreationFailed) demo_p3 = Inr (r3, outs3)"
    by (simp add: on_sub_account_created_paid_def reg_guards Let_def)
       (metis surj_pair)
  have "r_authority_allowance demo_p2 (predecessor_account_id
      (demo_rc ''pay'' 11 12000000000000000000000), ''tla'') = Some 2"
    by (simp add: demo_p2_def)
  from paid_rental_allowance [OF demo_pay3 _ cb _ refl refl this] cb
  show ?thesis by (auto simp: demo_paid_def)
qed

section \<open>A re-rental that the asset gate stops\<close>

text \<open>
  C33. When the asset gate stops a re-rental that was paid off chain, the reservation of the
  name is undone and the attached deposit is owed back, but the order stays in flight and the
  mint stays counted against the allowance. The callback of a re-rental that fails later frees
  both; after the gate only the administrator's manual release, an hour later, can.
\<close>

theorem gate_keeps_order_in_flight:
  assumes "on_re_rent_balances_checked lib c p allowlist r = Inr (r', outs)"
    and "ft_balances_clear lib c allowlist = Blocked token reason"
    and "r_sub_accounts r (sub_account_key (pr_tla_id p) (pr_name p)) \<noteq> None"
  shows "r_sub_accounts r' (sub_account_key (pr_tla_id p) (pr_name p)) = None
       \<and> r_paid_order_ids r' = r_paid_order_ids r \<and> r_authority_used r' = r_authority_used r"
  using assms
  by (auto simp: on_re_rent_balances_checked_def Let_def case_prod_unfold settle_failed_mint_def
      sub_account_remove_def forget_claim_def add_pending_refund_def
      business_count_decrement_if_business_def business_count_decrement_def split: option.splits if_splits)

definition demo_pending :: pending_re_rent where
  "demo_pending = \<lparr>pr_tla_id = ''tla'', pr_name = ''alices'', pr_owner = ''alice'', pr_payer = ''pay'',
     pr_payout_account = ''alice'', pr_rent = 0, pr_attached = 0, pr_sub_account = ''alices.tla'',
     pr_order_id = Some ''o1'', pr_expires_at = 31536000000000011\<rparr>"

theorem gate_keeps_order_in_flight_witness:
  "\<exists>r' outs. on_re_rent_balances_checked demo_rlib ((demo_rc ''reg'' 12 0)\<lparr>promise_results := [Inr [2]]\<rparr>)
      demo_pending [''ft''] demo_p3 = Inr (r', outs)
      \<and> r_sub_accounts r' ''alices.tla'' = None \<and> r_paid_order_ids r' = r_paid_order_ids demo_p3"
proof -
  let ?c = "(demo_rc ''reg'' 12 0)\<lparr>promise_results := [Inr [2]]\<rparr>"
  have key: "sub_account_key ''tla'' ''alices'' = ''alices.tla''" by (simp add: sub_account_key_def)
  have gate: "ft_balances_clear demo_rlib ?c [''ft''] = Blocked (Some ''ft'') ''nonzero_balance''"
    by (simp add: ft_balances_clear_def block_reason_def read_u128_def demo_rlib_def
        FT_BALANCE_MAX_LEN_def)
  obtain r' outs where cb: "on_re_rent_balances_checked demo_rlib ?c demo_pending [''ft''] demo_p3 = Inr (r', outs)"
    by (simp add: on_re_rent_balances_checked_def gate reg_guards Let_def case_prod_unfold)
  from gate_keeps_order_in_flight [OF cb gate] cb show ?thesis
    by (auto simp: demo_pending_def key) (auto simp: demo_p3_def)
qed

end
