(* ===== verification/Bytes.thy ===== *)
theory Bytes
  imports Hos_Common
begin

text \<open>
  Strings and numbers as bytes, the way the contracts write them into messages, storage keys and
  digests: the bytes of a string, and \<open>to_le_bytes\<close> and \<open>from_le_bytes\<close> of the standard library.
\<close>

unbundle bit_operations_syntax

definition as_bytes :: "string \<Rightarrow> bytes" where
  "as_bytes s = map of_char s"

definition to_le_bytes_32 :: "u32 \<Rightarrow> bytes" where
  "to_le_bytes_32 w = map (\<lambda>i. ucast (drop_bit (8 * i) w)) [0..<4]"

definition to_le_bytes_64 :: "u64 \<Rightarrow> bytes" where
  "to_le_bytes_64 w = map (\<lambda>i. ucast (drop_bit (8 * i) w)) [0..<8]"

definition to_le_bytes_128 :: "u128 \<Rightarrow> bytes" where
  "to_le_bytes_128 w = map (\<lambda>i. ucast (drop_bit (8 * i) w)) [0..<16]"

fun from_le_bytes_64 :: "bytes \<Rightarrow> u64" where
  "from_le_bytes_64 [] = 0"
| "from_le_bytes_64 (b # bs) = ucast b OR push_bit 8 (from_le_bytes_64 bs)"

section \<open>Injectivity\<close>

lemma of_char_u8: "unat (of_char ch :: u8) = of_char ch"
proof -
  have "(of_char ch :: nat) mod 256 = of_char ch" by simp
  then have "(of_char ch :: nat) < 256" by (metis mod_less_divisor zero_less_numeral)
  then have "unat (of_nat (of_char ch) :: u8) = of_char ch" by (intro unat_of_nat_fits) simp
  then show ?thesis by (simp add: of_nat_of_char)
qed

lemma of_char_u8_inj: "(of_char a :: u8) = of_char b \<longleftrightarrow> a = b"
  by (metis of_char_u8 of_char_eq_iff)

lemma as_bytes_inj [simp]: "as_bytes s = as_bytes t \<longleftrightarrow> s = t"
proof -
  have "inj (of_char :: char \<Rightarrow> u8)" by (simp add: inj_def of_char_u8_inj)
  then show ?thesis by (simp add: as_bytes_def)
qed

lemma length_as_bytes [simp]: "length (as_bytes s) = length s"
  by (simp add: as_bytes_def)

lemma length_le_bytes [simp]: "length (to_le_bytes_32 w) = 4" "length (to_le_bytes_64 v) = 8"
  by (simp_all add: to_le_bytes_32_def to_le_bytes_64_def)

lemma le_bytes_bits:
  assumes "\<forall>i<n. (ucast (drop_bit (8 * i) w) :: u8) = ucast (drop_bit (8 * i) v)"
    and "LENGTH('a) = 8 * n"
  shows "w = (v :: 'a::len word)"
proof (rule bit_word_eqI)
  fix k assume k: "k < LENGTH('a)"
  have "k div 8 < n" using k assms(2) by auto
  then have "bit (ucast (drop_bit (8 * (k div 8)) w) :: u8) (k mod 8)
      = bit (ucast (drop_bit (8 * (k div 8)) v) :: u8) (k mod 8)" using assms(1) by simp
  then show "bit w k = bit v k" using k by (simp add: bit_simps)
qed

lemma le_bytes_inj [simp]:
  "to_le_bytes_32 w = to_le_bytes_32 v \<longleftrightarrow> w = v"
  "to_le_bytes_64 a = to_le_bytes_64 b \<longleftrightarrow> a = b"
  using le_bytes_bits [of 4 w v] le_bytes_bits [of 8 a b]
  by (auto simp: to_le_bytes_32_def to_le_bytes_64_def)

section \<open>Reading back\<close>

lemma from_le_bytes_take:
  "n \<le> 8 \<Longrightarrow> from_le_bytes_64 (map (\<lambda>i. ucast (drop_bit (8 * i) w)) [k..<k + n])
     = take_bit (8 * n) (drop_bit (8 * k) w)"
proof (induction n arbitrary: k)
  case (Suc n)
  have "[k..<k + Suc n] = k # [Suc k..<Suc k + n]" by (simp add: upt_conv_Cons)
  moreover have "from_le_bytes_64 (map (\<lambda>i. ucast (drop_bit (8 * i) w)) [Suc k..<Suc k + n])
      = take_bit (8 * n) (drop_bit (8 * Suc k) w)" using Suc by (intro Suc.IH) simp
  moreover have "ucast (ucast (drop_bit (8 * k) w) :: u8) OR push_bit 8 (take_bit (8 * n) (drop_bit (8 * Suc k) w))
      = take_bit (8 * Suc n) (drop_bit (8 * k) w)"
    using Suc.prems by (intro bit_word_eqI) (auto simp: bit_simps)
  ultimately show ?case by simp
qed simp

lemma from_to_le_bytes_64 [simp]: "from_le_bytes_64 (to_le_bytes_64 w) = w"
  using from_le_bytes_take [of 8 w 0] by (simp add: to_le_bytes_64_def take_bit_word_eq_self)

end
