(* ===== verification/Registry_Storage.thy ===== *)
theory Registry_Storage
  imports Registry_Demo Bytes
begin

text \<open>
  What the registry keeps outside its state record (\<open>contracts/tla-registry/src\<close>: \<open>lib.rs\<close>,
  \<open>business.rs\<close>): rows written straight into the account's storage under keys the code builds
  by hand, for the allowances of the payment authorities, the resale switch, the whitelists and
  the claimed names. The model of the other theories has these rows as maps and sets of the
  record; here are the keys and the reads and writes as the code has them, and the proof that
  the rows behave as those maps and sets: no two rows share a key, and none of them a key with a
  collection of the SDK.
\<close>

section \<open>Keys\<close>

definition AUTHORITY_TLA_PREFIX :: bytes where "AUTHORITY_TLA_PREFIX = as_bytes ''pa_tla:''"
definition AUTHORITY_USED_PREFIX :: bytes where "AUTHORITY_USED_PREFIX = as_bytes ''pa_use:''"
definition RESALE_PREFIX :: bytes where "RESALE_PREFIX = as_bytes ''biz_resale:''"
definition WHITELIST_PREFIX :: bytes where "WHITELIST_PREFIX = as_bytes ''biz_wl:''"
definition CLAIMED_PREFIX :: bytes where "CLAIMED_PREFIX = as_bytes ''biz_claimed:''"

definition authority_scoped_key :: "bytes \<Rightarrow> account_id \<Rightarrow> account_id \<Rightarrow> bytes" where
  "authority_scoped_key prefix authority tla_id =
     prefix @ as_bytes authority @ [of_char (CHR ''|'')] @ as_bytes tla_id"

definition authority_tla_key :: "account_id \<Rightarrow> account_id \<Rightarrow> bytes" where
  "authority_tla_key authority tla_id = authority_scoped_key AUTHORITY_TLA_PREFIX authority tla_id"

definition authority_used_key :: "account_id \<Rightarrow> account_id \<Rightarrow> bytes" where
  "authority_used_key authority tla_id = authority_scoped_key AUTHORITY_USED_PREFIX authority tla_id"

definition resale_key :: "account_id \<Rightarrow> bytes" where
  "resale_key tla_id = RESALE_PREFIX @ as_bytes tla_id"

definition whitelist_key :: "account_id \<Rightarrow> account_id \<Rightarrow> bytes" where
  "whitelist_key tla_id account =
     WHITELIST_PREFIX @ as_bytes tla_id @ [of_char (CHR ''|'')] @ as_bytes account"

definition claimed_key :: "string \<Rightarrow> bytes" where
  "claimed_key full_name = CLAIMED_PREFIX @ as_bytes full_name"

text \<open>The prefixes of the SDK collections: the borsh form of the enumeration, one byte for the
  variant and, for the two inner sets, the account.\<close>

datatype storage_key =
    SkTlas | SkRetiredSubAccounts | SkAdmins | SkPendingRefunds | SkFtAllowlist | SkBusinessSubCount
  | SkBusinessSubCapOverride | SkRetiredListings | SkRetiredAcceptedOffers | SkParkedNames
  | SkReclaimPending | SkPaymentAuthorities | SkRecoveryAuthorities | SkSubAccountsIndexed
  | SkRetiredListingsIndexed | SkRetiredAcceptedOffersIndexed | SkSubAccountsByOwner
  | SkSubAccountsByOwnerInner account_id | SkSubAccountsByTla | SkSubAccountsByTlaInner account_id
  | SkRecentActivity | SkSweepableTokens | SkSuspendedUntil | SkRetiredTokenMetadataStore | SkVenues
  | SkPaidOrderIds | SkTlaTerms

definition borsh_str :: "string \<Rightarrow> bytes" where
  "borsh_str s = to_le_bytes_32 (of_nat (length s)) @ as_bytes s"

fun storage_prefix :: "storage_key \<Rightarrow> bytes" where
  "storage_prefix SkTlas = [0]"
| "storage_prefix SkRetiredSubAccounts = [1]"
| "storage_prefix SkAdmins = [2]"
| "storage_prefix SkPendingRefunds = [3]"
| "storage_prefix SkFtAllowlist = [4]"
| "storage_prefix SkBusinessSubCount = [5]"
| "storage_prefix SkBusinessSubCapOverride = [6]"
| "storage_prefix SkRetiredListings = [7]"
| "storage_prefix SkRetiredAcceptedOffers = [8]"
| "storage_prefix SkParkedNames = [9]"
| "storage_prefix SkReclaimPending = [10]"
| "storage_prefix SkPaymentAuthorities = [11]"
| "storage_prefix SkRecoveryAuthorities = [12]"
| "storage_prefix SkSubAccountsIndexed = [13]"
| "storage_prefix SkRetiredListingsIndexed = [14]"
| "storage_prefix SkRetiredAcceptedOffersIndexed = [15]"
| "storage_prefix SkSubAccountsByOwner = [16]"
| "storage_prefix (SkSubAccountsByOwnerInner owner) = [17] @ borsh_str owner"
| "storage_prefix SkSubAccountsByTla = [18]"
| "storage_prefix (SkSubAccountsByTlaInner tla) = [19] @ borsh_str tla"
| "storage_prefix SkRecentActivity = [20]"
| "storage_prefix SkSweepableTokens = [21]"
| "storage_prefix SkSuspendedUntil = [22]"
| "storage_prefix SkRetiredTokenMetadataStore = [23]"
| "storage_prefix SkVenues = [24]"
| "storage_prefix SkPaidOrderIds = [25]"
| "storage_prefix SkTlaTerms = [26]"

section \<open>Rows\<close>

type_synonym storage = "bytes \<rightharpoonup> bytes"

definition read_u64 :: "bytes \<Rightarrow> storage \<Rightarrow> u64 option" where
  "read_u64 key s = Option.bind (s key) (\<lambda>raw.
     if length raw = 8 then Some (from_le_bytes_64 raw) else None)"

definition authority_allowance_row :: "account_id \<Rightarrow> account_id \<Rightarrow> storage \<Rightarrow> u64 option" where
  "authority_allowance_row authority tla_id s = read_u64 (authority_tla_key authority tla_id) s"

definition authority_used_row :: "account_id \<Rightarrow> account_id \<Rightarrow> storage \<Rightarrow> u64" where
  "authority_used_row authority tla_id s =
     (case read_u64 (authority_used_key authority tla_id) s of None \<Rightarrow> 0 | Some used \<Rightarrow> used)"

text \<open>The writes of the methods, in the order of the source; the events and guards of the methods
  are in the theories that model them.\<close>

definition bind_rows :: "account_id \<Rightarrow> account_id \<Rightarrow> u64 \<Rightarrow> storage \<Rightarrow> storage" where
  "bind_rows account tla_id max_mints s =
     s(authority_tla_key account tla_id \<mapsto> to_le_bytes_64 max_mints)"

definition unbind_rows :: "account_id \<Rightarrow> account_id \<Rightarrow> storage \<Rightarrow> storage" where
  "unbind_rows account tla_id s =
     s(authority_tla_key account tla_id := None, authority_used_key account tla_id := None)"

definition release_mint_rows :: "account_id \<Rightarrow> account_id \<Rightarrow> storage \<Rightarrow> storage" where
  "release_mint_rows authority tla_id s =
     (let used = authority_used_row authority tla_id s
      in if used = 0 then s
         else s(authority_used_key authority tla_id \<mapsto> to_le_bytes_64 (sat_sub used 1)))"

definition record_mint_rows :: "account_id \<Rightarrow> account_id \<Rightarrow> storage \<Rightarrow> storage" where
  "record_mint_rows authority tla_id s =
     s(authority_used_key authority tla_id \<mapsto>
         to_le_bytes_64 (sat_add (authority_used_row authority tla_id s) 1))"

definition enable_resale_rows :: "account_id \<Rightarrow> storage \<Rightarrow> storage" where
  "enable_resale_rows tla_id s =
     (if s (resale_key tla_id) \<noteq> None then s else s(resale_key tla_id \<mapsto> [1]))"

fun whitelist_add_rows :: "account_id \<Rightarrow> account_id list \<Rightarrow> storage \<Rightarrow> storage \<times> account_id list" where
  "whitelist_add_rows tla_id [] s = (s, [])"
| "whitelist_add_rows tla_id (a # as) s =
     (let evicted = s (whitelist_key tla_id a) \<noteq> None;
          (s', added) = whitelist_add_rows tla_id as (s(whitelist_key tla_id a \<mapsto> [1]))
      in (s', if evicted then added else a # added))"

fun whitelist_remove_rows :: "account_id \<Rightarrow> account_id list \<Rightarrow> storage \<Rightarrow> storage \<times> account_id list" where
  "whitelist_remove_rows tla_id [] s = (s, [])"
| "whitelist_remove_rows tla_id (a # as) s =
     (let present = s (whitelist_key tla_id a) \<noteq> None;
          (s', removed) = whitelist_remove_rows tla_id as (s(whitelist_key tla_id a := None))
      in (s', if present then a # removed else removed))"

definition claim_rows :: "account_id \<Rightarrow> account_id \<Rightarrow> string \<Rightarrow> storage \<Rightarrow> storage" where
  "claim_rows tla_id claimer full_name s =
     s(whitelist_key tla_id claimer := None, claimed_key full_name \<mapsto> [1])"

definition forget_claim_rows :: "string \<Rightarrow> storage \<Rightarrow> storage" where
  "forget_claim_rows full_name s = s(claimed_key full_name := None)"

text \<open>The callback of a claim puts the claimer back on the whitelist when the account was not
  created; a mint that failed also takes the name out, and its claim with it.\<close>

definition claimed_rows ::
    "mint_settlement \<Rightarrow> promise_error + mint_outcome \<Rightarrow> tla_registry \<Rightarrow> storage \<Rightarrow> storage" where
  "claimed_rows ms outcome r s =
     (let key = sub_account_key (ms_tla_id ms) (ms_name ms);
          s1 = (if outcome = Inr CreationFailed
                then s(whitelist_key (ms_tla_id ms) (ms_owner ms) \<mapsto> [1]) else s)
      in if outcome = Inr MintActive \<or> r_sub_accounts r key = None then s1
         else forget_claim_rows key s1)"

section \<open>No two rows share a key\<close>

text \<open>An account id has no \<open>|\<close>; the SDK refuses one that has.\<close>

definition plain_id :: "account_id \<Rightarrow> bool" where
  "plain_id a \<longleftrightarrow> CHR ''|'' \<notin> set a"

lemma split_at_bar:
  "CHR ''|'' \<notin> set a \<Longrightarrow> CHR ''|'' \<notin> set c \<Longrightarrow> a @ CHR ''|'' # b = c @ CHR ''|'' # d \<longleftrightarrow> a = c \<and> b = d"
  by (induction a arbitrary: c; case_tac c; auto)

lemmas key_defs = authority_tla_key_def authority_used_key_def authority_scoped_key_def resale_key_def
  whitelist_key_def claimed_key_def AUTHORITY_TLA_PREFIX_def AUTHORITY_USED_PREFIX_def
  RESALE_PREFIX_def WHITELIST_PREFIX_def CLAIMED_PREFIX_def

lemma key_strings:
  "authority_tla_key a t = as_bytes (''pa_tla:'' @ a @ CHR ''|'' # t)"
  "authority_used_key a t = as_bytes (''pa_use:'' @ a @ CHR ''|'' # t)"
  "resale_key t = as_bytes (''biz_resale:'' @ t)"
  "whitelist_key t a = as_bytes (''biz_wl:'' @ t @ CHR ''|'' # a)"
  "claimed_key n = as_bytes (''biz_claimed:'' @ n)"
  by (simp_all add: key_defs as_bytes_def)

lemma keys_inj [simp]:
  "plain_id a \<Longrightarrow> plain_id b \<Longrightarrow> authority_tla_key a t = authority_tla_key b u \<longleftrightarrow> a = b \<and> t = u"
  "plain_id a \<Longrightarrow> plain_id b \<Longrightarrow> authority_used_key a t = authority_used_key b u \<longleftrightarrow> a = b \<and> t = u"
  "resale_key t = resale_key u \<longleftrightarrow> t = u"
  "plain_id t \<Longrightarrow> plain_id u \<Longrightarrow> whitelist_key t a = whitelist_key u b \<longleftrightarrow> t = u \<and> a = b"
  "claimed_key n = claimed_key m \<longleftrightarrow> n = m"
  by (simp_all only: key_strings as_bytes_inj) (simp_all add: plain_id_def split_at_bar)

lemma keys_apart [simp]:
  "authority_tla_key a t \<noteq> authority_used_key b u" "authority_used_key b u \<noteq> authority_tla_key a t"
  "authority_tla_key a t \<noteq> resale_key u" "resale_key u \<noteq> authority_tla_key a t"
  "authority_tla_key a t \<noteq> whitelist_key u b" "whitelist_key u b \<noteq> authority_tla_key a t"
  "authority_tla_key a t \<noteq> claimed_key n" "claimed_key n \<noteq> authority_tla_key a t"
  "authority_used_key a t \<noteq> resale_key u" "resale_key u \<noteq> authority_used_key a t"
  "authority_used_key a t \<noteq> whitelist_key u b" "whitelist_key u b \<noteq> authority_used_key a t"
  "authority_used_key a t \<noteq> claimed_key n" "claimed_key n \<noteq> authority_used_key a t"
  "resale_key t \<noteq> whitelist_key u b" "whitelist_key u b \<noteq> resale_key t"
  "resale_key t \<noteq> claimed_key n" "claimed_key n \<noteq> resale_key t"
  "whitelist_key u b \<noteq> claimed_key n" "claimed_key n \<noteq> whitelist_key u b"
  by (simp_all only: key_strings as_bytes_inj) simp_all

text \<open>Every hand-made key starts with a letter, every collection of the SDK with a byte below 27,
  and the record itself is under \<open>STATE\<close>.\<close>

definition sdk_key :: "bytes \<Rightarrow> bool" where
  "sdk_key k \<longleftrightarrow> k = as_bytes ''STATE'' \<or> (\<exists>sk rest. k = storage_prefix sk @ rest)"

lemma storage_prefix_hd: "storage_prefix sk \<noteq> [] \<and> hd (storage_prefix sk) \<le> 26"
  by (cases sk) simp_all

lemma key_hds:
  "hd (authority_tla_key a t) = 112" "hd (authority_used_key a t) = 112" "hd (resale_key t) = 98"
  "hd (whitelist_key t a) = 98" "hd (claimed_key n) = 98"
  by (simp_all add: key_defs as_bytes_def)

lemma sdk_key_hd: "sdk_key k \<Longrightarrow> hd k \<noteq> 112 \<and> hd k \<noteq> 98"
proof (unfold sdk_key_def, elim disjE exE)
  assume "k = as_bytes ''STATE''"
  then show ?thesis by (simp add: as_bytes_def)
next
  fix sk rest assume k: "k = storage_prefix sk @ rest"
  with storage_prefix_hd [of sk] have "hd k \<le> 26" by simp
  then show ?thesis by auto
qed

lemma sdk_keys_apart:
  assumes "sdk_key k"
  shows "authority_tla_key a t \<noteq> k" "authority_used_key a t \<noteq> k" "resale_key t \<noteq> k"
    "whitelist_key t a \<noteq> k" "claimed_key n \<noteq> k"
  using sdk_key_hd [OF assms] key_hds by metis+

section \<open>The rows are the maps and sets of the model\<close>

definition rows_agree :: "storage \<Rightarrow> tla_registry \<Rightarrow> bool" where
  "rows_agree s r \<longleftrightarrow>
     (\<forall>a t. plain_id a \<longrightarrow> authority_allowance_row a t s = r_authority_allowance r (a, t)) \<and>
     (\<forall>a t. plain_id a \<longrightarrow> read_u64 (authority_used_key a t) s = r_authority_used r (a, t)) \<and>
     (\<forall>t. s (resale_key t) \<noteq> None \<longleftrightarrow> t \<in> r_biz_resale r) \<and>
     (\<forall>t a. plain_id t \<longrightarrow> (s (whitelist_key t a) \<noteq> None \<longleftrightarrow> (t, a) \<in> r_biz_whitelist r)) \<and>
     (\<forall>n. s (claimed_key n) \<noteq> None \<longleftrightarrow> n \<in> r_biz_claimed r)"

lemma read_u64_written: "read_u64 k (s(k \<mapsto> to_le_bytes_64 w)) = Some w"
  by (simp add: read_u64_def)

lemma read_u64_removed: "read_u64 k (s(k := None)) = None"
  by (simp add: read_u64_def)

lemma read_u64_other: "k \<noteq> k' \<Longrightarrow> read_u64 k (s(k' := v)) = read_u64 k s"
  by (simp add: read_u64_def)

lemma read_u64_upd:
  "read_u64 k (s(k' := v)) =
     (if k = k' then Option.bind v (\<lambda>raw. if length raw = 8 then Some (from_le_bytes_64 raw) else None)
      else read_u64 k s)"
  by (simp add: read_u64_def)

lemma used_row_agree:
  "rows_agree s r \<Longrightarrow> plain_id a \<Longrightarrow> authority_used_row a t s = authority_used a t r"
  by (simp add: rows_agree_def authority_used_row_def authority_used_def)

lemmas rows_simps = rows_agree_def authority_allowance_row_def read_u64_upd

lemma rows_agree_cong:
  "rows_agree s r \<Longrightarrow> r_authority_allowance r' = r_authority_allowance r \<Longrightarrow>
   r_authority_used r' = r_authority_used r \<Longrightarrow> r_biz_resale r' = r_biz_resale r \<Longrightarrow>
   r_biz_whitelist r' = r_biz_whitelist r \<Longrightarrow> r_biz_claimed r' = r_biz_claimed r \<Longrightarrow> rows_agree s r'"
  by (simp add: rows_agree_def)

lemma bind_rows_agree:
  "rows_agree s r \<Longrightarrow> plain_id a \<Longrightarrow>
   rows_agree (bind_rows a t n s)
     (r\<lparr>r_authority_allowance := (r_authority_allowance r)((a, t) \<mapsto> n)\<rparr>)"
  by (auto simp: rows_simps bind_rows_def)

lemma unbind_rows_agree:
  "rows_agree s r \<Longrightarrow> plain_id a \<Longrightarrow>
   rows_agree (unbind_rows a t s)
     (r\<lparr>r_authority_allowance := (r_authority_allowance r)((a, t) := None),
        r_authority_used := (r_authority_used r)((a, t) := None)\<rparr>)"
  by (auto simp: rows_simps unbind_rows_def)

lemma used_write_agree:
  "rows_agree s r \<Longrightarrow> plain_id a \<Longrightarrow>
   rows_agree (s(authority_used_key a t \<mapsto> to_le_bytes_64 n))
     (r\<lparr>r_authority_used := (r_authority_used r)((a, t) \<mapsto> n)\<rparr>)"
  by (auto simp: rows_simps)

lemma whitelist_write_agree:
  "rows_agree s r \<Longrightarrow> plain_id t \<Longrightarrow>
   rows_agree (s(whitelist_key t a \<mapsto> v)) (r\<lparr>r_biz_whitelist := insert (t, a) (r_biz_whitelist r)\<rparr>)"
  by (auto simp: rows_simps)

lemma whitelist_remove_agree:
  "rows_agree s r \<Longrightarrow> plain_id t \<Longrightarrow>
   rows_agree (s(whitelist_key t a := None)) (r\<lparr>r_biz_whitelist := r_biz_whitelist r - {(t, a)}\<rparr>)"
  by (auto simp: rows_simps)

lemma claimed_write_agree:
  "rows_agree s r \<Longrightarrow>
   rows_agree (s(claimed_key n \<mapsto> v)) (r\<lparr>r_biz_claimed := insert n (r_biz_claimed r)\<rparr>)"
  by (auto simp: rows_simps)

lemma forget_claim_agree:
  "rows_agree s r \<Longrightarrow> rows_agree (forget_claim_rows n s) (forget_claim n r)"
  by (auto simp: rows_simps forget_claim_rows_def forget_claim_def)

lemma release_mint_agree:
  "rows_agree s r \<Longrightarrow> plain_id a \<Longrightarrow>
   rows_agree (release_mint_rows a t s) (release_authority_mint a t r)"
  by (simp add: release_mint_rows_def release_authority_mint_def used_row_agree Let_def used_write_agree)

lemma record_mint_agree:
  "rows_agree s r \<Longrightarrow> plain_id a \<Longrightarrow>
   rows_agree (record_mint_rows a t s) (fst (record_authority_mint a t r))"
  by (simp add: record_mint_rows_def record_authority_mint_def used_row_agree Let_def used_write_agree
      split: option.split)

lemma enable_resale_agree:
  "rows_agree s r \<Longrightarrow>
   rows_agree (enable_resale_rows t s) (r\<lparr>r_biz_resale := insert t (r_biz_resale r)\<rparr>)"
  by (auto simp: rows_simps enable_resale_rows_def)

lemma whitelist_add_agree:
  "rows_agree s r \<Longrightarrow> plain_id t \<Longrightarrow>
   rows_agree (fst (whitelist_add_rows t as s))
     (r\<lparr>r_biz_whitelist := fst (whitelist_insert_all t as (r_biz_whitelist r))\<rparr>) \<and>
   snd (whitelist_add_rows t as s) = snd (whitelist_insert_all t as (r_biz_whitelist r))"
proof (induction as arbitrary: s r)
  case (Cons a as)
  from Cons.prems have "s (whitelist_key t a) \<noteq> None \<longleftrightarrow> (t, a) \<in> r_biz_whitelist r"
    by (simp add: rows_agree_def)
  moreover note Cons.IH [OF whitelist_write_agree [OF Cons.prems] Cons.prems(2)]
  ultimately show ?case by (simp add: Let_def case_prod_unfold del: fun_upd_apply)
qed simp

lemma whitelist_drop_agree:
  "rows_agree s r \<Longrightarrow> plain_id t \<Longrightarrow>
   rows_agree (fst (whitelist_remove_rows t as s))
     (r\<lparr>r_biz_whitelist := fst (whitelist_remove_all t as (r_biz_whitelist r))\<rparr>) \<and>
   snd (whitelist_remove_rows t as s) = snd (whitelist_remove_all t as (r_biz_whitelist r))"
proof (induction as arbitrary: s r)
  case (Cons a as)
  from Cons.prems have "s (whitelist_key t a) \<noteq> None \<longleftrightarrow> (t, a) \<in> r_biz_whitelist r"
    by (simp add: rows_agree_def)
  moreover note Cons.IH [OF whitelist_remove_agree [OF Cons.prems] Cons.prems(2)]
  ultimately show ?case by (simp add: Let_def case_prod_unfold del: fun_upd_apply)
qed simp

lemma sdk_write_agree:
  "rows_agree s r \<Longrightarrow> sdk_key k \<Longrightarrow> rows_agree (s(k := v)) r"
  by (simp add: rows_simps sdk_keys_apart)

lemma open_lease_rows:
  "open_lease c key tla_id holder payout r = (r', e) \<Longrightarrow> rows_agree s r \<Longrightarrow> rows_agree s r'"
  by (rule rows_agree_cong [of s r]) (auto simp: open_lease_def sub_account_insert_def Let_def)

lemma claim_agree:
  "rows_agree s r \<Longrightarrow> plain_id t \<Longrightarrow>
   res_all (\<lambda>(r', _). rows_agree (claim_rows t (predecessor_account_id c) (sub_account_key t n) s) r')
     (claim_business_name c t n r)"
  unfolding claim_business_name_def Let_def case_prod_unfold
  by (intro res_walk)
     (auto intro!: rows_agree_cong [OF claimed_write_agree [OF whitelist_remove_agree]]
       simp: claim_rows_def open_lease_def sub_account_insert_def Let_def
         business_count_check_and_bump_def require_def split: if_splits)

lemma row_helpers [simp]:
  "rows_agree s (add_pending_refund a n r) \<longleftrightarrow> rows_agree s r"
  "rows_agree s (refund_excess a n m r) \<longleftrightarrow> rows_agree s r"
  "rows_agree s (business_count_decrement_if_business t r) \<longleftrightarrow> rows_agree s r"
  "rows_agree s (fst (emit_activity c ev r)) \<longleftrightarrow> rows_agree s r"
  "rows_agree s (r\<lparr>r_parked_names := pk\<rparr>) \<longleftrightarrow> rows_agree s r"
  "rows_agree s (r\<lparr>r_sub_account_count := k, r_total_revenue := v\<rparr>) \<longleftrightarrow> rows_agree s r"
  by (simp_all add: rows_agree_def helper_defs split: option.split prod.split)

lemma remove_agree:
  "rows_agree s r \<Longrightarrow>
   rows_agree (if r_sub_accounts r key = None then s else forget_claim_rows key s) (fst (sub_account_remove key r))"
  by (auto simp: sub_account_remove_def split: option.split
      intro!: forget_claim_agree rows_agree_cong [of s r])

lemma fail_mint_agree:
  assumes "rows_agree s r" "ms_order_id ms = None"
  shows "rows_agree (if r_sub_accounts r (sub_account_key (ms_tla_id ms) (ms_name ms)) = None then s
      else forget_claim_rows (sub_account_key (ms_tla_id ms) (ms_name ms)) s) (fst (fail_mint c b ms reason r))"
  using remove_agree [OF assms(1), of "sub_account_key (ms_tla_id ms) (ms_name ms)"] assms
  by (auto simp: fail_mint_def release_order_def settle_failed_mint_def settle_stranded_mint_def Let_def
      sub_account_remove_def split: option.split prod.split if_splits)

lemma claimed_agree:
  assumes "rows_agree s r" "ms_order_id ms = None" "plain_id (ms_tla_id ms)"
  shows "res_all (\<lambda>(r', _). rows_agree (claimed_rows ms oc r s) r') (on_business_name_claimed c ms oc r)"
proof -
  let ?key = "sub_account_key (ms_tla_id ms) (ms_name ms)"
  let ?s = "if oc = Inr CreationFailed then s(whitelist_key (ms_tla_id ms) (ms_owner ms) \<mapsto> [1]) else s"
  let ?r = "if oc = Inr CreationFailed
    then r\<lparr>r_biz_whitelist := insert (ms_tla_id ms, ms_owner ms) (r_biz_whitelist r)\<rparr> else r"
  have agree: "rows_agree ?s ?r"
    using assms by (simp add: whitelist_write_agree del: fun_upd_apply)
  show ?thesis
  proof (cases "oc = Inr MintActive")
    case True
    with assms show ?thesis
      by (auto simp: on_business_name_claimed_def on_sub_account_created_def confirm_order_def
          record_rental_def claimed_rows_def Let_def case_prod_unfold intro!: res_walk)
  next
    case False
    have "\<exists>b reason. on_sub_account_created c ms oc ?r
        = rbind (assert_private_r c) (\<lambda>_. Inr (fail_mint c b ms reason ?r))"
      using False by (auto simp: on_sub_account_created_def Let_def split: sum.split mint_outcome.split)
    then obtain b reason where cb: "on_sub_account_created c ms oc ?r
        = rbind (assert_private_r c) (\<lambda>_. Inr (fail_mint c b ms reason ?r))" by blast
    have "r_sub_accounts ?r = r_sub_accounts r" by simp
    with False fail_mint_agree [OF agree assms(2), of c b reason]
    have "rows_agree (claimed_rows ms oc r s) (fst (fail_mint c b ms reason ?r))"
      by (simp add: claimed_rows_def Let_def del: fun_upd_apply)
    then show ?thesis
      unfolding on_business_name_claimed_def cb by (intro res_walk) (simp add: case_prod_unfold)
  qed
qed

section \<open>The methods on the raw rows\<close>

text \<open>C17. The rows the registry writes by hand behave as the maps and sets of the model. From any
  storage that agrees with the registry, each method that writes such a row (binding and unbinding a
  payment authority, counting and releasing its mints, enabling resale, adding to and removing from
  a whitelist, claiming a name, the callback of the claim with any outcome, and forgetting a claim)
  leaves a storage that agrees with the
  registry after it, whatever accounts, names and numbers are involved; the whitelist methods
  report the accounts that were new or were there; and no write of the contract's record or of one
  of its collections touches a row.\<close>

theorem raw_rows_refine_registry:
  assumes "rows_agree s r" "plain_id a" "plain_id t"
  shows
    "res_all (\<lambda>(r', _). rows_agree (bind_rows a t n s) r') (bind_payment_authority_tla c a t n r) \<and>
     res_all (\<lambda>(r', _). rows_agree (unbind_rows a t s) r') (unbind_payment_authority_tla c a t r) \<and>
     authority_used_row a t s = authority_used a t r \<and>
     rows_agree (record_mint_rows a t s) (fst (record_authority_mint a t r)) \<and>
     rows_agree (release_mint_rows a t s) (release_authority_mint a t r) \<and>
     res_all (\<lambda>(r', _). rows_agree (enable_resale_rows t s) r') (enable_business_resale c t r) \<and>
     res_all (\<lambda>(r', outs). rows_agree (fst (whitelist_add_rows t as s)) r' \<and>
         outs = [RegEmit (BusinessWhitelistAdded t (snd (whitelist_add_rows t as s))
                           (predecessor_account_id c))])
       (admin_whitelist_add c t as r) \<and>
     res_all (\<lambda>(r', outs). rows_agree (fst (whitelist_remove_rows t as s)) r' \<and>
         outs = [RegEmit (BusinessWhitelistRemoved t (snd (whitelist_remove_rows t as s))
                           (predecessor_account_id c))])
       (admin_whitelist_remove c t as r) \<and>
     res_all (\<lambda>(r', _). rows_agree
         (claim_rows t (predecessor_account_id c) (sub_account_key t name) s) r')
       (claim_business_name c t name r) \<and>
     (\<forall>ms oc. ms_order_id ms = None \<and> ms_tla_id ms = t \<longrightarrow>
        res_all (\<lambda>(r', _). rows_agree (claimed_rows ms oc r s) r') (on_business_name_claimed c ms oc r)) \<and>
     rows_agree (forget_claim_rows name s) (forget_claim name r) \<and>
     (\<forall>k v. sdk_key k \<longrightarrow> rows_agree (s(k := v)) r)"
proof (intro conjI)
  note agree = assms(1)
  show "res_all (\<lambda>(r', _). rows_agree (bind_rows a t n s) r') (bind_payment_authority_tla c a t n r)"
    unfolding bind_payment_authority_tla_def
    by (intro res_walk) (simp add: bind_rows_agree [OF agree assms(2)])
  show "res_all (\<lambda>(r', _). rows_agree (unbind_rows a t s) r') (unbind_payment_authority_tla c a t r)"
    unfolding unbind_payment_authority_tla_def
    by (intro res_walk) (simp add: unbind_rows_agree [OF agree assms(2)])
  show "res_all (\<lambda>(r', _). rows_agree (enable_resale_rows t s) r') (enable_business_resale c t r)"
    unfolding enable_business_resale_def
    using enable_resale_agree [OF agree, of t]
    by (intro res_walk) (simp_all add: insert_absorb)
  show "res_all (\<lambda>(r', outs). rows_agree (fst (whitelist_add_rows t as s)) r' \<and>
         outs = [RegEmit (BusinessWhitelistAdded t (snd (whitelist_add_rows t as s))
                           (predecessor_account_id c))]) (admin_whitelist_add c t as r)"
    unfolding admin_whitelist_add_def Let_def case_prod_unfold
    by (intro res_walk) (simp add: whitelist_add_agree [OF agree assms(3)])
  show "res_all (\<lambda>(r', outs). rows_agree (fst (whitelist_remove_rows t as s)) r' \<and>
         outs = [RegEmit (BusinessWhitelistRemoved t (snd (whitelist_remove_rows t as s))
                           (predecessor_account_id c))]) (admin_whitelist_remove c t as r)"
    unfolding admin_whitelist_remove_def Let_def case_prod_unfold
    by (intro res_walk) (simp add: whitelist_drop_agree [OF agree assms(3)])
  show "\<forall>ms oc. ms_order_id ms = None \<and> ms_tla_id ms = t \<longrightarrow>
        res_all (\<lambda>(r', _). rows_agree (claimed_rows ms oc r s) r') (on_business_name_claimed c ms oc r)"
    using claimed_agree [OF agree] assms(3) by blast
qed (auto simp: used_row_agree record_mint_agree release_mint_agree claim_agree forget_claim_agree
    sdk_write_agree assms)

lemma fresh_rows_agree: "rows_agree Map.empty demo_r0"
  using demo_r0_eq
  by (auto simp: rows_agree_def authority_allowance_row_def read_u64_def registry_new_def Let_def
      require_def split: if_splits)

theorem raw_rows_refine_registry_witness:
  "rows_agree Map.empty demo_r0 \<and>
   rows_agree (record_mint_rows ''pay'' ''tla'' Map.empty)
     (fst (record_authority_mint ''pay'' ''tla'' demo_r0)) \<and>
   read_u64 (authority_used_key ''pay'' ''tla'')
     (record_mint_rows ''pay'' ''tla'' Map.empty) = Some 1"
  using raw_rows_refine_registry [OF fresh_rows_agree, of "''pay''" "''tla''"] fresh_rows_agree
  by (simp add: plain_id_def record_mint_rows_def authority_used_row_def read_u64_def sat_add_def)

end
