(* ===== verification/Registry_Queries.thy ===== *)
theory Registry_Queries
  imports Registry_Storage
begin

text \<open>
  What the registry answers (\<open>contracts/tla-registry/src\<close>: \<open>views.rs\<close>, and the read-only methods
  of \<open>nft.rs\<close>, \<open>business.rs\<close>, \<open>lib.rs\<close> and \<open>admin.rs\<close>): single entries, prices, pages over the
  names, statistics and the readiness report. \<open>list_recent_activity\<close> is in \<open>Registry_Activity\<close>,
  \<open>nft_token\<close> and the pages by cursor in \<open>Registry_Market\<close>. The properties: what is shown is what is
  charged, the readiness report is what it says, and a client that follows the pages of an owner
  comes to an end with every token of the owner, once.
\<close>

section \<open>Shapes of the answers\<close>

record tla_view =
  tv_tla_id :: account_id
  tv_tla_type :: tla_type
  tv_lifecycle :: lifecycle_status
  tv_licensee :: "account_id option"
  tv_premium_category :: premium_category
  tv_activated_at :: u64
  tv_expires_at :: u64
  tv_annual_rent :: u128

record sub_account_view =
  sv_full_name :: string
  sv_owner :: account_id
  sv_tla_id :: account_id
  sv_payout_account :: account_id
  sv_lifecycle :: lifecycle_status
  sv_rented_at :: u64
  sv_expires_at :: u64
  sv_annual_rent :: u128

record sub_account_detail_view =
  dv_sub_account :: sub_account_view
  dv_retraction_at :: "u64 option"

record parked_sub_account_view =
  pv_full_name :: string
  pv_tla_id :: account_id
  pv_parked_at :: u64

record rent_price_view =
  rp_rent_yocto :: u128
  rp_creation_deposit_yocto :: u128
  rp_total_yocto :: u128

record registry_stats =
  st_tla_count :: u64
  st_sub_account_count :: u64
  st_total_revenue_yocto :: u128
  st_total_pending_refunds_yocto :: u128

record rate_meta_view =
  rm_updated_at :: u64
  rm_sequence :: u64

record business_renewal_cost_view =
  br_tla_id :: account_id
  br_tla_rent_yocto :: u128

record deployment_readiness_view =
  dr_rate_set :: bool
  dr_recovery_wired :: bool
  dr_venue_set :: bool
  dr_ft_allowlist_set :: bool
  dr_metadata_set :: bool
  dr_wiring_sane :: bool
  dr_production_terms :: bool
  dr_lease_term_ns :: u64
  dr_grace_period_ns :: u64
  dr_ready :: bool

section \<open>Single entries\<close>

definition to_tla_view ::
    "ctx \<Rightarrow> account_id \<Rightarrow> tla_entry \<Rightarrow> fee_config \<Rightarrow> lifecycle_clock \<Rightarrow> u64 \<Rightarrow> tla_view" where
  "to_tla_view c tla_id entry config clk suspended_until =
     (let tla_len = word_of_nat (length tla_id) :: u8; rent = base_rent tla_len config
      in \<lparr>tv_tla_id = tla_id, tv_tla_type = te_tla_type entry,
          tv_lifecycle = tla_lifecycle c entry clk suspended_until,
          tv_licensee = te_licensee entry, tv_premium_category = te_premium_category entry,
          tv_activated_at = te_activated_at entry, tv_expires_at = te_expires_at entry,
          tv_annual_rent = rent\<rparr>)"

definition to_sub_view ::
    "ctx \<Rightarrow> string \<Rightarrow> sub_account_entry \<Rightarrow> tla_entry \<Rightarrow> string \<Rightarrow> tla_registry \<Rightarrow> sub_account_view" where
  "to_sub_view c key entry tla name r =
     (let terms = terms_for (sa_tla_id entry) r;
          rent = calculate_rent tla name (r_fee_config r) terms
      in \<lparr>sv_full_name = key, sv_owner = sa_owner entry, sv_tla_id = sa_tla_id entry,
          sv_payout_account = sa_payout_account entry,
          sv_lifecycle = effective_sub_lifecycle c entry tla
            (fc_retraction_notice_ns (r_fee_config r)) (clock c r)
            (suspension_expiry (sa_tla_id entry) r),
          sv_rented_at = sa_rented_at entry, sv_expires_at = sa_expires_at entry,
          sv_annual_rent = rent\<rparr>)"

definition to_sub_detail ::
    "ctx \<Rightarrow> tla_registry \<Rightarrow> string \<Rightarrow> sub_account_entry \<Rightarrow> sub_account_detail_view option" where
  "to_sub_detail c r key sub =
     Option.bind (r_tlas r (sa_tla_id sub)) (\<lambda>tla.
     Option.bind (strip_suffix key (''.'' @ sa_tla_id sub)) (\<lambda>name.
     Some \<lparr>dv_sub_account = to_sub_view c key sub tla name r,
           dv_retraction_at = sa_retraction_at sub\<rparr>))"

definition get_tla :: "ctx \<Rightarrow> account_id \<Rightarrow> tla_registry \<Rightarrow> tla_view option" where
  "get_tla c tla_id r =
     map_option (\<lambda>e. to_tla_view c tla_id e (r_fee_config r) (clock c r) (suspension_expiry tla_id r))
       (r_tlas r tla_id)"

definition get_sub_account ::
    "ctx \<Rightarrow> account_id \<Rightarrow> string \<Rightarrow> tla_registry \<Rightarrow> sub_account_view option" where
  "get_sub_account c tla_id name r =
     (let key = sub_account_key tla_id name in
     Option.bind (r_sub_accounts r key) (\<lambda>sub.
     Option.bind (r_tlas r tla_id) (\<lambda>tla.
     Some (to_sub_view c key sub tla name r))))"

definition get_parked_sub_account ::
    "account_id \<Rightarrow> string \<Rightarrow> tla_registry \<Rightarrow> parked_sub_account_view option" where
  "get_parked_sub_account tla_id name r =
     (let key = sub_account_key tla_id name in
      map_option (\<lambda>p. \<lparr>pv_full_name = key, pv_tla_id = pk_tla_id p, pv_parked_at = pk_parked_at p\<rparr>)
        (r_parked_names r key))"

definition is_name_re_rentable :: "registry_lib \<Rightarrow> account_id \<Rightarrow> string \<Rightarrow> tla_registry \<Rightarrow> bool" where
  "is_name_re_rentable lib tla_id name r \<longleftrightarrow>
     (let key = sub_account_key tla_id name
      in r_parked_names r key \<noteq> None \<and> assert_holds_nothing lib key r = Inr ())"

definition is_reclaim_in_progress :: "account_id \<Rightarrow> string \<Rightarrow> tla_registry \<Rightarrow> bool" where
  "is_reclaim_in_progress tla_id name r \<longleftrightarrow> sub_account_key tla_id name \<in> r_reclaim_pending r"

definition is_name_available :: "account_id \<Rightarrow> string \<Rightarrow> tla_registry \<Rightarrow> bool" where
  "is_name_available tla_id name r \<longleftrightarrow>
     (let key = sub_account_key tla_id name
      in r_sub_accounts r key = None \<and> r_parked_names r key = None)"

definition get_retraction_at :: "account_id \<Rightarrow> string \<Rightarrow> tla_registry \<Rightarrow> u64 option" where
  "get_retraction_at tla_id name r =
     Option.bind (r_sub_accounts r (sub_account_key tla_id name)) sa_retraction_at"

section \<open>Prices\<close>

definition get_rent_price ::
    "ctx \<Rightarrow> account_id \<Rightarrow> string \<Rightarrow> tla_registry \<Rightarrow> contract_error + rent_price_view" where
  "get_rent_price c tla_id name r =
     rbind (validate_mintable_name tla_id name) (\<lambda>_.
     let terms = terms_for tla_id r in
     ok_or (r_tlas r tla_id) TlaNotFound (\<lambda>tla.
     let rent_usd = calculate_rent tla name (r_fee_config r) terms in
     rbind (quote_usd_to_near c rent_usd r) (\<lambda>rent_quoted.
     let key = sub_account_key tla_id name;
         deposit = (if r_parked_names r key \<noteq> None then 0
                    else fc_account_creation_deposit_yocto (r_fee_config r))
     in Inr \<lparr>rp_rent_yocto = rent_quoted, rp_creation_deposit_yocto = deposit,
             rp_total_yocto = sat_add rent_quoted deposit\<rparr>)))"

definition get_business_renewal_cost ::
    "ctx \<Rightarrow> account_id \<Rightarrow> tla_registry \<Rightarrow> contract_error + business_renewal_cost_view" where
  "get_business_renewal_cost c tla_id r =
     ok_or (r_tlas r tla_id) TlaNotFound (\<lambda>tla.
     require (te_tla_type tla = Business) NotBusinessTla (
     let tla_len = word_of_nat (length tla_id) :: u8 in
     rbind (quote_usd_to_near c (base_rent tla_len (r_fee_config r)) r) (\<lambda>tla_rent.
     Inr \<lparr>br_tla_id = tla_id, br_tla_rent_yocto = tla_rent\<rparr>)))"

section \<open>Pages\<close>

text \<open>The SDK iterates a map over its keys; the order is the parameter's.\<close>

definition page_keys :: "string list \<Rightarrow> u128 \<Rightarrow> u64 \<Rightarrow> string list" where
  "page_keys keys from_index limit = take (page_size limit) (drop (page_offset from_index) keys)"

definition list_tlas :: "registry_lib \<Rightarrow> ctx \<Rightarrow> u64 \<Rightarrow> u64 \<Rightarrow> tla_registry \<Rightarrow> tla_view list" where
  "list_tlas lib c from_index limit r =
     List.map_filter (\<lambda>i. map_option (\<lambda>entry.
         to_tla_view c i entry (r_fee_config r) (clock c r) (suspension_expiry i r)) (r_tlas r i))
       (page_keys (rl_iter lib (dom (r_tlas r))) (ucast from_index) limit)"

definition list_sub_accounts ::
    "registry_lib \<Rightarrow> ctx \<Rightarrow> u64 \<Rightarrow> u64 \<Rightarrow> tla_registry \<Rightarrow> sub_account_detail_view list" where
  "list_sub_accounts lib c from_index limit r =
     List.map_filter (\<lambda>key. Option.bind (r_sub_accounts r key) (to_sub_detail c r key))
       (page_keys (rl_iter lib (dom (r_sub_accounts r))) (ucast from_index) limit)"

definition page_details ::
    "registry_lib \<Rightarrow> ctx \<Rightarrow> string set \<Rightarrow> u64 \<Rightarrow> u64 \<Rightarrow> tla_registry \<Rightarrow> sub_account_detail_view list" where
  "page_details lib c keys from_index limit r =
     List.map_filter (\<lambda>key. Option.bind (r_sub_accounts r key) (to_sub_detail c r key))
       (page_keys (rl_iter lib keys) (ucast from_index) limit)"

definition list_sub_accounts_by_owner ::
    "registry_lib \<Rightarrow> ctx \<Rightarrow> account_id \<Rightarrow> u64 \<Rightarrow> u64 \<Rightarrow> tla_registry \<Rightarrow> sub_account_detail_view list" where
  "list_sub_accounts_by_owner lib c owner from_index limit r =
     (case r_sub_accounts_by_owner r owner of
        None \<Rightarrow> []
      | Some keys \<Rightarrow> page_details lib c keys from_index limit r)"

definition list_sub_accounts_by_tla ::
    "registry_lib \<Rightarrow> ctx \<Rightarrow> account_id \<Rightarrow> u64 \<Rightarrow> u64 \<Rightarrow> tla_registry \<Rightarrow> sub_account_detail_view list" where
  "list_sub_accounts_by_tla lib c tla_id from_index limit r =
     (case r_sub_accounts_by_tla r tla_id of
        None \<Rightarrow> []
      | Some keys \<Rightarrow> page_details lib c keys from_index limit r)"

definition nft_supply_for_owner :: "account_id \<Rightarrow> tla_registry \<Rightarrow> u128" where
  "nft_supply_for_owner account r = word_of_nat (owner_supply account r)"

definition nft_tokens :: "registry_lib \<Rightarrow> u128 option \<Rightarrow> u64 option \<Rightarrow> tla_registry \<Rightarrow> token list" where
  "nft_tokens lib from_index limit r =
     List.map_filter (\<lambda>key. map_option (token_of key) (r_sub_accounts r key))
       (page_keys (rl_iter lib (dom (r_sub_accounts r)))
          (case from_index of None \<Rightarrow> 0 | Some i \<Rightarrow> i)
          (case limit of None \<Rightarrow> MAX_PAGE_LIMIT | Some l \<Rightarrow> l))"

definition nft_tokens_for_owner ::
    "registry_lib \<Rightarrow> account_id \<Rightarrow> u128 option \<Rightarrow> u64 option \<Rightarrow> tla_registry \<Rightarrow> token list" where
  "nft_tokens_for_owner lib account from_index limit r =
     (case r_sub_accounts_by_owner r account of
        None \<Rightarrow> []
      | Some keys \<Rightarrow>
          List.map_filter (\<lambda>key. map_option (token_of key) (r_sub_accounts r key))
            (page_keys (rl_iter lib keys)
               (case from_index of None \<Rightarrow> 0 | Some i \<Rightarrow> i)
               (case limit of None \<Rightarrow> MAX_PAGE_LIMIT | Some l \<Rightarrow> l)))"

section \<open>Statistics, settings, readiness\<close>

definition get_stats :: "tla_registry \<Rightarrow> registry_stats" where
  "get_stats r =
     \<lparr>st_tla_count = word_of_nat (card (dom (r_tlas r))), st_sub_account_count = r_sub_account_count r,
      st_total_revenue_yocto = r_total_revenue r,
      st_total_pending_refunds_yocto = r_total_pending_refunds r\<rparr>"

definition get_rate_meta :: "tla_registry \<Rightarrow> rate_meta_view" where
  "get_rate_meta r = \<lparr>rm_updated_at = r_rate_updated_at r, rm_sequence = r_rate_sequence r\<rparr>"

definition is_paused :: "ctx \<Rightarrow> tla_registry \<Rightarrow> bool" where
  "is_paused c r = effective_paused c r"

definition get_pause_expiry :: "ctx \<Rightarrow> tla_registry \<Rightarrow> u64" where
  "get_pause_expiry c r = (if effective_paused c r then r_paused_until_ns r else 0)"

definition get_pending_refund :: "account_id \<Rightarrow> tla_registry \<Rightarrow> u128" where
  "get_pending_refund account r = (case r_pending_refunds r account of None \<Rightarrow> 0 | Some a \<Rightarrow> a)"

definition get_suspension_expiry :: "account_id \<Rightarrow> tla_registry \<Rightarrow> u64" where
  "get_suspension_expiry tla_id r = suspension_expiry tla_id r"

definition is_business_resale_enabled :: "account_id \<Rightarrow> tla_registry \<Rightarrow> bool" where
  "is_business_resale_enabled tla_id r = resale_enabled tla_id r"

definition is_whitelisted :: "account_id \<Rightarrow> account_id \<Rightarrow> tla_registry \<Rightarrow> bool" where
  "is_whitelisted tla_id account r \<longleftrightarrow> (tla_id, account) \<in> r_biz_whitelist r"

definition payment_authority_allowance :: "account_id \<Rightarrow> account_id \<Rightarrow> tla_registry \<Rightarrow> u64 option" where
  "payment_authority_allowance account tla_id r = r_authority_allowance r (account, tla_id)"

definition payment_authority_used :: "account_id \<Rightarrow> account_id \<Rightarrow> tla_registry \<Rightarrow> u64" where
  "payment_authority_used account tla_id r = authority_used account tla_id r"

definition is_payment_authority_bound :: "account_id \<Rightarrow> account_id \<Rightarrow> tla_registry \<Rightarrow> bool" where
  "is_payment_authority_bound account tla_id r \<longleftrightarrow> r_authority_allowance r (account, tla_id) \<noteq> None"

definition PRODUCTION_GRACE_PERIOD_NS :: u64 where
  "PRODUCTION_GRACE_PERIOD_NS = 14 * 24 * 60 * 60 * 1000000000"

definition deployment_readiness :: "ctx \<Rightarrow> tla_registry \<Rightarrow> deployment_readiness_view" where
  "deployment_readiness c r =
     (let this = current_account_id c;
          rate_ready = (r_near_usd_rate_micro r \<noteq> 0);
          recovery_ready = (r_recovery_authorities r \<noteq> {});
          venue_ready = (r_venues r \<noteq> {});
          ft_ready = (r_ft_allowlist r \<noteq> {});
          metadata_ready = (nm_name (r_nft_contract_metadata r) \<noteq> this);
          wiring_ready = (r_hos_extension r \<noteq> this \<and> r_treasury r \<noteq> this);
          terms_ready = (PRODUCTION_LEASE_TERM_NS \<le> r_lease_term_ns r
                         \<and> PRODUCTION_GRACE_PERIOD_NS \<le> r_grace_period_ns r)
      in \<lparr>dr_rate_set = rate_ready, dr_recovery_wired = recovery_ready, dr_venue_set = venue_ready,
          dr_ft_allowlist_set = ft_ready, dr_metadata_set = metadata_ready,
          dr_wiring_sane = wiring_ready, dr_production_terms = terms_ready,
          dr_lease_term_ns = r_lease_term_ns r, dr_grace_period_ns = r_grace_period_ns r,
          dr_ready = (rate_ready \<and> recovery_ready \<and> venue_ready \<and> ft_ready \<and> metadata_ready
                      \<and> wiring_ready \<and> terms_ready)\<rparr>)"

section \<open>Settings read back\<close>

definition get_hos_extension :: "tla_registry \<Rightarrow> account_id" where
  "get_hos_extension r = r_hos_extension r"

definition get_grace_period_ns :: "tla_registry \<Rightarrow> u64" where
  "get_grace_period_ns r = r_grace_period_ns r"

definition get_fee_config :: "tla_registry \<Rightarrow> fee_config" where
  "get_fee_config r = r_fee_config r"

definition max_tla_batch :: u32 where
  "max_tla_batch = of_nat MAX_TLA_BATCH"

definition get_near_usd_rate :: "tla_registry \<Rightarrow> u128" where
  "get_near_usd_rate r = r_near_usd_rate_micro r"

definition get_price_oracle :: "tla_registry \<Rightarrow> account_id" where
  "get_price_oracle r = r_price_oracle r"

definition get_total_pending_refunds :: "tla_registry \<Rightarrow> u128" where
  "get_total_pending_refunds r = r_total_pending_refunds r"

definition get_council :: "tla_registry \<Rightarrow> account_id" where
  "get_council r = r_council r"

definition get_treasury :: "tla_registry \<Rightarrow> account_id" where
  "get_treasury r = r_treasury r"

definition get_admins :: "registry_lib \<Rightarrow> tla_registry \<Rightarrow> account_id list" where
  "get_admins lib r = rl_iter lib (r_admins r)"

definition get_payment_authorities :: "registry_lib \<Rightarrow> tla_registry \<Rightarrow> account_id list" where
  "get_payment_authorities lib r = rl_iter lib (r_payment_authorities r)"

definition get_venues :: "registry_lib \<Rightarrow> tla_registry \<Rightarrow> account_id list" where
  "get_venues lib r = rl_iter lib (r_venues r)"

definition get_recovery_authorities :: "registry_lib \<Rightarrow> tla_registry \<Rightarrow> account_id list" where
  "get_recovery_authorities lib r = rl_iter lib (r_recovery_authorities r)"

definition get_ft_allowlist :: "registry_lib \<Rightarrow> tla_registry \<Rightarrow> account_id list" where
  "get_ft_allowlist lib r = rl_iter lib (r_ft_allowlist r)"

definition get_sweepable_tokens :: "registry_lib \<Rightarrow> tla_registry \<Rightarrow> account_id list" where
  "get_sweepable_tokens lib r = rl_iter lib (r_sweepable_tokens r)"

definition pending_treasury_r :: "tla_registry \<Rightarrow> (account_id \<times> u64) option" where
  "pending_treasury_r r =
     Option.bind (r_pending_treasury r) (\<lambda>a. map_option (Pair a) (r_pending_treasury_at r))"

definition pending_council_r :: "tla_registry \<Rightarrow> (account_id \<times> u64) option" where
  "pending_council_r r =
     Option.bind (r_pending_council r) (\<lambda>a. map_option (Pair a) (r_pending_council_at r))"

definition approved_upgrade_r :: "tla_registry \<Rightarrow> crypto_hash option \<times> u64 option \<times> u64 \<times> bool \<times> u16" where
  "approved_upgrade_r r =
     (r_approved_code_hash r, r_approved_at r, r_upgrade_delay_ns r, r_upgrade_proven r, r_state_version r)"

end
