(* ===== verification/Registry_Spaces.thy ===== *)
theory Registry_Spaces
  imports Registry_Demo
begin

text \<open>
  Every registered name lies in a registered namespace: no call removes a namespace, and a lease is
  opened only in one the registry has. The listings of the registry rest on it, since they skip a
  name whose namespace they do not find.
\<close>

definition spaced :: "tla_registry \<Rightarrow> bool" where
  "spaced r \<longleftrightarrow> (\<forall>key sub. r_sub_accounts r key = Some sub \<longrightarrow> r_tlas r (sa_tla_id sub) \<noteq> None)"

section \<open>What leaves namespaces and names alone\<close>

lemma tlas_helpers [simp]:
  "r_tlas (add_pending_refund a n r) = r_tlas r"
  "r_tlas (refund_excess a n m r) = r_tlas r"
  "r_tlas (forget_claim k r) = r_tlas r"
  "r_tlas (sub_account_insert k e r) = r_tlas r"
  "r_tlas (fst (sub_account_remove k r)) = r_tlas r"
  "r_tlas (fst (sub_account_reassign k o1 p r)) = r_tlas r"
  "r_tlas (push_activity c e1 a r) = r_tlas r"
  "r_tlas (fst (emit_activity c ev r)) = r_tlas r"
  "r_tlas (business_count_decrement t r) = r_tlas r"
  "r_tlas (business_count_decrement_if_business t r) = r_tlas r"
  "r_tlas (release_authority_mint a t r) = r_tlas r"
  "r_tlas (fst (record_authority_mint a t r)) = r_tlas r"
  "r_tlas (fst (open_lease c k t o1 p r)) = r_tlas r"
  "r_tlas (fst (release_order oi k p t r)) = r_tlas r"
  "r_tlas (fst (confirm_order oi k p r)) = r_tlas r"
  "r_tlas (fst (settle_failed_mint k t p n rs r)) = r_tlas r"
  "r_tlas (fst (settle_stranded_mint c k t p n rs r)) = r_tlas r"
  "r_tlas (fst (fail_mint c b s rs r)) = r_tlas r"
  "r_tlas (fst (reclaim_blocked k tk rs r)) = r_tlas r"
  by (simp_all add: helper_defs split: option.split prod.split)

lemma subs_helpers [simp]:
  "r_sub_accounts (add_pending_refund a n r) = r_sub_accounts r"
  "r_sub_accounts (refund_excess a n m r) = r_sub_accounts r"
  "r_sub_accounts (forget_claim k r) = r_sub_accounts r"
  "r_sub_accounts (push_activity c e1 a r) = r_sub_accounts r"
  "r_sub_accounts (fst (emit_activity c ev r)) = r_sub_accounts r"
  "r_sub_accounts (business_count_decrement t r) = r_sub_accounts r"
  "r_sub_accounts (business_count_decrement_if_business t r) = r_sub_accounts r"
  "r_sub_accounts (release_authority_mint a t r) = r_sub_accounts r"
  "r_sub_accounts (fst (record_authority_mint a t r)) = r_sub_accounts r"
  "r_sub_accounts (fst (release_order oi k p t r)) = r_sub_accounts r"
  "r_sub_accounts (fst (confirm_order oi k p r)) = r_sub_accounts r"
  "r_sub_accounts (fst (reclaim_blocked k tk rs r)) = r_sub_accounts r"
  by (simp_all add: helper_defs split: option.split prod.split)

lemma spaced_removal [simp]:
  "r_sub_accounts (fst (sub_account_remove k r)) = (r_sub_accounts r)(k := None)"
  by (auto simp: sub_account_remove_def forget_claim_def split: option.split)

text \<open>The helpers that change the names: one opens a lease, one hands a name over, the others
  only drop a name.\<close>

lemma open_lease_subs [simp]:
  "r_sub_accounts (fst (open_lease c k t o1 p r)) = (r_sub_accounts r)(k \<mapsto>
     \<lparr>sa_owner = o1, sa_tla_id = t, sa_payout_account = p, sa_rented_at = block_timestamp c,
      sa_expires_at = sat_add (block_timestamp c) (r_lease_term_ns r), sa_retraction_at = None\<rparr>)"
  by (simp add: open_lease_def sub_account_insert_def Let_def)

lemma reassign_sub:
  "r_sub_accounts (fst (sub_account_reassign k o1 p r)) key = Some s \<Longrightarrow>
   \<exists>s0. r_sub_accounts r key = Some s0 \<and> sa_tla_id s = sa_tla_id s0"
  by (auto simp: sub_account_reassign_def Let_def split: option.splits if_splits)

lemma failed_mint_sub:
  "r_sub_accounts (fst (settle_failed_mint k t p n rs r)) key = Some s \<Longrightarrow> r_sub_accounts r key = Some s"
  "r_sub_accounts (fst (settle_stranded_mint c k t p n rs r)) key = Some s \<Longrightarrow> r_sub_accounts r key = Some s"
  "r_sub_accounts (fst (fail_mint c b st rs r)) key = Some s \<Longrightarrow> r_sub_accounts r key = Some s"
  by (auto simp: settle_failed_mint_def settle_stranded_mint_def fail_mint_def Let_def
      case_prod_unfold split: option.splits if_splits)

lemma accepted_has_tla:
  "assert_accepting c t o1 r = Inr b \<Longrightarrow> \<exists>e. r_tlas r t = Some e"
  "quote_rent c t n o1 r = Inr y \<Longrightarrow> \<exists>e. r_tlas r t = Some e"
  "assert_business_accepting c t r = Inr () \<Longrightarrow> \<exists>e. r_tlas r t = Some e"
  by (auto simp: assert_accepting_def quote_rent_def assert_business_accepting_def)

section \<open>Every call keeps it\<close>

lemma rental_spaced:
  "spaced r \<Longrightarrow> res_all (\<lambda>y. spaced (fst y)) (rental_exec lib c x r)"
  by (cases x; simp only: rental_exec.simps rental_defs Let_def case_prod_unfold; (intro res_walk)?)
    (auto simp: spaced_def dest!: reassign_sub failed_mint_sub accepted_has_tla split: if_splits)

lemma business_spaced:
  "spaced r \<Longrightarrow> res_all (\<lambda>y. spaced (fst y)) (business_exec lib c x r)"
  by (cases x; simp only: business_exec.simps business_defs rental_defs Let_def case_prod_unfold;
      (intro res_walk)?)
    (auto simp: spaced_def dest!: reassign_sub failed_mint_sub accepted_has_tla
      split: if_splits option.splits)

lemma market_spaced:
  "spaced r \<Longrightarrow> res_all (\<lambda>y. spaced (fst y)) (market_exec lib c x r)"
  by (cases x; simp only: market_exec.simps market_defs Let_def case_prod_unfold; (intro res_walk)?)
    (auto simp: spaced_def dest!: reassign_sub failed_mint_sub split: if_splits)

lemma tla_writes [simp]:
  "r_sub_accounts (write_registration i reg r) = r_sub_accounts r"
  "r_sub_accounts (write_open_activation i now e r) = r_sub_accounts r"
  "r_sub_accounts (fold (\<lambda>i. write_registration i reg) is r) = r_sub_accounts r"
  "r_sub_accounts (fold (\<lambda>i. write_open_activation i now e) is r) = r_sub_accounts r"
proof -
  show 1: "r_sub_accounts (write_registration i reg r) = r_sub_accounts r" for i r
    by (simp add: write_registration_def)
  show 2: "r_sub_accounts (write_open_activation i now e r) = r_sub_accounts r" for i r
    by (simp add: write_open_activation_def split: option.split)
  show "r_sub_accounts (fold (\<lambda>i. write_registration i reg) is r) = r_sub_accounts r"
    by (induction "is" arbitrary: r) (simp_all add: 1)
  show "r_sub_accounts (fold (\<lambda>i. write_open_activation i now e) is r) = r_sub_accounts r"
    by (induction "is" arbitrary: r) (simp_all add: 2)
qed

lemma tla_kept:
  "\<exists>y. r_tlas r t = Some y \<Longrightarrow> \<exists>y. r_tlas (write_registration i reg r) t = Some y"
  "\<exists>y. r_tlas r t = Some y \<Longrightarrow> \<exists>y. r_tlas (write_open_activation i now e r) t = Some y"
  "\<exists>y. r_tlas r t = Some y \<Longrightarrow> \<exists>y. r_tlas (fold (\<lambda>i. write_registration i reg) is r) t = Some y"
  "\<exists>y. r_tlas r t = Some y \<Longrightarrow> \<exists>y. r_tlas (fold (\<lambda>i. write_open_activation i now e) is r) t = Some y"
proof -
  show 1: "\<exists>y. r_tlas r t = Some y \<Longrightarrow> \<exists>y. r_tlas (write_registration i reg r) t = Some y" for i r
    by (simp add: write_registration_def)
  show 2: "\<exists>y. r_tlas r t = Some y \<Longrightarrow> \<exists>y. r_tlas (write_open_activation i now e r) t = Some y" for i r
    by (auto simp: write_open_activation_def split: option.split)
  show "\<exists>y. r_tlas r t = Some y \<Longrightarrow> \<exists>y. r_tlas (fold (\<lambda>i. write_registration i reg) is r) t = Some y"
    by (induction "is" arbitrary: r) (use 1 in auto)
  show "\<exists>y. r_tlas r t = Some y \<Longrightarrow> \<exists>y. r_tlas (fold (\<lambda>i. write_open_activation i now e) is r) t = Some y"
    by (induction "is" arbitrary: r) (use 2 in auto)
qed

lemma admin_spaced:
  "spaced r \<Longrightarrow> res_all (\<lambda>y. spaced (fst y)) (admin_exec lib c x r)"
  by (cases x; simp only: admin_exec.simps admin_defs Let_def case_prod_unfold; (intro res_walk)?)
    (auto simp: spaced_def intro!: tla_kept dest!: failed_mint_sub split: if_splits)

section \<open>In every run\<close>

lemma exec_spaced: "registry_exec lib c x r = Inr (r', outs) \<Longrightarrow> spaced r \<Longrightarrow> spaced r'"
  by (cases x) (auto dest: res_allD [OF rental_spaced] res_allD [OF business_spaced]
      res_allD [OF market_spaced] res_allD [OF admin_spaced])

lemma reach_spaced: "reg.reach self lib t r \<Longrightarrow> spaced r"
proof (induction rule: reg.reach.induct)
  case (reach_init t s)
  then show ?case by (auto simp: registry_initial_def registry_new_def Let_def spaced_def)
next
  case (reach_step t s t' s')
  then show ?case by (auto elim!: registry_stepE dest: exec_spaced)
qed

end
