(* ===== verification/Registry_Pages.thy ===== *)
theory Registry_Pages
  imports Registry_Queries Registry_Spaces Registry_Safety
begin

text \<open>
  What the answers of the registry are good for. A client that follows the cursor of
  \<open>nft_tokens_for_owner_page\<close> comes to an end with every token of the owner, once; the listings by
  index give every name of an owner or a namespace, once; the price shown for a name pays
  for it; and what is listed are well-formed names.
\<close>

section \<open>Iteration\<close>

text \<open>The SDK iterates a set without leaving out or repeating a member.\<close>

definition iterates :: "registry_lib \<Rightarrow> bool" where
  "iterates lib \<longleftrightarrow> (\<forall>S. finite S \<longrightarrow> set (rl_iter lib S) = S \<and> distinct (rl_iter lib S))"

definition owned_by :: "account_id \<Rightarrow> tla_registry \<Rightarrow> string set" where
  "owned_by a r = {key. \<exists>s. r_sub_accounts r key = Some s \<and> sa_owner s = a}"

definition in_space :: "account_id \<Rightarrow> tla_registry \<Rightarrow> string set" where
  "in_space t r = {key. \<exists>s. r_sub_accounts r key = Some s \<and> sa_tla_id s = t}"

lemma reach_names:
  assumes "reg.reach self lib t r"
  shows "index_keys (r_sub_accounts_by_owner r) a = owned_by a r"
    "index_keys (r_sub_accounts_by_tla r) b = in_space b r"
    "finite (owned_by a r)" "finite (in_space b r)"
    "r_sub_accounts r key = Some s \<Longrightarrow> name_ok key s"
proof -
  have inv: "names_inv (names r)" using reg.reach_inv [OF assms] by (simp add: registry_inv_def)
  then have o1: "kidx.mirrors sa_owner (r_sub_accounts_by_owner r) (r_sub_accounts r)"
    and t1: "kidx.mirrors sa_tla_id (r_sub_accounts_by_tla r) (r_sub_accounts r)"
    by (simp_all add: names_inv_iff)
  show "index_keys (r_sub_accounts_by_owner r) a = owned_by a r"
    "index_keys (r_sub_accounts_by_tla r) b = in_space b r"
    by (auto simp: kidx.mirrors_keys [OF o1] kidx.mirrors_keys [OF t1] owned_by_def in_space_def)
  have "owned_by a r \<subseteq> dom (r_sub_accounts r)" "in_space b r \<subseteq> dom (r_sub_accounts r)"
    by (auto simp: owned_by_def in_space_def)
  with inv show "finite (owned_by a r)" "finite (in_space b r)"
    by (auto simp: names_inv_iff intro: finite_subset)
  show "r_sub_accounts r key = Some s \<Longrightarrow> name_ok key s" using inv by (simp add: names_inv_iff)
qed

section \<open>Following the cursor\<close>

text \<open>A client that asks for the next page as long as it is given a cursor; \<open>None\<close> is a client that
  has not come to the end within the number of requests allowed.\<close>

fun walk_pages ::
    "registry_lib \<Rightarrow> account_id \<Rightarrow> u64 option \<Rightarrow> tla_registry \<Rightarrow> nat \<Rightarrow> string option
     \<Rightarrow> (contract_error + token list) option" where
  "walk_pages lib account limit r 0 after = None"
| "walk_pages lib account limit r (Suc n) after =
     (case nft_tokens_for_owner_page lib account after limit r of
        Inl e \<Rightarrow> Some (Inl e)
      | Inr (tokens, None) \<Rightarrow> Some (Inr tokens)
      | Inr (tokens, Some next) \<Rightarrow>
          map_option (map_sum id (append tokens)) (walk_pages lib account limit r n (Some next)))"

definition token_at :: "tla_registry \<Rightarrow> string \<Rightarrow> token" where
  "token_at r key = token_of key (the (r_sub_accounts r key))"

lemma page_take_pos: "0 < page_take limit"
proof -
  have "(1::u64) \<le> max 1 (min (case limit of None \<Rightarrow> MAX_PAGE_LIMIT | Some l \<Rightarrow> l) MAX_PAGE_LIMIT)"
    by simp
  then have "unat (1::u64) \<le> page_take limit" unfolding page_take_def by (simp only: word_le_nat_alt)
  then show ?thesis by simp
qed

lemma page_loop_resumed:
  assumes "\<forall>key\<in>set keys. r_sub_accounts r key \<noteq> None" "pg_resumed st" "length (pg_tokens st) \<le> n"
  shows "page_loop r after n keys st =
    (let page = take (n - length (pg_tokens st)) keys
     in (st\<lparr>pg_tokens := pg_tokens st @ map (token_at r) page,
            pg_visited := (if page = [] then pg_visited st else Some (last page))\<rparr>,
         n - length (pg_tokens st) < length keys))"
  using assms
proof (induction keys arbitrary: st)
  case (Cons key keys)
  show ?case
  proof (cases "length (pg_tokens st) = n")
    case False
    then obtain m where m: "n - length (pg_tokens st) = Suc m" "n - Suc (length (pg_tokens st)) = m"
      using Cons.prems(3) by (metis Suc_diff_Suc le_neq_implies_less)
    from Cons.prems(1) obtain sub where "r_sub_accounts r key = Some sub" by auto
    then show ?thesis using False Cons.prems
      by (simp add: Cons.IH m Let_def token_at_def)
  qed (use Cons.prems in \<open>simp add: Let_def\<close>)
qed (simp add: Let_def)

lemma page_loop_skip:
  "key \<notin> set pre \<Longrightarrow> \<not> pg_resumed st \<Longrightarrow>
   page_loop r (Some key) n (pre @ key # rest) st = page_loop r (Some key) n rest (st\<lparr>pg_resumed := True\<rparr>)"
proof (induction pre arbitrary: st)
  case (Cons k pre)
  then have "st\<lparr>pg_resumed := False\<rparr> = st" by simp
  with Cons show ?case by simp
qed simp

text \<open>One page, from what is left after the cursor.\<close>

definition resumes_at :: "string list \<Rightarrow> string option \<Rightarrow> string list \<Rightarrow> bool" where
  "resumes_at keys after rest \<longleftrightarrow>
     (case after of None \<Rightarrow> rest = keys
      | Some key \<Rightarrow> \<exists>pre. keys = pre @ key # rest \<and> key \<notin> set pre)"

lemma page_from:
  assumes "r_sub_accounts_by_owner r a = Some S" "\<forall>key\<in>set (rl_iter lib S). r_sub_accounts r key \<noteq> None"
    "resumes_at (rl_iter lib S) after rest"
  shows "nft_tokens_for_owner_page lib a after limit r =
    (let page = take (page_take limit) rest
     in Inr (map (token_at r) page,
             if page_take limit < length rest then Some (last page) else None))"
proof -
  define st where "st = \<lparr>pg_resumed = True, pg_tokens = [], pg_visited = None\<rparr>"
  have rest: "\<forall>key\<in>set rest. r_sub_accounts r key \<noteq> None"
    using assms(2,3) by (auto simp: resumes_at_def split: option.splits)
  have loop: "page_loop r after (page_take limit) (rl_iter lib S)
      \<lparr>pg_resumed = (after = None), pg_tokens = [], pg_visited = None\<rparr>
    = page_loop r after (page_take limit) rest st"
    using assms(3) by (auto simp: resumes_at_def st_def page_loop_skip split: option.splits)
  have "page_loop r after (page_take limit) rest st =
    (\<lparr>pg_resumed = True, pg_tokens = map (token_at r) (take (page_take limit) rest),
      pg_visited = (if take (page_take limit) rest = [] then None else Some (last (take (page_take limit) rest)))\<rparr>,
     page_take limit < length rest)"
    using page_loop_resumed [OF rest, of st] by (simp add: st_def Let_def)
  moreover have "page_take limit \<noteq> 0" using page_take_pos [of limit] by simp
  ultimately show ?thesis
    using assms(1) by (simp add: nft_tokens_for_owner_page_def loop Let_def)
qed

lemma resumes_at_last:
  assumes "resumes_at keys after rest" "distinct keys" "0 < n" "n < length rest"
  shows "resumes_at keys (Some (last (take n rest))) (drop n rest)"
proof -
  obtain pre where pre: "keys = pre @ rest"
    using assms(1) by (auto simp: resumes_at_def split: option.splits)
  have "take n rest \<noteq> []" using assms(3,4) by auto
  then have "rest = butlast (take n rest) @ last (take n rest) # drop n rest"
    by (metis append.assoc append_Cons append_Nil append_butlast_last_id append_take_drop_id)
  with pre have "keys = (pre @ butlast (take n rest)) @ last (take n rest) # drop n rest" by simp
  moreover from this assms(2) have "last (take n rest) \<notin> set (pre @ butlast (take n rest))"
    by (metis distinct_append not_distinct_conv_prefix)
  ultimately show ?thesis by (auto simp: resumes_at_def)
qed

lemma walk_from:
  assumes "r_sub_accounts_by_owner r a = Some S" "\<forall>key\<in>set (rl_iter lib S). r_sub_accounts r key \<noteq> None"
    "distinct (rl_iter lib S)" "resumes_at (rl_iter lib S) after rest" "length rest < n"
  shows "walk_pages lib a limit r n after = Some (Inr (map (token_at r) rest))"
  using assms(4,5)
proof (induction n arbitrary: after rest)
  case (Suc n)
  let ?m = "page_take limit"
  show ?case
  proof (cases "?m < length rest")
    case True
    then have "length (drop ?m rest) < n" using Suc.prems(2) page_take_pos [of limit] by simp
    from Suc.IH [OF resumes_at_last [OF Suc.prems(1) assms(3) page_take_pos True] this]
    have "walk_pages lib a limit r n (Some (last (take ?m rest))) = Some (Inr (map (token_at r) (drop ?m rest)))" .
    with True show ?thesis
      by (simp add: page_from [OF assms(1,2) Suc.prems(1)] Let_def map_append [symmetric] del: map_append)
  qed (simp add: page_from [OF assms(1,2) Suc.prems(1)] Let_def)
qed simp

text \<open>C20. In every reachable registry a client that follows the cursor of an owner's tokens comes to
  the end: with more requests allowed than the owner has names, whatever limit it asks for, zero
  and absurd ones included, it gets no error and one token for each name the owner holds, in the
  order of the owner's set, none twice and none of anybody else's.\<close>

theorem owner_pages_end:
  assumes "reg.reach self lib t r" "iterates lib" "card (owned_by a r) < n"
  shows "\<exists>tokens. walk_pages lib a limit r n None = Some (Inr tokens) \<and>
           distinct (map tk_token_id tokens) \<and> set (map tk_token_id tokens) = owned_by a r \<and>
           (\<forall>k\<in>set tokens. tk_owner_id k = a \<and> nft_token (tk_token_id k) r = Some k)"
proof (cases "r_sub_accounts_by_owner r a")
  case None
  then have "owned_by a r = {}" using reach_names(1) [OF assms(1), of a] by (simp add: index_keys_def)
  moreover obtain m where "n = Suc m" using assms(3) by (cases n) simp_all
  ultimately show ?thesis using None by (simp add: nft_tokens_for_owner_page_def)
next
  case (Some S)
  then have S: "S = owned_by a r" using reach_names(1) [OF assms(1), of a] by (simp add: index_keys_def)
  then have iter: "set (rl_iter lib S) = owned_by a r" "distinct (rl_iter lib S)"
    using assms(2) reach_names(3) [OF assms(1)] by (auto simp: iterates_def)
  then have "length (rl_iter lib S) < n" using assms(3) distinct_card by metis
  moreover have "\<forall>key\<in>set (rl_iter lib S). r_sub_accounts r key \<noteq> None"
    using iter by (auto simp: owned_by_def)
  ultimately have "walk_pages lib a limit r n None = Some (Inr (map (token_at r) (rl_iter lib S)))"
    using walk_from [OF Some _ iter(2)] by (simp add: resumes_at_def)
  moreover have "map tk_token_id (map (token_at r) (rl_iter lib S)) = rl_iter lib S"
    by (simp add: token_at_def token_of_def comp_def)
  moreover have "tk_owner_id (token_at r k) = a \<and> nft_token (tk_token_id (token_at r k)) r = Some (token_at r k)"
    if "k \<in> set (rl_iter lib S)" for k
    using that iter(1) by (auto simp: owned_by_def token_at_def token_of_def nft_token_def)
  ultimately show ?thesis using iter by (metis (no_types, lifting) imageE list.set_map)
qed

theorem owner_pages_end_witness:
  "\<exists>tokens. walk_pages demo_rlib ''alice'' (Some 0) demo_r4 2 None = Some (Inr tokens) \<and>
     set (map tk_token_id tokens) = {''alices.tla''}"
proof -
  have alice: "owned_by ''alice'' demo_r4 = {''alices.tla''}"
    by (auto simp: owned_by_def demo_r4_def demo_sub_def)
  moreover have "iterates demo_rlib" by (simp add: iterates_def demo_rlib_def)
  ultimately show ?thesis
    using owner_pages_end [OF demo_reach(4), of "''alice''" 2 "Some 0"] by auto
qed

section \<open>Listing by index\<close>

lemma detail_of:
  assumes "spaced r" "r_sub_accounts r key = Some sub" "name_ok key sub"
  shows "\<exists>d. Option.bind (r_sub_accounts r key) (to_sub_detail c r key) = Some d \<and>
           sv_full_name (dv_sub_account d) = key \<and> sv_owner (dv_sub_account d) = sa_owner sub \<and>
           sv_tla_id (dv_sub_account d) = sa_tla_id sub"
proof -
  from assms(1,2) obtain tla where "r_tlas r (sa_tla_id sub) = Some tla" by (auto simp: spaced_def)
  moreover from assms(3) obtain name where "key = name @ ''.'' @ sa_tla_id sub"
    by (auto simp: name_ok_def sub_account_key_def)
  ultimately show ?thesis using assms(2)
    by (simp add: to_sub_detail_def to_sub_view_def Let_def)
qed

lemma map_filter_total:
  "(\<And>x. x \<in> set xs \<Longrightarrow> \<exists>y. f x = Some y \<and> g y = x) \<Longrightarrow> map g (List.map_filter f xs) = xs"
  by (induction xs) (fastforce simp: List.map_filter_simps)+

lemma page_details_names:
  assumes "reg.reach self lib t r" "set (rl_iter lib S) \<subseteq> dom (r_sub_accounts r)"
  shows "map (sv_full_name \<circ> dv_sub_account) (page_details lib c S from_index limit r)
         = page_keys (rl_iter lib S) (ucast from_index) limit"
  unfolding page_details_def
proof (rule map_filter_total)
  fix key assume "key \<in> set (page_keys (rl_iter lib S) (ucast from_index) limit)"
  then have "key \<in> set (rl_iter lib S)"
    by (auto simp: page_keys_def dest!: in_set_takeD in_set_dropD)
  with assms(2) obtain sub where "r_sub_accounts r key = Some sub" by auto
  from detail_of [OF reach_spaced [OF assms(1)] this reach_names(5) [OF assms(1) this]]
  show "\<exists>d. Option.bind (r_sub_accounts r key) (to_sub_detail c r key) = Some d \<and>
      (sv_full_name \<circ> dv_sub_account) d = key" by auto
qed

text \<open>Pages of one size laid end to end.\<close>

lemma take_pages: "concat (map (\<lambda>i. take l (drop (i * l) xs)) [0..<m]) = take (m * l) xs"
  by (induction m) (simp_all add: take_add [symmetric] add.commute)

lemma page_keys_at:
  assumes "0 < l" "l \<le> unat MAX_PAGE_LIMIT" "i * l < 2 ^ 32"
  shows "page_keys xs (ucast (word_of_nat (i * l) :: u64)) (word_of_nat l) = take l (drop (i * l) xs)"
proof -
  have "unat (ucast (word_of_nat k :: u64) :: u128) = k" if "k < 2 ^ 32" for k
    using that by (simp add: unsigned_ucast_eq unat_of_nat take_bit_nat_eq_self)
  from this [OF assms(3)] have "page_offset (ucast (word_of_nat (i * l) :: u64)) = i * l"
    using assms(3) by (simp add: page_offset_def)
  moreover have "unat (word_of_nat l :: u64) = l"
    using assms(2) by (simp add: MAX_PAGE_LIMIT_def unat_of_nat)
  then have "page_size (word_of_nat l) = l"
    using assms(2) by (simp add: page_size_def min_def word_le_nat_alt)
  ultimately show ?thesis by (simp add: page_keys_def)
qed

lemma pages_of_keys:
  assumes "reg.reach self lib t r" "iterates lib" "finite S" "S \<subseteq> dom (r_sub_accounts r)"
    "0 < l" "l \<le> unat MAX_PAGE_LIMIT" "card S \<le> m * l" "m * l < 2 ^ 32"
  shows "map (sv_full_name \<circ> dv_sub_account)
           (concat (map (\<lambda>i. page_details lib c S (word_of_nat (i * l)) (word_of_nat l) r) [0..<m]))
         = rl_iter lib S"
proof -
  have iter: "set (rl_iter lib S) = S" "distinct (rl_iter lib S)"
    using assms(2,3) by (auto simp: iterates_def)
  then have len: "length (rl_iter lib S) \<le> m * l" using assms(7) distinct_card by metis
  have at: "page_keys (rl_iter lib S) (ucast (word_of_nat (i * l) :: u64)) (word_of_nat l)
            = take l (drop (i * l) (rl_iter lib S))" if "i \<in> set [0..<m]" for i
  proof (rule page_keys_at [OF assms(5,6)])
    have "i * l \<le> m * l" using that by (intro mult_le_mono1) simp
    then show "i * l < 2 ^ 32" using assms(8) by (rule le_less_trans)
  qed
  have "map (sv_full_name \<circ> dv_sub_account)
           (concat (map (\<lambda>i. page_details lib c S (word_of_nat (i * l)) (word_of_nat l) r) [0..<m]))
        = concat (map (\<lambda>i. page_keys (rl_iter lib S) (ucast (word_of_nat (i * l) :: u64)) (word_of_nat l)) [0..<m])"
    using page_details_names [OF assms(1), of S] iter(1) assms(4) by (simp add: map_concat comp_def)
  also have "\<dots> = concat (map (\<lambda>i. take l (drop (i * l) (rl_iter lib S))) [0..<m])"
    by (rule arg_cong [where f = concat], rule map_cong [OF refl at])
  also have "\<dots> = rl_iter lib S" using len by (simp add: take_pages)
  finally show ?thesis .
qed

lemma concat_empty: "concat (map (\<lambda>i. []) xs) = []"
  by (induction xs) simp_all

lemma index_pages:
  assumes "reg.reach self lib t r" "iterates lib" "finite (index_keys idx a)"
    "index_keys idx a \<subseteq> dom (r_sub_accounts r)" "0 < l" "l \<le> unat MAX_PAGE_LIMIT"
    "card (index_keys idx a) \<le> m * l" "m * l < 2 ^ 32"
    and page: "\<And>i j. page i j r = (case idx a of None \<Rightarrow> [] | Some keys \<Rightarrow> page_details lib c keys i j r)"
  defines "shown \<equiv> map (sv_full_name \<circ> dv_sub_account)
             (concat (map (\<lambda>i. page (word_of_nat (i * l)) (word_of_nat l) r) [0..<m]))"
  shows "distinct shown \<and> set shown = index_keys idx a"
proof (cases "idx a")
  case (Some S)
  then have S: "index_keys idx a = S" by (simp add: index_keys_def)
  have "shown = rl_iter lib S"
    using pages_of_keys [OF assms(1-8)] Some S by (simp add: shown_def page)
  then show ?thesis using assms(2,3) S by (simp add: iterates_def)
qed (simp add: shown_def page index_keys_def concat_empty)

text \<open>The listings by index are complete and exact. In every reachable registry, laying the
  pages of an owner (or of a namespace) end to end, with any page size up to the maximum, lists the
  name of each registered name of that owner (of that namespace) exactly once, as long as the
  offsets stay below \<open>2\<^sup>3\<^sup>2\<close>: no name is dropped because its namespace or its label is not found.\<close>

theorem listings_complete:
  assumes "reg.reach self lib t r" "iterates lib" "0 < l" "l \<le> 500" "m * l < 2 ^ 32"
    and "card (owned_by a r) \<le> m * l" "card (in_space b r) \<le> m * l"
  defines "names_in \<equiv> \<lambda>page. map (sv_full_name \<circ> dv_sub_account)
             (concat (map (\<lambda>i. page (word_of_nat (i * l)) (word_of_nat l) r) [0..<m]))"
  shows "distinct (names_in (list_sub_accounts_by_owner lib c a)) \<and>
         set (names_in (list_sub_accounts_by_owner lib c a)) = owned_by a r \<and>
         distinct (names_in (list_sub_accounts_by_tla lib c b)) \<and>
         set (names_in (list_sub_accounts_by_tla lib c b)) = in_space b r"
proof -
  have limit: "l \<le> unat MAX_PAGE_LIMIT" using assms(4) by (simp add: MAX_PAGE_LIMIT_def)
  have "owned_by a r \<subseteq> dom (r_sub_accounts r)" "in_space b r \<subseteq> dom (r_sub_accounts r)"
    by (auto simp: owned_by_def in_space_def)
  note names = this reach_names(1-4) [OF assms(1)]
  have "distinct (names_in (list_sub_accounts_by_owner lib c a)) \<and>
        set (names_in (list_sub_accounts_by_owner lib c a)) = index_keys (r_sub_accounts_by_owner r) a"
    unfolding names_in_def using names assms(6)
    by (intro index_pages [OF assms(1,2) _ _ assms(3) limit _ assms(5)])
       (simp_all add: list_sub_accounts_by_owner_def)
  moreover have "distinct (names_in (list_sub_accounts_by_tla lib c b)) \<and>
        set (names_in (list_sub_accounts_by_tla lib c b)) = index_keys (r_sub_accounts_by_tla r) b"
    unfolding names_in_def using names assms(7)
    by (intro index_pages [OF assms(1,2) _ _ assms(3) limit _ assms(5)])
       (simp_all add: list_sub_accounts_by_tla_def)
  ultimately show ?thesis using names by simp
qed

theorem listings_complete_witness:
  "set (map (sv_full_name \<circ> dv_sub_account)
     (concat (map (\<lambda>i. list_sub_accounts_by_owner demo_rlib (demo_rc ''bob'' 9 0) ''alice''
        (word_of_nat (i * 1)) (word_of_nat 1) demo_r4) [0..<2]))) = {''alices.tla''}"
proof -
  have "owned_by ''alice'' demo_r4 = {''alices.tla''}" "in_space ''tla'' demo_r4 = {''alices.tla''}"
    by (auto simp: owned_by_def in_space_def demo_r4_def demo_sub_def)
  moreover have "iterates demo_rlib" by (simp add: iterates_def demo_rlib_def)
  ultimately show ?thesis
    using listings_complete [OF demo_reach(4), of 1 2 "''alice''" "''tla''" "demo_rc ''bob'' 9 0"] by simp
qed

section \<open>The price shown\<close>

lemma quote_covers_rate: "quote_usd_to_near c usd r = Inr q \<Longrightarrow> \<exists>a. convert_usd_to_near c usd r = Inr a \<and> a \<le> q"
  by (auto simp: quote_usd_to_near_def quote_with_slippage_Inr word_le_nat_alt)

text \<open>Which error a call returns, guard by guard.\<close>

lemma rbind_Inl_iff: "rbind m k = Inl e \<longleftrightarrow> m = Inl e \<or> (\<exists>z. m = Inr z \<and> k z = Inl e)"
  by (cases m) auto

lemma ok_or_Inl_iff: "ok_or x d k = Inl e \<longleftrightarrow> x = None \<and> d = e \<or> (\<exists>z. x = Some z \<and> k z = Inl e)"
  by (cases x) auto

lemmas Inl_iffs = rbind_Inl_iff ok_or_Inl_iff require_Inl_iff

definition payment_error :: "contract_error \<Rightarrow> bool" where
  "payment_error e \<longleftrightarrow> e = InsufficientPayment \<or> e = SubAccountNameTaken"

text \<open>No guard of a rental but its own two refuses with one of these.\<close>

lemma guards_other_errors:
  "assert_not_paused c r = Inl e \<Longrightarrow> \<not> payment_error e"
  "validate_mintable_name t n = Inl e \<Longrightarrow> \<not> payment_error e"
  "assert_holds_nothing lib k r = Inl e \<Longrightarrow> \<not> payment_error e"
  "resolve_rent_owner c p oa r = Inl e \<Longrightarrow> \<not> payment_error e"
  "assert_accepting c t w r = Inl e \<Longrightarrow> \<not> payment_error e"
  "quote_rent c t n w r = Inl e \<Longrightarrow> \<not> payment_error e"
  "convert_usd_to_near c u r = Inl e \<Longrightarrow> \<not> payment_error e"
  "business_count_check_and_bump t r = Inl e \<Longrightarrow> \<not> payment_error e"
  by (auto simp: payment_error_def assert_not_paused_def validate_mintable_name_def validate_name_def
      assert_holds_nothing_def resolve_rent_owner_def assert_payment_authority_def quote_rent_def
      assert_accepting_def convert_usd_to_near_def usd_micro_to_near_yocto_def
      business_count_check_and_bump_def Let_def Inl_iffs split: if_splits option.splits)

text \<open>C40. The price shown pays. When the registry shows a price for a name, a rental of the name in
  the same block that attaches at least the total shown is not refused for the payment, whoever rents for
  whom; the rent it charges is at most the rent shown; and a rental is refused because the name is
  taken only when the registry also says that the name is not available.\<close>

theorem shown_price_pays:
  assumes "get_rent_price c tla_id name r = Inr v"
  shows "(rp_total_yocto v \<le> attached_deposit c \<longrightarrow>
            rent_sub_account lib c tla_id name owner r \<noteq> Inl InsufficientPayment) \<and>
         (\<forall>r' outs. rent_sub_account lib c tla_id name owner r = Inr (r', outs) \<longrightarrow>
            (\<exists>rent. rent \<le> rp_rent_yocto v \<and>
               ((\<exists>call s. outs = [RegCall call (Some (On_sub_account_created s))] \<and> ms_rent_yocto s = rent) \<or>
                (\<exists>p. outs = [start_re_rent lib p r'] \<and> pr_rent p = rent)))) \<and>
         (rent_sub_account lib c tla_id name owner r = Inl SubAccountNameTaken \<longrightarrow>
            \<not> is_name_available tla_id name r)"
proof (intro conjI impI allI)
  from assms obtain tla q where tla: "r_tlas r tla_id = Some tla"
    and q: "quote_usd_to_near c (calculate_rent tla name (r_fee_config r) (terms_for tla_id r)) r = Inr q"
    and v: "rp_rent_yocto v = q" "rp_total_yocto v = sat_add q (if r_parked_names r (sub_account_key tla_id name) \<noteq> None
              then 0 else fc_account_creation_deposit_yocto (r_fee_config r))"
    by (auto simp: get_rent_price_def Let_def)
  obtain a where a: "convert_usd_to_near c (calculate_rent tla name (r_fee_config r) (terms_for tla_id r)) r = Inr a" "a \<le> q"
    using quote_covers_rate [OF q] by blast
  note rent = rent_sub_account_def Let_def case_prod_unfold quote_rent_def tla
  show "rent_sub_account lib c tla_id name owner r \<noteq> Inl InsufficientPayment"
    if enough: "rp_total_yocto v \<le> attached_deposit c"
  proof
    have "sat_add a d \<le> x" if "sat_add q d \<le> x" for d x
      using sat_add_mono [OF a(2) order_refl [of d]] that by (rule order_trans)
    then have "(if r_parked_names r (sub_account_key tla_id name) \<noteq> None then a
           else sat_add a (fc_account_creation_deposit_yocto (r_fee_config r))) \<le> attached_deposit c"
      using enough a(2) v(2) by (auto intro: order_trans)
    moreover assume "rent_sub_account lib c tla_id name owner r = Inl InsufficientPayment"
    ultimately show False using a(1)
      by (auto simp: rent Inl_iffs payment_error_def split: if_splits dest!: guards_other_errors)
  qed
  show "\<not> is_name_available tla_id name r"
    if "rent_sub_account lib c tla_id name owner r = Inl SubAccountNameTaken"
    using that a(1)
    by (auto simp: rent Inl_iffs payment_error_def is_name_available_def split: if_splits
        dest!: guards_other_errors)
  show "\<exists>rent. rent \<le> rp_rent_yocto v \<and>
      ((\<exists>call s. outs = [RegCall call (Some (On_sub_account_created s))] \<and> ms_rent_yocto s = rent) \<or>
       (\<exists>p. outs = [start_re_rent lib p r'] \<and> pr_rent p = rent))"
    if "rent_sub_account lib c tla_id name owner r = Inr (r', outs)" for r' outs
    using that a v(1) by (intro exI [of _ a]) (auto simp: rent split: if_splits)
qed

theorem shown_price_pays_witness:
  "\<exists>v. get_rent_price (demo_rc ''alice'' 9 8000000000000000000000000) ''tla'' ''alices'' demo_r3 = Inr v \<and>
     rp_total_yocto v = 6328200000000000000000000 \<and>
     rent_sub_account demo_rlib (demo_rc ''alice'' 9 8000000000000000000000000) ''tla'' ''alices'' None demo_r3
       \<noteq> Inl InsufficientPayment"
proof -
  have "quote_usd_to_near (demo_rc ''alice'' 9 8000000000000000000000000) 30000000 demo_r3
        = Inr 6316200000000000000000000"
    unfolding quote_usd_to_near_def demo_price rbind_simps
    by (simp add: quote_with_slippage_Inr demo_r3_def demo_r1_def default_fee_config_def ceil_div_def)
  then have "get_rent_price (demo_rc ''alice'' 9 8000000000000000000000000) ''tla'' ''alices'' demo_r3
    = Inr \<lparr>rp_rent_yocto = 6316200000000000000000000, rp_creation_deposit_yocto = 12000000000000000000000,
           rp_total_yocto = 6328200000000000000000000\<rparr>"
    using demo_rent demo_name
    by (simp add: get_rent_price_def Let_def demo_r3_def demo_r1_def terms_for_def
        sat_add_def default_fee_config_def ONE_NEAR_def)
  from shown_price_pays [OF this, of demo_rlib None] this show ?thesis by simp
qed

section \<open>The names\<close>

text \<open>C22. Every name a reachable registry holds is well formed. Its key is a label, a dot and a
  namespace that is registered; the label has at least two characters, all lower-case letters,
  digits or separators, no separator at either end and no two in a row; the key is short enough for
  an account id, since the eight-bit sum the code checks does not wrap for namespaces that are
  account ids; and the key determines label and namespace, so that the token it names is split
  back into exactly them.\<close>

theorem registered_names_well_formed:
  assumes "reg.reach self lib t r" "r_sub_accounts r key = Some s"
    and "\<forall>tla\<in>dom (r_tlas r). length tla \<le> 64"
  shows "\<exists>label. key = label @ ''.'' @ sa_tla_id s \<and> r_tlas r (sa_tla_id s) \<noteq> None \<and>
           2 \<le> length label \<and> length key \<le> 64 \<and> list_all is_name_char label \<and>
           \<not> is_separator (hd label) \<and> \<not> is_separator (last label) \<and> \<not> has_separator_pair label \<and>
           split_token_id key r = Inr (sa_tla_id s, label) \<and>
           (\<forall>t' n. sub_account_key t' n = key \<and> validate_name n = Inr () \<longrightarrow> t' = sa_tla_id s \<and> n = label)"
proof -
  from reach_names(5) [OF assms(1,2)] obtain label where key: "key = sub_account_key (sa_tla_id s) label"
    and valid: "validate_mintable_name (sa_tla_id s) label = Inr ()" by (auto simp: name_ok_def)
  from reach_spaced [OF assms(1)] assms(2) have space: "r_tlas r (sa_tla_id s) \<noteq> None"
    by (auto simp: spaced_def)
  from valid have name: "validate_name label = Inr ()" "length label \<le> 60"
    and sum: "(word_of_nat (length label + 1 + length (sa_tla_id s)) :: u8) \<le> 64"
    by (auto simp: validate_mintable_name_def validate_name_def total_name_length_def MAX_ACCOUNT_ID_LEN_def)
  have "length (sa_tla_id s) \<le> 64" using space assms(3) by blast
  then have "length label + 1 + length (sa_tla_id s) < 256" using name(2) by simp
  with sum have "length label + 1 + length (sa_tla_id s) \<le> 64"
    by (simp only: word_le_nat_alt unat_of_nat) simp
  then have short: "length key \<le> 64" by (simp add: key sub_account_key_def)
  have uniq: "\<forall>t' n. sub_account_key t' n = key \<and> validate_name n = Inr () \<longrightarrow> t' = sa_tla_id s \<and> n = label"
    using split_at_dot [of _ _ label "sa_tla_id s"] name(1) dot_not_in_name
    unfolding key sub_account_key_def by (metis append_Cons append_Nil)
  have split: "split_token_id key r = Inr (sa_tla_id s, label)" "key = label @ ''.'' @ sa_tla_id s"
    using assms(2) key by (simp_all add: split_token_id_def sub_account_key_def strip_suffix_Some_iff)
  have "2 \<le> length label" "list_all is_name_char label" "\<not> is_separator (hd label)"
    "\<not> is_separator (last label)" "\<not> has_separator_pair label"
    using valid by (simp_all add: validate_mintable_name_def validate_name_def MIN_LABEL_LEN_def)
  with short uniq split space show ?thesis by blast
qed

theorem registered_names_well_formed_witness:
  "\<exists>label. ''alices.tla'' = label @ ''.'' @ ''tla'' \<and> r_tlas demo_r4 ''tla'' \<noteq> None \<and>
     split_token_id ''alices.tla'' demo_r4 = Inr (''tla'', label)"
proof -
  have "r_sub_accounts demo_r4 ''alices.tla'' = Some demo_sub"
    and "\<forall>tla\<in>dom (r_tlas demo_r4). length tla \<le> 64" by (simp_all add: demo_r4_def demo_r3_def)
  from registered_names_well_formed [OF demo_reach(4) this] show ?thesis by (auto simp: demo_sub_def)
qed

end
