(* ===== verification/State_Storage.thy ===== *)
theory State_Storage
  imports Hos_Common
begin

text \<open>
  How a contract of the repository finds its own state after an upgrade
  (\<open>crates/hos-common/src/lib.rs\<close>): the record \<open>STATE\<close> is read as bytes, its first two
  bytes are the version of the layout, and the whole record is decoded in that layout. The
  borsh decoder belongs to a library and is an argument. \<open>None\<close> is an account with no state.
\<close>

section \<open>Reading the raw state\<close>

definition try_state_read :: "(bytes \<Rightarrow> 'a option) \<Rightarrow> bytes option \<Rightarrow> 'a option" where
  "try_state_read try_from_slice raw = Option.bind raw try_from_slice"

fun from_le_bytes :: "u8 \<Rightarrow> u8 \<Rightarrow> u16" where
  "from_le_bytes b0 b1 = ucast b0 + 256 * ucast b1"

definition state_version_of :: "bytes option \<Rightarrow> u16 option" where
  "state_version_of raw = Option.bind raw (\<lambda>bs.
     if 2 \<le> length bs then Some (from_le_bytes (bs ! 0) (bs ! 1)) else None)"

lemma state_version_of_Cons [simp]: "state_version_of (Some (a # b # bs)) = Some (from_le_bytes a b)"
  by (simp add: state_version_of_def)

lemma state_version_of_None [simp]: "state_version_of None = None"
  by (simp add: state_version_of_def)

lemma try_state_read_Some [simp]:
  "try_state_read dec raw = Some x \<longleftrightarrow> (\<exists>bs. raw = Some bs \<and> dec bs = Some x)"
  by (cases raw) (simp_all add: try_state_read_def)

lemma try_state_read_None [simp]: "try_state_read dec None = None"
  by (simp add: try_state_read_def)

text \<open>A state of fewer than two bytes has no version, so no layout is tried on it.\<close>

lemma state_version_of_eq_None: "state_version_of raw = None \<longleftrightarrow> (\<forall>bs. raw = Some bs \<longrightarrow> length bs < 2)"
  by (cases raw) (auto simp: state_version_of_def)

end
