(* ===== verification/Registry_Migrate.thy ===== *)
theory Registry_Migrate
  imports Registry_Storage State_Storage
begin

text \<open>
  The registry after an upgrade (\<open>contracts/tla-registry/src\<close>: \<open>legacy.rs\<close> and \<open>migrate\<close> of
  \<open>lib.rs\<close>): the record of the account is read in the layout its version names and turned into
  the layout of the code. The borsh decoder of each layout is an argument. A collection of the SDK
  is a prefix in the record and entries in the storage, so a migration that opens a collection
  finds what the storage has under its prefix; that, and the rows written by hand, are in
  \<open>outside\<close>, which no migration writes.
\<close>

section \<open>The layouts\<close>

record tla_registry_v1 =
  v1_state_version :: u16
  v1_tlas :: "account_id \<rightharpoonup> tla_entry"
  v1_sub_accounts :: "string \<rightharpoonup> sub_account_entry"
  v1_sub_accounts_by_owner :: "account_id \<rightharpoonup> string set"
  v1_sub_accounts_by_tla :: "account_id \<rightharpoonup> string set"
  v1_recent_activity :: "activity_record list"
  v1_activity_cursor :: u32
  v1_admins :: "account_id set"
  v1_fee_config :: fee_config
  v1_total_revenue :: u128
  v1_sub_account_count :: u64
  v1_paused :: bool
  v1_version :: u8
  v1_pending_refunds :: "account_id \<rightharpoonup> u128"
  v1_total_pending_refunds :: u128
  v1_ft_allowlist :: "account_id set"
  v1_business_sub_count :: "account_id \<rightharpoonup> u32"
  v1_business_sub_cap_override :: "account_id \<rightharpoonup> u32"
  v1_parked_names :: "string \<rightharpoonup> parked_entry"
  v1_reclaim_pending :: "string set"
  v1_payment_authorities :: "account_id set"
  v1_recovery_authorities :: "account_id set"
  v1_hos_extension :: account_id
  v1_grace_period_ns :: u64
  v1_price_oracle :: account_id
  v1_near_usd_rate_micro :: u128
  v1_rate_updated_at :: u64
  v1_rate_sequence :: u64
  v1_treasury :: account_id
  v1_council :: account_id
  v1_marketplace_paused :: bool
  v1_paused_until_ns :: u64
  v1_unpaused_at :: u64
  v1_sweepable_tokens :: "account_id set"
  v1_suspended_until :: "account_id \<rightharpoonup> u64"
  v1_nft_contract_metadata :: nft_contract_metadata
  v1_approved_code_hash :: "crypto_hash option"
  v1_approved_at :: "u64 option"
  v1_upgrade_delay_ns :: u64
  v1_venues :: "account_id set"
  v1_upgrade_proven :: bool

text \<open>The second layout is the first with four more fields, the fourth has the terms of the
  namespaces as well.\<close>

record tla_registry_v2 = tla_registry_v1 +
  v2_lease_term_ns :: u64
  v2_paid_order_ids :: "string \<rightharpoonup> paid_order_state"
  v2_pending_council :: "account_id option"
  v2_pending_council_at :: "u64 option"

record tla_registry_v4 = tla_registry_v2 +
  v4_tla_terms :: "account_id \<rightharpoonup> tla_terms"

record outside =
  o_tla_terms :: "account_id \<rightharpoonup> tla_terms"
  o_paid_order_ids :: "string \<rightharpoonup> paid_order_state"
  o_authority_allowance :: "account_id \<times> account_id \<rightharpoonup> u64"
  o_authority_used :: "account_id \<times> account_id \<rightharpoonup> u64"
  o_biz_resale :: "account_id set"
  o_biz_whitelist :: "(account_id \<times> account_id) set"
  o_biz_claimed :: "string set"

section \<open>Into the layout of the code\<close>

definition from_v4 :: "outside \<Rightarrow> tla_registry_v4 \<Rightarrow> tla_registry" where
  "from_v4 st old =
     \<lparr>r_state_version = REG_STATE_VERSION, r_tlas = v1_tlas old,
      r_sub_accounts = v1_sub_accounts old,
      r_sub_accounts_by_owner = v1_sub_accounts_by_owner old,
      r_sub_accounts_by_tla = v1_sub_accounts_by_tla old,
      r_recent_activity = v1_recent_activity old, r_activity_cursor = v1_activity_cursor old,
      r_admins = v1_admins old, r_fee_config = v1_fee_config old,
      r_total_revenue = v1_total_revenue old, r_sub_account_count = v1_sub_account_count old,
      r_paused = v1_paused old, r_version = v1_version old,
      r_pending_refunds = v1_pending_refunds old,
      r_total_pending_refunds = v1_total_pending_refunds old,
      r_ft_allowlist = v1_ft_allowlist old, r_business_sub_count = v1_business_sub_count old,
      r_business_sub_cap_override = v1_business_sub_cap_override old,
      r_tla_terms = v4_tla_terms old, r_parked_names = v1_parked_names old,
      r_reclaim_pending = v1_reclaim_pending old,
      r_payment_authorities = v1_payment_authorities old,
      r_recovery_authorities = v1_recovery_authorities old,
      r_hos_extension = v1_hos_extension old, r_grace_period_ns = v1_grace_period_ns old,
      r_lease_term_ns = v2_lease_term_ns old, r_price_oracle = v1_price_oracle old,
      r_near_usd_rate_micro = v1_near_usd_rate_micro old,
      r_rate_updated_at = v1_rate_updated_at old, r_rate_sequence = v1_rate_sequence old,
      r_treasury = v1_treasury old, r_council = v1_council old,
      r_marketplace_paused = v1_marketplace_paused old,
      r_paused_until_ns = v1_paused_until_ns old, r_unpaused_at = v1_unpaused_at old,
      r_sweepable_tokens = v1_sweepable_tokens old, r_suspended_until = v1_suspended_until old,
      r_nft_contract_metadata = v1_nft_contract_metadata old,
      r_approved_code_hash = v1_approved_code_hash old, r_approved_at = v1_approved_at old,
      r_upgrade_delay_ns = v1_upgrade_delay_ns old, r_venues = v1_venues old,
      r_upgrade_proven = v1_upgrade_proven old, r_paid_order_ids = v2_paid_order_ids old,
      r_pending_council = v2_pending_council old,
      r_pending_council_at = v2_pending_council_at old, r_pending_treasury = None,
      r_pending_treasury_at = None, r_authority_allowance = o_authority_allowance st,
      r_authority_used = o_authority_used st, r_biz_resale = o_biz_resale st,
      r_biz_whitelist = o_biz_whitelist st, r_biz_claimed = o_biz_claimed st\<rparr>"

definition from_v2 :: "outside \<Rightarrow> tla_registry_v2 \<Rightarrow> tla_registry" where
  "from_v2 st old =
     \<lparr>r_state_version = REG_STATE_VERSION, r_tlas = v1_tlas old,
      r_sub_accounts = v1_sub_accounts old,
      r_sub_accounts_by_owner = v1_sub_accounts_by_owner old,
      r_sub_accounts_by_tla = v1_sub_accounts_by_tla old,
      r_recent_activity = v1_recent_activity old, r_activity_cursor = v1_activity_cursor old,
      r_admins = v1_admins old, r_fee_config = v1_fee_config old,
      r_total_revenue = v1_total_revenue old, r_sub_account_count = v1_sub_account_count old,
      r_paused = v1_paused old, r_version = v1_version old,
      r_pending_refunds = v1_pending_refunds old,
      r_total_pending_refunds = v1_total_pending_refunds old,
      r_ft_allowlist = v1_ft_allowlist old, r_business_sub_count = v1_business_sub_count old,
      r_business_sub_cap_override = v1_business_sub_cap_override old,
      r_tla_terms = o_tla_terms st, r_parked_names = v1_parked_names old,
      r_reclaim_pending = v1_reclaim_pending old,
      r_payment_authorities = v1_payment_authorities old,
      r_recovery_authorities = v1_recovery_authorities old,
      r_hos_extension = v1_hos_extension old, r_grace_period_ns = v1_grace_period_ns old,
      r_lease_term_ns = v2_lease_term_ns old, r_price_oracle = v1_price_oracle old,
      r_near_usd_rate_micro = v1_near_usd_rate_micro old,
      r_rate_updated_at = v1_rate_updated_at old, r_rate_sequence = v1_rate_sequence old,
      r_treasury = v1_treasury old, r_council = v1_council old,
      r_marketplace_paused = v1_marketplace_paused old,
      r_paused_until_ns = v1_paused_until_ns old, r_unpaused_at = v1_unpaused_at old,
      r_sweepable_tokens = v1_sweepable_tokens old, r_suspended_until = v1_suspended_until old,
      r_nft_contract_metadata = v1_nft_contract_metadata old,
      r_approved_code_hash = v1_approved_code_hash old, r_approved_at = v1_approved_at old,
      r_upgrade_delay_ns = v1_upgrade_delay_ns old, r_venues = v1_venues old,
      r_upgrade_proven = v1_upgrade_proven old, r_paid_order_ids = v2_paid_order_ids old,
      r_pending_council = v2_pending_council old,
      r_pending_council_at = v2_pending_council_at old, r_pending_treasury = None,
      r_pending_treasury_at = None, r_authority_allowance = o_authority_allowance st,
      r_authority_used = o_authority_used st, r_biz_resale = o_biz_resale st,
      r_biz_whitelist = o_biz_whitelist st, r_biz_claimed = o_biz_claimed st\<rparr>"

definition from_v1 :: "outside \<Rightarrow> tla_registry_v1 \<Rightarrow> tla_registry" where
  "from_v1 st old =
     \<lparr>r_state_version = REG_STATE_VERSION, r_tlas = v1_tlas old,
      r_sub_accounts = v1_sub_accounts old,
      r_sub_accounts_by_owner = v1_sub_accounts_by_owner old,
      r_sub_accounts_by_tla = v1_sub_accounts_by_tla old,
      r_recent_activity = v1_recent_activity old, r_activity_cursor = v1_activity_cursor old,
      r_admins = v1_admins old, r_fee_config = v1_fee_config old,
      r_total_revenue = v1_total_revenue old, r_sub_account_count = v1_sub_account_count old,
      r_paused = v1_paused old, r_version = v1_version old,
      r_pending_refunds = v1_pending_refunds old,
      r_total_pending_refunds = v1_total_pending_refunds old,
      r_ft_allowlist = v1_ft_allowlist old, r_business_sub_count = v1_business_sub_count old,
      r_business_sub_cap_override = v1_business_sub_cap_override old,
      r_tla_terms = o_tla_terms st, r_parked_names = v1_parked_names old,
      r_reclaim_pending = v1_reclaim_pending old,
      r_payment_authorities = v1_payment_authorities old,
      r_recovery_authorities = v1_recovery_authorities old,
      r_hos_extension = v1_hos_extension old, r_grace_period_ns = v1_grace_period_ns old,
      r_lease_term_ns = PRODUCTION_LEASE_TERM_NS, r_price_oracle = v1_price_oracle old,
      r_near_usd_rate_micro = v1_near_usd_rate_micro old,
      r_rate_updated_at = v1_rate_updated_at old, r_rate_sequence = v1_rate_sequence old,
      r_treasury = v1_treasury old, r_council = v1_council old,
      r_marketplace_paused = v1_marketplace_paused old,
      r_paused_until_ns = v1_paused_until_ns old, r_unpaused_at = v1_unpaused_at old,
      r_sweepable_tokens = v1_sweepable_tokens old, r_suspended_until = v1_suspended_until old,
      r_nft_contract_metadata = v1_nft_contract_metadata old,
      r_approved_code_hash = v1_approved_code_hash old, r_approved_at = v1_approved_at old,
      r_upgrade_delay_ns = v1_upgrade_delay_ns old, r_venues = v1_venues old,
      r_upgrade_proven = v1_upgrade_proven old, r_paid_order_ids = o_paid_order_ids st,
      r_pending_council = None, r_pending_council_at = None, r_pending_treasury = None,
      r_pending_treasury_at = None, r_authority_allowance = o_authority_allowance st,
      r_authority_used = o_authority_used st, r_biz_resale = o_biz_resale st,
      r_biz_whitelist = o_biz_whitelist st, r_biz_claimed = o_biz_claimed st\<rparr>"

text \<open>The record of the current layout, with the rows the account has beside it.\<close>

definition with_rows :: "outside \<Rightarrow> tla_registry \<Rightarrow> tla_registry" where
  "with_rows st r =
     r\<lparr>r_authority_allowance := o_authority_allowance st,
       r_authority_used := o_authority_used st, r_biz_resale := o_biz_resale st,
       r_biz_whitelist := o_biz_whitelist st, r_biz_claimed := o_biz_claimed st\<rparr>"

record registry_codec =
  rc_decode :: "bytes \<Rightarrow> tla_registry option"
  rc_decode_v4 :: "bytes \<Rightarrow> tla_registry_v4 option"
  rc_decode_v2 :: "bytes \<Rightarrow> tla_registry_v2 option"
  rc_decode_v1 :: "bytes \<Rightarrow> tla_registry_v1 option"

datatype migrate_error = R_NO_STATE | R_STATE_VERSION_UNKNOWN | MigrateRefused contract_error

definition stored_registry ::
    "registry_codec \<Rightarrow> outside \<Rightarrow> bytes option \<Rightarrow> migrate_error + tla_registry" where
  "stored_registry codec st raw =
     (case state_version_of raw of
        None \<Rightarrow> Inl R_NO_STATE
      | Some v \<Rightarrow>
          if v = REG_STATE_VERSION then
            ok_or (map_option (with_rows st) (try_state_read (rc_decode codec) raw)) R_NO_STATE Inr
          else if v = 4 then
            ok_or (map_option (from_v4 st) (try_state_read (rc_decode_v4 codec) raw)) R_NO_STATE Inr
          else if v = 2 then
            ok_or (map_option (from_v2 st) (try_state_read (rc_decode_v2 codec) raw)) R_NO_STATE Inr
          else if v = 1 then
            ok_or (map_option (from_v1 st) (try_state_read (rc_decode_v1 codec) raw)) R_NO_STATE Inr
          else Inl R_STATE_VERSION_UNKNOWN)"

definition migrate_r ::
    "registry_codec \<Rightarrow> outside \<Rightarrow> ctx \<Rightarrow> bytes option \<Rightarrow> migrate_error + (tla_registry \<times> reg_out list)" where
  "migrate_r codec st c raw =
     (case assert_private_r c of
        Inl e \<Rightarrow> Inl (MigrateRefused e)
      | Inr _ \<Rightarrow>
          rbind (stored_registry codec st raw) (\<lambda>current.
          Inr (current\<lparr>r_upgrade_proven := True\<rparr>,
               [RegEmit (RegUpgraded (predecessor_account_id c))])))"

section \<open>What an earlier deployment had stored\<close>

text \<open>The same registry in an earlier layout, and what is outside its record: the fields the layout
  does not have are dropped.\<close>

definition to_v1 :: "tla_registry \<Rightarrow> tla_registry_v1" where
  "to_v1 r =
     \<lparr>v1_state_version = 1, v1_tlas = r_tlas r, v1_sub_accounts = r_sub_accounts r,
      v1_sub_accounts_by_owner = r_sub_accounts_by_owner r,
      v1_sub_accounts_by_tla = r_sub_accounts_by_tla r, v1_recent_activity = r_recent_activity r,
      v1_activity_cursor = r_activity_cursor r, v1_admins = r_admins r,
      v1_fee_config = r_fee_config r, v1_total_revenue = r_total_revenue r,
      v1_sub_account_count = r_sub_account_count r, v1_paused = r_paused r,
      v1_version = r_version r, v1_pending_refunds = r_pending_refunds r,
      v1_total_pending_refunds = r_total_pending_refunds r, v1_ft_allowlist = r_ft_allowlist r,
      v1_business_sub_count = r_business_sub_count r,
      v1_business_sub_cap_override = r_business_sub_cap_override r,
      v1_parked_names = r_parked_names r, v1_reclaim_pending = r_reclaim_pending r,
      v1_payment_authorities = r_payment_authorities r,
      v1_recovery_authorities = r_recovery_authorities r, v1_hos_extension = r_hos_extension r,
      v1_grace_period_ns = r_grace_period_ns r, v1_price_oracle = r_price_oracle r,
      v1_near_usd_rate_micro = r_near_usd_rate_micro r, v1_rate_updated_at = r_rate_updated_at r,
      v1_rate_sequence = r_rate_sequence r, v1_treasury = r_treasury r, v1_council = r_council r,
      v1_marketplace_paused = r_marketplace_paused r, v1_paused_until_ns = r_paused_until_ns r,
      v1_unpaused_at = r_unpaused_at r, v1_sweepable_tokens = r_sweepable_tokens r,
      v1_suspended_until = r_suspended_until r,
      v1_nft_contract_metadata = r_nft_contract_metadata r,
      v1_approved_code_hash = r_approved_code_hash r, v1_approved_at = r_approved_at r,
      v1_upgrade_delay_ns = r_upgrade_delay_ns r, v1_venues = r_venues r,
      v1_upgrade_proven = r_upgrade_proven r\<rparr>"

definition to_v2 :: "tla_registry \<Rightarrow> tla_registry_v2" where
  "to_v2 r = tla_registry_v1.extend ((to_v1 r)\<lparr>v1_state_version := 2\<rparr>)
     (tla_registry_v2.fields (r_lease_term_ns r) (r_paid_order_ids r) (r_pending_council r)
        (r_pending_council_at r))"

definition to_v4 :: "tla_registry \<Rightarrow> tla_registry_v4" where
  "to_v4 r = tla_registry_v2.extend ((to_v2 r)\<lparr>v1_state_version := 4\<rparr>)
     (tla_registry_v4.fields (r_tla_terms r))"

definition outside_of :: "tla_registry \<Rightarrow> outside" where
  "outside_of r =
     \<lparr>o_tla_terms = r_tla_terms r, o_paid_order_ids = r_paid_order_ids r,
      o_authority_allowance = r_authority_allowance r, o_authority_used = r_authority_used r,
      o_biz_resale = r_biz_resale r, o_biz_whitelist = r_biz_whitelist r,
      o_biz_claimed = r_biz_claimed r\<rparr>"

text \<open>What the code must make of a registry stored in the layout of version \<open>v\<close>.\<close>

definition upgraded_from :: "u16 \<Rightarrow> tla_registry \<Rightarrow> tla_registry" where
  "upgraded_from v r =
     (let proven = r\<lparr>r_upgrade_proven := True\<rparr>;
          recent = proven\<lparr>r_state_version := REG_STATE_VERSION, r_pending_treasury := None,
                     r_pending_treasury_at := None\<rparr>
      in if v = REG_STATE_VERSION then proven
         else if v = 1 then recent\<lparr>r_lease_term_ns := PRODUCTION_LEASE_TERM_NS,
                            r_pending_council := None, r_pending_council_at := None\<rparr>
         else recent)"

definition stored_as :: "registry_codec \<Rightarrow> u16 \<Rightarrow> tla_registry \<Rightarrow> bytes \<Rightarrow> bool" where
  "stored_as codec v r bs \<longleftrightarrow> state_version_of (Some bs) = Some v \<and>
     (v = REG_STATE_VERSION \<and> rc_decode codec bs = Some r
      \<or> v = 4 \<and> rc_decode_v4 codec bs = Some (to_v4 r)
      \<or> v = 2 \<and> rc_decode_v2 codec bs = Some (to_v2 r)
      \<or> v = 1 \<and> rc_decode_v1 codec bs = Some (to_v1 r))"

lemmas layout_defs = to_v1_def to_v2_def to_v4_def outside_of_def tla_registry_v1.defs
  tla_registry_v2.defs tla_registry_v4.defs

lemma from_to_v4:
  "from_v4 (outside_of r) (to_v4 r) = r\<lparr>r_state_version := REG_STATE_VERSION,
     r_pending_treasury := None, r_pending_treasury_at := None\<rparr>"
  by (simp add: from_v4_def layout_defs)

lemma from_to_v2:
  "from_v2 (outside_of r) (to_v2 r) = r\<lparr>r_state_version := REG_STATE_VERSION,
     r_pending_treasury := None, r_pending_treasury_at := None\<rparr>"
  by (simp add: from_v2_def layout_defs)

lemma from_to_v1:
  "from_v1 (outside_of r) (to_v1 r) = r\<lparr>r_state_version := REG_STATE_VERSION,
     r_pending_treasury := None, r_pending_treasury_at := None,
     r_lease_term_ns := PRODUCTION_LEASE_TERM_NS, r_pending_council := None,
     r_pending_council_at := None\<rparr>"
  by (simp add: from_v1_def layout_defs)

lemma with_own_rows: "with_rows (outside_of r) r = r"
  by (simp add: with_rows_def outside_of_def)

lemma stored_registry_upgraded:
  assumes "stored_as codec v r bs"
  shows "map_sum id (\<lambda>q. q\<lparr>r_upgrade_proven := True\<rparr>) (stored_registry codec (outside_of r) (Some bs))
         = Inr (upgraded_from v r)"
  using assms
  by (auto simp: stored_as_def stored_registry_def upgraded_from_def REG_STATE_VERSION_def Let_def
      from_to_v4 from_to_v2 from_to_v1 with_own_rows try_state_read_def)

lemma migrate_upgraded:
  assumes "stored_as codec v r bs" "assert_private_r c = Inr ()"
  shows "migrate_r codec (outside_of r) c (Some bs)
         = Inr (upgraded_from v r, [RegEmit (RegUpgraded (predecessor_account_id c))])"
  using stored_registry_upgraded [OF assms(1)] assms(2)
  by (cases "stored_registry codec (outside_of r) (Some bs)") (simp_all add: migrate_r_def)

lemma upgraded_inv:
  assumes "registry_inv strict self t r"
  shows "registry_inv strict self t (upgraded_from v r)"
proof -
  have "names (upgraded_from v r) = names r" "activity_ring (upgraded_from v r) = activity_ring r"
    "ledger (upgraded_from v r) = ledger r"
    by (simp_all add: upgraded_from_def Let_def names_def activity_ring_def ledger_def)
  moreover have "gov_inv self t (upgraded_from v r)"
    using assms by (auto simp: registry_inv_def upgraded_from_def Let_def gov_defs pending_ok_def
        PRODUCTION_LEASE_TERM_NS_def MIN_LEASE_TERM_NS_def MAX_LEASE_TERM_NS_def ONE_YEAR_NS_def)
  ultimately show ?thesis using assms by (simp add: registry_inv_def)
qed

section \<open>A registry that is upgraded\<close>

inductive live_step ::
    "registry_codec \<Rightarrow> registry_lib \<Rightarrow> account_id \<Rightarrow> u64 \<Rightarrow> tla_registry \<Rightarrow> tla_registry \<Rightarrow> bool"
  for codec lib self where
  live_call: "registry_step lib self t r r' \<Longrightarrow> live_step codec lib self t r r'"
| live_migrate: "current_account_id c = self \<Longrightarrow> stored_as codec v r bs
     \<Longrightarrow> migrate_r codec (outside_of r) c (Some bs) = Inr (r', outs)
     \<Longrightarrow> live_step codec lib self (block_timestamp c) r r'"

inductive_cases live_stepE: "live_step codec lib self t r r'"

lemma gov_time: "registry_inv strict self t r \<Longrightarrow> t \<le> t' \<Longrightarrow> registry_inv strict self t' r"
  by (auto simp: registry_inv_def intro: gov_inv_mono)

lemma migrate_private: "migrate_r codec st c raw = Inr y \<Longrightarrow> assert_private_r c = Inr ()"
  by (auto simp: migrate_r_def split: sum.splits)

interpretation live: contract_machine "registry_initial self" "live_step codec lib self"
  "registry_inv False self" for codec lib self
proof unfold_locales
  fix t r t' r'
  assume inv: "registry_inv False self t r" and later: "t \<le> t'"
    and step: "live_step codec lib self t' r r'"
  from step show "registry_inv False self t' r'"
  proof (cases rule: live_step.cases)
    case live_call
    then show ?thesis using registry_inv_step [OF inv later] by simp
  next
    case (live_migrate c v bs outs)
    then have "r' = upgraded_from v r"
      using migrate_upgraded [OF live_migrate(3) migrate_private [OF live_migrate(4)]] by simp
    then show ?thesis using upgraded_inv gov_time [OF inv later] by simp
  qed
qed (auto intro: registry_inv_initial)

text \<open>C21. A migration keeps the registry. Whatever registry the account holds, stored in any layout
  the code knows, the migration returns that registry: every field the layout has, each collection
  and each row outside the record is as it was, the lease term an old layout does not have is
  the production term, changes of council or treasury the layout cannot hold are not pending, and
  the upgrade is marked as proven. The registry's invariant holds afterwards when it held before,
  whether the steps since the deployment were calls or migrations; and a record
  of any other version is refused.\<close>

theorem migration_keeps_registry:
  assumes "live.reach self codec lib t r" "stored_as codec v r bs" "is_private_call c" "no_deposit c"
  shows "migrate_r codec (outside_of r) c (Some bs)
           = Inr (upgraded_from v r, [RegEmit (RegUpgraded (predecessor_account_id c))]) \<and>
         registry_inv False self t (upgraded_from v r) \<and>
         (\<forall>raw w. state_version_of raw = Some w \<and> w \<notin> {1, 2, 4, 5} \<longrightarrow>
            migrate_r codec (outside_of r) c raw = Inl R_STATE_VERSION_UNKNOWN)"
proof (intro conjI)
  have self_call: "assert_private_r c = Inr ()" using assms(3,4) by (simp add: assert_private_r_def)
  then show "migrate_r codec (outside_of r) c (Some bs)
      = Inr (upgraded_from v r, [RegEmit (RegUpgraded (predecessor_account_id c))])"
    by (rule migrate_upgraded [OF assms(2)])
  show "registry_inv False self t (upgraded_from v r)"
    using live.reach_inv [OF assms(1)] by (rule upgraded_inv)
  show "\<forall>raw w. state_version_of raw = Some w \<and> w \<notin> {1, 2, 4, 5} \<longrightarrow>
      migrate_r codec (outside_of r) c raw = Inl R_STATE_VERSION_UNKNOWN"
    using self_call by (auto simp: migrate_r_def stored_registry_def REG_STATE_VERSION_def)
qed

text \<open>The registry of the demonstration run, found in the first layout.\<close>

definition demo_codec :: registry_codec where
  "demo_codec = \<lparr>rc_decode = Map.empty, rc_decode_v4 = Map.empty, rc_decode_v2 = Map.empty,
     rc_decode_v1 = [[1, 0] \<mapsto> to_v1 demo_r0]\<rparr>"

theorem migration_keeps_registry_witness:
  "migrate_r demo_codec (outside_of demo_r0) (demo_rc ''reg'' 9 0) (Some [1, 0])
     = Inr (upgraded_from 1 demo_r0, [RegEmit (RegUpgraded ''reg'')]) \<and>
   r_council (upgraded_from 1 demo_r0) = ''council'' \<and>
   r_upgrade_proven (upgraded_from 1 demo_r0)"
proof -
  have "registry_initial ''reg'' 5 demo_r0"
    unfolding registry_initial_def using demo_r0_eq demo_rc_simps(2,3) by metis
  then have "live.reach ''reg'' demo_codec demo_rlib 5 demo_r0" by (rule live.reach_init)
  moreover have "stored_as demo_codec 1 demo_r0 [1, 0]"
    by (simp add: stored_as_def demo_codec_def)
  ultimately show ?thesis
    using migration_keeps_registry [of "''reg''" demo_codec demo_rlib 5 demo_r0 1 "[1, 0]" "demo_rc ''reg'' 9 0"]
    by (simp add: demo_rc_def is_private_call_def no_deposit_def upgraded_from_def REG_STATE_VERSION_def)
qed

end
