(* ===== verification/Extension.thy ===== *)
theory Extension
  imports State_Storage
begin

text \<open>
  The extension (\<open>contracts/hos-extension/src\<close>): the contract every leased wallet holds as its
  authority. The registry asks it for rotations, leases and sweeps; it forwards them to the
  wallet, tells the recovery contract about every change of owner, and keeps the list of resets
  and sweeps that did not go through.

  A method is a function from the call context and the state to an error or to the new state,
  the promises and events it leaves behind and what it returns. \<open>admins\<close>,
  \<open>recovery_reset_pending\<close> and \<open>sweep_pending\<close> are sets; the order in which the SDK lists
  them, the borsh decoder and the hash function are arguments (\<open>extension_lib\<close>).
\<close>

section \<open>Constants\<close>

definition EXT_CONTRACT_VERSION :: u8 where "EXT_CONTRACT_VERSION = 1"
definition EXT_STATE_VERSION :: u16 where "EXT_STATE_VERSION = 4"
definition EXT_UPGRADE_DELAY_NS :: u64 where "EXT_UPGRADE_DELAY_NS = 48 * 60 * 60 * 1000000000"
definition MAX_MIGRATE_BATCH :: nat where "MAX_MIGRATE_BATCH = 25"
definition SKIM_BUFFER :: u128 where "SKIM_BUFFER = 100 * 1000000000000000000000"
definition EXT_MAX_PAGE_LIMIT :: u64 where "EXT_MAX_PAGE_LIMIT = 500"
definition MAX_ADMINS :: nat where "MAX_ADMINS = 32"
definition STORAGE_DEPOSIT_AMOUNT :: u128 where "STORAGE_DEPOSIT_AMOUNT = FT_STORAGE_DEPOSIT_YOCTO"
definition MIN_SWEEP_ATTACHED :: u128 where "MIN_SWEEP_ATTACHED = FT_STORAGE_DEPOSIT_YOCTO + 1"
definition EXTENSION_CALL_DEPOSIT :: u128 where "EXTENSION_CALL_DEPOSIT = 1"

section \<open>State, errors, events\<close>

record pending_sweep =
  ps_wallet :: account_id
  ps_ft :: "account_id option"

record hos_extension =
  x_state_version :: u16
  x_admins :: "account_id set"
  x_registry :: account_id
  x_recovery :: account_id
  x_paused :: bool
  x_version :: u8
  x_treasury :: account_id
  x_approved_code_hash :: "crypto_hash option"
  x_approved_at :: "u64 option"
  x_council :: account_id
  x_paused_until_ns :: u64
  x_recovery_reset_pending :: "account_id set"
  x_sweep_pending :: "pending_sweep set"
  x_upgrade_proven :: bool
  x_pending_council :: "account_id option"
  x_pending_council_at :: "u64 option"
  x_pending_treasury :: "account_id option"
  x_pending_treasury_at :: "u64 option"

text \<open>The errors of \<open>error.rs\<close>, then the panics with a message and the two checks the SDK puts
  in front of a private or a not payable method.\<close>

datatype ext_error =
    X_OnlyAdmin | X_OnlyCouncil | X_OnlyRegistry | X_NoPendingReset | X_NoPendingSweep | X_Paused
  | X_CannotRemoveLastAdmin | X_InsufficientDeposit | X_InsufficientBalance | X_AdminSetFull
  | X_NotEd25519 | X_EmptyCode | X_NoApprovedHash | X_HashMismatch | X_ApprovalTooYoung
  | X_ParkTakesNoOwner | X_ReRentNeedsOwnCall | X_TransferNeedsOwner | X_TransferNeedsHolder
  | X_RequiresOneYocto | X_UpgradeNotProven | X_CouncilUnchanged | X_CouncilIsSelf
  | X_NoCouncilRotationPending | X_OnlyPendingCouncil | X_CouncilRotationTooYoung
  | X_TreasuryUnchanged | X_TreasuryIsSelf | X_NoTreasuryRotationPending | X_OnlyPendingTreasury
  | X_TreasuryRotationTooYoung | X_EmptyBatch | X_BatchTooLarge
  | X_STATE_VERSION_UNKNOWN | X_NO_STATE | X_InitCouncilIsSelf | X_AlreadyInitialized
  | X_PrivateMethod | X_NotPayable

datatype ext_event =
    XContractPaused account_id
  | XContractUnpaused account_id
  | XAdminAdded account_id account_id
  | XAdminRemoved account_id account_id
  | XForceTransferRequested account_id "account_id option" bool account_id
  | XForceTransferCompleted account_id
  | XForceTransferVoided account_id
  | XUpgraded account_id
  | XSealed string account_id
  | XSealFailed string account_id
  | XRecoveryResetPending account_id
  | XSweepPending account_id "account_id option"
  | XUpgradeApproved crypto_hash account_id
  | XCouncilRotationApproved account_id account_id
  | XCouncilRotationCancelled account_id
  | XCouncilRotated account_id account_id
  | XTreasuryRotationApproved account_id account_id
  | XTreasuryRotationCancelled account_id
  | XTreasuryRotated account_id account_id account_id
  | XBalanceSkimmed u128 account_id account_id
  | XSkimFailed u128 account_id account_id
  | XSweepRequested account_id account_id account_id
  | XNearSweepRequested account_id account_id
  | XSweepDispatched account_id account_id account_id u128
  | XSweepSkipped account_id account_id string
  | XSweepFailed account_id account_id string

section \<open>What the extension calls and is called back with\<close>

datatype tenant_call =
    Hos_set_lease u64 operating_state
  | Hos_retract_lease u64
  | Hos_transfer_ownership "account_id option" rotation_cause "account_id option"
  | Hos_re_rent account_id account_id u64
  | Hos_sweep_near
  | Hos_sweep_ft account_id u128
  | Hos_payout_account
  | Hos_set_payout_account account_id account_id
  | Hos_migrate account_id

datatype ext_callback =
    After_recovery_reset account_id
  | After_seal_x string account_id
  | After_skim u128 account_id account_id
  | After_re_rent account_id
  | After_force_swap account_id
  | After_near_sweep account_id
  | After_payout_for_sweep account_id account_id account_id
  | After_balance_for_sweep account_id account_id account_id account_id
  | After_storage_for_sweep account_id account_id account_id account_id u128
  | After_sweep_settled account_id account_id account_id u128

datatype ext_remote =
    CallWallet account_id tenant_call
  | FtBalanceOf account_id account_id
  | FtStorageDeposit account_id "account_id option" "bool option"
  | OnWalletTransferred account_id account_id
  | XTransferNear account_id
  | XDeployAndMigrate bytes
  | XDeleteKey string

text \<open>A promise carries the NEAR it sends along and the callback that follows it.\<close>

datatype ext_out =
    XEmit ext_event
  | XCall ext_remote u128 "ext_callback option"

datatype ext_ret = XUnit | XPromise | XValue bool

type_synonym ext_res = "ext_error + (hos_extension \<times> ext_out list \<times> ext_ret)"

section \<open>Guards\<close>

definition assert_admin_x :: "ctx \<Rightarrow> hos_extension \<Rightarrow> ext_error + unit" where
  "assert_admin_x c x = require (predecessor_account_id c \<in> x_admins x) X_OnlyAdmin (Inr ())"

definition assert_council_x :: "ctx \<Rightarrow> hos_extension \<Rightarrow> ext_error + unit" where
  "assert_council_x c x = require (predecessor_account_id c = x_council x) X_OnlyCouncil (Inr ())"

definition assert_one_yocto_x :: "ctx \<Rightarrow> ext_error + unit" where
  "assert_one_yocto_x c = require (attached_deposit c = 1) X_RequiresOneYocto (Inr ())"

definition assert_registry :: "ctx \<Rightarrow> hos_extension \<Rightarrow> ext_error + unit" where
  "assert_registry c x = require (predecessor_account_id c = x_registry x) X_OnlyRegistry (Inr ())"

definition effective_paused_x :: "ctx \<Rightarrow> hos_extension \<Rightarrow> bool" where
  "effective_paused_x c x \<longleftrightarrow> x_paused x \<and> block_timestamp c < x_paused_until_ns x"

definition assert_not_paused_x :: "ctx \<Rightarrow> hos_extension \<Rightarrow> ext_error + unit" where
  "assert_not_paused_x c x = require (\<not> effective_paused_x c x) X_Paused (Inr ())"

definition assert_private_x :: "ctx \<Rightarrow> ext_error + unit" where
  "assert_private_x c =
     require (is_private_call c) X_PrivateMethod (require (no_deposit c) X_NotPayable (Inr ()))"

definition assert_not_payable_x :: "ctx \<Rightarrow> ext_error + unit" where
  "assert_not_payable_x c = require (no_deposit c) X_NotPayable (Inr ())"

definition abort_and_refund :: "ext_event \<Rightarrow> account_id \<Rightarrow> hos_extension \<Rightarrow> ext_res" where
  "abort_and_refund event refund_to x =
     Inr (x, [XEmit event, XCall (XTransferNear refund_to) MIN_SWEEP_ATTACHED None], XValue False)"

section \<open>Initialisation and migration\<close>

definition extension_new ::
    "ctx \<Rightarrow> bool \<Rightarrow> account_id \<Rightarrow> account_id \<Rightarrow> account_id \<Rightarrow> account_id \<Rightarrow> account_id
     \<Rightarrow> ext_error + hos_extension" where
  "extension_new c initialized admin registry recovery treasury council =
     require (no_deposit c) X_NotPayable (
     require (\<not> initialized) X_AlreadyInitialized (
     require (council \<noteq> current_account_id c) X_InitCouncilIsSelf (
     Inr \<lparr>x_state_version = EXT_STATE_VERSION, x_admins = {admin}, x_registry = registry,
          x_recovery = recovery, x_paused = False, x_version = EXT_CONTRACT_VERSION,
          x_treasury = treasury, x_approved_code_hash = None, x_approved_at = None,
          x_council = council, x_paused_until_ns = 0, x_recovery_reset_pending = {},
          x_sweep_pending = {}, x_upgrade_proven = False, x_pending_council = None,
          x_pending_council_at = None, x_pending_treasury = None, x_pending_treasury_at = None\<rparr>)))"

text \<open>The layouts of earlier versions (\<open>legacy.rs\<close>).\<close>

record hos_extension_v1 =
  x1_state_version :: u16
  x1_admins :: "account_id set"
  x1_registry :: account_id
  x1_recovery :: account_id
  x1_paused :: bool
  x1_version :: u8
  x1_treasury :: account_id
  x1_approved_code_hash :: "crypto_hash option"
  x1_approved_at :: "u64 option"
  x1_council :: account_id
  x1_paused_until_ns :: u64
  x1_recovery_reset_pending :: "account_id set"
  x1_upgrade_proven :: bool

record hos_extension_v2 = hos_extension_v1 +
  x2_pending_council :: "account_id option"
  x2_pending_council_at :: "u64 option"

record hos_extension_v3 = hos_extension_v2 +
  x3_sweep_pending :: "pending_sweep set"

definition from_v1_x :: "'a hos_extension_v1_scheme \<Rightarrow> hos_extension" where
  "from_v1_x old =
     \<lparr>x_state_version = EXT_STATE_VERSION, x_admins = x1_admins old, x_registry = x1_registry old,
      x_recovery = x1_recovery old, x_paused = x1_paused old, x_version = x1_version old,
      x_treasury = x1_treasury old, x_approved_code_hash = x1_approved_code_hash old,
      x_approved_at = x1_approved_at old, x_council = x1_council old,
      x_paused_until_ns = x1_paused_until_ns old,
      x_recovery_reset_pending = x1_recovery_reset_pending old, x_sweep_pending = {},
      x_upgrade_proven = x1_upgrade_proven old, x_pending_council = None,
      x_pending_council_at = None, x_pending_treasury = None, x_pending_treasury_at = None\<rparr>"

definition from_v2_x :: "'a hos_extension_v2_scheme \<Rightarrow> hos_extension" where
  "from_v2_x old = (from_v1_x old)\<lparr>x_pending_council := x2_pending_council old,
      x_pending_council_at := x2_pending_council_at old\<rparr>"

definition from_v3_x :: "hos_extension_v3 \<Rightarrow> hos_extension" where
  "from_v3_x old = (from_v2_x old)\<lparr>x_sweep_pending := x3_sweep_pending old\<rparr>"

record extension_lib =
  xl_sha256 :: "bytes \<Rightarrow> crypto_hash"
  xl_accounts :: "account_id set \<Rightarrow> account_id list"
  xl_sweeps :: "pending_sweep set \<Rightarrow> pending_sweep list"
  xl_decode :: "bytes \<Rightarrow> hos_extension option"
  xl_decode_v3 :: "bytes \<Rightarrow> hos_extension_v3 option"
  xl_decode_v2 :: "bytes \<Rightarrow> hos_extension_v2 option"
  xl_decode_v1 :: "bytes \<Rightarrow> hos_extension_v1 option"

definition stored_extension :: "extension_lib \<Rightarrow> bytes option \<Rightarrow> ext_error + hos_extension" where
  "stored_extension lib raw =
     (case state_version_of raw of
        None \<Rightarrow> Inl X_NO_STATE
      | Some v \<Rightarrow>
          if v = EXT_STATE_VERSION then ok_or (try_state_read (xl_decode lib) raw) X_NO_STATE Inr
          else if v = 3 then
            ok_or (map_option from_v3_x (try_state_read (xl_decode_v3 lib) raw)) X_NO_STATE Inr
          else if v = 2 then
            ok_or (map_option from_v2_x (try_state_read (xl_decode_v2 lib) raw)) X_NO_STATE Inr
          else if v = 1 then
            ok_or (map_option from_v1_x (try_state_read (xl_decode_v1 lib) raw)) X_NO_STATE Inr
          else Inl X_STATE_VERSION_UNKNOWN)"

definition migrate_x :: "extension_lib \<Rightarrow> ctx \<Rightarrow> bytes option \<Rightarrow> ext_res" where
  "migrate_x lib c raw =
     rbind (assert_private_x c) (\<lambda>_.
     rbind (stored_extension lib raw) (\<lambda>current.
     Inr (current\<lparr>x_version := EXT_CONTRACT_VERSION, x_upgrade_proven := True\<rparr>,
          [XEmit (XUpgraded (predecessor_account_id c))], XUnit)))"

section \<open>Council and treasury rotations\<close>

definition approve_council_rotation_x :: "ctx \<Rightarrow> account_id \<Rightarrow> hos_extension \<Rightarrow> ext_res" where
  "approve_council_rotation_x c new_council x =
     rbind (assert_one_yocto_x c) (\<lambda>_.
     rbind (assert_council_x c x) (\<lambda>_.
     require (new_council \<noteq> x_council x) X_CouncilUnchanged (
     require (new_council \<noteq> current_account_id c) X_CouncilIsSelf (
     Inr (x\<lparr>x_pending_council := Some new_council,
            x_pending_council_at := Some (block_timestamp c)\<rparr>,
          [XEmit (XCouncilRotationApproved new_council (predecessor_account_id c))], XUnit)))))"

definition cancel_council_rotation_x :: "ctx \<Rightarrow> hos_extension \<Rightarrow> ext_res" where
  "cancel_council_rotation_x c x =
     rbind (assert_one_yocto_x c) (\<lambda>_.
     rbind (assert_council_x c x) (\<lambda>_.
     require (x_pending_council x \<noteq> None) X_NoCouncilRotationPending (
     Inr (x\<lparr>x_pending_council := None, x_pending_council_at := None\<rparr>,
          [XEmit (XCouncilRotationCancelled (predecessor_account_id c))], XUnit))))"

definition commit_council_rotation_x :: "ctx \<Rightarrow> hos_extension \<Rightarrow> ext_res" where
  "commit_council_rotation_x c x =
     rbind (assert_one_yocto_x c) (\<lambda>_.
     ok_or (x_pending_council x) X_NoCouncilRotationPending (\<lambda>pending.
     require (predecessor_account_id c = pending) X_OnlyPendingCouncil (
     ok_or (x_pending_council_at x) X_NoCouncilRotationPending (\<lambda>approved_at.
     require (\<not> block_timestamp c < sat_add approved_at EXT_UPGRADE_DELAY_NS)
       X_CouncilRotationTooYoung (
     Inr (x\<lparr>x_council := pending, x_pending_council := None, x_pending_council_at := None\<rparr>,
          [XEmit (XCouncilRotated pending (predecessor_account_id c))], XUnit))))))"

definition pending_council_x :: "hos_extension \<Rightarrow> (account_id \<times> u64) option" where
  "pending_council_x x =
     Option.bind (x_pending_council x) (\<lambda>a. map_option (Pair a) (x_pending_council_at x))"

definition approve_treasury_rotation_x :: "ctx \<Rightarrow> account_id \<Rightarrow> hos_extension \<Rightarrow> ext_res" where
  "approve_treasury_rotation_x c new_treasury x =
     rbind (assert_one_yocto_x c) (\<lambda>_.
     rbind (assert_council_x c x) (\<lambda>_.
     require (new_treasury \<noteq> x_treasury x) X_TreasuryUnchanged (
     require (new_treasury \<noteq> current_account_id c) X_TreasuryIsSelf (
     Inr (x\<lparr>x_pending_treasury := Some new_treasury,
            x_pending_treasury_at := Some (block_timestamp c)\<rparr>,
          [XEmit (XTreasuryRotationApproved new_treasury (predecessor_account_id c))], XUnit)))))"

definition cancel_treasury_rotation_x :: "ctx \<Rightarrow> hos_extension \<Rightarrow> ext_res" where
  "cancel_treasury_rotation_x c x =
     rbind (assert_one_yocto_x c) (\<lambda>_.
     rbind (assert_council_x c x) (\<lambda>_.
     require (x_pending_treasury x \<noteq> None) X_NoTreasuryRotationPending (
     Inr (x\<lparr>x_pending_treasury := None, x_pending_treasury_at := None\<rparr>,
          [XEmit (XTreasuryRotationCancelled (predecessor_account_id c))], XUnit))))"

definition commit_treasury_rotation_x :: "ctx \<Rightarrow> hos_extension \<Rightarrow> ext_res" where
  "commit_treasury_rotation_x c x =
     rbind (assert_one_yocto_x c) (\<lambda>_.
     ok_or (x_pending_treasury x) X_NoTreasuryRotationPending (\<lambda>pending.
     require (predecessor_account_id c = pending) X_OnlyPendingTreasury (
     ok_or (x_pending_treasury_at x) X_NoTreasuryRotationPending (\<lambda>approved_at.
     require (\<not> block_timestamp c < sat_add approved_at EXT_UPGRADE_DELAY_NS)
       X_TreasuryRotationTooYoung (
     Inr (x\<lparr>x_treasury := pending, x_pending_treasury := None, x_pending_treasury_at := None\<rparr>,
          [XEmit (XTreasuryRotated (x_treasury x) pending (predecessor_account_id c))], XUnit))))))"

definition pending_treasury_x :: "hos_extension \<Rightarrow> (account_id \<times> u64) option" where
  "pending_treasury_x x =
     Option.bind (x_pending_treasury x) (\<lambda>a. map_option (Pair a) (x_pending_treasury_at x))"

section \<open>Pause, admins, upgrades\<close>

definition pause_x :: "ctx \<Rightarrow> hos_extension \<Rightarrow> ext_res" where
  "pause_x c x =
     rbind (assert_not_payable_x c) (\<lambda>_.
     rbind (assert_admin_x c x) (\<lambda>_.
     Inr (x\<lparr>x_paused := True,
            x_paused_until_ns := sat_add (block_timestamp c) MAX_AUTHORITY_HOLD_NS\<rparr>,
          [XEmit (XContractPaused (predecessor_account_id c))], XUnit)))"

definition unpause_x :: "ctx \<Rightarrow> hos_extension \<Rightarrow> ext_res" where
  "unpause_x c x =
     rbind (assert_not_payable_x c) (\<lambda>_.
     rbind (assert_admin_x c x) (\<lambda>_.
     Inr (x\<lparr>x_paused := False, x_paused_until_ns := 0\<rparr>,
          [XEmit (XContractUnpaused (predecessor_account_id c))], XUnit)))"

definition add_admin_x :: "ctx \<Rightarrow> account_id \<Rightarrow> hos_extension \<Rightarrow> ext_res" where
  "add_admin_x c account x =
     rbind (assert_one_yocto_x c) (\<lambda>_.
     rbind (assert_council_x c x) (\<lambda>_.
     require (card (x_admins x) < MAX_ADMINS) X_AdminSetFull (
     if account \<in> x_admins x then Inr (x, [], XUnit)
     else Inr (x\<lparr>x_admins := insert account (x_admins x)\<rparr>,
               [XEmit (XAdminAdded account (predecessor_account_id c))], XUnit))))"

definition remove_admin_x :: "ctx \<Rightarrow> account_id \<Rightarrow> hos_extension \<Rightarrow> ext_res" where
  "remove_admin_x c account x =
     rbind (assert_one_yocto_x c) (\<lambda>_.
     rbind (assert_council_x c x) (\<lambda>_.
     require (\<not> card (x_admins x) \<le> 1) X_CannotRemoveLastAdmin (
     if account \<notin> x_admins x then Inr (x, [], XUnit)
     else Inr (x\<lparr>x_admins := x_admins x - {account}\<rparr>,
               [XEmit (XAdminRemoved account (predecessor_account_id c))], XUnit))))"

definition approve_upgrade_x :: "ctx \<Rightarrow> crypto_hash \<Rightarrow> hos_extension \<Rightarrow> ext_res" where
  "approve_upgrade_x c code_hash x =
     rbind (assert_one_yocto_x c) (\<lambda>_.
     rbind (assert_council_x c x) (\<lambda>_.
     Inr (x\<lparr>x_approved_code_hash := Some code_hash, x_approved_at := Some (block_timestamp c)\<rparr>,
          [XEmit (XUpgradeApproved code_hash (predecessor_account_id c))], XUnit)))"

definition upgrade_x :: "extension_lib \<Rightarrow> ctx \<Rightarrow> bytes \<Rightarrow> hos_extension \<Rightarrow> ext_res" where
  "upgrade_x lib c code x =
     rbind (assert_one_yocto_x c) (\<lambda>_.
     rbind (assert_admin_x c x) (\<lambda>_.
     require (code \<noteq> []) X_EmptyCode (
     ok_or (x_approved_code_hash x) X_NoApprovedHash (\<lambda>approved.
     require (xl_sha256 lib code = approved) X_HashMismatch (
     ok_or (x_approved_at x) X_NoApprovedHash (\<lambda>approved_at.
     require (\<not> block_timestamp c < sat_add approved_at EXT_UPGRADE_DELAY_NS) X_ApprovalTooYoung (
     Inr (x\<lparr>x_approved_code_hash := None, x_approved_at := None\<rparr>,
          [XCall (XDeployAndMigrate code) 0 None], XPromise))))))))"

section \<open>Recovery resets\<close>

text \<open>The promise that tells the recovery contract about a new owner, and its callback.\<close>

definition recovery_reset :: "account_id \<Rightarrow> hos_extension \<Rightarrow> ext_out" where
  "recovery_reset wallet x =
     XCall (OnWalletTransferred (x_recovery x) wallet) 0 (Some (After_recovery_reset wallet))"

definition after_recovery_reset ::
    "ctx \<Rightarrow> account_id \<Rightarrow> promise_error + bool \<Rightarrow> hos_extension \<Rightarrow> ext_res" where
  "after_recovery_reset c wallet reset x =
     rbind (assert_private_x c) (\<lambda>_.
     if reset = Inr True
     then Inr (x\<lparr>x_recovery_reset_pending := x_recovery_reset_pending x - {wallet}\<rparr>, [], XUnit)
     else Inr (x\<lparr>x_recovery_reset_pending := insert wallet (x_recovery_reset_pending x)\<rparr>,
               [XEmit (XRecoveryResetPending wallet)], XUnit))"

definition retry_recovery_reset :: "ctx \<Rightarrow> account_id \<Rightarrow> hos_extension \<Rightarrow> ext_res" where
  "retry_recovery_reset c wallet x =
     rbind (assert_not_payable_x c) (\<lambda>_.
     require (wallet \<in> x_recovery_reset_pending x) X_NoPendingReset (
     Inr (x, [recovery_reset wallet x], XPromise)))"

definition ext_page :: "u64 option \<Rightarrow> u64 option \<Rightarrow> 'a list \<Rightarrow> 'a list" where
  "ext_page from_index limit items =
     take (unat (min EXT_MAX_PAGE_LIMIT (max 1 (case limit of None \<Rightarrow> EXT_MAX_PAGE_LIMIT | Some l \<Rightarrow> l))))
       (drop (unat (case from_index of None \<Rightarrow> 0 | Some i \<Rightarrow> i)) items)"

definition pending_recovery_resets ::
    "extension_lib \<Rightarrow> u64 option \<Rightarrow> u64 option \<Rightarrow> hos_extension \<Rightarrow> account_id list" where
  "pending_recovery_resets lib from_index limit x =
     ext_page from_index limit (xl_accounts lib (x_recovery_reset_pending x))"

definition pending_recovery_reset_count :: "hos_extension \<Rightarrow> nat" where
  "pending_recovery_reset_count x = card (x_recovery_reset_pending x)"

section \<open>Sealing and skimming\<close>

definition seal_x :: "ctx \<Rightarrow> string \<Rightarrow> hos_extension \<Rightarrow> ext_res" where
  "seal_x c public_key x =
     rbind (assert_one_yocto_x c) (\<lambda>_.
     rbind (assert_council_x c x) (\<lambda>_.
     require (x_upgrade_proven x) X_UpgradeNotProven (
     Inr (x, [XCall (XDeleteKey public_key) 0
                (Some (After_seal_x public_key (predecessor_account_id c)))], XPromise))))"

definition after_seal_x :: "ctx \<Rightarrow> string \<Rightarrow> account_id \<Rightarrow> hos_extension \<Rightarrow> ext_res" where
  "after_seal_x c public_key b x =
     rbind (assert_private_x c) (\<lambda>_.
     if \<not> is_promise_success c then Inr (x, [XEmit (XSealFailed public_key b)], XValue False)
     else Inr (x, [XEmit (XSealed public_key b)], XValue True))"

definition skim_available :: "ctx \<Rightarrow> u128" where
  "skim_available c =
     (let reserve = sat_add (sat_mul (storage_byte_cost c) (ucast (storage_usage c))) SKIM_BUFFER
      in sat_sub (account_balance c) reserve)"

definition skim :: "ctx \<Rightarrow> u128 \<Rightarrow> hos_extension \<Rightarrow> ext_res" where
  "skim c amount x =
     rbind (assert_one_yocto_x c) (\<lambda>_.
     rbind (assert_admin_x c x) (\<lambda>_.
     require (\<not> skim_available c < amount) X_InsufficientBalance (
     Inr (x, [XCall (XTransferNear (x_treasury x)) amount
                (Some (After_skim amount (x_treasury x) (predecessor_account_id c)))], XPromise))))"

definition after_skim :: "ctx \<Rightarrow> u128 \<Rightarrow> account_id \<Rightarrow> account_id \<Rightarrow> hos_extension \<Rightarrow> ext_res" where
  "after_skim c amount to b x =
     rbind (assert_private_x c) (\<lambda>_.
     if \<not> is_promise_success c then Inr (x, [XEmit (XSkimFailed amount to b)], XValue False)
     else Inr (x, [XEmit (XBalanceSkimmed amount to b)], XValue True))"

section \<open>Leases, payout account, wallet migration\<close>

definition push_lease :: "ctx \<Rightarrow> account_id \<Rightarrow> u64 \<Rightarrow> operating_state \<Rightarrow> hos_extension \<Rightarrow> ext_res" where
  "push_lease c wallet lease_until_ns st x =
     rbind (assert_not_payable_x c) (\<lambda>_.
     rbind (assert_registry c x) (\<lambda>_.
     Inr (x, [XCall (CallWallet wallet (Hos_set_lease lease_until_ns st)) EXTENSION_CALL_DEPOSIT None],
          XPromise)))"

definition retract_lease :: "ctx \<Rightarrow> account_id \<Rightarrow> u64 \<Rightarrow> hos_extension \<Rightarrow> ext_res" where
  "retract_lease c wallet lease_until_ns x =
     rbind (assert_not_payable_x c) (\<lambda>_.
     rbind (assert_registry c x) (\<lambda>_.
     Inr (x, [XCall (CallWallet wallet (Hos_retract_lease lease_until_ns)) EXTENSION_CALL_DEPOSIT None],
          XPromise)))"

definition set_payout :: "ctx \<Rightarrow> account_id \<Rightarrow> account_id \<Rightarrow> account_id \<Rightarrow> hos_extension \<Rightarrow> ext_res" where
  "set_payout c wallet payout_account expected_owner x =
     rbind (assert_not_payable_x c) (\<lambda>_.
     rbind (assert_registry c x) (\<lambda>_.
     rbind (assert_not_paused_x c x) (\<lambda>_.
     Inr (x, [XCall (CallWallet wallet (Hos_set_payout_account payout_account expected_owner))
                EXTENSION_CALL_DEPOSIT None], XPromise))))"

definition migrate_wallet :: "ctx \<Rightarrow> account_id \<Rightarrow> hos_extension \<Rightarrow> ext_res" where
  "migrate_wallet c wallet x =
     rbind (assert_not_payable_x c) (\<lambda>_.
     Inr (x, [XCall (CallWallet wallet (Hos_migrate (x_registry x))) 0 None], XPromise))"

definition migrate_wallets :: "ctx \<Rightarrow> account_id list \<Rightarrow> hos_extension \<Rightarrow> ext_res" where
  "migrate_wallets c wallets x =
     rbind (assert_not_payable_x c) (\<lambda>_.
     require (wallets \<noteq> []) X_EmptyBatch (
     require (\<not> MAX_MIGRATE_BATCH < length wallets) X_BatchTooLarge (
     Inr (x, map (\<lambda>wallet. XCall (CallWallet wallet (Hos_migrate (x_registry x))) 0 None) wallets,
          XUnit))))"

section \<open>Rotations\<close>

definition force_transfer ::
    "ctx \<Rightarrow> account_id \<Rightarrow> account_id option \<Rightarrow> rotation_cause \<Rightarrow> account_id option
     \<Rightarrow> hos_extension \<Rightarrow> ext_res" where
  "force_transfer c wallet new_owner cause asked_by x =
     rbind (assert_not_payable_x c) (\<lambda>_.
     rbind (assert_registry c x) (\<lambda>_.
     rbind (assert_not_paused_x c x) (\<lambda>_.
     require (cause \<noteq> ReRent) X_ReRentNeedsOwnCall (
     require (\<not> (parks cause \<and> new_owner \<noteq> None)) X_ParkTakesNoOwner (
     require (\<not> (\<not> parks cause \<and> new_owner = None)) X_TransferNeedsOwner (
     require (\<not> (needs_holder cause \<and> asked_by = None)) X_TransferNeedsHolder (
     Inr (x, [XEmit (XForceTransferRequested wallet new_owner (parks cause) (predecessor_account_id c)),
              XCall (CallWallet wallet (Hos_transfer_ownership new_owner cause asked_by))
                EXTENSION_CALL_DEPOSIT (Some (After_force_swap wallet))], XPromise))))))))"

definition re_rent ::
    "ctx \<Rightarrow> account_id \<Rightarrow> account_id \<Rightarrow> account_id \<Rightarrow> u64 \<Rightarrow> hos_extension \<Rightarrow> ext_res" where
  "re_rent c wallet new_owner payout_account lease_until_ns x =
     rbind (assert_one_yocto_x c) (\<lambda>_.
     rbind (assert_registry c x) (\<lambda>_.
     rbind (assert_not_paused_x c x) (\<lambda>_.
     Inr (x, [XEmit (XForceTransferRequested wallet (Some new_owner) False (predecessor_account_id c)),
              XCall (CallWallet wallet (Hos_re_rent new_owner payout_account lease_until_ns))
                EXTENSION_CALL_DEPOSIT (Some (After_re_rent wallet))], XPromise))))"

definition after_re_rent ::
    "ctx \<Rightarrow> account_id \<Rightarrow> promise_error + bool \<Rightarrow> hos_extension \<Rightarrow> ext_res" where
  "after_re_rent c wallet swapped x =
     rbind (assert_private_x c) (\<lambda>_.
     if swapped \<noteq> Inr True then Inr (x, [XEmit (XForceTransferVoided wallet)], XValue False)
     else Inr (x, [XEmit (XForceTransferCompleted wallet), recovery_reset wallet x], XValue True))"

definition after_force_swap ::
    "ctx \<Rightarrow> account_id \<Rightarrow> promise_error + unit \<Rightarrow> hos_extension \<Rightarrow> ext_res" where
  "after_force_swap c wallet swapped x =
     rbind (assert_private_x c) (\<lambda>_.
     if is_ok swapped
     then Inr (x, [XEmit (XForceTransferCompleted wallet), recovery_reset wallet x], XValue True)
     else Inr (x, [XEmit (XForceTransferVoided wallet)], XValue False))"

section \<open>Sweeps\<close>

definition sweep_near :: "ctx \<Rightarrow> account_id \<Rightarrow> hos_extension \<Rightarrow> ext_res" where
  "sweep_near c wallet x =
     rbind (assert_registry c x) (\<lambda>_.
     Inr (x, [XEmit (XNearSweepRequested wallet (predecessor_account_id c)),
              XCall (CallWallet wallet Hos_sweep_near) EXTENSION_CALL_DEPOSIT
                (Some (After_near_sweep wallet))], XPromise))"

definition after_near_sweep ::
    "ctx \<Rightarrow> account_id \<Rightarrow> promise_error + bool \<Rightarrow> hos_extension \<Rightarrow> ext_res" where
  "after_near_sweep c wallet settled x =
     (let entry = \<lparr>ps_wallet = wallet, ps_ft = None\<rparr> in
     rbind (assert_private_x c) (\<lambda>_.
     if settled = Inr True
     then Inr (x\<lparr>x_sweep_pending := x_sweep_pending x - {entry}\<rparr>, [], XValue True)
     else Inr (x\<lparr>x_sweep_pending := insert entry (x_sweep_pending x)\<rparr>,
               [XEmit (XSweepPending wallet None)], XValue False)))"

definition sweep_ft :: "ctx \<Rightarrow> account_id \<Rightarrow> account_id \<Rightarrow> account_id \<Rightarrow> hos_extension \<Rightarrow> ext_res" where
  "sweep_ft c wallet ft refund_to x =
     rbind (assert_registry c x) (\<lambda>_.
     require (attached_deposit c = MIN_SWEEP_ATTACHED) X_InsufficientDeposit (
     Inr (x, [XEmit (XSweepRequested wallet ft (predecessor_account_id c)),
              XCall (CallWallet wallet Hos_payout_account) 0
                (Some (After_payout_for_sweep wallet ft refund_to))], XPromise)))"

definition retry_sweep :: "ctx \<Rightarrow> account_id \<Rightarrow> account_id option \<Rightarrow> hos_extension \<Rightarrow> ext_res" where
  "retry_sweep c wallet ft x =
     rbind (assert_registry c x) (\<lambda>_.
     require (\<lparr>ps_wallet = wallet, ps_ft = ft\<rparr> \<in> x_sweep_pending x) X_NoPendingSweep (
     case ft of
       None \<Rightarrow> require (attached_deposit c = EXTENSION_CALL_DEPOSIT) X_RequiresOneYocto (
                 sweep_near c wallet x)
     | Some ft' \<Rightarrow> sweep_ft c wallet ft' (predecessor_account_id c) x))"

definition pending_sweeps ::
    "extension_lib \<Rightarrow> u64 option \<Rightarrow> u64 option \<Rightarrow> hos_extension \<Rightarrow> pending_sweep list" where
  "pending_sweeps lib from_index limit x =
     ext_page from_index limit (xl_sweeps lib (x_sweep_pending x))"

definition pending_sweep_count :: "hos_extension \<Rightarrow> nat" where
  "pending_sweep_count x = card (x_sweep_pending x)"

definition after_payout_for_sweep ::
    "ctx \<Rightarrow> account_id \<Rightarrow> account_id \<Rightarrow> account_id \<Rightarrow> promise_error + account_id
     \<Rightarrow> hos_extension \<Rightarrow> ext_res" where
  "after_payout_for_sweep c wallet ft refund_to payout x =
     rbind (assert_private_x c) (\<lambda>_.
     case payout of
       Inl _ \<Rightarrow> abort_and_refund (XSweepFailed wallet ft ''payout_query_failed'') refund_to x
     | Inr destination \<Rightarrow>
         Inr (x, [XCall (FtBalanceOf ft wallet) 0
                    (Some (After_balance_for_sweep wallet ft destination refund_to))], XPromise))"

definition after_balance_for_sweep ::
    "ctx \<Rightarrow> account_id \<Rightarrow> account_id \<Rightarrow> account_id \<Rightarrow> account_id \<Rightarrow> promise_error + u128
     \<Rightarrow> hos_extension \<Rightarrow> ext_res" where
  "after_balance_for_sweep c wallet ft destination refund_to balance x =
     rbind (assert_private_x c) (\<lambda>_.
     case balance of
       Inl _ \<Rightarrow> abort_and_refund (XSweepSkipped wallet ft ''balance_query_failed'') refund_to x
     | Inr amount \<Rightarrow>
         if amount = 0
         then abort_and_refund (XSweepSkipped wallet ft ''zero_balance'') refund_to x
         else Inr (x, [XCall (FtStorageDeposit ft (Some destination) (Some True)) STORAGE_DEPOSIT_AMOUNT
                         (Some (After_storage_for_sweep wallet ft destination refund_to amount))],
                   XPromise))"

definition after_storage_for_sweep ::
    "ctx \<Rightarrow> account_id \<Rightarrow> account_id \<Rightarrow> account_id \<Rightarrow> account_id \<Rightarrow> u128
     \<Rightarrow> hos_extension \<Rightarrow> ext_res" where
  "after_storage_for_sweep c wallet ft destination refund_to balance x =
     rbind (assert_private_x c) (\<lambda>_.
     if \<not> is_promise_success c
     then abort_and_refund (XSweepFailed wallet ft ''storage_deposit_failed'') refund_to x
     else Inr (x, [XCall (CallWallet wallet (Hos_sweep_ft ft balance)) EXTENSION_CALL_DEPOSIT
                     (Some (After_sweep_settled wallet ft destination balance))], XPromise))"

definition after_sweep_settled ::
    "ctx \<Rightarrow> account_id \<Rightarrow> account_id \<Rightarrow> account_id \<Rightarrow> u128 \<Rightarrow> promise_error + bool
     \<Rightarrow> hos_extension \<Rightarrow> ext_res" where
  "after_sweep_settled c wallet ft destination amount settled x =
     (let entry = \<lparr>ps_wallet = wallet, ps_ft = Some ft\<rparr>;
          failed = (\<lambda>reason. Inr (x\<lparr>x_sweep_pending := insert entry (x_sweep_pending x)\<rparr>,
                     [XEmit (XSweepFailed wallet ft reason), XEmit (XSweepPending wallet (Some ft))],
                     XValue False)) in
     rbind (assert_private_x c) (\<lambda>_.
     case settled of
       Inr True \<Rightarrow> Inr (x\<lparr>x_sweep_pending := x_sweep_pending x - {entry}\<rparr>,
                       [XEmit (XSweepDispatched wallet ft destination amount)], XValue True)
     | Inr False \<Rightarrow> failed ''wallet_resolver_reported_failure''
     | Inl _ \<Rightarrow> failed ''authority_execute_failed''))"

section \<open>Views\<close>

definition is_paused_x :: "ctx \<Rightarrow> hos_extension \<Rightarrow> bool" where
  "is_paused_x c x = effective_paused_x c x"

definition get_pause_expiry_x :: "ctx \<Rightarrow> hos_extension \<Rightarrow> u64" where
  "get_pause_expiry_x c x = (if effective_paused_x c x then x_paused_until_ns x else 0)"

definition get_admins_x :: "extension_lib \<Rightarrow> hos_extension \<Rightarrow> account_id list" where
  "get_admins_x lib x = xl_accounts lib (x_admins x)"

end
