(* ===== verification/Extension_Machine.thy ===== *)
theory Extension_Machine
  imports Extension Timelock
begin

text \<open>
  The extension as a machine: every call it accepts, the step relation they generate, the
  invariant of its reachable states and the two timelocks it keeps. A callback runs with any
  result the runtime can deliver.
\<close>

section \<open>Calls and steps\<close>

datatype (plugins only:) extension_call =
    XcApproveCouncil account_id | XcCancelCouncil | XcCommitCouncil
  | XcApproveTreasury account_id | XcCancelTreasury | XcCommitTreasury
  | XcPause | XcUnpause | XcAddAdmin account_id | XcRemoveAdmin account_id
  | XcApproveUpgrade crypto_hash | XcUpgrade bytes
  | XcAfterReset account_id "promise_error + bool" | XcRetryReset account_id
  | XcSeal string | XcAfterSeal string account_id
  | XcSkim u128 | XcAfterSkim u128 account_id account_id
  | XcPushLease account_id u64 operating_state | XcRetractLease account_id u64
  | XcSetPayout account_id account_id account_id
  | XcMigrateWallet account_id | XcMigrateWallets "account_id list"
  | XcForceTransfer account_id "account_id option" rotation_cause "account_id option"
  | XcReRent account_id account_id account_id u64
  | XcAfterReRent account_id "promise_error + bool"
  | XcAfterForceSwap account_id "promise_error + unit"
  | XcSweepNear account_id | XcAfterNearSweep account_id "promise_error + bool"
  | XcRetrySweep account_id "account_id option"
  | XcSweepFt account_id account_id account_id
  | XcAfterPayout account_id account_id account_id "promise_error + account_id"
  | XcAfterBalance account_id account_id account_id account_id "promise_error + u128"
  | XcAfterStorage account_id account_id account_id account_id u128
  | XcAfterSettled account_id account_id account_id u128 "promise_error + bool"

primrec extension_exec :: "extension_lib \<Rightarrow> ctx \<Rightarrow> extension_call \<Rightarrow> hos_extension \<Rightarrow> ext_res" where
  "extension_exec lib c (XcApproveCouncil a) x = approve_council_rotation_x c a x"
| "extension_exec lib c XcCancelCouncil x = cancel_council_rotation_x c x"
| "extension_exec lib c XcCommitCouncil x = commit_council_rotation_x c x"
| "extension_exec lib c (XcApproveTreasury a) x = approve_treasury_rotation_x c a x"
| "extension_exec lib c XcCancelTreasury x = cancel_treasury_rotation_x c x"
| "extension_exec lib c XcCommitTreasury x = commit_treasury_rotation_x c x"
| "extension_exec lib c XcPause x = pause_x c x"
| "extension_exec lib c XcUnpause x = unpause_x c x"
| "extension_exec lib c (XcAddAdmin a) x = add_admin_x c a x"
| "extension_exec lib c (XcRemoveAdmin a) x = remove_admin_x c a x"
| "extension_exec lib c (XcApproveUpgrade h) x = approve_upgrade_x c h x"
| "extension_exec lib c (XcUpgrade code) x = upgrade_x lib c code x"
| "extension_exec lib c (XcAfterReset w res) x = after_recovery_reset c w res x"
| "extension_exec lib c (XcRetryReset w) x = retry_recovery_reset c w x"
| "extension_exec lib c (XcSeal k) x = seal_x c k x"
| "extension_exec lib c (XcAfterSeal k b) x = after_seal_x c k b x"
| "extension_exec lib c (XcSkim n) x = skim c n x"
| "extension_exec lib c (XcAfterSkim n a b) x = after_skim c n a b x"
| "extension_exec lib c (XcPushLease w l st) x = push_lease c w l st x"
| "extension_exec lib c (XcRetractLease w l) x = retract_lease c w l x"
| "extension_exec lib c (XcSetPayout w p e) x = set_payout c w p e x"
| "extension_exec lib c (XcMigrateWallet w) x = migrate_wallet c w x"
| "extension_exec lib c (XcMigrateWallets ws) x = migrate_wallets c ws x"
| "extension_exec lib c (XcForceTransfer w o' ca a) x = force_transfer c w o' ca a x"
| "extension_exec lib c (XcReRent w o' p l) x = re_rent c w o' p l x"
| "extension_exec lib c (XcAfterReRent w res) x = after_re_rent c w res x"
| "extension_exec lib c (XcAfterForceSwap w res) x = after_force_swap c w res x"
| "extension_exec lib c (XcSweepNear w) x = sweep_near c w x"
| "extension_exec lib c (XcAfterNearSweep w res) x = after_near_sweep c w res x"
| "extension_exec lib c (XcRetrySweep w ft) x = retry_sweep c w ft x"
| "extension_exec lib c (XcSweepFt w ft b) x = sweep_ft c w ft b x"
| "extension_exec lib c (XcAfterPayout w ft b res) x = after_payout_for_sweep c w ft b res x"
| "extension_exec lib c (XcAfterBalance w ft d b res) x = after_balance_for_sweep c w ft d b res x"
| "extension_exec lib c (XcAfterStorage w ft d b n) x = after_storage_for_sweep c w ft d b n x"
| "extension_exec lib c (XcAfterSettled w ft d n res) x = after_sweep_settled c w ft d n res x"

definition extension_initial :: "account_id \<Rightarrow> u64 \<Rightarrow> hos_extension \<Rightarrow> bool" where
  "extension_initial self t x \<longleftrightarrow>
     (\<exists>c admin registry recovery treasury council. current_account_id c = self \<and> block_timestamp c = t
        \<and> extension_new c False admin registry recovery treasury council = Inr x)"

text \<open>A step is a call, or the migration that follows a deployment and finds the state of the
  contract in one of the layouts it knows.\<close>

inductive extension_step ::
    "extension_lib \<Rightarrow> account_id \<Rightarrow> u64 \<Rightarrow> hos_extension \<Rightarrow> hos_extension \<Rightarrow> bool" for lib self where
  x_call: "current_account_id c = self \<Longrightarrow> extension_exec lib c m x = Inr (x', outs, ret)
           \<Longrightarrow> extension_step lib self (block_timestamp c) x x'"
| x_migrate: "current_account_id c = self \<Longrightarrow> stored_extension lib raw = Inr x
           \<Longrightarrow> migrate_x lib c raw = Inr (x', outs, ret)
           \<Longrightarrow> extension_step lib self (block_timestamp c) x x'"

inductive_cases extension_stepE: "extension_step lib self t x x'"

lemmas extension_defs = approve_council_rotation_x_def cancel_council_rotation_x_def
  commit_council_rotation_x_def approve_treasury_rotation_x_def cancel_treasury_rotation_x_def
  commit_treasury_rotation_x_def pause_x_def unpause_x_def add_admin_x_def remove_admin_x_def
  approve_upgrade_x_def upgrade_x_def after_recovery_reset_def retry_recovery_reset_def seal_x_def
  after_seal_x_def skim_def after_skim_def push_lease_def retract_lease_def set_payout_def
  migrate_wallet_def migrate_wallets_def force_transfer_def re_rent_def after_re_rent_def
  after_force_swap_def sweep_near_def after_near_sweep_def retry_sweep_def sweep_ft_def
  after_payout_for_sweep_def after_balance_for_sweep_def after_storage_for_sweep_def
  after_sweep_settled_def abort_and_refund_def

lemmas ext_guards = assert_admin_x_def assert_council_x_def assert_one_yocto_x_def
  assert_registry_def assert_not_paused_x_def assert_private_x_def assert_not_payable_x_def
  is_private_call_def no_deposit_def

text \<open>A guard tells what it has checked.\<close>

lemma assert_admin_x_ok [simp]: "assert_admin_x c x = Inr u \<longleftrightarrow> predecessor_account_id c \<in> x_admins x"
  by (simp add: assert_admin_x_def)

lemma assert_council_x_ok [simp]: "assert_council_x c x = Inr u \<longleftrightarrow> predecessor_account_id c = x_council x"
  by (simp add: assert_council_x_def)

lemma assert_registry_ok [simp]: "assert_registry c x = Inr u \<longleftrightarrow> predecessor_account_id c = x_registry x"
  by (simp add: assert_registry_def)

lemma assert_private_x_ok [simp]:
  "assert_private_x c = Inr u \<longleftrightarrow> predecessor_account_id c = current_account_id c \<and> attached_deposit c = 0"
  by (simp add: assert_private_x_def is_private_call_def no_deposit_def)

lemma assert_one_yocto_x_ok [simp]: "assert_one_yocto_x c = Inr u \<longleftrightarrow> attached_deposit c = 1"
  by (simp add: assert_one_yocto_x_def)

lemma assert_not_paused_x_ok [simp]: "assert_not_paused_x c x = Inr u \<longleftrightarrow> \<not> effective_paused_x c x"
  by (simp add: assert_not_paused_x_def)

lemma assert_not_payable_x_ok [simp]: "assert_not_payable_x c = Inr u \<longleftrightarrow> attached_deposit c = 0"
  by (simp add: assert_not_payable_x_def no_deposit_def)

section \<open>The invariant\<close>

text \<open>
  There is an admin and there are at most \<open>MAX_ADMINS\<close>; the council is never the contract
  itself, whose keys are removed by \<open>seal\<close>, and neither is its announced successor; a pending
  rotation or upgrade carries the time it was approved at, which is not in the future; a pause
  ends at most \<open>MAX_AUTHORITY_HOLD_NS\<close> from now.
\<close>

definition ext_admins_ok :: "hos_extension \<Rightarrow> bool" where
  "ext_admins_ok x \<longleftrightarrow> finite (x_admins x) \<and> x_admins x \<noteq> {} \<and> card (x_admins x) \<le> MAX_ADMINS"

definition ext_council_ok :: "account_id \<Rightarrow> hos_extension \<Rightarrow> bool" where
  "ext_council_ok self x \<longleftrightarrow> x_council x \<noteq> self \<and> x_pending_council x \<noteq> Some self
     \<and> x_pending_council x \<noteq> Some (x_council x)
     \<and> x_pending_treasury x \<noteq> Some self \<and> x_pending_treasury x \<noteq> Some (x_treasury x)"

definition stamped :: "u64 \<Rightarrow> 'a option \<Rightarrow> u64 option \<Rightarrow> bool" where
  "stamped t what at \<longleftrightarrow> (what = None \<longleftrightarrow> at = None) \<and> (\<forall>a. at = Some a \<longrightarrow> a \<le> t)"

lemma stamped_simps [simp]: "stamped t None None" "stamped t (Some v) (Some a) \<longleftrightarrow> a \<le> t"
  by (auto simp: stamped_def)

lemma stamped_mono: "stamped t v a \<Longrightarrow> t \<le> t' \<Longrightarrow> stamped t' v a"
  by (force simp: stamped_def)

definition ext_stamps_ok :: "u64 \<Rightarrow> hos_extension \<Rightarrow> bool" where
  "ext_stamps_ok t x \<longleftrightarrow> stamped t (x_pending_council x) (x_pending_council_at x)
     \<and> stamped t (x_pending_treasury x) (x_pending_treasury_at x)
     \<and> stamped t (x_approved_code_hash x) (x_approved_at x)
     \<and> x_paused_until_ns x \<le> sat_add t MAX_AUTHORITY_HOLD_NS"

definition ext_queues_ok :: "hos_extension \<Rightarrow> bool" where
  "ext_queues_ok x \<longleftrightarrow> finite (x_recovery_reset_pending x) \<and> finite (x_sweep_pending x)"

definition extension_inv :: "account_id \<Rightarrow> u64 \<Rightarrow> hos_extension \<Rightarrow> bool" where
  "extension_inv self t x \<longleftrightarrow>
     ext_admins_ok x \<and> ext_council_ok self x \<and> ext_stamps_ok t x \<and> ext_queues_ok x"

lemmas ext_inv_parts = ext_admins_ok_def ext_council_ok_def ext_stamps_ok_def ext_queues_ok_def

lemma extension_inv_later: "extension_inv self t x \<Longrightarrow> t \<le> t' \<Longrightarrow> extension_inv self t' x"
  using sat_add_mono [of t t' MAX_AUTHORITY_HOLD_NS MAX_AUTHORITY_HOLD_NS]
  by (auto simp: extension_inv_def ext_stamps_ok_def intro: stamped_mono)

lemma extension_new_inv:
  "extension_new c False admin registry recovery treasury council = Inr x
   \<Longrightarrow> extension_inv (current_account_id c) t x"
  by (auto simp: extension_new_def extension_inv_def ext_inv_parts MAX_ADMINS_def)

lemma two_members: "finite A \<Longrightarrow> \<not> card A \<le> Suc 0 \<Longrightarrow> \<not> A \<subseteq> {a}"
  using card_mono [of "{a}" A] by auto

lemma exec_ext_inv:
  assumes "extension_inv (current_account_id c) (block_timestamp c) x"
  shows "res_all (\<lambda>y. extension_inv (current_account_id c) (block_timestamp c) (fst y))
           (extension_exec lib c m x)"
  using assms
  by (cases m; simp only: extension_exec.simps extension_defs Let_def; (intro res_walk)?)
    (auto simp: extension_inv_def ext_inv_parts two_members card_insert_if
       split: sum.splits intro: order_trans [OF card_Diff1_le])

lemma extension_step_inv:
  assumes "extension_inv self t x" "t \<le> t'" "extension_step lib self t' x x'"
  shows "extension_inv self t' x'"
  using assms(3)
proof cases
  case (x_call c m outs ret)
  with assms(1,2) show ?thesis
    using res_allD [OF exec_ext_inv, of c x lib m] extension_inv_later by fastforce
next
  case (x_migrate c raw outs ret)
  with assms(1,2) show ?thesis
    using extension_inv_later [OF assms(1,2)]
    by (auto simp: migrate_x_def extension_inv_def ext_inv_parts)
qed

interpretation ext: contract_machine "extension_initial self" "extension_step lib self"
  "extension_inv self" for self lib
  by unfold_locales (auto simp: extension_initial_def intro: extension_new_inv extension_step_inv)

section \<open>Timelocks\<close>

text \<open>What one call may do to the council, the treasury and the approved code.\<close>

definition ext_lock_step :: "ctx \<Rightarrow> hos_extension \<Rightarrow> hos_extension \<Rightarrow> bool" where
  "ext_lock_step c x x' \<longleftrightarrow>
     (x_pending_council_at x' = x_pending_council_at x \<or> x_pending_council_at x' = None
        \<or> x_pending_council_at x' = Some (block_timestamp c))
     \<and> (x_pending_treasury_at x' = x_pending_treasury_at x \<or> x_pending_treasury_at x' = None
        \<or> x_pending_treasury_at x' = Some (block_timestamp c))
     \<and> (x_council x' \<noteq> x_council x \<longrightarrow>
          x_pending_council x = Some (x_council x') \<and> predecessor_account_id c = x_council x'
          \<and> (\<exists>a. x_pending_council_at x = Some a
               \<and> sat_add a EXT_UPGRADE_DELAY_NS \<le> block_timestamp c))
     \<and> (x_treasury x' \<noteq> x_treasury x \<longrightarrow>
          x_pending_treasury x = Some (x_treasury x') \<and> predecessor_account_id c = x_treasury x'
          \<and> (\<exists>a. x_pending_treasury_at x = Some a
               \<and> sat_add a EXT_UPGRADE_DELAY_NS \<le> block_timestamp c))"

lemma exec_ext_locks: "res_all (\<lambda>y. ext_lock_step c x (fst y)) (extension_exec lib c m x)"
  by (cases m; simp only: extension_exec.simps extension_defs Let_def; (intro res_walk)?)
    (auto simp: ext_lock_step_def)

lemma step_ext_locks:
  assumes "extension_step lib self t x x'"
  obtains c where "t = block_timestamp c" "current_account_id c = self" "ext_lock_step c x x'"
  using assms
proof cases
  case (x_call c m outs ret)
  then show ?thesis using that [of c] res_allD [OF exec_ext_locks, of lib c m x] by simp
next
  case (x_migrate c raw outs ret)
  then show ?thesis using that [of c] by (auto simp: migrate_x_def ext_lock_step_def)
qed

interpretation ext_council: timelock "extension_initial self" "extension_step lib self"
  "extension_inv self" x_council x_pending_council_at EXT_UPGRADE_DELAY_NS for lib self
  by unfold_locales (auto simp: ext_lock_step_def elim: step_ext_locks intro: extension_inv_later)

interpretation ext_treasury: timelock "extension_initial self" "extension_step lib self"
  "extension_inv self" x_treasury x_pending_treasury_at EXT_UPGRADE_DELAY_NS for lib self
  by unfold_locales (auto simp: ext_lock_step_def elim: step_ext_locks intro: extension_inv_later)

end
