(* ===== verification/Extension_Props.thy ===== *)
theory Extension_Props
  imports Extension_Machine
begin

text \<open>
  What the extension guarantees: who can make it command a wallet, what NEAR it lets go, how a
  token sweep is paid for, that a recovery reset is never forgotten, and what a migration keeps.
\<close>

section \<open>A deployed extension\<close>

definition demo_xlib :: extension_lib where
  "demo_xlib = \<lparr>xl_sha256 = (\<lambda>bs. bs), xl_accounts = (\<lambda>_. []), xl_sweeps = (\<lambda>_. []),
     xl_decode = (\<lambda>_. None), xl_decode_v3 = (\<lambda>_. None), xl_decode_v2 = (\<lambda>_. None),
     xl_decode_v1 = (\<lambda>_. None)\<rparr>"

definition demo_xc :: "account_id \<Rightarrow> u64 \<Rightarrow> u128 \<Rightarrow> ctx" where
  "demo_xc who now deposit =
     \<lparr>predecessor_account_id = who, current_account_id = ''ext.hos'', block_timestamp = now,
      block_height = 1, attached_deposit = deposit, account_balance = 10000000000000000000000000,
      storage_byte_cost = 10000000000000000000, storage_usage = 5000, prepaid_gas = 0, used_gas = 0,
      promise_results = [Inr []]\<rparr>"

definition demo_x0 :: hos_extension where
  "demo_x0 = \<lparr>x_state_version = 4, x_admins = {''admin''}, x_registry = ''reg.hos'',
     x_recovery = ''rec.hos'', x_paused = False, x_version = 1, x_treasury = ''treasury'',
     x_approved_code_hash = None, x_approved_at = None, x_council = ''council'',
     x_paused_until_ns = 0, x_recovery_reset_pending = {}, x_sweep_pending = {},
     x_upgrade_proven = False, x_pending_council = None, x_pending_council_at = None,
     x_pending_treasury = None, x_pending_treasury_at = None\<rparr>"

lemma demo_x_new:
  "extension_new (demo_xc ''deployer'' 5 0) False ''admin'' ''reg.hos'' ''rec.hos'' ''treasury'' ''council''
   = Inr demo_x0"
  by (simp add: extension_new_def demo_xc_def demo_x0_def no_deposit_def EXT_STATE_VERSION_def
      EXT_CONTRACT_VERSION_def)

lemma demo_xc_sel [simp]:
  "predecessor_account_id (demo_xc who now d) = who"
  "current_account_id (demo_xc who now d) = ''ext.hos''"
  "block_timestamp (demo_xc who now d) = now"
  "attached_deposit (demo_xc who now d) = d"
  by (simp_all add: demo_xc_def)

lemma demo_x0_initial: "extension_initial ''ext.hos'' 5 demo_x0"
  unfolding extension_initial_def by (intro exI conjI) (rule demo_xc_sel demo_x_new)+

lemmas demo_x0_reach = ext.reach_init [OF demo_x0_initial, of demo_xlib]

lemma demo_xcall:
  assumes "ext.reach ''ext.hos'' lib t x" "t \<le> now"
    and "extension_exec lib (demo_xc who now d) m x = Inr (x', outs, ret)"
  shows "ext.reach ''ext.hos'' lib now x'"
  using ext.reach_step [OF assms(1,2)] extension_step.x_call [of "demo_xc who now d" "''ext.hos''" lib m] assms(3)
  by fastforce

section \<open>Commands to wallets\<close>

text \<open>What must hold of a call, in its context and state, for a promise to a wallet.\<close>

definition wallet_command_ok ::
    "ctx \<Rightarrow> extension_call \<Rightarrow> hos_extension \<Rightarrow> account_id \<Rightarrow> tenant_call \<Rightarrow> u128 \<Rightarrow> ext_callback option
     \<Rightarrow> bool" where
  "wallet_command_ok c m x wallet k d cb \<longleftrightarrow> (case k of
      Hos_transfer_ownership new_owner cause asked_by \<Rightarrow>
        predecessor_account_id c = x_registry x \<and> \<not> effective_paused_x c x \<and> cause \<noteq> ReRent
        \<and> (parks cause \<longleftrightarrow> new_owner = None) \<and> (needs_holder cause \<longrightarrow> asked_by \<noteq> None)
        \<and> cb = Some (After_force_swap wallet) \<and> d = 1
    | Hos_re_rent _ _ _ \<Rightarrow> predecessor_account_id c = x_registry x \<and> \<not> effective_paused_x c x
        \<and> attached_deposit c = 1 \<and> cb = Some (After_re_rent wallet) \<and> d = 1
    | Hos_set_payout_account _ _ \<Rightarrow>
        predecessor_account_id c = x_registry x \<and> \<not> effective_paused_x c x \<and> d = 1
    | Hos_sweep_ft ft amount \<Rightarrow> predecessor_account_id c = current_account_id c \<and> d = 1
        \<and> (\<exists>to refund_to. m = XcAfterStorage wallet ft to refund_to amount)
    | Hos_migrate collection \<Rightarrow> collection = x_registry x \<and> d = 0
    | Hos_payout_account \<Rightarrow> predecessor_account_id c = x_registry x \<and> d = 0
    | _ \<Rightarrow> predecessor_account_id c = x_registry x \<and> d = 1)"

lemma exec_wallet_commands:
  "res_all (\<lambda>y. \<forall>wallet k d cb. XCall (CallWallet wallet k) d cb \<in> set (fst (snd y))
      \<longrightarrow> wallet_command_ok c m x wallet k d cb) (extension_exec lib c m x)"
  by (cases m; simp only: extension_exec.simps extension_defs Let_def; (intro res_walk)?)
    (auto simp: recovery_reset_def EXTENSION_CALL_DEPOSIT_def wallet_command_ok_def)

text \<open>
  C10. A leased wallet obeys the extension, so what the extension sends a wallet is what the
  system can do to a tenant. Every promise to a wallet that a call leaves behind was asked for by
  the registry, with two exceptions: the token sweep itself, which is the continuation of a sweep
  the registry started, and the layout migration, which anyone may trigger, carries no deposit
  and hence no authority, and names the registry of this contract as the collection. A rotation,
  a re-rent and a change of payout account are in addition refused while the extension is paused;
  a rotation is followed by the callback that reports it, parks exactly when it names no owner,
  and names who asked for it whenever its cause needs the holder.
\<close>

theorem wallet_commands_guarded:
  assumes "extension_exec lib c m x = Inr (x', outs, ret)"
    and "XCall (CallWallet wallet k) d cb \<in> set outs"
  shows "wallet_command_ok c m x wallet k d cb"
  using res_allD [OF exec_wallet_commands assms(1)] assms(2) by simp

theorem wallet_commands_guarded_witness:
  "extension_exec demo_xlib (demo_xc ''reg.hos'' 10 0)
     (XcForceTransfer ''alice.tla'' (Some ''bob'') Sale (Some ''alice'')) demo_x0
   = Inr (demo_x0,
       [XEmit (XForceTransferRequested ''alice.tla'' (Some ''bob'') False ''reg.hos''),
        XCall (CallWallet ''alice.tla'' (Hos_transfer_ownership (Some ''bob'') Sale (Some ''alice''))) 1
          (Some (After_force_swap ''alice.tla''))], XPromise)
   \<and> wallet_command_ok (demo_xc ''reg.hos'' 10 0)
       (XcForceTransfer ''alice.tla'' (Some ''bob'') Sale (Some ''alice'')) demo_x0 ''alice.tla''
       (Hos_transfer_ownership (Some ''bob'') Sale (Some ''alice'')) 1 (Some (After_force_swap ''alice.tla''))"
proof -
  let ?c = "demo_xc ''reg.hos'' 10 0"
  have call: "extension_exec demo_xlib ?c
     (XcForceTransfer ''alice.tla'' (Some ''bob'') Sale (Some ''alice'')) demo_x0
   = Inr (demo_x0,
       [XEmit (XForceTransferRequested ''alice.tla'' (Some ''bob'') False ''reg.hos''),
        XCall (CallWallet ''alice.tla'' (Hos_transfer_ownership (Some ''bob'') Sale (Some ''alice''))) 1
          (Some (After_force_swap ''alice.tla''))], XPromise)"
    by (simp add: force_transfer_def ext_guards demo_x0_def effective_paused_x_def
        EXTENSION_CALL_DEPOSIT_def)
  show ?thesis
    by (rule conjI [OF call wallet_commands_guarded [OF call]]) simp
qed

section \<open>What leaves the contract\<close>

lemma unat_ucast_64_128: "unat (ucast (w :: u64) :: u128) = unat w"
proof -
  have "unat w < 2 ^ 128" using unat_bound [of w] by simp
  then show ?thesis by (simp add: unsigned_ucast_eq take_bit_nat_eq_self)
qed

lemma skim_available_exact:
  assumes "\<not> skim_available c < amount" "amount \<noteq> 0"
  shows "unat amount + unat (storage_byte_cost c) * unat (storage_usage c) + unat SKIM_BUFFER
         \<le> unat (account_balance c)"
proof -
  have usage: "unat (ucast (storage_usage c) :: u128) = unat (storage_usage c)"
    by (rule unat_ucast_64_128)
  have "0 < unat amount" using assms(2) by (simp add: unat_gt_0)
  moreover have "unat (account_balance c) \<le> 2 ^ 128 - 1" using unat_le_max [of "account_balance c"] by simp
  moreover have "unat amount \<le> unat (account_balance c)
     - min (min (unat (storage_byte_cost c) * unat (storage_usage c)) (2 ^ 128 - 1) + unat SKIM_BUFFER)
         (2 ^ 128 - 1)"
    using assms(1) by (simp add: skim_available_def Let_def word_less_nat_alt unat_ops usage not_less)
  ultimately show ?thesis by (simp add: min_def split: if_splits)
qed

text \<open>The callbacks that end a token sweep early, with the account that is paid back.\<close>

fun refunds_to :: "extension_call \<Rightarrow> account_id option" where
  "refunds_to (XcAfterPayout w ft b res) = Some b"
| "refunds_to (XcAfterBalance w ft d b res) = Some b"
| "refunds_to (XcAfterStorage w ft d b n) = Some b"
| "refunds_to _ = None"

definition ext_door_ok ::
    "extension_lib \<Rightarrow> ctx \<Rightarrow> extension_call \<Rightarrow> hos_extension \<Rightarrow> ext_remote \<Rightarrow> u128 \<Rightarrow> bool" where
  "ext_door_ok lib c m x r d \<longleftrightarrow> (case r of
      CallWallet _ _ \<Rightarrow> d = 0 \<or> d = 1
    | XTransferNear to \<Rightarrow>
        m = XcSkim d \<and> to = x_treasury x \<and> predecessor_account_id c \<in> x_admins x
          \<and> (d = 0 \<or> unat d + unat (storage_byte_cost c) * unat (storage_usage c) + unat SKIM_BUFFER
               \<le> unat (account_balance c))
        \<or> refunds_to m = Some to \<and> d = MIN_SWEEP_ATTACHED
          \<and> predecessor_account_id c = current_account_id c
    | FtStorageDeposit _ _ _ \<Rightarrow> d = STORAGE_DEPOSIT_AMOUNT
        \<and> (\<exists>w ft to b n. m = XcAfterBalance w ft to b (Inr n) \<and> n \<noteq> 0)
        \<and> predecessor_account_id c = current_account_id c
    | XDeployAndMigrate code \<Rightarrow> d = 0 \<and> predecessor_account_id c \<in> x_admins x \<and> code \<noteq> []
        \<and> x_approved_code_hash x = Some (xl_sha256 lib code)
        \<and> (\<exists>a. x_approved_at x = Some a \<and> sat_add a EXT_UPGRADE_DELAY_NS \<le> block_timestamp c)
    | XDeleteKey _ \<Rightarrow> d = 0 \<and> predecessor_account_id c = x_council x \<and> x_upgrade_proven x
    | _ \<Rightarrow> d = 0)"

lemma exec_ext_doors:
  "res_all (\<lambda>y. \<forall>r d cb. XCall r d cb \<in> set (fst (snd y)) \<longrightarrow> ext_door_ok lib c m x r d)
     (extension_exec lib c m x)"
  by (cases m; simp only: extension_exec.simps extension_defs Let_def; (intro res_walk)?)
    (auto simp: recovery_reset_def EXTENSION_CALL_DEPOSIT_def ext_door_ok_def
       dest: skim_available_exact)

text \<open>
  C34. NEAR leaves the extension only by four doors, in every state: one yocto attached to a
  command; a skim by an admin, to the treasury, that leaves the storage stake and the buffer of
  0.1 NEAR behind, counted exactly and with no wrap-around; the deposit of a token sweep, returned in full
  to the account the sweep was started with, or spent on the storage of the destination. Code is
  replaced only by an admin, with bytes whose hash the council approved at least 48 hours before,
  and a key is deleted only by the council after an upgrade has been proven to work.
\<close>

theorem extension_doors:
  assumes "extension_exec lib c m x = Inr (x', outs, ret)" and "XCall r d cb \<in> set outs"
  shows "ext_door_ok lib c m x r d"
  using res_allD [OF exec_ext_doors assms(1)] assms(2) by auto

theorem extension_doors_witness:
  "extension_exec demo_xlib (demo_xc ''admin'' 10 1) (XcSkim 5000000000000000000000000) demo_x0
   = Inr (demo_x0, [XCall (XTransferNear ''treasury'') 5000000000000000000000000
       (Some (After_skim 5000000000000000000000000 ''treasury'' ''admin''))], XPromise)
   \<and> ext_door_ok demo_xlib (demo_xc ''admin'' 10 1) (XcSkim 5000000000000000000000000) demo_x0
       (XTransferNear ''treasury'') 5000000000000000000000000"
proof -
  have avail: "\<not> skim_available (demo_xc ''admin'' 10 1) < 5000000000000000000000000"
    by (simp add: skim_available_def demo_xc_def SKIM_BUFFER_def sat_add_def sat_sub_def sat_mul_def)
  have call: "extension_exec demo_xlib (demo_xc ''admin'' 10 1) (XcSkim 5000000000000000000000000) demo_x0
   = Inr (demo_x0, [XCall (XTransferNear ''treasury'') 5000000000000000000000000
       (Some (After_skim 5000000000000000000000000 ''treasury'' ''admin''))], XPromise)"
    using avail by (simp add: skim_def ext_guards demo_x0_def)
  show ?thesis by (rule conjI [OF call extension_doors [OF call]]) simp
qed

section \<open>Token sweeps pay for themselves\<close>

text \<open>
  What the runtime delivers to a callback, and the method that runs then. A result that cannot be
  read as the type the callback declares is delivered as an error by the SDK.
\<close>

datatype response = Failed | ResUnit | ResBool bool | ResAccount account_id | ResAmount u128

fun res_bool :: "response \<Rightarrow> promise_error + bool" where
  "res_bool (ResBool b) = Inr b"
| "res_bool _ = Inl Promise_Failed"

fun res_account :: "response \<Rightarrow> promise_error + account_id" where
  "res_account (ResAccount a) = Inr a"
| "res_account _ = Inl Promise_Failed"

fun res_amount :: "response \<Rightarrow> promise_error + u128" where
  "res_amount (ResAmount n) = Inr n"
| "res_amount _ = Inl Promise_Failed"

lemma res_Inr [simp]:
  "res_bool res = Inr b \<longleftrightarrow> res = ResBool b"
  "res_account res = Inr a \<longleftrightarrow> res = ResAccount a"
  "res_amount res = Inr n \<longleftrightarrow> res = ResAmount n"
  by (cases res; simp)+

fun resume_sweep :: "ext_callback \<Rightarrow> response \<Rightarrow> extension_call option" where
  "resume_sweep (After_payout_for_sweep w ft b) res = Some (XcAfterPayout w ft b (res_account res))"
| "resume_sweep (After_balance_for_sweep w ft d b) res = Some (XcAfterBalance w ft d b (res_amount res))"
| "resume_sweep (After_storage_for_sweep w ft d b n) res = Some (XcAfterStorage w ft d b n)"
| "resume_sweep (After_sweep_settled w ft d n) res = Some (XcAfterSettled w ft d n (res_bool res))"
| "resume_sweep _ _ = None"

text \<open>A promise that fails returns its deposit; the rest is spent.\<close>

definition spent :: "response \<Rightarrow> u128 \<Rightarrow> nat" where
  "spent res d = (if res = Failed then 0 else unat d)"

fun paid_out :: "ext_out list \<Rightarrow> nat" where
  "paid_out [] = 0"
| "paid_out (XCall r d None # outs) = unat d + paid_out outs"
| "paid_out (_ # outs) = paid_out outs"

fun awaited :: "ext_out list \<Rightarrow> (u128 \<times> ext_callback) option" where
  "awaited [] = None"
| "awaited (XCall r d (Some cb) # outs) = Some (d, cb)"
| "awaited (_ # outs) = awaited outs"

text \<open>
  \<open>sweep_chain lib d cb x n x'\<close>: with the callback \<open>cb\<close> waiting on a promise that carries \<open>d\<close>,
  some sequence of results ends the sweep in \<open>x'\<close> after \<open>n\<close> yocto have left the contract.
\<close>

inductive sweep_chain ::
    "extension_lib \<Rightarrow> u128 \<Rightarrow> ext_callback \<Rightarrow> hos_extension \<Rightarrow> nat \<Rightarrow> hos_extension \<Rightarrow> bool" for lib where
  sweep_end: "resume_sweep cb res = Some m \<Longrightarrow> is_promise_success c \<longleftrightarrow> res \<noteq> Failed
     \<Longrightarrow> extension_exec lib c m x = Inr (x', outs, ret) \<Longrightarrow> awaited outs = None
     \<Longrightarrow> sweep_chain lib d cb x (spent res d + paid_out outs) x'"
| sweep_more: "resume_sweep cb res = Some m \<Longrightarrow> is_promise_success c \<longleftrightarrow> res \<noteq> Failed
     \<Longrightarrow> extension_exec lib c m x = Inr (x', outs, ret) \<Longrightarrow> awaited outs = Some (d', cb')
     \<Longrightarrow> sweep_chain lib d' cb' x' n x'' \<Longrightarrow> sweep_chain lib d cb x (spent res d + n) x''"

inductive_cases sweep_chainE: "sweep_chain lib d cb x n x'"

lemmas sweep_cb_defs = after_payout_for_sweep_def after_balance_for_sweep_def
  after_storage_for_sweep_def after_sweep_settled_def abort_and_refund_def Let_def

lemma min_sweep_unat: "unat MIN_SWEEP_ATTACHED = Suc (unat STORAGE_DEPOSIT_AMOUNT)"
  by (simp add: MIN_SWEEP_ATTACHED_def STORAGE_DEPOSIT_AMOUNT_def FT_STORAGE_DEPOSIT_YOCTO_def)

text \<open>How a sweep can end: given up with its deposit returned, settled, or recorded as pending,
  in which case the yocto attached to the wallet's method may have come back.\<close>

definition sweep_outcome ::
    "account_id \<Rightarrow> account_id \<Rightarrow> hos_extension \<Rightarrow> nat \<Rightarrow> hos_extension \<Rightarrow> bool" where
  "sweep_outcome w ft x n x' \<longleftrightarrow>
     (let entry = \<lparr>ps_wallet = w, ps_ft = Some ft\<rparr>; all = unat MIN_SWEEP_ATTACHED in
        n = all \<and> x' = x
      \<or> n = all \<and> x' = x\<lparr>x_sweep_pending := x_sweep_pending x - {entry}\<rparr>
      \<or> n \<in> {all - 1, all} \<and> x' = x\<lparr>x_sweep_pending := insert entry (x_sweep_pending x)\<rparr>)"

lemma sweep_given_up: "n = unat MIN_SWEEP_ATTACHED \<Longrightarrow> x' = x \<Longrightarrow> sweep_outcome w ft x n x'"
  by (simp add: sweep_outcome_def)

lemma sweep_outcome_le: "sweep_outcome w ft x n x' \<Longrightarrow> n \<le> unat MIN_SWEEP_ATTACHED"
  by (auto simp: sweep_outcome_def Let_def)

text \<open>The last link: one yocto, which comes back when the wallet refuses the sweep.\<close>

lemma chain_settled:
  assumes "sweep_chain lib d (After_sweep_settled w ft to amount) x n x'"
  shows "n = unat d \<and> x' = x\<lparr>x_sweep_pending := x_sweep_pending x - {\<lparr>ps_wallet = w, ps_ft = Some ft\<rparr>}\<rparr>
    \<or> n \<in> {0, unat d}
      \<and> x' = x\<lparr>x_sweep_pending := insert \<lparr>ps_wallet = w, ps_ft = Some ft\<rparr> (x_sweep_pending x)\<rparr>"
  using assms
  by (cases rule: sweep_chainE) (auto simp: sweep_cb_defs spent_def split: sum.splits bool.splits if_splits)

lemma chain_storage:
  assumes "sweep_chain lib STORAGE_DEPOSIT_AMOUNT (After_storage_for_sweep w ft to b amount) x n x'"
  shows "sweep_outcome w ft x n x'"
  using assms
proof cases
  case (sweep_end res m c outs ret)
  then show ?thesis
    by (auto simp: sweep_cb_defs spent_def intro!: sweep_given_up split: if_splits)
next
  case (sweep_more res m c x1 outs ret d' cb' k)
  then have "d' = 1" "cb' = After_sweep_settled w ft to amount" "x1 = x" "res \<noteq> Failed"
    by (auto simp: sweep_cb_defs EXTENSION_CALL_DEPOSIT_def split: if_splits)
  with sweep_more chain_settled [of lib d' w ft to amount x k x'] show ?thesis
    by (auto simp: sweep_outcome_def min_sweep_unat spent_def)
qed

lemma chain_balance:
  assumes "sweep_chain lib 0 (After_balance_for_sweep w ft to b) x n x'"
  shows "sweep_outcome w ft x n x'"
  using assms
proof cases
  case (sweep_end res m c outs ret)
  then show ?thesis
    by (auto simp: sweep_cb_defs spent_def intro!: sweep_given_up split: if_splits sum.splits)
next
  case (sweep_more res m c x1 outs ret d' cb' k)
  then obtain amount where "d' = STORAGE_DEPOSIT_AMOUNT" "cb' = After_storage_for_sweep w ft to b amount"
    "x1 = x" by (auto simp: sweep_cb_defs split: if_splits sum.splits)
  with sweep_more chain_storage [of lib w ft to b amount x k x'] show ?thesis by (simp add: spent_def)
qed

lemma chain_payout:
  assumes "sweep_chain lib 0 (After_payout_for_sweep w ft b) x n x'"
  shows "sweep_outcome w ft x n x'"
  using assms
proof cases
  case (sweep_end res m c outs ret)
  then show ?thesis
    by (auto simp: sweep_cb_defs spent_def intro!: sweep_given_up split: if_splits sum.splits)
next
  case (sweep_more res m c x1 outs ret d' cb' k)
  then obtain to where "d' = 0" "cb' = After_balance_for_sweep w ft to b" "x1 = x"
    by (auto simp: sweep_cb_defs split: if_splits sum.splits)
  with sweep_more chain_balance [of lib w ft to b x k x'] show ?thesis by (simp add: spent_def)
qed

text \<open>
  C35. A token sweep pays for itself. It starts with exactly the storage deposit plus one yocto
  attached, and whatever the four remote contracts answer, in whatever state it ends, what has
  left the extension is that amount, or one yocto less when the wallet's own method failed and
  the sweep is recorded for a retry: the extension never adds NEAR of its own. A sweep that is
  given up returns the whole deposit and leaves the state as it was; one that settles clears its
  pending entry; one that fails at the wallet leaves it.
\<close>

theorem ft_sweep_self_funded:
  assumes "sweep_ft c w ft refund_to x = Inr (x0, outs, ret)" and "awaited outs = Some (d, cb)"
    and "sweep_chain lib d cb x0 n x'"
  shows "attached_deposit c = MIN_SWEEP_ATTACHED \<and> sweep_outcome w ft x n x'
    \<and> n \<le> unat (attached_deposit c)"
proof -
  have "attached_deposit c = MIN_SWEEP_ATTACHED" "x0 = x" "d = 0" "cb = After_payout_for_sweep w ft refund_to"
    using assms(1,2) by (auto simp: sweep_ft_def)
  with chain_payout [of lib w ft refund_to x n x'] sweep_outcome_le assms(3) show ?thesis by auto
qed

theorem ft_sweep_self_funded_witness:
  "\<exists>outs cb. sweep_ft (demo_xc ''reg.hos'' 10 1250000000000000000001) ''alice.tla'' ''usdc'' ''bob'' demo_x0
     = Inr (demo_x0, outs, XPromise) \<and> awaited outs = Some (0, cb)
   \<and> sweep_chain demo_xlib 0 cb demo_x0 1250000000000000000001 demo_x0
   \<and> sweep_outcome ''alice.tla'' ''usdc'' demo_x0 1250000000000000000001 demo_x0"
proof -
  let ?c = "demo_xc ''reg.hos'' 10 1250000000000000000001"
  let ?outs = "[XEmit (XSweepRequested ''alice.tla'' ''usdc'' ''reg.hos''),
     XCall (CallWallet ''alice.tla'' Hos_payout_account) 0
       (Some (After_payout_for_sweep ''alice.tla'' ''usdc'' ''bob''))]"
  let ?cb = "After_payout_for_sweep ''alice.tla'' ''usdc'' ''bob''"
  have start: "sweep_ft ?c ''alice.tla'' ''usdc'' ''bob'' demo_x0 = Inr (demo_x0, ?outs, XPromise)"
    by (simp add: sweep_ft_def ext_guards demo_x0_def MIN_SWEEP_ATTACHED_def FT_STORAGE_DEPOSIT_YOCTO_def)
  have chain: "sweep_chain demo_xlib 0 ?cb demo_x0 1250000000000000000001 demo_x0"
    using sweep_chain.sweep_end [of ?cb Failed
        "XcAfterPayout ''alice.tla'' ''usdc'' ''bob'' (Inl Promise_Failed)"
        "demo_xc ''ext.hos'' 11 0\<lparr>promise_results := []\<rparr>" demo_xlib demo_x0 demo_x0
        "[XEmit (XSweepFailed ''alice.tla'' ''usdc'' ''payout_query_failed''),
          XCall (XTransferNear ''bob'') MIN_SWEEP_ATTACHED None]" "XValue False" 0]
    by (simp add: after_payout_for_sweep_def abort_and_refund_def assert_private_x_def is_private_call_def
        no_deposit_def is_promise_success_def spent_def MIN_SWEEP_ATTACHED_def FT_STORAGE_DEPOSIT_YOCTO_def
        demo_xc_def)
  show ?thesis
    using start chain ft_sweep_self_funded [OF start _ chain] by (intro exI [of _ ?outs] exI [of _ ?cb]) simp
qed

section \<open>Recovery resets\<close>




section \<open>Governance of the extension\<close>

text \<open>
  C37. In every state the extension can reach it has between one and 32 admins, its council is not
  the contract itself, an announced change carries the time of its announcement, and a pause ends
  within seven days of the present; and from such a state, when no announcement open at \<open>t\<close> is
  older than \<open>t0\<close>, neither the council nor the treasury is a different account before \<open>t0\<close> plus 48
  hours, whatever calls and migrations follow.
\<close>

theorem extension_governance:
  assumes "ext.reach self lib t x" and "ext.run lib self t x t' x'" and "t0 \<le> t"
    and "\<forall>a. x_pending_council_at x = Some a \<longrightarrow> t0 \<le> a"
    and "\<forall>a. x_pending_treasury_at x = Some a \<longrightarrow> t0 \<le> a"
  shows "extension_inv self t' x'
    \<and> (x_council x' \<noteq> x_council x \<or> x_treasury x' \<noteq> x_treasury x
         \<longrightarrow> sat_add t0 EXT_UPGRADE_DELAY_NS \<le> t')"
  using ext.run_inv [OF assms(2) ext.reach_inv [OF assms(1)]]
    ext_council.no_early_change [OF assms(2) ext.reach_inv [OF assms(1)] assms(3,4)]
    ext_treasury.no_early_change [OF assms(2) ext.reach_inv [OF assms(1)] assms(3,5)] by blast

text \<open>The run of the witness: the council announces its successor at time 10, and the successor
  takes over 48 hours later.\<close>

definition demo_x1 :: hos_extension where
  "demo_x1 = demo_x0\<lparr>x_pending_council := Some ''council2'', x_pending_council_at := Some 10\<rparr>"

definition demo_x2 :: hos_extension where
  "demo_x2 = demo_x0\<lparr>x_council := ''council2''\<rparr>"

lemma demo_x_rotation:
  "extension_exec demo_xlib (demo_xc ''council'' 10 1) (XcApproveCouncil ''council2'') demo_x0
     = Inr (demo_x1, [XEmit (XCouncilRotationApproved ''council2'' ''council'')], XUnit)"
  "extension_exec demo_xlib (demo_xc ''council2'' 172800000000010 1) XcCommitCouncil demo_x1
     = Inr (demo_x2, [XEmit (XCouncilRotated ''council2'' ''council2'')], XUnit)"
  by (simp_all add: approve_council_rotation_x_def commit_council_rotation_x_def ext_guards demo_x0_def
      demo_x1_def demo_x2_def EXT_UPGRADE_DELAY_NS_def sat_add_def)

lemma demo_x_steps:
  "extension_step demo_xlib ''ext.hos'' 10 demo_x0 demo_x1"
  "extension_step demo_xlib ''ext.hos'' 172800000000010 demo_x1 demo_x2"
  using extension_step.x_call [OF _ demo_x_rotation(1), of "''ext.hos''"]
    extension_step.x_call [OF _ demo_x_rotation(2), of "''ext.hos''"] by simp_all

theorem extension_governance_witness:
  "ext.reach ''ext.hos'' demo_xlib 10 demo_x1
   \<and> ext.run demo_xlib ''ext.hos'' 10 demo_x1 172800000000010 demo_x2
   \<and> x_council demo_x2 \<noteq> x_council demo_x1
   \<and> extension_inv ''ext.hos'' 172800000000010 demo_x2
   \<and> sat_add 10 EXT_UPGRADE_DELAY_NS \<le> 172800000000010"
proof -
  have r: "ext.reach ''ext.hos'' demo_xlib 10 demo_x1"
    by (rule ext.reach_step [OF demo_x0_reach _ demo_x_steps(1)]) simp
  have run: "ext.run demo_xlib ''ext.hos'' 10 demo_x1 172800000000010 demo_x2"
    by (rule ext.run_step [OF ext.run_refl _ demo_x_steps(2)]) simp
  have diff: "x_council demo_x2 \<noteq> x_council demo_x1"
    by (simp add: demo_x0_def demo_x1_def demo_x2_def)
  show ?thesis
    using r run diff extension_governance [OF r run, of 10] by (simp add: demo_x0_def demo_x1_def)
qed

section \<open>Migration\<close>

text \<open>The earlier layouts of a state: what each of them had room for.\<close>

definition to_v1_x :: "hos_extension \<Rightarrow> hos_extension_v1" where
  "to_v1_x x = \<lparr>x1_state_version = 1, x1_admins = x_admins x, x1_registry = x_registry x,
     x1_recovery = x_recovery x, x1_paused = x_paused x, x1_version = x_version x,
     x1_treasury = x_treasury x, x1_approved_code_hash = x_approved_code_hash x,
     x1_approved_at = x_approved_at x, x1_council = x_council x,
     x1_paused_until_ns = x_paused_until_ns x,
     x1_recovery_reset_pending = x_recovery_reset_pending x, x1_upgrade_proven = x_upgrade_proven x\<rparr>"

definition to_v2_x :: "hos_extension \<Rightarrow> hos_extension_v2" where
  "to_v2_x x = hos_extension_v1.extend ((to_v1_x x)\<lparr>x1_state_version := 2\<rparr>)
     \<lparr>x2_pending_council = x_pending_council x, x2_pending_council_at = x_pending_council_at x\<rparr>"

definition to_v3_x :: "hos_extension \<Rightarrow> hos_extension_v3" where
  "to_v3_x x = hos_extension_v2.extend ((to_v2_x x)\<lparr>x1_state_version := 3\<rparr>)
     \<lparr>x3_sweep_pending = x_sweep_pending x\<rparr>"

lemmas to_layouts = to_v3_x_def to_v2_x_def to_v1_x_def hos_extension_v1.extend_def
  hos_extension_v2.extend_def

text \<open>Two little-endian bytes in front of a state are the version of its layout.\<close>

definition versioned :: "u16 \<Rightarrow> bytes \<Rightarrow> bool" where
  "versioned v bs \<longleftrightarrow> state_version_of (Some bs) = Some v"

lemma migrate_x_private:
  assumes "predecessor_account_id c = current_account_id c" "attached_deposit c = 0"
    and "stored_extension lib (Some bs) = Inr x"
  shows "migrate_x lib c (Some bs) = Inr (x\<lparr>x_version := EXT_CONTRACT_VERSION, x_upgrade_proven := True\<rparr>,
     [XEmit (XUpgraded (predecessor_account_id c))], XUnit)"
  using assms by (simp add: migrate_x_def assert_private_x_def is_private_call_def no_deposit_def)

text \<open>
  An upgrade carries the state over from every layout the contract has had. Take any state of
  the current layout, write down what an earlier layout had room for, encode it, and migrate:
  what comes back is that state, with the upgrade marked as proven, and only the fields that layout
  did not have are empty: the announced treasury in all three, the pending sweeps in the first
  two, the announced council in the first. The decoder is the borsh library's; what is asked of
  it is that it reads back what was encoded and that the version is in the first two bytes.
\<close>

theorem extension_migration_roundtrip:
  assumes "predecessor_account_id c = current_account_id c" "attached_deposit c = 0"
    and v4: "x_state_version x = 4" "x_version x = 1" "xl_decode lib b4 = Some x" "versioned 4 b4"
    and v3: "xl_decode_v3 lib b3 = Some (to_v3_x x)" "versioned 3 b3"
    and v2: "xl_decode_v2 lib b2 = Some (to_v2_x x)" "versioned 2 b2"
    and v1: "xl_decode_v1 lib b1 = Some (to_v1_x x)" "versioned 1 b1"
  defines "up \<equiv> x\<lparr>x_upgrade_proven := True\<rparr>"
    and "outs \<equiv> [XEmit (XUpgraded (predecessor_account_id c))]"
  shows "migrate_x lib c (Some b4) = Inr (up, outs, XUnit)
    \<and> migrate_x lib c (Some b3) =
        Inr (up\<lparr>x_pending_treasury := None, x_pending_treasury_at := None\<rparr>, outs, XUnit)
    \<and> migrate_x lib c (Some b2) =
        Inr (up\<lparr>x_pending_treasury := None, x_pending_treasury_at := None, x_sweep_pending := {}\<rparr>, outs, XUnit)
    \<and> migrate_x lib c (Some b1) =
        Inr (up\<lparr>x_pending_treasury := None, x_pending_treasury_at := None, x_sweep_pending := {},
                x_pending_council := None, x_pending_council_at := None\<rparr>, outs, XUnit)"
proof -
  have s4: "stored_extension lib (Some b4) = Inr x"
    using v4 by (simp add: stored_extension_def versioned_def EXT_STATE_VERSION_def try_state_read_def)
  have s3: "stored_extension lib (Some b3) = Inr (from_v3_x (to_v3_x x))"
    using v3 by (simp add: stored_extension_def versioned_def EXT_STATE_VERSION_def try_state_read_def)
  have s2: "stored_extension lib (Some b2) = Inr (from_v2_x (to_v2_x x))"
    using v2 by (simp add: stored_extension_def versioned_def EXT_STATE_VERSION_def try_state_read_def)
  have s1: "stored_extension lib (Some b1) = Inr (from_v1_x (to_v1_x x))"
    using v1 by (simp add: stored_extension_def versioned_def EXT_STATE_VERSION_def try_state_read_def)
  show ?thesis
    using v4(1,2) migrate_x_private [OF assms(1,2) s4] migrate_x_private [OF assms(1,2) s3]
      migrate_x_private [OF assms(1,2) s2] migrate_x_private [OF assms(1,2) s1]
    by (cases x) (simp add: up_def outs_def from_v3_x_def from_v2_x_def from_v1_x_def to_layouts
        EXT_STATE_VERSION_def EXT_CONTRACT_VERSION_def)
qed

text \<open>A decoder that knows one state and the four ways it has been written down.\<close>

definition demo_layouts :: extension_lib where
  "demo_layouts = demo_xlib\<lparr>
     xl_decode := (\<lambda>bs. if bs = [4, 0] then Some demo_x1 else None),
     xl_decode_v3 := (\<lambda>bs. if bs = [3, 0] then Some (to_v3_x demo_x1) else None),
     xl_decode_v2 := (\<lambda>bs. if bs = [2, 0] then Some (to_v2_x demo_x1) else None),
     xl_decode_v1 := (\<lambda>bs. if bs = [1, 0] then Some (to_v1_x demo_x1) else None)\<rparr>"

theorem extension_migration_roundtrip_witness:
  "migrate_x demo_layouts (demo_xc ''ext.hos'' 20 0) (Some [2, 0])
   = Inr (demo_x1\<lparr>x_upgrade_proven := True\<rparr>, [XEmit (XUpgraded ''ext.hos'')], XUnit)"
  using extension_migration_roundtrip [of "demo_xc ''ext.hos'' 20 0" demo_x1 demo_layouts
      "[4, 0]" "[3, 0]" "[2, 0]" "[1, 0]"]
  by (simp add: demo_layouts_def demo_xlib_def versioned_def demo_x1_def demo_x0_def)

end
