(* ===== verification/Recovery_Wire.thy ===== *)
theory Recovery_Wire
  imports State_Storage Bytes
begin

text \<open>
  What the recovery contract signs and checks (\<open>contracts/mpc-recovery/src\<close>: \<open>proof.rs\<close>,
  \<open>tx.rs\<close>): the messages of the attestation key and of the watchers, the quorum, the
  unsigned \<open>AddKey\<close> transaction handed to the MPC signer and the hexadecimal form of its hash.

  A public key is its bytes, as \<open>as_bytes\<close> gives them: a tag for the curve, then the key.
  Strings are sequences of bytes. The signature check of the runtime and the test for weak keys
  of \<open>ed25519_dalek\<close> are arguments.
\<close>

unbundle bit_operations_syntax

section \<open>Bytes\<close>

type_synonym public_key = bytes
type_synonym signature = bytes

definition push_str :: "string \<Rightarrow> bytes" where
  "push_str s = to_le_bytes_32 (of_nat (length s)) @ as_bytes s"

definition is_ed25519 :: "public_key \<Rightarrow> bool" where
  "is_ed25519 key \<longleftrightarrow> (case key of [] \<Rightarrow> False | tag # _ \<Rightarrow> tag = 0)"

section \<open>Messages\<close>

definition DOMAIN_REQUEST :: u8 where "DOMAIN_REQUEST = 1"
definition DOMAIN_VERDICT :: u8 where "DOMAIN_VERDICT = 2"
definition DOMAIN_NAME_RECOVERY :: u8 where "DOMAIN_NAME_RECOVERY = 3"
definition DOMAIN_NAME_REQUEST :: u8 where "DOMAIN_NAME_REQUEST = 4"

definition message_core ::
    "u8 \<Rightarrow> account_id \<Rightarrow> account_id \<Rightarrow> public_key \<Rightarrow> u64 \<Rightarrow> bytes" where
  "message_core domain contract account new_owner round =
     [domain] @ push_str contract @ push_str account @ new_owner @ to_le_bytes_64 round"

definition request_message :: "account_id \<Rightarrow> account_id \<Rightarrow> public_key \<Rightarrow> u64 \<Rightarrow> bytes" where
  "request_message contract account new_owner round =
     message_core DOMAIN_REQUEST contract account new_owner round"

definition verdict_message ::
    "account_id \<Rightarrow> account_id \<Rightarrow> public_key \<Rightarrow> u64 \<Rightarrow> bool \<Rightarrow> bytes" where
  "verdict_message contract account new_owner round approve =
     message_core DOMAIN_VERDICT contract account new_owner round @ [if approve then 1 else 0]"

definition name_request_message ::
    "account_id \<Rightarrow> account_id \<Rightarrow> string \<Rightarrow> account_id \<Rightarrow> u64 \<Rightarrow> bytes" where
  "name_request_message contract tla_id name new_owner round =
     [DOMAIN_NAME_REQUEST] @ push_str contract @ push_str tla_id @ push_str name @ push_str new_owner
       @ to_le_bytes_64 round"

definition name_recovery_message ::
    "account_id \<Rightarrow> account_id \<Rightarrow> string \<Rightarrow> account_id \<Rightarrow> account_id \<Rightarrow> u64 \<Rightarrow> u64 \<Rightarrow> bytes" where
  "name_recovery_message contract tla_id name new_owner expected_owner deadline_ns round =
     [DOMAIN_NAME_RECOVERY] @ push_str contract @ push_str tla_id @ push_str name @ push_str new_owner
       @ push_str expected_owner @ to_le_bytes_64 deadline_ns @ to_le_bytes_64 round"

section \<open>Signatures and quorums\<close>

text \<open>\<open>cl_is_weak\<close> is \<open>VerifyingKey::from_bytes\<close> followed by \<open>is_weak\<close>: \<open>None\<close> when the bytes
  are not a key.\<close>

record crypto_lib =
  cl_is_weak :: "bytes \<Rightarrow> bool option"
  cl_ed25519_verify :: "signature \<Rightarrow> bytes \<Rightarrow> bytes \<Rightarrow> bool"

definition ed25519_key :: "public_key \<Rightarrow> bytes option" where
  "ed25519_key key = (if length key \<noteq> 33 \<or> key ! 0 \<noteq> 0 then None else Some (drop 1 key))"

definition verify :: "crypto_lib \<Rightarrow> bytes \<Rightarrow> signature \<Rightarrow> public_key \<Rightarrow> bool" where
  "verify cl message sig key =
     (case ed25519_key key of
        Some pubkey \<Rightarrow>
          if (case cl_is_weak cl pubkey of None \<Rightarrow> True | Some weak \<Rightarrow> weak) then False
          else cl_ed25519_verify cl sig message pubkey
      | None \<Rightarrow> False)"

fun count_signers ::
    "crypto_lib \<Rightarrow> bytes \<Rightarrow> public_key list \<Rightarrow> (public_key \<times> signature) list \<Rightarrow> public_key list
     \<Rightarrow> public_key list" where
  "count_signers cl message watchers [] counted = counted"
| "count_signers cl message watchers ((key, sig) # rest) counted =
     count_signers cl message watchers rest
       (if key \<notin> set watchers \<or> key \<in> set counted then counted
        else if verify cl message sig key then counted @ [key] else counted)"

definition verify_quorum ::
    "crypto_lib \<Rightarrow> bytes \<Rightarrow> (public_key \<times> signature) list \<Rightarrow> public_key list \<Rightarrow> u32 \<Rightarrow> bool" where
  "verify_quorum cl message signatures watchers threshold \<longleftrightarrow>
     threshold \<le> of_nat (length (count_signers cl message watchers signatures []))"

section \<open>The transaction the MPC signs\<close>

definition ACTION_ADD_KEY :: u8 where "ACTION_ADD_KEY = 5"
definition PERMISSION_FULL_ACCESS :: u8 where "PERMISSION_FULL_ACCESS = 1"
definition HEX :: string where "HEX = ''0123456789abcdef''"

definition write_str :: "string \<Rightarrow> bytes" where
  "write_str s = to_le_bytes_32 (of_nat (length s)) @ as_bytes s"

definition add_key_tx ::
    "account_id \<Rightarrow> public_key \<Rightarrow> u64 \<Rightarrow> crypto_hash \<Rightarrow> public_key \<Rightarrow> bytes" where
  "add_key_tx account signing_key nonce block_hash new_key =
     write_str account @ signing_key @ to_le_bytes_64 nonce @ write_str account @ block_hash
       @ to_le_bytes_32 1 @ [ACTION_ADD_KEY] @ new_key @ to_le_bytes_64 0 @ [PERMISSION_FULL_ACCESS]"

definition to_hex :: "bytes \<Rightarrow> string" where
  "to_hex bs = concat (map (\<lambda>b. [HEX ! unat (drop_bit 4 b), HEX ! unat (b AND 15)]) bs)"

section \<open>Encodings are injective\<close>

text \<open>A string is preceded by its length, so one string cannot run into the next.\<close>

lemma of_nat_u32_inj:
  "a < 2 ^ 32 \<Longrightarrow> b < 2 ^ 32 \<Longrightarrow> (of_nat a :: u32) = of_nat b \<longleftrightarrow> a = b"
proof -
  assume "a < 2 ^ 32" "b < 2 ^ 32"
  then have "unat (of_nat a :: u32) = a" "unat (of_nat b :: u32) = b"
    by (simp_all add: unat_of_nat_fits)
  then show ?thesis by metis
qed

lemma push_str_prefix:
  assumes "length s < 2 ^ 32" "length t < 2 ^ 32" and eq: "push_str s @ m = push_str t @ n"
  shows "s = t \<and> m = n"
proof -
  have "(of_nat (length s) :: u32) = of_nat (length t)" "as_bytes s @ m = as_bytes t @ n"
    using eq by (simp_all add: push_str_def append_eq_append_conv)
  moreover from this(1) have "length s = length t" using assms(1,2) of_nat_u32_inj by blast
  ultimately show ?thesis by (simp add: append_eq_append_conv)
qed

text \<open>The tag of a public key fixes its length, as the SDK requires of every key it admits.\<close>

definition key_shape :: "public_key \<Rightarrow> bool" where
  "key_shape k \<longleftrightarrow> (\<exists>tag data. k = tag # data \<and> (tag = 0 \<and> length data = 32 \<or> tag = 1 \<and> length data = 64))"

lemma key_prefix: "key_shape k \<Longrightarrow> key_shape l \<Longrightarrow> k @ m = l @ n \<Longrightarrow> k = l \<and> m = n"
  by (auto simp: key_shape_def append_eq_append_conv)

section \<open>Hexadecimal\<close>

text \<open>A reference decoder: the position of a digit in the alphabet.\<close>

fun hex_digit :: "string \<Rightarrow> char \<Rightarrow> nat" where
  "hex_digit [] c = 0"
| "hex_digit (d # ds) c = (if d = c then 0 else Suc (hex_digit ds c))"

fun from_hex :: "string \<Rightarrow> bytes" where
  "from_hex (h # l # rest) = (of_nat (16 * hex_digit HEX h + hex_digit HEX l)) # from_hex rest"
| "from_hex _ = []"

lemma hex_digit_nth: "distinct ds \<Longrightarrow> i < length ds \<Longrightarrow> hex_digit ds (ds ! i) = i"
proof (induction ds arbitrary: i)
  case (Cons d ds)
  then show ?case by (cases i) (auto simp: nth_eq_iff_index_eq)
qed simp

lemma hex_digit_HEX: "i < 16 \<Longrightarrow> hex_digit HEX (HEX ! i) = i"
  by (rule hex_digit_nth) (simp_all add: HEX_def)

lemma nibbles: "unat (drop_bit 4 b) < 16" "unat (b AND 15) < 16"
  "16 * unat (drop_bit 4 b) + unat (b AND 15) = unat b" for b :: u8
proof -
  have hi: "unat (drop_bit 4 b) = unat b div 16" by (simp add: drop_bit_eq_div unat_div_distrib)
  have lo: "unat (b AND 15) = unat b mod 16"
    using take_bit_eq_mask [of 4 "unat b"] by (simp add: unsigned_and_eq take_bit_eq_mod mask_eq_exp_minus_1)
  have "unat b < 256" using unat_bound [of b] by simp
  then show "unat (drop_bit 4 b) < 16" "unat (b AND 15) < 16"
    "16 * unat (drop_bit 4 b) + unat (b AND 15) = unat b"
    unfolding hi lo by auto
qed

lemma from_hex_to_hex: "from_hex (to_hex bs) = bs"
proof (induction bs)
  case Nil
  then show ?case by (simp add: to_hex_def)
next
  case (Cons b bs)
  have "to_hex (b # bs) = [HEX ! unat (drop_bit 4 b), HEX ! unat (b AND 15)] @ to_hex bs"
    by (simp add: to_hex_def)
  then show ?case using Cons nibbles [of b] by (simp add: hex_digit_HEX)
qed

section \<open>The quorum is a count of distinct watchers\<close>

lemma count_signers_set:
  "set counted \<subseteq> set watchers \<Longrightarrow>
   set (count_signers cl msg watchers sigs counted)
     = set counted \<union> {k \<in> set watchers. \<exists>sig. (k, sig) \<in> set sigs \<and> verify cl msg sig k}"
  by (induction cl msg watchers sigs counted rule: count_signers.induct) auto

lemma count_signers_distinct:
  "distinct counted \<Longrightarrow> distinct (count_signers cl msg watchers sigs counted)"
  by (induction cl msg watchers sigs counted rule: count_signers.induct) auto

definition signers ::
    "crypto_lib \<Rightarrow> bytes \<Rightarrow> (public_key \<times> signature) list \<Rightarrow> public_key list \<Rightarrow> public_key set" where
  "signers cl msg sigs watchers = {k \<in> set watchers. \<exists>sig. (k, sig) \<in> set sigs \<and> verify cl msg sig k}"

lemma length_count_signers:
  "length (count_signers cl msg watchers sigs []) = card (signers cl msg sigs watchers)"
  using count_signers_set [of "[]" watchers cl msg sigs] count_signers_distinct [of "[]" cl msg watchers sigs]
  by (simp add: signers_def flip: distinct_card)

lemma verify_quorum_iff:
  assumes "length watchers < 2 ^ 32"
  shows "verify_quorum cl msg sigs watchers threshold \<longleftrightarrow> unat threshold \<le> card (signers cl msg sigs watchers)"
proof -
  have "card (signers cl msg sigs watchers) \<le> card (set watchers)"
    by (rule card_mono) (auto simp: signers_def)
  also have "\<dots> \<le> length watchers" by (rule card_length)
  finally have "card (signers cl msg sigs watchers) < 2 ^ LENGTH(32)" using assms by simp
  then show ?thesis
    by (simp add: verify_quorum_def length_count_signers word_le_nat_alt unat_of_nat_fits)
qed

end
