(* ===== verification/Recovery.thy ===== *)
theory Recovery
  imports Recovery_Wire
begin

text \<open>
  The recovery contract (\<open>contracts/mpc-recovery/src\<close>: \<open>lib.rs\<close>, \<open>state.rs\<close>, \<open>legacy.rs\<close>).
  An account arms a policy, the installer installs it; a request signed by the policy's
  attestation key starts a timelock; after it a quorum of watchers decides; an approval lets the
  installer ask the MPC signer for an \<open>AddKey\<close> transaction, or, for a leased name, asks the
  registry for a rotation. A change of owner of a leased account resets its policy.

  A panic is an error value. Unchecked additions of the source panic on overflow (the release
  profile sets \<open>overflow-checks\<close>), which is the error \<open>M_ARITHMETIC_OVERFLOW\<close>.
\<close>

section \<open>Constants\<close>

definition ED25519_DOMAIN :: u64 where "ED25519_DOMAIN = 1"
definition NS_PER_SEC :: u64 where "NS_PER_SEC = 1000000000"
definition ABORT_COOLDOWN_NS :: u64 where "ABORT_COOLDOWN_NS = 600 * NS_PER_SEC"
definition HOLDER_ABORT_COOLDOWN_NS :: u64 where "HOLDER_ABORT_COOLDOWN_NS = 24 * 60 * 60 * NS_PER_SEC"
definition MIN_TIMELOCK_SECS :: u32 where "MIN_TIMELOCK_SECS = 60"
definition MAX_TIMELOCK_SECS :: u32 where "MAX_TIMELOCK_SECS = 2592000"
definition MPC_UPGRADE_DELAY_NS :: u64 where "MPC_UPGRADE_DELAY_NS = 72 * 60 * 60 * 1000000000"
definition MIN_WATCHER_THRESHOLD :: u32 where "MIN_WATCHER_THRESHOLD = 2"
definition MAX_WATCHERS :: u32 where "MAX_WATCHERS = 32"
definition MPC_STATE_VERSION :: u16 where "MPC_STATE_VERSION = 2"

section \<open>State\<close>

record armed_policy =
  ap_attestation_key :: public_key
  ap_timelock_secs :: u32

record policy =
  po_mpc_public_key :: public_key
  po_attestation_key :: public_key
  po_timelock_secs :: u32

datatype phase =
    Idle
  | Requested public_key u64 u64
  | Approved public_key u64
  | Resolving public_key u64
  | NameRequested account_id u64 u64
  | NameResolving account_id u64 u64
  | Cooldown u64

fun settled :: "phase \<Rightarrow> bool" where
  "settled Idle = True"
| "settled (Cooldown _) = True"
| "settled _ = False"

fun accepts_request :: "phase \<Rightarrow> u64 \<Rightarrow> bool" where
  "accepts_request Idle now = True"
| "accepts_request (Cooldown until) now \<longleftrightarrow> until \<le> now"
| "accepts_request _ now = False"

fun pending :: "phase \<Rightarrow> (public_key \<times> u64) option" where
  "pending (Requested new_owner round _) = Some (new_owner, round)"
| "pending (Approved new_owner round) = Some (new_owner, round)"
| "pending (Resolving new_owner round) = Some (new_owner, round)"
| "pending _ = None"

fun name_resolving :: "phase \<Rightarrow> u64 \<Rightarrow> (account_id \<times> u64) option" where
  "name_resolving (NameResolving new_owner round requested_at) at_round =
     (if round = at_round then Some (new_owner, requested_at) else None)"
| "name_resolving _ _ = None"

fun name_pending :: "phase \<Rightarrow> (account_id \<times> u64 \<times> u64) option" where
  "name_pending (NameRequested new_owner round requested_at) = Some (new_owner, round, requested_at)"
| "name_pending _ = None"

fun resolving_owner :: "phase \<Rightarrow> u64 \<Rightarrow> public_key option" where
  "resolving_owner (Resolving new_owner resolving_round) round =
     (if resolving_round = round then Some new_owner else None)"
| "resolving_owner _ _ = None"

record account =
  ac_policy :: policy
  ac_round :: u64
  ac_phase :: phase

record mpc_recovery =
  m_state_version :: u16
  m_owner :: account_id
  m_installer :: account_id
  m_signer :: account_id
  m_transfer_authority :: account_id
  m_watchers :: "public_key list"
  m_threshold :: u32
  m_accounts :: "account_id \<rightharpoonup> account"
  m_round_floor :: "account_id \<rightharpoonup> u64"
  m_approved_code_hash :: "crypto_hash option"
  m_approved_at :: "u64 option"
  m_registry :: "account_id option"
  m_armed :: "account_id \<rightharpoonup> armed_policy"
  m_upgrade_proven :: bool
  m_pending_owner :: "account_id option"
  m_pending_owner_at :: "u64 option"

record mpc_recovery_v1 =
  m1_state_version :: u16
  m1_owner :: account_id
  m1_installer :: account_id
  m1_signer :: account_id
  m1_transfer_authority :: account_id
  m1_watchers :: "public_key list"
  m1_threshold :: u32
  m1_accounts :: "account_id \<rightharpoonup> account"
  m1_round_floor :: "account_id \<rightharpoonup> u64"
  m1_approved_code_hash :: "crypto_hash option"
  m1_approved_at :: "u64 option"
  m1_registry :: "account_id option"
  m1_armed :: "account_id \<rightharpoonup> armed_policy"
  m1_upgrade_proven :: bool

datatype verdict = Approve | Cancel

record recovery_result =
  rr_signed_tx_hash :: string
  rr_mpc_signature :: bytes

datatype recovery_error =
    M_ONLY_OWNER | M_OWNER_IS_SELF | M_ONLY_INSTALLER | M_ONLY_OWNER_REINSTALL | M_OWNER_UNCHANGED
  | M_NO_OWNER_ROTATION_PENDING | M_ONLY_OWNER_OR_PENDING_OWNER | M_ONLY_TRANSFER_AUTHORITY
  | M_NO_STATE | M_BAD_THRESHOLD | M_NO_POLICY | M_NOT_IDLE | M_COOLING_DOWN | M_NOT_REQUESTED
  | M_NOT_APPROVED | M_NOT_ACTIVE | M_STALE_ROUND | M_ROUND_EXHAUSTED | M_BAD_ATTESTATION
  | M_TIMELOCK | M_NO_QUORUM | M_NO_REGISTRY | M_REGISTRY_IS_SELF | M_QUORUM_EXPIRED
  | M_BAD_SIGNATURE_LEN | M_TIMELOCK_TOO_SHORT | M_TIMELOCK_TOO_LONG | M_DUPLICATE_WATCHER
  | M_TOO_MANY_WATCHERS | M_MPC_NOT_ED25519 | M_WATCHER_NOT_ED25519 | M_ATTESTATION_NOT_ED25519
  | M_REQUIRES_ONE_YOCTO | M_EMPTY_CODE | M_NO_APPROVED_HASH | M_HASH_MISMATCH
  | M_APPROVAL_TOO_YOUNG | M_THRESHOLD_TOO_LOW | M_NAME_NOT_REQUESTED | M_DESTINATION_CHANGED
  | M_TIMELOCK_ACTIVE | M_INVALID_LEASED_ACCOUNT | M_ONLY_INSTALLER_OR_HOLDER | M_NOT_ARMED
  | M_ARMED_KEY_MISMATCH | M_ARMED_TIMELOCK_MISMATCH | M_STATE_VERSION_UNKNOWN
  | M_UPGRADE_NOT_PROVEN | M_ARITHMETIC_OVERFLOW | M_AlreadyInitialized | M_PrivateMethod | M_NotPayable

datatype recovery_event =
    MPolicyInstalled account_id u32 public_key public_key
  | MRequested account_id u64 public_key
  | MApproved account_id u64
  | MCanceled account_id u64
  | MNativeSignatureProduced account_id u64
  | MFinalized account_id u64
  | MAborted account_id u64 bool
  | MInstallerChanged account_id
  | MOwnerRotationApproved account_id account_id
  | MOwnerRotationCancelled account_id
  | MOwnerRotated account_id account_id
  | MPolicyReset account_id
  | MPolicyResetDeferred account_id u64
  | MUpgradeApproved crypto_hash account_id
  | MUpgraded
  | MSealed public_key account_id
  | MSealFailed public_key account_id
  | MWatchersChanged u32 u32
  | MRegistryChanged account_id
  | MPolicyInstallArmed account_id public_key u32
  | MPolicyInstallDisarmed account_id
  | MNameRecoveryRequested account_id string account_id u64
  | MNameRecoveryApproved account_id string account_id

datatype recovery_callback =
    After_seal_m public_key account_id
  | On_name_recovered account_id u64
  | On_signed account_id u64 string

text \<open>The promises: the registry's rotation, the MPC's signature on a hash for a derivation path,
  the deployment of new code and the removal of a key.\<close>

datatype recovery_remote =
    RecoverSubAccount account_id account_id string account_id account_id
  | MpcSign account_id string string u64
  | MDeployAndMigrate bytes
  | MDeleteKey public_key

datatype recovery_out =
    MEmit recovery_event
  | MCall recovery_remote u128 "recovery_callback option"

datatype recovery_ret = MUnit | MPromise | MBool bool | MResult "recovery_result option"

type_synonym recovery_res = "recovery_error + (mpc_recovery \<times> recovery_out list \<times> recovery_ret)"

text \<open>What belongs to the SDK and the runtime: the account id parser, the hash, the signature
  check and the borsh decoders of the two layouts.\<close>

record recovery_lib =
  ml_crypto :: crypto_lib
  ml_parse :: "string \<Rightarrow> account_id option"
  ml_sha256 :: "bytes \<Rightarrow> crypto_hash"
  ml_decode :: "bytes \<Rightarrow> mpc_recovery option"
  ml_decode_v1 :: "bytes \<Rightarrow> mpc_recovery_v1 option"

section \<open>Guards and helpers\<close>

definition assert_owner_m :: "ctx \<Rightarrow> mpc_recovery \<Rightarrow> recovery_error + unit" where
  "assert_owner_m c m = require (predecessor_account_id c = m_owner m) M_ONLY_OWNER (Inr ())"

definition assert_one_yocto_m :: "ctx \<Rightarrow> recovery_error + unit" where
  "assert_one_yocto_m c = require (attached_deposit c = 1) M_REQUIRES_ONE_YOCTO (Inr ())"

definition is_installer :: "ctx \<Rightarrow> mpc_recovery \<Rightarrow> bool" where
  "is_installer c m \<longleftrightarrow> predecessor_account_id c = m_installer m \<or> predecessor_account_id c = m_owner m"

definition assert_private_m :: "ctx \<Rightarrow> recovery_error + unit" where
  "assert_private_m c =
     require (is_private_call c) M_PrivateMethod (require (no_deposit c) M_NotPayable (Inr ()))"

definition assert_not_payable_m :: "ctx \<Rightarrow> recovery_error + unit" where
  "assert_not_payable_m c = require (no_deposit c) M_NotPayable (Inr ())"

definition native_path :: "account_id \<Rightarrow> string" where
  "native_path account = ''hos-recovery/'' @ account"

definition leased_account_id :: "recovery_lib \<Rightarrow> account_id \<Rightarrow> string \<Rightarrow> recovery_error + account_id" where
  "leased_account_id lib tla_id name =
     ok_or (ml_parse lib (name @ ''.'' @ tla_id)) M_INVALID_LEASED_ACCOUNT Inr"

definition into_sig :: "bytes \<Rightarrow> recovery_error + signature" where
  "into_sig bs = require (length bs = 64) M_BAD_SIGNATURE_LEN (Inr bs)"

text \<open>The signatures of 64 bytes; the others are dropped.\<close>

definition usable_sigs :: "(public_key \<times> bytes) list \<Rightarrow> (public_key \<times> signature) list" where
  "usable_sigs signatures = filter (\<lambda>(_, sig). length sig = 64) signatures"

fun check_watchers :: "public_key list \<Rightarrow> public_key set \<Rightarrow> recovery_error + unit" where
  "check_watchers [] seen = Inr ()"
| "check_watchers (watcher # rest) seen =
     require (is_ed25519 watcher) M_WATCHER_NOT_ED25519 (
     require (watcher \<notin> seen) M_DUPLICATE_WATCHER (
     check_watchers rest (insert watcher seen)))"

definition set_phase :: "account_id \<Rightarrow> account \<Rightarrow> phase \<Rightarrow> mpc_recovery \<Rightarrow> mpc_recovery" where
  "set_phase a entry p m = m\<lparr>m_accounts := (m_accounts m)(a \<mapsto> entry\<lparr>ac_phase := p\<rparr>)\<rparr>"

section \<open>Initialisation, migration, upgrades\<close>

definition recovery_new ::
    "ctx \<Rightarrow> bool \<Rightarrow> account_id \<Rightarrow> account_id \<Rightarrow> account_id \<Rightarrow> public_key list \<Rightarrow> u32
     \<Rightarrow> recovery_error + mpc_recovery" where
  "recovery_new c initialized owner signer transfer_authority watchers threshold =
     require (no_deposit c) M_NotPayable (
     require (\<not> initialized) M_AlreadyInitialized (
     require (MIN_WATCHER_THRESHOLD \<le> threshold) M_THRESHOLD_TOO_LOW (
     require (unat threshold \<le> length watchers) M_BAD_THRESHOLD (
     require ((of_nat (length watchers) :: u32) \<le> MAX_WATCHERS) M_TOO_MANY_WATCHERS (
     require (owner \<noteq> current_account_id c) M_OWNER_IS_SELF (
     rbind (check_watchers watchers {}) (\<lambda>_.
     Inr \<lparr>m_state_version = MPC_STATE_VERSION, m_owner = owner, m_installer = owner,
          m_signer = signer, m_transfer_authority = transfer_authority, m_watchers = watchers,
          m_threshold = threshold, m_accounts = Map.empty, m_round_floor = Map.empty,
          m_approved_code_hash = None, m_approved_at = None, m_registry = None,
          m_armed = Map.empty, m_upgrade_proven = False, m_pending_owner = None,
          m_pending_owner_at = None\<rparr>)))))))"

definition from_v1_m :: "mpc_recovery_v1 \<Rightarrow> mpc_recovery" where
  "from_v1_m old =
     \<lparr>m_state_version = MPC_STATE_VERSION, m_owner = m1_owner old, m_installer = m1_installer old,
      m_signer = m1_signer old, m_transfer_authority = m1_transfer_authority old,
      m_watchers = m1_watchers old, m_threshold = m1_threshold old, m_accounts = m1_accounts old,
      m_round_floor = m1_round_floor old, m_approved_code_hash = m1_approved_code_hash old,
      m_approved_at = m1_approved_at old, m_registry = m1_registry old, m_armed = m1_armed old,
      m_upgrade_proven = m1_upgrade_proven old, m_pending_owner = None, m_pending_owner_at = None\<rparr>"

definition stored_recovery :: "recovery_lib \<Rightarrow> bytes option \<Rightarrow> recovery_error + mpc_recovery" where
  "stored_recovery lib raw =
     (case state_version_of raw of
        None \<Rightarrow> Inl M_NO_STATE
      | Some v \<Rightarrow>
          if v = MPC_STATE_VERSION then ok_or (try_state_read (ml_decode lib) raw) M_NO_STATE Inr
          else if v = 1 then
            ok_or (map_option from_v1_m (try_state_read (ml_decode_v1 lib) raw)) M_NO_STATE Inr
          else Inl M_STATE_VERSION_UNKNOWN)"

definition migrate_m :: "recovery_lib \<Rightarrow> ctx \<Rightarrow> bytes option \<Rightarrow> recovery_res" where
  "migrate_m lib c raw =
     rbind (assert_private_m c) (\<lambda>_.
     rbind (stored_recovery lib raw) (\<lambda>current.
     Inr (current\<lparr>m_upgrade_proven := True\<rparr>, [MEmit MUpgraded], MUnit)))"

definition seal_m :: "ctx \<Rightarrow> public_key \<Rightarrow> mpc_recovery \<Rightarrow> recovery_res" where
  "seal_m c public_key m =
     rbind (assert_one_yocto_m c) (\<lambda>_.
     rbind (assert_owner_m c m) (\<lambda>_.
     require (m_upgrade_proven m) M_UPGRADE_NOT_PROVEN (
     Inr (m, [MCall (MDeleteKey public_key) 0
                (Some (After_seal_m public_key (predecessor_account_id c)))], MPromise))))"

definition after_seal_m :: "ctx \<Rightarrow> public_key \<Rightarrow> account_id \<Rightarrow> mpc_recovery \<Rightarrow> recovery_res" where
  "after_seal_m c public_key b m =
     rbind (assert_private_m c) (\<lambda>_.
     if \<not> is_promise_success c then Inr (m, [MEmit (MSealFailed public_key b)], MBool False)
     else Inr (m, [MEmit (MSealed public_key b)], MBool True))"

definition approve_upgrade_m :: "ctx \<Rightarrow> crypto_hash \<Rightarrow> mpc_recovery \<Rightarrow> recovery_res" where
  "approve_upgrade_m c code_hash m =
     rbind (assert_one_yocto_m c) (\<lambda>_.
     rbind (assert_owner_m c m) (\<lambda>_.
     Inr (m\<lparr>m_approved_code_hash := Some code_hash, m_approved_at := Some (block_timestamp c)\<rparr>,
          [MEmit (MUpgradeApproved code_hash (predecessor_account_id c))], MUnit)))"

definition upgrade_m :: "recovery_lib \<Rightarrow> ctx \<Rightarrow> bytes \<Rightarrow> mpc_recovery \<Rightarrow> recovery_res" where
  "upgrade_m lib c code m =
     rbind (assert_one_yocto_m c) (\<lambda>_.
     rbind (assert_owner_m c m) (\<lambda>_.
     require (code \<noteq> []) M_EMPTY_CODE (
     ok_or (m_approved_code_hash m) M_NO_APPROVED_HASH (\<lambda>approved.
     require (ml_sha256 lib code = approved) M_HASH_MISMATCH (
     ok_or (m_approved_at m) M_NO_APPROVED_HASH (\<lambda>approved_at.
     require (sat_add approved_at MPC_UPGRADE_DELAY_NS \<le> block_timestamp c) M_APPROVAL_TOO_YOUNG (
     Inr (m\<lparr>m_approved_code_hash := None, m_approved_at := None\<rparr>,
          [MCall (MDeployAndMigrate code) 0 None], MPromise))))))))"

section \<open>Configuration\<close>

definition set_watchers :: "ctx \<Rightarrow> public_key list \<Rightarrow> u32 \<Rightarrow> mpc_recovery \<Rightarrow> recovery_res" where
  "set_watchers c watchers threshold m =
     rbind (assert_one_yocto_m c) (\<lambda>_.
     rbind (assert_owner_m c m) (\<lambda>_.
     require (MIN_WATCHER_THRESHOLD \<le> threshold) M_THRESHOLD_TOO_LOW (
     require (unat threshold \<le> length watchers) M_BAD_THRESHOLD (
     require ((of_nat (length watchers) :: u32) \<le> MAX_WATCHERS) M_TOO_MANY_WATCHERS (
     rbind (check_watchers watchers {}) (\<lambda>_.
     Inr (m\<lparr>m_watchers := watchers, m_threshold := threshold\<rparr>,
          [MEmit (MWatchersChanged threshold (of_nat (length watchers)))], MUnit)))))))"

definition set_installer :: "ctx \<Rightarrow> account_id \<Rightarrow> mpc_recovery \<Rightarrow> recovery_res" where
  "set_installer c installer m =
     rbind (assert_one_yocto_m c) (\<lambda>_.
     rbind (assert_owner_m c m) (\<lambda>_.
     Inr (m\<lparr>m_installer := installer\<rparr>, [MEmit (MInstallerChanged installer)], MUnit)))"

definition approve_owner_rotation :: "ctx \<Rightarrow> account_id \<Rightarrow> mpc_recovery \<Rightarrow> recovery_res" where
  "approve_owner_rotation c new_owner m =
     rbind (assert_one_yocto_m c) (\<lambda>_.
     rbind (assert_owner_m c m) (\<lambda>_.
     require (new_owner \<noteq> m_owner m) M_OWNER_UNCHANGED (
     require (new_owner \<noteq> current_account_id c) M_OWNER_IS_SELF (
     Inr (m\<lparr>m_pending_owner := Some new_owner, m_pending_owner_at := Some (block_timestamp c)\<rparr>,
          [MEmit (MOwnerRotationApproved new_owner (predecessor_account_id c))], MUnit)))))"

definition cancel_owner_rotation :: "ctx \<Rightarrow> mpc_recovery \<Rightarrow> recovery_res" where
  "cancel_owner_rotation c m =
     rbind (assert_one_yocto_m c) (\<lambda>_.
     rbind (assert_owner_m c m) (\<lambda>_.
     require (m_pending_owner m \<noteq> None) M_NO_OWNER_ROTATION_PENDING (
     Inr (m\<lparr>m_pending_owner := None, m_pending_owner_at := None\<rparr>,
          [MEmit (MOwnerRotationCancelled (predecessor_account_id c))], MUnit))))"

definition commit_owner_rotation :: "ctx \<Rightarrow> mpc_recovery \<Rightarrow> recovery_res" where
  "commit_owner_rotation c m =
     rbind (assert_one_yocto_m c) (\<lambda>_.
     ok_or (m_pending_owner m) M_NO_OWNER_ROTATION_PENDING (\<lambda>pending.
     let caller = predecessor_account_id c in
     require (caller = pending \<or> caller = m_owner m) M_ONLY_OWNER_OR_PENDING_OWNER (
     Inr (m\<lparr>m_owner := pending, m_pending_owner := None, m_pending_owner_at := None\<rparr>,
          [MEmit (MOwnerRotated pending caller)], MUnit))))"

definition set_registry :: "ctx \<Rightarrow> account_id \<Rightarrow> mpc_recovery \<Rightarrow> recovery_res" where
  "set_registry c registry m =
     rbind (assert_one_yocto_m c) (\<lambda>_.
     rbind (assert_owner_m c m) (\<lambda>_.
     require (registry \<noteq> current_account_id c) M_REGISTRY_IS_SELF (
     Inr (m\<lparr>m_registry := Some registry\<rparr>, [MEmit (MRegistryChanged registry)], MUnit))))"

section \<open>Recovery of a leased name\<close>

definition request_name_recovery ::
    "recovery_lib \<Rightarrow> ctx \<Rightarrow> account_id \<Rightarrow> string \<Rightarrow> account_id \<Rightarrow> bytes \<Rightarrow> mpc_recovery \<Rightarrow> recovery_res" where
  "request_name_recovery lib c tla_id name new_owner attestation m =
     rbind (assert_not_payable_m c) (\<lambda>_.
     rbind (leased_account_id lib tla_id name) (\<lambda>acc.
     ok_or (m_accounts m acc) M_NO_POLICY (\<lambda>entry.
     require (settled (ac_phase entry)) M_NOT_IDLE (
     require (accepts_request (ac_phase entry) (block_timestamp c)) M_COOLING_DOWN (
     rbind (into_sig attestation) (\<lambda>sig.
     require (verify (ml_crypto lib)
                (name_request_message (current_account_id c) tla_id name new_owner (ac_round entry))
                sig (po_attestation_key (ac_policy entry))) M_BAD_ATTESTATION (
     ok_or (checked_add (ac_round entry) 1) M_ROUND_EXHAUSTED (\<lambda>next_round.
     Inr (m\<lparr>m_accounts := (m_accounts m)(acc \<mapsto>
              entry\<lparr>ac_phase := NameRequested new_owner (ac_round entry) (block_timestamp c),
                    ac_round := next_round\<rparr>)\<rparr>,
          [MEmit (MNameRecoveryRequested tla_id name new_owner (ac_round entry))], MUnit)))))))))"

definition recover_name ::
    "recovery_lib \<Rightarrow> ctx \<Rightarrow> account_id \<Rightarrow> string \<Rightarrow> account_id \<Rightarrow> account_id \<Rightarrow> u64
     \<Rightarrow> (public_key \<times> bytes) list \<Rightarrow> mpc_recovery \<Rightarrow> recovery_res" where
  "recover_name lib c tla_id name new_owner expected_owner deadline_ns signatures m =
     rbind (assert_one_yocto_m c) (\<lambda>_.
     ok_or (m_registry m) M_NO_REGISTRY (\<lambda>registry.
     require (block_timestamp c < deadline_ns) M_QUORUM_EXPIRED (
     rbind (leased_account_id lib tla_id name) (\<lambda>acc.
     ok_or (m_accounts m acc) M_NO_POLICY (\<lambda>entry.
     ok_or (checked_mul (ucast (po_timelock_secs (ac_policy entry))) 1000000000) M_TIMELOCK_TOO_LONG
       (\<lambda>timelock_ns.
     ok_or (name_pending (ac_phase entry)) M_NAME_NOT_REQUESTED (\<lambda>(pending_owner, round, requested_at).
     require (pending_owner = new_owner) M_DESTINATION_CHANGED (
     ok_or (checked_add requested_at timelock_ns) M_TIMELOCK_TOO_LONG (\<lambda>open_at.
     require (open_at \<le> block_timestamp c) M_TIMELOCK_ACTIVE (
     require (verify_quorum (ml_crypto lib)
                (name_recovery_message (current_account_id c) tla_id name new_owner expected_owner
                   deadline_ns round)
                (usable_sigs signatures) (m_watchers m) (m_threshold m)) M_NO_QUORUM (
     Inr (set_phase acc entry (NameResolving new_owner round requested_at) m,
          [MEmit (MNameRecoveryApproved tla_id name new_owner),
           MCall (RecoverSubAccount registry tla_id name new_owner expected_owner) 1
             (Some (On_name_recovered acc round))], MPromise))))))))))))"

definition settle_name_resolving ::
    "account_id \<Rightarrow> u64 \<Rightarrow> bool \<Rightarrow> mpc_recovery \<Rightarrow> bool \<times> mpc_recovery" where
  "settle_name_resolving acc round done m =
     (case m_accounts m acc of
        None \<Rightarrow> (False, m)
      | Some entry \<Rightarrow>
          (case name_resolving (ac_phase entry) round of
             None \<Rightarrow> (False, m)
           | Some (new_owner, requested_at) \<Rightarrow>
               (True, set_phase acc entry
                  (if done then Idle else NameRequested new_owner round requested_at) m)))"

definition on_name_recovered ::
    "ctx \<Rightarrow> account_id \<Rightarrow> u64 \<Rightarrow> promise_error + unit \<Rightarrow> mpc_recovery \<Rightarrow> recovery_res" where
  "on_name_recovered c acc round outcome m =
     rbind (assert_private_m c) (\<lambda>_.
     Inr (snd (settle_name_resolving acc round (is_ok outcome) m), [], MBool (is_ok outcome)))"

section \<open>Policies\<close>

definition arm_policy_install :: "ctx \<Rightarrow> public_key \<Rightarrow> u32 \<Rightarrow> mpc_recovery \<Rightarrow> recovery_res" where
  "arm_policy_install c attestation_key timelock_secs m =
     (let acc = predecessor_account_id c in
     rbind (assert_one_yocto_m c) (\<lambda>_.
     require (is_ed25519 attestation_key) M_ATTESTATION_NOT_ED25519 (
     require (MIN_TIMELOCK_SECS \<le> timelock_secs) M_TIMELOCK_TOO_SHORT (
     require (timelock_secs \<le> MAX_TIMELOCK_SECS) M_TIMELOCK_TOO_LONG (
     Inr (m\<lparr>m_armed := (m_armed m)(acc \<mapsto>
              \<lparr>ap_attestation_key = attestation_key, ap_timelock_secs = timelock_secs\<rparr>)\<rparr>,
          [MEmit (MPolicyInstallArmed acc attestation_key timelock_secs)], MUnit))))))"

definition disarm_policy_install :: "ctx \<Rightarrow> mpc_recovery \<Rightarrow> recovery_res" where
  "disarm_policy_install c m =
     (let acc = predecessor_account_id c in
     rbind (assert_one_yocto_m c) (\<lambda>_.
     require (m_armed m acc \<noteq> None) M_NOT_ARMED (
     Inr (m\<lparr>m_armed := (m_armed m)(acc := None)\<rparr>,
          [MEmit (MPolicyInstallDisarmed acc)], MUnit))))"

text \<open>Where a policy starts: where the account's stood, or at the floor its last policy left, once
  the account has armed exactly this install.\<close>

definition install_origin ::
    "ctx \<Rightarrow> account_id \<Rightarrow> public_key \<Rightarrow> u32 \<Rightarrow> mpc_recovery
     \<Rightarrow> recovery_error + (u64 \<times> phase \<times> mpc_recovery)" where
  "install_origin c acc attestation_key timelock_secs m =
     (case m_accounts m acc of
        Some existing \<Rightarrow>
          require (settled (ac_phase existing)) M_NOT_IDLE (
          require (predecessor_account_id c = m_owner m) M_ONLY_OWNER_REINSTALL (
          Inr (ac_round existing, ac_phase existing, m)))
      | None \<Rightarrow>
          ok_or (m_armed m acc) M_NOT_ARMED (\<lambda>armed.
          require (ap_attestation_key armed = attestation_key) M_ARMED_KEY_MISMATCH (
          require (ap_timelock_secs armed = timelock_secs) M_ARMED_TIMELOCK_MISMATCH (
          Inr ((case m_round_floor m acc of None \<Rightarrow> 0 | Some f \<Rightarrow> f), Idle,
               m\<lparr>m_armed := (m_armed m)(acc := None)\<rparr>)))))"

definition install_policy ::
    "ctx \<Rightarrow> account_id \<Rightarrow> public_key \<Rightarrow> public_key \<Rightarrow> u32 \<Rightarrow> mpc_recovery \<Rightarrow> recovery_res" where
  "install_policy c acc mpc_public_key attestation_key timelock_secs m =
     rbind (assert_not_payable_m c) (\<lambda>_.
     require (is_installer c m) M_ONLY_INSTALLER (
     require (MIN_TIMELOCK_SECS \<le> timelock_secs) M_TIMELOCK_TOO_SHORT (
     require (timelock_secs \<le> MAX_TIMELOCK_SECS) M_TIMELOCK_TOO_LONG (
     require (is_ed25519 attestation_key) M_ATTESTATION_NOT_ED25519 (
     require (is_ed25519 mpc_public_key) M_MPC_NOT_ED25519 (
     rbind (install_origin c acc attestation_key timelock_secs m) (\<lambda>(round, phase, m').
     Inr (m'\<lparr>m_accounts := (m_accounts m')(acc \<mapsto>
              \<lparr>ac_policy = \<lparr>po_mpc_public_key = mpc_public_key, po_attestation_key = attestation_key,
                             po_timelock_secs = timelock_secs\<rparr>,
               ac_round = round, ac_phase = phase\<rparr>)\<rparr>,
          [MEmit (MPolicyInstalled acc timelock_secs mpc_public_key attestation_key)], MUnit))))))))"

section \<open>Recovery of an ordinary account\<close>

definition request_recovery ::
    "recovery_lib \<Rightarrow> ctx \<Rightarrow> account_id \<Rightarrow> public_key \<Rightarrow> u64 \<Rightarrow> bytes \<Rightarrow> mpc_recovery \<Rightarrow> recovery_res" where
  "request_recovery lib c acc new_owner round attestation m =
     rbind (assert_not_payable_m c) (\<lambda>_.
     ok_or (m_accounts m acc) M_NO_POLICY (\<lambda>entry.
     require (settled (ac_phase entry)) M_NOT_IDLE (
     require (accepts_request (ac_phase entry) (block_timestamp c)) M_COOLING_DOWN (
     require (round = ac_round entry) M_STALE_ROUND (
     rbind (into_sig attestation) (\<lambda>sig.
     require (verify (ml_crypto lib)
                (request_message (current_account_id c) acc new_owner (ac_round entry))
                sig (po_attestation_key (ac_policy entry))) M_BAD_ATTESTATION (
     ok_or (checked_add (ac_round entry) 1) M_ROUND_EXHAUSTED (\<lambda>next_round.
     Inr (m\<lparr>m_accounts := (m_accounts m)(acc \<mapsto>
              entry\<lparr>ac_phase := Requested new_owner (ac_round entry) (block_timestamp c),
                    ac_round := next_round\<rparr>)\<rparr>,
          [MEmit (MRequested acc (ac_round entry) new_owner)], MUnit)))))))))"

definition submit_verdict ::
    "recovery_lib \<Rightarrow> ctx \<Rightarrow> account_id \<Rightarrow> verdict \<Rightarrow> (public_key \<times> bytes) list \<Rightarrow> mpc_recovery
     \<Rightarrow> recovery_res" where
  "submit_verdict lib c acc verdict signatures m =
     rbind (assert_not_payable_m c) (\<lambda>_.
     ok_or (m_accounts m acc) M_NO_POLICY (\<lambda>entry.
     case ac_phase entry of
       Requested new_owner round requested_at \<Rightarrow>
         ok_or (checked_mul (ucast (po_timelock_secs (ac_policy entry))) NS_PER_SEC) M_ARITHMETIC_OVERFLOW
           (\<lambda>timelock_ns.
         ok_or (checked_add requested_at timelock_ns) M_ARITHMETIC_OVERFLOW (\<lambda>open_at.
         require (open_at \<le> block_timestamp c) M_TIMELOCK (
         require (verify_quorum (ml_crypto lib)
                    (verdict_message (current_account_id c) acc new_owner round (verdict = Approve))
                    (usable_sigs signatures) (m_watchers m) (m_threshold m)) M_NO_QUORUM (
         if verdict \<noteq> Approve
         then Inr (set_phase acc entry Idle m, [MEmit (MCanceled acc round)], MUnit)
         else Inr (set_phase acc entry (Approved new_owner round) m, [MEmit (MApproved acc round)], MUnit)))))
     | _ \<Rightarrow> Inl M_NOT_REQUESTED))"

definition sign_add_key ::
    "recovery_lib \<Rightarrow> account_id \<Rightarrow> public_key \<Rightarrow> u64 \<Rightarrow> crypto_hash \<Rightarrow> public_key \<Rightarrow> u64
     \<Rightarrow> mpc_recovery \<Rightarrow> recovery_out" where
  "sign_add_key lib acc mpc_public_key nonce block_hash new_owner round m =
     (let unsigned_tx = add_key_tx acc mpc_public_key nonce block_hash new_owner;
          hash_hex = to_hex (ml_sha256 lib unsigned_tx) in
      MCall (MpcSign (m_signer m) (native_path acc) hash_hex ED25519_DOMAIN) 1
        (Some (On_signed acc round hash_hex)))"

definition finalize_recovery ::
    "recovery_lib \<Rightarrow> ctx \<Rightarrow> account_id \<Rightarrow> u64 \<Rightarrow> crypto_hash \<Rightarrow> mpc_recovery \<Rightarrow> recovery_res" where
  "finalize_recovery lib c acc nonce block_hash m =
     rbind (assert_not_payable_m c) (\<lambda>_.
     ok_or (m_accounts m acc) M_NO_POLICY (\<lambda>entry.
     case ac_phase entry of
       Approved new_owner round \<Rightarrow>
         require (is_installer c m) M_ONLY_INSTALLER (
         Inr (set_phase acc entry (Resolving new_owner round) m,
              [sign_add_key lib acc (po_mpc_public_key (ac_policy entry)) nonce block_hash new_owner round m],
              MPromise))
     | _ \<Rightarrow> Inl M_NOT_APPROVED))"

fun abortable_round :: "phase \<Rightarrow> u64 option" where
  "abortable_round (Requested _ round _) = Some round"
| "abortable_round (Approved _ round) = Some round"
| "abortable_round (NameRequested _ round _) = Some round"
| "abortable_round _ = None"

definition abort_recovery :: "ctx \<Rightarrow> account_id \<Rightarrow> mpc_recovery \<Rightarrow> recovery_res" where
  "abort_recovery c acc m =
     (let by_holder = predecessor_account_id c = acc in
     rbind (assert_not_payable_m c) (\<lambda>_.
     require (is_installer c m \<or> by_holder) M_ONLY_INSTALLER_OR_HOLDER (
     ok_or (m_accounts m acc) M_NO_POLICY (\<lambda>entry.
     ok_or (abortable_round (ac_phase entry)) M_NOT_ACTIVE (\<lambda>round.
     Inr (set_phase acc entry
            (Cooldown (sat_add (block_timestamp c)
              (if by_holder then HOLDER_ABORT_COOLDOWN_NS else ABORT_COOLDOWN_NS))) m,
          [MEmit (MAborted acc round by_holder)], MUnit))))))"

definition settle_resolving ::
    "account_id \<Rightarrow> u64 \<Rightarrow> bool \<Rightarrow> mpc_recovery \<Rightarrow> bool \<times> mpc_recovery" where
  "settle_resolving acc round done m =
     (case m_accounts m acc of
        None \<Rightarrow> (False, m)
      | Some entry \<Rightarrow>
          (case resolving_owner (ac_phase entry) round of
             None \<Rightarrow> (False, m)
           | Some new_owner \<Rightarrow>
               (True, set_phase acc entry (if done then Idle else Approved new_owner round) m)))"

definition on_signed ::
    "ctx \<Rightarrow> account_id \<Rightarrow> u64 \<Rightarrow> string \<Rightarrow> promise_error + bytes \<Rightarrow> mpc_recovery \<Rightarrow> recovery_res" where
  "on_signed c acc round signed_tx_hash mpc_signature m =
     rbind (assert_private_m c) (\<lambda>_.
     let (reverted, m') = settle_resolving acc round False m in
     case mpc_signature of
       Inr sig \<Rightarrow>
         if reverted
         then Inr (m', [MEmit (MNativeSignatureProduced acc round)],
                   MResult (Some \<lparr>rr_signed_tx_hash = signed_tx_hash, rr_mpc_signature = sig\<rparr>))
         else Inr (m', [], MResult None)
     | Inl _ \<Rightarrow> Inr (m', [], MResult None))"

fun approved_round :: "phase \<Rightarrow> u64 option" where
  "approved_round (Approved _ round) = Some round"
| "approved_round _ = None"

definition claim_native_finalized :: "ctx \<Rightarrow> account_id \<Rightarrow> u64 \<Rightarrow> mpc_recovery \<Rightarrow> recovery_res" where
  "claim_native_finalized c acc round m =
     rbind (assert_not_payable_m c) (\<lambda>_.
     require (is_installer c m) M_ONLY_INSTALLER (
     ok_or (m_accounts m acc) M_NO_POLICY (\<lambda>entry.
     require (approved_round (ac_phase entry) = Some round) M_NOT_APPROVED (
     Inr (set_phase acc entry Idle m, [MEmit (MFinalized acc round)], MUnit)))))"

definition claim_name_finalized :: "ctx \<Rightarrow> account_id \<Rightarrow> u64 \<Rightarrow> bool \<Rightarrow> mpc_recovery \<Rightarrow> recovery_res" where
  "claim_name_finalized c acc round done m =
     rbind (assert_not_payable_m c) (\<lambda>_.
     require (is_installer c m) M_ONLY_INSTALLER (
     let (was_resolving, m') = settle_name_resolving acc round done m in
     require was_resolving M_NOT_ACTIVE (
     Inr (m', [MEmit (MFinalized acc round)], MUnit))))"

section \<open>The extension reports a change of owner\<close>

fun is_resolving :: "phase \<Rightarrow> bool" where
  "is_resolving (Resolving _ _) = True"
| "is_resolving _ = False"

definition on_wallet_transferred :: "ctx \<Rightarrow> account_id \<Rightarrow> mpc_recovery \<Rightarrow> recovery_res" where
  "on_wallet_transferred c wallet m =
     rbind (assert_not_payable_m c) (\<lambda>_.
     require (predecessor_account_id c = m_transfer_authority m) M_ONLY_TRANSFER_AUTHORITY (
     case m_accounts m wallet of
       None \<Rightarrow> Inr (m, [], MBool True)
     | Some entry \<Rightarrow>
         if is_resolving (ac_phase entry)
         then Inr (m, [MEmit (MPolicyResetDeferred wallet (ac_round entry))], MBool False)
         else Inr (m\<lparr>m_round_floor := (m_round_floor m)(wallet \<mapsto> ac_round entry),
                     m_accounts := (m_accounts m)(wallet := None)\<rparr>,
                   [MEmit (MPolicyReset wallet)], MBool True)))"

section \<open>Views\<close>

definition armed_policy_install :: "account_id \<Rightarrow> mpc_recovery \<Rightarrow> (public_key \<times> u32) option" where
  "armed_policy_install acc m =
     map_option (\<lambda>armed. (ap_attestation_key armed, ap_timelock_secs armed)) (m_armed m acc)"

definition round_of :: "account_id \<Rightarrow> mpc_recovery \<Rightarrow> u64 option" where
  "round_of acc m = map_option ac_round (m_accounts m acc)"

definition round_floor_of :: "account_id \<Rightarrow> mpc_recovery \<Rightarrow> u64" where
  "round_floor_of acc m = (case m_round_floor m acc of None \<Rightarrow> 0 | Some f \<Rightarrow> f)"

definition timelock_of :: "account_id \<Rightarrow> mpc_recovery \<Rightarrow> u32 option" where
  "timelock_of acc m = map_option (\<lambda>a. po_timelock_secs (ac_policy a)) (m_accounts m acc)"

definition pending_target :: "account_id \<Rightarrow> mpc_recovery \<Rightarrow> public_key option" where
  "pending_target acc m =
     Option.bind (m_accounts m acc) (\<lambda>a. map_option fst (pending (ac_phase a)))"

definition pending_owner_m :: "mpc_recovery \<Rightarrow> (account_id \<times> u64) option" where
  "pending_owner_m m =
     Option.bind (m_pending_owner m) (\<lambda>a. map_option (Pair a) (m_pending_owner_at m))"

end
