(* ===== verification/Recovery_Machine.thy ===== *)
theory Recovery_Machine
  imports Recovery Near_Env
begin

text \<open>
  The recovery contract as a machine: every call it accepts, the step relation, and the invariant
  of its reachable states: the watchers are distinct keys, at least two of them must agree, every
  policy waits at least a minute and at most thirty days, and rounds never run backwards.
\<close>

section \<open>Calls and steps\<close>

datatype (plugins only:) recovery_call =
    MSeal public_key | MAfterSeal public_key account_id
  | MApproveUpgrade crypto_hash | MUpgrade bytes
  | MSetWatchers "public_key list" u32 | MSetInstaller account_id
  | MApproveOwner account_id | MCancelOwner | MCommitOwner | MSetRegistry account_id
  | MRequestName account_id string account_id bytes
  | MRecoverName account_id string account_id account_id u64 "(public_key \<times> bytes) list"
  | MOnNameRecovered account_id u64 "promise_error + unit"
  | MArm public_key u32 | MDisarm
  | MInstall account_id public_key public_key u32
  | MRequest account_id public_key u64 bytes
  | MVerdict account_id verdict "(public_key \<times> bytes) list"
  | MFinalize account_id u64 crypto_hash
  | MAbort account_id
  | MOnSigned account_id u64 string "promise_error + bytes"
  | MClaimNative account_id u64 | MClaimName account_id u64 bool
  | MOnTransferred account_id

primrec recovery_exec :: "recovery_lib \<Rightarrow> ctx \<Rightarrow> recovery_call \<Rightarrow> mpc_recovery \<Rightarrow> recovery_res" where
  "recovery_exec lib c (MSeal k) m = seal_m c k m"
| "recovery_exec lib c (MAfterSeal k b) m = after_seal_m c k b m"
| "recovery_exec lib c (MApproveUpgrade h) m = approve_upgrade_m c h m"
| "recovery_exec lib c (MUpgrade code) m = upgrade_m lib c code m"
| "recovery_exec lib c (MSetWatchers ws th) m = set_watchers c ws th m"
| "recovery_exec lib c (MSetInstaller a) m = set_installer c a m"
| "recovery_exec lib c (MApproveOwner a) m = approve_owner_rotation c a m"
| "recovery_exec lib c MCancelOwner m = cancel_owner_rotation c m"
| "recovery_exec lib c MCommitOwner m = commit_owner_rotation c m"
| "recovery_exec lib c (MSetRegistry a) m = set_registry c a m"
| "recovery_exec lib c (MRequestName t n a sig) m = request_name_recovery lib c t n a sig m"
| "recovery_exec lib c (MRecoverName t n a e d sigs) m = recover_name lib c t n a e d sigs m"
| "recovery_exec lib c (MOnNameRecovered a r res) m = on_name_recovered c a r res m"
| "recovery_exec lib c (MArm k t) m = arm_policy_install c k t m"
| "recovery_exec lib c MDisarm m = disarm_policy_install c m"
| "recovery_exec lib c (MInstall a k l t) m = install_policy c a k l t m"
| "recovery_exec lib c (MRequest a k r sig) m = request_recovery lib c a k r sig m"
| "recovery_exec lib c (MVerdict a v sigs) m = submit_verdict lib c a v sigs m"
| "recovery_exec lib c (MFinalize a n h) m = finalize_recovery lib c a n h m"
| "recovery_exec lib c (MAbort a) m = abort_recovery c a m"
| "recovery_exec lib c (MOnSigned a r h sig) m = on_signed c a r h sig m"
| "recovery_exec lib c (MClaimNative a r) m = claim_native_finalized c a r m"
| "recovery_exec lib c (MClaimName a r d) m = claim_name_finalized c a r d m"
| "recovery_exec lib c (MOnTransferred a) m = on_wallet_transferred c a m"

text \<open>The contract runs where a length is a 32-bit word, so no list it is given is longer.\<close>

primrec fits :: "recovery_call \<Rightarrow> bool" where
  "fits (MSeal k) = True"
| "fits (MAfterSeal k b) = True"
| "fits (MApproveUpgrade h) = True"
| "fits (MUpgrade code) = True"
| "fits (MSetWatchers ws th) \<longleftrightarrow> length ws < 2 ^ 32"
| "fits (MSetInstaller a) = True"
| "fits (MApproveOwner a) = True"
| "fits MCancelOwner = True"
| "fits MCommitOwner = True"
| "fits (MSetRegistry a) = True"
| "fits (MRequestName t n a sig) = True"
| "fits (MRecoverName t n a e d sigs) = True"
| "fits (MOnNameRecovered a r res) = True"
| "fits (MArm k t) = True"
| "fits MDisarm = True"
| "fits (MInstall a k l t) = True"
| "fits (MRequest a k r sig) = True"
| "fits (MVerdict a v sigs) = True"
| "fits (MFinalize a n h) = True"
| "fits (MAbort a) = True"
| "fits (MOnSigned a r h sig) = True"
| "fits (MClaimNative a r) = True"
| "fits (MClaimName a r d) = True"
| "fits (MOnTransferred a) = True"

definition recovery_initial :: "account_id \<Rightarrow> u64 \<Rightarrow> mpc_recovery \<Rightarrow> bool" where
  "recovery_initial self t m \<longleftrightarrow>
     (\<exists>c owner signer authority watchers threshold. current_account_id c = self \<and> block_timestamp c = t
        \<and> length watchers < 2 ^ 32
        \<and> recovery_new c False owner signer authority watchers threshold = Inr m)"

inductive recovery_step ::
    "recovery_lib \<Rightarrow> account_id \<Rightarrow> u64 \<Rightarrow> mpc_recovery \<Rightarrow> mpc_recovery \<Rightarrow> bool" for lib self where
  m_call: "current_account_id c = self \<Longrightarrow> fits k \<Longrightarrow> recovery_exec lib c k m = Inr (m', outs, ret)
           \<Longrightarrow> recovery_step lib self (block_timestamp c) m m'"
| m_migrate: "current_account_id c = self \<Longrightarrow> stored_recovery lib raw = Inr m
           \<Longrightarrow> migrate_m lib c raw = Inr (m', outs, ret)
           \<Longrightarrow> recovery_step lib self (block_timestamp c) m m'"

lemmas recovery_defs = seal_m_def after_seal_m_def approve_upgrade_m_def upgrade_m_def
  set_watchers_def set_installer_def approve_owner_rotation_def cancel_owner_rotation_def
  commit_owner_rotation_def set_registry_def request_name_recovery_def recover_name_def
  on_name_recovered_def arm_policy_install_def disarm_policy_install_def install_policy_def
  request_recovery_def submit_verdict_def finalize_recovery_def
  abort_recovery_def on_signed_def claim_native_finalized_def claim_name_finalized_def
  on_wallet_transferred_def

lemma res_all_phase [res_walk]:
  "(p = Idle \<Longrightarrow> res_all P a) \<Longrightarrow> (\<And>k r t. p = Requested k r t \<Longrightarrow> res_all P (b k r t))
   \<Longrightarrow> (\<And>k r. p = Approved k r \<Longrightarrow> res_all P (d k r)) \<Longrightarrow> (\<And>k r. p = Resolving k r \<Longrightarrow> res_all P (e k r))
   \<Longrightarrow> (\<And>k r t. p = NameRequested k r t \<Longrightarrow> res_all P (f k r t))
   \<Longrightarrow> (\<And>k r t. p = NameResolving k r t \<Longrightarrow> res_all P (g k r t))
   \<Longrightarrow> (\<And>u. p = Cooldown u \<Longrightarrow> res_all P (h u))
   \<Longrightarrow> res_all P (case p of Idle \<Rightarrow> a | Requested k r t \<Rightarrow> b k r t | Approved k r \<Rightarrow> d k r
        | Resolving k r \<Rightarrow> e k r | NameRequested k r t \<Rightarrow> f k r t | NameResolving k r t \<Rightarrow> g k r t
        | Cooldown u \<Rightarrow> h u)"
  by (cases p) simp_all

lemma assert_private_m_ok [simp]:
  "assert_private_m c = Inr u \<longleftrightarrow> predecessor_account_id c = current_account_id c \<and> attached_deposit c = 0"
  by (simp add: assert_private_m_def is_private_call_def no_deposit_def)

lemma assert_owner_m_ok [simp]: "assert_owner_m c m = Inr u \<longleftrightarrow> predecessor_account_id c = m_owner m"
  by (simp add: assert_owner_m_def)

lemma into_sig_ok [simp]: "into_sig bs = Inr sig \<longleftrightarrow> length bs = 64 \<and> sig = bs"
  by (auto simp: into_sig_def)

section \<open>One account at a time\<close>

text \<open>
  What one call does to one account, whatever the call: the reference description of the life of
  a policy. \<open>None\<close> is an account with no policy; the number beside it is the round its next
  policy starts at.
\<close>

datatype slot = NoPolicy u64 | Slot policy u64 phase

definition slot_of :: "account_id \<Rightarrow> mpc_recovery \<Rightarrow> slot" where
  "slot_of a m = (case m_accounts m a of
     None \<Rightarrow> NoPolicy (case m_round_floor m a of None \<Rightarrow> 0 | Some f \<Rightarrow> f)
   | Some e \<Rightarrow> Slot (ac_policy e) (ac_round e) (ac_phase e))"

definition timelock_ns :: "policy \<Rightarrow> nat" where
  "timelock_ns p = unat (po_timelock_secs p) * 1000000000"

definition policy_ok :: "policy \<Rightarrow> bool" where
  "policy_ok p \<longleftrightarrow> MIN_TIMELOCK_SECS \<le> po_timelock_secs p \<and> po_timelock_secs p \<le> MAX_TIMELOCK_SECS
     \<and> is_ed25519 (po_attestation_key p) \<and> is_ed25519 (po_mpc_public_key p)"

inductive slot_step :: "u64 \<Rightarrow> slot \<Rightarrow> slot \<Rightarrow> bool" for now where
  s_stay: "slot_step now s s"
| s_install: "policy_ok p \<Longrightarrow> slot_step now (NoPolicy r) (Slot p r Idle)"
| s_replace: "policy_ok p \<Longrightarrow> settled ph \<Longrightarrow> slot_step now (Slot q r ph) (Slot p r ph)"
| s_request: "accepts_request ph now \<Longrightarrow> unat r' = Suc (unat r)
    \<Longrightarrow> slot_step now (Slot p r ph) (Slot p r' (Requested k r now))"
| s_request_name: "accepts_request ph now \<Longrightarrow> unat r' = Suc (unat r)
    \<Longrightarrow> slot_step now (Slot p r ph) (Slot p r' (NameRequested a r now))"
| s_approve: "unat t + timelock_ns p \<le> unat now
    \<Longrightarrow> slot_step now (Slot p r (Requested k q t)) (Slot p r (Approved k q))"
| s_reject: "unat t + timelock_ns p \<le> unat now
    \<Longrightarrow> slot_step now (Slot p r (Requested k q t)) (Slot p r Idle)"
| s_sign: "slot_step now (Slot p r (Approved k q)) (Slot p r (Resolving k q))"
| s_signed: "slot_step now (Slot p r (Resolving k q)) (Slot p r (Approved k q))"
| s_claim: "slot_step now (Slot p r (Approved k q)) (Slot p r Idle)"
| s_recover: "unat t + timelock_ns p \<le> unat now
    \<Longrightarrow> slot_step now (Slot p r (NameRequested a q t)) (Slot p r (NameResolving a q t))"
| s_restore: "slot_step now (Slot p r (NameResolving a q t)) (Slot p r (NameRequested a q t))"
| s_recovered: "slot_step now (Slot p r (NameResolving a q t)) (Slot p r Idle)"
| s_abort: "abortable_round ph = Some q \<Longrightarrow> sat_add now ABORT_COOLDOWN_NS \<le> u
    \<Longrightarrow> slot_step now (Slot p r ph) (Slot p r (Cooldown u))"
| s_reset: "\<not> is_resolving ph \<Longrightarrow> slot_step now (Slot p r ph) (NoPolicy r)"

inductive_cases slot_stepE: "slot_step now s s'"

lemma slot_of_frame [simp]:
  "slot_of a (m\<lparr>m_owner := o1\<rparr>) = slot_of a m"
  "slot_of a (m\<lparr>m_installer := i\<rparr>) = slot_of a m"
  "slot_of a (m\<lparr>m_watchers := w\<rparr>) = slot_of a m"
  "slot_of a (m\<lparr>m_threshold := th\<rparr>) = slot_of a m"
  "slot_of a (m\<lparr>m_approved_code_hash := h\<rparr>) = slot_of a m"
  "slot_of a (m\<lparr>m_approved_at := at\<rparr>) = slot_of a m"
  "slot_of a (m\<lparr>m_registry := rg\<rparr>) = slot_of a m"
  "slot_of a (m\<lparr>m_armed := ar\<rparr>) = slot_of a m"
  "slot_of a (m\<lparr>m_upgrade_proven := b\<rparr>) = slot_of a m"
  "slot_of a (m\<lparr>m_pending_owner := po\<rparr>) = slot_of a m"
  "slot_of a (m\<lparr>m_pending_owner_at := pt\<rparr>) = slot_of a m"
  by (simp_all add: slot_of_def split: option.split)

lemma slot_of_upd:
  "slot_of a (m\<lparr>m_accounts := (m_accounts m)(b \<mapsto> e)\<rparr>)
     = (if a = b then Slot (ac_policy e) (ac_round e) (ac_phase e) else slot_of a m)"
  by (simp add: slot_of_def split: option.split)

lemma slot_of_armed_upd:
  "slot_of a (m\<lparr>m_armed := ar, m_accounts := (m_accounts m)(b \<mapsto> e)\<rparr>)
     = (if a = b then Slot (ac_policy e) (ac_round e) (ac_phase e) else slot_of a m)"
  by (simp add: slot_of_def split: option.split)

lemma slot_of_set_phase:
  "slot_of a (set_phase b e p m) = (if a = b then Slot (ac_policy e) (ac_round e) p else slot_of a m)"
  by (simp add: slot_of_def set_phase_def split: option.split)

lemma slot_of_reset:
  "slot_of a (m\<lparr>m_round_floor := (m_round_floor m)(b \<mapsto> r), m_accounts := (m_accounts m)(b := None)\<rparr>)
     = (if a = b then NoPolicy r else slot_of a m)"
  by (simp add: slot_of_def split: option.split)

lemma slot_of_Some: "m_accounts m a = Some e \<Longrightarrow> slot_of a m = Slot (ac_policy e) (ac_round e) (ac_phase e)"
  by (simp add: slot_of_def split: option.split)

lemma slot_of_None:
  "m_accounts m a = None \<Longrightarrow> slot_of a m = NoPolicy (case m_round_floor m a of None \<Rightarrow> 0 | Some f \<Rightarrow> f)"
  by (simp add: slot_of_def split: option.split)

lemma open_at_nat:
  assumes "checked_mul (ucast (po_timelock_secs p)) 1000000000 = Some (ns :: u64)"
    and "unat open_at = unat t + unat ns" and "open_at \<le> now"
  shows "unat t + timelock_ns p \<le> unat now"
proof -
  have "unat (ucast (po_timelock_secs p) :: u64) = unat (po_timelock_secs p)"
  proof -
    have "unat (po_timelock_secs p) < 2 ^ 64" using unat_bound [of "po_timelock_secs p"] by simp
    then show ?thesis by (simp add: unsigned_ucast_eq take_bit_nat_eq_self)
  qed
  with assms show ?thesis by (simp add: unat_ops word_le_nat_alt timelock_ns_def)
qed

lemma cooldowns: "sat_add now ABORT_COOLDOWN_NS \<le> sat_add now HOLDER_ABORT_COOLDOWN_NS"
  by (rule sat_add_mono) (simp_all add: ABORT_COOLDOWN_NS_def HOLDER_ABORT_COOLDOWN_NS_def NS_PER_SEC_def)

lemmas slot_ofs = slot_of_upd slot_of_armed_upd slot_of_set_phase slot_of_reset

lemma settle_name_slot:
  "slot_step now (slot_of a m) (slot_of a (snd (settle_name_resolving b r d m)))"
  by (cases "m_accounts m b")
    (auto simp: settle_name_resolving_def slot_ofs slot_of_Some elim!: name_resolving.elims
      intro: slot_step.intros split: option.splits if_splits)

lemma settle_slot:
  "slot_step now (slot_of a m) (slot_of a (snd (settle_resolving b r False m)))"
  by (cases "m_accounts m b")
    (auto simp: settle_resolving_def slot_ofs slot_of_Some elim!: resolving_owner.elims
      intro: slot_step.intros split: option.splits if_splits)


lemma install_origin_slot:
  assumes "install_origin c acc key secs m = Inr (r, ph, m')"
  shows "slot_of a m' = slot_of a m"
    and "slot_of acc m = NoPolicy r \<and> ph = Idle \<or> (\<exists>q. slot_of acc m = Slot q r ph \<and> settled ph)"
  using assms by (auto simp: install_origin_def slot_of_Some slot_of_None split: option.splits)

lemma install_slot:
  assumes "install_origin c acc key secs m = Inr (r, ph, m')"
  shows "policy_ok p \<Longrightarrow> slot_step now (slot_of acc m) (Slot p r ph)"
    and "slot_step now (slot_of a m) (slot_of a m')"
  using install_origin_slot [OF assms] by (auto intro: slot_step.intros)

lemma recovery_slots:
  "res_all (\<lambda>y. slot_step (block_timestamp c) (slot_of a m) (slot_of a (fst y))) (recovery_exec lib c k m)"
  by (cases k; simp only: recovery_exec.simps recovery_defs Let_def case_prod_unfold; (intro res_walk)?)
    (auto simp: slot_ofs slot_of_Some checked_add_Some_iff NS_PER_SEC_def policy_ok_def cooldowns open_at_nat
     elim!: name_pending.elims approved_round.elims
     intro: slot_step.intros settle_name_slot settle_slot install_slot
       slot_step.s_recover [OF open_at_nat])

section \<open>The invariant\<close>

definition watchers_ok :: "mpc_recovery \<Rightarrow> bool" where
  "watchers_ok m \<longleftrightarrow> distinct (m_watchers m) \<and> (\<forall>w\<in>set (m_watchers m). is_ed25519 w)
     \<and> 2 \<le> unat (m_threshold m) \<and> unat (m_threshold m) \<le> length (m_watchers m) \<and> length (m_watchers m) \<le> 32"

definition owners_ok :: "account_id \<Rightarrow> mpc_recovery \<Rightarrow> bool" where
  "owners_ok self m \<longleftrightarrow> m_owner m \<noteq> self \<and> m_pending_owner m \<noteq> Some self \<and> m_registry m \<noteq> Some self"

definition slot_ok :: "u64 \<Rightarrow> slot \<Rightarrow> bool" where
  "slot_ok now s \<longleftrightarrow> (case s of NoPolicy r \<Rightarrow> True | Slot p r ph \<Rightarrow> policy_ok p
     \<and> (case ph of
          Idle \<Rightarrow> True | Cooldown u \<Rightarrow> True
        | Requested k q t \<Rightarrow> q < r \<and> t \<le> now
        | Approved k q \<Rightarrow> q < r | Resolving k q \<Rightarrow> q < r
        | NameRequested a q t \<Rightarrow> q < r \<and> t \<le> now
        | NameResolving a q t \<Rightarrow> q < r \<and> t \<le> now))"

definition recovery_inv :: "account_id \<Rightarrow> u64 \<Rightarrow> mpc_recovery \<Rightarrow> bool" where
  "recovery_inv self now m \<longleftrightarrow> watchers_ok m \<and> owners_ok self m \<and> (\<forall>a. slot_ok now (slot_of a m))"

lemma slot_ok_later: "slot_ok t s \<Longrightarrow> t \<le> t' \<Longrightarrow> slot_ok t' s"
  by (auto simp: slot_ok_def split: slot.splits phase.splits)

lemma next_round: "unat r' = Suc (unat r) \<Longrightarrow> r < r'"
  by (simp add: word_less_nat_alt)

lemma slot_ok_step: "slot_step now s s' \<Longrightarrow> slot_ok now s \<Longrightarrow> slot_ok now s'"
  by (induction rule: slot_step.induct) (auto simp: slot_ok_def next_round split: phase.splits)

lemma check_watchers_ok:
  "check_watchers ws seen = Inr u \<Longrightarrow> distinct ws \<and> set ws \<inter> seen = {} \<and> (\<forall>w\<in>set ws. is_ed25519 w)"
  by (induction ws seen rule: check_watchers.induct) auto

lemma watcher_count:
  assumes "length ws < 2 ^ 32" "(of_nat (length ws) :: u32) \<le> MAX_WATCHERS"
  shows "length ws \<le> 32"
  using assms by (simp add: MAX_WATCHERS_def word_le_nat_alt unat_of_nat_fits)

lemma two_watchers: "MIN_WATCHER_THRESHOLD \<le> th \<Longrightarrow> 2 \<le> unat th"
  by (simp add: MIN_WATCHER_THRESHOLD_def word_le_nat_alt)

lemma set_phase_frame [simp]:
  "watchers_ok (set_phase a e p m) = watchers_ok m" "owners_ok self (set_phase a e p m) = owners_ok self m"
  by (simp_all add: set_phase_def watchers_ok_def owners_ok_def)

lemma settle_frame [simp]:
  "watchers_ok (snd (settle_name_resolving a r d m)) = watchers_ok m"
  "owners_ok self (snd (settle_name_resolving a r d m)) = owners_ok self m"
  "watchers_ok (snd (settle_resolving a r d m)) = watchers_ok m"
  "owners_ok self (snd (settle_resolving a r d m)) = owners_ok self m"
  by (simp_all add: settle_name_resolving_def settle_resolving_def split: option.split prod.split)

lemma install_origin_frame:
  "install_origin c a key secs m = Inr (r, ph, m') \<Longrightarrow> watchers_ok m' = watchers_ok m"
  "install_origin c a key secs m = Inr (r, ph, m') \<Longrightarrow> owners_ok self m' = owners_ok self m"
  by (auto simp: install_origin_def watchers_ok_def owners_ok_def split: option.splits)

lemma accounts_frame [simp]:
  "watchers_ok (m\<lparr>m_accounts := ac\<rparr>) = watchers_ok m" "owners_ok self (m\<lparr>m_accounts := ac\<rparr>) = owners_ok self m"
  by (simp_all add: watchers_ok_def owners_ok_def)

lemma recovery_globals:
  assumes "fits k" "watchers_ok m" "owners_ok (current_account_id c) m"
  shows "res_all (\<lambda>y. watchers_ok (fst y) \<and> owners_ok (current_account_id c) (fst y)) (recovery_exec lib c k m)"
  using assms
  by (cases k; simp only: recovery_exec.simps recovery_defs Let_def case_prod_unfold; (intro res_walk)?)
    (auto simp: install_origin_frame, auto simp: watchers_ok_def owners_ok_def watcher_count two_watchers
       dest!: check_watchers_ok)

lemma recovery_new_inv:
  assumes "recovery_new c False owner signer authority watchers threshold = Inr m" "length watchers < 2 ^ 32"
  shows "recovery_inv (current_account_id c) t m"
  using assms
  by (auto simp: recovery_new_def recovery_inv_def watchers_ok_def owners_ok_def slot_ok_def slot_of_def
      watcher_count two_watchers dest!: check_watchers_ok)

lemma recovery_step_slots:
  assumes "recovery_step lib self t m m'"
  shows "slot_step t (slot_of a m) (slot_of a m')"
  using assms
proof cases
  case (m_call c k outs ret)
  then show ?thesis using res_allD [OF recovery_slots [of c a m lib k]] by simp
next
  case (m_migrate c raw outs ret)
  then show ?thesis by (auto simp: migrate_m_def intro: slot_step.intros)
qed

lemma recovery_step_inv:
  assumes "recovery_inv self t m" "t \<le> t'" "recovery_step lib self t' m m'"
  shows "recovery_inv self t' m'"
proof -
  have "\<forall>a. slot_ok t' (slot_of a m')"
    using assms recovery_step_slots slot_ok_step slot_ok_later unfolding recovery_inv_def by blast
  moreover have "watchers_ok m' \<and> owners_ok self m'"
    using assms(3)
  proof cases
    case (m_call c k outs ret)
    then show ?thesis
      using assms(1) res_allD [OF recovery_globals [of k m c lib]] by (simp add: recovery_inv_def)
  next
    case (m_migrate c raw outs ret)
    then show ?thesis
      using assms(1) by (auto simp: migrate_m_def recovery_inv_def watchers_ok_def owners_ok_def)
  qed
  ultimately show ?thesis by (simp add: recovery_inv_def)
qed

interpretation rec: contract_machine "recovery_initial self" "recovery_step lib self"
  "recovery_inv self" for self lib
  by unfold_locales (auto simp: recovery_initial_def intro: recovery_new_inv recovery_step_inv)

end
