(* ===== verification/Recovery_Props.thy ===== *)
theory Recovery_Props
  imports Recovery_Machine
begin

text \<open>
  What the recovery contract guarantees: the life of a policy, the timelock over whole runs, the
  exact meaning of a watcher quorum, the single use of an attestation, and that what is signed
  can be read in one way only.
\<close>

section \<open>A deployed recovery contract\<close>

text \<open>A signature check for examples: a signature is good when its first byte is the last byte of
  the key.\<close>

definition demo_cl :: crypto_lib where
  "demo_cl = \<lparr>cl_is_weak = (\<lambda>_. Some False), cl_ed25519_verify = (\<lambda>sig msg key. sig ! 0 = last key)\<rparr>"

definition demo_mlib :: recovery_lib where
  "demo_mlib = \<lparr>ml_crypto = demo_cl, ml_parse = Some, ml_sha256 = (\<lambda>bs. take 1 bs),
     ml_decode = (\<lambda>_. None), ml_decode_v1 = (\<lambda>_. None)\<rparr>"

definition demo_key :: "u8 \<Rightarrow> public_key" where
  "demo_key b = 0 # replicate 31 7 @ [b]"

definition demo_sig :: "u8 \<Rightarrow> signature" where
  "demo_sig b = b # replicate 63 0"

definition demo_mc :: "account_id \<Rightarrow> u64 \<Rightarrow> u128 \<Rightarrow> ctx" where
  "demo_mc who now deposit =
     \<lparr>predecessor_account_id = who, current_account_id = ''rec.hos'', block_timestamp = now,
      block_height = 1, attached_deposit = deposit, account_balance = 0, storage_byte_cost = 0,
      storage_usage = 0, prepaid_gas = 0, used_gas = 0, promise_results = []\<rparr>"

lemma demo_mc_sel [simp]:
  "predecessor_account_id (demo_mc who now d) = who"
  "current_account_id (demo_mc who now d) = ''rec.hos''"
  "block_timestamp (demo_mc who now d) = now"
  "attached_deposit (demo_mc who now d) = d"
  by (simp_all add: demo_mc_def)

definition demo_m0 :: mpc_recovery where
  "demo_m0 = \<lparr>m_state_version = 2, m_owner = ''owner'', m_installer = ''owner'', m_signer = ''mpc'',
     m_transfer_authority = ''ext.hos'', m_watchers = [demo_key 1, demo_key 2, demo_key 3],
     m_threshold = 2, m_accounts = Map.empty, m_round_floor = Map.empty, m_approved_code_hash = None,
     m_approved_at = None, m_registry = None, m_armed = Map.empty, m_upgrade_proven = False,
     m_pending_owner = None, m_pending_owner_at = None\<rparr>"

definition demo_armed :: armed_policy where
  "demo_armed = \<lparr>ap_attestation_key = demo_key 9, ap_timelock_secs = 60\<rparr>"

definition demo_policy :: policy where
  "demo_policy = \<lparr>po_mpc_public_key = demo_key 8, po_attestation_key = demo_key 9, po_timelock_secs = 60\<rparr>"

definition demo_entry :: "u64 \<Rightarrow> phase \<Rightarrow> account" where
  "demo_entry r ph = \<lparr>ac_policy = demo_policy, ac_round = r, ac_phase = ph\<rparr>"

definition demo_m1 :: mpc_recovery where
  "demo_m1 = demo_m0\<lparr>m_armed := [''alice'' \<mapsto> demo_armed]\<rparr>"

definition demo_m2 :: mpc_recovery where
  "demo_m2 = demo_m0\<lparr>m_accounts := [''alice'' \<mapsto> demo_entry 0 Idle]\<rparr>"

definition demo_m3 :: mpc_recovery where
  "demo_m3 = demo_m0\<lparr>m_accounts := [''alice'' \<mapsto> demo_entry 1 (Requested (demo_key 5) 0 12)]\<rparr>"

definition demo_m4 :: mpc_recovery where
  "demo_m4 = demo_m0\<lparr>m_accounts := [''alice'' \<mapsto> demo_entry 1 (Approved (demo_key 5) 0)]\<rparr>"

definition demo_m5 :: mpc_recovery where
  "demo_m5 = demo_m0\<lparr>m_accounts := [''alice'' \<mapsto> demo_entry 1 (Resolving (demo_key 5) 0)]\<rparr>"

lemmas rec_guards = assert_owner_m_def assert_one_yocto_m_def is_installer_def assert_private_m_def
  assert_not_payable_m_def is_private_call_def no_deposit_def into_sig_def

lemmas demo_m_defs = demo_m0_def demo_m1_def demo_m2_def demo_m3_def demo_m4_def demo_m5_def
  demo_entry_def demo_policy_def demo_armed_def

lemma demo_m_new:
  "recovery_new (demo_mc ''deployer'' 5 0) False ''owner'' ''mpc'' ''ext.hos''
     [demo_key 1, demo_key 2, demo_key 3] 2 = Inr demo_m0"
  by (simp add: recovery_new_def demo_m0_def no_deposit_def demo_key_def is_ed25519_def
      MIN_WATCHER_THRESHOLD_def MAX_WATCHERS_def MPC_STATE_VERSION_def)

lemma demo_verify [simp]: "verify demo_cl msg (demo_sig a) (demo_key b) \<longleftrightarrow> a = b"
  by (simp add: verify_def ed25519_key_def demo_key_def demo_sig_def demo_cl_def)

lemma demo_sig_len [simp]: "length (demo_sig a) = 64"
  by (simp add: demo_sig_def)

lemma demo_key_eq [simp]: "demo_key a = demo_key b \<longleftrightarrow> a = b"
  by (simp add: demo_key_def)

lemma demo_m_calls:
  "recovery_exec demo_mlib (demo_mc ''alice'' 10 1) (MArm (demo_key 9) 60) demo_m0
     = Inr (demo_m1, [MEmit (MPolicyInstallArmed ''alice'' (demo_key 9) 60)], MUnit)"
  "recovery_exec demo_mlib (demo_mc ''owner'' 11 0) (MInstall ''alice'' (demo_key 8) (demo_key 9) 60) demo_m1
     = Inr (demo_m2, [MEmit (MPolicyInstalled ''alice'' 60 (demo_key 8) (demo_key 9))], MUnit)"
  "recovery_exec demo_mlib (demo_mc ''anyone'' 12 0) (MRequest ''alice'' (demo_key 5) 0 (demo_sig 9)) demo_m2
     = Inr (demo_m3, [MEmit (MRequested ''alice'' 0 (demo_key 5))], MUnit)"
  "recovery_exec demo_mlib (demo_mc ''anyone'' 60000000012 0)
     (MVerdict ''alice'' Approve [(demo_key 1, demo_sig 1), (demo_key 3, demo_sig 3)]) demo_m3
     = Inr (demo_m4, [MEmit (MApproved ''alice'' 0)], MUnit)"
  by (simp_all add: arm_policy_install_def install_policy_def install_origin_def request_recovery_def
      submit_verdict_def rec_guards demo_m_defs demo_mlib_def is_ed25519_def MIN_TIMELOCK_SECS_def
      MAX_TIMELOCK_SECS_def checked_add_def checked_mul_def NS_PER_SEC_def usable_sigs_def
      verify_quorum_def set_phase_def Let_def)
    (simp_all add: demo_key_def)

lemma demo_m_reach:
  "rec.reach ''rec.hos'' demo_mlib 5 demo_m0"
  "rec.reach ''rec.hos'' demo_mlib 11 demo_m2"
proof -
  have "recovery_initial ''rec.hos'' 5 demo_m0"
    unfolding recovery_initial_def
    by (intro exI conjI, rule_tac [4] demo_m_new) simp_all
  then show r0: "rec.reach ''rec.hos'' demo_mlib 5 demo_m0" by (rule rec.reach_init)
  have "recovery_step demo_mlib ''rec.hos'' 10 demo_m0 demo_m1" "recovery_step demo_mlib ''rec.hos'' 11 demo_m1 demo_m2"
    using recovery_step.m_call [OF _ _ demo_m_calls(1), of "''rec.hos''"]
      recovery_step.m_call [OF _ _ demo_m_calls(2), of "''rec.hos''"] by simp_all
  from rec.reach_step [OF rec.reach_step [OF r0 _ this(1)] _ this(2)]
  show "rec.reach ''rec.hos'' demo_mlib 11 demo_m2" by simp
qed

lemma demo_m_run:
  "rec.run demo_mlib ''rec.hos'' 12 demo_m3 60000000012 demo_m4"
  "rec.run demo_mlib ''rec.hos'' 11 demo_m2 60000000012 demo_m4"
proof -
  have s: "recovery_step demo_mlib ''rec.hos'' 12 demo_m2 demo_m3"
    "recovery_step demo_mlib ''rec.hos'' 60000000012 demo_m3 demo_m4"
    using recovery_step.m_call [OF _ _ demo_m_calls(3), of "''rec.hos''"]
      recovery_step.m_call [OF _ _ demo_m_calls(4), of "''rec.hos''"] by simp_all
  show "rec.run demo_mlib ''rec.hos'' 12 demo_m3 60000000012 demo_m4"
    by (rule rec.run_step [OF rec.run_refl _ s(2)]) simp
  show "rec.run demo_mlib ''rec.hos'' 11 demo_m2 60000000012 demo_m4"
    by (rule rec.run_step [OF rec.run_step [OF rec.run_refl _ s(1)] _ s(2)]) simp_all
qed

section \<open>The life of a policy\<close>

text \<open>
  C2. The recovery contract implements one small machine per account. Whatever call is made, by
  whomever, and whatever the remote contracts answer, every account either stays as it is or
  takes one of the steps of that machine: a request only from rest and never inside a cooldown,
  taking a fresh round; an approval, a rejection or a rotation only once the timelock of the
  account's own policy has passed since the request; a signature only from an approval; a reset
  never while the MPC is signing, and leaving the round behind for the next policy.
\<close>

theorem recovery_refines_slots:
  assumes "recovery_exec lib c k m = Inr (m', outs, ret)"
  shows "slot_step (block_timestamp c) (slot_of a m) (slot_of a m')"
  using res_allD [OF recovery_slots assms] by simp

theorem recovery_refines_slots_witness:
  "slot_step 60000000012 (Slot demo_policy 1 (Requested (demo_key 5) 0 12)) (Slot demo_policy 1 (Approved (demo_key 5) 0))"
  using recovery_refines_slots [OF demo_m_calls(4), of "''alice''"]
  by (simp add: slot_of_def demo_m3_def demo_m4_def demo_entry_def)

section \<open>The timelock over runs\<close>

text \<open>What leaves the contract towards the MPC signer and the registry.\<close>

definition rec_door_ok ::
    "recovery_lib \<Rightarrow> ctx \<Rightarrow> recovery_call \<Rightarrow> mpc_recovery \<Rightarrow> mpc_recovery \<Rightarrow> recovery_remote \<Rightarrow> bool" where
  "rec_door_ok lib c k m m' r \<longleftrightarrow> (case r of
      MpcSign signer path hash domain_id \<Rightarrow> \<exists>a nonce block_hash p rd key q. k = MFinalize a nonce block_hash
        \<and> is_installer c m \<and> path = native_path a
        \<and> slot_of a m = Slot p rd (Approved key q)
        \<and> hash = to_hex (ml_sha256 lib (add_key_tx a (po_mpc_public_key p) nonce block_hash key))
    | RecoverSubAccount registry tla name to from \<Rightarrow> \<exists>a dl sigs p rd q t. k = MRecoverName tla name to from dl sigs
        \<and> leased_account_id lib tla name = Inr a \<and> m_registry m = Some registry
        \<and> slot_of a m = Slot p rd (NameRequested to q t) \<and> slot_of a m' = Slot p rd (NameResolving to q t)
    | _ \<Rightarrow> True)"

lemma recovery_doors:
  "res_all (\<lambda>y. \<forall>r d cb. MCall r d cb \<in> set (fst (snd y)) \<longrightarrow> rec_door_ok lib c k m (fst y) r)
     (recovery_exec lib c k m)"
  by (cases k; simp only: recovery_exec.simps recovery_defs Let_def case_prod_unfold; (intro res_walk)?)
    (auto simp: rec_door_ok_def sign_add_key_def Let_def slot_of_Some slot_of_set_phase
      elim!: name_pending.elims)

text \<open>Recoveries of \<open>s\<close> that were started at \<open>t0\<close> or later, seen from time \<open>now\<close>.\<close>

definition started_from :: "u64 \<Rightarrow> u64 \<Rightarrow> slot \<Rightarrow> bool" where
  "started_from t0 now s \<longleftrightarrow> (case s of NoPolicy r \<Rightarrow> True | Slot p r ph \<Rightarrow>
     (case ph of
        Idle \<Rightarrow> True | Cooldown u \<Rightarrow> True
      | Requested k q t \<Rightarrow> t0 \<le> t | NameRequested a q t \<Rightarrow> t0 \<le> t
      | Approved k q \<Rightarrow> unat t0 + timelock_ns p \<le> unat now
      | Resolving k q \<Rightarrow> unat t0 + timelock_ns p \<le> unat now
      | NameResolving a q t \<Rightarrow> t0 \<le> t \<and> unat t0 + timelock_ns p \<le> unat now))"

lemma started_from_step:
  assumes "slot_step t2 s s'" "t1 \<le> t2" "t0 \<le> t1" "started_from t0 t1 s"
  shows "started_from t0 t2 s'"
proof -
  have "unat t1 \<le> unat t2" "t0 \<le> t2" using assms(2,3) by (auto simp: word_le_nat_alt)
  with assms show ?thesis
    by (induction rule: slot_step.induct)
      (auto simp: started_from_def word_le_nat_alt split: slot.splits phase.splits)
qed

definition at_rest :: "account_id \<Rightarrow> mpc_recovery \<Rightarrow> bool" where
  "at_rest a m \<longleftrightarrow> (case m_accounts m a of None \<Rightarrow> True | Some e \<Rightarrow> settled (ac_phase e))"

lemma at_rest_started: "at_rest a m \<Longrightarrow> started_from t t (slot_of a m)"
  by (auto simp: at_rest_def started_from_def slot_of_def split: option.splits phase.splits)

lemma run_started:
  assumes "rec.run lib self t m t' m'" "recovery_inv self t m" "at_rest a m"
  shows "started_from t t' (slot_of a m')"
  using assms(1,2) at_rest_started [OF assms(3)]
proof (rule rec.run_stable)
  fix t1 s1 t2 s2
  assume "t \<le> t1" "t1 \<le> t2" "recovery_step lib self t2 s1 s2" "started_from t t1 (slot_of a s1)"
  then show "started_from t t2 (slot_of a s2)" using recovery_step_slots started_from_step by blast
qed

lemma timelock_min: "policy_ok p \<Longrightarrow> 60000000000 \<le> timelock_ns p"
  by (simp add: policy_ok_def timelock_ns_def MIN_TIMELOCK_SECS_def word_le_nat_alt)

text \<open>
  C14. No recovery outruns its timelock. Start from any reachable state in which an account has no
  recovery in progress, and let any calls be made. The contract does not ask the MPC to sign for
  that account, nor the registry to rotate that name, before the timelock of the account's policy
  has passed since then, and that is never less than a minute. What the MPC is asked to
  sign is the \<open>AddKey\<close> transaction for the approved key, on the account's own derivation path, at
  the request of the installer or the owner.
\<close>

theorem recovery_waits:
  assumes "rec.reach self lib t m" and "at_rest a m" and "rec.run lib self t m t' m'"
    and "current_account_id c = self" and "t' \<le> block_timestamp c" and "fits k"
    and "recovery_exec lib c k m' = Inr (m'', outs, ret)" and "MCall r d cb \<in> set outs"
    and "r = MpcSign signer (native_path a) hash domain_id
         \<or> r = RecoverSubAccount registry tla name to from \<and> leased_account_id lib tla name = Inr a"
  shows "\<exists>p rd ph. slot_of a m' = Slot p rd ph \<and> 60000000000 \<le> timelock_ns p
    \<and> unat t + timelock_ns p \<le> unat (block_timestamp c)"
proof -
  have inv: "recovery_inv self t m" by (rule rec.reach_inv [OF assms(1)])
  have inv': "recovery_inv self t' m'" by (rule rec.run_inv [OF assms(3) inv])
  have step: "slot_step (block_timestamp c) (slot_of a m') (slot_of a m'')"
    using res_allD [OF recovery_slots assms(7)] by simp
  have from1: "started_from t t' (slot_of a m')" by (rule run_started [OF assms(3) inv assms(2)])
  have from2: "started_from t (block_timestamp c) (slot_of a m'')"
    by (rule started_from_step [OF step assms(5) rec.run_time [OF assms(3)] from1])
  have door: "rec_door_ok lib c k m' m'' r" using res_allD [OF recovery_doors assms(7)] assms(8) by auto
  have late: "unat t' \<le> unat (block_timestamp c)" using assms(5) by (simp add: word_le_nat_alt)
  have pol: "policy_ok p" if "slot_of a m' = Slot p rd ph" for p rd ph
    using inv' that by (auto simp: recovery_inv_def slot_ok_def dest!: spec [of _ a])
  from assms(9) show ?thesis
  proof
    assume "r = MpcSign signer (native_path a) hash domain_id"
    with door obtain p rd key q where s: "slot_of a m' = Slot p rd (Approved key q)"
      by (auto simp: rec_door_ok_def native_path_def)
    with from1 late have "unat t + timelock_ns p \<le> unat (block_timestamp c)"
      by (simp add: started_from_def)
    with s pol timelock_min show ?thesis by blast
  next
    assume "r = RecoverSubAccount registry tla name to from \<and> leased_account_id lib tla name = Inr a"
    with door obtain p rd q u where s: "slot_of a m' = Slot p rd (NameRequested to q u)"
      and s': "slot_of a m'' = Slot p rd (NameResolving to q u)" by (auto simp: rec_door_ok_def)
    with from2 have "unat t + timelock_ns p \<le> unat (block_timestamp c)"
      by (simp add: started_from_def)
    with s pol timelock_min show ?thesis by blast
  qed
qed

lemma demo_m_sign:
  "recovery_exec demo_mlib (demo_mc ''owner'' 60000000013 0) (MFinalize ''alice'' 7 [0]) demo_m4
   = Inr (demo_m5, [MCall (MpcSign ''mpc'' (native_path ''alice'')
        (to_hex (ml_sha256 demo_mlib (add_key_tx ''alice'' (demo_key 8) 7 [0] (demo_key 5)))) 1) 1
        (Some (On_signed ''alice'' 0
          (to_hex (ml_sha256 demo_mlib (add_key_tx ''alice'' (demo_key 8) 7 [0] (demo_key 5))))))], MPromise)"
  by (simp add: finalize_recovery_def sign_add_key_def rec_guards demo_m_defs set_phase_def ED25519_DOMAIN_def Let_def)

theorem recovery_waits_witness:
  "at_rest ''alice'' demo_m2 \<and> rec.reach ''rec.hos'' demo_mlib 11 demo_m2
   \<and> (\<exists>m'' outs ret. recovery_exec demo_mlib (demo_mc ''owner'' 60000000013 0) (MFinalize ''alice'' 7 [0]) demo_m4
        = Inr (m'', outs, ret))
   \<and> (\<exists>p rd ph. slot_of ''alice'' demo_m4 = Slot p rd ph \<and> 60000000000 \<le> timelock_ns p
        \<and> unat (11 :: u64) + timelock_ns p \<le> unat (60000000013 :: u64))"
proof -
  have rest: "at_rest ''alice'' demo_m2" by (simp add: at_rest_def demo_m2_def demo_entry_def)
  show ?thesis
    using recovery_waits [OF demo_m_reach(2) rest demo_m_run(2) _ _ _ demo_m_sign,
        where r = "MpcSign ''mpc'' (native_path ''alice'')
        (to_hex (ml_sha256 demo_mlib (add_key_tx ''alice'' (demo_key 8) 7 [0] (demo_key 5)))) 1"]
      rest demo_m_reach(2) demo_m_sign by auto
qed

section \<open>The quorum\<close>

lemma open_at_iff:
  assumes "policy_ok p"
  shows "(\<exists>ns open_at. checked_mul (ucast (po_timelock_secs p)) NS_PER_SEC = Some (ns :: u64)
            \<and> checked_add t ns = Some open_at \<and> open_at \<le> now)
         \<longleftrightarrow> unat t + timelock_ns p \<le> unat now"
proof -
  let ?secs = "unat (po_timelock_secs p)"
  have secs: "unat (ucast (po_timelock_secs p) :: u64) = ?secs"
  proof -
    have "?secs < 2 ^ 64" using unat_bound [of "po_timelock_secs p"] by simp
    then show ?thesis by (simp add: unsigned_ucast_eq take_bit_nat_eq_self)
  qed
  have "?secs \<le> 2592000" using assms by (simp add: policy_ok_def MAX_TIMELOCK_SECS_def word_le_nat_alt)
  then have fit: "unat (of_nat (timelock_ns p) :: u64) = timelock_ns p"
    by (intro unat_of_nat_fits) (simp add: timelock_ns_def)
  have ns: "checked_mul (ucast (po_timelock_secs p)) NS_PER_SEC = Some ns \<longleftrightarrow> unat ns = timelock_ns p" for ns :: u64
    by (simp add: checked_mul_Some_iff secs timelock_ns_def NS_PER_SEC_def)
  show ?thesis
  proof
    assume "unat t + timelock_ns p \<le> unat now"
    moreover from this have "unat (of_nat (unat t + timelock_ns p) :: u64) = unat t + timelock_ns p"
      by (intro unat_of_nat_fits) (use unat_bound [of now] in linarith)
    ultimately show "\<exists>ns open_at. checked_mul (ucast (po_timelock_secs p)) NS_PER_SEC = Some (ns :: u64)
            \<and> checked_add t ns = Some open_at \<and> open_at \<le> now"
      unfolding ns using fit
      by (intro exI [of _ "of_nat (timelock_ns p)"] exI [of _ "of_nat (unat t + timelock_ns p)"])
        (simp add: checked_add_Some_iff word_le_nat_alt del: of_nat_add)
  qed (auto simp: ns checked_add_Some_iff word_le_nat_alt)
qed

text \<open>
  C6. A recovery is decided by a real majority of keys, counted exactly. In every reachable state
  a verdict goes through if and only if a recovery of that account is waiting, its timelock has
  passed, and at least as many distinct watchers as the threshold have signed the message that
  names this contract, account, key, round and verdict, with a key that is not weak. The threshold
  is at least two, so no single watcher carries a recovery, and no watcher counts twice,
  whatever duplicates, strangers or malformed signatures are in the list.
\<close>

theorem verdict_needs_quorum:
  assumes "rec.reach self lib t m" and "t \<le> block_timestamp c" and "attached_deposit c = 0"
  shows "2 \<le> unat (m_threshold m) \<and>
    (is_ok (recovery_exec lib c (MVerdict a v sigs) m) \<longleftrightarrow>
      (\<exists>p rd key q at. slot_of a m = Slot p rd (Requested key q at)
        \<and> unat at + timelock_ns p \<le> unat (block_timestamp c)
        \<and> unat (m_threshold m) \<le> card (signers (ml_crypto lib)
            (verdict_message (current_account_id c) a key q (v = Approve)) (usable_sigs sigs) (m_watchers m))))"
proof -
  have inv: "recovery_inv self t m" by (rule rec.reach_inv [OF assms(1)])
  then have w: "2 \<le> unat (m_threshold m)" "length (m_watchers m) < 2 ^ 32"
    by (auto simp: recovery_inv_def watchers_ok_def)
  have pol: "policy_ok (ac_policy e)" if "m_accounts m a = Some e" for e
    using inv that by (auto simp: recovery_inv_def slot_ok_def slot_of_Some dest!: spec [of _ a])
  have quorum: "is_ok (submit_verdict lib c a v sigs m) \<longleftrightarrow>
      (\<exists>e key q at. m_accounts m a = Some e \<and> ac_phase e = Requested key q at
        \<and> (\<exists>ns open_at. checked_mul (ucast (po_timelock_secs (ac_policy e))) NS_PER_SEC = Some (ns :: u64)
            \<and> checked_add at ns = Some open_at \<and> open_at \<le> block_timestamp c)
        \<and> unat (m_threshold m) \<le> card (signers (ml_crypto lib)
            (verdict_message (current_account_id c) a key q (v = Approve)) (usable_sigs sigs) (m_watchers m)))"
    using assms(3) w(2)
    by (cases "m_accounts m a")
      (auto simp: submit_verdict_def assert_not_payable_m_def no_deposit_def is_ok_iff verify_quorum_iff
        split: phase.splits)
  show ?thesis
    unfolding recovery_exec.simps quorum using w(1) pol open_at_iff
    by (auto simp: slot_of_def split: option.splits)
qed

theorem verdict_needs_quorum_witness:
  "2 \<le> unat (m_threshold demo_m3)
   \<and> is_ok (recovery_exec demo_mlib (demo_mc ''anyone'' 60000000012 0)
       (MVerdict ''alice'' Approve [(demo_key 1, demo_sig 1), (demo_key 3, demo_sig 3)]) demo_m3)
   \<and> 2 \<le> card (signers (ml_crypto demo_mlib) (verdict_message ''rec.hos'' ''alice'' (demo_key 5) 0 True)
       (usable_sigs [(demo_key 1, demo_sig 1), (demo_key 3, demo_sig 3)]) (m_watchers demo_m3))"
proof -
  have r: "rec.reach ''rec.hos'' demo_mlib 12 demo_m3"
    using rec.reach_step [OF demo_m_reach(2) _ recovery_step.m_call [OF _ _ demo_m_calls(3)]] by simp
  show ?thesis
    using verdict_needs_quorum [OF r, of "demo_mc ''anyone'' 60000000012 0" "''alice''" Approve
        "[(demo_key 1, demo_sig 1), (demo_key 3, demo_sig 3)]"] demo_m_calls(4)
    by (auto simp: slot_of_def demo_m3_def demo_m0_def demo_entry_def)
qed

section \<open>Attestations\<close>

text \<open>The account a request is about and the message its attestation is checked against.\<close>

fun signed_request ::
    "recovery_lib \<Rightarrow> account_id \<Rightarrow> recovery_call \<Rightarrow> mpc_recovery \<Rightarrow> (account_id \<times> bytes) option" where
  "signed_request lib self (MRequest a key r sig) m =
     map_option (\<lambda>e. (a, request_message self a key (ac_round e))) (m_accounts m a)"
| "signed_request lib self (MRequestName tla name to sig) m =
     (case leased_account_id lib tla name of
        Inl _ \<Rightarrow> None
      | Inr a \<Rightarrow> map_option (\<lambda>e. (a, name_request_message self tla name to (ac_round e))) (m_accounts m a))"
| "signed_request lib self _ m = None"

fun slot_round :: "slot \<Rightarrow> u64" where
  "slot_round (NoPolicy r) = r"
| "slot_round (Slot p r ph) = r"

lemma slot_round_step: "slot_step now s s' \<Longrightarrow> slot_round s \<le> slot_round s'"
  by (induction rule: slot_step.induct) (auto dest: next_round)

lemma run_round:
  assumes "rec.run lib self t m t' m'" "recovery_inv self t m"
  shows "slot_round (slot_of a m) \<le> slot_round (slot_of a m')"
  using assms
proof (rule rec.run_stable [where P = "\<lambda>_ m1. slot_round (slot_of a m) \<le> slot_round (slot_of a m1)"])
  fix t1 s1 t2 s2
  assume "recovery_step lib self t2 s1 s2" "slot_round (slot_of a m) \<le> slot_round (slot_of a s1)"
  then show "slot_round (slot_of a m) \<le> slot_round (slot_of a s2)"
    using recovery_step_slots slot_round_step order_trans by blast
qed simp

lemma signed_request_ends:
  assumes "signed_request lib self k m = Some (a, msg)"
  shows "\<exists>pre. msg = pre @ to_le_bytes_64 (slot_round (slot_of a m))"
  using assms
  by (cases k) (auto simp: request_message_def message_core_def name_request_message_def slot_of_Some
      split: sum.splits)

lemma request_takes_round:
  assumes "recovery_exec lib c k m = Inr (m', outs, ret)" "signed_request lib self k m = Some (a, msg)"
  shows "slot_round (slot_of a m) < slot_round (slot_of a m')"
  using assms
  by (cases k) (auto simp: request_recovery_def request_name_recovery_def slot_of_Some slot_of_upd
      checked_add_Some_iff next_round split: sum.splits)

text \<open>
  C38. An attestation is used once. If a request for an account was accepted, then no request for
  that account accepted at any later time, through any run of the contract, resets and
  new policies included, is checked against the same message: every accepted request consumes its
  round, rounds never come back, and the round is part of what is signed.
\<close>

theorem attestation_single_use:
  assumes "rec.reach self lib t m" and "t \<le> block_timestamp c1" and "current_account_id c1 = self" and "fits k1"
    and "recovery_exec lib c1 k1 m = Inr (m1, outs1, ret1)" and "signed_request lib self k1 m = Some (a, msg1)"
    and "rec.run lib self (block_timestamp c1) m1 t2 m2"
    and "recovery_exec lib c2 k2 m2 = Inr (m3, outs2, ret2)" and "signed_request lib self k2 m2 = Some (a, msg2)"
  shows "msg1 \<noteq> msg2"
proof
  assume "msg1 = msg2"
  have "recovery_inv self (block_timestamp c1) m1"
    using rec.reach_inv [OF rec.reach_step [OF assms(1,2)]] recovery_step.m_call [OF assms(3,4,5)] by simp
  with assms(7) have "slot_round (slot_of a m1) \<le> slot_round (slot_of a m2)" by (rule run_round)
  with request_takes_round [OF assms(5,6)] have less: "slot_round (slot_of a m) < slot_round (slot_of a m2)"
    by simp
  obtain pre1 pre2 where "msg1 = pre1 @ to_le_bytes_64 (slot_round (slot_of a m))"
    "msg2 = pre2 @ to_le_bytes_64 (slot_round (slot_of a m2))"
    using signed_request_ends [OF assms(6)] signed_request_ends [OF assms(9)] by blast
  with \<open>msg1 = msg2\<close> have "slot_round (slot_of a m) = slot_round (slot_of a m2)" by simp
  with less show False by simp
qed

text \<open>The second request of the witness comes after the owner has stopped the first.\<close>

definition demo_m6 :: mpc_recovery where
  "demo_m6 = demo_m0\<lparr>m_accounts := [''alice'' \<mapsto> demo_entry 1 (Cooldown 600000000013)]\<rparr>"

definition demo_m7 :: mpc_recovery where
  "demo_m7 = demo_m0\<lparr>m_accounts := [''alice'' \<mapsto> demo_entry 2 (Requested (demo_key 5) 1 600000000014)]\<rparr>"

lemma demo_m_again:
  "recovery_exec demo_mlib (demo_mc ''owner'' 13 0) (MAbort ''alice'') demo_m3
     = Inr (demo_m6, [MEmit (MAborted ''alice'' 0 False)], MUnit)"
  "recovery_exec demo_mlib (demo_mc ''anyone'' 600000000014 0) (MRequest ''alice'' (demo_key 5) 1 (demo_sig 9)) demo_m6
     = Inr (demo_m7, [MEmit (MRequested ''alice'' 1 (demo_key 5))], MUnit)"
  by (simp_all add: abort_recovery_def request_recovery_def rec_guards demo_m_defs demo_m6_def demo_m7_def
      demo_mlib_def set_phase_def sat_add_def ABORT_COOLDOWN_NS_def NS_PER_SEC_def checked_add_def Let_def)

theorem attestation_single_use_witness:
  "rec.reach ''rec.hos'' demo_mlib 11 demo_m2
   \<and> signed_request demo_mlib ''rec.hos'' (MRequest ''alice'' (demo_key 5) 0 (demo_sig 9)) demo_m2
       = Some (''alice'', request_message ''rec.hos'' ''alice'' (demo_key 5) 0)
   \<and> signed_request demo_mlib ''rec.hos'' (MRequest ''alice'' (demo_key 5) 1 (demo_sig 9)) demo_m6
       = Some (''alice'', request_message ''rec.hos'' ''alice'' (demo_key 5) 1)
   \<and> request_message ''rec.hos'' ''alice'' (demo_key 5) 0 \<noteq> request_message ''rec.hos'' ''alice'' (demo_key 5) 1"
proof -
  have run: "rec.run demo_mlib ''rec.hos'' (block_timestamp (demo_mc ''anyone'' 12 0)) demo_m3 13 demo_m6"
    using rec.run_step [OF rec.run_refl _ recovery_step.m_call [OF _ _ demo_m_again(1)]] by simp
  have sr: "signed_request demo_mlib ''rec.hos'' (MRequest ''alice'' (demo_key 5) 0 (demo_sig 9)) demo_m2
       = Some (''alice'', request_message ''rec.hos'' ''alice'' (demo_key 5) 0)"
    "signed_request demo_mlib ''rec.hos'' (MRequest ''alice'' (demo_key 5) 1 (demo_sig 9)) demo_m6
       = Some (''alice'', request_message ''rec.hos'' ''alice'' (demo_key 5) 1)"
    by (simp_all add: demo_m2_def demo_m6_def demo_entry_def)
  show ?thesis
    using attestation_single_use [OF demo_m_reach(2) _ _ _ demo_m_calls(3) sr(1) run demo_m_again(2) sr(2)]
      demo_m_reach(2) sr by simp
qed

section \<open>What is signed has one reading\<close>

text \<open>The four things the contract asks a key to sign, and their encodings.\<close>

datatype statement =
    SRequest account_id public_key u64
  | SVerdict account_id public_key u64 bool
  | SNameRequest account_id string account_id u64
  | SNameRecovery account_id string account_id account_id u64 u64

fun encode :: "account_id \<Rightarrow> statement \<Rightarrow> bytes" where
  "encode self (SRequest a k r) = request_message self a k r"
| "encode self (SVerdict a k r b) = verdict_message self a k r b"
| "encode self (SNameRequest t n w r) = name_request_message self t n w r"
| "encode self (SNameRecovery t n w e d r) = name_recovery_message self t n w e d r"

definition short :: "string \<Rightarrow> bool" where
  "short s \<longleftrightarrow> length s < 2 ^ 32"

fun wire_ok :: "statement \<Rightarrow> bool" where
  "wire_ok (SRequest a k r) \<longleftrightarrow> short a \<and> key_shape k"
| "wire_ok (SVerdict a k r b) \<longleftrightarrow> short a \<and> key_shape k"
| "wire_ok (SNameRequest t n w r) \<longleftrightarrow> short t \<and> short n \<and> short w"
| "wire_ok (SNameRecovery t n w e d r) \<longleftrightarrow> short t \<and> short n \<and> short w \<and> short e"

lemma push_str_eq [simp]:
  "short s \<Longrightarrow> short t \<Longrightarrow> push_str s @ m = push_str t @ n \<longleftrightarrow> s = t \<and> m = n"
  unfolding short_def by (metis push_str_prefix)

lemma push_str_inj [simp]: "short s \<Longrightarrow> short t \<Longrightarrow> push_str s = push_str t \<longleftrightarrow> s = t"
  using push_str_eq [of s t "[]" "[]"] by simp

lemma key_eq [simp]: "key_shape k \<Longrightarrow> key_shape l \<Longrightarrow> k @ m = l @ n \<longleftrightarrow> k = l \<and> m = n"
  using key_prefix by blast

text \<open>
  C39. What the contract has signed can be read in one way only. Two statements of any of the four
  kinds, made for any two deployments of the contract, have the same bytes only if they are the
  same statement for the same contract: the kind comes first, strings carry their length, a key's
  tag fixes its length, numbers have a fixed width. So a signature given for one kind, contract,
  account, key, owner, deadline, round or verdict is never a signature for another.
\<close>

theorem signed_statements_unambiguous:
  assumes "wire_ok x" "wire_ok y" "short self" "short self'"
  shows "encode self x = encode self' y \<longleftrightarrow> self = self' \<and> x = y"
  using assms
  by (cases x; cases y)
    (auto simp: request_message_def verdict_message_def name_request_message_def name_recovery_message_def
      message_core_def DOMAIN_REQUEST_def DOMAIN_VERDICT_def DOMAIN_NAME_REQUEST_def DOMAIN_NAME_RECOVERY_def
      append_eq_append_conv)

theorem signed_statements_unambiguous_witness:
  "encode ''rec.hos'' (SVerdict ''alice'' (demo_key 5) 0 True)
   \<noteq> encode ''rec.hos'' (SVerdict ''alice'' (demo_key 5) 0 False)"
  using signed_statements_unambiguous [of "SVerdict ''alice'' (demo_key 5) 0 True"
      "SVerdict ''alice'' (demo_key 5) 0 False" "''rec.hos''" "''rec.hos''"]
  by (simp add: short_def key_shape_def demo_key_def)

end
