(* ===== verification/Registrar.thy ===== *)
theory Registrar
  imports State_Storage Timelock
begin

text \<open>
  The registrar (\<open>contracts/registrar/src\<close>): the contract on a top level account that creates the
  leased accounts below it. The registry pays for a creation; the registrar makes the account,
  funds it, points it at the published wallet code and initialises it, in one batch that lands
  whole or not at all, and reports the outcome; the deposit of a failed creation goes back to the
  registry. The rest is its governance: the minimum balance, the council and its rotation, code
  upgrades, sealing.
\<close>

section \<open>Constants, state, errors, events\<close>

definition REGISTRAR_STATE_VERSION :: u16 where "REGISTRAR_STATE_VERSION = 2"
definition ACCOUNT_STORAGE_FLOOR :: u128 where "ACCOUNT_STORAGE_FLOOR = 7 * 1000000000000000000000"
definition REGISTRAR_UPGRADE_DELAY_NS :: u64 where
  "REGISTRAR_UPGRADE_DELAY_NS = 48 * 60 * 60 * 1000000000"

record registrar_config =
  gc_registry :: account_id
  gc_council :: account_id
  gc_wallet_impl :: account_id
  gc_hos_extension :: account_id
  gc_recovery :: account_id
  gc_chain_id :: string
  gc_min_balance :: u128
  gc_wallet_timeout_secs :: u32

record registrar =
  g_state_version :: u16
  g_registry :: account_id
  g_council :: account_id
  g_wallet_impl :: account_id
  g_hos_extension :: account_id
  g_recovery :: account_id
  g_chain_id :: string
  g_min_balance :: u128
  g_wallet_timeout_secs :: u32
  g_approved_code_hash :: "crypto_hash option"
  g_approved_at :: "u64 option"
  g_config_epoch :: u32
  g_upgrade_proven :: bool
  g_pending_council :: "account_id option"
  g_pending_council_at :: "u64 option"

record registrar_v1 =
  g1_state_version :: u16
  g1_registry :: account_id
  g1_council :: account_id
  g1_wallet_impl :: account_id
  g1_hos_extension :: account_id
  g1_recovery :: account_id
  g1_chain_id :: string
  g1_min_balance :: u128
  g1_min_label_len :: u8
  g1_wallet_timeout_secs :: u32
  g1_approved_code_hash :: "crypto_hash option"
  g1_approved_at :: "u64 option"
  g1_config_epoch :: u32
  g1_upgrade_proven :: bool

datatype registrar_error =
    G_ONLY_REGISTRY | G_ONLY_COUNCIL | G_ONLY_PENDING_COUNCIL | G_REQUIRES_ONE_YOCTO | G_INVALID_NAME
  | G_INSUFFICIENT_DEPOSIT | G_LEASE_IN_PAST | G_BAD_CHAIN_ID | G_BAD_MIN_BALANCE | G_EMPTY_CODE
  | G_NO_APPROVED_HASH | G_HASH_MISMATCH | G_APPROVAL_TOO_YOUNG | G_NO_STATE | G_PAYOUT_IS_SELF
  | G_OWNER_ACCOUNT_IS_SELF | G_COUNCIL_IS_SELF | G_COUNCIL_UNCHANGED | G_NO_COUNCIL_ROTATION_PENDING
  | G_COUNCIL_ROTATION_TOO_YOUNG | G_REGISTRY_IS_SELF | G_STATE_VERSION_UNKNOWN
  | G_UPGRADE_NOT_PROVEN | G_AlreadyInitialized | G_PrivateMethod | G_NotPayable

datatype registrar_event =
    GSubAccountMinted account_id account_id
  | GMintFailed account_id
  | GMinBalanceSet u128
  | GUpgradeApproved crypto_hash account_id
  | GCouncilRotationApproved account_id account_id
  | GCouncilRotationCancelled account_id
  | GCouncilRotated account_id account_id
  | GSelfUpgraded
  | GSealed string account_id
  | GSealFailed string account_id

text \<open>The arguments of \<open>hos_init\<close>, as the registrar writes them into the call.\<close>

record init_args =
  ia_owner_account :: account_id
  ia_authority :: account_id
  ia_collection_id :: account_id
  ia_payout_account :: account_id
  ia_lease_until_ns :: u64
  ia_timeout_secs :: u32

datatype registrar_callback =
    On_minted account_id account_id u128
  | On_creation_failed
  | After_seal_g string account_id

text \<open>\<open>CreateWallet account funding code args\<close> is the batch: create the account, transfer the
  funding, use the global code, call \<open>hos_init\<close>.\<close>

datatype registrar_remote =
    CreateWallet account_id u128 account_id init_args
  | GTransferNear account_id
  | GDeployAndMigrate bytes
  | GDeleteKey string

datatype registrar_out =
    GEmit registrar_event
  | GCall registrar_remote u128 "registrar_callback option"

datatype registrar_ret = GUnit | GPromise | GOutcome mint_outcome | GBool bool

type_synonym registrar_res = "registrar_error + (registrar \<times> registrar_out list \<times> registrar_ret)"

record registrar_lib =
  gl_parse :: "string \<Rightarrow> account_id option"
  gl_sha256 :: "bytes \<Rightarrow> crypto_hash"
  gl_decode :: "bytes \<Rightarrow> registrar option"
  gl_decode_v1 :: "bytes \<Rightarrow> registrar_v1 option"

section \<open>Guards\<close>

definition assert_one_yocto_g :: "ctx \<Rightarrow> registrar_error + unit" where
  "assert_one_yocto_g c = require (attached_deposit c = 1) G_REQUIRES_ONE_YOCTO (Inr ())"

definition only_council_g :: "ctx \<Rightarrow> registrar \<Rightarrow> registrar_error + unit" where
  "only_council_g c g = require (predecessor_account_id c = g_council g) G_ONLY_COUNCIL (Inr ())"

definition assert_private_g :: "ctx \<Rightarrow> registrar_error + unit" where
  "assert_private_g c =
     require (is_private_call c) G_PrivateMethod (require (no_deposit c) G_NotPayable (Inr ()))"

section \<open>Initialisation and migration\<close>

definition registrar_new :: "ctx \<Rightarrow> bool \<Rightarrow> registrar_config \<Rightarrow> registrar_error + registrar" where
  "registrar_new c initialized config =
     require (no_deposit c) G_NotPayable (
     require (\<not> initialized) G_AlreadyInitialized (
     require (gc_chain_id config = ''mainnet'' \<or> gc_chain_id config = ''testnet'') G_BAD_CHAIN_ID (
     require (ACCOUNT_STORAGE_FLOOR \<le> gc_min_balance config) G_BAD_MIN_BALANCE (
     require (gc_council config \<noteq> current_account_id c) G_COUNCIL_IS_SELF (
     require (gc_registry config \<noteq> current_account_id c) G_REGISTRY_IS_SELF (
     Inr \<lparr>g_state_version = REGISTRAR_STATE_VERSION, g_registry = gc_registry config,
          g_council = gc_council config, g_wallet_impl = gc_wallet_impl config,
          g_hos_extension = gc_hos_extension config, g_recovery = gc_recovery config,
          g_chain_id = gc_chain_id config, g_min_balance = gc_min_balance config,
          g_wallet_timeout_secs = gc_wallet_timeout_secs config, g_approved_code_hash = None,
          g_approved_at = None, g_config_epoch = 0, g_upgrade_proven = False,
          g_pending_council = None, g_pending_council_at = None\<rparr>))))))"

definition from_v1_g :: "registrar_v1 \<Rightarrow> registrar" where
  "from_v1_g old =
     \<lparr>g_state_version = REGISTRAR_STATE_VERSION, g_registry = g1_registry old,
      g_council = g1_council old, g_wallet_impl = g1_wallet_impl old,
      g_hos_extension = g1_hos_extension old, g_recovery = g1_recovery old,
      g_chain_id = g1_chain_id old, g_min_balance = g1_min_balance old,
      g_wallet_timeout_secs = g1_wallet_timeout_secs old,
      g_approved_code_hash = g1_approved_code_hash old, g_approved_at = g1_approved_at old,
      g_config_epoch = g1_config_epoch old, g_upgrade_proven = g1_upgrade_proven old,
      g_pending_council = None, g_pending_council_at = None\<rparr>"

definition stored_registrar :: "registrar_lib \<Rightarrow> bytes option \<Rightarrow> registrar_error + registrar" where
  "stored_registrar lib raw =
     (case state_version_of raw of
        None \<Rightarrow> Inl G_NO_STATE
      | Some v \<Rightarrow>
          if v = REGISTRAR_STATE_VERSION then ok_or (try_state_read (gl_decode lib) raw) G_NO_STATE Inr
          else if v = 1 then
            ok_or (map_option from_v1_g (try_state_read (gl_decode_v1 lib) raw)) G_NO_STATE Inr
          else Inl G_STATE_VERSION_UNKNOWN)"

definition migrate_g :: "registrar_lib \<Rightarrow> ctx \<Rightarrow> bytes option \<Rightarrow> registrar_res" where
  "migrate_g lib c raw =
     rbind (assert_private_g c) (\<lambda>_.
     rbind (stored_registrar lib raw) (\<lambda>current.
     Inr (current\<lparr>g_config_epoch := sat_add (g_config_epoch current) 1, g_upgrade_proven := True\<rparr>,
          [GEmit GSelfUpgraded], GUnit)))"

section \<open>Creating a leased account\<close>

definition create_sub_account ::
    "registrar_lib \<Rightarrow> ctx \<Rightarrow> string \<Rightarrow> account_id \<Rightarrow> account_id \<Rightarrow> u64 \<Rightarrow> registrar \<Rightarrow> registrar_res" where
  "create_sub_account lib c name owner_account payout_account lease_until_ns g =
     require (predecessor_account_id c = g_registry g) G_ONLY_REGISTRY (
     require (name \<noteq> [] \<and> CHR ''.'' \<notin> set name) G_INVALID_NAME (
     require (block_timestamp c < lease_until_ns) G_LEASE_IN_PAST (
     require (g_min_balance g \<le> attached_deposit c) G_INSUFFICIENT_DEPOSIT (
     ok_or (gl_parse lib (name @ ''.'' @ current_account_id c)) G_INVALID_NAME (\<lambda>account.
     require (payout_account \<noteq> account) G_PAYOUT_IS_SELF (
     require (owner_account \<noteq> account) G_OWNER_ACCOUNT_IS_SELF (
     Inr (g, [GCall (CreateWallet account (attached_deposit c) (g_wallet_impl g)
                \<lparr>ia_owner_account = owner_account, ia_authority = g_hos_extension g,
                 ia_collection_id = g_registry g, ia_payout_account = payout_account,
                 ia_lease_until_ns = lease_until_ns, ia_timeout_secs = g_wallet_timeout_secs g\<rparr>)
                (attached_deposit c) (Some (On_minted account owner_account (attached_deposit c)))],
          GPromise))))))))"

definition on_minted ::
    "ctx \<Rightarrow> account_id \<Rightarrow> account_id \<Rightarrow> u128 \<Rightarrow> promise_error + unit \<Rightarrow> registrar \<Rightarrow> registrar_res" where
  "on_minted c account owner_account funding result g =
     rbind (assert_private_g c) (\<lambda>_.
     case result of
       Inr _ \<Rightarrow> Inr (g, [GEmit (GSubAccountMinted account owner_account)], GOutcome MintActive)
     | Inl _ \<Rightarrow> Inr (g, [GEmit (GMintFailed account),
                        GCall (GTransferNear (g_registry g)) funding (Some On_creation_failed)], GPromise))"

definition on_creation_failed :: "ctx \<Rightarrow> registrar \<Rightarrow> registrar_res" where
  "on_creation_failed c g = rbind (assert_private_g c) (\<lambda>_. Inr (g, [], GOutcome CreationFailed))"

section \<open>Governance\<close>

definition set_min_balance :: "ctx \<Rightarrow> u128 \<Rightarrow> registrar \<Rightarrow> registrar_res" where
  "set_min_balance c min_balance g =
     rbind (assert_one_yocto_g c) (\<lambda>_.
     rbind (only_council_g c g) (\<lambda>_.
     require (ACCOUNT_STORAGE_FLOOR \<le> min_balance) G_BAD_MIN_BALANCE (
     Inr (g\<lparr>g_config_epoch := sat_add (g_config_epoch g) 1, g_min_balance := min_balance\<rparr>,
          [GEmit (GMinBalanceSet min_balance)], GUnit))))"

definition approve_upgrade_g :: "ctx \<Rightarrow> crypto_hash \<Rightarrow> registrar \<Rightarrow> registrar_res" where
  "approve_upgrade_g c code_hash g =
     rbind (assert_one_yocto_g c) (\<lambda>_.
     rbind (only_council_g c g) (\<lambda>_.
     Inr (g\<lparr>g_approved_code_hash := Some code_hash, g_approved_at := Some (block_timestamp c)\<rparr>,
          [GEmit (GUpgradeApproved code_hash (predecessor_account_id c))], GUnit)))"

definition approve_council_rotation_g :: "ctx \<Rightarrow> account_id \<Rightarrow> registrar \<Rightarrow> registrar_res" where
  "approve_council_rotation_g c new_council g =
     rbind (assert_one_yocto_g c) (\<lambda>_.
     rbind (only_council_g c g) (\<lambda>_.
     require (new_council \<noteq> g_council g) G_COUNCIL_UNCHANGED (
     require (new_council \<noteq> current_account_id c) G_COUNCIL_IS_SELF (
     Inr (g\<lparr>g_pending_council := Some new_council, g_pending_council_at := Some (block_timestamp c)\<rparr>,
          [GEmit (GCouncilRotationApproved new_council (predecessor_account_id c))], GUnit)))))"

definition cancel_council_rotation_g :: "ctx \<Rightarrow> registrar \<Rightarrow> registrar_res" where
  "cancel_council_rotation_g c g =
     rbind (assert_one_yocto_g c) (\<lambda>_.
     rbind (only_council_g c g) (\<lambda>_.
     require (g_pending_council g \<noteq> None) G_NO_COUNCIL_ROTATION_PENDING (
     Inr (g\<lparr>g_pending_council := None, g_pending_council_at := None\<rparr>,
          [GEmit (GCouncilRotationCancelled (predecessor_account_id c))], GUnit))))"

definition commit_council_rotation_g :: "ctx \<Rightarrow> registrar \<Rightarrow> registrar_res" where
  "commit_council_rotation_g c g =
     rbind (assert_one_yocto_g c) (\<lambda>_.
     ok_or (g_pending_council g) G_NO_COUNCIL_ROTATION_PENDING (\<lambda>pending.
     require (predecessor_account_id c = pending) G_ONLY_PENDING_COUNCIL (
     ok_or (g_pending_council_at g) G_NO_COUNCIL_ROTATION_PENDING (\<lambda>approved_at.
     require (sat_add approved_at REGISTRAR_UPGRADE_DELAY_NS \<le> block_timestamp c)
       G_COUNCIL_ROTATION_TOO_YOUNG (
     Inr (g\<lparr>g_council := pending, g_pending_council := None, g_pending_council_at := None\<rparr>,
          [GEmit (GCouncilRotated pending (predecessor_account_id c))], GUnit))))))"

definition pending_council_g :: "registrar \<Rightarrow> (account_id \<times> u64) option" where
  "pending_council_g g =
     Option.bind (g_pending_council g) (\<lambda>a. map_option (Pair a) (g_pending_council_at g))"

definition upgrade_self_g :: "registrar_lib \<Rightarrow> ctx \<Rightarrow> bytes \<Rightarrow> registrar \<Rightarrow> registrar_res" where
  "upgrade_self_g lib c code g =
     rbind (assert_one_yocto_g c) (\<lambda>_.
     rbind (only_council_g c g) (\<lambda>_.
     require (code \<noteq> []) G_EMPTY_CODE (
     ok_or (g_approved_code_hash g) G_NO_APPROVED_HASH (\<lambda>approved.
     require (gl_sha256 lib code = approved) G_HASH_MISMATCH (
     ok_or (g_approved_at g) G_NO_APPROVED_HASH (\<lambda>approved_at.
     require (sat_add approved_at REGISTRAR_UPGRADE_DELAY_NS \<le> block_timestamp c) G_APPROVAL_TOO_YOUNG (
     Inr (g\<lparr>g_approved_code_hash := None, g_approved_at := None\<rparr>,
          [GCall (GDeployAndMigrate code) 0 None], GPromise))))))))"

definition seal_g :: "ctx \<Rightarrow> string \<Rightarrow> registrar \<Rightarrow> registrar_res" where
  "seal_g c public_key g =
     rbind (assert_one_yocto_g c) (\<lambda>_.
     rbind (only_council_g c g) (\<lambda>_.
     require (g_upgrade_proven g) G_UPGRADE_NOT_PROVEN (
     Inr (g, [GCall (GDeleteKey public_key) 0
                (Some (After_seal_g public_key (predecessor_account_id c)))], GPromise))))"

definition after_seal_g :: "ctx \<Rightarrow> string \<Rightarrow> account_id \<Rightarrow> registrar \<Rightarrow> registrar_res" where
  "after_seal_g c public_key b g =
     rbind (assert_private_g c) (\<lambda>_.
     if \<not> is_promise_success c then Inr (g, [GEmit (GSealFailed public_key b)], GBool False)
     else Inr (g, [GEmit (GSealed public_key b)], GBool True))"

section \<open>The registrar as a machine\<close>

datatype (plugins only:) registrar_call =
    GCreate string account_id account_id u64
  | GOnMinted account_id account_id u128 "promise_error + unit" | GOnCreationFailed
  | GSetMinBalance u128 | GApproveUpgrade crypto_hash
  | GApproveCouncil account_id | GCancelCouncil | GCommitCouncil
  | GUpgrade bytes | GSeal string | GAfterSeal string account_id

primrec registrar_exec :: "registrar_lib \<Rightarrow> ctx \<Rightarrow> registrar_call \<Rightarrow> registrar \<Rightarrow> registrar_res" where
  "registrar_exec lib c (GCreate n a b l) g = create_sub_account lib c n a b l g"
| "registrar_exec lib c (GOnMinted a b f res) g = on_minted c a b f res g"
| "registrar_exec lib c GOnCreationFailed g = on_creation_failed c g"
| "registrar_exec lib c (GSetMinBalance n) g = set_min_balance c n g"
| "registrar_exec lib c (GApproveUpgrade h) g = approve_upgrade_g c h g"
| "registrar_exec lib c (GApproveCouncil a) g = approve_council_rotation_g c a g"
| "registrar_exec lib c GCancelCouncil g = cancel_council_rotation_g c g"
| "registrar_exec lib c GCommitCouncil g = commit_council_rotation_g c g"
| "registrar_exec lib c (GUpgrade code) g = upgrade_self_g lib c code g"
| "registrar_exec lib c (GSeal k) g = seal_g c k g"
| "registrar_exec lib c (GAfterSeal k b) g = after_seal_g c k b g"

definition registrar_initial :: "account_id \<Rightarrow> u64 \<Rightarrow> registrar \<Rightarrow> bool" where
  "registrar_initial self t g \<longleftrightarrow>
     (\<exists>c config. current_account_id c = self \<and> block_timestamp c = t \<and> registrar_new c False config = Inr g)"

inductive registrar_step ::
    "registrar_lib \<Rightarrow> account_id \<Rightarrow> u64 \<Rightarrow> registrar \<Rightarrow> registrar \<Rightarrow> bool" for lib self where
  g_call: "current_account_id c = self \<Longrightarrow> registrar_exec lib c k g = Inr (g', outs, ret)
           \<Longrightarrow> registrar_step lib self (block_timestamp c) g g'"
| g_migrate: "current_account_id c = self \<Longrightarrow> stored_registrar lib raw = Inr g
           \<Longrightarrow> migrate_g lib c raw = Inr (g', outs, ret)
           \<Longrightarrow> registrar_step lib self (block_timestamp c) g g'"

lemmas registrar_defs = create_sub_account_def on_minted_def on_creation_failed_def set_min_balance_def
  approve_upgrade_g_def approve_council_rotation_g_def cancel_council_rotation_g_def
  commit_council_rotation_g_def upgrade_self_g_def seal_g_def after_seal_g_def

lemma registrar_guards_ok [simp]:
  "only_council_g c g = Inr u \<longleftrightarrow> predecessor_account_id c = g_council g"
  "assert_one_yocto_g c = Inr u \<longleftrightarrow> attached_deposit c = 1"
  "assert_private_g c = Inr u \<longleftrightarrow> predecessor_account_id c = current_account_id c \<and> attached_deposit c = 0"
  by (simp_all add: only_council_g_def assert_one_yocto_g_def assert_private_g_def is_private_call_def
      no_deposit_def)

text \<open>The registry, the wallet code and the extension never change, the minimum balance stays
  above the storage floor and the council is never the contract itself.\<close>

definition registrar_inv :: "account_id \<Rightarrow> u64 \<Rightarrow> registrar \<Rightarrow> bool" where
  "registrar_inv self t g \<longleftrightarrow> ACCOUNT_STORAGE_FLOOR \<le> g_min_balance g \<and> g_registry g \<noteq> self
     \<and> g_council g \<noteq> self \<and> g_pending_council g \<noteq> Some self
     \<and> (g_pending_council g = None \<longleftrightarrow> g_pending_council_at g = None)
     \<and> (\<forall>a. g_pending_council_at g = Some a \<longrightarrow> a \<le> t)"

definition registrar_wiring :: "registrar \<Rightarrow> account_id \<times> account_id \<times> account_id \<times> account_id \<times> string \<times> u32" where
  "registrar_wiring g = (g_registry g, g_wallet_impl g, g_hos_extension g, g_recovery g, g_chain_id g,
     g_wallet_timeout_secs g)"

definition registrar_change :: "ctx \<Rightarrow> registrar \<Rightarrow> registrar \<Rightarrow> bool" where
  "registrar_change c g g' \<longleftrightarrow> registrar_wiring g' = registrar_wiring g
     \<and> (g_pending_council_at g' = g_pending_council_at g \<or> g_pending_council_at g' = None
          \<or> g_pending_council_at g' = Some (block_timestamp c))
     \<and> (g_council g' \<noteq> g_council g \<longrightarrow> predecessor_account_id c = g_council g'
          \<and> (\<exists>a. g_pending_council_at g = Some a \<and> sat_add a REGISTRAR_UPGRADE_DELAY_NS \<le> block_timestamp c))"

lemma registrar_inv_later: "registrar_inv self t g \<Longrightarrow> t \<le> t' \<Longrightarrow> registrar_inv self t' g"
  by (force simp: registrar_inv_def)

lemma exec_registrar:
  assumes "registrar_inv (current_account_id c) (block_timestamp c) g"
  shows "res_all (\<lambda>y. registrar_inv (current_account_id c) (block_timestamp c) (fst y)
    \<and> registrar_change c g (fst y)) (registrar_exec lib c k g)"
  using assms
  by (cases k; simp only: registrar_exec.simps registrar_defs; (intro res_walk)?)
    (auto simp: registrar_inv_def registrar_change_def registrar_wiring_def)

lemma step_registrar:
  assumes "registrar_inv self t g" "t \<le> t'" "registrar_step lib self t' g g'"
  shows "registrar_inv self t' g' \<and> (\<exists>c. block_timestamp c = t' \<and> registrar_change c g g')"
  using assms(3)
proof cases
  case (g_call c k outs ret)
  then show ?thesis
    using res_allD [OF exec_registrar [of c g lib k]] registrar_inv_later [OF assms(1,2)] by fastforce
next
  case (g_migrate c raw outs ret)
  then show ?thesis
    using registrar_inv_later [OF assms(1,2)]
    by (auto simp: migrate_g_def registrar_inv_def registrar_change_def registrar_wiring_def)
qed

lemma registrar_new_inv:
  "registrar_new c False config = Inr g \<Longrightarrow> registrar_inv (current_account_id c) t g"
  by (auto simp: registrar_new_def registrar_inv_def)

interpretation rgr: contract_machine "registrar_initial self" "registrar_step lib self"
  "registrar_inv self" for self lib
  by unfold_locales (auto simp: registrar_initial_def intro: registrar_new_inv dest: step_registrar)

lemma registrar_locks:
  assumes "registrar_inv self t g" "registrar_step lib self t g g'"
  shows "g_pending_council_at g' = g_pending_council_at g \<or> g_pending_council_at g' = None
      \<or> g_pending_council_at g' = Some t"
    and "g_council g' \<noteq> g_council g \<Longrightarrow>
      \<exists>a. g_pending_council_at g = Some a \<and> sat_add a REGISTRAR_UPGRADE_DELAY_NS \<le> t"
  using step_registrar [OF assms(1) order_refl assms(2)] by (auto simp: registrar_change_def)

interpretation rgr_council: timelock "registrar_initial self" "registrar_step lib self"
  "registrar_inv self" g_council g_pending_council_at REGISTRAR_UPGRADE_DELAY_NS for self lib
  by unfold_locales (auto dest: registrar_locks intro: registrar_inv_later)

lemma run_wiring:
  assumes "rgr.run lib self t g t' g'" "registrar_inv self t g"
  shows "registrar_wiring g' = registrar_wiring g"
  using assms
proof (rule rgr.run_stable [where P = "\<lambda>_ g1. registrar_wiring g1 = registrar_wiring g"])
  fix t1 s1 t2 s2
  assume "registrar_inv self t1 s1" "t1 \<le> t2" "registrar_step lib self t2 s1 s2"
    "registrar_wiring s1 = registrar_wiring g"
  then show "registrar_wiring s2 = registrar_wiring g"
    using step_registrar by (fastforce simp: registrar_change_def)
qed simp

end
