(* ===== verification/Deployer.thy ===== *)
theory Deployer
  imports State_Storage Timelock
begin

text \<open>
  The publisher of the wallet code (\<open>contracts/wallet-impl-deployer/src\<close>). Leased accounts refer
  to the wallet implementation by the account of this contract, so a publication reaches all of
  them at once. The council approves a hash, anyone may publish code with that hash after the
  delay and pays for its storage, one publication at a time. Upgrades of the contract itself, the
  council's rotation and the removal of keys are separate.
\<close>

section \<open>Constants, state, errors, events\<close>

definition GLOBAL_CODE_COST_PER_BYTE :: u128 where "GLOBAL_CODE_COST_PER_BYTE = 100000000000000000000"
definition DEFAULT_APPROVAL_DELAY_NS :: u64 where
  "DEFAULT_APPROVAL_DELAY_NS = 48 * 60 * 60 * 1000000000"
definition DEPLOYER_STATE_VERSION :: u16 where "DEPLOYER_STATE_VERSION = 2"
definition DEPLOY_LOCK_TTL_NS :: u64 where "DEPLOY_LOCK_TTL_NS = 10 * 60 * 1000000000"

record impl_deployer =
  d_state_version :: u16
  d_council :: account_id
  d_current_hash :: "crypto_hash option"
  d_approved_hash :: "crypto_hash option"
  d_approved_at :: "u64 option"
  d_approval_delay_ns :: u64
  d_deploy_locked_until :: u64
  d_approved_upgrade_hash :: "crypto_hash option"
  d_approved_upgrade_at :: "u64 option"
  d_upgrade_proven :: bool
  d_pending_council :: "account_id option"
  d_pending_council_at :: "u64 option"

record impl_deployer_v1 =
  d1_state_version :: u16
  d1_council :: account_id
  d1_current_hash :: "crypto_hash option"
  d1_approved_hash :: "crypto_hash option"
  d1_approved_at :: "u64 option"
  d1_approval_delay_ns :: u64
  d1_deploy_locked_until :: u64
  d1_approved_upgrade_hash :: "crypto_hash option"
  d1_approved_upgrade_at :: "u64 option"
  d1_upgrade_proven :: bool

datatype deployer_error =
    D_ONLY_COUNCIL | D_NO_APPROVED_HASH | D_HASH_MISMATCH | D_DEPLOY_IN_FLIGHT | D_APPROVAL_TOO_YOUNG
  | D_INSUFFICIENT_DEPOSIT | D_EMPTY_CODE | D_COST_OVERFLOW | D_REQUIRES_ONE_YOCTO | D_COUNCIL_IS_SELF
  | D_COUNCIL_UNCHANGED | D_NO_COUNCIL_ROTATION_PENDING | D_ONLY_PENDING_COUNCIL
  | D_COUNCIL_ROTATION_TOO_YOUNG | D_NO_APPROVED_UPGRADE | D_UPGRADE_HASH_MISMATCH
  | D_UPGRADE_TOO_YOUNG | D_NO_STATE | D_STATE_VERSION_UNKNOWN | D_UPGRADE_NOT_PROVEN
  | D_AlreadyInitialized | D_PrivateMethod | D_NotPayable

datatype deployer_event =
    DHashApproved crypto_hash account_id
  | DImplDeployed crypto_hash u64
  | DDeployFailed crypto_hash
  | DSelfUpgraded
  | DUpgradeApproved crypto_hash account_id
  | DCouncilRotationApproved account_id account_id
  | DCouncilRotationCancelled account_id
  | DCouncilRotated account_id account_id
  | DKeyDeleted string account_id
  | DKeyDeleteFailed string account_id

datatype deployer_callback =
    Gd_on_deployed crypto_hash u64 account_id u128 u128
  | Gd_on_key_deleted string account_id

datatype deployer_remote =
    DeployGlobal bytes
  | DTransferNear account_id
  | DDeployAndMigrate bytes
  | DDeleteKey string

datatype deployer_out =
    DEmit deployer_event
  | DCall deployer_remote u128 "deployer_callback option"

datatype deployer_ret = DUnit | DPromise | DBool bool

type_synonym deployer_res = "deployer_error + (impl_deployer \<times> deployer_out list \<times> deployer_ret)"

record deployer_lib =
  dl_sha256 :: "bytes \<Rightarrow> crypto_hash"
  dl_decode :: "bytes \<Rightarrow> impl_deployer option"
  dl_decode_v1 :: "bytes \<Rightarrow> impl_deployer_v1 option"

section \<open>Guards\<close>

definition assert_one_yocto_d :: "ctx \<Rightarrow> deployer_error + unit" where
  "assert_one_yocto_d c = require (attached_deposit c = 1) D_REQUIRES_ONE_YOCTO (Inr ())"

definition only_council_d :: "ctx \<Rightarrow> impl_deployer \<Rightarrow> deployer_error + unit" where
  "only_council_d c d = require (predecessor_account_id c = d_council d) D_ONLY_COUNCIL (Inr ())"

definition assert_private_d :: "ctx \<Rightarrow> deployer_error + unit" where
  "assert_private_d c =
     require (is_private_call c) D_PrivateMethod (require (no_deposit c) D_NotPayable (Inr ()))"

section \<open>Initialisation and migration\<close>

definition deployer_new :: "ctx \<Rightarrow> bool \<Rightarrow> account_id \<Rightarrow> u64 option \<Rightarrow> deployer_error + impl_deployer" where
  "deployer_new c initialized council approval_delay_ns =
     require (no_deposit c) D_NotPayable (
     require (\<not> initialized) D_AlreadyInitialized (
     require (council \<noteq> current_account_id c) D_COUNCIL_IS_SELF (
     Inr \<lparr>d_state_version = DEPLOYER_STATE_VERSION, d_council = council, d_current_hash = None,
          d_approved_hash = None, d_approved_at = None,
          d_approval_delay_ns = (case approval_delay_ns of None \<Rightarrow> DEFAULT_APPROVAL_DELAY_NS | Some v \<Rightarrow> v),
          d_deploy_locked_until = 0, d_approved_upgrade_hash = None, d_approved_upgrade_at = None,
          d_upgrade_proven = False, d_pending_council = None, d_pending_council_at = None\<rparr>)))"

definition from_v1_d :: "impl_deployer_v1 \<Rightarrow> impl_deployer" where
  "from_v1_d old =
     \<lparr>d_state_version = DEPLOYER_STATE_VERSION, d_council = d1_council old,
      d_current_hash = d1_current_hash old, d_approved_hash = d1_approved_hash old,
      d_approved_at = d1_approved_at old, d_approval_delay_ns = d1_approval_delay_ns old,
      d_deploy_locked_until = d1_deploy_locked_until old,
      d_approved_upgrade_hash = d1_approved_upgrade_hash old,
      d_approved_upgrade_at = d1_approved_upgrade_at old,
      d_upgrade_proven = d1_upgrade_proven old, d_pending_council = None, d_pending_council_at = None\<rparr>"

definition stored_deployer :: "deployer_lib \<Rightarrow> bytes option \<Rightarrow> deployer_error + impl_deployer" where
  "stored_deployer lib raw =
     (case state_version_of raw of
        None \<Rightarrow> Inl D_NO_STATE
      | Some v \<Rightarrow>
          if v = DEPLOYER_STATE_VERSION then ok_or (try_state_read (dl_decode lib) raw) D_NO_STATE Inr
          else if v = 1 then
            ok_or (map_option from_v1_d (try_state_read (dl_decode_v1 lib) raw)) D_NO_STATE Inr
          else Inl D_STATE_VERSION_UNKNOWN)"

definition migrate_d :: "deployer_lib \<Rightarrow> ctx \<Rightarrow> bytes option \<Rightarrow> deployer_res" where
  "migrate_d lib c raw =
     rbind (assert_private_d c) (\<lambda>_.
     rbind (stored_deployer lib raw) (\<lambda>current.
     Inr (current\<lparr>d_approved_hash := None, d_approved_at := None, d_deploy_locked_until := 0,
                  d_upgrade_proven := True\<rparr>,
          [DEmit DSelfUpgraded], DUnit)))"

section \<open>Publishing\<close>

definition gd_approve :: "ctx \<Rightarrow> crypto_hash \<Rightarrow> impl_deployer \<Rightarrow> deployer_res" where
  "gd_approve c hash d =
     rbind (assert_one_yocto_d c) (\<lambda>_.
     rbind (only_council_d c d) (\<lambda>_.
     Inr (d\<lparr>d_approved_hash := Some hash, d_approved_at := Some (block_timestamp c)\<rparr>,
          [DEmit (DHashApproved hash (predecessor_account_id c))], DUnit)))"

definition gd_deploy :: "deployer_lib \<Rightarrow> ctx \<Rightarrow> bytes \<Rightarrow> impl_deployer \<Rightarrow> deployer_res" where
  "gd_deploy lib c code d =
     require (d_deploy_locked_until d \<le> block_timestamp c) D_DEPLOY_IN_FLIGHT (
     require (code \<noteq> []) D_EMPTY_CODE (
     ok_or (d_approved_hash d) D_NO_APPROVED_HASH (\<lambda>approved.
     require (dl_sha256 lib code = approved) D_HASH_MISMATCH (
     ok_or (d_approved_at d) D_NO_APPROVED_HASH (\<lambda>approved_at.
     require (sat_add approved_at (d_approval_delay_ns d) \<le> block_timestamp c) D_APPROVAL_TOO_YOUNG (
     ok_or (checked_mul (of_nat (length code)) GLOBAL_CODE_COST_PER_BYTE) D_COST_OVERFLOW (\<lambda>cost.
     require (cost \<le> attached_deposit c) D_INSUFFICIENT_DEPOSIT (
     Inr (d\<lparr>d_deploy_locked_until := sat_add (block_timestamp c) DEPLOY_LOCK_TTL_NS\<rparr>,
          [DCall (DeployGlobal code) 0
             (Some (Gd_on_deployed approved (of_nat (length code)) (predecessor_account_id c)
                (attached_deposit c) (account_balance c)))], DPromise)))))))))"

definition gd_on_deployed ::
    "ctx \<Rightarrow> crypto_hash \<Rightarrow> u64 \<Rightarrow> account_id \<Rightarrow> u128 \<Rightarrow> u128 \<Rightarrow> promise_error + unit \<Rightarrow> impl_deployer
     \<Rightarrow> deployer_res" where
  "gd_on_deployed c hash size' payer attached balance_before result d =
     rbind (assert_private_d c) (\<lambda>_.
     case result of
       Inr _ \<Rightarrow>
         let spent = sat_sub balance_before (account_balance c);
             excess = sat_sub attached spent in
         Inr (d\<lparr>d_deploy_locked_until := 0, d_current_hash := Some hash, d_approved_hash := None,
                d_approved_at := None\<rparr>,
              DEmit (DImplDeployed hash size')
                # (if 0 < excess then [DCall (DTransferNear payer) excess None] else []), DBool True)
     | Inl _ \<Rightarrow>
         Inr (d\<lparr>d_deploy_locked_until := 0\<rparr>,
              [DEmit (DDeployFailed hash), DCall (DTransferNear payer) attached None], DBool False))"

definition deploy_cost :: "u64 \<Rightarrow> deployer_error + u128" where
  "deploy_cost size' = ok_or (checked_mul (ucast size') GLOBAL_CODE_COST_PER_BYTE) D_COST_OVERFLOW Inr"

section \<open>Governance\<close>

definition approve_self_upgrade :: "ctx \<Rightarrow> crypto_hash \<Rightarrow> impl_deployer \<Rightarrow> deployer_res" where
  "approve_self_upgrade c hash d =
     rbind (assert_one_yocto_d c) (\<lambda>_.
     rbind (only_council_d c d) (\<lambda>_.
     Inr (d\<lparr>d_approved_upgrade_hash := Some hash, d_approved_upgrade_at := Some (block_timestamp c)\<rparr>,
          [DEmit (DUpgradeApproved hash (predecessor_account_id c))], DUnit)))"

definition upgrade_self_d :: "deployer_lib \<Rightarrow> ctx \<Rightarrow> bytes \<Rightarrow> impl_deployer \<Rightarrow> deployer_res" where
  "upgrade_self_d lib c code d =
     rbind (assert_one_yocto_d c) (\<lambda>_.
     rbind (only_council_d c d) (\<lambda>_.
     require (code \<noteq> []) D_EMPTY_CODE (
     ok_or (d_approved_upgrade_hash d) D_NO_APPROVED_UPGRADE (\<lambda>approved.
     require (dl_sha256 lib code = approved) D_UPGRADE_HASH_MISMATCH (
     ok_or (d_approved_upgrade_at d) D_NO_APPROVED_UPGRADE (\<lambda>approved_at.
     require (sat_add approved_at (d_approval_delay_ns d) \<le> block_timestamp c) D_UPGRADE_TOO_YOUNG (
     Inr (d\<lparr>d_approved_upgrade_hash := None, d_approved_upgrade_at := None\<rparr>,
          [DCall (DDeployAndMigrate code) 0 None], DPromise))))))))"

definition approve_council_rotation_d :: "ctx \<Rightarrow> account_id \<Rightarrow> impl_deployer \<Rightarrow> deployer_res" where
  "approve_council_rotation_d c new_council d =
     rbind (assert_one_yocto_d c) (\<lambda>_.
     rbind (only_council_d c d) (\<lambda>_.
     require (new_council \<noteq> d_council d) D_COUNCIL_UNCHANGED (
     require (new_council \<noteq> current_account_id c) D_COUNCIL_IS_SELF (
     Inr (d\<lparr>d_pending_council := Some new_council, d_pending_council_at := Some (block_timestamp c)\<rparr>,
          [DEmit (DCouncilRotationApproved new_council (predecessor_account_id c))], DUnit)))))"

definition cancel_council_rotation_d :: "ctx \<Rightarrow> impl_deployer \<Rightarrow> deployer_res" where
  "cancel_council_rotation_d c d =
     rbind (assert_one_yocto_d c) (\<lambda>_.
     rbind (only_council_d c d) (\<lambda>_.
     require (d_pending_council d \<noteq> None) D_NO_COUNCIL_ROTATION_PENDING (
     Inr (d\<lparr>d_pending_council := None, d_pending_council_at := None\<rparr>,
          [DEmit (DCouncilRotationCancelled (predecessor_account_id c))], DUnit))))"

definition commit_council_rotation_d :: "ctx \<Rightarrow> impl_deployer \<Rightarrow> deployer_res" where
  "commit_council_rotation_d c d =
     rbind (assert_one_yocto_d c) (\<lambda>_.
     ok_or (d_pending_council d) D_NO_COUNCIL_ROTATION_PENDING (\<lambda>pending.
     require (predecessor_account_id c = pending) D_ONLY_PENDING_COUNCIL (
     ok_or (d_pending_council_at d) D_NO_COUNCIL_ROTATION_PENDING (\<lambda>approved_at.
     require (sat_add approved_at DEFAULT_APPROVAL_DELAY_NS \<le> block_timestamp c)
       D_COUNCIL_ROTATION_TOO_YOUNG (
     Inr (d\<lparr>d_council := pending, d_pending_council := None, d_pending_council_at := None\<rparr>,
          [DEmit (DCouncilRotated pending (predecessor_account_id c))], DUnit))))))"

definition pending_council_d :: "impl_deployer \<Rightarrow> (account_id \<times> u64) option" where
  "pending_council_d d =
     Option.bind (d_pending_council d) (\<lambda>a. map_option (Pair a) (d_pending_council_at d))"

definition gd_delete_key :: "ctx \<Rightarrow> string \<Rightarrow> impl_deployer \<Rightarrow> deployer_res" where
  "gd_delete_key c public_key d =
     rbind (assert_one_yocto_d c) (\<lambda>_.
     rbind (only_council_d c d) (\<lambda>_.
     require (d_upgrade_proven d) D_UPGRADE_NOT_PROVEN (
     Inr (d, [DCall (DDeleteKey public_key) 0
                (Some (Gd_on_key_deleted public_key (predecessor_account_id c)))], DPromise))))"

definition gd_on_key_deleted :: "ctx \<Rightarrow> string \<Rightarrow> account_id \<Rightarrow> impl_deployer \<Rightarrow> deployer_res" where
  "gd_on_key_deleted c public_key b d =
     rbind (assert_private_d c) (\<lambda>_.
     if \<not> is_promise_success c then Inr (d, [DEmit (DKeyDeleteFailed public_key b)], DBool False)
     else Inr (d, [DEmit (DKeyDeleted public_key b)], DBool True))"

text \<open>Whether the delay is long enough for production, as \<open>config\<close> reports it.\<close>

definition production_delay :: "impl_deployer \<Rightarrow> bool" where
  "production_delay d \<longleftrightarrow> DEFAULT_APPROVAL_DELAY_NS \<le> d_approval_delay_ns d"

section \<open>The publisher as a machine\<close>

datatype (plugins only:) deployer_call =
    DcApprove crypto_hash | DcDeploy bytes
  | DcOnDeployed crypto_hash u64 account_id u128 u128 "promise_error + unit"
  | DcApproveUpgrade crypto_hash | DcUpgrade bytes
  | DcApproveCouncil account_id | DcCancelCouncil | DcCommitCouncil
  | DcDeleteKey string | DcOnKeyDeleted string account_id

primrec deployer_exec :: "deployer_lib \<Rightarrow> ctx \<Rightarrow> deployer_call \<Rightarrow> impl_deployer \<Rightarrow> deployer_res" where
  "deployer_exec lib c (DcApprove h) d = gd_approve c h d"
| "deployer_exec lib c (DcDeploy code) d = gd_deploy lib c code d"
| "deployer_exec lib c (DcOnDeployed h n p a b res) d = gd_on_deployed c h n p a b res d"
| "deployer_exec lib c (DcApproveUpgrade h) d = approve_self_upgrade c h d"
| "deployer_exec lib c (DcUpgrade code) d = upgrade_self_d lib c code d"
| "deployer_exec lib c (DcApproveCouncil a) d = approve_council_rotation_d c a d"
| "deployer_exec lib c DcCancelCouncil d = cancel_council_rotation_d c d"
| "deployer_exec lib c DcCommitCouncil d = commit_council_rotation_d c d"
| "deployer_exec lib c (DcDeleteKey k) d = gd_delete_key c k d"
| "deployer_exec lib c (DcOnKeyDeleted k b) d = gd_on_key_deleted c k b d"

definition deployer_initial :: "account_id \<Rightarrow> u64 \<Rightarrow> impl_deployer \<Rightarrow> bool" where
  "deployer_initial self t d \<longleftrightarrow>
     (\<exists>c council delay. current_account_id c = self \<and> block_timestamp c = t
        \<and> deployer_new c False council delay = Inr d)"

inductive deployer_step ::
    "deployer_lib \<Rightarrow> account_id \<Rightarrow> u64 \<Rightarrow> impl_deployer \<Rightarrow> impl_deployer \<Rightarrow> bool" for lib self where
  d_call: "current_account_id c = self \<Longrightarrow> deployer_exec lib c k d = Inr (d', outs, ret)
           \<Longrightarrow> deployer_step lib self (block_timestamp c) d d'"
| d_migrate: "current_account_id c = self \<Longrightarrow> stored_deployer lib raw = Inr d
           \<Longrightarrow> migrate_d lib c raw = Inr (d', outs, ret)
           \<Longrightarrow> deployer_step lib self (block_timestamp c) d d'"

lemmas deployer_defs = gd_approve_def gd_deploy_def gd_on_deployed_def approve_self_upgrade_def
  upgrade_self_d_def approve_council_rotation_d_def cancel_council_rotation_d_def
  commit_council_rotation_d_def gd_delete_key_def gd_on_key_deleted_def

lemma deployer_guards_ok [simp]:
  "only_council_d c d = Inr u \<longleftrightarrow> predecessor_account_id c = d_council d"
  "assert_one_yocto_d c = Inr u \<longleftrightarrow> attached_deposit c = 1"
  "assert_private_d c = Inr u \<longleftrightarrow> predecessor_account_id c = current_account_id c \<and> attached_deposit c = 0"
  by (simp_all add: only_council_d_def assert_one_yocto_d_def assert_private_d_def is_private_call_def
      no_deposit_def)

text \<open>The council is never the contract, approvals carry a time that is not in the future, and the
  delay is the one fixed at initialisation.\<close>

definition deployer_inv :: "account_id \<Rightarrow> u64 \<Rightarrow> impl_deployer \<Rightarrow> bool" where
  "deployer_inv self t d \<longleftrightarrow> d_council d \<noteq> self \<and> d_pending_council d \<noteq> Some self
     \<and> (d_pending_council d = None \<longleftrightarrow> d_pending_council_at d = None)
     \<and> (d_approved_hash d = None \<longleftrightarrow> d_approved_at d = None)
     \<and> (\<forall>a. d_pending_council_at d = Some a \<longrightarrow> a \<le> t) \<and> (\<forall>a. d_approved_at d = Some a \<longrightarrow> a \<le> t)"

lemma deployer_inv_later: "deployer_inv self t d \<Longrightarrow> t \<le> t' \<Longrightarrow> deployer_inv self t' d"
  by (force simp: deployer_inv_def)

definition deployer_change :: "ctx \<Rightarrow> impl_deployer \<Rightarrow> impl_deployer \<Rightarrow> bool" where
  "deployer_change c d d' \<longleftrightarrow> d_approval_delay_ns d' = d_approval_delay_ns d
     \<and> (d_pending_council_at d' = d_pending_council_at d \<or> d_pending_council_at d' = None
          \<or> d_pending_council_at d' = Some (block_timestamp c))
     \<and> (d_council d' \<noteq> d_council d \<longrightarrow>
          (\<exists>a. d_pending_council_at d = Some a \<and> sat_add a DEFAULT_APPROVAL_DELAY_NS \<le> block_timestamp c))"

lemma exec_deployer:
  assumes "deployer_inv (current_account_id c) (block_timestamp c) d"
  shows "res_all (\<lambda>y. deployer_inv (current_account_id c) (block_timestamp c) (fst y)
    \<and> deployer_change c d (fst y)) (deployer_exec lib c k d)"
  using assms
  by (cases k; simp only: deployer_exec.simps deployer_defs Let_def; (intro res_walk)?)
    (auto simp: deployer_inv_def deployer_change_def)

lemma step_deployer:
  assumes "deployer_inv self t d" "t \<le> t'" "deployer_step lib self t' d d'"
  shows "deployer_inv self t' d' \<and> (\<exists>c. block_timestamp c = t' \<and> deployer_change c d d')"
  using assms(3)
proof cases
  case (d_call c k outs ret)
  then show ?thesis
    using res_allD [OF exec_deployer [of c d lib k]] deployer_inv_later [OF assms(1,2)] by fastforce
next
  case (d_migrate c raw outs ret)
  then show ?thesis
    using deployer_inv_later [OF assms(1,2)]
    by (auto simp: migrate_d_def deployer_inv_def deployer_change_def)
qed

lemma deployer_new_inv: "deployer_new c False council delay = Inr d \<Longrightarrow> deployer_inv (current_account_id c) t d"
  by (auto simp: deployer_new_def deployer_inv_def)

interpretation dpl: contract_machine "deployer_initial self" "deployer_step lib self"
  "deployer_inv self" for self lib
  by unfold_locales (auto simp: deployer_initial_def intro: deployer_new_inv dest: step_deployer)

lemma deployer_locks:
  assumes "deployer_inv self t d" "deployer_step lib self t d d'"
  shows "d_pending_council_at d' = d_pending_council_at d \<or> d_pending_council_at d' = None
      \<or> d_pending_council_at d' = Some t"
    and "d_council d' \<noteq> d_council d \<Longrightarrow>
      \<exists>a. d_pending_council_at d = Some a \<and> sat_add a DEFAULT_APPROVAL_DELAY_NS \<le> t"
  using step_deployer [OF assms(1) order_refl assms(2)] by (auto simp: deployer_change_def)

interpretation dpl_council: timelock "deployer_initial self" "deployer_step lib self"
  "deployer_inv self" d_council d_pending_council_at DEFAULT_APPROVAL_DELAY_NS for self lib
  by unfold_locales (auto dest: deployer_locks intro: deployer_inv_later)

lemma deployer_stamp:
  assumes "deployer_step lib self t d d'"
  shows "d_approved_at d' = d_approved_at d \<or> d_approved_at d' = None \<or> d_approved_at d' = Some t"
  using assms
proof cases
  case (d_call c k outs ret)
  have "res_all (\<lambda>y. d_approved_at (fst y) = d_approved_at d \<or> d_approved_at (fst y) = None
      \<or> d_approved_at (fst y) = Some (block_timestamp c)) (deployer_exec lib c k d)"
    by (cases k; simp only: deployer_exec.simps deployer_defs Let_def; (intro res_walk)?) auto
  then show ?thesis using d_call by (auto dest: res_allD)
next
  case (d_migrate c raw outs ret)
  then show ?thesis by (auto simp: migrate_d_def)
qed

interpretation dpl_code: timelock "deployer_initial self" "deployer_step lib self"
  "deployer_inv self" d_approval_delay_ns d_approved_at 0 for self lib
proof unfold_locales
  fix t s s' assume "deployer_inv self t s" "deployer_step lib self t s s'" "d_approval_delay_ns s' \<noteq> d_approval_delay_ns s"
  then show "\<exists>a. d_approved_at s = Some a \<and> sat_add a 0 \<le> t"
    using step_deployer [OF _ order_refl] by (fastforce simp: deployer_change_def)
qed (auto dest: deployer_stamp deployer_inv_later)

lemma run_delay:
  assumes "dpl.run lib self t d t' d'" "deployer_inv self t d"
  shows "d_approval_delay_ns d' = d_approval_delay_ns d"
  using assms
proof (rule dpl.run_stable [where P = "\<lambda>_ e. d_approval_delay_ns e = d_approval_delay_ns d"])
  fix t1 s1 t2 s2
  assume "deployer_inv self t1 s1" "t1 \<le> t2" "deployer_step lib self t2 s1 s2"
    "d_approval_delay_ns s1 = d_approval_delay_ns d"
  then show "d_approval_delay_ns s2 = d_approval_delay_ns d"
    using step_deployer by (fastforce simp: deployer_change_def)
qed simp

end
