(* ===== verification/Opener.thy ===== *)
theory Opener
  imports Recovery_Wire
begin

text \<open>
  The opener (\<open>contracts/registrar-opener/src\<close>) runs on the account that alone may create top level
  accounts. Two roles share it: the operator drafts a batch of names with the code, arguments
  and funding of their accounts; the admin approves the batch by its digest; the operator then
  opens the approved names, paying for each. A name whose creation fails goes back into its batch.

  The names of a batch live under their own storage prefix and outlive the batch record until
  they are forgotten; they are the field \<open>o_names\<close>, indexed by the batch id.
\<close>

section \<open>Constants\<close>

definition OPENER_STATE_VERSION :: u16 where "OPENER_STATE_VERSION = 2"
definition GAS_PER_NAME :: u64 where "GAS_PER_NAME = tgas 25"
definition MIN_FUNDING :: u128 where "MIN_FUNDING = 10 * 1000000000000000000000"
definition MAX_NAMES_PER_CALL :: nat where "MAX_NAMES_PER_CALL = 11"
definition MAX_NAMES_PER_ADD :: nat where "MAX_NAMES_PER_ADD = 100"
definition MAX_LIVE_BATCHES :: nat where "MAX_LIVE_BATCHES = 4"
definition MAX_INIT_ARGS_LEN :: nat where "MAX_INIT_ARGS_LEN = 1024"
definition DIGEST_DOMAIN :: bytes where "DIGEST_DOMAIN = as_bytes ''registrar-opener:batch:v2''"
definition MIN_TLA_LEN :: nat where "MIN_TLA_LEN = 3"
definition MAX_TLA_LEN :: nat where "MAX_TLA_LEN = 64"

section \<open>State, errors, events\<close>

record batch =
  b_approved :: bool
  b_digest :: crypto_hash
  b_count :: u32
  b_remaining :: u32
  b_global_code :: account_id
  b_init_args :: string
  b_funding :: u128

record registrar_opener =
  o_state_version :: u16
  o_admin :: account_id
  o_pending_admin :: "account_id option"
  o_operator :: account_id
  o_batches :: "u32 \<rightharpoonup> batch"
  o_next_batch_id :: u32
  o_opened :: u64
  o_failed :: u64
  o_names :: "u32 \<Rightarrow> account_id set"

datatype opener_error =
    O_ONLY_ADMIN | O_ONLY_OPERATOR | O_ONLY_ADMIN_OR_OPERATOR | O_ONLY_SELF | O_ONLY_PENDING_ADMIN
  | O_NO_PENDING_ADMIN | O_ADMIN_IS_OPERATOR | O_NOMINEE_IS_OPERATOR | O_ROLE_IS_SELF
  | O_ALREADY_INSTALLED | O_NO_STATE | O_STATE_VERSION_UNKNOWN | O_BATCHES_LIVE | O_ONE_YOCTO
  | O_NO_BATCH | O_BATCH_APPROVED | O_BATCH_NOT_APPROVED | O_BATCH_EMPTY | O_BATCH_LIVE
  | O_BATCH_NOT_DISCARDED | O_TOO_MANY_BATCHES | O_BATCH_IDS_EXHAUSTED | O_DIGEST_MISMATCH
  | O_CODE_IS_SELF | O_INIT_ARGS_TOO_LONG | O_INIT_ARGS_NOT_AN_OBJECT | O_NOT_IN_BATCH
  | O_EMPTY_NAMES | O_TOO_MANY_NAMES | O_DUPLICATE_NAME | O_NOT_TOP_LEVEL | O_NAME_TOO_SHORT
  | O_NAME_TOO_LONG | O_NAME_IS_IMPLICIT | O_GAS_TOO_LOW | O_FUNDING_TOO_LOW | O_DEPOSIT_MISMATCH
  | O_OPEN_FAILED | O_UPGRADE_FAILED | O_PrivateMethod | O_NotPayable

datatype opener_event =
    OInstalled u16 account_id account_id
  | OMigrated u16
  | OBatchApproved u32 u32 crypto_hash
  | OOperatorChanged account_id
  | OAdminNominated account_id
  | OAdminChanged account_id
  | ONominationCancelled account_id
  | OOpening account_id "u32 option"
  | OOpened "u32 option" account_id
  | OOpenFailed u32 account_id
  | OUpgrading crypto_hash
  | OUpgraded crypto_hash
  | OBatchCreated u32 u128 account_id
  | ONamesAdded u32 u32 crypto_hash
  | OBatchDiscarded u32 bool
  | ONamesForgotten u32 u32

datatype opener_callback =
    On_account_created account_id
  | On_name_opened u32 account_id
  | On_upgraded crypto_hash

text \<open>\<open>OpenAccount name funding code args\<close> is the batch of \<open>open_account\<close>: create the account,
  transfer the funding, use the global code, call \<open>new\<close> with the arguments.\<close>

datatype opener_remote =
    OpenAccount account_id u128 account_id string
  | ODeployAndMigrate bytes

datatype opener_out =
    OEmit opener_event
  | OCall opener_remote u128 "opener_callback option"

datatype opener_ret = OUnit | OPromise | OId u32 | ODigest crypto_hash | OCount u32 | OBool bool

type_synonym opener_res = "opener_error + (registrar_opener \<times> opener_out list \<times> opener_ret)"

text \<open>What belongs to the SDK and to \<open>serde_json\<close>: the hash, the test for implicit account ids,
  whether a text is a JSON object, and the borsh decoder.\<close>

record opener_lib =
  ol_sha256 :: "bytes \<Rightarrow> crypto_hash"
  ol_is_implicit :: "account_id \<Rightarrow> bool"
  ol_json_object :: "string \<Rightarrow> bool"
  ol_decode :: "bytes \<Rightarrow> registrar_opener option"

section \<open>Guards and name checks\<close>

definition assert_one_yocto_o :: "ctx \<Rightarrow> opener_error + unit" where
  "assert_one_yocto_o c = require (attached_deposit c = 1) O_ONE_YOCTO (Inr ())"

definition assert_admin_account :: "ctx \<Rightarrow> registrar_opener \<Rightarrow> opener_error + unit" where
  "assert_admin_account c s = require (predecessor_account_id c = o_admin s) O_ONLY_ADMIN (Inr ())"

definition assert_admin_o :: "ctx \<Rightarrow> registrar_opener \<Rightarrow> opener_error + unit" where
  "assert_admin_o c s = rbind (assert_one_yocto_o c) (\<lambda>_. assert_admin_account c s)"

definition assert_operator_account :: "ctx \<Rightarrow> registrar_opener \<Rightarrow> opener_error + unit" where
  "assert_operator_account c s = require (predecessor_account_id c = o_operator s) O_ONLY_OPERATOR (Inr ())"

definition assert_operator :: "ctx \<Rightarrow> registrar_opener \<Rightarrow> opener_error + unit" where
  "assert_operator c s = rbind (assert_one_yocto_o c) (\<lambda>_. assert_operator_account c s)"

definition assert_admin_or_operator :: "ctx \<Rightarrow> registrar_opener \<Rightarrow> opener_error + account_id" where
  "assert_admin_or_operator c s =
     rbind (assert_one_yocto_o c) (\<lambda>_.
     let caller = predecessor_account_id c in
     require (caller = o_operator s \<or> caller = o_admin s) O_ONLY_ADMIN_OR_OPERATOR (Inr caller))"

definition assert_private_o :: "ctx \<Rightarrow> opener_error + unit" where
  "assert_private_o c =
     require (is_private_call c) O_PrivateMethod (require (no_deposit c) O_NotPayable (Inr ()))"

definition batch_mut :: "u32 \<Rightarrow> registrar_opener \<Rightarrow> opener_error + batch" where
  "batch_mut batch_id s = ok_or (o_batches s batch_id) O_NO_BATCH Inr"

definition set_batch :: "u32 \<Rightarrow> batch \<Rightarrow> registrar_opener \<Rightarrow> registrar_opener" where
  "set_batch batch_id b s = s\<lparr>o_batches := (o_batches s)(batch_id \<mapsto> b)\<rparr>"

fun check_names :: "opener_lib \<Rightarrow> account_id list \<Rightarrow> opener_error + unit" where
  "check_names lib [] = Inr ()"
| "check_names lib (raw # rest) =
     require (CHR ''.'' \<notin> set raw) O_NOT_TOP_LEVEL (
     require (MIN_TLA_LEN \<le> length raw) O_NAME_TOO_SHORT (
     require (length raw \<le> MAX_TLA_LEN) O_NAME_TOO_LONG (
     require (\<not> ol_is_implicit lib raw) O_NAME_IS_IMPLICIT (
     check_names lib rest))))"

definition assert_openable :: "opener_lib \<Rightarrow> account_id list \<Rightarrow> opener_error + unit" where
  "assert_openable lib names =
     require (names \<noteq> []) O_EMPTY_NAMES (
     require (distinct names) O_DUPLICATE_NAME (
     check_names lib names))"

definition assert_setup :: "opener_lib \<Rightarrow> ctx \<Rightarrow> account_id \<Rightarrow> string \<Rightarrow> opener_error + unit" where
  "assert_setup lib c global_code init_args =
     require (global_code \<noteq> current_account_id c) O_CODE_IS_SELF (
     require (length init_args \<le> MAX_INIT_ARGS_LEN) O_INIT_ARGS_TOO_LONG (
     require (ol_json_object lib init_args) O_INIT_ARGS_NOT_AN_OBJECT (Inr ())))"

section \<open>Digests\<close>

definition seed_digest :: "opener_lib \<Rightarrow> account_id \<Rightarrow> string \<Rightarrow> u128 \<Rightarrow> crypto_hash" where
  "seed_digest lib global_code init_args funding =
     ol_sha256 lib (DIGEST_DOMAIN
       @ concat (map (\<lambda>part. to_le_bytes_32 (of_nat (length part)) @ part)
           [as_bytes global_code, as_bytes init_args])
       @ to_le_bytes_128 funding)"

definition fold_digest :: "opener_lib \<Rightarrow> crypto_hash \<Rightarrow> account_id \<Rightarrow> crypto_hash" where
  "fold_digest lib digest name = ol_sha256 lib (digest @ as_bytes name)"

section \<open>Installation and migration\<close>

definition opener_new ::
    "opener_lib \<Rightarrow> ctx \<Rightarrow> bytes option \<Rightarrow> (u32 \<Rightarrow> account_id set) \<Rightarrow> account_id \<Rightarrow> account_id \<Rightarrow> opener_res" where
  "opener_new lib c raw rows admin operator =
     (let here = current_account_id c in
     require (no_deposit c) O_NotPayable (
     require (predecessor_account_id c = here) O_ONLY_SELF (
     require (try_state_read (ol_decode lib) raw = None) O_ALREADY_INSTALLED (
     require (admin \<noteq> operator) O_ADMIN_IS_OPERATOR (
     require (admin \<noteq> here \<and> operator \<noteq> here) O_ROLE_IS_SELF (
     Inr (\<lparr>o_state_version = OPENER_STATE_VERSION, o_admin = admin, o_pending_admin = None,
           o_operator = operator, o_batches = Map.empty, o_next_batch_id = 0, o_opened = 0,
           o_failed = 0, o_names = rows\<rparr>,
          [OEmit (OInstalled OPENER_STATE_VERSION admin operator)], OUnit)))))))"

definition migrate_o :: "ctx \<Rightarrow> registrar_opener option \<Rightarrow> opener_res" where
  "migrate_o c stored =
     require (no_deposit c) O_NotPayable (
     require (predecessor_account_id c = current_account_id c) O_ONLY_SELF (
     ok_or stored O_NO_STATE (\<lambda>s.
     if o_state_version s = OPENER_STATE_VERSION
     then Inr (s, [OEmit (OMigrated (o_state_version s))], OUnit)
     else if o_state_version s = 1 then
       require (dom (o_batches s) = {}) O_BATCHES_LIVE (
       Inr (s\<lparr>o_state_version := OPENER_STATE_VERSION\<rparr>, [OEmit (OMigrated OPENER_STATE_VERSION)], OUnit))
     else Inl O_STATE_VERSION_UNKNOWN)))"

section \<open>Roles\<close>

definition approve_batch :: "ctx \<Rightarrow> u32 \<Rightarrow> crypto_hash \<Rightarrow> registrar_opener \<Rightarrow> opener_res" where
  "approve_batch c batch_id digest s =
     rbind (assert_admin_o c s) (\<lambda>_.
     rbind (batch_mut batch_id s) (\<lambda>b.
     require (\<not> b_approved b) O_BATCH_APPROVED (
     require (0 < b_remaining b) O_BATCH_EMPTY (
     require (b_digest b = digest) O_DIGEST_MISMATCH (
     Inr (set_batch batch_id (b\<lparr>b_approved := True\<rparr>) s,
          [OEmit (OBatchApproved batch_id (b_count b) digest)], OUnit))))))"

definition change_operator :: "ctx \<Rightarrow> account_id \<Rightarrow> registrar_opener \<Rightarrow> opener_res" where
  "change_operator c operator s =
     rbind (assert_admin_o c s) (\<lambda>_.
     require (operator \<noteq> o_admin s) O_ADMIN_IS_OPERATOR (
     require (o_pending_admin s \<noteq> Some operator) O_NOMINEE_IS_OPERATOR (
     require (operator \<noteq> current_account_id c) O_ROLE_IS_SELF (
     Inr (s\<lparr>o_operator := operator\<rparr>, [OEmit (OOperatorChanged operator)], OUnit)))))"

definition change_admin :: "ctx \<Rightarrow> account_id \<Rightarrow> registrar_opener \<Rightarrow> opener_res" where
  "change_admin c admin s =
     rbind (assert_admin_o c s) (\<lambda>_.
     require (admin \<noteq> o_operator s) O_ADMIN_IS_OPERATOR (
     require (admin \<noteq> current_account_id c) O_ROLE_IS_SELF (
     Inr (s\<lparr>o_pending_admin := Some admin\<rparr>, [OEmit (OAdminNominated admin)], OUnit))))"

definition accept_admin :: "ctx \<Rightarrow> registrar_opener \<Rightarrow> opener_res" where
  "accept_admin c s =
     rbind (assert_one_yocto_o c) (\<lambda>_.
     ok_or (o_pending_admin s) O_NO_PENDING_ADMIN (\<lambda>nominee.
     require (predecessor_account_id c = nominee) O_ONLY_PENDING_ADMIN (
     require (nominee \<noteq> o_operator s) O_NOMINEE_IS_OPERATOR (
     Inr (s\<lparr>o_admin := nominee, o_pending_admin := None\<rparr>, [OEmit (OAdminChanged nominee)], OUnit)))))"

definition cancel_nomination :: "ctx \<Rightarrow> registrar_opener \<Rightarrow> opener_res" where
  "cancel_nomination c s =
     rbind (assert_admin_o c s) (\<lambda>_.
     ok_or (o_pending_admin s) O_NO_PENDING_ADMIN (\<lambda>nominee.
     Inr (s\<lparr>o_pending_admin := None\<rparr>, [OEmit (ONominationCancelled nominee)], OUnit)))"

definition open_account ::
    "account_id \<Rightarrow> u128 \<Rightarrow> account_id \<Rightarrow> string \<Rightarrow> opener_callback \<Rightarrow> opener_out" where
  "open_account name funding global_code init_args cb =
     OCall (OpenAccount name funding global_code init_args) funding (Some cb)"

definition create_account ::
    "opener_lib \<Rightarrow> ctx \<Rightarrow> account_id \<Rightarrow> account_id \<Rightarrow> string \<Rightarrow> registrar_opener \<Rightarrow> opener_res" where
  "create_account lib c name global_code init_args s =
     (let funding = attached_deposit c in
     rbind (assert_admin_account c s) (\<lambda>_.
     require (MIN_FUNDING \<le> funding) O_FUNDING_TOO_LOW (
     rbind (assert_openable lib [name]) (\<lambda>_.
     rbind (assert_setup lib c global_code init_args) (\<lambda>_.
     Inr (s, [OEmit (OOpening name None),
              open_account name funding global_code init_args (On_account_created name)], OPromise))))))"

definition on_account_created :: "ctx \<Rightarrow> account_id \<Rightarrow> registrar_opener \<Rightarrow> opener_res" where
  "on_account_created c name s =
     rbind (assert_private_o c) (\<lambda>_.
     require (is_promise_success c) O_OPEN_FAILED (
     Inr (s\<lparr>o_opened := sat_add (o_opened s) 1\<rparr>, [OEmit (OOpened None name)], OUnit)))"

definition upgrade_o :: "opener_lib \<Rightarrow> ctx \<Rightarrow> bytes \<Rightarrow> registrar_opener \<Rightarrow> opener_res" where
  "upgrade_o lib c code s =
     rbind (assert_admin_o c s) (\<lambda>_.
     Inr (s, [OEmit (OUpgrading (ol_sha256 lib code)),
              OCall (ODeployAndMigrate code) 0 (Some (On_upgraded (ol_sha256 lib code)))], OPromise))"

definition on_upgraded :: "ctx \<Rightarrow> crypto_hash \<Rightarrow> registrar_opener \<Rightarrow> opener_res" where
  "on_upgraded c code_hash s =
     rbind (assert_private_o c) (\<lambda>_.
     require (is_promise_success c) O_UPGRADE_FAILED (
     Inr (s, [OEmit (OUpgraded code_hash)], OUnit)))"

section \<open>Batches\<close>

definition create_batch ::
    "opener_lib \<Rightarrow> ctx \<Rightarrow> account_id \<Rightarrow> string \<Rightarrow> u128 \<Rightarrow> registrar_opener \<Rightarrow> opener_res" where
  "create_batch lib c global_code init_args funding s =
     rbind (assert_operator c s) (\<lambda>_.
     require (MIN_FUNDING \<le> funding) O_FUNDING_TOO_LOW (
     rbind (assert_setup lib c global_code init_args) (\<lambda>_.
     require (card (dom (o_batches s)) < MAX_LIVE_BATCHES) O_TOO_MANY_BATCHES (
     let batch_id = o_next_batch_id s in
     ok_or (checked_add batch_id 1) O_BATCH_IDS_EXHAUSTED (\<lambda>next_id.
     Inr (set_batch batch_id
            \<lparr>b_approved = False, b_digest = seed_digest lib global_code init_args funding, b_count = 0,
             b_remaining = 0, b_global_code = global_code, b_init_args = init_args, b_funding = funding\<rparr>
            (s\<lparr>o_next_batch_id := next_id\<rparr>),
          [OEmit (OBatchCreated batch_id funding global_code)], OId batch_id))))))"

text \<open>The loop of \<open>add_names\<close>: each name must be new to the batch.\<close>

definition add_name ::
    "opener_lib \<Rightarrow> account_id \<Rightarrow> batch \<times> account_id set \<Rightarrow> opener_error + batch \<times> account_id set" where
  "add_name lib name st =
     (let (b, names) = st in
     require (name \<notin> names) O_DUPLICATE_NAME (
     Inr (b\<lparr>b_digest := fold_digest lib (b_digest b) name, b_count := sat_add (b_count b) 1,
            b_remaining := sat_add (b_remaining b) 1\<rparr>, insert name names)))"

definition add_names :: "opener_lib \<Rightarrow> ctx \<Rightarrow> u32 \<Rightarrow> account_id list \<Rightarrow> registrar_opener \<Rightarrow> opener_res" where
  "add_names lib c batch_id names s =
     rbind (assert_operator c s) (\<lambda>_.
     require (length names \<le> MAX_NAMES_PER_ADD) O_TOO_MANY_NAMES (
     rbind (assert_openable lib names) (\<lambda>_.
     rbind (batch_mut batch_id s) (\<lambda>b.
     require (\<not> b_approved b) O_BATCH_APPROVED (
     rbind (rfold (add_name lib) names (b, o_names s batch_id)) (\<lambda>(b', rows).
     Inr (set_batch batch_id b' (s\<lparr>o_names := (o_names s)(batch_id := rows)\<rparr>),
          [OEmit (ONamesAdded batch_id (b_count b') (b_digest b'))], ODigest (b_digest b'))))))))"

definition discard_batch :: "ctx \<Rightarrow> u32 \<Rightarrow> registrar_opener \<Rightarrow> opener_res" where
  "discard_batch c batch_id s =
     rbind (assert_admin_or_operator c s) (\<lambda>caller.
     let revoking = caller = o_admin s in
     rbind (batch_mut batch_id s) (\<lambda>b.
     let spent = b_remaining b = 0 in
     require (revoking \<or> spent \<or> \<not> b_approved b) O_BATCH_LIVE (
     Inr (s\<lparr>o_batches := (o_batches s)(batch_id := None)\<rparr>,
          [OEmit (OBatchDiscarded batch_id revoking)], OUnit))))"

fun forget_loop :: "account_id list \<Rightarrow> account_id set \<times> u32 \<Rightarrow> account_id set \<times> u32" where
  "forget_loop [] st = st"
| "forget_loop (name # rest) (rows, freed) =
     forget_loop rest (rows - {name}, if name \<in> rows then sat_add freed 1 else freed)"

definition forget_names :: "ctx \<Rightarrow> u32 \<Rightarrow> account_id list \<Rightarrow> registrar_opener \<Rightarrow> opener_res" where
  "forget_names c batch_id names s =
     rbind (assert_admin_or_operator c s) (\<lambda>_.
     require (names \<noteq> []) O_EMPTY_NAMES (
     require (length names \<le> MAX_NAMES_PER_ADD) O_TOO_MANY_NAMES (
     require (batch_id < o_next_batch_id s) O_NO_BATCH (
     require (o_batches s batch_id = None) O_BATCH_NOT_DISCARDED (
     let (rows, freed) = forget_loop names (o_names s batch_id, 0) in
     Inr (s\<lparr>o_names := (o_names s)(batch_id := rows)\<rparr>,
          [OEmit (ONamesForgotten batch_id freed)], OCount freed))))))"

text \<open>The loop of \<open>open_names\<close> that takes the names out of the batch.\<close>

definition take_name ::
    "account_id \<Rightarrow> batch \<times> account_id set \<Rightarrow> opener_error + batch \<times> account_id set" where
  "take_name name st =
     (let (b, rows) = st in
     require (name \<in> rows) O_NOT_IN_BATCH (
     Inr (b\<lparr>b_remaining := sat_sub (b_remaining b) 1\<rparr>, rows - {name})))"

definition open_names :: "opener_lib \<Rightarrow> ctx \<Rightarrow> u32 \<Rightarrow> account_id list \<Rightarrow> registrar_opener \<Rightarrow> opener_res" where
  "open_names lib c batch_id names s =
     rbind (assert_operator_account c s) (\<lambda>_.
     require (length names \<le> MAX_NAMES_PER_CALL) O_TOO_MANY_NAMES (
     rbind (assert_openable lib names) (\<lambda>_.
     require (sat_mul GAS_PER_NAME (of_nat (length names)) \<le> prepaid_gas c) O_GAS_TOO_LOW (
     rbind (batch_mut batch_id s) (\<lambda>b.
     require (b_approved b) O_BATCH_NOT_APPROVED (
     require (attached_deposit c = sat_mul (b_funding b) (of_nat (length names))) O_DEPOSIT_MISMATCH (
     rbind (rfold take_name names (b, o_names s batch_id)) (\<lambda>(b', rows).
     Inr (set_batch batch_id b' (s\<lparr>o_names := (o_names s)(batch_id := rows)\<rparr>),
          concat (map (\<lambda>name. [OEmit (OOpening name (Some batch_id)),
             open_account name (b_funding b) (b_global_code b) (b_init_args b)
               (On_name_opened batch_id name)]) names),
          OCount (of_nat (length names)))))))))))"

definition on_name_opened :: "ctx \<Rightarrow> u32 \<Rightarrow> account_id \<Rightarrow> registrar_opener \<Rightarrow> opener_res" where
  "on_name_opened c batch_id name s =
     rbind (assert_private_o c) (\<lambda>_.
     if is_promise_success c
     then Inr (s\<lparr>o_opened := sat_add (o_opened s) 1\<rparr>, [OEmit (OOpened (Some batch_id) name)], OBool True)
     else
       let s1 = s\<lparr>o_failed := sat_add (o_failed s) 1\<rparr>;
           s2 = (case o_batches s batch_id of
                   None \<Rightarrow> s1
                 | Some b \<Rightarrow>
                     if name \<in> o_names s batch_id then s1
                     else set_batch batch_id (b\<lparr>b_remaining := sat_add (b_remaining b) 1\<rparr>)
                            (s1\<lparr>o_names := (o_names s)(batch_id := insert name (o_names s batch_id))\<rparr>))
       in Inr (s2, [OEmit (OOpenFailed batch_id name)], OBool False))"

section \<open>Views\<close>

definition is_in_batch :: "u32 \<Rightarrow> account_id \<Rightarrow> registrar_opener \<Rightarrow> bool" where
  "is_in_batch batch_id name s \<longleftrightarrow> o_batches s batch_id \<noteq> None \<and> name \<in> o_names s batch_id"

definition get_batch :: "u32 \<Rightarrow> registrar_opener \<Rightarrow> batch option" where
  "get_batch batch_id s = o_batches s batch_id"

section \<open>The wipe\<close>

text \<open>
  \<open>contracts/registrar-opener-wipe\<close>: code that is deployed for one receipt, to clear the ten rows
  the account is known to hold. The storage is a map from keys to values; the parser of public
  keys and the hash are arguments.
\<close>

definition INSTALLED_STATE_SHA256 :: crypto_hash where
  "INSTALLED_STATE_SHA256 =
     [0x42, 0xf6, 0xe2, 0xdf, 0x70, 0xdb, 0xa1, 0x72, 0xef, 0xf7, 0xaa, 0x33, 0x1d, 0x17, 0xf2, 0xb9,
      0x97, 0x62, 0xc5, 0x91, 0xa6, 0xe5, 0x6d, 0xdd, 0x96, 0xf9, 0xde, 0x10, 0xf0, 0xa5, 0x71, 0x6d]"

definition MULTISIG_MEMBERS :: "string list" where
  "MULTISIG_MEMBERS =
     [''ed25519:BFVZgNSbUf3rVcwFww7vbXXfWy38VLgpv3PdPFbHotkP'',
      ''ed25519:LjaV16AvozjU8ZFbAFHBQnVzuhCDotM3mtPU2kuqQrG'',
      ''ed25519:9gGJF6M36oNiUb2cGACGc6BdRBD6f5QDxPZeMpyrj9X3'',
      ''ed25519:4BGbi2xFEp7hBsfGGLsrzB2DY2VTaADxh4KdpqdCsgSf'']"

definition MULTISIG_REQUEST_COUNTER_OWNER :: string where
  "MULTISIG_REQUEST_COUNTER_OWNER =
     ''{\"public_key\":\"ed25519:4BGbi2xFEp7hBsfGGLsrzB2DY2VTaADxh4KdpqdCsgSf\"}''"

datatype wipe_error = W_ONLY_SELF | W_NOT_THE_INSTALL | W_ROW_MISSING | W_KEY_DOES_NOT_PARSE

fun member_rows :: "(string \<Rightarrow> public_key option) \<Rightarrow> u64 \<Rightarrow> string list \<Rightarrow> wipe_error + bytes list" where
  "member_rows parse index [] = Inr []"
| "member_rows parse index (raw # rest) =
     ok_or (parse raw) W_KEY_DOES_NOT_PARSE (\<lambda>key.
     rbind (member_rows parse (index + 1) rest) (\<lambda>rows.
     Inr ((0 # as_bytes ''e'' @ to_le_bytes_64 index)
          # (0 # as_bytes ''i'' @ [0] @ to_le_bytes_32 (of_nat (length key)) @ key) # rows)))"

definition multisig_rows :: "(string \<Rightarrow> public_key option) \<Rightarrow> wipe_error + bytes list" where
  "multisig_rows parse =
     rbind (member_rows parse 0 MULTISIG_MEMBERS) (\<lambda>rows.
     Inr (rows @ [3 # to_le_bytes_32 (of_nat (length MULTISIG_REQUEST_COUNTER_OWNER))
                    @ as_bytes MULTISIG_REQUEST_COUNTER_OWNER]))"

definition remove_row :: "bytes \<Rightarrow> (bytes \<rightharpoonup> bytes) \<Rightarrow> wipe_error + (bytes \<rightharpoonup> bytes)" where
  "remove_row key st = require (st key \<noteq> None) W_ROW_MISSING (Inr (st(key := None)))"

definition clear_install ::
    "(string \<Rightarrow> public_key option) \<Rightarrow> (bytes \<Rightarrow> crypto_hash) \<Rightarrow> ctx \<Rightarrow> (bytes \<rightharpoonup> bytes)
     \<Rightarrow> wipe_error + (bytes \<rightharpoonup> bytes)" where
  "clear_install parse sha256 c st =
     require (predecessor_account_id c = current_account_id c) W_ONLY_SELF (
     ok_or (st (as_bytes ''STATE'')) W_NOT_THE_INSTALL (\<lambda>stored.
     require (sha256 stored = INSTALLED_STATE_SHA256) W_NOT_THE_INSTALL (
     rbind (multisig_rows parse) (\<lambda>rows.
     rfold remove_row rows (st(as_bytes ''STATE'' := None))))))"

end
