(* ===== verification/Opener_Machine.thy ===== *)
theory Opener_Machine
  imports Opener Timelock
begin

text \<open>
  The opener as a machine. Beside the contract's own state the machine remembers which names have
  been sent out to be created and have not been answered: a callback runs only for one of those.
  The invariant ties every live batch to the list of names behind its digest.
\<close>

section \<open>Calls and steps\<close>

datatype (plugins only:) opener_call =
    OcApproveBatch u32 crypto_hash | OcChangeOperator account_id | OcChangeAdmin account_id
  | OcAcceptAdmin | OcCancelNomination
  | OcCreateAccount account_id account_id string | OcOnAccountCreated account_id
  | OcUpgrade bytes | OcOnUpgraded crypto_hash
  | OcCreateBatch account_id string u128 | OcAddNames u32 "account_id list"
  | OcDiscard u32 | OcForget u32 "account_id list"
  | OcOpen u32 "account_id list"

primrec opener_exec :: "opener_lib \<Rightarrow> ctx \<Rightarrow> opener_call \<Rightarrow> registrar_opener \<Rightarrow> opener_res" where
  "opener_exec lib c (OcApproveBatch b h) s = approve_batch c b h s"
| "opener_exec lib c (OcChangeOperator a) s = change_operator c a s"
| "opener_exec lib c (OcChangeAdmin a) s = change_admin c a s"
| "opener_exec lib c OcAcceptAdmin s = accept_admin c s"
| "opener_exec lib c OcCancelNomination s = cancel_nomination c s"
| "opener_exec lib c (OcCreateAccount n g a) s = create_account lib c n g a s"
| "opener_exec lib c (OcOnAccountCreated n) s = on_account_created c n s"
| "opener_exec lib c (OcUpgrade code) s = upgrade_o lib c code s"
| "opener_exec lib c (OcOnUpgraded h) s = on_upgraded c h s"
| "opener_exec lib c (OcCreateBatch g a f) s = create_batch lib c g a f s"
| "opener_exec lib c (OcAddNames b ns) s = add_names lib c b ns s"
| "opener_exec lib c (OcDiscard b) s = discard_batch c b s"
| "opener_exec lib c (OcForget b ns) s = forget_names c b ns s"
| "opener_exec lib c (OcOpen b ns) s = open_names lib c b ns s"

type_synonym opener_sys = "registrar_opener \<times> (u32 \<times> account_id) set"

definition sent :: "opener_out list \<Rightarrow> (u32 \<times> account_id) set" where
  "sent outs = {(b, n). \<exists>r d. OCall r d (Some (On_name_opened b n)) \<in> set outs}"

definition opener_initial :: "opener_lib \<Rightarrow> account_id \<Rightarrow> u64 \<Rightarrow> opener_sys \<Rightarrow> bool" where
  "opener_initial lib self t sys \<longleftrightarrow>
     (\<exists>c raw admin operator outs ret s. current_account_id c = self \<and> block_timestamp c = t
        \<and> opener_new lib c raw (\<lambda>_. {}) admin operator = Inr (s, outs, ret) \<and> sys = (s, {}))"

inductive opener_step :: "opener_lib \<Rightarrow> account_id \<Rightarrow> u64 \<Rightarrow> opener_sys \<Rightarrow> opener_sys \<Rightarrow> bool"
  for lib self where
  o_call: "current_account_id c = self \<Longrightarrow> opener_exec lib c k s = Inr (s', outs, ret)
     \<Longrightarrow> opener_step lib self (block_timestamp c) (s, fl) (s', fl \<union> sent outs)"
| o_back: "current_account_id c = self \<Longrightarrow> (b, n) \<in> fl \<Longrightarrow> on_name_opened c b n s = Inr (s', outs, ret)
     \<Longrightarrow> opener_step lib self (block_timestamp c) (s, fl) (s', fl - {(b, n)})"
| o_migrate: "current_account_id c = self \<Longrightarrow> migrate_o c (Some s) = Inr (s', outs, ret)
     \<Longrightarrow> opener_step lib self (block_timestamp c) (s, fl) (s', fl)"

lemmas opener_defs = approve_batch_def change_operator_def change_admin_def accept_admin_def
  cancel_nomination_def create_account_def on_account_created_def upgrade_o_def on_upgraded_def
  create_batch_def add_names_def discard_batch_def forget_names_def open_names_def

lemma opener_guards_ok [simp]:
  "assert_admin_o c s = Inr u \<longleftrightarrow> attached_deposit c = 1 \<and> predecessor_account_id c = o_admin s"
  "assert_operator c s = Inr u \<longleftrightarrow> attached_deposit c = 1 \<and> predecessor_account_id c = o_operator s"
  "assert_operator_account c s = Inr u \<longleftrightarrow> predecessor_account_id c = o_operator s"
  "assert_admin_account c s = Inr u \<longleftrightarrow> predecessor_account_id c = o_admin s"
  "assert_one_yocto_o c = Inr u \<longleftrightarrow> attached_deposit c = 1"
  "assert_private_o c = Inr u \<longleftrightarrow> predecessor_account_id c = current_account_id c \<and> attached_deposit c = 0"
  "batch_mut i s = Inr b \<longleftrightarrow> o_batches s i = Some b"
  by (auto simp: assert_admin_o_def assert_operator_def assert_operator_account_def assert_admin_account_def
      assert_one_yocto_o_def assert_private_o_def is_private_call_def no_deposit_def batch_mut_def)

section \<open>Names and digests\<close>

text \<open>The digest of a list of names under a setup: what the admin approves.\<close>

definition digest_of :: "opener_lib \<Rightarrow> account_id \<Rightarrow> string \<Rightarrow> u128 \<Rightarrow> account_id list \<Rightarrow> crypto_hash" where
  "digest_of lib code args funding ns = foldl (fold_digest lib) (seed_digest lib code args funding) ns"

definition openable :: "opener_lib \<Rightarrow> account_id \<Rightarrow> bool" where
  "openable lib n \<longleftrightarrow> CHR ''.'' \<notin> set n \<and> 3 \<le> length n \<and> length n \<le> 64 \<and> \<not> ol_is_implicit lib n"

lemma check_names_iff: "check_names lib ns = Inr u \<longleftrightarrow> (\<forall>n\<in>set ns. openable lib n)"
  by (induction lib ns rule: check_names.induct) (auto simp: openable_def MIN_TLA_LEN_def MAX_TLA_LEN_def)

lemma assert_openable_iff [simp]:
  "assert_openable lib ns = Inr u \<longleftrightarrow> ns \<noteq> [] \<and> distinct ns \<and> (\<forall>n\<in>set ns. openable lib n)"
  by (simp add: assert_openable_def check_names_iff)

text \<open>What the two loops over the names leave, for any batch they start from.\<close>

lemma add_loop:
  assumes "rfold (add_name lib) ns (b, rows) = Inr (b', rows')"
  shows "rows' = rows \<union> set ns \<and> set ns \<inter> rows = {} \<and> distinct ns
    \<and> b_digest b' = foldl (fold_digest lib) (b_digest b) ns
    \<and> b_approved b' = b_approved b \<and> b_global_code b' = b_global_code b
    \<and> b_init_args b' = b_init_args b \<and> b_funding b' = b_funding b"
  using assms
proof (induction ns arbitrary: b rows)
  case Nil
  then show ?case by simp
next
  case (Cons n ns)
  then obtain b1 rows1 where "add_name lib n (b, rows) = Inr (b1, rows1)"
    and rest: "rfold (add_name lib) ns (b1, rows1) = Inr (b', rows')" by auto
  then have 1: "n \<notin> rows" "rows1 = insert n rows" "b_digest b1 = fold_digest lib (b_digest b) n"
    "b_approved b1 = b_approved b" "b_global_code b1 = b_global_code b" "b_init_args b1 = b_init_args b"
    "b_funding b1 = b_funding b" by (auto simp: add_name_def)
  from Cons.IH [OF rest] 1 show ?case by auto
qed

lemma take_loop:
  assumes "rfold take_name ns (b, rows) = Inr (b', rows')"
  shows "rows' = rows - set ns \<and> (distinct ns \<longrightarrow> set ns \<subseteq> rows) \<and> b_digest b' = b_digest b
    \<and> b_approved b' = b_approved b \<and> b_global_code b' = b_global_code b
    \<and> b_init_args b' = b_init_args b \<and> b_funding b' = b_funding b"
  using assms
proof (induction ns arbitrary: b rows)
  case Nil
  then show ?case by simp
next
  case (Cons n ns)
  then obtain b1 rows1 where "take_name n (b, rows) = Inr (b1, rows1)"
    and rest: "rfold take_name ns (b1, rows1) = Inr (b', rows')" by auto
  then have 1: "n \<in> rows" "rows1 = rows - {n}" "b_digest b1 = b_digest b"
    "b_approved b1 = b_approved b" "b_global_code b1 = b_global_code b" "b_init_args b1 = b_init_args b"
    "b_funding b1 = b_funding b" by (auto simp: take_name_def)
  from Cons.IH [OF rest] 1 show ?case by auto
qed

section \<open>The invariant\<close>

definition roles_ok :: "account_id \<Rightarrow> registrar_opener \<Rightarrow> bool" where
  "roles_ok self s \<longleftrightarrow> o_admin s \<noteq> o_operator s \<and> o_admin s \<noteq> self \<and> o_operator s \<noteq> self
     \<and> o_pending_admin s \<noteq> Some self \<and> o_pending_admin s \<noteq> Some (o_operator s)"

text \<open>A batch stands for the list \<open>ns\<close> its digest was folded over: while it is a draft its names are
  that list, afterwards what is left and what is being created come from it.\<close>

definition batch_for ::
    "opener_lib \<Rightarrow> account_id \<Rightarrow> account_id list \<Rightarrow> batch \<Rightarrow> account_id set \<Rightarrow> account_id set \<Rightarrow> bool" where
  "batch_for lib self ns b rows out \<longleftrightarrow> distinct ns \<and> (\<forall>n\<in>set ns. openable lib n)
     \<and> b_digest b = digest_of lib (b_global_code b) (b_init_args b) (b_funding b) ns
     \<and> MIN_FUNDING \<le> b_funding b \<and> b_global_code b \<noteq> self
     \<and> rows \<inter> out = {} \<and> rows \<union> out \<subseteq> set ns \<and> (\<not> b_approved b \<longrightarrow> rows = set ns)"

definition out_of :: "(u32 \<times> account_id) set \<Rightarrow> u32 \<Rightarrow> account_id set" where
  "out_of fl i = {n. (i, n) \<in> fl}"

definition batches_ok :: "opener_lib \<Rightarrow> account_id \<Rightarrow> opener_sys \<Rightarrow> bool" where
  "batches_ok lib self sys \<longleftrightarrow> (case sys of (s, fl) \<Rightarrow>
     \<forall>i. (o_next_batch_id s \<le> i \<longrightarrow> o_batches s i = None \<and> o_names s i = {} \<and> out_of fl i = {})
       \<and> (\<forall>b. o_batches s i = Some b \<longrightarrow> (\<exists>ns. batch_for lib self ns b (o_names s i) (out_of fl i))))"

definition opener_inv :: "opener_lib \<Rightarrow> account_id \<Rightarrow> u64 \<Rightarrow> opener_sys \<Rightarrow> bool" where
  "opener_inv lib self t sys \<longleftrightarrow> roles_ok self (fst sys) \<and> batches_ok lib self sys"

lemma sent_simps [simp]:
  "sent [] = {}"
  "sent (OEmit e # outs) = sent outs"
  "sent (OCall r d None # outs) = sent outs"
  "sent (OCall r d (Some (On_name_opened b n)) # outs) = insert (b, n) (sent outs)"
  "sent (OCall r d (Some (On_account_created n)) # outs) = sent outs"
  "sent (OCall r d (Some (On_upgraded h)) # outs) = sent outs"
  by (auto simp: sent_def)

lemma sent_append [simp]: "sent (xs @ ys) = sent xs \<union> sent ys"
  by (auto simp: sent_def)

lemma sent_open:
  "sent (concat (map (\<lambda>n. [OEmit (OOpening n (Some i)), open_account n f g a (On_name_opened i n)]) ns))
     = Pair i ` set ns"
  by (induction ns) (auto simp: open_account_def)

lemma out_of_simps [simp]:
  "out_of (fl \<union> Pair i ` N) j = (if i = j then out_of fl j \<union> N else out_of fl j)"
  "out_of (fl - {(i, n)}) j = (if i = j then out_of fl j - {n} else out_of fl j)"
  "out_of {} j = {}"
  by (auto simp: out_of_def)

lemma opener_roles:
  assumes "roles_ok (current_account_id c) s"
  shows "res_all (\<lambda>y. roles_ok (current_account_id c) (fst y)) (opener_exec lib c k s)"
  using assms
  by (cases k; simp only: opener_exec.simps opener_defs Let_def case_prod_unfold; (intro res_walk)?)
    (auto simp: roles_ok_def set_batch_def)

lemma next_id: "checked_add i 1 = Some j \<Longrightarrow> (\<forall>k. j \<le> k \<longrightarrow> i \<le> k \<and> i \<noteq> k)"
  by (auto simp: checked_add_Some_iff word_le_nat_alt)

lemma batches_okI:
  assumes "\<And>i. o_next_batch_id s \<le> i \<Longrightarrow> o_batches s i = None \<and> o_names s i = {} \<and> out_of fl i = {}"
    and "\<And>i b. o_batches s i = Some b \<Longrightarrow> \<exists>ns. batch_for lib self ns b (o_names s i) (out_of fl i)"
  shows "batches_ok lib self (s, fl)"
  using assms by (simp add: batches_ok_def)

lemma batches_okD:
  assumes "batches_ok lib self (s, fl)"
  shows "o_next_batch_id s \<le> i \<Longrightarrow> o_batches s i = None \<and> o_names s i = {} \<and> out_of fl i = {}"
    and "o_batches s i = Some b \<Longrightarrow> \<exists>ns. batch_for lib self ns b (o_names s i) (out_of fl i)"
  using assms by (auto simp: batches_ok_def)

text \<open>One batch is replaced, with its names and what is out for it; the others stay.\<close>

lemma batches_ok_replace:
  assumes ok: "batches_ok lib self (s, fl)" and b: "o_batches s i = Some b"
    and ns: "batch_for lib self ns b' rows out"
    and fl': "\<And>j. out_of fl' j = (if j = i then out else out_of fl j)"
    and s': "o_batches s' = (o_batches s)(i \<mapsto> b')" "o_names s' = (o_names s)(i := rows)"
      "o_next_batch_id s' = o_next_batch_id s"
  shows "batches_ok lib self (s', fl')"
proof (rule batches_okI)
  fix j assume j: "o_next_batch_id s' \<le> j"
  then have "j \<noteq> i" using batches_okD(1) [OF ok, of i] b s'(3) by auto
  with j show "o_batches s' j = None \<and> o_names s' j = {} \<and> out_of fl' j = {}"
    using batches_okD(1) [OF ok, of j] by (simp add: s' fl')
next
  fix j b0 assume "o_batches s' j = Some b0"
  then show "\<exists>ns. batch_for lib self ns b0 (o_names s' j) (out_of fl' j)"
    using batches_okD(2) [OF ok, of j b0] ns by (auto simp: s' fl' split: if_splits)
qed

lemma approve_batches:
  assumes "batches_ok lib self (s, fl)" "approve_batch c i h s = Inr (s', outs, ret)"
  shows "batches_ok lib self (s', fl \<union> sent outs)"
proof -
  from assms(2) obtain b where b: "o_batches s i = Some b"
    and s': "s' = set_batch i (b\<lparr>b_approved := True\<rparr>) s" "sent outs = {}"
    by (auto simp: approve_batch_def)
  from batches_okD(2) [OF assms(1) b] obtain ns
    where "batch_for lib self ns b (o_names s i) (out_of fl i)" by blast
  then have "batch_for lib self ns (b\<lparr>b_approved := True\<rparr>) (o_names s i) (out_of fl i)"
    by (auto simp: batch_for_def)
  from batches_ok_replace [OF assms(1) b this] show ?thesis by (simp add: s' set_batch_def)
qed

lemma create_batches:
  assumes ok: "batches_ok lib (current_account_id c) (s, fl)" and "create_batch lib c g a f s = Inr (s', outs, ret)"
  shows "batches_ok lib (current_account_id c) (s', fl \<union> sent outs)"
proof -
  let ?i = "o_next_batch_id s"
  let ?b = "\<lparr>b_approved = False, b_digest = seed_digest lib g a f, b_count = 0, b_remaining = 0,
     b_global_code = g, b_init_args = a, b_funding = f\<rparr>"
  from assms(2) obtain j where j: "checked_add ?i 1 = Some j" "MIN_FUNDING \<le> f" "g \<noteq> current_account_id c"
    and s': "s' = set_batch ?i ?b (s\<lparr>o_next_batch_id := j\<rparr>)" "sent outs = {}"
    by (auto simp: create_batch_def assert_setup_def Let_def)
  have new: "batch_for lib (current_account_id c) [] ?b {} {}"
    using j by (simp add: batch_for_def digest_of_def)
  show ?thesis
  proof (rule batches_okI)
    fix i assume "o_next_batch_id s' \<le> i"
    then have "?i \<le> i \<and> ?i \<noteq> i" using next_id [OF j(1)] by (auto simp: s' set_batch_def)
    then show "o_batches s' i = None \<and> o_names s' i = {} \<and> out_of (fl \<union> sent outs) i = {}"
      using batches_okD(1) [OF ok, of i] by (auto simp: s' set_batch_def)
  next
    fix i b assume "o_batches s' i = Some b"
    then show "\<exists>ns. batch_for lib (current_account_id c) ns b (o_names s' i) (out_of (fl \<union> sent outs) i)"
      using batches_okD(1) [OF ok, of ?i] batches_okD(2) [OF ok, of i b] new
      by (auto simp: s' set_batch_def split: if_splits)
  qed
qed

lemma add_batches:
  assumes ok: "batches_ok lib self (s, fl)" and "add_names lib c i ns s = Inr (s', outs, ret)"
  shows "batches_ok lib self (s', fl \<union> sent outs)"
proof -
  from assms(2) obtain b b' rows where b: "o_batches s i = Some b" "\<not> b_approved b"
    and names: "\<forall>n\<in>set ns. openable lib n"
    and loop: "rfold (add_name lib) ns (b, o_names s i) = Inr (b', rows)"
    and s': "s' = set_batch i b' (s\<lparr>o_names := (o_names s)(i := rows)\<rparr>)" "sent outs = {}"
    by (auto simp: add_names_def)
  from batches_okD(2) [OF ok b(1)] obtain ms
    where ms: "batch_for lib self ms b (o_names s i) (out_of fl i)" by blast
  have "batch_for lib self (ms @ ns) b' rows (out_of fl i)"
    using ms b(2) names add_loop [OF loop] by (auto simp: batch_for_def digest_of_def)
  from batches_ok_replace [OF ok b(1) this] show ?thesis by (simp add: s' set_batch_def)
qed

lemma open_batches:
  assumes ok: "batches_ok lib self (s, fl)" and "open_names lib c i ns s = Inr (s', outs, ret)"
  shows "batches_ok lib self (s', fl \<union> sent outs)"
proof -
  from assms(2) obtain b b' rows where b: "o_batches s i = Some b" "b_approved b" and ns: "distinct ns"
    and loop: "rfold take_name ns (b, o_names s i) = Inr (b', rows)"
    and s': "s' = set_batch i b' (s\<lparr>o_names := (o_names s)(i := rows)\<rparr>)" and out: "sent outs = Pair i ` set ns"
    by (auto simp: open_names_def sent_open)
  from batches_okD(2) [OF ok b(1)] obtain ms
    where ms: "batch_for lib self ms b (o_names s i) (out_of fl i)" by blast
  have "batch_for lib self ms b' rows (out_of fl i \<union> set ns)"
    using ms b(2) ns take_loop [OF loop] by (auto simp: batch_for_def)
  from batches_ok_replace [OF ok b(1) this] show ?thesis by (simp add: s' out set_batch_def)
qed

lemma back_batches:
  assumes ok: "batches_ok lib self (s, fl)" and fl: "(i, n) \<in> fl" and "on_name_opened c i n s = Inr (s', outs, ret)"
  shows "batches_ok lib self (s', fl - {(i, n)})"
proof -
  have gone: "batches_ok lib self (r, fl - {(i, n)})"
    if "o_batches r = o_batches s" "o_names r = o_names s" "o_next_batch_id r = o_next_batch_id s" for r
  proof (rule batches_okI)
    fix j assume "o_next_batch_id r \<le> j"
    then show "o_batches r j = None \<and> o_names r j = {} \<and> out_of (fl - {(i, n)}) j = {}"
      using batches_okD(1) [OF ok, of j] by (simp add: that)
  next
    fix j b assume "o_batches r j = Some b"
    then show "\<exists>ns. batch_for lib self ns b (o_names r j) (out_of (fl - {(i, n)}) j)"
      using batches_okD(2) [OF ok, of j b] by (fastforce simp: that batch_for_def)
  qed
  show ?thesis
  proof (cases "is_promise_success c \<or> o_batches s i = None \<or> n \<in> o_names s i")
    case True
    with assms(3) have "o_batches s' = o_batches s" "o_names s' = o_names s" "o_next_batch_id s' = o_next_batch_id s"
      by (auto simp: on_name_opened_def Let_def split: if_splits option.splits)
    then show ?thesis by (rule gone)
  next
    case False
    then obtain b where b: "o_batches s i = Some b" by auto
    with False assms(3) have s': "o_batches s' = (o_batches s)(i \<mapsto> b\<lparr>b_remaining := sat_add (b_remaining b) 1\<rparr>)"
      "o_names s' = (o_names s)(i := insert n (o_names s i))" "o_next_batch_id s' = o_next_batch_id s"
      by (auto simp: on_name_opened_def Let_def set_batch_def split: if_splits)
    from batches_okD(2) [OF ok b] obtain ms
      where ms: "batch_for lib self ms b (o_names s i) (out_of fl i)" by blast
    have n: "n \<in> out_of fl i" using fl by (simp add: out_of_def)
    have "batch_for lib self ms (b\<lparr>b_remaining := sat_add (b_remaining b) 1\<rparr>)
        (insert n (o_names s i)) (out_of fl i - {n})"
      using ms n by (auto simp: batch_for_def)
    from batches_ok_replace [OF ok b this _ s'] show ?thesis by simp
  qed
qed

lemma discard_batches:
  assumes ok: "batches_ok lib self (s, fl)" and "discard_batch c i s = Inr (s', outs, ret)"
  shows "batches_ok lib self (s', fl \<union> sent outs)"
  using assms by (auto simp: discard_batch_def Let_def batches_ok_def split: if_splits)

lemma forget_loop_rows: "fst (forget_loop ns (rows, k)) = rows - set ns"
  by (induction ns "(rows, k)" arbitrary: rows k rule: forget_loop.induct) auto

lemma forget_batches:
  assumes ok: "batches_ok lib self (s, fl)" and "forget_names c i ns s = Inr (s', outs, ret)"
  shows "batches_ok lib self (s', fl \<union> sent outs)"
proof -
  from assms(2) have "o_batches s i = None" "sent outs = {}"
    "s' = s\<lparr>o_names := (o_names s)(i := o_names s i - set ns)\<rparr>"
    using forget_loop_rows [of ns "o_names s i" 0]
    by (auto simp: forget_names_def Let_def case_prod_unfold)
  with ok show ?thesis by (auto simp: batches_ok_def)
qed

lemma exec_batches:
  assumes "batches_ok lib (current_account_id c) (s, fl)" "opener_exec lib c k s = Inr (s', outs, ret)"
  shows "batches_ok lib (current_account_id c) (s', fl \<union> sent outs)"
proof (cases k)
  case (OcApproveBatch i h)
  then show ?thesis using assms approve_batches by simp
next
  case (OcCreateBatch g a f)
  then show ?thesis using assms create_batches by simp
next
  case (OcAddNames i ns)
  then show ?thesis using assms add_batches by simp
next
  case (OcDiscard i)
  then show ?thesis using assms discard_batches by simp
next
  case (OcForget i ns)
  then show ?thesis using assms forget_batches by simp
next
  case (OcOpen i ns)
  then show ?thesis using assms open_batches by simp
qed (use assms in \<open>auto simp: opener_defs batches_ok_def open_account_def Let_def\<close>)

lemma opener_new_inv:
  assumes "opener_new lib c raw (\<lambda>_. {}) admin operator = Inr (s, outs, ret)"
  shows "opener_inv lib (current_account_id c) t (s, {})"
  using assms by (auto simp: opener_new_def opener_inv_def roles_ok_def batches_ok_def Let_def)

lemma opener_step_inv:
  assumes "opener_inv lib self t sys" "opener_step lib self t' sys sys'"
  shows "opener_inv lib self t' sys'"
  using assms(2)
proof cases
  case (o_call c k s s' outs ret fl)
  then show ?thesis
    using assms(1) res_allD [OF opener_roles [of c s lib k]] exec_batches [of lib c s fl k s' outs ret]
    by (auto simp: opener_inv_def)
next
  case (o_back c b n fl s s' outs ret)
  then have "roles_ok self s' = roles_ok self s"
    by (auto simp: on_name_opened_def roles_ok_def set_batch_def Let_def split: if_splits option.splits)
  with o_back show ?thesis
    using assms(1) back_batches [of lib self s fl b n c s' outs ret] by (auto simp: opener_inv_def)
next
  case (o_migrate c s s' outs ret fl)
  then show ?thesis
    using assms(1) by (auto simp: opener_inv_def migrate_o_def roles_ok_def batches_ok_def split: if_splits)
qed

interpretation opn: contract_machine "opener_initial lib self" "opener_step lib self"
  "opener_inv lib self" for lib self
  by unfold_locales (auto simp: opener_initial_def intro: opener_new_inv opener_step_inv)

end
