(* ===== verification/Platform.thy ===== *)
theory Platform
  imports Registrar Deployer Opener_Machine
begin

text \<open>
  Properties of the contracts that put code and accounts in place: the publisher of the wallet
  code and the opener of top level accounts.
\<close>

section \<open>Publishing wallet code\<close>

definition demo_dlib :: deployer_lib where
  "demo_dlib = \<lparr>dl_sha256 = (\<lambda>bs. bs), dl_decode = (\<lambda>_. None), dl_decode_v1 = (\<lambda>_. None)\<rparr>"

definition demo_pc :: "account_id \<Rightarrow> account_id \<Rightarrow> u64 \<Rightarrow> u128 \<Rightarrow> ctx" where
  "demo_pc self who now deposit =
     \<lparr>predecessor_account_id = who, current_account_id = self, block_timestamp = now,
      block_height = 1, attached_deposit = deposit, account_balance = 5000000000000000000000000,
      storage_byte_cost = 10000000000000000000, storage_usage = 1000, prepaid_gas = 300000000000000,
      used_gas = 0, promise_results = [Inr []]\<rparr>"

lemma demo_pc_sel [simp]:
  "predecessor_account_id (demo_pc self who now d) = who"
  "current_account_id (demo_pc self who now d) = self"
  "block_timestamp (demo_pc self who now d) = now"
  "attached_deposit (demo_pc self who now d) = d"
  "account_balance (demo_pc self who now d) = 5000000000000000000000000"
  "prepaid_gas (demo_pc self who now d) = 300000000000000"
  "is_promise_success (demo_pc self who now d)"
  by (simp_all add: demo_pc_def is_promise_success_def)

definition demo_d0 :: impl_deployer where
  "demo_d0 = \<lparr>d_state_version = 2, d_council = ''council'', d_current_hash = None,
     d_approved_hash = None, d_approved_at = None, d_approval_delay_ns = 172800000000000,
     d_deploy_locked_until = 0, d_approved_upgrade_hash = None, d_approved_upgrade_at = None,
     d_upgrade_proven = False, d_pending_council = None, d_pending_council_at = None\<rparr>"

definition demo_d1 :: impl_deployer where
  "demo_d1 = demo_d0\<lparr>d_approved_hash := Some [1, 2], d_approved_at := Some 10\<rparr>"

definition demo_d2 :: impl_deployer where
  "demo_d2 = demo_d1\<lparr>d_deploy_locked_until := 173400000000010\<rparr>"

lemma demo_d_calls:
  "deployer_new (demo_pc ''impl.hos'' ''deployer'' 5 0) False ''council'' None = Inr demo_d0"
  "deployer_exec demo_dlib (demo_pc ''impl.hos'' ''council'' 10 1) (DcApprove [1, 2]) demo_d0
     = Inr (demo_d1, [DEmit (DHashApproved [1, 2] ''council'')], DUnit)"
  "deployer_exec demo_dlib (demo_pc ''impl.hos'' ''anyone'' 172800000000010 200000000000000000000)
       (DcDeploy [1, 2]) demo_d1
     = Inr (demo_d2, [DCall (DeployGlobal [1, 2]) 0 (Some (Gd_on_deployed [1, 2] 2 ''anyone''
         200000000000000000000 5000000000000000000000000))], DPromise)"
  by (simp_all add: deployer_new_def gd_approve_def gd_deploy_def demo_d0_def demo_d1_def demo_d2_def
      demo_dlib_def no_deposit_def assert_one_yocto_d_def only_council_d_def sat_add_def checked_mul_def
      DEPLOYER_STATE_VERSION_def DEFAULT_APPROVAL_DELAY_NS_def DEPLOY_LOCK_TTL_NS_def
      GLOBAL_CODE_COST_PER_BYTE_def)

lemma exec_publishes:
  "res_all (\<lambda>y. \<forall>code n cb. DCall (DeployGlobal code) n cb \<in> set (fst (snd y)) \<longrightarrow>
      k = DcDeploy code \<and> d_approved_hash d = Some (dl_sha256 lib code)
      \<and> (\<exists>a. d_approved_at d = Some a \<and> sat_add a (d_approval_delay_ns d) \<le> block_timestamp c)
      \<and> d_deploy_locked_until d \<le> block_timestamp c
      \<and> (\<exists>cost. unat cost = unat (of_nat (length code) :: u128) * unat GLOBAL_CODE_COST_PER_BYTE
            \<and> cost \<le> attached_deposit c)
      \<and> d_deploy_locked_until (fst y) = sat_add (block_timestamp c) DEPLOY_LOCK_TTL_NS)
    (deployer_exec lib c k d)"
  by (cases k; simp only: deployer_exec.simps deployer_defs Let_def; (intro res_walk)?)
    (auto simp: checked_mul_Some_iff)

lemma locked_refused:
  "block_timestamp c < d_deploy_locked_until d \<Longrightarrow> gd_deploy lib c code d = Inl D_DEPLOY_IN_FLIGHT"
  by (simp add: gd_deploy_def require_def flip: not_less)

text \<open>
  C15. A change of the wallet code is always announced. Wallets run whatever this contract
  publishes, so: from any reachable state in which every open approval dates from \<open>t0\<close> or later,
  and whatever calls follow, code goes out only when its hash is the approved one and the
  delay fixed at initialisation has passed since \<open>t0\<close>; the caller has paid for its storage in
  full; no other publication is in flight, as far as the lock the contract keeps for ten minutes
  tells, and none can start for the ten minutes after.
\<close>

theorem publication_announced:
  assumes "dpl.reach self lib t d" and "dpl.run lib self t d t' d'" and "t0 \<le> t"
    and "\<forall>a. d_approved_at d = Some a \<longrightarrow> t0 \<le> a"
    and "deployer_exec lib c k d' = Inr (d'', outs, ret)" and "DCall (DeployGlobal code) n cb \<in> set outs"
  shows "d_approved_hash d' = Some (dl_sha256 lib code)
    \<and> sat_add t0 (d_approval_delay_ns d) \<le> block_timestamp c
    \<and> unat (of_nat (length code) :: u128) * unat GLOBAL_CODE_COST_PER_BYTE \<le> unat (attached_deposit c)
    \<and> d_deploy_locked_until d' \<le> block_timestamp c
    \<and> (\<forall>c'. block_timestamp c' < sat_add (block_timestamp c) DEPLOY_LOCK_TTL_NS
          \<longrightarrow> deployer_exec lib c' (DcDeploy code') d'' = Inl D_DEPLOY_IN_FLIGHT)"
proof -
  have inv: "deployer_inv self t d" by (rule dpl.reach_inv [OF assms(1)])
  have later: "\<forall>a. d_approved_at d' = Some a \<longrightarrow> t0 \<le> a"
    by (rule dpl_code.open_later [OF assms(2) inv assms(3,4)])
  obtain a cost where out: "d_approved_hash d' = Some (dl_sha256 lib code)"
    "d_approved_at d' = Some a" "sat_add a (d_approval_delay_ns d') \<le> block_timestamp c"
    "d_deploy_locked_until d' \<le> block_timestamp c"
    "unat cost = unat (of_nat (length code) :: u128) * unat GLOBAL_CODE_COST_PER_BYTE"
    "cost \<le> attached_deposit c"
    "d_deploy_locked_until d'' = sat_add (block_timestamp c) DEPLOY_LOCK_TTL_NS"
    using res_allD [OF exec_publishes assms(5)] assms(6) unfolding fst_conv snd_conv by blast
  have "sat_add t0 (d_approval_delay_ns d) \<le> sat_add a (d_approval_delay_ns d')"
    using later out(2) run_delay [OF assms(2) inv] by (intro sat_add_mono) auto
  with out have "sat_add t0 (d_approval_delay_ns d) \<le> block_timestamp c" by simp
  moreover have "unat (of_nat (length code) :: u128) * unat GLOBAL_CODE_COST_PER_BYTE \<le> unat (attached_deposit c)"
    using out(5,6) by (simp add: word_le_nat_alt)
  ultimately show ?thesis using out(1,4,7) locked_refused by auto
qed

theorem publication_announced_witness:
  "dpl.reach ''impl.hos'' demo_dlib 10 demo_d1
   \<and> sat_add 10 (d_approval_delay_ns demo_d1) \<le> (172800000000010 :: u64)
   \<and> d_approved_hash demo_d1 = Some (dl_sha256 demo_dlib [1, 2])"
proof -
  have "deployer_initial ''impl.hos'' 5 demo_d0"
    unfolding deployer_initial_def by (intro exI conjI, rule_tac [3] demo_d_calls(1)) simp_all
  from dpl.reach_step [OF dpl.reach_init [OF this] _ deployer_step.d_call [OF _ demo_d_calls(2)]]
  have r: "dpl.reach ''impl.hos'' demo_dlib 10 demo_d1" by simp
  show ?thesis
    using publication_announced [OF r dpl.run_refl, of 10, OF _ _ demo_d_calls(3)] r
    by (simp add: demo_d1_def)
qed

text \<open>
  A publication that succeeds clears the approval it finds, not the one it was started with: an
  approval the council gives while code is in flight is lost, and has to be given again.
\<close>

lemma approval_given_in_flight_is_lost:
  assumes "predecessor_account_id c = current_account_id c" "attached_deposit c = 0" "h' \<noteq> h"
    and "d_approved_hash d = Some h'"
  shows "\<exists>d' outs. gd_on_deployed c h n payer attached before (Inr ()) d = Inr (d', outs, DBool True)
    \<and> d_current_hash d' = Some h \<and> d_approved_hash d' = None"
  using assms by (simp add: gd_on_deployed_def assert_private_d_def is_private_call_def no_deposit_def Let_def)

text \<open>What a publication costs is what is spent: the payer gets the rest back, or everything when
  it fails.\<close>

lemma publication_refund:
  assumes "gd_on_deployed c h n payer attached before res d = Inr (d', outs, ret)"
    and "account_balance c \<le> before" "unat before \<le> unat attached + unat (account_balance c)"
  shows "(\<Sum>x\<leftarrow>outs. case x of DCall (DTransferNear a) m cb \<Rightarrow> unat m | _ \<Rightarrow> 0)
    = (if is_ok res then unat attached - (unat before - unat (account_balance c)) else unat attached)"
proof -
  have [simp]: "\<not> 0 < w \<longleftrightarrow> unat w = 0" for w :: u128 by (auto simp: word_less_nat_alt)
  from assms show ?thesis
    by (auto simp: gd_on_deployed_def Let_def unat_sat_sub word_less_nat_alt split: sum.splits if_splits)
qed

section \<open>Opening top level accounts\<close>

text \<open>The setup a batch fixes: what its accounts will run, with which arguments and funding, and the
  digest of its names.\<close>

definition setup_of :: "batch \<Rightarrow> account_id \<times> string \<times> u128 \<times> crypto_hash" where
  "setup_of b = (b_global_code b, b_init_args b, b_funding b, b_digest b)"

lemma take_loop_setup:
  "rfold take_name ns (b, rows) = Inr (b', rows') \<Longrightarrow> setup_of b' = setup_of b \<and> b_approved b' = b_approved b"
  using take_loop [of ns b rows b' rows'] by (simp add: setup_of_def)

lemma approval_by_admin:
  assumes "opener_exec lib c k s = Inr (s', outs, ret)" "o_batches s' i = Some b'" "b_approved b'"
  shows "(\<exists>b. o_batches s i = Some b \<and> b_approved b \<and> setup_of b = setup_of b')
    \<or> predecessor_account_id c = o_admin s \<and> k = OcApproveBatch i (b_digest b')"
proof (cases k)
  case (OcAddNames j ns)
  with assms show ?thesis
    by (auto simp: add_names_def set_batch_def setup_of_def dest!: add_loop split: if_splits)
next
  case (OcOpen j ns)
  with assms show ?thesis
    by (auto simp: open_names_def set_batch_def dest!: take_loop_setup split: if_splits)
qed (use assms in \<open>auto simp: opener_defs set_batch_def setup_of_def Let_def case_prod_unfold split: if_splits\<close>)

text \<open>
  C16. Opening a top level account takes two roles that are never the same account. In every
  reachable state and for every call, an account is sent out to be created either by the admin
  directly, or by the operator from a batch the admin has approved; a batch becomes approved only
  by the admin naming its digest, and keeps that digest and setup from then on; and the digest is
  the one of a list of names that contains the name being opened, under exactly the code,
  arguments and funding the account is created with. The name is a top level name of 3 to 64
  characters and not an implicit account, its funding is attached in full, and it has left the batch.
\<close>

theorem opening_takes_two:
  assumes "opn.reach lib self t (s, fl)" and "current_account_id c = self"
    and "opener_exec lib c k s = Inr (s', outs, ret)"
  shows "o_admin s \<noteq> o_operator s
    \<and> (\<forall>i b'. o_batches s' i = Some b' \<and> b_approved b' \<longrightarrow>
         (\<exists>b. o_batches s i = Some b \<and> b_approved b \<and> setup_of b = setup_of b')
         \<or> predecessor_account_id c = o_admin s \<and> k = OcApproveBatch i (b_digest b'))
    \<and> (\<forall>name funding code args d cb. OCall (OpenAccount name funding code args) d cb \<in> set outs \<longrightarrow>
         openable lib name \<and> MIN_FUNDING \<le> funding \<and> d = funding \<and> code \<noteq> self
         \<and> (predecessor_account_id c = o_admin s \<and> funding = attached_deposit c
            \<or> predecessor_account_id c = o_operator s
              \<and> (\<exists>i b ns. o_batches s i = Some b \<and> b_approved b \<and> distinct ns \<and> name \<in> set ns
                   \<and> b_digest b = digest_of lib code args funding ns
                   \<and> name \<in> o_names s i \<and> name \<notin> o_names s' i)))"
proof (intro conjI allI impI)
  have inv: "opener_inv lib self t (s, fl)" by (rule opn.reach_inv [OF assms(1)])
  then have ok: "batches_ok lib self (s, fl)" by (simp add: opener_inv_def)
  show "o_admin s \<noteq> o_operator s" using inv by (simp add: opener_inv_def roles_ok_def)
  show "(\<exists>b. o_batches s i = Some b \<and> b_approved b \<and> setup_of b = setup_of b')
         \<or> predecessor_account_id c = o_admin s \<and> k = OcApproveBatch i (b_digest b')"
    if "o_batches s' i = Some b' \<and> b_approved b'" for i b'
    using approval_by_admin [OF assms(3)] that by blast
  fix name funding code args d cb
  assume out: "OCall (OpenAccount name funding code args) d cb \<in> set outs"
  consider (direct) "k = OcCreateAccount name code args" | (batch) i ns where "k = OcOpen i ns"
    using out assms(3) by (cases k) (auto simp: opener_defs open_account_def Let_def case_prod_unfold)
  then have "openable lib name \<and> MIN_FUNDING \<le> funding \<and> d = funding \<and> code \<noteq> self
         \<and> (predecessor_account_id c = o_admin s \<and> funding = attached_deposit c
            \<or> predecessor_account_id c = o_operator s
              \<and> (\<exists>i b ns. o_batches s i = Some b \<and> b_approved b \<and> distinct ns \<and> name \<in> set ns
                   \<and> b_digest b = digest_of lib code args funding ns
                   \<and> name \<in> o_names s i \<and> name \<notin> o_names s' i))"
  proof cases
    case direct
    with out assms(2,3) show ?thesis
      by (auto simp: create_account_def open_account_def assert_setup_def Let_def)
  next
    case (batch i ns)
    with assms(3) obtain b b' rows where b: "o_batches s i = Some b" "b_approved b" "distinct ns"
        "predecessor_account_id c = o_operator s"
      and loop: "rfold take_name ns (b, o_names s i) = Inr (b', rows)"
      and s': "s' = set_batch i b' (s\<lparr>o_names := (o_names s)(i := rows)\<rparr>)"
      and o': "outs = concat (map (\<lambda>name. [OEmit (OOpening name (Some i)),
             open_account name (b_funding b) (b_global_code b) (b_init_args b)
               (On_name_opened i name)]) ns)"
      by (auto simp: open_names_def)
    from out o' have n: "name \<in> set ns" "funding = b_funding b" "code = b_global_code b" "args = b_init_args b"
      "d = b_funding b" by (auto simp: open_account_def)
    from batches_okD(2) [OF ok b(1)] obtain ms
      where ms: "batch_for lib self ms b (o_names s i) (out_of fl i)" by blast
    have rows: "set ns \<subseteq> o_names s i" "rows = o_names s i - set ns" using take_loop [OF loop] b(3) by auto
    have "openable lib name \<and> MIN_FUNDING \<le> funding \<and> code \<noteq> self \<and> distinct ms \<and> name \<in> set ms
        \<and> b_digest b = digest_of lib code args funding ms"
      using ms n rows(1) by (auto simp: batch_for_def)
    moreover have "name \<in> o_names s i \<and> name \<notin> o_names s' i"
      using n(1) rows by (auto simp: s' set_batch_def)
    ultimately show ?thesis using b n(2,5) by blast
  qed
  then show "openable lib name" "MIN_FUNDING \<le> funding" "d = funding" "code \<noteq> self"
    "predecessor_account_id c = o_admin s \<and> funding = attached_deposit c
            \<or> predecessor_account_id c = o_operator s
              \<and> (\<exists>i b ns. o_batches s i = Some b \<and> b_approved b \<and> distinct ns \<and> name \<in> set ns
                   \<and> b_digest b = digest_of lib code args funding ns
                   \<and> name \<in> o_names s i \<and> name \<notin> o_names s' i)" by blast+
qed

definition demo_olib :: opener_lib where
  "demo_olib = \<lparr>ol_sha256 = (\<lambda>bs. take 2 bs), ol_is_implicit = (\<lambda>_. False), ol_json_object = (\<lambda>_. True),
     ol_decode = (\<lambda>_. None)\<rparr>"

definition demo_batch :: "bool \<Rightarrow> account_id list \<Rightarrow> u32 \<Rightarrow> batch" where
  "demo_batch ok ns n = \<lparr>b_approved = ok,
     b_digest = digest_of demo_olib ''impl'' ''{}'' 10000000000000000000000 ns, b_count = n, b_remaining = n,
     b_global_code = ''impl'', b_init_args = ''{}'', b_funding = 10000000000000000000000\<rparr>"

definition demo_o :: "(u32 \<rightharpoonup> batch) \<Rightarrow> u32 \<Rightarrow> (u32 \<Rightarrow> account_id set) \<Rightarrow> registrar_opener" where
  "demo_o bs next rows = \<lparr>o_state_version = 2, o_admin = ''dao'', o_pending_admin = None, o_operator = ''ops'',
     o_batches = bs, o_next_batch_id = next, o_opened = 0, o_failed = 0, o_names = rows\<rparr>"

abbreviation (input) demo_oc :: "account_id \<Rightarrow> u64 \<Rightarrow> u128 \<Rightarrow> ctx" where
  "demo_oc who now d \<equiv> demo_pc ''registrar'' who now d"

lemma demo_o_calls:
  "opener_new demo_olib (demo_oc ''registrar'' 5 0) None (\<lambda>_. {}) ''dao'' ''ops''
     = Inr (demo_o Map.empty 0 (\<lambda>_. {}), [OEmit (OInstalled 2 ''dao'' ''ops'')], OUnit)"
  "opener_exec demo_olib (demo_oc ''ops'' 6 1) (OcCreateBatch ''impl'' ''{}'' 10000000000000000000000)
       (demo_o Map.empty 0 (\<lambda>_. {}))
     = Inr (demo_o [0 \<mapsto> demo_batch False [] 0] 1 (\<lambda>_. {}),
         [OEmit (OBatchCreated 0 10000000000000000000000 ''impl'')], OId 0)"
  "opener_exec demo_olib (demo_oc ''ops'' 7 1) (OcAddNames 0 [''wow'']) (demo_o [0 \<mapsto> demo_batch False [] 0] 1 (\<lambda>_. {}))
     = Inr (demo_o [0 \<mapsto> demo_batch False [''wow''] 1] 1 ((\<lambda>_. {})(0 := {''wow''})),
         [OEmit (ONamesAdded 0 1 (b_digest (demo_batch False [''wow''] 1)))],
         ODigest (b_digest (demo_batch False [''wow''] 1)))"
  "opener_exec demo_olib (demo_oc ''dao'' 8 1) (OcApproveBatch 0 (b_digest (demo_batch False [''wow''] 1)))
       (demo_o [0 \<mapsto> demo_batch False [''wow''] 1] 1 ((\<lambda>_. {})(0 := {''wow''})))
     = Inr (demo_o [0 \<mapsto> demo_batch True [''wow''] 1] 1 ((\<lambda>_. {})(0 := {''wow''})),
         [OEmit (OBatchApproved 0 1 (b_digest (demo_batch False [''wow''] 1)))], OUnit)"
  "opener_exec demo_olib (demo_oc ''ops'' 9 10000000000000000000000) (OcOpen 0 [''wow''])
       (demo_o [0 \<mapsto> demo_batch True [''wow''] 1] 1 ((\<lambda>_. {})(0 := {''wow''})))
     = Inr (demo_o [0 \<mapsto> (demo_batch True [''wow''] 1)\<lparr>b_remaining := 0\<rparr>] 1 ((\<lambda>_. {})(0 := {})),
         [OEmit (OOpening ''wow'' (Some 0)),
          open_account ''wow'' 10000000000000000000000 ''impl'' ''{}'' (On_name_opened 0 ''wow'')], OCount 1)"
  by (simp_all add: opener_new_def create_batch_def add_names_def approve_batch_def open_names_def
      demo_o_def demo_batch_def demo_olib_def no_deposit_def Let_def assert_operator_def assert_admin_o_def
      assert_one_yocto_o_def assert_operator_account_def assert_admin_account_def assert_setup_def
      assert_openable_def batch_mut_def set_batch_def add_name_def take_name_def digest_of_def
      OPENER_STATE_VERSION_def MIN_FUNDING_def MAX_INIT_ARGS_LEN_def MAX_LIVE_BATCHES_def
      MAX_NAMES_PER_ADD_def MAX_NAMES_PER_CALL_def MIN_TLA_LEN_def MAX_TLA_LEN_def GAS_PER_NAME_def
      tgas_def checked_add_def sat_add_def sat_sub_def sat_mul_def)

theorem opening_takes_two_witness:
  "\<exists>s fl s' outs ret. opn.reach demo_olib ''registrar'' 8 (s, fl)
   \<and> opener_exec demo_olib (demo_oc ''ops'' 9 10000000000000000000000) (OcOpen 0 [''wow'']) s = Inr (s', outs, ret)
   \<and> openable demo_olib ''wow'' \<and> o_admin s \<noteq> o_operator s \<and> ''wow'' \<notin> o_names s' 0"
proof -
  have i: "opener_initial demo_olib ''registrar'' 5 (demo_o Map.empty 0 (\<lambda>_. {}), {})"
    unfolding opener_initial_def by (intro exI conjI, rule_tac [3] demo_o_calls(1)) simp_all
  have le: "(5 :: u64) \<le> 6" "(6 :: u64) \<le> 7" "(7 :: u64) \<le> 8" by simp_all
  have r1: "opn.reach demo_olib ''registrar'' 6 (demo_o [0 \<mapsto> demo_batch False [] 0] 1 (\<lambda>_. {}), {})"
    using opn.reach_step [OF opn.reach_init [OF i] _ opener_step.o_call [OF _ demo_o_calls(2)]] le by simp
  have r2: "opn.reach demo_olib ''registrar'' 7
      (demo_o [0 \<mapsto> demo_batch False [''wow''] 1] 1 ((\<lambda>_. {})(0 := {''wow''})), {})"
    using opn.reach_step [OF r1 _ opener_step.o_call [OF _ demo_o_calls(3)]] le by simp
  have r: "opn.reach demo_olib ''registrar'' 8
      (demo_o [0 \<mapsto> demo_batch True [''wow''] 1] 1 ((\<lambda>_. {})(0 := {''wow''})), {})"
    using opn.reach_step [OF r2 _ opener_step.o_call [OF _ demo_o_calls(4)]] le by simp
  show ?thesis
    using opening_takes_two [OF r _ demo_o_calls(5)] r demo_o_calls(5)
    by (intro exI conjI) (assumption | simp add: open_account_def demo_o_def)+
qed

end
