(* ===== verification/System.thy ===== *)
theory System
  imports Registry_Safety Wallet_Props Extension_Props
begin

text \<open>
  The contracts together. A change of owner the tenant asks for crosses four receipts: the
  registry schedules it (after a check of the token balances, where there is an allowlist), the
  extension forwards it, the wallet rotates, the extension reports, the registry records. Between
  any two of them other calls may run, further changes of the same name among them. The machine
  of this theory composes the models of the three contracts over the promises in flight, for one
  name and its wallet, and shows what keeps their owners together.
\<close>

section \<open>What a callback of the registry records\<close>

text \<open>The rotation a settlement callback of the registry stands for: the key of the name, the
  owner it leaves, the owner it takes and its cause; and the call it becomes with an answer.\<close>

fun settlement_of :: "reg_callback \<Rightarrow> (string \<times> account_id \<times> account_id \<times> rotation_cause) option" where
  "settlement_of (On_sub_account_transferred tla name from to cause) =
     Some (sub_account_key tla name, from, to, cause)"
| "settlement_of (Nft_on_rotation_resolved rot) =
     Some (sub_account_key (nr_tla_id rot) (nr_name rot), nr_from rot, nr_to rot, nr_cause rot)"
| "settlement_of (Nft_on_rotation_resolved_call call) =
     Some (sub_account_key (nc_tla_id call) (nc_name call), nc_from call, nc_to call, nc_cause call)"
| "settlement_of _ = None"

fun settlement_call :: "reg_callback \<Rightarrow> promise_error + bool \<Rightarrow> market_call option" where
  "settlement_call (On_sub_account_transferred tla name from to cause) res =
     Some (McOnTransferred tla name from to cause res)"
| "settlement_call (Nft_on_rotation_resolved rot) res = Some (McNftOnRotation rot res)"
| "settlement_call (Nft_on_rotation_resolved_call call) res = Some (McNftOnRotationCall call res)"
| "settlement_call _ _ = None"

text \<open>The same for a callback that waits for token balances; it carries the wallet.\<close>

fun check_of ::
    "reg_callback \<Rightarrow> (account_id \<times> string \<times> account_id \<times> account_id \<times> rotation_cause) option" where
  "check_of (On_transfer_balances_checked sub tla name from to cause al) =
     Some (sub, sub_account_key tla name, from, to, cause)"
| "check_of (Nft_on_transfer_balances_checked sub rot al) =
     Some (sub, sub_account_key (nr_tla_id rot) (nr_name rot), nr_from rot, nr_to rot, nr_cause rot)"
| "check_of (Nft_on_deposit_balances_checked sub call al) =
     Some (sub, sub_account_key (nc_tla_id call) (nc_name call), nc_from call, nc_to call, nc_cause call)"
| "check_of _ = None"

fun check_call :: "reg_callback \<Rightarrow> market_call option" where
  "check_call (On_transfer_balances_checked sub tla name from to cause al) =
     Some (McOnTransferBalances sub tla name from to cause al)"
| "check_call (Nft_on_transfer_balances_checked sub rot al) = Some (McNftOnTransferBalances sub rot al)"
| "check_call (Nft_on_deposit_balances_checked sub call al) = Some (McNftOnDepositBalances sub call al)"
| "check_call _ = None"

text \<open>The promises of the registry that lead to a rotation of the name, at the tenant's request.\<close>

fun concerns :: "string \<Rightarrow> reg_out \<Rightarrow> bool" where
  "concerns key (RegCall _ (Some cb)) \<longleftrightarrow>
     map_option fst (settlement_of cb) = Some key \<or> map_option (fst \<circ> snd) (check_of cb) = Some key"
| "concerns key _ \<longleftrightarrow> False"

text \<open>What the registry schedules under such a callback: a balance query that carries the wallet,
  or the order to the extension, for that wallet, with the callback's own owners and cause.\<close>

fun well_addressed :: "account_id \<Rightarrow> reg_out \<Rightarrow> bool" where
  "well_addressed wid (RegCall rm (Some cb)) \<longleftrightarrow>
     (case settlement_of cb of
        Some (_, from, to, cause) \<Rightarrow> needs_holder cause
          \<and> (\<exists>e. rm = CallExtension e (Ext_force_transfer wid (Some to) cause (Some from)))
      | None \<Rightarrow> (case check_of cb of
          Some (sub, _, from, to, cause) \<Rightarrow> needs_holder cause \<and> sub = wid \<and> (\<exists>al. rm = FtBalances al wid)
        | None \<Rightarrow> True))"
| "well_addressed wid _ \<longleftrightarrow> True"

definition addressed :: "string \<Rightarrow> account_id \<Rightarrow> reg_out list \<Rightarrow> bool" where
  "addressed key wid outs \<longleftrightarrow> (\<forall>m \<in> set outs. concerns key m \<longrightarrow> well_addressed wid m)"

lemma addressed_simps [simp]:
  "addressed key wid []"
  "addressed key wid (m # outs) \<longleftrightarrow> (concerns key m \<longrightarrow> well_addressed wid m) \<and> addressed key wid outs"
  "addressed key wid (xs @ ys) \<longleftrightarrow> addressed key wid xs \<and> addressed key wid ys"
  by (auto simp: addressed_def)

lemma receiver_needs_holder [simp]: "needs_holder (rotation_for_receiver a r)"
  by (simp add: rotation_for_receiver_def)

lemma unrelated_helpers [simp]:
  "\<not> concerns key (re_rent_transfer e pr)" "\<not> concerns key (start_re_rent lib pr r)"
  "\<not> concerns key (park_wallet a t nm d r)" "\<not> concerns key (retract_wallet_lease e a x)"
  "\<not> concerns key (retract_wallet_lease_pending e a x k d)"
  "\<not> concerns key (restore_wallet_lease e a x k d)"
  by (auto simp: re_rent_transfer_def start_re_rent_def park_wallet_def retract_wallet_lease_def
      retract_wallet_lease_pending_def restore_wallet_lease_def Let_def split: option.split)

lemma addressed_helpers [simp]:
  "addressed key wid (snd (emit_activity c ev r))" "addressed key wid (snd (record_authority_mint a t r))"
  "addressed key wid (snd (release_order oi k p t r))" "addressed key wid (snd (confirm_order oi k p r))"
  "addressed key wid (snd (settle_failed_mint k t p n rs r))" "addressed key wid (snd (fail_mint c b s rs r))"
  "addressed key wid (snd (reclaim_blocked k tk rs r))"
  by (auto simp: helper_defs stale_order_def split: option.split prod.split if_splits)

lemma transferable_wallet:
  "assert_transferable lib c t n o1 r = Inr (a, b, outs)
   \<Longrightarrow> rl_parse lib (sub_account_key t n) = Some a \<and> addressed key wid outs"
  by (auto simp: assert_transferable_def Let_def split: if_splits)

lemma open_nft_wallet:
  "open_nft_transfer lib c rc tk ap r = Inr (t, n, b, a, outs)
   \<Longrightarrow> rl_parse lib (sub_account_key t n) = Some a \<and> addressed key wid outs"
  by (auto simp: open_nft_transfer_def dest: transferable_wallet)

lemma rental_addressed: "res_all (\<lambda>y. addressed key wid (snd y)) (rental_exec lib c x r)"
  by (cases x; simp only: rental_exec.simps rental_defs Let_def case_prod_unfold; (intro res_walk)?)
    (auto split: if_splits)

lemma business_addressed: "res_all (\<lambda>y. addressed key wid (snd y)) (business_exec lib c x r)"
  by (cases x; simp only: business_exec.simps business_defs rental_defs Let_def case_prod_unfold;
      (intro res_walk)?)
    (auto split: if_splits option.splits)

lemma admin_addressed: "res_all (\<lambda>y. addressed key wid (snd y)) (admin_exec lib c x r)"
  by (cases x; simp only: admin_exec.simps admin_defs Let_def case_prod_unfold; (intro res_walk)?)
    (auto split: if_splits)

lemma market_addressed:
  "external c \<Longrightarrow> rl_parse lib key = Some wid
   \<Longrightarrow> res_all (\<lambda>y. addressed key wid (snd y)) (market_exec lib c x r)"
  by (cases x; simp only: market_exec.simps market_defs Let_def case_prod_unfold; (intro res_walk)?;
      (simp add: external_not_private; fail)?)
    (auto simp: dispatch_sub_account_transfer_def dispatch_rotation_def dispatch_transfer_call_def
       ft_balance_fanout_def dest: transferable_wallet open_nft_wallet split: if_splits list.splits)

section \<open>The machine\<close>

text \<open>
  The three contracts and what is in flight between them: the promises the registry has scheduled
  for the name, the commands on their way to the wallet, the results on their way back to the
  extension and its answers on their way to the registry. Promises and commands may be taken in
  any order. Results and answers are taken to arrive in the order in which they were given, as
  the platform delivers between two accounts: they travel from one wallet to one extension and
  from there to one registry.
\<close>

record 'n sys =
  sy_registry :: tla_registry
  sy_extension :: hos_extension
  sy_wallet :: "'n tenant_wallet"
  sy_promises :: "reg_out list"
  sy_commands :: "(tenant_call \<times> reg_callback) list"
  sy_results :: "((promise_error + unit) \<times> reg_callback) list"
  sy_answers :: "((promise_error + bool) \<times> reg_callback) list"

record 'n sys_lib =
  sl_registry :: registry_lib
  sl_extension :: extension_lib
  sl_wallet :: "'n wallet_lib"

definition wallet_commands :: "account_id \<Rightarrow> ext_out list \<Rightarrow> tenant_call list" where
  "wallet_commands wid outs =
     concat (map (\<lambda>out. case out of XCall (CallWallet w k) _ _ \<Rightarrow> if w = wid then [k] else [] | _ \<Rightarrow> []) outs)"

text \<open>
  The steps, each with the account in whose name the wallet makes a rotation, if it makes one.
  Anyone may call the registry from outside, the extension and the wallet; what the
  registry schedules for the name is put in flight. A call of the wallet that is not one of the
  rotations in flight leaves the owner in place: reclaims, re-rents, recoveries and reverts, which
  the registry orders without the tenant, are not part of this machine.
\<close>

inductive sys_step ::
    "'n sys_lib \<Rightarrow> account_id \<Rightarrow> account_id \<Rightarrow> account_id \<Rightarrow> string
     \<Rightarrow> 'n sys \<Rightarrow> account_id option \<Rightarrow> 'n sys \<Rightarrow> bool"
  for lib reg ext wid key where
  sy_public: "current_account_id c = reg \<Longrightarrow> external c
    \<Longrightarrow> registry_exec (sl_registry lib) c k (sy_registry s) = Inr (r', outs)
    \<Longrightarrow> sys_step lib reg ext wid key s None
          (s\<lparr>sy_registry := r', sy_promises := sy_promises s @ filter (concerns key) outs\<rparr>)"
| sy_checked: "RegCall rm (Some cb) \<in> set (sy_promises s) \<Longrightarrow> check_call cb = Some k
    \<Longrightarrow> current_account_id c = reg
    \<Longrightarrow> registry_exec (sl_registry lib) c (Market k) (sy_registry s) = Inr (r', outs)
    \<Longrightarrow> sys_step lib reg ext wid key s None
          (s\<lparr>sy_registry := r',
             sy_promises := remove1 (RegCall rm (Some cb)) (sy_promises s) @ filter (concerns key) outs\<rparr>)"
| sy_check_failed: "RegCall rm (Some cb) \<in> set (sy_promises s) \<Longrightarrow> check_call cb = Some k
    \<Longrightarrow> registry_exec (sl_registry lib) c (Market k) (sy_registry s) = Inl e
    \<Longrightarrow> sys_step lib reg ext wid key s None
          (s\<lparr>sy_promises := remove1 (RegCall rm (Some cb)) (sy_promises s)\<rparr>)"
| sy_ordered: "m = RegCall (CallExtension a (Ext_force_transfer w to cause by)) (Some cb)
    \<Longrightarrow> m \<in> set (sy_promises s)
    \<Longrightarrow> current_account_id c = ext \<Longrightarrow> predecessor_account_id c = reg
    \<Longrightarrow> extension_exec (sl_extension lib) c (XcForceTransfer w to cause by) (sy_extension s) = Inr (x', outs, ret)
    \<Longrightarrow> sys_step lib reg ext wid key s None
          (s\<lparr>sy_extension := x', sy_promises := remove1 m (sy_promises s),
             sy_commands := sy_commands s @ map (\<lambda>k. (k, cb)) (wallet_commands wid outs)\<rparr>)"
| sy_refused: "m = RegCall (CallExtension a (Ext_force_transfer w to cause by)) (Some cb)
    \<Longrightarrow> m \<in> set (sy_promises s)
    \<Longrightarrow> current_account_id c = ext \<Longrightarrow> predecessor_account_id c = reg
    \<Longrightarrow> extension_exec (sl_extension lib) c (XcForceTransfer w to cause by) (sy_extension s) = Inl e
    \<Longrightarrow> sys_step lib reg ext wid key s None
          (s\<lparr>sy_promises := remove1 m (sy_promises s), sy_answers := sy_answers s @ [(Inl Promise_Failed, cb)]\<rparr>)"
| sy_rotated: "(Hos_transfer_ownership to cause by, cb) \<in> set (sy_commands s)
    \<Longrightarrow> current_account_id c = wid \<Longrightarrow> predecessor_account_id c = ext
    \<Longrightarrow> wallet_exec (sl_wallet lib) c (CTransferOwnership to cause by) (sy_wallet s) = Inr (w', wouts)
    \<Longrightarrow> sys_step lib reg ext wid key s by
          (s\<lparr>sy_wallet := w', sy_commands := remove1 (Hos_transfer_ownership to cause by, cb) (sy_commands s),
             sy_results := sy_results s @ [(Inr (), cb)]\<rparr>)"
| sy_not_rotated: "(Hos_transfer_ownership to cause by, cb) \<in> set (sy_commands s)
    \<Longrightarrow> current_account_id c = wid \<Longrightarrow> predecessor_account_id c = ext
    \<Longrightarrow> wallet_exec (sl_wallet lib) c (CTransferOwnership to cause by) (sy_wallet s) = Inl e
    \<Longrightarrow> sys_step lib reg ext wid key s None
          (s\<lparr>sy_commands := remove1 (Hos_transfer_ownership to cause by, cb) (sy_commands s),
             sy_results := sy_results s @ [(Inl Promise_Failed, cb)]\<rparr>)"
| sy_reported: "sy_results s = (res, cb) # rest
    \<Longrightarrow> current_account_id c = ext \<Longrightarrow> predecessor_account_id c = ext \<Longrightarrow> attached_deposit c = 0
    \<Longrightarrow> extension_exec (sl_extension lib) c (XcAfterForceSwap wid res) (sy_extension s) = Inr (x', outs, XValue b)
    \<Longrightarrow> sys_step lib reg ext wid key s None
          (s\<lparr>sy_extension := x', sy_results := rest, sy_answers := sy_answers s @ [(Inr b, cb)]\<rparr>)"
| sy_settled: "sy_answers s = (res, cb) # rest \<Longrightarrow> settlement_call cb res = Some k
    \<Longrightarrow> current_account_id c = reg \<Longrightarrow> predecessor_account_id c = reg \<Longrightarrow> attached_deposit c = 0
    \<Longrightarrow> r' = (case registry_exec (sl_registry lib) c (Market k) (sy_registry s) of
               Inr (r1, outs) \<Rightarrow> r1 | Inl e \<Rightarrow> sy_registry s)
    \<Longrightarrow> sys_step lib reg ext wid key s None (s\<lparr>sy_registry := r', sy_answers := rest\<rparr>)"
| sy_wallet_call: "current_account_id c = wid
    \<Longrightarrow> wallet_exec (sl_wallet lib) c k (sy_wallet s) = Inr (w', wouts)
    \<Longrightarrow> tw_owner w' = tw_owner (sy_wallet s)
    \<Longrightarrow> sys_step lib reg ext wid key s None (s\<lparr>sy_wallet := w'\<rparr>)"
| sy_extension_call: "current_account_id c = ext
    \<Longrightarrow> extension_exec (sl_extension lib) c k (sy_extension s) = Inr (x', outs, ret)
    \<Longrightarrow> sys_step lib reg ext wid key s None (s\<lparr>sy_extension := x'\<rparr>)"

text \<open>
  The runs. The wallet takes the account in whose name a rotation is asked for to be a holder when it is one of
  its extensions, where the owner is and where the agents the owner adds are too. The flag of a run
  tells whether it has obeyed a request whose author was such an agent and not its owner.
\<close>

inductive sys_run ::
    "'n sys_lib \<Rightarrow> account_id \<Rightarrow> account_id \<Rightarrow> account_id \<Rightarrow> string \<Rightarrow> 'n sys \<Rightarrow> bool \<Rightarrow> 'n sys \<Rightarrow> bool"
  for lib reg ext wid key where
  sys_here: "sys_run lib reg ext wid key s False s"
| sys_next: "sys_run lib reg ext wid key s strayed s1 \<Longrightarrow> sys_step lib reg ext wid key s1 author s2
    \<Longrightarrow> sys_run lib reg ext wid key s
          (strayed \<or> author \<noteq> None \<and> author \<noteq> Some (tw_owner (sy_wallet s1))) s2"

lemma sys_quiet:
  "sys_run lib reg ext wid key s strayed s1 \<Longrightarrow> sys_step lib reg ext wid key s1 author s2
   \<Longrightarrow> author = None \<or> author = Some (tw_owner (sy_wallet s1)) \<Longrightarrow> sys_run lib reg ext wid key s strayed s2"
  using sys_next [of lib reg ext wid key s strayed s1 author s2] by auto

section \<open>The invariant\<close>

text \<open>The rotations the wallet has made and the registry has not recorded, oldest first, and the
  path they form from the owner the registry knows to the owner the wallet has.\<close>

definition rotation_of :: "reg_callback \<Rightarrow> account_id \<times> account_id" where
  "rotation_of cb = (case settlement_of cb of Some (_, from, to, _) \<Rightarrow> (from, to) | None \<Rightarrow> ([], []))"

definition in_transit :: "'n sys \<Rightarrow> (account_id \<times> account_id) list" where
  "in_transit s = map (rotation_of \<circ> snd) (filter (\<lambda>y. fst y = Inr True) (sy_answers s))
     @ map (rotation_of \<circ> snd) (filter (\<lambda>y. fst y = Inr ()) (sy_results s))"

fun path :: "'a \<Rightarrow> ('a \<times> 'a) list \<Rightarrow> 'a \<Rightarrow> bool" where
  "path a [] b \<longleftrightarrow> a = b"
| "path a ((f, t) # es) b \<longleftrightarrow> a = f \<and> path t es b"

lemma path_append [simp]: "path a (xs @ ys) b \<longleftrightarrow> (\<exists>m. path a xs m \<and> path m ys b)"
  by (induction a xs b rule: path.induct) auto

definition owner_at :: "string \<Rightarrow> tla_registry \<Rightarrow> account_id option" where
  "owner_at key r = map_option sa_owner (r_sub_accounts r key)"

fun command_ok :: "string \<Rightarrow> tenant_call \<times> reg_callback \<Rightarrow> bool" where
  "command_ok key (Hos_transfer_ownership to cause by, cb) \<longleftrightarrow>
     (\<exists>from nxt. to = Some nxt \<and> by = Some from \<and> needs_holder cause
        \<and> settlement_of cb = Some (key, from, nxt, cause))"
| "command_ok key (_, cb) \<longleftrightarrow> False"

definition settles :: "string \<Rightarrow> reg_callback \<Rightarrow> bool" where
  "settles key cb \<longleftrightarrow> map_option fst (settlement_of cb) = Some key"

definition sys_inv :: "account_id \<Rightarrow> string \<Rightarrow> 'n sys \<Rightarrow> bool" where
  "sys_inv wid key s \<longleftrightarrow>
     (\<forall>m \<in> set (sy_promises s). concerns key m \<and> well_addressed wid m)
     \<and> (\<forall>y \<in> set (sy_commands s). command_ok key y)
     \<and> (\<forall>y \<in> set (sy_results s). settles key (snd y)) \<and> (\<forall>y \<in> set (sy_answers s). settles key (snd y))
     \<and> (\<exists>o1. owner_at key (sy_registry s) = Some o1 \<and> path o1 (in_transit s) (tw_owner (sy_wallet s)))"

section \<open>Each contract's part\<close>

lemma public_call:
  assumes "external c" and "rl_parse lib key = Some wid"
    and "registry_exec lib c k r = Inr (r', outs)" and "owner_at key r = Some o1"
  shows "owner_at key r' = Some o1"
    and "m \<in> set (filter (concerns key) outs) \<Longrightarrow> concerns key m \<and> well_addressed wid m"
proof -
  have "addressed key wid outs" "tenancy_frame c r r'"
    using assms(3) res_allD [OF rental_addressed] res_allD [OF business_addressed]
      res_allD [OF market_addressed [OF assms(1,2)]] res_allD [OF admin_addressed]
      res_allD [OF rental_tenancy [OF assms(1)]] res_allD [OF business_tenancy [OF assms(1)]]
      res_allD [OF market_tenancy [OF assms(1)]] res_allD [OF admin_tenancy [OF assms(1)]]
    by (cases k; fastforce)+
  then show "owner_at key r' = Some o1"
    and "m \<in> set (filter (concerns key) outs) \<Longrightarrow> concerns key m \<and> well_addressed wid m"
    using assms(4) by (fastforce simp: owner_at_def tenancy_frame_def addressed_def)+
qed

lemma checked_call:
  assumes "check_call cb = Some k" and "well_addressed wid (RegCall rm (Some cb))"
    and "registry_exec lib c (Market k) r = Inr (r', outs)"
  shows "r' = r" and "m \<in> set outs \<Longrightarrow> well_addressed wid m"
  using assms
  by (cases cb; auto simp: on_transfer_balances_checked_def nft_on_transfer_balances_checked_def
      nft_on_deposit_balances_checked_def dispatch_sub_account_transfer_def dispatch_rotation_def
      dispatch_transfer_call_def split: balance_gate.splits)+

lemma ordered_commands:
  "extension_exec lib c (XcForceTransfer w to cause by) x = Inr (x', outs, ret)
   \<Longrightarrow> wallet_commands wid outs = (if w = wid then [Hos_transfer_ownership to cause by] else [])"
  by (auto simp: force_transfer_def wallet_commands_def)

lemma rotated_owner:
  assumes "wallet_exec lib c (CTransferOwnership (Some nxt) cause (Some from)) w = Inr (w', outs)"
    and "needs_holder cause"
  shows "tw_owner w' = nxt" and "from \<in> tw_extensions w" and "from \<noteq> tw_authority w"
proof -
  from assms(1) have r: "apply_rotation c (Some nxt) cause (Some from) w = Inr (w', outs)"
    by (auto simp: hos_transfer_ownership_def)
  show "tw_owner w' = nxt" using apply_rotation_Inr(1) [OF r] by simp
  show "from \<in> tw_extensions w" "from \<noteq> tw_authority w"
    using apply_rotation_Inr(2) [OF r] assms(2) by (cases cause; auto simp: rotation_gate_def)+
qed

lemma reported_value:
  "extension_exec lib c (XcAfterForceSwap w res) x = Inr (x', outs, XValue b) \<Longrightarrow> b = is_ok res"
  by (auto simp: after_force_swap_def split: if_splits)

lemma reported_enabled:
  "current_account_id c = ext \<Longrightarrow> predecessor_account_id c = ext \<Longrightarrow> attached_deposit c = 0
   \<Longrightarrow> \<exists>x' outs. extension_exec lib c (XcAfterForceSwap w res) x = Inr (x', outs, XValue (is_ok res))"
  by (auto simp: after_force_swap_def assert_private_x_def is_private_call_def no_deposit_def)

lemma settled_owner:
  assumes "settlement_of cb = Some (key, from, to, cause)" and "settlement_call cb res = Some k"
    and "owner_at key r = Some o1" and "is_private_call c" "no_deposit c"
    and "r' = (case registry_exec lib c (Market k) r of Inr (r1, outs) \<Rightarrow> r1 | Inl e \<Rightarrow> r)"
  shows "res = Inr True \<Longrightarrow> o1 = from \<Longrightarrow> owner_at key r' = Some to"
    and "res \<noteq> Inr True \<Longrightarrow> owner_at key r' = Some o1"
  using assms
  by (cases cb; auto simp: on_sub_account_transferred_def nft_on_rotation_resolved_def
      nft_on_rotation_resolved_call_def commit_nft_rotation_def assert_private_r_def Let_def
      case_prod_unfold owner_at_def sub_account_reassign_def emit_activity_def push_activity_def
      split: option.splits sum.splits if_splits)+

text \<open>The callback of the registry's own method changes nothing where the owner is another by then.\<close>

lemma dropped_settlement:
  "owner_at (sub_account_key tla name) r = Some o1 \<Longrightarrow> o1 \<noteq> from
   \<Longrightarrow> on_sub_account_transferred c tla name from to cause res r = Inr (r1, outs) \<Longrightarrow> r1 = r"
  by (auto simp: on_sub_account_transferred_def Let_def owner_at_def)

section \<open>Every step keeps it\<close>

lemma settlesD: "settles key cb \<Longrightarrow> \<exists>from to cause. settlement_of cb = Some (key, from, to, cause)"
  by (auto simp: settles_def)

lemma rotation_of_eq [simp]: "settlement_of cb = Some (key, from, to, cause) \<Longrightarrow> rotation_of cb = (from, to)"
  by (simp add: rotation_of_def)

lemma concerns_settles:
  "concerns key (RegCall (CallExtension a x) (Some cb)) \<Longrightarrow> well_addressed wid (RegCall (CallExtension a x) (Some cb))
   \<Longrightarrow> \<exists>from to cause. settlement_of cb = Some (key, from, to, cause) \<and> needs_holder cause
        \<and> x = Ext_force_transfer wid (Some to) cause (Some from)"
  by (cases cb; auto)

lemma set_remove1: "y \<in> set (remove1 m xs) \<Longrightarrow> y \<in> set xs"
  by (meson in_mono set_remove1_subset)

lemma sys_inv_step:
  assumes "sys_step lib reg ext wid key s author s2" and "sys_inv wid key s"
    and "author = None \<or> author = Some (tw_owner (sy_wallet s))"
    and "rl_parse (sl_registry lib) key = Some wid"
  shows "sys_inv wid key s2"
  using assms(1)
proof cases
  case (sy_public c k r' outs)
  with assms public_call [OF sy_public(4) assms(4) sy_public(5)] show ?thesis
    by (auto simp: sys_inv_def in_transit_def)
next
  case (sy_checked rm cb k c r' outs)
  with assms have "well_addressed wid (RegCall rm (Some cb))" by (auto simp: sys_inv_def)
  from checked_call [OF sy_checked(4) this sy_checked(6)] sy_checked assms show ?thesis
    by (auto simp: sys_inv_def in_transit_def dest: set_remove1)
next
  case (sy_check_failed rm cb k c e)
  with assms show ?thesis by (auto simp: sys_inv_def in_transit_def dest: set_remove1)
next
  case (sy_ordered m a w to cause b cb c x' outs ret)
  with assms have "concerns key m \<and> well_addressed wid m" by (auto simp: sys_inv_def)
  with concerns_settles sy_ordered(3) have "\<exists>holder nxt. settlement_of cb = Some (key, holder, nxt, cause)
      \<and> needs_holder cause \<and> to = Some nxt \<and> b = Some holder \<and> w = wid" by fastforce
  with ordered_commands [OF sy_ordered(7), of wid] sy_ordered assms show ?thesis
    by (auto simp: sys_inv_def in_transit_def dest: set_remove1)
next
  case (sy_refused m a w to cause b cb c e)
  with assms have "concerns key m \<and> well_addressed wid m" by (auto simp: sys_inv_def)
  with concerns_settles sy_refused(3) have "settles key cb" by (fastforce simp: settles_def)
  with sy_refused assms show ?thesis by (auto simp: sys_inv_def in_transit_def dest: set_remove1)
next
  case (sy_rotated to cause cb c w' wouts)
  with assms have "command_ok key (Hos_transfer_ownership to cause author, cb)" by (auto simp: sys_inv_def)
  then obtain holder nxt where cmd: "to = Some nxt" "author = Some holder" "needs_holder cause"
    "settlement_of cb = Some (key, holder, nxt, cause)" by auto
  note rot = rotated_owner [OF sy_rotated(5) [unfolded cmd(1,2)] cmd(3)]
  have "holder = tw_owner (sy_wallet s)" using assms(3) cmd(2) by simp
  with rot(1) cmd sy_rotated assms show ?thesis
    by (auto simp: sys_inv_def in_transit_def settles_def dest: set_remove1)
next
  case (sy_not_rotated to cause b cb c e)
  with assms have "command_ok key (Hos_transfer_ownership to cause b, cb)" by (auto simp: sys_inv_def)
  with sy_not_rotated assms show ?thesis
    by (auto simp: sys_inv_def in_transit_def settles_def dest: set_remove1)
next
  case (sy_reported res cb rest c x' outs b)
  with reported_value [OF sy_reported(7)] assms show ?thesis
    by (cases res) (auto simp: sys_inv_def in_transit_def)
next
  case (sy_settled res cb rest k c r')
  with assms obtain holder to cause where st: "settlement_of cb = Some (key, holder, to, cause)"
    by (auto simp: sys_inv_def dest: settlesD)
  from assms obtain o1 where o1: "owner_at key (sy_registry s) = Some o1"
    "path o1 (in_transit s) (tw_owner (sy_wallet s))" by (auto simp: sys_inv_def)
  have priv: "is_private_call c" "no_deposit c"
    using sy_settled by (auto simp: is_private_call_def no_deposit_def)
  note own = settled_owner [OF st sy_settled(4) o1(1) priv sy_settled(8)]
  show ?thesis
  proof (cases "res = Inr True")
    case True
    with o1(2) sy_settled(3) st have "o1 = holder" "path to (in_transit s2) (tw_owner (sy_wallet s2))"
      using sy_settled(2) by (auto simp: in_transit_def)
    with own(1) True sy_settled assms show ?thesis by (auto simp: sys_inv_def)
  next
    case False
    with o1(2) sy_settled(2,3) have "path o1 (in_transit s2) (tw_owner (sy_wallet s2))"
      by (auto simp: in_transit_def)
    with own(2) False sy_settled assms show ?thesis by (auto simp: sys_inv_def)
  qed
next
  case (sy_wallet_call c k w' wouts)
  with assms show ?thesis by (auto simp: sys_inv_def in_transit_def)
next
  case (sy_extension_call c k x' outs ret)
  with assms show ?thesis by (auto simp: sys_inv_def in_transit_def)
qed

lemma sys_inv_run:
  "sys_run lib reg ext wid key s strayed s' \<Longrightarrow> \<not> strayed \<Longrightarrow> sys_inv wid key s
   \<Longrightarrow> rl_parse (sl_registry lib) key = Some wid \<Longrightarrow> sys_inv wid key s'"
  by (induction rule: sys_run.induct) (auto intro: sys_inv_step)

lemma authored_step:
  assumes "sys_step lib reg ext wid key s (Some h) s2" and "sys_inv wid key s"
  shows "h \<in> tw_extensions (sy_wallet s) \<and> h \<noteq> tw_authority (sy_wallet s)
    \<and> (\<exists>nxt cause cb. (Hos_transfer_ownership (Some nxt) cause (Some h), cb) \<in> set (sy_commands s))"
  using assms(1)
proof cases
  case (sy_rotated to cause cb c w' wouts)
  with assms(2) have "command_ok key (Hos_transfer_ownership to cause (Some h), cb)" by (auto simp: sys_inv_def)
  with sy_rotated rotated_owner(2,3) show ?thesis by fastforce
qed

text \<open>A run strays, if it does, at a request that waits when its author, no longer the owner, has become an
  extension of the wallet.\<close>

lemma strays_first:
  assumes "sys_run lib reg ext wid key s strayed s'" and "strayed" and "sys_inv wid key s"
    and "rl_parse (sl_registry lib) key = Some wid"
  shows "\<exists>s1 h nxt cause cb. sys_run lib reg ext wid key s False s1
    \<and> (Hos_transfer_ownership (Some nxt) cause (Some h), cb) \<in> set (sy_commands s1)
    \<and> h \<in> tw_extensions (sy_wallet s1) \<and> h \<noteq> tw_owner (sy_wallet s1) \<and> h \<noteq> tw_authority (sy_wallet s1)"
  using assms
proof (induction rule: sys_run.induct)
  case (sys_here s)
  then show ?case by simp
next
  case (sys_next s strayed s1 author s2)
  show ?case
  proof (cases strayed)
    case True
    with sys_next show ?thesis by blast
  next
    case False
    with sys_next.prems obtain h where h: "author = Some h" "h \<noteq> tw_owner (sy_wallet s1)" by auto
    have "sys_inv wid key s1" using sys_inv_run [OF sys_next.hyps(1) False] sys_next.prems by blast
    with authored_step [of lib reg ext wid key s1 h s2] sys_next.hyps(2) h(1) obtain nxt cause cb where
      "(Hos_transfer_ownership (Some nxt) cause (Some h), cb) \<in> set (sy_commands s1)"
      "h \<in> tw_extensions (sy_wallet s1)" "h \<noteq> tw_authority (sy_wallet s1)" by auto
    with sys_next.hyps(1) h(2) False show ?thesis by (intro exI [of _ s1]) auto
  qed
qed

section \<open>What is in transit can be delivered\<close>

definition callback_ctx :: "account_id \<Rightarrow> ctx" where
  "callback_ctx self = \<lparr>predecessor_account_id = self, current_account_id = self, block_timestamp = 0,
     block_height = 0, attached_deposit = 0, account_balance = 0, storage_byte_cost = 0,
     storage_usage = 0, prepaid_gas = 0, used_gas = 0, promise_results = []\<rparr>"

lemma sys_run_trans:
  "sys_run lib reg ext wid key b y d \<Longrightarrow> sys_run lib reg ext wid key a x b
   \<Longrightarrow> sys_run lib reg ext wid key a (x \<or> y) d"
proof (induction rule: sys_run.induct)
  case (sys_next b y s1 author s2)
  from sys_run.sys_next [OF sys_next.IH [OF sys_next.prems] sys_next.hyps(2)] show ?case by (simp add: disj_assoc)
qed simp

lemma deliver_result:
  assumes "sy_results s = (res, cb) # rest"
  shows "\<exists>x'. sys_step lib reg ext wid key s None
    (s\<lparr>sy_extension := x', sy_results := rest, sy_answers := sy_answers s @ [(Inr (is_ok res), cb)]\<rparr>)"
proof -
  let ?c = "callback_ctx ext"
  from reported_enabled [of ?c ext "sl_extension lib" wid res "sy_extension s"] obtain x' outs where
    "extension_exec (sl_extension lib) ?c (XcAfterForceSwap wid res) (sy_extension s)
         = Inr (x', outs, XValue (is_ok res))" by (auto simp: callback_ctx_def)
  from sy_reported [OF assms _ _ _ this] show ?thesis by (auto simp: callback_ctx_def)
qed

lemma deliver_answer:
  assumes "sy_answers s = (res, cb) # rest" and "settlement_of cb = Some (key, holder, to, cause)"
    and "owner_at key (sy_registry s) = Some o1"
  shows "\<exists>r'. sys_step lib reg ext wid key s None (s\<lparr>sy_registry := r', sy_answers := rest\<rparr>)
    \<and> (res = Inr True \<and> o1 = holder \<longrightarrow> owner_at key r' = Some to)
    \<and> (o1 \<noteq> holder \<and> (\<exists>tla name. cb = On_sub_account_transferred tla name holder to cause)
         \<longrightarrow> r' = sy_registry s)"
proof -
  from assms(2) obtain k where k: "settlement_call cb res = Some k" by (cases cb) auto
  define r' where "r' = (case registry_exec (sl_registry lib) (callback_ctx reg) (Market k) (sy_registry s) of
               Inr (r1, outs) \<Rightarrow> r1 | Inl e \<Rightarrow> sy_registry s)"
  have priv: "is_private_call (callback_ctx reg)" "no_deposit (callback_ctx reg)"
    by (simp_all add: callback_ctx_def is_private_call_def no_deposit_def)
  have "r' = sy_registry s" if "o1 \<noteq> holder" "cb = On_sub_account_transferred tla name holder to cause" for tla name
    using assms(2,3) k that by (auto simp: r'_def dest: dropped_settlement split: sum.split)
  moreover have "sys_step lib reg ext wid key s None (s\<lparr>sy_registry := r', sy_answers := rest\<rparr>)"
    by (rule sy_settled [OF assms(1) k _ _ _ r'_def]) (simp_all add: callback_ctx_def)
  ultimately show ?thesis using settled_owner(1) [OF assms(2) k assms(3) priv r'_def] by blast
qed

lemma drain_results:
  "\<exists>s'. sys_run lib reg ext wid key s False s' \<and> sy_results s' = [] \<and> sy_wallet s' = sy_wallet s"
proof (induction "sy_results s" arbitrary: s)
  case Nil
  then show ?case using sys_here by metis
next
  case (Cons y rest)
  then obtain res cb where "sy_results s = (res, cb) # rest" by (metis prod.exhaust)
  from deliver_result [OF this, of lib reg ext wid key] obtain x' where
    step: "sys_step lib reg ext wid key s None
      (s\<lparr>sy_extension := x', sy_results := rest, sy_answers := sy_answers s @ [(Inr (is_ok res), cb)]\<rparr>)"
    (is "sys_step _ _ _ _ _ _ _ ?s") by blast
  from Cons.hyps(1) [of ?s] obtain s' where
    "sys_run lib reg ext wid key ?s False s'" "sy_results s' = []" "sy_wallet s' = sy_wallet s" by auto
  with sys_run_trans [OF this(1) sys_quiet [OF sys_here step]] show ?case by auto
qed

lemma drain_answers:
  assumes "sys_inv wid key s" and "sy_results s = []" and "rl_parse (sl_registry lib) key = Some wid"
  shows "\<exists>s'. sys_run lib reg ext wid key s False s' \<and> sy_results s' = [] \<and> sy_answers s' = [] \<and> sy_wallet s' = sy_wallet s"
  using assms
proof (induction "sy_answers s" arbitrary: s)
  case Nil
  then show ?case using sys_here by metis
next
  case (Cons y rest)
  obtain res cb where y: "sy_answers s = (res, cb) # rest" using Cons.hyps(2) by (metis prod.exhaust)
  with Cons.prems(1) obtain holder to cause o1 where "settlement_of cb = Some (key, holder, to, cause)"
    "owner_at key (sy_registry s) = Some o1" by (auto simp: sys_inv_def dest!: settlesD)
  from deliver_answer [OF y this, of lib reg ext wid] obtain r' where
    step: "sys_step lib reg ext wid key s None (s\<lparr>sy_registry := r', sy_answers := rest\<rparr>)"
    (is "sys_step _ _ _ _ _ _ _ ?s") by blast
  have "sys_inv wid key ?s" using sys_inv_step [OF step Cons.prems(1) _ Cons.prems(3)] by simp
  with Cons.hyps(1) [of ?s] Cons.prems y obtain s' where
    "sys_run lib reg ext wid key ?s False s'" "sy_results s' = [] \<and> sy_answers s' = []" "sy_wallet s' = sy_wallet s" by auto
  with sys_run_trans [OF this(1) sys_quiet [OF sys_here step]] show ?case by auto
qed

section \<open>The owners stay together\<close>

text \<open>
  C1. Over the changes of owner a tenant asks for, the registry and the wallet can lose each other
  in one way only. Start with the two in agreement and nothing in flight, and let any calls be
  made, from any account, with any number of transfers of the name, by the registry's own method or by
  either NEP-171 method, in flight at once and overtaking each other on their way to the wallet, the
  extension paused or refusing as it likes; results and answers come back in the order in which they
  were given, and reclaims, re-rents, recoveries and reverts are left out. As long as every
  rotation the wallet made was asked for by its owner of that moment, the rotations it has
  made and the registry has not recorded form a path from the owner the registry knows to the
  owner the wallet has; with none in transit the two owners are the same; and what is in
  transit can always be delivered, which makes them the same without touching the wallet. Where a run
  does stray from this, it has passed a state, not yet astray, in which a request was waiting whose
  author, no longer the owner of the wallet nor its authority, had been made an extension of it.
\<close>

theorem owners_stay_together:
  assumes "rl_parse (sl_registry lib) key = Some wid"
    and "owner_at key (sy_registry s0) = Some (tw_owner (sy_wallet s0))"
    and "sy_promises s0 = []" "sy_commands s0 = []" "sy_results s0 = []" "sy_answers s0 = []"
    and "sys_run lib reg ext wid key s0 strayed s"
  shows "(\<not> strayed \<longrightarrow>
      (\<exists>o1. owner_at key (sy_registry s) = Some o1 \<and> path o1 (in_transit s) (tw_owner (sy_wallet s)))
      \<and> (sy_results s = [] \<and> sy_answers s = []
           \<longrightarrow> owner_at key (sy_registry s) = Some (tw_owner (sy_wallet s)))
      \<and> (\<exists>s'. sys_run lib reg ext wid key s False s' \<and> sy_results s' = [] \<and> sy_answers s' = []
           \<and> sy_wallet s' = sy_wallet s
           \<and> owner_at key (sy_registry s') = Some (tw_owner (sy_wallet s))))
    \<and> (strayed \<longrightarrow>
      (\<exists>s1 h nxt cause cb. sys_run lib reg ext wid key s0 False s1
         \<and> (Hos_transfer_ownership (Some nxt) cause (Some h), cb) \<in> set (sy_commands s1)
         \<and> h \<in> tw_extensions (sy_wallet s1)
         \<and> h \<noteq> tw_owner (sy_wallet s1) \<and> h \<noteq> tw_authority (sy_wallet s1)))"
proof (cases strayed)
  have inv0: "sys_inv wid key s0" using assms(2-6) by (simp add: sys_inv_def in_transit_def)
  case True
  with strays_first [OF assms(7) _ inv0 assms(1)] show ?thesis by simp
next
  have inv0: "sys_inv wid key s0" using assms(2-6) by (simp add: sys_inv_def in_transit_def)
  case False
  note inv = sys_inv_run [OF assms(7) False inv0 assms(1)]
  have calm: "owner_at key (sy_registry u) = Some (tw_owner (sy_wallet u))"
    if "sys_inv wid key u" "sy_results u = []" "sy_answers u = []" for u :: "'a sys"
    using that by (auto simp: sys_inv_def in_transit_def)
  from drain_results [of lib reg ext wid key s] obtain s1 where
    s1: "sys_run lib reg ext wid key s False s1" "sy_results s1 = []" "sy_wallet s1 = sy_wallet s" by blast
  from drain_answers [OF sys_inv_run [OF s1(1) _ inv assms(1)] s1(2) assms(1)] obtain s2 where
    s2: "sys_run lib reg ext wid key s1 False s2" "sy_results s2 = []" "sy_answers s2 = []" "sy_wallet s2 = sy_wallet s1"
    by blast
  have run: "sys_run lib reg ext wid key s False s2" using sys_run_trans [OF s2(1) s1(1)] by simp
  have "owner_at key (sy_registry s2) = Some (tw_owner (sy_wallet s))"
    using calm [OF sys_inv_run [OF run _ inv assms(1)] s2(2,3)] s1(3) s2(4) by simp
  with run s1(3) s2(2-4) have "\<exists>s'. sys_run lib reg ext wid key s False s' \<and> sy_results s' = [] \<and> sy_answers s' = []
      \<and> sy_wallet s' = sy_wallet s \<and> owner_at key (sy_registry s') = Some (tw_owner (sy_wallet s))"
    by (intro exI [of _ s2]) simp
  with False inv calm [OF inv] show ?thesis by (auto simp: sys_inv_def)
qed

text \<open>The witness: Alice asks for a transfer to Bob and for one to Carol, both are ordered, and the
  wallet makes the first and refuses the second.\<close>

definition demo_sl :: "unit sys_lib" where
  "demo_sl = \<lparr>sl_registry = demo_rlib, sl_extension = demo_xlib, sl_wallet = demo_lib\<rparr>"

definition demo_at :: "account_id \<Rightarrow> account_id \<Rightarrow> u128 \<Rightarrow> ctx" where
  "demo_at self who deposit = (demo_rc who 20 deposit)\<lparr>current_account_id := self\<rparr>"

definition demo_cb :: "account_id \<Rightarrow> reg_callback" where
  "demo_cb to = On_sub_account_transferred ''tla'' ''alices'' ''alice'' to Transfer"

definition demo_order :: "account_id \<Rightarrow> reg_out" where
  "demo_order to = RegCall (CallExtension ''ext''
     (Ext_force_transfer ''alices.tla'' (Some to) Transfer (Some ''alice''))) (Some (demo_cb to))"

definition demo_command :: "account_id \<Rightarrow> tenant_call \<times> reg_callback" where
  "demo_command to = (Hos_transfer_ownership (Some to) Transfer (Some ''alice''), demo_cb to)"

definition demo_rotated :: "unit tenant_wallet" where
  "demo_rotated = demo_wallet\<lparr>tw_extensions := {''bob'', ''ext''}, tw_owner := ''bob'',
     tw_payout_account := ''bob'', tw_rotation_seq := 1, tw_revert_to := Some ''alice'',
     tw_revert_until_ns := sat_add 20 REVERT_WINDOW_NS\<rparr>"

definition demo_sys ::
    "unit tenant_wallet \<Rightarrow> account_id list \<Rightarrow> account_id list
     \<Rightarrow> ((promise_error + unit) \<times> reg_callback) list \<Rightarrow> unit sys" where
  "demo_sys w ordered commanded results =
     \<lparr>sy_registry = demo_r5, sy_extension = demo_x0\<lparr>x_registry := ''reg''\<rparr>, sy_wallet = w,
      sy_promises = map demo_order ordered, sy_commands = map demo_command commanded,
      sy_results = results, sy_answers = []\<rparr>"

lemma demo_r5_fields [simp]:
  "r_sub_accounts demo_r5 = [''alices.tla'' \<mapsto> demo_sub]" "r_reclaim_pending demo_r5 = {}"
  "r_venues demo_r5 = {}" "r_ft_allowlist demo_r5 = {}" "r_hos_extension demo_r5 = ''ext''"
  "r_tlas demo_r5 = [''tla'' \<mapsto> demo_tla]"
  by (simp_all add: demo_r5_def demo_r4_def demo_r3_def demo_r1_def)

lemma demo_alices [simp]: "validate_name ''alices'' = Inr ()"
  "sub_account_key ''tla'' ''alices'' = ''alices.tla''"
  by (simp_all add: validate_name_def is_name_char_def is_separator_def MIN_LABEL_LEN_def sub_account_key_def)

lemma demo_at_sel [simp]:
  "predecessor_account_id (demo_at self who d) = who" "current_account_id (demo_at self who d) = self"
  "attached_deposit (demo_at self who d) = d" "block_timestamp (demo_at self who d) = 20"
  by (simp_all add: demo_at_def)

lemma demo_sellable: "assert_sellable (demo_at ''reg'' ''alice'' 1) ''alices.tla'' ''tla'' demo_r5 = Inr ''alice''"
  by (simp add: assert_sellable_def demo_sub_def demo_tla_def licensee_governed_def effective_sub_lifecycle_def
      tla_lifecycle_def sub_lifecycle_def time_lifecycle_def suspension_expiry_def clock_def)

lemma demo_not_paused: "assert_not_paused (demo_at ''reg'' ''alice'' 1) demo_r5 = Inr ()"
  by (simp add: reg_guards demo_r5_def demo_r4_def demo_r3_def demo_r1_def)

lemma demo_transfer_asked:
  assumes "to \<in> {''bob'', ''carol''}"
  shows "registry_exec demo_rlib (demo_at ''reg'' ''alice'' 1) (Market (McTransfer ''tla'' ''alices'' to)) demo_r5
    = Inr (demo_r5, [demo_order to])"
proof -
  have "rl_parse demo_rlib = Some" "rl_iter demo_rlib {} = []" "sa_owner demo_sub = ''alice''"
    "sa_tla_id demo_sub = ''tla''" by (simp_all add: demo_rlib_def demo_sub_def)
  then have "assert_transferable demo_rlib (demo_at ''reg'' ''alice'' 1) ''tla'' ''alices'' to demo_r5
      = Inr (''alices.tla'', ''alice'', [])"
    using assms by (auto simp: assert_transferable_def assert_one_yocto_r_def demo_sellable demo_not_paused)
  then show ?thesis
    using \<open>rl_iter demo_rlib {} = []\<close>
    by (simp add: transfer_sub_account_def rotation_for_receiver_def ft_balance_fanout_def demo_order_def
        demo_cb_def dispatch_sub_account_transfer_def)
qed

lemma demo_transfer_ordered:
  "extension_exec demo_xlib (demo_at ''ext'' ''reg'' 0)
     (XcForceTransfer ''alices.tla'' (Some to) Transfer (Some ''alice'')) (demo_x0\<lparr>x_registry := ''reg''\<rparr>)
   = Inr (demo_x0\<lparr>x_registry := ''reg''\<rparr>,
       [XEmit (XForceTransferRequested ''alices.tla'' (Some to) False ''reg''),
        XCall (CallWallet ''alices.tla'' (Hos_transfer_ownership (Some to) Transfer (Some ''alice''))) 1
          (Some (After_force_swap ''alices.tla''))], XPromise)"
  by (simp add: force_transfer_def ext_guards demo_x0_def effective_paused_x_def EXTENSION_CALL_DEPOSIT_def)

lemma demo_transfer_made:
  "\<exists>wouts. wallet_exec demo_lib (demo_at ''alices.tla'' ''ext'' 1)
     (CTransferOwnership (Some ''bob'') Transfer (Some ''alice'')) demo_wallet = Inr (demo_rotated, wouts)"
  "\<exists>e. wallet_exec demo_lib (demo_at ''alices.tla'' ''ext'' 1)
     (CTransferOwnership (Some ''carol'') Transfer (Some ''alice'')) demo_rotated = Inl e"
  by (auto simp: hos_transfer_ownership_def apply_rotation_def rotation_gate_def guard_defs demo_wallet_def
      demo_rotated_def check_lockout_def seat_owner_def Let_def sat_add_def)

lemma demo_asked_step:
  assumes "to \<in> {''bob'', ''carol''}"
  shows "sys_step demo_sl ''reg'' ''ext'' ''alices.tla'' ''alices.tla''
    (demo_sys w os cs rs) None (demo_sys w (os @ [to]) cs rs)"
proof -
  have "demo_sys w (os @ [to]) cs rs = (demo_sys w os cs rs)\<lparr>sy_registry := demo_r5,
      sy_promises := sy_promises (demo_sys w os cs rs) @ filter (concerns ''alices.tla'') [demo_order to]\<rparr>"
    by (simp add: demo_sys_def demo_order_def demo_cb_def)
  then show ?thesis
    by (simp only:)
      (rule sy_public [where c = "demo_at ''reg'' ''alice'' 1" and k = "Market (McTransfer ''tla'' ''alices'' to)"];
       use demo_transfer_asked [OF assms] in \<open>simp add: demo_sys_def demo_sl_def external_def\<close>)
qed

lemma demo_ordered_step:
  "sys_step demo_sl ''reg'' ''ext'' ''alices.tla'' ''alices.tla''
    (demo_sys w (to # os) cs rs) None (demo_sys w os (cs @ [to]) rs)"
proof -
  let ?s = "demo_sys w (to # os) cs rs" and ?m = "demo_order to"
  let ?outs = "[XEmit (XForceTransferRequested ''alices.tla'' (Some to) False ''reg''),
        XCall (CallWallet ''alices.tla'' (Hos_transfer_ownership (Some to) Transfer (Some ''alice''))) 1
          (Some (After_force_swap ''alices.tla''))]"
  have "demo_sys w os (cs @ [to]) rs = ?s\<lparr>sy_extension := demo_x0\<lparr>x_registry := ''reg''\<rparr>,
      sy_promises := remove1 ?m (sy_promises ?s),
      sy_commands := sy_commands ?s @ map (\<lambda>k. (k, demo_cb to)) (wallet_commands ''alices.tla'' ?outs)\<rparr>"
    by (simp add: demo_sys_def demo_command_def wallet_commands_def)
  then show ?thesis
    by (simp only:)
      (rule sy_ordered [where c = "demo_at ''ext'' ''reg'' 0" and cause = Transfer and ret = XPromise];
       use demo_transfer_ordered [of to] in \<open>(simp add: demo_sys_def demo_sl_def demo_order_def; fail)?\<close>)
qed

definition demo_s3 :: "unit sys" where
  "demo_s3 = demo_sys demo_rotated [] [] [(Inr (), demo_cb ''bob''), (Inl Promise_Failed, demo_cb ''carol'')]"

abbreviation "demo_step \<equiv> sys_step demo_sl ''reg'' ''ext'' ''alices.tla'' ''alices.tla''"

abbreviation "demo_run \<equiv> sys_run demo_sl ''reg'' ''ext'' ''alices.tla'' ''alices.tla'' (demo_sys demo_wallet [] [] [])"

lemma demo_first_made: "demo_run False (demo_sys demo_rotated [] [''carol''] [(Inr (), demo_cb ''bob'')])"
proof -
  have "demo_run False (demo_sys demo_wallet [''bob''] [] [])"
    using sys_quiet [OF sys_here demo_asked_step [of "''bob''" demo_wallet "[]"]] by force
  then have "demo_run False (demo_sys demo_wallet [''bob'', ''carol''] [] [])"
    using sys_quiet [OF _ demo_asked_step [of "''carol''" demo_wallet "[''bob'']"]] by force
  then have "demo_run False (demo_sys demo_wallet [''carol''] [''bob''] [])"
    using sys_quiet [OF _ demo_ordered_step] by force
  then have two: "demo_run False (demo_sys demo_wallet [] [''bob'', ''carol''] [])"
    using sys_quiet [OF _ demo_ordered_step] by force
  obtain wouts where made: "wallet_exec demo_lib (demo_at ''alices.tla'' ''ext'' 1)
      (CTransferOwnership (Some ''bob'') Transfer (Some ''alice'')) demo_wallet = Inr (demo_rotated, wouts)"
    using demo_transfer_made(1) by blast
  have "demo_step (demo_sys demo_wallet [] [''bob'', ''carol''] []) (Some ''alice'')
      (demo_sys demo_rotated [] [''carol''] [(Inr (), demo_cb ''bob'')])"
    using sy_rotated [of "Some ''bob''" Transfer "Some ''alice''" "demo_cb ''bob''"
        "demo_sys demo_wallet [] [''bob'', ''carol''] []" "demo_at ''alices.tla'' ''ext'' 1" "''alices.tla''" "''ext''" demo_sl
        demo_rotated wouts] made
    by (simp add: demo_sys_def demo_sl_def demo_command_def)
  with two show ?thesis by (rule sys_quiet) (simp add: demo_sys_def demo_wallet_def)
qed

lemma demo_sys_run: "demo_run False demo_s3"
proof -
  obtain e where "wallet_exec demo_lib (demo_at ''alices.tla'' ''ext'' 1)
      (CTransferOwnership (Some ''carol'') Transfer (Some ''alice'')) demo_rotated = Inl e"
    using demo_transfer_made(2) by blast
  then have "demo_step (demo_sys demo_rotated [] [''carol''] [(Inr (), demo_cb ''bob'')]) None demo_s3"
    using sy_not_rotated [of "Some ''carol''" Transfer "Some ''alice''" "demo_cb ''carol''"
        "demo_sys demo_rotated [] [''carol''] [(Inr (), demo_cb ''bob'')]"
        "demo_at ''alices.tla'' ''ext'' 1" "''alices.tla''" "''ext''" demo_sl e]
    by (simp add: demo_sys_def demo_sl_def demo_command_def demo_s3_def)
  with demo_first_made show ?thesis by (rule sys_quiet) simp
qed

theorem owners_stay_together_witness:
  "owner_at ''alices.tla'' (sy_registry demo_s3) = Some ''alice'' \<and> tw_owner (sy_wallet demo_s3) = ''bob''
   \<and> path ''alice'' (in_transit demo_s3) ''bob''
   \<and> (\<exists>s'. sys_run demo_sl ''reg'' ''ext'' ''alices.tla'' ''alices.tla'' demo_s3 False s' \<and> sy_answers s' = []
        \<and> sy_wallet s' = demo_rotated \<and> owner_at ''alices.tla'' (sy_registry s') = Some ''bob'')"
proof -
  have start: "rl_parse (sl_registry demo_sl) ''alices.tla'' = Some ''alices.tla''"
    "owner_at ''alices.tla'' (sy_registry (demo_sys demo_wallet [] [] [])) = Some (tw_owner (sy_wallet (demo_sys demo_wallet [] [] [])))"
    by (simp_all add: demo_sl_def demo_rlib_def owner_at_def demo_sys_def demo_sub_def demo_wallet_def)
  have here: "owner_at ''alices.tla'' (sy_registry demo_s3) = Some ''alice''" "tw_owner (sy_wallet demo_s3) = ''bob''"
    "sy_wallet demo_s3 = demo_rotated" "tw_owner demo_rotated = ''bob''"
    by (simp_all add: owner_at_def demo_s3_def demo_sys_def demo_sub_def demo_rotated_def)
  show ?thesis
    using owners_stay_together [OF start _ _ _ _ demo_sys_run] here by (fastforce simp: demo_sys_def)
qed

section \<open>How they part\<close>

text \<open>
  The way that is left is open. Alice asks for a transfer to Bob and for one to Carol; the wallet makes the
  first; Bob, its owner now, makes Alice a co-owner; and the wallet obeys her second request,
  which the registry, where Bob has replaced her by then, does not record. With everything
  delivered, Bob is the owner in the registry and Carol in the wallet.
\<close>

definition demo_lent :: "unit tenant_wallet" where
  "demo_lent = demo_rotated\<lparr>tw_extensions := {''alice'', ''bob'', ''ext''}\<rparr>"

lemma demo_lent_made:
  "wallet_exec demo_lib (demo_at ''alices.tla'' ''bob'' 1)
     (CExecuteExtension \<lparr>rq_internal = [AddExtension ''alice''], rq_external = []\<rparr>) demo_rotated
   = Inr (demo_lent, [Emit (ExtensionAdded ''alice'')])"
  by (simp add: demo_lib_def demo_wallet_def demo_rotated_def demo_lent_def w_execute_extension_def
      execute_request_def add_extension_def assert_extension_editor_def guard_defs insert_commute)

lemma demo_lent_obeys:
  "\<exists>w wouts. wallet_exec demo_lib (demo_at ''alices.tla'' ''ext'' 1)
     (CTransferOwnership (Some ''carol'') Transfer (Some ''alice'')) demo_lent = Inr (w, wouts)
     \<and> tw_owner w = ''carol''"
  by (auto simp: hos_transfer_ownership_def apply_rotation_def rotation_gate_def guard_defs demo_wallet_def
      demo_rotated_def demo_lent_def check_lockout_def seat_owner_def Let_def sat_add_def)

lemma co_owner_request_parts_owners:
  "\<exists>s. demo_run True s \<and> sy_promises s = [] \<and> sy_commands s = [] \<and> sy_results s = [] \<and> sy_answers s = []
     \<and> owner_at ''alices.tla'' (sy_registry s) = Some ''bob'' \<and> tw_owner (sy_wallet s) = ''carol''"
proof -
  let ?bob = "demo_cb ''bob''" and ?carol = "demo_cb ''carol''"
  have cbs: "settlement_of (demo_cb to) = Some (''alices.tla'', ''alice'', to, Transfer)" for to
    by (simp add: demo_cb_def)
  have "demo_step (demo_sys demo_rotated [] [''carol''] [(Inr (), ?bob)]) None
      (demo_sys demo_lent [] [''carol''] [(Inr (), ?bob)])"
    using sy_wallet_call [of "demo_at ''alices.tla'' ''bob'' 1" "''alices.tla''" demo_sl
        "CExecuteExtension \<lparr>rq_internal = [AddExtension ''alice''], rq_external = []\<rparr>"
        "demo_sys demo_rotated [] [''carol''] [(Inr (), ?bob)]" demo_lent] demo_lent_made
    by (simp add: demo_sys_def demo_sl_def demo_lent_def)
  with demo_first_made have lent: "demo_run False (demo_sys demo_lent [] [''carol''] [(Inr (), ?bob)])"
    by (rule sys_quiet) simp
  from demo_lent_obeys obtain w wouts where w: "wallet_exec demo_lib (demo_at ''alices.tla'' ''ext'' 1)
      (CTransferOwnership (Some ''carol'') Transfer (Some ''alice'')) demo_lent = Inr (w, wouts)"
    "tw_owner w = ''carol''" by blast
  let ?s0 = "demo_sys w [] [] [(Inr (), ?bob), (Inr (), ?carol)]"
  have "demo_step (demo_sys demo_lent [] [''carol''] [(Inr (), ?bob)]) (Some ''alice'') ?s0"
    using sy_rotated [of "Some ''carol''" Transfer "Some ''alice''" ?carol
        "demo_sys demo_lent [] [''carol''] [(Inr (), ?bob)]" "demo_at ''alices.tla'' ''ext'' 1" "''alices.tla''" "''ext''" demo_sl
        w wouts] w(1)
    by (simp add: demo_sys_def demo_sl_def demo_command_def)
  from sys_next [OF lent this] have r0: "demo_run True ?s0"
    by (simp add: demo_sys_def demo_lent_def demo_rotated_def)
  from deliver_result [of ?s0] obtain s1 where s1: "demo_step ?s0 None s1"
    "sy_results s1 = [(Inr (), ?carol)]" "sy_answers s1 = [(Inr True, ?bob)]" "sy_promises s1 = []"
    "sy_commands s1 = []" "sy_wallet s1 = w" "sy_registry s1 = demo_r5" by (fastforce simp: demo_sys_def)
  from deliver_result [OF s1(2)] s1 obtain s2 where s2: "demo_step s1 None s2"
    "sy_results s2 = []" "sy_answers s2 = [(Inr True, ?bob), (Inr True, ?carol)]" "sy_promises s2 = []"
    "sy_commands s2 = []" "sy_wallet s2 = w" "sy_registry s2 = demo_r5" by fastforce
  have "owner_at ''alices.tla'' (sy_registry s2) = Some ''alice''" by (simp add: s2 owner_at_def demo_sub_def)
  from deliver_answer [OF s2(3) cbs this, of demo_sl "''reg''" "''ext''" "''alices.tla''"] s2
  obtain s3 where s3: "demo_step s2 None s3"
    "sy_results s3 = []" "sy_answers s3 = [(Inr True, ?carol)]" "sy_promises s3 = []"
    "sy_commands s3 = []" "sy_wallet s3 = w" "owner_at ''alices.tla'' (sy_registry s3) = Some ''bob''" by auto
  from deliver_answer [OF s3(3) cbs s3(7), of demo_sl "''reg''" "''ext''" "''alices.tla''"] s3
  obtain s4 where s4: "demo_step s3 None s4"
    "sy_results s4 = []" "sy_answers s4 = []" "sy_promises s4 = []"
    "sy_commands s4 = []" "sy_wallet s4 = w" "owner_at ''alices.tla'' (sy_registry s4) = Some ''bob''"
    by (auto simp: demo_cb_def)
  have "demo_run True s4" by (rule sys_quiet [OF sys_quiet [OF sys_quiet [OF sys_quiet [OF r0 s1(1)] s2(1)] s3(1)] s4(1)]) simp_all
  with s4 w(2) show ?thesis by auto
qed

end
