(* ===== verification/Minting.thy ===== *)
theory Minting
  imports System Registrar
begin

text \<open>
  The birth of a tenancy, over three contracts: the registry opens a lease and orders the account
  from the registrar of the namespace, the registrar creates the account with the wallet code and
  its configuration, the wallet initialises itself. And two places where the contracts can come
  apart: a recovery that a transfer overtakes, and a namespace set up with a signature timeout
  the wallet refuses.
\<close>

section \<open>Every account the registry orders has its lease on record\<close>

definition lease_recorded :: "tla_registry \<Rightarrow> tla_registry \<times> reg_out list \<Rightarrow> bool" where
  "lease_recorded r y \<longleftrightarrow>
     (\<forall>tla name owner payout until d cb. RegCall (CreateSubAccount tla name owner payout until d) cb \<in> set (snd y) \<longrightarrow>
        r_sub_accounts r (sub_account_key tla name) = None
        \<and> (\<exists>sub. r_sub_accounts (fst y) (sub_account_key tla name) = Some sub \<and> sa_tla_id sub = tla
             \<and> sa_owner sub = owner \<and> sa_payout_account sub = payout \<and> sa_expires_at sub = until))"

fun mints :: "reg_out \<Rightarrow> bool" where
  "mints (RegCall (CreateSubAccount _ _ _ _ _ _) _) = True"
| "mints _ = False"

definition mint_free :: "reg_out list \<Rightarrow> bool" where
  "mint_free outs \<longleftrightarrow> (\<forall>m \<in> set outs. \<not> mints m)"

lemma mint_free_simps [simp]:
  "mint_free []" "mint_free (m # outs) \<longleftrightarrow> \<not> mints m \<and> mint_free outs"
  "mint_free (xs @ ys) \<longleftrightarrow> mint_free xs \<and> mint_free ys"
  by (auto simp: mint_free_def)

lemma mint_free_recorded: "mint_free (snd y) \<Longrightarrow> lease_recorded r y"
  by (fastforce simp: mint_free_def lease_recorded_def)

lemma mint_free_msgs [simp]:
  "\<not> mints (re_rent_transfer e pr)" "\<not> mints (start_re_rent lib pr r)"
  "\<not> mints (park_wallet a t nm d r)" "\<not> mints (retract_wallet_lease e a x)"
  "\<not> mints (retract_wallet_lease_pending e a x k d)" "\<not> mints (restore_wallet_lease e a x k d)"
  "\<not> mints (dispatch_rotation a rot r)" "\<not> mints (dispatch_transfer_call a ca r)"
  "\<not> mints (dispatch_sub_account_transfer a t nm f o1 cs r)"
  by (auto simp: re_rent_transfer_def start_re_rent_def park_wallet_def retract_wallet_lease_def
      retract_wallet_lease_pending_def restore_wallet_lease_def dispatch_rotation_def ft_balance_fanout_def
      dispatch_transfer_call_def dispatch_sub_account_transfer_def Let_def split: option.split list.split)

lemma fanout_Some: "ft_balance_fanout al a = Some chain \<longleftrightarrow> al \<noteq> [] \<and> chain = FtBalances al a"
  by (auto simp: ft_balance_fanout_def split: list.splits)

lemma mint_free_helpers [simp]:
  "mint_free (snd (emit_activity c ev r))" "mint_free (snd (record_authority_mint a t r))"
  "mint_free (snd (release_order oi k p t r))" "mint_free (snd (confirm_order oi k p r))"
  "mint_free (snd (settle_failed_mint k t p n rs r))" "mint_free (snd (fail_mint c b s rs r))"
  "mint_free (snd (reclaim_blocked k tk rs r))"
  by (auto simp: helper_defs stale_order_def split: option.split prod.split if_splits)

lemma mint_free_transferable:
  "assert_transferable lib c t n o1 r = Inr (a, b, outs) \<Longrightarrow> mint_free outs"
  by (auto simp: assert_transferable_def Let_def split: if_splits)

lemma mint_free_open_nft:
  "open_nft_transfer lib c rc tk ap r = Inr (a, b, d, e, outs) \<Longrightarrow> mint_free outs"
  by (auto simp: open_nft_transfer_def dest: mint_free_transferable)

lemma recorded_open_lease:
  assumes "r_sub_accounts r (sub_account_key tla name) = None" "mint_free rest"
    and "names r' = names (fst (open_lease c (sub_account_key tla name) tla owner payout r1))"
    and "until = snd (open_lease c (sub_account_key tla name) tla owner payout r1)"
  shows "lease_recorded r (r', RegCall (create_leased_account tla name owner payout until r2) cb # rest)"
    and "lease_recorded r (r', rest @ [RegEmit ev, RegCall (create_leased_account tla name owner payout until r2) cb])"
  using assms mint_free_recorded [of "(r', rest)" r]
  by (auto simp: lease_recorded_def create_leased_account_def open_lease_def sub_account_insert_def Let_def names_def)

lemma rental_recorded: "res_all (lease_recorded r) (rental_exec lib c x r)"
  by (cases x; simp only: rental_exec.simps rental_defs Let_def case_prod_unfold; (intro res_walk)?)
    (auto intro!: recorded_open_lease intro: mint_free_recorded split: if_splits)

lemma business_recorded: "res_all (lease_recorded r) (business_exec lib c x r)"
  by (cases x; simp only: business_exec.simps business_defs rental_defs Let_def case_prod_unfold;
      (intro res_walk)?)
    (auto simp: fanout_Some intro!: recorded_open_lease intro: mint_free_recorded split: if_splits option.splits)

lemma market_recorded: "res_all (lease_recorded r) (market_exec lib c x r)"
  by (cases x; simp only: market_exec.simps market_defs Let_def case_prod_unfold; (intro res_walk)?)
    (auto simp: fanout_Some intro!: mint_free_recorded dest: mint_free_transferable mint_free_open_nft split: if_splits)

lemma admin_recorded: "res_all (lease_recorded r) (admin_exec lib c x r)"
  by (cases x; simp only: admin_exec.simps admin_defs Let_def case_prod_unfold; (intro res_walk)?)
    (auto intro!: mint_free_recorded split: if_splits)

lemma exec_recorded: "registry_exec lib c k r = Inr y \<Longrightarrow> lease_recorded r y"
  using res_allD [OF rental_recorded] res_allD [OF business_recorded] res_allD [OF market_recorded]
    res_allD [OF admin_recorded] by (cases k) auto

section \<open>From the lease to the wallet\<close>

text \<open>The wallet reads the configuration the registrar wrote, field by field.\<close>

definition wallet_init_of :: "init_args \<Rightarrow> wallet_init" where
  "wallet_init_of args =
     \<lparr>wi_owner_account = ia_owner_account args, wi_authority = ia_authority args,
      wi_collection_id = Registrar.ia_collection_id args, wi_payout_account = ia_payout_account args,
      wi_lease_until_ns = ia_lease_until_ns args, wi_timeout_secs = ia_timeout_secs args\<rparr>"

lemma direct_subaccount: "name \<noteq> [] \<Longrightarrow> CHR ''.'' \<notin> set name \<Longrightarrow> is_direct_subaccount (name @ ''.'' @ tla) tla"
  by (simp add: is_direct_subaccount_def strip_suffix_append [of "name @ ''.''" tla, simplified])

lemma created_wallet:
  assumes "create_sub_account lib c name owner payout until g = Inr (g', outs, ret)"
    and "GCall (CreateWallet account funding impl args) d cb \<in> set outs"
    and "\<forall>s a. gl_parse lib s = Some a \<longrightarrow> a = s"
  shows "account = name @ ''.'' @ current_account_id c" and "funding = attached_deposit c"
    and "is_direct_subaccount account (current_account_id c)" and "payout \<noteq> account" "owner \<noteq> account"
    and "wallet_init_of args = \<lparr>wi_owner_account = owner, wi_authority = g_hos_extension g,
           wi_collection_id = g_registry g, wi_payout_account = payout, wi_lease_until_ns = until,
           wi_timeout_secs = g_wallet_timeout_secs g\<rparr>"
proof -
  show acc: "account = name @ ''.'' @ current_account_id c"
    using assms by (auto simp: create_sub_account_def)
  show "is_direct_subaccount account (current_account_id c)"
    using assms(1) direct_subaccount unfolding acc by (auto simp: create_sub_account_def)
qed (use assms in \<open>auto simp: create_sub_account_def wallet_init_of_def\<close>)

text \<open>
  C3. A tenancy is born in three contracts with the same terms. Whatever call made the registry order an
  account, the lease is on record in the same call, for a name that was free; the account the
  registrar creates is that name, with the deposit the registry sent; its wallet comes to life
  exactly when it is initialised before the lease on record ends and the registrar is wired
  sensibly (a timeout within the wallet's bounds, an extension that is neither the account nor the owner, a
  registry that is not the account); and then its owner, payout account and end of lease are
  those of the registry's record, its authority and collection are the registrar's extension and
  registry, it is active, nothing is granted, and the wallet invariant holds.
\<close>

theorem tenancy_born_consistent:
  assumes "registry_exec lib c k r = Inr (r', outs)"
    and "RegCall (CreateSubAccount tla name owner payout until d) cb \<in> set outs"
    and "create_sub_account glib cg name owner payout until g = Inr (g', gouts, ret)"
    and "current_account_id cg = tla" "attached_deposit cg = d"
    and "GCall (CreateWallet account funding impl args) d' cb' \<in> set gouts"
    and "\<forall>s a. gl_parse glib s = Some a \<longrightarrow> a = s"
    and "current_account_id cw = account" "predecessor_account_id cw = tla" "attached_deposit cw = 0"
  shows "account = sub_account_key tla name \<and> funding = d \<and> r_sub_accounts r account = None
    \<and> (\<exists>sub. r_sub_accounts r' account = Some sub
        \<and> (is_ok (hos_init wlib cw False (wallet_init_of args)) \<longleftrightarrow>
             block_timestamp cw < sa_expires_at sub
             \<and> MIN_TIMEOUT_SECS \<le> g_wallet_timeout_secs g \<and> g_wallet_timeout_secs g \<le> MAX_TIMEOUT_SECS
             \<and> g_hos_extension g \<noteq> account \<and> g_hos_extension g \<noteq> sa_owner sub \<and> g_registry g \<noteq> account)
        \<and> (\<forall>w wouts. hos_init wlib cw False (wallet_init_of args) = Inr (w, wouts) \<longrightarrow>
             tw_owner w = sa_owner sub \<and> tw_payout_account w = sa_payout_account sub
             \<and> tw_lease_until_ns w = sa_expires_at sub \<and> tw_authority w = g_hos_extension g
             \<and> tw_collection_id w = g_registry g \<and> tw_state w = Active
             \<and> tw_spend_grants w = Map.empty \<and> wallet_inv account w))"
proof -
  note new = created_wallet [OF assms(3,6,7), unfolded assms(4,5)]
  have key: "sub_account_key tla name = account" using new(1) by (simp add: sub_account_key_def)
  from exec_recorded [OF assms(1)] assms(2) key obtain sub where free: "r_sub_accounts r account = None"
    and sub: "r_sub_accounts r' account = Some sub" "sa_owner sub = owner" "sa_payout_account sub = payout"
      "sa_expires_at sub = until" by (fastforce simp: lease_recorded_def)
  have "is_ok (hos_init wlib cw False (wallet_init_of args)) \<longleftrightarrow>
      block_timestamp cw < sa_expires_at sub
      \<and> MIN_TIMEOUT_SECS \<le> g_wallet_timeout_secs g \<and> g_wallet_timeout_secs g \<le> MAX_TIMEOUT_SECS
      \<and> g_hos_extension g \<noteq> account \<and> g_hos_extension g \<noteq> sa_owner sub \<and> g_registry g \<noteq> account"
    using new(3,4,5) sub assms(8-10) by (auto simp: hos_init_def new(6) no_deposit_def is_ok_iff)
  moreover have "tw_owner w = sa_owner sub \<and> tw_payout_account w = sa_payout_account sub
      \<and> tw_lease_until_ns w = sa_expires_at sub \<and> tw_authority w = g_hos_extension g
      \<and> tw_collection_id w = g_registry g \<and> tw_state w = Active \<and> tw_spend_grants w = Map.empty
      \<and> wallet_inv account w" if "hos_init wlib cw False (wallet_init_of args) = Inr (w, wouts)" for w wouts
    using hos_init_inv [OF that] that sub assms(8) by (auto simp: hos_init_def new(6))
  ultimately show ?thesis using key free new(2) sub(1) by (intro conjI exI [of _ sub] allI impI) simp_all
qed

definition demo_glib :: registrar_lib where
  "demo_glib = \<lparr>gl_parse = Some, gl_sha256 = (\<lambda>bs. bs), gl_decode = (\<lambda>_. None), gl_decode_v1 = (\<lambda>_. None)\<rparr>"

definition demo_g :: registrar where
  "demo_g = \<lparr>g_state_version = 2, g_registry = ''reg'', g_council = ''council'', g_wallet_impl = ''impl'',
     g_hos_extension = ''ext'', g_recovery = ''rec'', g_chain_id = ''mainnet'',
     g_min_balance = 7000000000000000000000, g_wallet_timeout_secs = 60, g_approved_code_hash = None,
     g_approved_at = None, g_config_epoch = 0, g_upgrade_proven = False, g_pending_council = None,
     g_pending_council_at = None\<rparr>"

definition demo_args :: init_args where
  "demo_args = \<lparr>ia_owner_account = ''alice'', ia_authority = ''ext'', ia_collection_id = ''reg'',
     ia_payout_account = ''alice'', ia_lease_until_ns = 31536000000000009, ia_timeout_secs = 60\<rparr>"

lemma demo_create:
  "create_sub_account demo_glib (demo_at ''tla'' ''reg'' 12000000000000000000000) ''alices'' ''alice'' ''alice''
       31536000000000009 demo_g
   = Inr (demo_g, [GCall (CreateWallet ''alices.tla'' 12000000000000000000000 ''impl'' demo_args)
       12000000000000000000000 (Some (On_minted ''alices.tla'' ''alice'' 12000000000000000000000))], GPromise)"
  by (simp add: create_sub_account_def demo_glib_def demo_g_def demo_args_def)

theorem tenancy_born_consistent_witness:
  "\<exists>sub w wouts. r_sub_accounts demo_r4 ''alices.tla'' = Some sub
     \<and> hos_init demo_lib (demo_at ''alices.tla'' ''tla'' 0) False (wallet_init_of demo_args) = Inr (w, wouts)
     \<and> tw_owner w = sa_owner sub \<and> tw_lease_until_ns w = sa_expires_at sub"
proof -
  have "\<forall>s a. gl_parse demo_glib s = Some a \<longrightarrow> a = s" by (simp add: demo_glib_def)
  note born = tenancy_born_consistent [OF demo_step4 _ demo_create _ _ _ this, where d = 12000000000000000000000
      and cw = "demo_at ''alices.tla'' ''tla'' 0" and wlib = demo_lib]
  have "\<exists>sub. r_sub_accounts demo_r4 ''alices.tla'' = Some sub
      \<and> (is_ok (hos_init demo_lib (demo_at ''alices.tla'' ''tla'' 0) False (wallet_init_of demo_args)) \<longleftrightarrow>
           20 < sa_expires_at sub \<and> MIN_TIMEOUT_SECS \<le> g_wallet_timeout_secs demo_g
           \<and> g_wallet_timeout_secs demo_g \<le> MAX_TIMEOUT_SECS \<and> g_hos_extension demo_g \<noteq> ''alices.tla''
           \<and> g_hos_extension demo_g \<noteq> sa_owner sub \<and> g_registry demo_g \<noteq> ''alices.tla'')
      \<and> (\<forall>w wouts. hos_init demo_lib (demo_at ''alices.tla'' ''tla'' 0) False (wallet_init_of demo_args) = Inr (w, wouts)
           \<longrightarrow> tw_owner w = sa_owner sub \<and> tw_lease_until_ns w = sa_expires_at sub)"
    using born by fastforce
  moreover have "r_sub_accounts demo_r4 ''alices.tla'' = Some demo_sub" by (simp add: demo_r4_def)
  moreover have "is_ok (hos_init demo_lib (demo_at ''alices.tla'' ''tla'' 0) False (wallet_init_of demo_args))
      \<Longrightarrow> \<exists>w wouts. hos_init demo_lib (demo_at ''alices.tla'' ''tla'' 0) False (wallet_init_of demo_args) = Inr (w, wouts)"
    by (auto simp: is_ok_iff)
  moreover have "MIN_TIMEOUT_SECS \<le> g_wallet_timeout_secs demo_g" "g_wallet_timeout_secs demo_g \<le> MAX_TIMEOUT_SECS"
    "20 < sa_expires_at demo_sub" "g_hos_extension demo_g = ''ext''" "g_registry demo_g = ''reg''" "sa_owner demo_sub = ''alice''"
    by (simp_all add: MIN_TIMEOUT_SECS_def MAX_TIMEOUT_SECS_def demo_g_def demo_sub_def)
  ultimately show ?thesis by auto
qed

section \<open>Where the contracts come apart\<close>

text \<open>
  A registrar checks neither bound of the wallet's signature timeout and has no way to change it:
  with a timeout out of bounds every wallet of its namespace refuses to initialise.
\<close>

lemma bad_timeout_never_mints:
  assumes "create_sub_account lib cg name owner payout until g = Inr (g', gouts, ret)"
    and "GCall (CreateWallet account funding impl args) d cb \<in> set gouts"
    and "\<not> (MIN_TIMEOUT_SECS \<le> g_wallet_timeout_secs g \<and> g_wallet_timeout_secs g \<le> MAX_TIMEOUT_SECS)"
  shows "\<not> is_ok (hos_init wlib cw ex (wallet_init_of args))"
  using assms by (auto simp: create_sub_account_def wallet_init_of_def hos_init_def is_ok_iff)

text \<open>
  A recovery and a transfer of the same name in flight together. The recovery asks the wallet for
  no holder, so the wallet makes both, the transfer first; the registry records the transfer, and
  drops the recovery because the owner it was ordered against has moved. The wallet then belongs to the
  recovered owner and the registry's record to the receiver of the transfer, with nothing in
  flight that would bring them together.
\<close>

lemma recovery_overtaken_by_transfer:
  assumes "owner_at (sub_account_key tla name) r = Some holder" and "to1 \<noteq> holder"
    and "hos_transfer_ownership c1 (Some to1) Transfer (Some holder) w = Inr (w1, outs1)"
    and "hos_transfer_ownership c2 (Some to2) Recovery None w1 = Inr (w2, outs2)"
    and "on_sub_account_transferred c3 tla name holder to1 Transfer (Inr True) r = Inr (r1, outs3)"
    and "on_sub_account_recovered c4 tla name holder to2 (Inr True) r1 = Inr (r2, outs4)"
  shows "tw_owner w2 = to2 \<and> owner_at (sub_account_key tla name) r2 = Some to1
    \<and> outs4 = [RegEmit (TransferFailed (sub_account_key tla name) holder to2)]"
proof -
  have "apply_rotation c2 (Some to2) Recovery None w1 = Inr (w2, outs2)"
    using assms(4) by (auto simp: hos_transfer_ownership_def)
  from apply_rotation_Inr(1) [OF this] have "tw_owner w2 = to2" by simp
  moreover have "owner_at (sub_account_key tla name) r1 = Some to1"
    using assms(1,5) by (auto simp: on_sub_account_transferred_def Let_def case_prod_unfold owner_at_def
        sub_account_reassign_def emit_activity_def push_activity_def split: option.splits if_splits)
  moreover from this have "r2 = r1 \<and> outs4 = [RegEmit (TransferFailed (sub_account_key tla name) holder to2)]"
    using assms(2,6) by (auto simp: on_sub_account_recovered_def Let_def owner_at_def split: option.splits if_splits)
  ultimately show ?thesis by simp
qed

text \<open>It happens: the wallet of the demonstration makes both.\<close>

lemma recovery_after_transfer_accepted:
  "\<exists>w2 wouts. hos_transfer_ownership (demo_at ''alices.tla'' ''ext'' 1) (Some ''carol'') Recovery None demo_rotated
     = Inr (w2, wouts)"
  by (auto simp: hos_transfer_ownership_def apply_rotation_def rotation_gate_def guard_defs demo_wallet_def
      demo_rotated_def check_lockout_def seat_owner_def Let_def sat_add_def)

end
