(* ===== verification/Fleet.thy ===== *)
theory Fleet
  imports Near_Env
begin

text \<open>
  The operators' tool (\<open>tools/fleet/src/main.rs\<close>): it stages the artifacts of a release, compares them
  with what the chain runs, deploys what differs, publishes the registrar, and reports whether the
  deployed fleet is configured for production. The definitions follow the source function by
  function. What a run reads from outside is a parameter (\<open>fleet_lib\<close>): the environment, git, the
  source tree and its times, the RPC transport, the \<open>near\<close> command, the JSON text and the hash. What a run
  changes is the state (\<open>fleet_world\<close>): the files it writes, the chain, which is left abstract and
  changes only by the commands given to \<open>near\<close>, and those commands in order. What is printed
  is not modelled. A failed call keeps what it had already written or deployed.
\<close>

section \<open>JSON values and text\<close>

datatype json =
    JNull | JBool bool | JNum int | JStr string | JArr "json list" | JObj "(string \<times> json) list"

text \<open>Indexing with a key or a position that is not there gives \<open>null\<close>.\<close>

definition jget :: "json \<Rightarrow> string \<Rightarrow> json" where
  "jget v key = (case v of
     JObj fs \<Rightarrow> (case map_of fs key of None \<Rightarrow> JNull | Some x \<Rightarrow> x) | _ \<Rightarrow> JNull)"

definition jat :: "json \<Rightarrow> nat \<Rightarrow> json" where
  "jat v i = (case v of JArr xs \<Rightarrow> (if i < length xs then xs ! i else JNull) | _ \<Rightarrow> JNull)"

definition as_str :: "json \<Rightarrow> string option" where
  "as_str v = (case v of JStr s \<Rightarrow> Some s | _ \<Rightarrow> None)"

definition as_bool :: "json \<Rightarrow> bool option" where
  "as_bool v = (case v of JBool b \<Rightarrow> Some b | _ \<Rightarrow> None)"

definition as_u64 :: "json \<Rightarrow> u64 option" where
  "as_u64 v = (case v of JNum n \<Rightarrow> if 0 \<le> n \<and> n < 2 ^ 64 then Some (of_int n) else None | _ \<Rightarrow> None)"

definition as_array :: "json \<Rightarrow> json list option" where
  "as_array v = (case v of JArr xs \<Rightarrow> Some xs | _ \<Rightarrow> None)"

definition as_object :: "json \<Rightarrow> (string \<times> json) list option" where
  "as_object v = (case v of JObj fs \<Rightarrow> Some fs | _ \<Rightarrow> None)"

definition is_whitespace :: "char \<Rightarrow> bool" where
  "is_whitespace ch \<longleftrightarrow> (let n = of_char ch :: nat in n = 32 \<or> 9 \<le> n \<and> n \<le> 13)"

text \<open>The words and the lines of a text; the word or line being read is kept back to front.\<close>

fun words_from :: "string \<Rightarrow> string \<Rightarrow> string list" where
  "words_from cur [] = (if cur = [] then [] else [rev cur])"
| "words_from cur (ch # rest) =
     (if is_whitespace ch then (if cur = [] then words_from [] rest else rev cur # words_from [] rest)
      else words_from (ch # cur) rest)"

definition split_whitespace :: "string \<Rightarrow> string list" where
  "split_whitespace s = words_from [] s"

fun lines_from :: "string \<Rightarrow> string \<Rightarrow> string list" where
  "lines_from cur [] = (if cur = [] then [] else [rev cur])"
| "lines_from cur (ch # rest) =
     (if ch = CHR 0x0A then rev (case cur of [] \<Rightarrow> [] | c # cs \<Rightarrow> if c = CHR 0x0D then cs else cur)
                            # lines_from [] rest
      else lines_from (ch # cur) rest)"

definition text_lines :: "string \<Rightarrow> string list" where
  "text_lines s = lines_from [] s"

definition trim :: "string \<Rightarrow> string" where
  "trim s = rev (dropWhile is_whitespace (rev (dropWhile is_whitespace s)))"

definition replace_char :: "char \<Rightarrow> char \<Rightarrow> string \<Rightarrow> string" where
  "replace_char a b s = map (\<lambda>ch. if ch = a then b else ch) s"

text \<open>Whether a text occurs in another, and where first.\<close>

fun position :: "'a list \<Rightarrow> 'a list \<Rightarrow> nat option" where
  "position needle [] = (if needle = [] then Some 0 else None)"
| "position needle (x # xs) =
     (if take (length needle) (x # xs) = needle then Some 0
      else map_option Suc (position needle xs))"

definition contains :: "string \<Rightarrow> string \<Rightarrow> bool" where
  "contains s needle \<longleftrightarrow> position needle s \<noteq> None"

definition digit_value :: "char \<Rightarrow> nat option" where
  "digit_value ch = (let n = of_char ch :: nat in if 48 \<le> n \<and> n \<le> 57 then Some (n - 48) else None)"

fun digits_value :: "nat \<Rightarrow> string \<Rightarrow> nat option" where
  "digits_value acc [] = Some acc"
| "digits_value acc (ch # rest) =
     Option.bind (digit_value ch) (\<lambda>d. digits_value (10 * acc + d) rest)"

text \<open>The decimal parser of the language, for 64 and for 128 bits: an optional plus sign, at least
  one digit, nothing else, and the value fits.\<close>

definition parse_unsigned :: "nat \<Rightarrow> string \<Rightarrow> nat option" where
  "parse_unsigned bits s =
     (let digits = (case s of [] \<Rightarrow> [] | ch # rest \<Rightarrow> if ch = CHR ''+'' then rest else s)
      in if digits = [] then None
         else Option.bind (digits_value 0 digits) (\<lambda>n. if n < 2 ^ bits then Some n else None))"

fun show_nat :: "nat \<Rightarrow> string" where
  "show_nat n = (if n < 10 then [char_of (48 + n)] else show_nat (n div 10) @ [char_of (48 + n mod 10)])"

declare show_nat.simps [simp del]

section \<open>Networks, profiles, targets\<close>

datatype network = Testnet | Mainnet

fun rpc_url :: "network \<Rightarrow> string" where
  "rpc_url Testnet = ''https://rpc.testnet.near.org''"
| "rpc_url Mainnet = ''https://rpc.mainnet.near.org''"

fun cli_name :: "network \<Rightarrow> string" where
  "cli_name Testnet = ''testnet''"
| "cli_name Mainnet = ''mainnet''"

datatype fleet_profile = Test | Production

record target =
  tg_var :: string
  tg_artifact :: string
  tg_tag_name :: string
  tg_probe :: string

definition FLEET :: "target list" where
  "FLEET =
    [\<lparr>tg_var = ''DEPLOYER_ACCOUNT'', tg_artifact = ''wallet_impl_deployer'',
      tg_tag_name = ''wallet-impl-deployer'', tg_probe = ''config''\<rparr>,
     \<lparr>tg_var = ''ROOT_ACCOUNT'', tg_artifact = ''registrar'',
      tg_tag_name = ''registrar'', tg_probe = ''config''\<rparr>,
     \<lparr>tg_var = ''EXTENSION_ACCOUNT'', tg_artifact = ''hos_extension'',
      tg_tag_name = ''hos-extension'', tg_probe = ''get_admins''\<rparr>,
     \<lparr>tg_var = ''RECOVERY_ACCOUNT'', tg_artifact = ''mpc_recovery'',
      tg_tag_name = ''mpc-recovery'', tg_probe = ''owner''\<rparr>,
     \<lparr>tg_var = ''REGISTRY_ACCOUNT'', tg_artifact = ''tla_registry'',
      tg_tag_name = ''tla-registry'', tg_probe = ''get_stats''\<rparr>]"

definition WALLET_ARTIFACT :: string where "WALLET_ARTIFACT = ''hos_wallet''"

section \<open>Outside and state\<close>

text \<open>A file tree: what a directory listing gives of a source directory, \<open>None\<close> for a time
  that cannot be read.\<close>

datatype file_tree = SrcFile string "nat option" | SrcDir string "file_tree list"

record 'c fleet_lib =
  fl_env :: "string \<rightharpoonup> string"
  fl_git_root :: "string option"
  fl_rev_list :: "string \<rightharpoonup> string"
  fl_tag_text :: "string \<Rightarrow> string"
  fl_sources :: "string \<rightharpoonup> file_tree list"
  fl_modified :: "string \<rightharpoonup> nat"
  fl_writable :: "string \<Rightarrow> bool"
  fl_bs58_sha256 :: "bytes \<Rightarrow> string"
  fl_json_text :: "json \<Rightarrow> string"
  fl_json_write :: "json \<Rightarrow> bytes"
  fl_json_read :: "bytes \<Rightarrow> json option"
  fl_post :: "string \<Rightarrow> json \<Rightarrow> 'c \<Rightarrow> string + json"
  fl_near :: "string list \<Rightarrow> (string \<rightharpoonup> bytes) \<Rightarrow> 'c \<Rightarrow> bool option \<times> 'c"

record 'c fleet_world =
  fw_files :: "string \<rightharpoonup> bytes"
  fw_chain :: 'c
  fw_commands :: "string list list"

text \<open>An error of the tool is a message; those the code itself tells apart keep their text.\<close>

datatype (plugins only:) fleet_error =
    Message string | EnvUnset string | NetworkUnset | UnknownNetwork string | ProfileUnset
  | UnknownProfile string | NotInRepository | UnknownTag string | TagCarriesNoTable string
  | NoSuchArtifact string string | NoPlan string | NoArtifactTable string | BadManifest string
  | IoError string | ArtifactMissing string | StaleArtifact string | WrongHash string string
  | BuiltElsewhere string string | NoEmbeddedCommit string | StagedMissing string
  | StagedDrifted string | DeployExited string | DeployedOther string string
  | DeployedUnreadable string | KeysPresent nat | NotGlobal string | ShortOfFunds string u128
  | PublishExited string | PublishedOther string | NothingPublished string
  | PermanenceWrong "string list" | StepsOutstanding nat | FleetDiffers string | Usage

type_synonym ('c, 'a) fleet_act = "'c fleet_world \<Rightarrow> (fleet_error + 'a) \<times> 'c fleet_world"

definition fok :: "'a \<Rightarrow> ('c, 'a) fleet_act" where
  "fok x w = (Inr x, w)"

definition ferr :: "fleet_error \<Rightarrow> ('c, 'a) fleet_act" where
  "ferr e w = (Inl e, w)"

text \<open>A call that only reads.\<close>

definition fread :: "('c fleet_world \<Rightarrow> fleet_error + 'a) \<Rightarrow> ('c, 'a) fleet_act" where
  "fread f w = (f w, w)"

definition fseq :: "('c, 'a) fleet_act \<Rightarrow> ('a \<Rightarrow> ('c, 'b) fleet_act) \<Rightarrow> ('c, 'b) fleet_act" where
  "fseq m k w = (case m w of (Inl e, w') \<Rightarrow> (Inl e, w') | (Inr x, w') \<Rightarrow> k x w')"

definition frequire :: "bool \<Rightarrow> fleet_error \<Rightarrow> ('c, 'a) fleet_act \<Rightarrow> ('c, 'a) fleet_act" where
  "frequire b e m w = (if b then m w else (Inl e, w))"

text \<open>Joining paths: an absolute second part replaces the first.\<close>

definition path_join :: "string \<Rightarrow> string \<Rightarrow> string" where
  "path_join a b = (if b \<noteq> [] \<and> hd b = CHR ''/'' then b else a @ ''/'' @ b)"

definition write_file :: "'c fleet_lib \<Rightarrow> string \<Rightarrow> bytes \<Rightarrow> ('c, unit) fleet_act" where
  "write_file lib path bytes w =
     (if fl_writable lib path then (Inr (), w\<lparr>fw_files := (fw_files w)(path \<mapsto> bytes)\<rparr>)
      else (Inl (IoError path), w))"

definition create_dir_all :: "'c fleet_lib \<Rightarrow> string \<Rightarrow> ('c, unit) fleet_act" where
  "create_dir_all lib path w = (if fl_writable lib path then (Inr (), w) else (Inl (IoError path), w))"

text \<open>Running \<open>near\<close>: \<open>None\<close> is a command that could not be started.\<close>

definition run_near :: "'c fleet_lib \<Rightarrow> string list \<Rightarrow> ('c, bool) fleet_act" where
  "run_near lib args w =
     (case fl_near lib args (fw_files w) (fw_chain w) of
        (None, _) \<Rightarrow> (Inl (IoError ''near''), w)
      | (Some success, chain) \<Rightarrow>
          (Inr success, w\<lparr>fw_chain := chain, fw_commands := fw_commands w @ [args]\<rparr>))"

section \<open>Environment and git\<close>

definition env_account :: "'c fleet_lib \<Rightarrow> string \<Rightarrow> fleet_error + string" where
  "env_account lib var = ok_or (fl_env lib var) (EnvUnset var) Inr"

definition env_or_empty :: "'c fleet_lib \<Rightarrow> string \<Rightarrow> string" where
  "env_or_empty lib var = (case fl_env lib var of None \<Rightarrow> [] | Some v \<Rightarrow> v)"

definition network_of :: "'c fleet_lib \<Rightarrow> fleet_error + network" where
  "network_of lib =
     (let v = env_or_empty lib ''NETWORK''
      in if v = ''testnet'' then Inr Testnet
         else if v = ''mainnet'' then Inr Mainnet
         else if v = [] then Inl NetworkUnset
         else Inl (UnknownNetwork v))"

definition profile_of :: "'c fleet_lib \<Rightarrow> fleet_error + fleet_profile" where
  "profile_of lib =
     (let v = env_or_empty lib ''FLEET_PROFILE''
      in if v = ''test'' then Inr Test
         else if v = ''production'' then Inr Production
         else if v = [] then Inl ProfileUnset
         else Inl (UnknownProfile v))"

definition repo_root :: "'c fleet_lib \<Rightarrow> fleet_error + string" where
  "repo_root lib = ok_or (fl_git_root lib) NotInRepository (\<lambda>out. Inr (trim out))"

definition tag_commit :: "'c fleet_lib \<Rightarrow> string \<Rightarrow> fleet_error + string" where
  "tag_commit lib tag = ok_or (fl_rev_list lib tag) (UnknownTag tag) (\<lambda>out. Inr (trim out))"

definition tag_line :: "string \<Rightarrow> (string \<times> string) option" where
  "tag_line line =
     (case split_whitespace line of
        [name, hash] \<Rightarrow>
          if list_ex (\<lambda>t. tg_tag_name t = name) FLEET \<or> name = ''hos-wallet''
          then Some (name, hash) else None
      | _ \<Rightarrow> None)"

definition tag_hashes :: "'c fleet_lib \<Rightarrow> string \<Rightarrow> fleet_error + (string \<times> string) list" where
  "tag_hashes lib tag =
     (let found = List.map_filter tag_line (text_lines (fl_tag_text lib tag))
      in require (found \<noteq> []) (TagCarriesNoTable tag) (Inr found))"

section \<open>Releases\<close>

datatype release = Tagged string string "(string \<times> string) list" | Planned string "(string \<times> string) list"

fun release_name :: "release \<Rightarrow> string" where
  "release_name (Tagged n _ _) = n"
| "release_name (Planned n _) = n"

fun release_hashes :: "release \<Rightarrow> (string \<times> string) list" where
  "release_hashes (Tagged _ _ hs) = hs"
| "release_hashes (Planned _ hs) = hs"

definition want :: "release \<Rightarrow> string \<Rightarrow> fleet_error + string" where
  "want release tag_name =
     ok_or (find (\<lambda>(n, _). n = tag_name) (release_hashes release))
       (NoSuchArtifact (release_name release) tag_name) (\<lambda>(_, h). Inr h)"

definition staged_dir :: "string \<Rightarrow> string \<Rightarrow> string" where
  "staged_dir root name = path_join (path_join root ''artifacts'') name"

definition staged_path :: "string \<Rightarrow> string \<Rightarrow> string \<Rightarrow> string" where
  "staged_path root name artifact = path_join (staged_dir root name) (artifact @ ''.wasm'')"

definition manifest_path :: "string \<Rightarrow> string \<Rightarrow> string" where
  "manifest_path root name = path_join (staged_dir root name) ''manifest.json''"

definition artifact_path :: "string \<Rightarrow> string \<Rightarrow> string" where
  "artifact_path root artifact =
     path_join (path_join (path_join root ''target/near'') artifact) (artifact @ ''.wasm'')"

definition resolve :: "'c fleet_lib \<Rightarrow> string \<Rightarrow> string \<Rightarrow> 'c fleet_world \<Rightarrow> fleet_error + release" where
  "resolve lib root name w =
     (case tag_commit lib name of
        Inr commit \<Rightarrow> rbind (tag_hashes lib name) (\<lambda>hashes. Inr (Tagged name commit hashes))
      | Inl _ \<Rightarrow>
          ok_or (fw_files w (manifest_path root name)) (NoPlan name) (\<lambda>body.
          ok_or (fl_json_read lib body) (BadManifest name) (\<lambda>doc.
          ok_or (as_object (jget doc ''artifacts'')) (NoArtifactTable name) (\<lambda>table.
          Inr (Planned name
                 (List.map_filter (\<lambda>(k, v). map_option (\<lambda>h. (k, h)) (as_str v)) table))))))"

text \<open>The commit a reproducible build embeds: at most forty bytes after the first \<open>?rev=\<close>.\<close>

definition embedded_commit :: "bytes \<Rightarrow> string option" where
  "embedded_commit bytes =
     (let needle = map of_char ''?rev='' :: bytes
      in map_option (\<lambda>i. map (\<lambda>b. char_of (unat b)) (take 40 (drop (i + length needle) bytes)))
           (position needle bytes))"

section \<open>Asking the chain\<close>

definition rpc :: "'c fleet_lib \<Rightarrow> network \<Rightarrow> json \<Rightarrow> 'c fleet_world \<Rightarrow> fleet_error + json" where
  "rpc lib net body w =
     (case fl_post lib (rpc_url net) body (fw_chain w) of
        Inl e \<Rightarrow> Inl (Message e)
      | Inr resp \<Rightarrow>
          require (jget resp ''error'' = JNull)
            (Message (cli_name net @ '' rpc refused the query: '' @ fl_json_text lib (jget resp ''error'')))
            (Inr resp))"

definition query :: "string \<Rightarrow> string \<Rightarrow> (string \<times> json) list \<Rightarrow> json" where
  "query request_type account args =
     JObj [(''jsonrpc'', JStr ''2.0''), (''id'', JNum 1), (''method'', JStr ''query''),
           (''params'', JObj ([(''request_type'', JStr request_type), (''finality'', JStr ''final''),
                               (''account_id'', JStr account)] @ args))]"

definition chain_hash ::
    "'c fleet_lib \<Rightarrow> network \<Rightarrow> string \<Rightarrow> 'c fleet_world \<Rightarrow> fleet_error + string" where
  "chain_hash lib net account w =
     rbind (rpc lib net (query ''view_account'' account []) w) (\<lambda>v.
     ok_or (as_str (jget (jget v ''result'') ''code_hash''))
       (Message (''no code_hash for '' @ account @ '' on '' @ cli_name net)) Inr)"

definition view ::
    "'c fleet_lib \<Rightarrow> network \<Rightarrow> string \<Rightarrow> string \<Rightarrow> 'c fleet_world \<Rightarrow> fleet_error + json" where
  "view lib net account method w =
     rbind (rpc lib net (query ''call_function'' account
              [(''method_name'', JStr method), (''args_base64'', JStr ''e30='')]) w) (\<lambda>v.
     case as_str (jget (jget v ''result'') ''error'') of
       Some err \<Rightarrow> Inl (Message (account @ ''.'' @ method @ '' failed: '' @ err))
     | None \<Rightarrow>
         ok_or (as_array (jget (jget v ''result'') ''result''))
           (Message (account @ ''.'' @ method @ '' returned nothing: '' @ fl_json_text lib v)) (\<lambda>raw.
         ok_or (fl_json_read lib (map ucast (List.map_filter as_u64 raw)))
           (Message (account @ ''.'' @ method @ '' did not answer with json'')) Inr))"

definition view_if_present ::
    "'c fleet_lib \<Rightarrow> network \<Rightarrow> string \<Rightarrow> string \<Rightarrow> 'c fleet_world \<Rightarrow> fleet_error + json option" where
  "view_if_present lib net account method w =
     (case view lib net account method w of
        Inr value \<Rightarrow> Inr (Some value)
      | Inl (Message e) \<Rightarrow> if contains e ''MethodNotFound'' then Inr None else Inl (Message e)
      | Inl e \<Rightarrow> Inl e)"

definition probe ::
    "'c fleet_lib \<Rightarrow> network \<Rightarrow> string \<Rightarrow> string \<Rightarrow> 'c fleet_world \<Rightarrow> fleet_error + unit" where
  "probe lib net account method w = rbind (view lib net account method w) (\<lambda>_. Inr ())"

definition full_access_keys ::
    "'c fleet_lib \<Rightarrow> network \<Rightarrow> string \<Rightarrow> 'c fleet_world \<Rightarrow> fleet_error + nat" where
  "full_access_keys lib net account w =
     rbind (rpc lib net (query ''view_access_key_list'' account []) w) (\<lambda>v.
     ok_or (as_array (jget (jget v ''result'') ''keys''))
       (Message (''no key list for '' @ account @ '' on '' @ cli_name net)) (\<lambda>keys.
     Inr (length (filter (\<lambda>k. jget (jget k ''access_key'') ''permission'' = JStr ''FullAccess'') keys))))"

definition global_hash ::
    "'c fleet_lib \<Rightarrow> network \<Rightarrow> string \<Rightarrow> 'c fleet_world \<Rightarrow> fleet_error + string option" where
  "global_hash lib net account w =
     (case rpc lib net (query ''view_global_contract_code_by_account_id'' account []) w of
        Inr v \<Rightarrow> Inr (as_str (jget (jget v ''result'') ''hash''))
      | Inl (Message e) \<Rightarrow> if contains e ''NO_GLOBAL_CONTRACT_CODE'' then Inr None else Inl (Message e)
      | Inl e \<Rightarrow> Inl e)"

definition balance_yocto ::
    "'c fleet_lib \<Rightarrow> network \<Rightarrow> string \<Rightarrow> 'c fleet_world \<Rightarrow> fleet_error + u128" where
  "balance_yocto lib net account w =
     rbind (rpc lib net (query ''view_account'' account []) w) (\<lambda>v.
     ok_or (Option.bind (as_str (jget (jget v ''result'') ''amount'')) (parse_unsigned 128))
       (Message (''no balance for '' @ account @ '' on '' @ cli_name net)) (\<lambda>n. Inr (of_nat n)))"

section \<open>Artifacts\<close>

definition built_artifact :: "'c fleet_lib \<Rightarrow> string \<Rightarrow> string \<Rightarrow> 'c fleet_world \<Rightarrow> fleet_error + bytes" where
  "built_artifact lib root artifact w =
     ok_or (fw_files w (artifact_path root artifact)) (ArtifactMissing artifact) Inr"

definition ends_in :: "string \<Rightarrow> string \<Rightarrow> bool" where
  "ends_in suffix name \<longleftrightarrow> drop (length name - length suffix) name = suffix \<and> length suffix \<le> length name"

text \<open>Whether a file is compiled into a contract. The extension of a path needs a name before it.\<close>

definition compiled_in :: "string \<Rightarrow> bool" where
  "compiled_in name \<longleftrightarrow>
     name = ''Cargo.toml'' \<or> ends_in ''.rs'' name \<and> name \<noteq> ''.rs'' \<and> name \<noteq> ''tests.rs''"

fun scan_entry :: "file_tree \<Rightarrow> nat \<Rightarrow> nat" and scan_sources :: "file_tree list \<Rightarrow> nat \<Rightarrow> nat" where
  "scan_entry (SrcDir _ entries) newest = scan_sources entries newest"
| "scan_entry (SrcFile name changed) newest =
     (if \<not> compiled_in name then newest
      else case changed of None \<Rightarrow> newest | Some t \<Rightarrow> max newest t)"
| "scan_sources [] newest = newest"
| "scan_sources (entry # rest) newest = scan_sources rest (scan_entry entry newest)"

definition newest_source_change :: "'c fleet_lib \<Rightarrow> string \<Rightarrow> nat" where
  "newest_source_change lib root =
     fold (\<lambda>dir newest. case fl_sources lib (path_join root dir) of
             None \<Rightarrow> newest | Some entries \<Rightarrow> scan_sources entries newest)
       [''contracts'', ''crates''] 0"

definition assert_freshly_built :: "'c fleet_lib \<Rightarrow> string \<Rightarrow> string \<Rightarrow> nat \<Rightarrow> fleet_error + unit" where
  "assert_freshly_built lib root artifact newest_source =
     ok_or (fl_modified lib (artifact_path root artifact)) (ArtifactMissing artifact) (\<lambda>built_at.
     require (\<not> built_at < newest_source) (StaleArtifact artifact) (Inr ()))"

definition artifact_names :: "(string \<times> string) list" where
  "artifact_names = map (\<lambda>t. (tg_artifact t, tg_tag_name t)) FLEET
     @ [(WALLET_ARTIFACT, replace_char (CHR ''_'') (CHR ''-'') WALLET_ARTIFACT)]"

definition load_staged ::
    "'c fleet_lib \<Rightarrow> string \<Rightarrow> string \<Rightarrow> string \<Rightarrow> 'c fleet_world \<Rightarrow> fleet_error + bytes" where
  "load_staged lib root name artifact w =
     ok_or (fw_files w (staged_path root name artifact)) (StagedMissing artifact) Inr"

fun plan_all ::
    "'c fleet_lib \<Rightarrow> string \<Rightarrow> string \<Rightarrow> nat \<Rightarrow> (string \<times> string) list \<Rightarrow> (string \<times> json) list
     \<Rightarrow> ('c, (string \<times> json) list) fleet_act" where
  "plan_all lib root name newest [] table = fok table"
| "plan_all lib root name newest ((artifact, tag_name) # rest) table =
     fseq (fread (\<lambda>_. assert_freshly_built lib root artifact newest)) (\<lambda>_.
     fseq (fread (built_artifact lib root artifact)) (\<lambda>bytes.
     let hash = fl_bs58_sha256 lib bytes in
     fseq (write_file lib (staged_path root name artifact) bytes) (\<lambda>_.
     plan_all lib root name newest rest (table @ [(tag_name, JStr hash)]))))"

definition plan :: "'c fleet_lib \<Rightarrow> string \<Rightarrow> ('c, unit) fleet_act" where
  "plan lib name =
     fseq (fread (\<lambda>_. repo_root lib)) (\<lambda>root.
     fseq (create_dir_all lib (staged_dir root name)) (\<lambda>_.
     let newest_source = newest_source_change lib root in
     fseq (plan_all lib root name newest_source artifact_names []) (\<lambda>table.
     let doc = JObj [(''name'', JStr name), (''artifacts'', JObj table)] in
     write_file lib (manifest_path root name) (fl_json_write lib doc))))"

fun stage_all ::
    "'c fleet_lib \<Rightarrow> string \<Rightarrow> string \<Rightarrow> string \<Rightarrow> (string \<times> string) list \<Rightarrow> ('c, unit) fleet_act" where
  "stage_all lib root tag commit [] = fok ()"
| "stage_all lib root tag commit ((name, wanted) # rest) =
     (let artifact = replace_char (CHR ''-'') (CHR ''_'') name in
     fseq (fread (built_artifact lib root artifact)) (\<lambda>bytes.
     let got = fl_bs58_sha256 lib bytes in
     frequire (got = wanted) (WrongHash name got) (
     case embedded_commit bytes of
       None \<Rightarrow> ferr (NoEmbeddedCommit name)
     | Some c \<Rightarrow>
         frequire (c = commit) (BuiltElsewhere name c) (
         fseq (write_file lib (staged_path root tag artifact) bytes) (\<lambda>_.
         stage_all lib root tag commit rest)))))"

definition stage :: "'c fleet_lib \<Rightarrow> string \<Rightarrow> ('c, unit) fleet_act" where
  "stage lib tag =
     fseq (fread (\<lambda>_. repo_root lib)) (\<lambda>root.
     fseq (fread (\<lambda>_. tag_commit lib tag)) (\<lambda>commit.
     fseq (fread (\<lambda>_. tag_hashes lib tag)) (\<lambda>table.
     fseq (create_dir_all lib (staged_dir root tag)) (\<lambda>_.
     stage_all lib root tag commit table))))"

section \<open>Comparing, deploying, publishing\<close>

fun verify_all ::
    "'c fleet_lib \<Rightarrow> network \<Rightarrow> release \<Rightarrow> string \<Rightarrow> target list \<Rightarrow> bool \<Rightarrow> 'c fleet_world
     \<Rightarrow> fleet_error + bool" where
  "verify_all lib net release root [] clean w = Inr clean"
| "verify_all lib net release root (t # rest) clean w =
     rbind (want release (tg_tag_name t)) (\<lambda>wanted.
     rbind (load_staged lib root (release_name release) (tg_artifact t) w) (\<lambda>bytes.
     rbind (env_account lib (tg_var t)) (\<lambda>account.
     require (fl_bs58_sha256 lib bytes = wanted) (StagedDrifted account) (
     rbind (chain_hash lib net account w) (\<lambda>on_chain.
     let current = (on_chain = wanted \<and> is_ok (probe lib net account (tg_probe t) w))
     in verify_all lib net release root rest (clean \<and> current) w)))))"

definition verify ::
    "'c fleet_lib \<Rightarrow> network \<Rightarrow> release \<Rightarrow> 'c fleet_world \<Rightarrow> fleet_error + bool" where
  "verify lib net release w =
     rbind (repo_root lib) (\<lambda>root. verify_all lib net release root FLEET True w)"

definition signer :: "'c fleet_lib \<Rightarrow> string" where
  "signer lib = (case fl_env lib ''SIGN_WITH'' of None \<Rightarrow> ''sign-with-legacy-keychain'' | Some s \<Rightarrow> s)"

definition deploy_args :: "'c fleet_lib \<Rightarrow> network \<Rightarrow> string \<Rightarrow> string \<Rightarrow> string list" where
  "deploy_args lib net account path =
     [''contract'', ''deploy'', account, ''use-file'', path, ''without-init-call'',
      ''network-config'', cli_name net, signer lib, ''send'']"

definition deploy_one ::
    "'c fleet_lib \<Rightarrow> network \<Rightarrow> target \<Rightarrow> string \<Rightarrow> string \<Rightarrow> ('c, unit) fleet_act" where
  "deploy_one lib net t path wanted =
     fseq (fread (\<lambda>_. env_account lib (tg_var t))) (\<lambda>account.
     fseq (fread (chain_hash lib net account)) (\<lambda>previous.
     if previous = wanted then fok ()
     else
       fseq (run_near lib (deploy_args lib net account path)) (\<lambda>success.
       frequire success (DeployExited account) (
       fseq (fread (chain_hash lib net account)) (\<lambda>now.
       frequire (now = wanted) (DeployedOther account now) (
       fseq (fread (\<lambda>w. Inr (probe lib net account (tg_probe t) w))) (\<lambda>answer.
       frequire (is_ok answer) (DeployedUnreadable account) (
       fok ()))))))))"

fun count_keys ::
    "'c fleet_lib \<Rightarrow> network \<Rightarrow> target list \<Rightarrow> nat \<Rightarrow> 'c fleet_world \<Rightarrow> fleet_error + nat" where
  "count_keys lib net [] held_total w = Inr held_total"
| "count_keys lib net (t # rest) held_total w =
     rbind (env_account lib (tg_var t)) (\<lambda>account.
     rbind (full_access_keys lib net account w) (\<lambda>held.
     count_keys lib net rest (held_total + held) w))"

definition keys ::
    "'c fleet_lib \<Rightarrow> network \<Rightarrow> fleet_profile \<Rightarrow> 'c fleet_world \<Rightarrow> fleet_error + unit" where
  "keys lib net prof w =
     rbind (count_keys lib net FLEET 0 w) (\<lambda>held_total.
     if held_total = 0 then Inr ()
     else case prof of Test \<Rightarrow> Inr () | Production \<Rightarrow> Inl (KeysPresent held_total))"

definition READINESS_STEPS :: "string list" where
  "READINESS_STEPS = [''rate_set'', ''recovery_wired'', ''venue_set'', ''ft_allowlist_set'',
     ''metadata_set'', ''wiring_sane'', ''production_terms'']"

definition ready ::
    "'c fleet_lib \<Rightarrow> network \<Rightarrow> fleet_profile \<Rightarrow> 'c fleet_world \<Rightarrow> fleet_error + unit" where
  "ready lib net prof w =
     rbind (env_account lib ''REGISTRY_ACCOUNT'') (\<lambda>registry.
     rbind (view lib net registry ''deployment_readiness'' w) (\<lambda>state.
     let missing = filter (\<lambda>flag. as_bool (jget state flag) \<noteq> Some True) READINESS_STEPS
     in if missing = [] then Inr ()
        else case prof of Test \<Rightarrow> Inr () | Production \<Rightarrow> Inl (StepsOutstanding (length missing))))"

fun deploy_all ::
    "'c fleet_lib \<Rightarrow> network \<Rightarrow> release \<Rightarrow> string \<Rightarrow> target list \<Rightarrow> ('c, unit) fleet_act" where
  "deploy_all lib net release root [] = fok ()"
| "deploy_all lib net release root (t # rest) =
     fseq (fread (\<lambda>_. want release (tg_tag_name t))) (\<lambda>wanted.
     fseq (fread (load_staged lib root (release_name release) (tg_artifact t))) (\<lambda>bytes.
     fseq (fread (\<lambda>_. env_account lib (tg_var t))) (\<lambda>account.
     frequire (fl_bs58_sha256 lib bytes = wanted) (StagedDrifted account) (
     fseq (deploy_one lib net t (staged_path root (release_name release) (tg_artifact t)) wanted) (\<lambda>_.
     deploy_all lib net release root rest)))))"

text \<open>The comparison made before deploying only prints: its verdict and its errors are dropped, and
  \<open>keys\<close> has read every account by then, so it is not a step here.\<close>

definition deploy ::
    "'c fleet_lib \<Rightarrow> network \<Rightarrow> fleet_profile \<Rightarrow> release \<Rightarrow> ('c, unit) fleet_act" where
  "deploy lib net prof release =
     fseq (fread (\<lambda>_. repo_root lib)) (\<lambda>root.
     fseq (fread (keys lib net prof)) (\<lambda>_.
     fseq (deploy_all lib net release root FLEET) (\<lambda>_.
     fseq (fread (verify lib net release)) (\<lambda>clean.
     frequire clean (FleetDiffers (release_name release)) (
     fread (ready lib net prof))))))"

definition up :: "'c fleet_lib \<Rightarrow> network \<Rightarrow> fleet_profile \<Rightarrow> string \<Rightarrow> ('c, unit) fleet_act" where
  "up lib net prof name =
     fseq (fread (\<lambda>_. repo_root lib)) (\<lambda>root.
     fseq (fread (resolve lib root name)) (\<lambda>found.
     fseq (case found of Tagged _ _ _ \<Rightarrow> stage lib name | Planned _ _ \<Rightarrow> plan lib name) (\<lambda>_.
     fseq (fread (resolve lib root name)) (\<lambda>release.
     fseq (fread (keys lib net prof)) (\<lambda>_.
     deploy lib net prof release)))))"

definition FLEET_CODE_COST_PER_BYTE :: u128 where
  "FLEET_CODE_COST_PER_BYTE = 100000000000000000000"

definition GLOBALS :: "(string \<times> string \<times> string) list" where
  "GLOBALS = [(''registrar'', ''registrar'', ''REGISTRAR_GLOBAL_ACCOUNT'')]"

definition publish_args :: "'c fleet_lib \<Rightarrow> network \<Rightarrow> string \<Rightarrow> string \<Rightarrow> string list" where
  "publish_args lib net publisher path =
     [''contract'', ''deploy-as-global'', ''use-file'', path, ''as-global-account-id'', publisher,
      ''network-config'', cli_name net, signer lib, ''send'']"

definition publish :: "'c fleet_lib \<Rightarrow> network \<Rightarrow> release \<Rightarrow> string \<Rightarrow> ('c, unit) fleet_act" where
  "publish lib net release tag_name =
     fseq (fread (\<lambda>_. ok_or (find (\<lambda>(name, _, _). name = tag_name) GLOBALS) (NotGlobal tag_name) Inr))
       (\<lambda>(_, artifact, var).
     fseq (fread (\<lambda>_. env_account lib var)) (\<lambda>publisher.
     fseq (fread (\<lambda>_. repo_root lib)) (\<lambda>root.
     fseq (fread (load_staged lib root (release_name release) artifact)) (\<lambda>bytes.
     fseq (fread (\<lambda>_. want release tag_name)) (\<lambda>wanted.
     let staged = fl_bs58_sha256 lib bytes in
     frequire (staged = wanted) (StagedDrifted artifact) (
     fseq (fread (global_hash lib net publisher)) (\<lambda>published.
     if published = Some wanted then fok ()
     else
       let cost = sat_mul (of_nat (length bytes)) FLEET_CODE_COST_PER_BYTE in
       fseq (fread (balance_yocto lib net publisher)) (\<lambda>held.
       frequire (\<not> held < cost) (ShortOfFunds publisher (sat_sub cost held)) (
       fseq (run_near lib (publish_args lib net publisher
               (staged_path root (release_name release) artifact))) (\<lambda>success.
       frequire success (PublishExited publisher) (
       fseq (fread (global_hash lib net publisher)) (\<lambda>now.
       case now of
         None \<Rightarrow> ferr (NothingPublished publisher)
       | Some h \<Rightarrow> frequire (h = wanted) (PublishedOther h) (fok ())))))))))))))"

section \<open>The permanent settings\<close>

definition DAY_NS :: u64 where "DAY_NS = 24 * 60 * 60 * 1000000000"
definition PRODUCTION_GRACE_NS :: u64 where "PRODUCTION_GRACE_NS = 14 * DAY_NS"

definition str_or :: "string \<Rightarrow> json \<Rightarrow> string" where
  "str_or fallback v = (case as_str v of None \<Rightarrow> fallback | Some s \<Rightarrow> s)"

definition derived :: "string \<Rightarrow> json \<Rightarrow> string \<Rightarrow> string list" where
  "derived label v wanted =
     (let got = str_or ''<absent>'' v
      in if got = wanted then []
         else [label @ '' is '' @ got @ '', the fleet layout says '' @ wanted])"

definition chosen :: "string \<Rightarrow> string \<Rightarrow> string list" where
  "chosen label value =
     (if value = ''<absent>'' \<or> value = ''null'' then [label @ '' did not answer''] else [])"

definition treasury_line :: "string \<Rightarrow> json option \<Rightarrow> string list" where
  "treasury_line registry_treasury extension_treasury =
     (case Option.bind extension_treasury as_str of
        Some found \<Rightarrow>
          if found = registry_treasury then []
          else [''extension.treasury is '' @ found @ '', the registry pays '' @ registry_treasury]
      | None \<Rightarrow> [''extension.treasury cannot be read; this build predates get_treasury''])"

definition pending_line :: "string \<Rightarrow> json option \<Rightarrow> string list" where
  "pending_line label pending =
     (case pending of
        None \<Rightarrow> []
      | Some p \<Rightarrow>
          if p = JNull then []
          else [label @ '' is mid-rotation to '' @ str_or ''<unreadable>'' (jat p 0)
                  @ ''; commit or cancel it on both contracts before trusting the treasury above''])"

definition grace_line :: "json \<Rightarrow> string list" where
  "grace_line grace =
     (case Option.bind (as_str grace) (parse_unsigned 64) of
        Some ns \<Rightarrow>
          if unat PRODUCTION_GRACE_NS \<le> ns then []
          else [''grace_period_ns is '' @ show_nat (ns div unat DAY_NS) @ '' days, production wants 14'']
      | None \<Rightarrow> [''grace_period_ns did not answer with a number''])"

definition delay_line :: "json \<Rightarrow> string list" where
  "delay_line deployer_config =
     (if as_bool (jget deployer_config ''production_delay'') = Some True then []
      else [''deployer approval_delay_ns is below the 48h production delay''])"

fun globals_lines ::
    "'c fleet_lib \<Rightarrow> network \<Rightarrow> (string \<times> string \<times> string) list \<Rightarrow> 'c fleet_world
     \<Rightarrow> fleet_error + string list" where
  "globals_lines lib net [] w = Inr []"
| "globals_lines lib net ((tag, _, var) # rest) w =
     (case fl_env lib var of
        None \<Rightarrow> globals_lines lib net rest w
      | Some publisher \<Rightarrow>
          rbind (global_hash lib net publisher w) (\<lambda>h.
          rbind (globals_lines lib net rest w) (\<lambda>lines.
          Inr ((if h = None then [tag @ '': nothing published under '' @ publisher] else []) @ lines))))"

definition permanence :: "'c fleet_lib \<Rightarrow> network \<Rightarrow> 'c fleet_world \<Rightarrow> fleet_error + unit" where
  "permanence lib net w =
     rbind (env_account lib ''REGISTRY_ACCOUNT'') (\<lambda>registry.
     rbind (env_account lib ''EXTENSION_ACCOUNT'') (\<lambda>extension.
     rbind (env_account lib ''RECOVERY_ACCOUNT'') (\<lambda>recovery.
     rbind (env_account lib ''ROOT_ACCOUNT'') (\<lambda>root.
     rbind (env_account lib ''DEPLOYER_ACCOUNT'') (\<lambda>deployer.
     rbind (view lib net root ''config'' w) (\<lambda>root_config.
     rbind (view lib net deployer ''config'' w) (\<lambda>deployer_config.
     rbind (view lib net registry ''get_treasury'' w) (\<lambda>registry_treasury.
     rbind (view_if_present lib net extension ''get_treasury'' w) (\<lambda>extension_treasury.
     rbind (view lib net registry ''get_grace_period_ns'' w) (\<lambda>grace.
     rbind (view lib net registry ''get_hos_extension'' w) (\<lambda>hos_extension.
     rbind (view lib net extension ''get_registry'' w) (\<lambda>extension_registry.
     rbind (view lib net extension ''get_recovery'' w) (\<lambda>extension_recovery.
     rbind (view lib net recovery ''transfer_authority'' w) (\<lambda>transfer_authority.
     rbind (view_if_present lib net registry ''pending_treasury'' w) (\<lambda>registry_pending.
     rbind (view_if_present lib net extension ''pending_treasury'' w) (\<lambda>extension_pending.
     rbind (view lib net recovery ''owner'' w) (\<lambda>recovery_owner.
     rbind (view lib net recovery ''signer'' w) (\<lambda>recovery_signer.
     rbind (globals_lines lib net GLOBALS w) (\<lambda>globals.
     let paid = str_or ''<absent>'' registry_treasury;
         bad = derived ''registry.hos_extension'' hos_extension extension
             @ derived ''extension.registry'' extension_registry registry
             @ derived ''extension.recovery'' extension_recovery recovery
             @ derived ''registrar.registry'' (jget root_config ''registry'') registry
             @ derived ''registrar.hos_extension'' (jget root_config ''hos_extension'') extension
             @ derived ''registrar.recovery'' (jget root_config ''recovery'') recovery
             @ derived ''registrar.wallet_impl'' (jget root_config ''wallet_impl'') deployer
             @ derived ''recovery.transfer_authority'' transfer_authority extension
             @ derived ''registrar.chain_id'' (jget root_config ''chain_id'') (cli_name net)
             @ chosen ''registry.treasury'' paid
             @ treasury_line paid extension_treasury
             @ pending_line ''registry.pending_treasury'' registry_pending
             @ pending_line ''extension.pending_treasury'' extension_pending
             @ chosen ''recovery.owner'' (str_or ''<absent>'' recovery_owner)
             @ chosen ''recovery.signer'' (str_or ''<absent>'' recovery_signer)
             @ chosen ''registrar.wallet_timeout_secs''
                 (fl_json_text lib (jget root_config ''wallet_timeout_secs''))
             @ globals @ grace_line grace @ delay_line deployer_config
     in if bad = [] then Inr () else Inl (PermanenceWrong bad))))))))))))))))))))"

section \<open>The command line\<close>

definition fleet_main :: "'c fleet_lib \<Rightarrow> string list \<Rightarrow> ('c, bool) fleet_act" where
  "fleet_main lib args =
     (case args of
        [] \<Rightarrow> ferr Usage
      | cmd # rest \<Rightarrow>
          fseq (fread (\<lambda>_. network_of lib)) (\<lambda>net.
          fseq (fread (\<lambda>_. profile_of lib)) (\<lambda>prof.
          let first = (case rest of [] \<Rightarrow> None | a # _ \<Rightarrow> Some a);
              second = (case rest of _ # b # _ \<Rightarrow> Some b | _ \<Rightarrow> None);
              done = (\<lambda>m. fseq m (\<lambda>_. fok True));
              released = (\<lambda>k. case first of None \<Rightarrow> ferr Usage
                           | Some name \<Rightarrow> fseq (fread (\<lambda>_. repo_root lib)) (\<lambda>root.
                                          fseq (fread (resolve lib root name)) k))
          in if cmd = ''keys'' then done (fread (keys lib net prof))
             else if cmd = ''ready'' then done (fread (ready lib net prof))
             else if cmd = ''permanence'' then done (fread (permanence lib net))
             else if cmd = ''publish'' then
               (case second of None \<Rightarrow> ferr Usage
                | Some tag \<Rightarrow> released (\<lambda>release. done (publish lib net release tag)))
             else if cmd = ''plan'' then
               (case first of None \<Rightarrow> ferr Usage | Some name \<Rightarrow> done (plan lib name))
             else if cmd = ''stage'' then
               (case first of None \<Rightarrow> ferr Usage | Some name \<Rightarrow> done (stage lib name))
             else if cmd = ''up'' then
               (case first of None \<Rightarrow> ferr Usage | Some name \<Rightarrow> done (up lib net prof name))
             else if cmd = ''verify'' then
               released (\<lambda>release. fread (verify lib net release))
             else if cmd = ''deploy'' then
               released (\<lambda>release. done (deploy lib net prof release))
             else ferr Usage)))"

end
