(* ===== verification/Fleet_Props.thy ===== *)
theory Fleet_Props
  imports Fleet Registry_Queries "HOL-Library.Sublist"
begin

text \<open>
  What a run of the operators' tool can do and what its success means: which commands it gives to
  \<open>near\<close>, what the chain reports when it ends well, that a plan is found again as it was written,
  and that it takes the registry's own word for production readiness.
\<close>

section \<open>Sequencing\<close>

lemma fleet_acts [simp]:
  "fok x w = (Inr x, w)" "ferr e w = (Inl e, w)" "fread f w = (f w, w)"
  "frequire b e m w = (if b then m w else (Inl e, w))"
  by (simp_all add: fok_def ferr_def fread_def frequire_def)

lemma fseq_Inr [simp]:
  "fseq m k w = (Inr y, w') \<longleftrightarrow> (\<exists>x w1. m w = (Inr x, w1) \<and> k x w1 = (Inr y, w'))"
  by (auto simp: fseq_def split: prod.split sum.split)

text \<open>What a sequence leaves: what its first part leaves, or what the rest leaves of that.\<close>

lemma snd_fseq:
  "snd (fseq m k w) = (case m w of (Inl e, w') \<Rightarrow> w' | (Inr x, w') \<Rightarrow> snd (k x w'))"
  by (auto simp: fseq_def split: prod.split sum.split)

section \<open>What is deployed\<close>

text \<open>A target is ready to go out: the release names a hash for it, and the staged file has it.\<close>

definition staged_ok ::
    "'c fleet_lib \<Rightarrow> release \<Rightarrow> string \<Rightarrow> (string \<rightharpoonup> bytes) \<Rightarrow> target \<Rightarrow> bool" where
  "staged_ok lib release root files t \<longleftrightarrow>
     (\<exists>bytes. files (staged_path root (release_name release) (tg_artifact t)) = Some bytes \<and>
        want release (tg_tag_name t) = Inr (fl_bs58_sha256 lib bytes)) \<and>
     fl_env lib (tg_var t) \<noteq> None"

definition deploy_command :: "'c fleet_lib \<Rightarrow> network \<Rightarrow> release \<Rightarrow> string \<Rightarrow> target \<Rightarrow> string list" where
  "deploy_command lib net release root t =
     deploy_args lib net (the (fl_env lib (tg_var t)))
       (staged_path root (release_name release) (tg_artifact t))"

definition deploys ::
    "'c fleet_lib \<Rightarrow> network \<Rightarrow> release \<Rightarrow> string \<Rightarrow> target list \<Rightarrow> 'c fleet_world \<Rightarrow> 'c fleet_world \<Rightarrow> bool" where
  "deploys lib net release root ts w w' \<longleftrightarrow>
     fw_files w' = fw_files w \<and>
     (\<exists>us. subseq us ts \<and> list_all (staged_ok lib release root (fw_files w)) us \<and>
        fw_commands w' = fw_commands w @ map (deploy_command lib net release root) us)"

lemma deploys_refl: "deploys lib net release root ts w w"
  by (auto simp: deploys_def intro!: exI [of _ "[]"])

lemma deploys_step:
  assumes "deploys lib net release root ts w1 w2" "fw_files w1 = fw_files w"
    and "fw_commands w1 = fw_commands w \<or>
         staged_ok lib release root (fw_files w) t \<and>
         fw_commands w1 = fw_commands w @ [deploy_command lib net release root t]"
  shows "deploys lib net release root (t # ts) w w2"
proof -
  obtain us where us: "subseq us ts" "list_all (staged_ok lib release root (fw_files w)) us"
    "fw_commands w2 = fw_commands w1 @ map (deploy_command lib net release root) us"
    using assms(1,2) by (auto simp: deploys_def)
  moreover have "fw_files w2 = fw_files w" using assms(1,2) by (simp add: deploys_def)
  moreover from assms(3) show ?thesis
  proof
    assume "fw_commands w1 = fw_commands w"
    with us calculation(4) show ?thesis by (auto simp: deploys_def intro!: exI [of _ us])
  next
    assume "staged_ok lib release root (fw_files w) t \<and>
         fw_commands w1 = fw_commands w @ [deploy_command lib net release root t]"
    with us calculation(4) show ?thesis by (auto simp: deploys_def intro!: exI [of _ "t # us"])
  qed
qed

lemma run_near_effect:
  "fw_files (snd (run_near lib args w)) = fw_files w"
  "fw_commands (snd (run_near lib args w)) = fw_commands w \<or>
   fw_commands (snd (run_near lib args w)) = fw_commands w @ [args]"
  by (auto simp: run_near_def split: prod.split option.split)

lemma deploy_one_effect:
  "fw_files (snd (deploy_one lib net t path h w)) = fw_files w \<and>
   (fw_commands (snd (deploy_one lib net t path h w)) = fw_commands w \<or>
    (\<exists>a. fl_env lib (tg_var t) = Some a \<and>
       fw_commands (snd (deploy_one lib net t path h w)) = fw_commands w @ [deploy_args lib net a path]))"
proof (cases "fl_env lib (tg_var t)")
  case (Some a)
  have "snd (deploy_one lib net t path h w) = w \<or>
        snd (deploy_one lib net t path h w) = snd (run_near lib (deploy_args lib net a path) w)"
    by (auto simp: deploy_one_def env_account_def snd_fseq Some split: prod.split sum.split)
  then show ?thesis using run_near_effect [of lib "deploy_args lib net a path" w] Some by auto
qed (simp add: deploy_one_def env_account_def snd_fseq)

lemma deploy_all_blocked:
  assumes "\<not> staged_ok lib release root (fw_files w) t"
  shows "snd (deploy_all lib net release root (t # ts) w) = w"
  using assms
  by (auto simp: staged_ok_def snd_fseq load_staged_def env_account_def ok_or_def
      split: sum.split option.split)

lemma deploy_all_goes_on:
  assumes "staged_ok lib release root (fw_files w) t"
  obtains w1 where "fw_files w1 = fw_files w"
    "fw_commands w1 = fw_commands w \<or>
     fw_commands w1 = fw_commands w @ [deploy_command lib net release root t]"
    "snd (deploy_all lib net release root (t # ts) w) = w1 \<or>
     snd (deploy_all lib net release root (t # ts) w) = snd (deploy_all lib net release root ts w1)"
proof -
  let ?path = "staged_path root (release_name release) (tg_artifact t)"
  obtain bytes a where staged: "fw_files w ?path = Some bytes"
      "want release (tg_tag_name t) = Inr (fl_bs58_sha256 lib bytes)" "fl_env lib (tg_var t) = Some a"
    using assms by (auto simp: staged_ok_def)
  let ?one = "deploy_one lib net t ?path (fl_bs58_sha256 lib bytes) w"
  have "snd (deploy_all lib net release root (t # ts) w) = snd ?one \<or>
        snd (deploy_all lib net release root (t # ts) w) = snd (deploy_all lib net release root ts (snd ?one))"
    using staged by (auto simp: snd_fseq load_staged_def env_account_def split: prod.split sum.split)
  then show thesis
    using deploy_one_effect [of lib net t ?path "fl_bs58_sha256 lib bytes" w] staged(3)
    by (intro that [of "snd ?one"]) (auto simp: deploy_command_def)
qed

lemma deploy_all_effect: "deploys lib net release root ts w (snd (deploy_all lib net release root ts w))"
proof (induction ts arbitrary: w)
  case (Cons t ts)
  show ?case
  proof (cases "staged_ok lib release root (fw_files w) t")
    case True
    obtain w1 where w1: "fw_files w1 = fw_files w"
      "fw_commands w1 = fw_commands w \<or> fw_commands w1 = fw_commands w @ [deploy_command lib net release root t]"
      "snd (deploy_all lib net release root (t # ts) w) = w1 \<or>
       snd (deploy_all lib net release root (t # ts) w) = snd (deploy_all lib net release root ts w1)"
      by (rule deploy_all_goes_on [OF True])
    have "deploys lib net release root ts w1 (snd (deploy_all lib net release root (t # ts) w))"
      using w1(3) Cons.IH [of w1] deploys_refl by metis
    then show ?thesis using deploys_step [OF _ w1(1)] w1(2) True by blast
  next
    case False
    then have "snd (deploy_all lib net release root (t # ts) w) = w" by (rule deploy_all_blocked)
    then show ?thesis by (simp only: deploys_refl)
  qed
qed (simp add: deploys_refl)

section \<open>What a good end means\<close>

lemma verify_all_True:
  "verify_all lib net release root ts clean w = Inr True \<Longrightarrow>
   clean \<and> (\<forall>t\<in>set ts. \<exists>a h. fl_env lib (tg_var t) = Some a \<and> want release (tg_tag_name t) = Inr h \<and>
      chain_hash lib net a w = Inr h \<and> (\<exists>answer. view lib net a (tg_probe t) w = Inr answer))"
  by (induction ts arbitrary: clean)
     (fastforce simp: Let_def env_account_def probe_def is_ok_iff)+

lemma count_keys_Inr:
  "count_keys lib net ts held w = Inr n \<Longrightarrow>
   held \<le> n \<and> (\<forall>t\<in>set ts. \<exists>a k. fl_env lib (tg_var t) = Some a \<and> full_access_keys lib net a w = Inr k \<and> k \<le> n - held)"
proof (induction ts arbitrary: held)
  case (Cons t ts)
  then obtain a k where a: "fl_env lib (tg_var t) = Some a" "full_access_keys lib net a w = Inr k"
    and rest: "count_keys lib net ts (held + k) w = Inr n"
    by (auto simp: env_account_def)
  from Cons.IH [OF rest] have "held + k \<le> n" and "\<forall>t\<in>set ts. \<exists>a j. fl_env lib (tg_var t) = Some a \<and>
      full_access_keys lib net a w = Inr j \<and> j \<le> n - (held + k)" by blast+
  with a show ?case by fastforce
qed simp

lemma keys_production:
  assumes "keys lib net Production w = Inr ()" "t \<in> set FLEET"
  shows "\<exists>a. fl_env lib (tg_var t) = Some a \<and> full_access_keys lib net a w = Inr 0"
proof -
  from assms(1) have "count_keys lib net FLEET 0 w = Inr 0"
    by (auto simp: keys_def split: if_splits)
  from count_keys_Inr [OF this] assms(2) show ?thesis by auto
qed

lemma ready_production:
  "ready lib net Production w = Inr () \<longleftrightarrow>
   (\<exists>a state. fl_env lib ''REGISTRY_ACCOUNT'' = Some a \<and>
      view lib net a ''deployment_readiness'' w = Inr state \<and>
      (\<forall>flag\<in>set READINESS_STEPS. jget state flag = JBool True))"
proof -
  have "as_bool v = Some True \<longleftrightarrow> v = JBool True" for v by (cases v) (simp_all add: as_bool_def)
  then show ?thesis by (auto simp: ready_def env_account_def Let_def filter_empty_conv)
qed

text \<open>C19. What a deployment run does and what its success means. Whatever the run comes to, it writes
  no file, and the commands it gives to \<open>near\<close> are, in the order of the fleet and at most one for each
  contract, deployments of a staged file whose hash is the one the release names for that
  contract, to the account set for it; nothing is deployed in the production profile while a fleet
  account holds a FullAccess key. When the run reports success, the chain then shows for every contract of
  the fleet the hash the release names, and the contract has answered; in the production profile no
  fleet account held a FullAccess key at the start, and the registry reports every readiness flag.\<close>

theorem fleet_deploys_release:
  assumes "deploy lib net prof release w = (res, w')" "repo_root lib = Inr root"
  shows "deploys lib net release root FLEET w w' \<and>
         (prof = Production \<and> fw_commands w' \<noteq> fw_commands w \<longrightarrow>
            (\<forall>t\<in>set FLEET. \<exists>a. fl_env lib (tg_var t) = Some a \<and> full_access_keys lib net a w = Inr 0)) \<and>
         (res = Inr () \<longrightarrow>
            (\<forall>t\<in>set FLEET. \<exists>a h. fl_env lib (tg_var t) = Some a \<and> want release (tg_tag_name t) = Inr h \<and>
               chain_hash lib net a w' = Inr h \<and> (\<exists>answer. view lib net a (tg_probe t) w' = Inr answer)) \<and>
            (prof = Production \<longrightarrow>
               (\<forall>t\<in>set FLEET. \<exists>a. fl_env lib (tg_var t) = Some a \<and> full_access_keys lib net a w = Inr 0) \<and>
               (\<exists>a state. fl_env lib ''REGISTRY_ACCOUNT'' = Some a \<and>
                  view lib net a ''deployment_readiness'' w' = Inr state \<and>
                  (\<forall>flag\<in>set READINESS_STEPS. jget state flag = JBool True))))"
proof (cases "keys lib net prof w")
  case (Inl e)
  then have "w' = w" "res = Inl e" using assms by (auto simp: deploy_def fseq_def)
  then show ?thesis by (simp add: deploys_refl)
next
  case (Inr u)
  let ?w1 = "snd (deploy_all lib net release root FLEET w)"
  have w': "w' = ?w1"
    using arg_cong [OF assms(1), of snd] Inr assms(2)
    by (simp add: deploy_def snd_fseq split: prod.splits sum.splits if_splits)
  have sealed: "\<forall>t\<in>set FLEET. \<exists>a. fl_env lib (tg_var t) = Some a \<and> full_access_keys lib net a w = Inr 0"
    if "prof = Production"
  proof
    have "keys lib net Production w = Inr ()" using Inr that by simp
    then show "\<exists>a. fl_env lib (tg_var t) = Some a \<and> full_access_keys lib net a w = Inr 0" if "t \<in> set FLEET" for t
      using that by (rule keys_production)
  qed
  have finished: "verify lib net release ?w1 = Inr True \<and> ready lib net prof ?w1 = Inr ()" if "res = Inr ()"
    using assms Inr that by (auto simp: deploy_def split: if_splits)
  show ?thesis
  proof (intro conjI impI)
    show "deploys lib net release root FLEET w w'" unfolding w' by (rule deploy_all_effect)
    show "\<forall>t\<in>set FLEET. \<exists>a. fl_env lib (tg_var t) = Some a \<and> full_access_keys lib net a w = Inr 0"
      if "prof = Production \<and> fw_commands w' \<noteq> fw_commands w" using that sealed by simp
    show "\<forall>t\<in>set FLEET. \<exists>a h. fl_env lib (tg_var t) = Some a \<and> want release (tg_tag_name t) = Inr h \<and>
        chain_hash lib net a w' = Inr h \<and> (\<exists>answer. view lib net a (tg_probe t) w' = Inr answer)"
      if "res = Inr ()"
      using finished [OF that] verify_all_True [of lib net release root FLEET True ?w1] assms(2)
      by (simp add: verify_def w')
    show "\<forall>t\<in>set FLEET. \<exists>a. fl_env lib (tg_var t) = Some a \<and> full_access_keys lib net a w = Inr 0"
      if "prof = Production" using that sealed by simp
    show "\<exists>a state. fl_env lib ''REGISTRY_ACCOUNT'' = Some a \<and>
        view lib net a ''deployment_readiness'' w' = Inr state \<and>
        (\<forall>flag\<in>set READINESS_STEPS. jget state flag = JBool True)"
      if "res = Inr ()" "prof = Production"
      using finished [OF that(1)] that(2) ready_production unfolding w' by blast
  qed
qed

text \<open>A fleet on which nothing of the release runs yet: the chain is the list of the accounts
  deployed to.\<close>

definition demo_answer :: "string \<Rightarrow> string \<Rightarrow> string list \<Rightarrow> json" where
  "demo_answer request_type account chain =
     JObj [(''result'', if request_type = ''view_account''
        then JObj [(''code_hash'', JStr (if account \<in> set chain then ''new'' else ''old''))]
        else if request_type = ''view_access_key_list'' then JObj [(''keys'', JArr [])]
        else JObj [(''result'', JArr [])])]"

definition demo_fleet :: "string list fleet_lib" where
  "demo_fleet =
    \<lparr>fl_env = Some, fl_git_root = Some ''/repo'', fl_rev_list = (\<lambda>_. None), fl_tag_text = (\<lambda>_. []),
     fl_sources = (\<lambda>_. None), fl_modified = (\<lambda>_. Some 0), fl_writable = (\<lambda>_. True),
     fl_bs58_sha256 = (\<lambda>_. ''new''), fl_json_text = (\<lambda>_. []), fl_json_write = (\<lambda>_. []),
     fl_json_read = (\<lambda>_. Some (JObj (map (\<lambda>flag. (flag, JBool True)) READINESS_STEPS))),
     fl_post = (\<lambda>url body chain. Inr (demo_answer
        (str_or [] (jget (jget body ''params'') ''request_type''))
        (str_or [] (jget (jget body ''params'') ''account_id'')) chain)),
     fl_near = (\<lambda>args files chain. (Some True, (args ! 2) # chain))\<rparr>"

definition demo_fw :: "string list fleet_world" where
  "demo_fw = \<lparr>fw_files = (\<lambda>_. Some []), fw_chain = [], fw_commands = []\<rparr>"

definition demo_release :: release where
  "demo_release = Planned ''r1'' (map (\<lambda>t. (tg_tag_name t, ''new'')) FLEET)"

lemma demo_deploy: "is_ok (fst (deploy demo_fleet Mainnet Production demo_release demo_fw))"
  by code_simp

theorem fleet_deploys_release_witness:
  "\<exists>w'. deploy demo_fleet Mainnet Production demo_release demo_fw = (Inr (), w') \<and>
     deploys demo_fleet Mainnet demo_release ''/repo'' FLEET demo_fw w' \<and>
     (\<forall>t\<in>set FLEET. \<exists>a h. want demo_release (tg_tag_name t) = Inr h \<and>
        chain_hash demo_fleet Mainnet a w' = Inr h)"
proof -
  obtain res w' where run: "deploy demo_fleet Mainnet Production demo_release demo_fw = (res, w')"
    by fastforce
  with demo_deploy have "res = Inr ()" by (auto simp: is_ok_iff)
  moreover have "trim ''/repo'' = ''/repo''" by code_simp
  then have "repo_root demo_fleet = Inr ''/repo''" by (simp add: repo_root_def demo_fleet_def)
  ultimately show ?thesis using fleet_deploys_release [OF run] run by blast
qed

section \<open>A plan is found again\<close>

lemma path_join_rel: "b \<noteq> [] \<Longrightarrow> hd b \<noteq> CHR ''/'' \<Longrightarrow> path_join a b = a @ ''/'' @ b"
  by (simp add: path_join_def)

definition relative :: "string \<Rightarrow> bool" where
  "relative name \<longleftrightarrow> name \<noteq> [] \<and> hd name \<noteq> CHR ''/''"

lemma staged_path_eq:
  "relative name \<Longrightarrow> relative artifact \<Longrightarrow>
   staged_path root name artifact = root @ ''/artifacts/'' @ name @ ''/'' @ artifact @ ''.wasm''"
  by (simp add: staged_path_def staged_dir_def path_join_rel relative_def)

lemma manifest_path_eq:
  "relative name \<Longrightarrow> manifest_path root name = root @ ''/artifacts/'' @ name @ ''/manifest.json''"
  by (simp add: manifest_path_def staged_dir_def path_join_rel relative_def)

lemma artifact_path_eq:
  "relative artifact \<Longrightarrow>
   artifact_path root artifact = root @ ''/target/near/'' @ artifact @ ''/'' @ artifact @ ''.wasm''"
  by (simp add: artifact_path_def path_join_rel relative_def)

lemma names_relative: "(artifact, tag) \<in> set artifact_names \<Longrightarrow> relative artifact"
  by (auto simp: artifact_names_def FLEET_def WALLET_ARTIFACT_def relative_def)

lemma staged_path_inj:
  assumes "relative name" "relative a" "relative b"
  shows "staged_path root name a = staged_path root name b \<longleftrightarrow> a = b"
    and "staged_path root name a \<noteq> artifact_path root b"
    and "staged_path root name a \<noteq> manifest_path root name"
    and "manifest_path root name \<noteq> artifact_path root b"
proof -
  have no: "a @ ''.wasm'' \<noteq> ''manifest.json''"
  proof
    assume "a @ ''.wasm'' = ''manifest.json''"
    then have "last (a @ ''.wasm'') = last ''manifest.json''" by simp
    then show False by simp
  qed
  show "staged_path root name a = staged_path root name b \<longleftrightarrow> a = b"
    "staged_path root name a \<noteq> artifact_path root b"
    "staged_path root name a \<noteq> manifest_path root name"
    "manifest_path root name \<noteq> artifact_path root b"
    using assms no by (simp_all add: staged_path_eq manifest_path_eq artifact_path_eq)
qed

lemma plan_all_result:
  assumes "plan_all lib root name newest arts table w = (Inr out, w')" "relative name"
    "\<forall>(a, t)\<in>set arts. relative a" "distinct (map fst arts)"
  shows "out = table @ map (\<lambda>(a, t). (t, JStr (fl_bs58_sha256 lib (the (fw_files w (artifact_path root a)))))) arts \<and>
    (\<forall>(a, t)\<in>set arts. fw_files w (artifact_path root a) \<noteq> None \<and>
       fw_files w' (staged_path root name a) = fw_files w (artifact_path root a) \<and>
       (\<exists>built_at. fl_modified lib (artifact_path root a) = Some built_at \<and> newest \<le> built_at)) \<and>
    (\<forall>p. (\<forall>(a, t)\<in>set arts. p \<noteq> staged_path root name a) \<longrightarrow> fw_files w' p = fw_files w p)"
  using assms
proof (induction arts arbitrary: table w)
  case (Cons n arts)
  obtain a t where n: "n = (a, t)" by force
  from Cons.prems(1) obtain bytes built_at where built: "fw_files w (artifact_path root a) = Some bytes"
      "fl_modified lib (artifact_path root a) = Some built_at" "newest \<le> built_at"
    and rest: "plan_all lib root name newest arts (table @ [(t, JStr (fl_bs58_sha256 lib bytes))])
        (w\<lparr>fw_files := (fw_files w)(staged_path root name a \<mapsto> bytes)\<rparr>) = (Inr out, w')"
    by (auto simp: n Let_def assert_freshly_built_def built_artifact_def write_file_def split: if_splits)
  have rel: "relative name" "relative a" "\<forall>(b, t)\<in>set arts. relative b" "distinct (map fst arts)"
    and new: "\<forall>(b, t)\<in>set arts. b \<noteq> a"
    using Cons.prems(2-4) n by (auto simp: image_iff)
  have apart: "staged_path root name a \<noteq> artifact_path root b" if "relative b" for b
    using staged_path_inj(2) [OF rel(1,2) that] .
  have other: "staged_path root name b \<noteq> staged_path root name a" if "(b, u) \<in> set arts" for b u
  proof -
    have "relative b" "b \<noteq> a" using that rel(3) new by blast+
    then show ?thesis using staged_path_inj(1) [OF rel(1) _ rel(2)] by simp
  qed
  let ?w1 = "w\<lparr>fw_files := (fw_files w)(staged_path root name a \<mapsto> bytes)\<rparr>"
  have kept: "fw_files ?w1 (artifact_path root b) = fw_files w (artifact_path root b)" if "(b, u) \<in> set arts" for b u
    using apart [of b] that rel(3) by auto
  note IH = Cons.IH [OF rest rel(1,3,4)]
  have hashes: "map (\<lambda>(b, u). (u, JStr (fl_bs58_sha256 lib (the (fw_files ?w1 (artifact_path root b)))))) arts
    = map (\<lambda>(b, u). (u, JStr (fl_bs58_sha256 lib (the (fw_files w (artifact_path root b)))))) arts"
    using kept by (intro map_cong [OF refl]) (auto simp del: fun_upd_apply)
  have staged_a: "fw_files w' (staged_path root name a) = Some bytes"
  proof -
    have "\<forall>(b, u)\<in>set arts. staged_path root name a \<noteq> staged_path root name b" using other by fastforce
    then have "fw_files w' (staged_path root name a) = fw_files ?w1 (staged_path root name a)" using IH by blast
    then show ?thesis by simp
  qed
  show ?case
  proof (intro conjI allI impI ballI)
    show "out = table @ map (\<lambda>(b, u). (u, JStr (fl_bs58_sha256 lib (the (fw_files w (artifact_path root b)))))) (n # arts)"
      using IH hashes built(1) by (simp add: n)
    show "case x of (b, u) \<Rightarrow> fw_files w (artifact_path root b) \<noteq> None \<and>
        fw_files w' (staged_path root name b) = fw_files w (artifact_path root b) \<and>
        (\<exists>built_at. fl_modified lib (artifact_path root b) = Some built_at \<and> newest \<le> built_at)"
      if "x \<in> set (n # arts)" for x
    proof (cases "x = n")
      case True
      then show ?thesis using n built staged_a by simp
    next
      case False
      obtain b u where x: "x = (b, u)" by force
      with False that have b: "(b, u) \<in> set arts" by simp
      show ?thesis
        using bspec [OF IH [THEN conjunct2, THEN conjunct1] b] unfolding x prod.case kept [OF b] .
    qed
    show "fw_files w' p = fw_files w p" if "\<forall>(b, u)\<in>set (n # arts). p \<noteq> staged_path root name b" for p
      using IH that by (auto simp: n)
  qed
qed simp

text \<open>What \<open>plan\<close> writes is what the later commands find: a release of that name with the hash of
  each built artifact, and for each artifact a staged file with the bytes that were built, none of
  them older than the newest source.\<close>

theorem plan_found_again:
  assumes "plan lib name w = (Inr (), w')" "repo_root lib = Inr root" "relative name"
    "fl_rev_list lib name = None" "\<forall>doc. fl_json_read lib (fl_json_write lib doc) = Some doc"
  shows "resolve lib root name w' = Inr (Planned name
           (map (\<lambda>(a, t). (t, fl_bs58_sha256 lib (the (fw_files w (artifact_path root a))))) artifact_names)) \<and>
         (\<forall>(a, t)\<in>set artifact_names. \<exists>bytes built_at.
            load_staged lib root name a w' = Inr bytes \<and> fw_files w (artifact_path root a) = Some bytes \<and>
            fl_modified lib (artifact_path root a) = Some built_at \<and> newest_source_change lib root \<le> built_at)"
proof -
  from assms(1,2) obtain table w1 where
    all: "plan_all lib root name (newest_source_change lib root) artifact_names [] w = (Inr table, w1)"
    and w': "w' = w1\<lparr>fw_files := (fw_files w1)(manifest_path root name \<mapsto>
        fl_json_write lib (JObj [(''name'', JStr name), (''artifacts'', JObj table)]))\<rparr>"
    by (auto simp: plan_def create_dir_all_def write_file_def Let_def split: if_splits)
  have rel: "\<forall>(a, t)\<in>set artifact_names. relative a" and dist: "distinct (map fst artifact_names)"
    using names_relative by (auto simp: artifact_names_def FLEET_def WALLET_ARTIFACT_def)
  note done1 = plan_all_result [OF all assms(3) rel dist]
  have pick: "List.map_filter (\<lambda>(k, v). map_option (\<lambda>h. (k, h)) (as_str v)) (map (\<lambda>(a, t). (t, JStr (f a))) xs)
      = map (\<lambda>(a, t). (t, f a)) xs" for f :: "string \<Rightarrow> string" and xs
    by (induction xs) (auto simp: List.map_filter_simps as_str_def)
  have "resolve lib root name w' = Inr (Planned name
           (map (\<lambda>(a, t). (t, fl_bs58_sha256 lib (the (fw_files w (artifact_path root a))))) artifact_names))"
    using done1 assms(4,5)
    by (simp add: resolve_def tag_commit_def w' jget_def as_object_def pick)
  moreover have "\<exists>bytes built_at. load_staged lib root name a w' = Inr bytes \<and>
      fw_files w (artifact_path root a) = Some bytes \<and>
      fl_modified lib (artifact_path root a) = Some built_at \<and> newest_source_change lib root \<le> built_at"
    if "(a, t) \<in> set artifact_names" for a t
    using done1 that staged_path_inj(3) [OF assms(3) names_relative [OF that] names_relative [OF that], of root]
    by (fastforce simp: load_staged_def w')
  ultimately show ?thesis by blast
qed

section \<open>The registry's report\<close>

text \<open>The readiness report as the registry serialises it; 64-bit numbers are strings.\<close>

definition readiness_json :: "deployment_readiness_view \<Rightarrow> json" where
  "readiness_json d = JObj
    [(''rate_set'', JBool (dr_rate_set d)), (''recovery_wired'', JBool (dr_recovery_wired d)),
     (''venue_set'', JBool (dr_venue_set d)), (''ft_allowlist_set'', JBool (dr_ft_allowlist_set d)),
     (''metadata_set'', JBool (dr_metadata_set d)), (''wiring_sane'', JBool (dr_wiring_sane d)),
     (''production_terms'', JBool (dr_production_terms d)),
     (''lease_term_ns'', JStr (show_nat (unat (dr_lease_term_ns d)))),
     (''grace_period_ns'', JStr (show_nat (unat (dr_grace_period_ns d)))),
     (''ready'', JBool (dr_ready d))]"

text \<open>The tool's readiness check and the registry's own verdict agree: asking the registry, the
  production check passes exactly when the registry calls itself ready, and that is exactly when
  rate, recovery authorities, venues, allowlist, metadata, wiring and terms are in place.\<close>

theorem fleet_ready_iff:
  assumes "fl_env lib ''REGISTRY_ACCOUNT'' = Some a"
    "view lib net a ''deployment_readiness'' w = Inr (readiness_json (deployment_readiness c r))"
  shows "(ready lib net Production w = Inr () \<longleftrightarrow> dr_ready (deployment_readiness c r)) \<and>
    (dr_ready (deployment_readiness c r) \<longleftrightarrow>
       r_near_usd_rate_micro r \<noteq> 0 \<and> r_recovery_authorities r \<noteq> {} \<and> r_venues r \<noteq> {} \<and>
       r_ft_allowlist r \<noteq> {} \<and> nm_name (r_nft_contract_metadata r) \<noteq> current_account_id c \<and>
       r_hos_extension r \<noteq> current_account_id c \<and> r_treasury r \<noteq> current_account_id c \<and>
       PRODUCTION_LEASE_TERM_NS \<le> r_lease_term_ns r \<and> PRODUCTION_GRACE_PERIOD_NS \<le> r_grace_period_ns r)"
  using assms
  by (simp add: ready_production READINESS_STEPS_def readiness_json_def jget_def
      deployment_readiness_def Let_def)

end
