(* ===== verification/Fleet_Wiring.thy ===== *)
theory Fleet_Wiring
  imports Fleet_Props Extension Recovery Registrar Deployer
begin

text \<open>
  The operators' last check against the contracts it asks. The getters of extension, recovery,
  registrar and deployer that the check reads, what they look like as JSON, and what it means
  that \<open>fleet permanence\<close> passes: the five contracts point at each other, both treasuries are the
  same and neither is being rotated, and the delays are those of production.
\<close>

section \<open>The getters\<close>

definition get_registry_x :: "hos_extension \<Rightarrow> account_id" where
  "get_registry_x x = x_registry x"

definition get_recovery_x :: "hos_extension \<Rightarrow> account_id" where
  "get_recovery_x x = x_recovery x"

definition get_treasury_x :: "hos_extension \<Rightarrow> account_id" where
  "get_treasury_x x = x_treasury x"

definition transfer_authority_m :: "mpc_recovery \<Rightarrow> account_id" where
  "transfer_authority_m m = m_transfer_authority m"

definition owner_m :: "mpc_recovery \<Rightarrow> account_id" where
  "owner_m m = m_owner m"

definition signer_m :: "mpc_recovery \<Rightarrow> account_id" where
  "signer_m m = m_signer m"

record registrar_view =
  gv_council :: account_id
  gv_wallet_impl :: account_id
  gv_hos_extension :: account_id
  gv_recovery :: account_id
  gv_chain_id :: string
  gv_wallet_timeout_secs :: u32
  gv_registry :: account_id
  gv_config_epoch :: u32

definition config_g :: "registrar \<Rightarrow> registrar_view" where
  "config_g g =
     \<lparr>gv_council = g_council g, gv_wallet_impl = g_wallet_impl g, gv_hos_extension = g_hos_extension g,
      gv_recovery = g_recovery g, gv_chain_id = g_chain_id g,
      gv_wallet_timeout_secs = g_wallet_timeout_secs g, gv_registry = g_registry g,
      gv_config_epoch = g_config_epoch g\<rparr>"

record deployer_view =
  dv_council :: account_id
  dv_approval_delay_ns :: u64
  dv_production_delay :: bool

definition config_d :: "impl_deployer \<Rightarrow> deployer_view" where
  "config_d d =
     \<lparr>dv_council = d_council d, dv_approval_delay_ns = d_approval_delay_ns d,
      dv_production_delay = (DEFAULT_APPROVAL_DELAY_NS \<le> d_approval_delay_ns d)\<rparr>"

section \<open>Their answers\<close>

definition u64_json :: "u64 \<Rightarrow> json" where
  "u64_json n = JStr (show_nat (unat n))"

definition pending_json :: "(account_id \<times> u64) option \<Rightarrow> json" where
  "pending_json p = (case p of None \<Rightarrow> JNull | Some (a, t) \<Rightarrow> JArr [JStr a, u64_json t])"

definition registrar_json :: "registrar_view \<Rightarrow> json" where
  "registrar_json v = JObj
    [(''council'', JStr (gv_council v)), (''wallet_impl'', JStr (gv_wallet_impl v)),
     (''hos_extension'', JStr (gv_hos_extension v)), (''recovery'', JStr (gv_recovery v)),
     (''chain_id'', JStr (gv_chain_id v)), (''wallet_timeout_secs'', JNum (uint (gv_wallet_timeout_secs v))),
     (''registry'', JStr (gv_registry v)), (''config_epoch'', JNum (uint (gv_config_epoch v)))]"

definition deployer_json :: "deployer_view \<Rightarrow> json" where
  "deployer_json v = JObj
    [(''council'', JStr (dv_council v)), (''approval_delay_ns'', u64_json (dv_approval_delay_ns v)),
     (''production_delay'', JBool (dv_production_delay v))]"

text \<open>The accounts a run is set to, and the chain answering for the contracts deployed there.\<close>

record fleet_accounts =
  fa_registry :: string
  fa_extension :: string
  fa_recovery :: string
  fa_root :: string
  fa_deployer :: string

definition set_to :: "'c fleet_lib \<Rightarrow> fleet_accounts \<Rightarrow> bool" where
  "set_to lib fa \<longleftrightarrow>
     fl_env lib ''REGISTRY_ACCOUNT'' = Some (fa_registry fa) \<and>
     fl_env lib ''EXTENSION_ACCOUNT'' = Some (fa_extension fa) \<and>
     fl_env lib ''RECOVERY_ACCOUNT'' = Some (fa_recovery fa) \<and>
     fl_env lib ''ROOT_ACCOUNT'' = Some (fa_root fa) \<and>
     fl_env lib ''DEPLOYER_ACCOUNT'' = Some (fa_deployer fa)"

definition says :: "'c fleet_lib \<Rightarrow> network \<Rightarrow> 'c fleet_world \<Rightarrow> string \<Rightarrow> string \<Rightarrow> json \<Rightarrow> bool" where
  "says lib net w account method v =
     (case view lib net account method w of Inl _ \<Rightarrow> False | Inr u \<Rightarrow> u = v)"

lemma says_view [simp]: "says lib net w account method v \<longleftrightarrow> view lib net account method w = Inr v"
  by (simp add: says_def split: sum.splits)

definition answers ::
    "'c fleet_lib \<Rightarrow> network \<Rightarrow> 'c fleet_world \<Rightarrow> fleet_accounts \<Rightarrow> tla_registry \<Rightarrow> hos_extension
     \<Rightarrow> mpc_recovery \<Rightarrow> registrar \<Rightarrow> impl_deployer \<Rightarrow> bool" where
  "answers lib net w fa r x m g d \<longleftrightarrow>
     says lib net w (fa_root fa) ''config'' (registrar_json (config_g g)) \<and>
     says lib net w (fa_deployer fa) ''config'' (deployer_json (config_d d)) \<and>
     says lib net w (fa_registry fa) ''get_treasury'' (JStr (get_treasury r)) \<and>
     says lib net w (fa_registry fa) ''get_grace_period_ns'' (u64_json (get_grace_period_ns r)) \<and>
     says lib net w (fa_registry fa) ''get_hos_extension'' (JStr (get_hos_extension r)) \<and>
     says lib net w (fa_registry fa) ''pending_treasury'' (pending_json (pending_treasury_r r)) \<and>
     says lib net w (fa_extension fa) ''get_treasury'' (JStr (get_treasury_x x)) \<and>
     says lib net w (fa_extension fa) ''get_registry'' (JStr (get_registry_x x)) \<and>
     says lib net w (fa_extension fa) ''get_recovery'' (JStr (get_recovery_x x)) \<and>
     says lib net w (fa_extension fa) ''pending_treasury'' (pending_json (pending_treasury_x x)) \<and>
     says lib net w (fa_recovery fa) ''transfer_authority'' (JStr (transfer_authority_m m)) \<and>
     says lib net w (fa_recovery fa) ''owner'' (JStr (owner_m m)) \<and>
     says lib net w (fa_recovery fa) ''signer'' (JStr (signer_m m))"

section \<open>Decimal text\<close>

lemma digits_value_append:
  "digits_value acc (s @ t) = Option.bind (digits_value acc s) (\<lambda>n. digits_value n t)"
  by (induction s arbitrary: acc) (auto split: bind_splits)

lemma digit_of: "n < 10 \<Longrightarrow> digit_value (char_of (48 + n)) = Some n"
  by (simp add: digit_value_def Let_def)

lemma digits_show: "digits_value 0 (show_nat n) = Some n"
proof (induction n rule: less_induct)
  case (less n)
  show ?case
  proof (cases "n < 10")
    case True
    then show ?thesis by (simp add: show_nat.simps [of n] digit_of)
  next
    case False
    then have "digits_value 0 (show_nat (n div 10)) = Some (n div 10)" by (intro less) simp
    moreover have "digits_value (n div 10) [char_of (48 + n mod 10)] = Some n"
      by (simp add: digit_of)
    ultimately show ?thesis using False
      by (simp add: show_nat.simps [of n] digits_value_append)
  qed
qed

lemma show_nat_hd: "show_nat n \<noteq> [] \<and> hd (show_nat n) \<noteq> CHR ''+''"
proof (induction n rule: less_induct)
  case (less n)
  show ?case
  proof (cases "n < 10")
    case True
    have "digit_value (CHR ''+'') = None" by (simp add: digit_value_def)
    then have "char_of (48 + n) \<noteq> CHR ''+''" using digit_of [OF True] by auto
    then show ?thesis using True by (simp add: show_nat.simps [of n])
  next
    case False
    then show ?thesis using less [of "n div 10"] by (simp add: show_nat.simps [of n])
  qed
qed

lemma parse_show: "n < 2 ^ bits \<Longrightarrow> parse_unsigned bits (show_nat n) = Some n"
  using show_nat_hd [of n] digits_show [of n] by (cases "show_nat n") (auto simp: parse_unsigned_def)

section \<open>What a pass means\<close>

lemma str_or_str [simp]: "str_or fallback (JStr s) = s"
  by (simp add: str_or_def as_str_def)

lemma derived_nil [simp]: "derived label (JStr s) wanted = [] \<longleftrightarrow> s = wanted"
  by (simp add: derived_def Let_def)

lemma chosen_nil [simp]: "chosen label v = [] \<longleftrightarrow> v \<notin> {''<absent>'', ''null''}"
  by (auto simp: chosen_def)

lemma treasury_nil [simp]: "treasury_line paid (Some (JStr s)) = [] \<longleftrightarrow> s = paid"
  by (simp add: treasury_line_def as_str_def)

lemma pending_nil [simp]: "pending_line label (Some (pending_json p)) = [] \<longleftrightarrow> p = None"
  by (auto simp: pending_line_def pending_json_def split: option.splits)

lemma grace_nil [simp]: "grace_line (u64_json n) = [] \<longleftrightarrow> PRODUCTION_GRACE_NS \<le> n"
proof -
  have "parse_unsigned 64 (show_nat (unat n)) = Some (unat n)"
    using unsigned_less [of n, where 'a = nat] by (intro parse_show) simp
  then show ?thesis by (simp add: grace_line_def u64_json_def as_str_def word_le_nat_alt)
qed

lemma delay_nil [simp]:
  "delay_line (deployer_json (config_d d)) = [] \<longleftrightarrow> DEFAULT_APPROVAL_DELAY_NS \<le> d_approval_delay_ns d"
  by (simp add: delay_line_def deployer_json_def config_d_def jget_def as_bool_def)

lemma registrar_fields [simp]:
  "jget (registrar_json v) ''registry'' = JStr (gv_registry v)"
  "jget (registrar_json v) ''hos_extension'' = JStr (gv_hos_extension v)"
  "jget (registrar_json v) ''recovery'' = JStr (gv_recovery v)"
  "jget (registrar_json v) ''wallet_impl'' = JStr (gv_wallet_impl v)"
  "jget (registrar_json v) ''chain_id'' = JStr (gv_chain_id v)"
  "jget (registrar_json v) ''wallet_timeout_secs'' = JNum (uint (gv_wallet_timeout_secs v))"
  by (simp_all add: registrar_json_def jget_def)

definition wired :: "fleet_accounts \<Rightarrow> tla_registry \<Rightarrow> hos_extension \<Rightarrow> mpc_recovery \<Rightarrow> registrar \<Rightarrow> bool" where
  "wired fa r x m g \<longleftrightarrow>
     r_hos_extension r = fa_extension fa \<and> x_registry x = fa_registry fa \<and>
     x_recovery x = fa_recovery fa \<and> m_transfer_authority m = fa_extension fa \<and>
     g_registry g = fa_registry fa \<and> g_hos_extension g = fa_extension fa \<and>
     g_recovery g = fa_recovery fa \<and> g_wallet_impl g = fa_deployer fa"

definition treasuries_agree :: "tla_registry \<Rightarrow> hos_extension \<Rightarrow> bool" where
  "treasuries_agree r x \<longleftrightarrow>
     x_treasury x = r_treasury r \<and> pending_treasury_r r = None \<and> pending_treasury_x x = None"

definition named :: "string \<Rightarrow> bool" where
  "named s \<longleftrightarrow> s \<notin> {''<absent>'', ''null''}"

lemma view_present: "view lib net a f w = Inr v \<Longrightarrow> view_if_present lib net a f w = Inr (Some v)"
  by (simp add: view_if_present_def)

text \<open>
  C18. For a run set to five accounts on a chain that answers for the five contracts there, the
  last check passes exactly when every contract points at the others as the accounts say, the
  registrar mints for this chain, both contracts pay the same treasury and neither is changing
  it, owner and signer of the recovery contract and the wallet timeout are answered, every
  configured publisher has published, the grace period is at least fourteen days and the
  deployer's delay is the production one.
\<close>

theorem permanence_means_wired:
  assumes "set_to lib fa" and "answers lib net w fa r x m g d"
  shows "permanence lib net w = Inr () \<longleftrightarrow>
    wired fa r x m g \<and> g_chain_id g = cli_name net \<and> treasuries_agree r x \<and>
    named (r_treasury r) \<and> named (m_owner m) \<and> named (m_signer m) \<and>
    named (fl_json_text lib (JNum (uint (g_wallet_timeout_secs g)))) \<and>
    globals_lines lib net GLOBALS w = Inr [] \<and>
    14 * 24 * 60 * 60 * 1000000000 \<le> r_grace_period_ns r \<and>
    DEFAULT_APPROVAL_DELAY_NS \<le> d_approval_delay_ns d"
proof (cases "globals_lines lib net GLOBALS w")
  case (Inl e)
  then show ?thesis using assms
    by (simp add: permanence_def set_to_def answers_def env_account_def view_present)
next
  case (Inr lines)
  show ?thesis using assms Inr
    by (simp add: permanence_def set_to_def answers_def env_account_def view_present Let_def
          wired_def treasuries_agree_def named_def config_g_def get_treasury_def
          get_treasury_x_def get_registry_x_def get_recovery_x_def transfer_authority_m_def
          owner_m_def signer_m_def get_hos_extension_def get_grace_period_ns_def
          PRODUCTION_GRACE_NS_def DAY_NS_def) blast
qed

text \<open>Five fresh contracts that point at each other, on a chain that lists their answers.\<close>

definition wired_accounts :: fleet_accounts where
  "wired_accounts =
    \<lparr>fa_registry = ''reg'', fa_extension = ''ext'', fa_recovery = ''rec'', fa_root = ''root'',
     fa_deployer = ''impl''\<rparr>"

definition wired_x :: hos_extension where
  "wired_x = \<lparr>x_state_version = 4, x_admins = {''admin''}, x_registry = ''reg'', x_recovery = ''rec'',
     x_paused = False, x_version = 1, x_treasury = ''treasury'', x_approved_code_hash = None,
     x_approved_at = None, x_council = ''council'', x_paused_until_ns = 0,
     x_recovery_reset_pending = {}, x_sweep_pending = {}, x_upgrade_proven = False,
     x_pending_council = None, x_pending_council_at = None, x_pending_treasury = None,
     x_pending_treasury_at = None\<rparr>"

definition wired_m :: mpc_recovery where
  "wired_m = \<lparr>m_state_version = 2, m_owner = ''owner'', m_installer = ''owner'', m_signer = ''mpc'',
     m_transfer_authority = ''ext'', m_watchers = [], m_threshold = 2, m_accounts = Map.empty,
     m_round_floor = Map.empty, m_approved_code_hash = None, m_approved_at = None,
     m_registry = None, m_armed = Map.empty, m_upgrade_proven = False, m_pending_owner = None,
     m_pending_owner_at = None\<rparr>"

definition wired_g :: registrar where
  "wired_g = \<lparr>g_state_version = 2, g_registry = ''reg'', g_council = ''council'',
     g_wallet_impl = ''impl'', g_hos_extension = ''ext'', g_recovery = ''rec'',
     g_chain_id = ''mainnet'', g_min_balance = 7000000000000000000000, g_wallet_timeout_secs = 900,
     g_approved_code_hash = None, g_approved_at = None, g_config_epoch = 0,
     g_upgrade_proven = False, g_pending_council = None, g_pending_council_at = None\<rparr>"

definition wired_d :: impl_deployer where
  "wired_d = \<lparr>d_state_version = 2, d_council = ''council'', d_current_hash = None,
     d_approved_hash = None, d_approved_at = None, d_approval_delay_ns = 172800000000000,
     d_deploy_locked_until = 0, d_approved_upgrade_hash = None, d_approved_upgrade_at = None,
     d_upgrade_proven = False, d_pending_council = None, d_pending_council_at = None\<rparr>"

definition wired_answers :: "((string \<times> string) \<times> json) list" where
  "wired_answers =
    [((''root'', ''config''), registrar_json (config_g wired_g)),
     ((''impl'', ''config''), deployer_json (config_d wired_d)),
     ((''reg'', ''get_treasury''), JStr (get_treasury demo_r0)),
     ((''reg'', ''get_grace_period_ns''), u64_json (get_grace_period_ns demo_r0)),
     ((''reg'', ''get_hos_extension''), JStr (get_hos_extension demo_r0)),
     ((''reg'', ''pending_treasury''), pending_json (pending_treasury_r demo_r0)),
     ((''ext'', ''get_treasury''), JStr (get_treasury_x wired_x)),
     ((''ext'', ''get_registry''), JStr (get_registry_x wired_x)),
     ((''ext'', ''get_recovery''), JStr (get_recovery_x wired_x)),
     ((''ext'', ''pending_treasury''), pending_json (pending_treasury_x wired_x)),
     ((''rec'', ''transfer_authority''), JStr (transfer_authority_m wired_m)),
     ((''rec'', ''owner''), JStr (owner_m wired_m)),
     ((''rec'', ''signer''), JStr (signer_m wired_m))]"

definition wired_post :: "string \<Rightarrow> json \<Rightarrow> unit \<Rightarrow> string + json" where
  "wired_post url body chain =
     (let p = jget body ''params'';
          asked = (str_or [] (jget p ''account_id''), str_or [] (jget p ''method_name''));
          i = length (takeWhile (\<lambda>e. fst e \<noteq> asked) wired_answers)
      in Inr (JObj [(''result'', JObj [(''result'', JArr [JNum (int i)]), (''hash'', JStr ''h'')])]))"

definition wired_lib :: "unit fleet_lib" where
  "wired_lib =
    \<lparr>fl_env = map_of [(''REGISTRY_ACCOUNT'', ''reg''), (''EXTENSION_ACCOUNT'', ''ext''),
       (''RECOVERY_ACCOUNT'', ''rec''), (''ROOT_ACCOUNT'', ''root''), (''DEPLOYER_ACCOUNT'', ''impl''),
       (''REGISTRAR_GLOBAL_ACCOUNT'', ''pub'')],
     fl_git_root = None, fl_rev_list = (\<lambda>_. None), fl_tag_text = (\<lambda>_. []),
     fl_sources = (\<lambda>_. None), fl_modified = (\<lambda>_. Some 0), fl_writable = (\<lambda>_. True),
     fl_bs58_sha256 = (\<lambda>_. []), fl_json_text = (\<lambda>_. ''900''), fl_json_write = (\<lambda>_. []),
     fl_json_read = (\<lambda>bs. case bs of [b] \<Rightarrow> Some (snd (wired_answers ! unat b)) | _ \<Rightarrow> None),
     fl_post = wired_post, fl_near = (\<lambda>args files chain. (None, chain))\<rparr>"

definition wired_world :: "unit fleet_world" where
  "wired_world = \<lparr>fw_files = (\<lambda>_. None), fw_chain = (), fw_commands = []\<rparr>"

lemmas wired_asks = rpc_def query_def wired_lib_def wired_post_def jget_def

lemma wired_view:
  "view wired_lib Mainnet account method wired_world =
     Inr (snd (wired_answers ! length (takeWhile (\<lambda>e. fst e \<noteq> (account, method)) wired_answers)))"
proof -
  define i where "i = length (takeWhile (\<lambda>e. fst e \<noteq> (account, method)) wired_answers)"
  have "i \<le> length wired_answers" unfolding i_def by (rule length_takeWhile_le)
  then have small: "i < 256" by (simp add: wired_answers_def)
  then have "unat (ucast (of_nat i :: u64) :: u8) = i"
    by (simp add: unsigned_ucast_eq take_bit_nat_eq_self unsigned_of_nat)
  with small show ?thesis unfolding i_def
    by (simp add: view_def wired_asks as_str_def as_array_def as_u64_def List.map_filter_simps)
qed

lemma wired_answers_hold:
  "answers wired_lib Mainnet wired_world wired_accounts demo_r0 wired_x wired_m wired_g wired_d"
  by (simp add: answers_def wired_accounts_def wired_view wired_answers_def)

lemma wired_set: "set_to wired_lib wired_accounts"
  by (simp add: set_to_def wired_lib_def wired_accounts_def)

lemma wired_globals: "globals_lines wired_lib Mainnet GLOBALS wired_world = Inr []"
  by (simp add: GLOBALS_def global_hash_def wired_asks as_str_def)

theorem permanence_means_wired_witness: "permanence wired_lib Mainnet wired_world = Inr ()"
proof -
  have "wired wired_accounts demo_r0 wired_x wired_m wired_g" by code_simp
  moreover have "treasuries_agree demo_r0 wired_x" by code_simp
  moreover have "g_chain_id wired_g = cli_name Mainnet" by code_simp
  moreover have "named (r_treasury demo_r0) \<and> named (m_owner wired_m) \<and> named (m_signer wired_m)"
    by code_simp
  moreover have "named (fl_json_text wired_lib (JNum (uint (g_wallet_timeout_secs wired_g))))"
    by (simp add: named_def wired_lib_def)
  moreover have "14 * 24 * 60 * 60 * 1000000000 \<le> r_grace_period_ns demo_r0" by code_simp
  moreover have "DEFAULT_APPROVAL_DELAY_NS \<le> d_approval_delay_ns wired_d" by code_simp
  ultimately show ?thesis
    using permanence_means_wired [OF wired_set wired_answers_hold] wired_globals by blast
qed

end
