(* ===== verification/Dev_Contracts.thy ===== *)
theory Dev_Contracts
  imports Recovery_Wire
begin

text \<open>
  The contracts the repository deploys beside the platform when it is tested on a network
  (\<open>dev-contracts\<close>): a fungible token, a staking pool, an application that receives tokens and
  names, a signer that stands in for the MPC network, and a stand-in for the opener. Each is
  modelled method by method. Shown: the token creates and destroys nothing but by \<open>mint\<close>, the pool pays out
  only what was put in, and the signer reads back exactly the bytes the recovery contract wrote.
\<close>

datatype dev_error =
    RequiresOneYocto | ReceiverNotRegistered | NotEnoughBalance | StorageDepositRefused
  | DevPrivate | DevNotPayable | NoDeposit | NotEnoughStaked | NotEnoughUnstaked | UnknownToken
  | ReceiverRejected | CounterOverflow | MissingPayload | OddHexLength | InvalidHex

text \<open>An amount looked up in a map; an account that is not there has none.\<close>

definition amount_of :: "(account_id \<rightharpoonup> u128) \<Rightarrow> account_id \<Rightarrow> u128" where
  "amount_of m a = (case m a of None \<Rightarrow> 0 | Some v \<Rightarrow> v)"

section \<open>The token (\<open>test-ft\<close>)\<close>

record test_ft =
  ft_balances :: "account_id \<rightharpoonup> u128"
  ft_registered :: "account_id set"
  ft_supply :: u128
  ft_refuse_storage_deposit :: bool

definition ft_new :: "account_id \<Rightarrow> u128 \<Rightarrow> test_ft" where
  "ft_new owner total_supply =
     \<lparr>ft_balances = [owner \<mapsto> total_supply], ft_registered = {owner}, ft_supply = total_supply,
      ft_refuse_storage_deposit = False\<rparr>"

definition ft_balance_of :: "account_id \<Rightarrow> test_ft \<Rightarrow> u128" where
  "ft_balance_of account f = amount_of (ft_balances f) account"

definition ft_total_supply :: "test_ft \<Rightarrow> u128" where
  "ft_total_supply f = ft_supply f"

text \<open>Both transfers debit the sender and credit the receiver with the same statements.\<close>

definition ft_move :: "account_id \<Rightarrow> account_id \<Rightarrow> u128 \<Rightarrow> (account_id \<rightharpoonup> u128) \<Rightarrow> (account_id \<rightharpoonup> u128)" where
  "ft_move sender receiver amount balances =
     (let debited = balances(sender \<mapsto> sat_sub (amount_of balances sender) amount)
      in debited(receiver \<mapsto> sat_add (amount_of debited receiver) amount))"

definition ft_transfer :: "ctx \<Rightarrow> account_id \<Rightarrow> u128 \<Rightarrow> test_ft \<Rightarrow> dev_error + test_ft" where
  "ft_transfer c receiver_id amount f =
     (let sender = predecessor_account_id c in
     require (attached_deposit c = 1) RequiresOneYocto (
     require (receiver_id \<in> ft_registered f) ReceiverNotRegistered (
     require (\<not> amount_of (ft_balances f) sender < amount) NotEnoughBalance (
     Inr (f\<lparr>ft_balances := ft_move sender receiver_id amount (ft_balances f)\<rparr>)))))"

text \<open>The call to the receiver and the callback it is followed by.\<close>

record ft_transfer_promise =
  fp_receiver :: account_id
  fp_sender :: account_id
  fp_amount :: u128
  fp_msg :: string

definition ft_transfer_call ::
    "ctx \<Rightarrow> account_id \<Rightarrow> u128 \<Rightarrow> string \<Rightarrow> test_ft \<Rightarrow> dev_error + (test_ft \<times> ft_transfer_promise)" where
  "ft_transfer_call c receiver_id amount msg f =
     rbind (ft_transfer c receiver_id amount f) (\<lambda>f'.
     Inr (f', \<lparr>fp_receiver = receiver_id, fp_sender = predecessor_account_id c,
               fp_amount = amount, fp_msg = msg\<rparr>))"

definition ft_resolve_transfer ::
    "ctx \<Rightarrow> account_id \<Rightarrow> account_id \<Rightarrow> u128 \<Rightarrow> promise_error + u128 \<Rightarrow> test_ft
     \<Rightarrow> dev_error + (test_ft \<times> u128)" where
  "ft_resolve_transfer c sender_id receiver_id amount result f =
     require (is_private_call c) DevPrivate (
     require (no_deposit c) DevNotPayable (
     let unused = (case result of Inr value \<Rightarrow> min value amount | Inl _ \<Rightarrow> amount) in
     if unused = 0 then Inr (f, amount)
     else
       let refund = min unused (amount_of (ft_balances f) receiver_id)
       in Inr (f\<lparr>ft_balances := ft_move receiver_id sender_id refund (ft_balances f)\<rparr>,
               sat_sub amount refund)))"

definition ft_storage_deposit :: "ctx \<Rightarrow> account_id option \<Rightarrow> test_ft \<Rightarrow> dev_error + test_ft" where
  "ft_storage_deposit c account_id f =
     require (\<not> ft_refuse_storage_deposit f) StorageDepositRefused (
     let account = (case account_id of None \<Rightarrow> predecessor_account_id c | Some a \<Rightarrow> a)
     in Inr (f\<lparr>ft_registered := insert account (ft_registered f)\<rparr>))"

definition ft_storage_balance_of :: "account_id \<Rightarrow> test_ft \<Rightarrow> u128 option" where
  "ft_storage_balance_of account f =
     (if account \<in> ft_registered f then Some 1250000000000000000000 else None)"

definition ft_is_registered :: "account_id \<Rightarrow> test_ft \<Rightarrow> bool" where
  "ft_is_registered account f \<longleftrightarrow> account \<in> ft_registered f"

definition set_refuse_storage_deposit :: "ctx \<Rightarrow> bool \<Rightarrow> test_ft \<Rightarrow> dev_error + test_ft" where
  "set_refuse_storage_deposit c value f =
     require (no_deposit c) DevNotPayable (Inr (f\<lparr>ft_refuse_storage_deposit := value\<rparr>))"

definition ft_mint :: "ctx \<Rightarrow> account_id \<Rightarrow> u128 \<Rightarrow> test_ft \<Rightarrow> dev_error + test_ft" where
  "ft_mint c account amount f =
     require (no_deposit c) DevNotPayable (
     Inr (f\<lparr>ft_registered := insert account (ft_registered f),
            ft_balances := (ft_balances f)(account \<mapsto>
              sat_add (amount_of (ft_balances f) account) amount),
            ft_supply := sat_add (ft_supply f) amount\<rparr>))"

section \<open>The staking pool (\<open>test-staking-pool\<close>)\<close>

record staking_pool =
  sp_staked :: "account_id \<rightharpoonup> u128"
  sp_unstaked :: "account_id \<rightharpoonup> u128"

definition pool_new :: staking_pool where
  "pool_new = \<lparr>sp_staked = Map.empty, sp_unstaked = Map.empty\<rparr>"

definition deposit_and_stake :: "ctx \<Rightarrow> staking_pool \<Rightarrow> dev_error + staking_pool" where
  "deposit_and_stake c p =
     (let amount = attached_deposit c; who = predecessor_account_id c in
     require (amount \<noteq> 0) NoDeposit (
     Inr (p\<lparr>sp_staked := (sp_staked p)(who \<mapsto> sat_add (amount_of (sp_staked p) who) amount)\<rparr>)))"

definition unstake :: "ctx \<Rightarrow> u128 \<Rightarrow> staking_pool \<Rightarrow> dev_error + staking_pool" where
  "unstake c amount p =
     (let who = predecessor_account_id c; staked = amount_of (sp_staked p) who in
     require (no_deposit c) DevNotPayable (
     require (\<not> staked < amount) NotEnoughStaked (
     Inr (p\<lparr>sp_staked := (sp_staked p)(who \<mapsto> staked - amount),
            sp_unstaked := (sp_unstaked p)(who \<mapsto>
              sat_add (amount_of (sp_unstaked p) who) amount)\<rparr>))))"

text \<open>The transfer the pool makes: to whom and how much.\<close>

definition pool_withdraw ::
    "ctx \<Rightarrow> u128 \<Rightarrow> staking_pool \<Rightarrow> dev_error + (staking_pool \<times> account_id \<times> u128)" where
  "pool_withdraw c amount p =
     (let who = predecessor_account_id c; pending = amount_of (sp_unstaked p) who in
     require (no_deposit c) DevNotPayable (
     require (\<not> pending < amount) NotEnoughUnstaked (
     Inr (p\<lparr>sp_unstaked := (sp_unstaked p)(who \<mapsto> pending - amount)\<rparr>, who, amount))))"

definition get_account_staked_balance :: "account_id \<Rightarrow> staking_pool \<Rightarrow> u128" where
  "get_account_staked_balance account p = amount_of (sp_staked p) account"

definition get_account_unstaked_balance :: "account_id \<Rightarrow> staking_pool \<Rightarrow> u128" where
  "get_account_unstaked_balance account p = amount_of (sp_unstaked p) account"

definition get_account_total_balance :: "account_id \<Rightarrow> staking_pool \<Rightarrow> u128" where
  "get_account_total_balance account p =
     sat_add (amount_of (sp_staked p) account) (amount_of (sp_unstaked p) account)"

section \<open>The application (\<open>test-dapp\<close>)\<close>

record test_dapp =
  td_token :: account_id
  td_positions :: "account_id \<rightharpoonup> u128"
  td_actions :: "account_id \<rightharpoonup> u32"

definition dapp_new :: "account_id \<Rightarrow> test_dapp" where
  "dapp_new token = \<lparr>td_token = token, td_positions = Map.empty, td_actions = Map.empty\<rparr>"

definition dapp_ft_on_transfer ::
    "ctx \<Rightarrow> account_id \<Rightarrow> u128 \<Rightarrow> string \<Rightarrow> test_dapp \<Rightarrow> dev_error + (test_dapp \<times> u128)" where
  "dapp_ft_on_transfer c sender_id amount msg d =
     require (no_deposit c) DevNotPayable (
     require (predecessor_account_id c = td_token d) UnknownToken (
     Inr (d\<lparr>td_positions := (td_positions d)(sender_id \<mapsto>
            sat_add (amount_of (td_positions d) sender_id) amount)\<rparr>, 0)))"

definition action_count :: "account_id \<Rightarrow> test_dapp \<Rightarrow> u32" where
  "action_count account d = (case td_actions d account of None \<Rightarrow> 0 | Some n \<Rightarrow> n)"

text \<open>The counter of a receipt is checked by the build's overflow checks, that of a session action
  saturates.\<close>

definition dapp_nft_on_transfer ::
    "ctx \<Rightarrow> account_id \<Rightarrow> account_id \<Rightarrow> string \<Rightarrow> string \<Rightarrow> test_dapp \<Rightarrow> dev_error + (test_dapp \<times> bool)" where
  "dapp_nft_on_transfer c sender_id previous_owner_id token_id msg d =
     require (no_deposit c) DevNotPayable (
     if msg = ''panic'' then Inl ReceiverRejected
     else if msg = ''return'' then Inr (d, True)
     else
       ok_or (checked_add (action_count previous_owner_id d) 1) CounterOverflow (\<lambda>n.
       Inr (d\<lparr>td_actions := (td_actions d)(previous_owner_id \<mapsto> n)\<rparr>, False)))"

definition dapp_get_position :: "account_id \<Rightarrow> test_dapp \<Rightarrow> u128" where
  "dapp_get_position account d = amount_of (td_positions d) account"

definition record_session_action :: "ctx \<Rightarrow> test_dapp \<Rightarrow> dev_error + test_dapp" where
  "record_session_action c d =
     (let who = predecessor_account_id c in
     require (no_deposit c) DevNotPayable (
     Inr (d\<lparr>td_actions := (td_actions d)(who \<mapsto> sat_add (action_count who d) 1)\<rparr>)))"

section \<open>The signer (\<open>test-mpc\<close>)\<close>

definition mpc_nibble :: "u8 \<Rightarrow> dev_error + u8" where
  "mpc_nibble ch =
     (if 48 \<le> ch \<and> ch \<le> 57 then Inr (ch - 48)
      else if 97 \<le> ch \<and> ch \<le> 102 then Inr (ch - 97 + 10)
      else if 65 \<le> ch \<and> ch \<le> 70 then Inr (ch - 65 + 10)
      else Inl InvalidHex)"

fun mpc_pairs :: "u8 list \<Rightarrow> dev_error + u8 list" where
  "mpc_pairs (a # b # rest) =
     rbind (mpc_nibble a) (\<lambda>hi. rbind (mpc_nibble b) (\<lambda>lo.
     rbind (mpc_pairs rest) (\<lambda>bs. Inr ((push_bit 4 hi OR lo) # bs))))"
| "mpc_pairs _ = Inr []"

definition mpc_from_hex :: "string \<Rightarrow> dev_error + bytes" where
  "mpc_from_hex s =
     require (length s mod 2 = 0) OddHexLength (mpc_pairs (as_bytes s))"

text \<open>The secret key gives the public key and the signatures; both are the library's.\<close>

record mpc_lib =
  ml_verifying_key :: "bytes \<Rightarrow> bytes"
  ml_sign :: "bytes \<Rightarrow> bytes \<Rightarrow> bytes"

definition mpc_derived_public_key :: "mpc_lib \<Rightarrow> bytes \<Rightarrow> bytes" where
  "mpc_derived_public_key lib secret = 0 # ml_verifying_key lib secret"

definition mpc_sign :: "mpc_lib \<Rightarrow> bytes \<Rightarrow> string option \<Rightarrow> dev_error + bytes" where
  "mpc_sign lib secret payload_hex =
     ok_or payload_hex MissingPayload (\<lambda>hex.
     rbind (mpc_from_hex hex) (\<lambda>payload. Inr (ml_sign lib secret payload)))"

section \<open>The opener stub (\<open>registrar-opener-stub\<close>)\<close>

record opener_stub =
  os_marker :: string

datatype stub_promise =
    StubCall account_id string u128 | StubOpen account_id u128 bytes

definition stub_set_marker :: "ctx \<Rightarrow> string \<Rightarrow> opener_stub \<Rightarrow> dev_error + opener_stub" where
  "stub_set_marker c marker s = require (no_deposit c) DevNotPayable (Inr (s\<lparr>os_marker := marker\<rparr>))"

definition stub_get_marker :: "opener_stub \<Rightarrow> string" where
  "stub_get_marker s = os_marker s"

text \<open>Current account, caller and signer; the signer of the transaction is not in the context.\<close>

definition stub_who_called :: "account_id \<Rightarrow> ctx \<Rightarrow> account_id \<times> account_id \<times> account_id" where
  "stub_who_called signer c = (current_account_id c, predecessor_account_id c, signer)"

definition stub_hop :: "account_id \<Rightarrow> stub_promise" where
  "stub_hop next = StubCall next ''who_called'' 0"

definition stub_open :: "ctx \<Rightarrow> account_id \<Rightarrow> bytes \<Rightarrow> stub_promise" where
  "stub_open c name owner_key = StubOpen name (attached_deposit c) owner_key"

section \<open>The token keeps its supply\<close>

datatype ft_call =
    FtTransfer account_id u128 | FtTransferCall account_id u128 string
  | FtResolve account_id account_id u128 "promise_error + u128"
  | FtStorageDeposit "account_id option" | FtRefuse bool | FtMint account_id u128

fun ft_exec :: "ctx \<Rightarrow> ft_call \<Rightarrow> test_ft \<Rightarrow> dev_error + test_ft" where
  "ft_exec c (FtTransfer r a) f = ft_transfer c r a f"
| "ft_exec c (FtTransferCall r a m) f = rbind (ft_transfer_call c r a m f) (\<lambda>(f', _). Inr f')"
| "ft_exec c (FtResolve s r a res) f = rbind (ft_resolve_transfer c s r a res f) (\<lambda>(f', _). Inr f')"
| "ft_exec c (FtStorageDeposit a) f = ft_storage_deposit c a f"
| "ft_exec c (FtRefuse b) f = set_refuse_storage_deposit c b f"
| "ft_exec c (FtMint a n) f = ft_mint c a n f"

definition ft_inv :: "test_ft \<Rightarrow> bool" where
  "ft_inv f \<longleftrightarrow> finite (dom (ft_balances f)) \<and> map_total (ft_balances f) = unat (ft_supply f)"

lemma amount_of_case: "(case m a of None \<Rightarrow> 0 | Some u \<Rightarrow> unat u) = unat (amount_of m a)"
  by (simp add: amount_of_def split: option.split)

lemma map_total_set:
  "finite (dom m) \<Longrightarrow> map_total (m(k \<mapsto> v)) + unat (amount_of m k) = map_total m + unat v"
  using map_total_upd [of m k v] by (simp add: amount_of_case)

lemma amount_le_total: "finite (dom m) \<Longrightarrow> unat (amount_of m k) \<le> map_total m"
  using map_total_ge [of m k] by (auto simp: amount_of_def split: option.split)

text \<open>A move within the balances keeps their total, whether or not the two accounts are the
  same, as long as the total fits.\<close>

lemma ft_move_total:
  assumes fin: "finite (dom m)" and fits: "map_total m < 2 ^ 128" and enough: "n \<le> amount_of m s"
  shows "finite (dom (ft_move s r n m)) \<and> map_total (ft_move s r n m) = map_total m"
proof -
  let ?d = "m(s \<mapsto> sat_sub (amount_of m s) n)"
  have fd: "finite (dom ?d)" using fin by simp
  have "unat (sat_sub (amount_of m s) n) = unat (amount_of m s) - unat n"
    by (simp add: unat_sat_sub)
  moreover have "unat n \<le> unat (amount_of m s)" using enough by (simp add: word_le_nat_alt)
  ultimately have d: "map_total ?d + unat n = map_total m"
    using map_total_set [OF fin, of s "sat_sub (amount_of m s) n"] by simp
  then have "unat (amount_of ?d r) + unat n < 2 ^ 128"
    using amount_le_total [OF fd, of r] fits by linarith
  then have "unat (sat_add (amount_of ?d r) n) = unat (amount_of ?d r) + unat n"
    by (simp add: sat_add_exact)
  then have "map_total (?d(r \<mapsto> sat_add (amount_of ?d r) n)) = map_total m"
    using map_total_set [OF fd, of r "sat_add (amount_of ?d r) n"] d by simp
  then show ?thesis using fd by (simp add: ft_move_def Let_def)
qed

lemma ft_inv_move:
  assumes "ft_inv f" "n \<le> amount_of (ft_balances f) s"
  shows "ft_inv (f\<lparr>ft_balances := ft_move s r n (ft_balances f)\<rparr>)"
proof -
  have "map_total (ft_balances f) < 2 ^ 128" using assms(1) unsigned_less [of "ft_supply f"] by (simp add: ft_inv_def)
  with assms ft_move_total [of "ft_balances f" n s r] show ?thesis by (simp add: ft_inv_def)
qed

lemma ft_inv_mint:
  assumes inv: "ft_inv f" and ok: "ft_mint c a n f = Inr f'" and fits: "unat (ft_supply f) + unat n < 2 ^ 128"
  shows "ft_inv f'"
proof -
  let ?m = "ft_balances f"
  have fin: "finite (dom ?m)" and total: "map_total ?m = unat (ft_supply f)"
    using inv by (simp_all add: ft_inv_def)
  have "unat (amount_of ?m a) + unat n < 2 ^ 128" using amount_le_total [OF fin, of a] total fits by linarith
  then have "map_total (?m(a \<mapsto> sat_add (amount_of ?m a) n)) = unat (ft_supply f) + unat n"
    using map_total_set [OF fin, of a "sat_add (amount_of ?m a) n"] total by (simp add: sat_add_exact)
  moreover have "unat (sat_add (ft_supply f) n) = unat (ft_supply f) + unat n"
    using fits by (simp add: sat_add_exact)
  ultimately show ?thesis using ok fin by (auto simp: ft_mint_def ft_inv_def)
qed

text \<open>A call, where a mint does not take the supply past what the number can hold.\<close>

inductive ft_step :: "u64 \<Rightarrow> test_ft \<Rightarrow> test_ft \<Rightarrow> bool" where
  ft_call: "ft_exec c x f = Inr f' \<Longrightarrow> (\<And>a n. x = FtMint a n \<Longrightarrow> unat (ft_supply f) + unat n < 2 ^ 128)
            \<Longrightarrow> ft_step (block_timestamp c) f f'"

inductive_cases ft_stepE: "ft_step t f f'"

lemma ft_exec_inv:
  assumes "ft_exec c x f = Inr f'" "ft_inv f" "\<And>a n. x = FtMint a n \<Longrightarrow> unat (ft_supply f) + unat n < 2 ^ 128"
  shows "ft_inv f'"
proof (cases x)
  case (FtMint a n)
  then show ?thesis using assms ft_inv_mint by simp
next
  case (FtTransfer r n)
  then show ?thesis using assms(1,2) by (auto simp: ft_transfer_def Let_def intro!: ft_inv_move)
next
  case (FtTransferCall r n m)
  then show ?thesis using assms(1,2)
    by (auto simp: ft_transfer_call_def ft_transfer_def Let_def intro!: ft_inv_move)
next
  case (FtResolve s r n res)
  then show ?thesis using assms(1,2)
    by (auto simp: ft_resolve_transfer_def Let_def intro!: ft_inv_move split: if_splits)
qed (use assms(1,2) in \<open>auto simp: ft_storage_deposit_def set_refuse_storage_deposit_def Let_def ft_inv_def\<close>)

lemma ft_inv_new: "ft_inv (ft_new owner n)"
  by (simp add: ft_new_def ft_inv_def map_total_def)

interpretation token: contract_machine "\<lambda>t f. \<exists>owner n. f = ft_new owner n" ft_step "\<lambda>t. ft_inv"
proof unfold_locales
  show "ft_inv f" if "\<exists>owner n. f = ft_new owner n" for f using that ft_inv_new by auto
  show "ft_inv f'" if "ft_inv f" "ft_step t' f f'" for f f' t'
    using that(2) ft_exec_inv [OF _ that(1)] by (auto elim!: ft_stepE)
qed

text \<open>Whoever calls what, the balances of the token add up to its supply, and only a mint changes
  the supply.\<close>

theorem token_conserves:
  assumes "token.reach t f"
  shows "map_total (ft_balances f) = unat (ft_total_supply f)"
    and "ft_exec c x f = Inr f' \<Longrightarrow> (\<forall>a n. x \<noteq> FtMint a n) \<Longrightarrow> ft_total_supply f' = ft_total_supply f"
proof -
  show "map_total (ft_balances f) = unat (ft_total_supply f)"
    using token.reach_inv [OF assms] by (simp add: ft_inv_def ft_total_supply_def)
  show "ft_exec c x f = Inr f' \<Longrightarrow> (\<forall>a n. x \<noteq> FtMint a n) \<Longrightarrow> ft_total_supply f' = ft_total_supply f"
    by (cases x) (auto simp: ft_total_supply_def ft_transfer_def ft_transfer_call_def
        ft_resolve_transfer_def ft_storage_deposit_def set_refuse_storage_deposit_def Let_def
        split: if_splits)
qed

section \<open>The signer reads what the recovery contract writes\<close>

lemma hex_nibble: "n < 16 \<Longrightarrow> mpc_nibble (of_char (HEX ! n)) = Inr (of_nat n)"
proof -
  have "list_all (\<lambda>n. mpc_nibble (of_char (HEX ! n)) = Inr (of_nat n)) [0..<16]" by code_simp
  then show "n < 16 \<Longrightarrow> mpc_nibble (of_char (HEX ! n)) = Inr (of_nat n)" by (auto simp: list_all_iff)
qed

theorem signer_reads_payload: "mpc_from_hex (to_hex bs) = Inr bs"
proof -
  have "mpc_pairs (as_bytes (to_hex bs)) = Inr bs \<and> length (to_hex bs) mod 2 = 0"
  proof (induction bs)
    case (Cons b bs)
    have "unat (drop_bit 4 b) < 16" "unat (b AND 15) < 16"
      using nibbles [of b] by simp_all
    moreover have "push_bit 4 (drop_bit 4 b) OR (b AND 15) = b"
    proof -
      have "b AND 15 = take_bit 4 b" by (simp add: take_bit_eq_mask mask_eq_exp_minus_1)
      then show ?thesis by (simp add: bit_eq_iff bit_simps) (metis le_less_linear add.commute le_add_diff_inverse)
    qed
    ultimately show ?case using Cons by (simp add: to_hex_def as_bytes_def hex_nibble)
  qed (simp add: to_hex_def as_bytes_def)
  then show ?thesis by (simp add: mpc_from_hex_def)
qed

section \<open>The pool pays out what was put in\<close>

definition pool_total :: "staking_pool \<Rightarrow> nat" where
  "pool_total p = map_total (sp_staked p) + map_total (sp_unstaked p)"

datatype pool_call = PoolStake | PoolUnstake u128 | PoolWithdraw u128

text \<open>A call, what it pays in and what it pays out.\<close>

fun pool_exec :: "ctx \<Rightarrow> pool_call \<Rightarrow> staking_pool \<Rightarrow> dev_error + (staking_pool \<times> nat \<times> nat)" where
  "pool_exec c PoolStake p =
     rbind (deposit_and_stake c p) (\<lambda>p'. Inr (p', unat (attached_deposit c), 0))"
| "pool_exec c (PoolUnstake n) p = rbind (unstake c n p) (\<lambda>p'. Inr (p', 0, 0))"
| "pool_exec c (PoolWithdraw n) p =
     rbind (pool_withdraw c n p) (\<lambda>(p', who, amount). Inr (p', 0, unat amount))"

inductive pool_run :: "staking_pool \<Rightarrow> nat \<Rightarrow> nat \<Rightarrow> bool" where
  pool_start: "pool_run pool_new 0 0"
| pool_step: "pool_run p paid_in paid_out \<Longrightarrow> pool_exec c x p = Inr (p', i, o1)
     \<Longrightarrow> pool_run p' (paid_in + i) (paid_out + o1)"

definition pool_finite :: "staking_pool \<Rightarrow> bool" where
  "pool_finite p \<longleftrightarrow> finite (dom (sp_staked p)) \<and> finite (dom (sp_unstaked p))"

lemma map_total_add:
  "finite (dom m) \<Longrightarrow> map_total (m(k \<mapsto> sat_add (amount_of m k) n)) \<le> map_total m + unat n"
  using map_total_set [of m k "sat_add (amount_of m k) n"] by (simp add: unat_sat_add)

lemma map_total_minus:
  assumes "finite (dom m)" "\<not> amount_of m k < n"
  shows "map_total (m(k \<mapsto> amount_of m k - n)) + unat n = map_total m"
proof -
  have "unat (amount_of m k - n) = unat (amount_of m k) - unat n" "unat n \<le> unat (amount_of m k)"
    using assms(2) by (simp_all add: unat_sub word_le_nat_alt not_less)
  then show ?thesis using map_total_set [OF assms(1), of k "amount_of m k - n"] by simp
qed

lemma pool_exec_total:
  assumes "pool_exec c x p = Inr (p', i, o1)" "pool_finite p"
  shows "pool_finite p' \<and> pool_total p' + o1 \<le> pool_total p + i"
proof (cases x)
  case PoolStake
  then show ?thesis using assms map_total_add [of "sp_staked p" "predecessor_account_id c" "attached_deposit c"]
    by (auto simp: deposit_and_stake_def pool_total_def pool_finite_def Let_def)
next
  case (PoolUnstake n)
  then show ?thesis
    using assms map_total_add [of "sp_unstaked p" "predecessor_account_id c" n]
      map_total_minus [of "sp_staked p" "predecessor_account_id c" n]
    by (auto simp: unstake_def pool_total_def pool_finite_def Let_def)
next
  case (PoolWithdraw n)
  then show ?thesis using assms map_total_minus [of "sp_unstaked p" "predecessor_account_id c" n]
    by (auto simp: pool_withdraw_def pool_total_def pool_finite_def Let_def)
qed

theorem pool_solvent: "pool_run p paid_in paid_out \<Longrightarrow> pool_finite p \<and> paid_out + pool_total p \<le> paid_in"
proof (induction rule: pool_run.induct)
  case (pool_step p paid_in paid_out c x p' i o1)
  then show ?case using pool_exec_total [of c x p p' i o1] by simp
qed (simp add: pool_new_def pool_finite_def pool_total_def)

end
