(* ===== verification/Spec2Isabelle.thy ===== *)
theory Spec2Isabelle
  imports Wallet_Props Registry_Safety Registry_Money Registry_Orders Registry_Pages Registry_Migrate
    Extension_Props Recovery_Props Platform Minting Fleet_Wiring Dev_Contracts
begin

text \<open>
  Verification of the House of Stake TLA contracts: leased NEAR accounts below top level accounts.

  \<^bold>\<open>The program.\<close> The registry (\<open>contracts/tla-registry\<close>) rents names below a namespace. A rental asks
  the registrar of the namespace (\<open>contracts/registrar\<close>) for the account; the registrar creates it
  with the wallet code (\<open>contracts/hos-wallet\<close>), which the publisher
  (\<open>contracts/wallet-impl-deployer\<close>) has put on the chain, and initialises it. Everything the
  registry later wants of a wallet, a new owner, another lease end, a sweep, goes through the
  extension (\<open>contracts/hos-extension\<close>), the one authority every wallet obeys. A tenant who has lost
  the key comes back through the recovery contract (\<open>contracts/mpc-recovery\<close>): an attestation, a
  timelock, a quorum of watchers, then either a signed key change or a rotation by the registry.
  Namespaces themselves are opened in approved batches by \<open>contracts/registrar-opener\<close>, and
  \<open>contracts/registrar-opener-wipe\<close> removes what an older opener left. The operators stage, deploy
  and inspect the contracts with \<open>tools/fleet\<close>; \<open>dev-contracts\<close> holds the token, staking pool,
  application, signer and stub that the repository deploys beside them on a test network.

  \<^bold>\<open>Conventions.\<close> A contract's state is a record whose fields carry a letter and the Rust name
  (\<open>r_\<close> registry, \<open>tw_\<close> wallet, \<open>x_\<close> extension, \<open>m_\<close> recovery, \<open>g_\<close> registrar, \<open>d_\<close> publisher). A method
  is a definition with the name of the Rust function, suffixed by that letter where two contracts
  share a name; it takes the call context (\<open>ctx\<close> of \<open>Near_Env\<close>: caller, deposit, time, promise results) and
  the state, and gives \<open>Inl\<close> the error, in which case the runtime keeps the old state, or \<open>Inr\<close>
  the new state with the events and promises it emits, in order. A panic, an \<open>Err\<close>, a \<open>require!\<close>
  and the guards that the macros put before a private or not payable method are all such
  errors. Integers are words of their Rust width, with checked, saturating or wrapping operations as
  in the source. A collection is a map or a set, one whose order the code reads is a list;
  iteration over a set is a parameter.

  \<^bold>\<open>Theories.\<close>
  \<^item> Foundation. \<open>Prelude\<close>: words, results with early return and their inversion rules, strings.
    \<open>Near_Env\<close>: the context and the locale \<open>contract_machine\<close>. \<open>Timelock\<close>: the locale \<open>timelock\<close>.
    \<open>Hos_Common\<close>, \<open>State_Storage\<close>, \<open>Bytes\<close>: \<open>crates/hos-common\<close>, the reading of a stored state, byte forms.
  \<^item> Wallet, \<open>hos-wallet/src\<close>. \<open>Wallet_Types\<close>: \<open>state.rs\<close>, \<open>error.rs\<close>, \<open>events.rs\<close> and the records of
    \<open>lib.rs\<close>. \<open>Wallet\<close>: every method. \<open>Wallet_Inv\<close>: the machine and its invariant.
    \<open>Wallet_Exec\<close>: the request path. \<open>Wallet_Props\<close>: the properties.
  \<^item> Registry, \<open>tla-registry/src\<close>. \<open>Registry_Types\<close>: \<open>types.rs\<close>, \<open>lifecycle.rs\<close>, \<open>error.rs\<close>.
    \<open>Registry_Pricing\<close>: \<open>pricing.rs\<close>, \<open>fees.rs\<close>. \<open>Registry_State\<close>: the state and guards of \<open>lib.rs\<close>,
    \<open>indexes.rs\<close>, \<open>events.rs\<close>, \<open>interfaces.rs\<close>. \<open>Registry_Rental\<close>: \<open>rental.rs\<close>, \<open>callbacks.rs\<close>.
    \<open>Registry_Business\<close>: \<open>business.rs\<close>, \<open>reclaim.rs\<close>, \<open>asset_gate.rs\<close>. \<open>Registry_Market\<close>:
    \<open>marketplace.rs\<close>, \<open>nft.rs\<close>. \<open>Registry_Admin\<close>: \<open>admin.rs\<close> and the rest of \<open>lib.rs\<close>.
    \<open>Registry_Storage\<close>: the storage keys and the rows kept outside the record. \<open>Registry_Migrate\<close>:
    \<open>legacy.rs\<close> and the migration. \<open>Registry_Queries\<close>: \<open>views.rs\<close> and the other getters.
    \<open>Registry_Views\<close>, \<open>Registry_Machine\<close>, \<open>Registry_Names\<close>, \<open>Registry_Activity\<close>,
    \<open>Registry_Governance\<close>, \<open>Registry_Ledger\<close>, \<open>Registry_Inv\<close>, \<open>Registry_Spaces\<close>: the machine and its
    invariant, part by part. \<open>Registry_Demo\<close>: a concrete run. \<open>Registry_Safety\<close>,
    \<open>Registry_Money\<close>, \<open>Registry_Orders\<close>, \<open>Registry_Pages\<close>: the properties.
  \<^item> Extension, \<open>hos-extension/src\<close>. \<open>Extension\<close>, \<open>Extension_Machine\<close>, \<open>Extension_Props\<close>.
  \<^item> Recovery, \<open>mpc-recovery/src\<close>. \<open>Recovery_Wire\<close>: \<open>proof.rs\<close>, \<open>tx.rs\<close>. \<open>Recovery\<close>: \<open>lib.rs\<close>,
    \<open>state.rs\<close>, \<open>legacy.rs\<close>. \<open>Recovery_Machine\<close>, \<open>Recovery_Props\<close>.
  \<^item> Accounts and code. \<open>Registrar\<close>, \<open>Deployer\<close>, \<open>Opener\<close> (with \<open>registrar-opener-wipe\<close>),
    \<open>Opener_Machine\<close>; \<open>Platform\<close>: their properties.
  \<^item> The contracts together. \<open>System\<close>: registry, extension and wallet over the promises in flight.
    \<open>Minting\<close>: registry, registrar and wallet at the birth of a tenancy.
  \<^item> Tools. \<open>Fleet\<close>: \<open>tools/fleet/src/main.rs\<close>, every command. \<open>Fleet_Props\<close>: what a run does.
    \<open>Fleet_Wiring\<close>: its last inspection, against the getters of five contracts.
    \<open>Dev_Contracts\<close>: the development contracts, conservation of the token and the pool.

  \<^bold>\<open>Interfaces.\<close> Each contract proves, for one call at a time, that its invariant is kept, and interprets
  \<open>contract_machine\<close>: reachable states and runs over non-decreasing block time, and that the
  invariant holds in all of them (\<open>wm\<close> wallet, \<open>reg\<close> and \<open>solv\<close> registry, \<open>live\<close> registry with
  migrations between the calls, \<open>ext\<close>, \<open>rec\<close>, \<open>rgr\<close>, \<open>dpl\<close>, \<open>opn\<close>, and the development token). Contracts
  whose council, treasury or code changes only after an announcement interpret \<open>timelock\<close>, which
  extends it. The two indexes of the registry are one interpretation of \<open>key_index\<close>. A callback is
  a call like any other: it may run with any result the runtime can deliver and with any
  arguments, so what is proved does not depend on the chain of receipts before it. Where that chain matters,
  \<open>System\<close>, \<open>Minting\<close> and the machine of the opener keep the receipts in flight explicitly.

  \<^bold>\<open>What is shown.\<close> Wallet: the invariant, who can make it send and how much, when the owner can
  change and change back, the notice before a lease ends, how long a freeze can last. Registry: exact
  indexes, well-formed names, sound configuration, who may change what and after which delay, an
  exact refund ledger, where what is attached to a rental goes, which NEAR leaves and with what, when a
  quote covers the charge and by how little it may miss it, orders settled once, complete pages, migrations that lose nothing, storage rows that cannot collide. Extension: which
  calls reach a wallet, what NEAR leaves, sweeps that pay for themselves, resets that are never
  forgotten. Recovery: refinement of a machine of slots, the timelock over runs, the meaning of a
  quorum, single use and unique reading of signed statements. Platform: publication after an
  announcement, opening by two. Together: over the transfers a tenant asks for, the owners of
  registry and wallet stay together as long as the wallet obeys its owners only, and can part only at a late
  request of an earlier owner whom the new one has made an agent (an example run shows that they
  do); a tenancy is born consistent; and the operators' inspection passes exactly when the contracts are
  wired to each other.

  \<^bold>\<open>Bounds.\<close> All loops of the contracts are structural recursions over their lists and need no fuel.
  The client of \<open>walk_pages\<close> is bounded by a number of requests, and more requests than the owner has
  names are enough. The refund ledger is exact in runs (\<open>solv\<close>) where the refunds owed stay below
  \<open>2\<^sup>1\<^sup>2\<^sup>8\<close> yocto, the width of the field, far above the supply of NEAR; without that bound only the
  saturating sum is claimed.

  \<^bold>\<open>Parameters.\<close> What the sources call and do not contain is an argument: the \<open>defuse_wallet\<close> state and
  its request format, account id parsing, the order of iteration over SDK sets, JSON and borsh
  decoders, SHA-256, the ed25519 operations, and for the tool the environment, \<open>git\<close>, the \<open>near\<close> command,
  the RPC end point, file times and JSON text. Laws about them are hypotheses of the
  theorems that need them (a decoder inverts the encoder, an iteration lists the set) and are
  met by the concrete instances of the witnesses.

  \<^bold>\<open>Not modelled.\<close> Amounts of gas, except where the code branches on them; the text of log lines and of
  printed output; the wire form of arguments and results, except for signed statements, digests
  and storage keys; the tests of the repository, unit tests and \<open>integration\<close>, which drive a sandbox node;
  build scripts and documentation. In \<open>System\<close>, rotations the registry orders without the tenant
  (reclaims, re-rents, recoveries, reverts); results and answers arrive there in the order in which they were
  given, which is how the platform delivers between two accounts. The receipts of other contracts (tokens, venues, the MPC
  signer) are results that may be anything.
\<close>

end
